(* ===== verification/Prelude.thy ===== *)
theory Prelude
  imports Complex_Main "HOL-Library.Char_ord" "HOL-Library.List_Lexorder"
    "HOL-Library.Product_Lexorder" "HOL-Library.Sublist"
begin

text \<open>
  Shared ground of the development: the JSON values the program passes around, Python's
  string and dictionary operations on them, the error sum used for exceptions, and the
  generic lemmas and theorem collections of the component theories.

  A Python \<^verbatim>\<open>str\<close> is its UTF-8 byte sequence, a \<^typ>\<open>string\<close>. Byte-wise
  lexicographic order is code-point order and byte-wise substring search is code-point
  substring search on UTF-8, so the comparisons and searches of the source carry over.
  Stripping is modelled for the ASCII white space only. A JSON number is an unbounded
  integer or a finite binary float, the latter given by its rational value; Python's mixed
  integer/float comparison is exact, so it is comparison of rationals. A dictionary is an
  association list in insertion order whose keys are distinct.
\<close>

named_theorems py_defs "definitions of Python primitives, for evaluation"
named_theorems splitter "split rules for the sums and options of the model"

type_synonym bytes = string

section \<open>JSON values\<close>

datatype json =
    JNull
  | JBool bool
  | JInt int
  | JFloat rat
  | JStr string
  | JList "json list"
  | JObj "(string \<times> json) list"

type_synonym obj = "(string \<times> json) list"

text \<open>\<^verbatim>\<open>d.get(k)\<close>, \<^verbatim>\<open>k in d\<close>, \<^verbatim>\<open>{**d, k: v}\<close> on dictionaries.\<close>

definition dget :: "obj \<Rightarrow> string \<Rightarrow> json" where
  [py_defs]: "dget d k = (case map_of d k of None \<Rightarrow> JNull | Some v \<Rightarrow> v)"

definition dhas :: "obj \<Rightarrow> string \<Rightarrow> bool" where
  [py_defs]: "dhas d k \<longleftrightarrow> k \<in> set (map fst d)"

fun dput :: "string \<Rightarrow> 'v \<Rightarrow> (string \<times> 'v) list \<Rightarrow> (string \<times> 'v) list" where
  "dput k v [] = [(k, v)]"
| "dput k v ((k', v') # d) = (if k = k' then (k, v) # d else (k', v') # dput k v d)"

definition ddel :: "string \<Rightarrow> (string \<times> 'v) list \<Rightarrow> (string \<times> 'v) list" where
  [py_defs]: "ddel k d = filter (\<lambda>p. fst p \<noteq> k) d"

text \<open>\<^verbatim>\<open>d.get(k, v)\<close>: the default applies only when the key is missing.\<close>

definition get_or :: "obj \<Rightarrow> string \<Rightarrow> json \<Rightarrow> json" where
  [py_defs]: "get_or d k dflt = (case map_of d k of None \<Rightarrow> dflt | Some v \<Rightarrow> v)"

definition as_mapping :: "json \<Rightarrow> obj option" where
  [py_defs]: "as_mapping v = (case v of JObj d \<Rightarrow> Some d | _ \<Rightarrow> None)"

definition is_str :: "json \<Rightarrow> bool" where
  [py_defs]: "is_str v = (case v of JStr _ \<Rightarrow> True | _ \<Rightarrow> False)"

text \<open>\<^verbatim>\<open>isinstance(v, str) and v\<close>: a non-empty string.\<close>

definition nonempty_str :: "json \<Rightarrow> bool" where
  [py_defs]: "nonempty_str v = (case v of JStr s \<Rightarrow> s \<noteq> [] | _ \<Rightarrow> False)"

text \<open>
  The numeric value of a JSON number. A \<^verbatim>\<open>bool\<close> is not a number here: every use in the
  source excludes \<^verbatim>\<open>bool\<close> before it asks for \<^verbatim>\<open>int\<close> or \<^verbatim>\<open>float\<close>.
\<close>

fun num_of :: "json \<Rightarrow> rat option" where
  "num_of (JInt n) = Some (of_int n)"
| "num_of (JFloat r) = Some r"
| "num_of _ = None"

section \<open>Canonical form and digests\<close>

text \<open>
  RFC 8785 prints a number by its value and an object by its sorted members, so two values
  have the same canonical bytes exactly when they have the same canonical form: integers
  read as numbers and members in a fixed order.
\<close>

fun canon :: "json \<Rightarrow> json" where
  "canon JNull = JNull"
| "canon (JBool b) = JBool b"
| "canon (JInt n) = JFloat (of_int n)"
| "canon (JFloat r) = JFloat r"
| "canon (JStr s) = JStr s"
| "canon (JList xs) = JList (map canon xs)"
| "canon (JObj d) = JObj (sort_key fst (map (\<lambda>(k, v). (k, canon v)) d))"

fun wf_json :: "json \<Rightarrow> bool" where
  "wf_json (JList xs) = (\<forall>x \<in> set xs. wf_json x)"
| "wf_json (JObj d) = (distinct (map fst d) \<and> (\<forall>p \<in> set d. wf_json (snd p)))"
| "wf_json _ = True"

text \<open>
  \<^verbatim>\<open>canonical_digest\<close> is SHA-256 over the third-party \<^verbatim>\<open>rfc8785.dumps\<close>; it is a parameter
  of the model. What the code relies on: the digest depends on the canonical form only, and
  among the values at hand there is no SHA-256 collision.
\<close>

type_synonym digest_fn = "json \<Rightarrow> string"

definition canonical_fn :: "digest_fn \<Rightarrow> bool" where
  "canonical_fn digest \<longleftrightarrow> (\<forall>x y. canon x = canon y \<longrightarrow> digest x = digest y)"

definition collision_free :: "digest_fn \<Rightarrow> json set \<Rightarrow> bool" where
  "collision_free digest S \<longleftrightarrow>
     (\<forall>x \<in> S. \<forall>y \<in> S. digest x = digest y \<longrightarrow> canon x = canon y)"

lemma canonical_fnD: "canonical_fn digest \<Longrightarrow> canon x = canon y \<Longrightarrow> digest x = digest y"
  unfolding canonical_fn_def by blast

lemma collision_freeD:
  "collision_free digest S \<Longrightarrow> x \<in> S \<Longrightarrow> y \<in> S \<Longrightarrow> digest x = digest y \<Longrightarrow> canon x = canon y"
  unfolding collision_free_def by blast

lemma collision_free_subset: "collision_free digest S \<Longrightarrow> T \<subseteq> S \<Longrightarrow> collision_free digest T"
  unfolding collision_free_def by blast

text \<open>
  A concrete digest that satisfies both hypotheses on a given list of values, for the
  witnesses: a value is named by its position in the list, in unary.
\<close>

definition index_digest :: "json list \<Rightarrow> digest_fn" where
  "index_digest xs x =
     replicate (length (takeWhile (\<lambda>y. canon y \<noteq> canon x) xs)) (CHR ''1'')"

lemma index_digest_canonical [simp, intro]: "canonical_fn (index_digest xs)"
  unfolding canonical_fn_def index_digest_def by simp

lemma takeWhile_differs_nth:
  "x \<in> set xs \<Longrightarrow> canon (xs ! length (takeWhile (\<lambda>y. canon y \<noteq> canon x) xs)) = canon x"
  by (induction xs) auto

lemma index_digest_collision_free: "S \<subseteq> set xs \<Longrightarrow> collision_free (index_digest xs) S"
  unfolding collision_free_def index_digest_def
proof (intro ballI impI)
  fix x y assume S: "S \<subseteq> set xs" "x \<in> S" "y \<in> S"
    and "replicate (length (takeWhile (\<lambda>z. canon z \<noteq> canon x) xs)) (CHR ''1'')
       = replicate (length (takeWhile (\<lambda>z. canon z \<noteq> canon y) xs)) (CHR ''1'')"
  then have eq: "length (takeWhile (\<lambda>z. canon z \<noteq> canon x) xs)
      = length (takeWhile (\<lambda>z. canon z \<noteq> canon y) xs)"
    by (metis length_replicate)
  have "x \<in> set xs" "y \<in> set xs" using S by auto
  from takeWhile_differs_nth [OF this(1)] takeWhile_differs_nth [OF this(2)] eq
  show "canon x = canon y" by metis
qed

section \<open>Python strings\<close>

definition starts_with :: "string \<Rightarrow> string \<Rightarrow> bool" where
  [py_defs]: "starts_with p s \<longleftrightarrow> take (length p) s = p"

definition ends_with :: "string \<Rightarrow> string \<Rightarrow> bool" where
  [py_defs]: "ends_with q s \<longleftrightarrow> take (length q) (rev s) = rev q"

definition remove_prefix :: "string \<Rightarrow> string \<Rightarrow> string" where
  [py_defs]: "remove_prefix p s = (if starts_with p s then drop (length p) s else s)"

text \<open>\<^verbatim>\<open>needle in haystack\<close> on strings.\<close>

fun str_in :: "string \<Rightarrow> string \<Rightarrow> bool" where
  "str_in p [] = (p = [])"
| "str_in p (c # s) = (starts_with p (c # s) \<or> str_in p s)"

text \<open>\<^verbatim>\<open>s.split(c)\<close> for a one-character separator: always at least one part.\<close>

fun split_on :: "char \<Rightarrow> string \<Rightarrow> string list" where
  "split_on c [] = [[]]"
| "split_on c (x # s) =
     (if x = c then [] # split_on c s
      else (case split_on c s of [] \<Rightarrow> [[x]] | p # ps \<Rightarrow> (x # p) # ps))"

fun join :: "string \<Rightarrow> string list \<Rightarrow> string" where
  "join sep [] = []"
| "join sep [x] = x"
| "join sep (x # y # xs) = x @ sep @ join sep (y # xs)"

definition is_space :: "char \<Rightarrow> bool" where
  [py_defs]: "is_space c \<longleftrightarrow>
     (let n = (of_char c :: nat) in n = 32 \<or> (9 \<le> n \<and> n \<le> 13) \<or> (28 \<le> n \<and> n \<le> 31))"

definition strip :: "string \<Rightarrow> string" where
  [py_defs]: "strip s = rev (dropWhile is_space (rev (dropWhile is_space s)))"

definition is_digit :: "char \<Rightarrow> bool" where
  [py_defs]: "is_digit c \<longleftrightarrow> (let n = (of_char c :: nat) in 48 \<le> n \<and> n \<le> 57)"

definition is_upper :: "char \<Rightarrow> bool" where
  [py_defs]: "is_upper c \<longleftrightarrow> (let n = (of_char c :: nat) in 65 \<le> n \<and> n \<le> 90)"

definition is_lower :: "char \<Rightarrow> bool" where
  [py_defs]: "is_lower c \<longleftrightarrow> (let n = (of_char c :: nat) in 97 \<le> n \<and> n \<le> 122)"

definition is_alnum_ascii :: "char \<Rightarrow> bool" where
  [py_defs]: "is_alnum_ascii c \<longleftrightarrow> is_digit c \<or> is_upper c \<or> is_lower c"

definition is_hex_lower :: "char \<Rightarrow> bool" where
  [py_defs]: "is_hex_lower c \<longleftrightarrow>
     (let n = (of_char c :: nat) in (48 \<le> n \<and> n \<le> 57) \<or> (97 \<le> n \<and> n \<le> 102))"

definition digit_char :: "nat \<Rightarrow> char" where
  [py_defs]: "digit_char n = char_of (48 + n)"

fun show_nat :: "nat \<Rightarrow> string" where
  "show_nat n = (if n < 10 then [digit_char n] else show_nat (n div 10) @ [digit_char (n mod 10)])"

declare show_nat.simps [simp del]

definition show_int :: "int \<Rightarrow> string" where
  [py_defs]: "show_int i = (if i < 0 then ''-'' @ show_nat (nat (- i)) else show_nat (nat i))"

text \<open>\<^verbatim>\<open>f"{n:03d}"\<close>.\<close>

definition pad3 :: "nat \<Rightarrow> string" where
  [py_defs]: "pad3 n = (let s = show_nat n in replicate (3 - length s) (CHR ''0'') @ s)"

text \<open>
  \<^verbatim>\<open>str(v)\<close>. The printed form of floats, lists and dictionaries is a parameter: the code
  only ever compares the result with registered names.
\<close>

fun py_str :: "(json \<Rightarrow> string) \<Rightarrow> json \<Rightarrow> string" where
  "py_str repr JNull = ''None''"
| "py_str repr (JBool b) = (if b then ''True'' else ''False'')"
| "py_str repr (JInt n) = show_int n"
| "py_str repr (JStr s) = s"
| "py_str repr v = repr v"

text \<open>\<^verbatim>\<open>re.compile(r"sha256:[0-9a-f]{64}\Z").fullmatch(s)\<close>.\<close>

definition is_digest_str :: "string \<Rightarrow> bool" where
  [py_defs]: "is_digest_str s \<longleftrightarrow>
     starts_with ''sha256:'' s \<and> length s = 71 \<and> list_all is_hex_lower (drop 7 s)"

section \<open>Sorted duplicate-free lists\<close>

text \<open>\<^verbatim>\<open>sorted(set(xs))\<close>.\<close>

definition sorted_set :: "'a::linorder list \<Rightarrow> 'a list" where
  [py_defs]: "sorted_set xs = sort (remdups xs)"

lemma set_sorted_set [simp]: "set (sorted_set xs) = set xs"
  by (simp add: sorted_set_def)

lemma distinct_sorted_set [simp]: "distinct (sorted_set xs)"
  by (simp add: sorted_set_def)

lemma sorted_sorted_set [simp]: "sorted (sorted_set xs)"
  by (simp add: sorted_set_def)

lemma sorted_set_eq_Nil [simp]: "sorted_set xs = [] \<longleftrightarrow> xs = []"
  by (metis list.set(1) set_empty set_sorted_set)

lemma sorted_set_idem [simp]: "sorted_set (sorted_set xs) = sorted_set xs"
  by (rule sorted_distinct_set_unique) auto

lemma sorted_set_cong: "set xs = set ys \<Longrightarrow> sorted_set xs = sorted_set ys"
  by (rule sorted_distinct_set_unique) auto

lemma sorted_set_id: "sorted xs \<Longrightarrow> distinct xs \<Longrightarrow> sorted_set xs = xs"
  by (rule sorted_distinct_set_unique) auto

section \<open>Results\<close>

text \<open>An exception is the left summand; \<^verbatim>\<open>bindr\<close> runs the rest unless one was raised.\<close>

definition bindr :: "'e + 'a \<Rightarrow> ('a \<Rightarrow> 'e + 'b) \<Rightarrow> 'e + 'b" where
  "bindr r f = (case r of Inl e \<Rightarrow> Inl e | Inr x \<Rightarrow> f x)"

lemma bindr_simps [simp]:
  "bindr (Inl e) f = Inl e"
  "bindr (Inr x) f = f x"
  by (simp_all add: bindr_def)

lemma bindr_eq_Inr [simp]: "bindr r f = Inr y \<longleftrightarrow> (\<exists>x. r = Inr x \<and> f x = Inr y)"
  by (cases r) auto

lemma bindr_eq_Inl: "bindr r f = Inl e \<longleftrightarrow> r = Inl e \<or> (\<exists>x. r = Inr x \<and> f x = Inl e)"
  by (cases r) auto

lemma bindr_assoc: "bindr (bindr r f) g = bindr r (\<lambda>x. bindr (f x) g)"
  by (cases r) auto

text \<open>\<^verbatim>\<open>if not cond: raise e\<close>.\<close>

definition guard :: "bool \<Rightarrow> 'e \<Rightarrow> 'e + unit" where
  "guard b e = (if b then Inr () else Inl e)"

lemma guard_simps [simp]:
  "guard True e = Inr ()"
  "guard False e = Inl e"
  "guard b e = Inr u \<longleftrightarrow> b"
  by (auto simp: guard_def)

declare sum.splits [splitter] option.splits [splitter] if_splits [splitter]

section \<open>Lemmas on dictionaries\<close>

lemma dget_Some [simp]: "map_of d k = Some v \<Longrightarrow> dget d k = v"
  by (simp add: dget_def)

lemma dhas_map_of: "dhas d k \<longleftrightarrow> (\<exists>v. map_of d k = Some v)"
  by (metis dhas_def map_of_eq_None_iff option.distinct(1) option.exhaust set_map)

lemma map_of_dput [simp]: "map_of (dput k v d) = (map_of d)(k \<mapsto> v)"
  by (induction d) (auto simp: fun_eq_iff)

lemma keys_dput: "set (map fst (dput k v d)) = insert k (set (map fst d))"
  by (induction k v d rule: dput.induct) auto

lemma distinct_dput: "distinct (map fst d) \<Longrightarrow> distinct (map fst (dput k v d))"
proof (induction d)
  case (Cons p d)
  then show ?case
    by (cases p) (use keys_dput [of k v d] in \<open>auto simp del: set_map\<close>)
qed simp

lemma dput_fresh: "k \<notin> set (map fst d) \<Longrightarrow> dput k v d = d @ [(k, v)]"
  by (induction d) auto

lemma fold_dput_append:
  "distinct (map fst (acc @ d)) \<Longrightarrow> fold (\<lambda>(k, v) m. dput k v m) d acc = acc @ d"
proof (induction d arbitrary: acc)
  case (Cons p d)
  obtain k v where p: "p = (k, v)" by fastforce
  have "dput k v acc = acc @ [p]" using Cons.prems p by (simp add: dput_fresh)
  then show ?case using Cons.IH [of "acc @ [p]"] Cons.prems p by simp
qed simp

lemma fold_dput_id: "distinct (map fst d) \<Longrightarrow> fold (\<lambda>(k, v) m. dput k v m) d [] = d"
  using fold_dput_append [of "[]" d] by simp

lemma map_of_ddel: "map_of (ddel k d) = (map_of d)(k := None)"
  by (induction d) (auto simp: ddel_def fun_eq_iff)

end
