(* ===== verification/Canonical.thy ===== *)
theory Canonical
  imports Prelude
begin

text \<open>
  Strict admission of contract documents and canonical digests,
  \<^verbatim>\<open>src/pmpe/contracts/canonical.py\<close>. The admission functions thread a node budget through
  the document; here the budget is an argument and a result. The abstract specification
  \<^verbatim>\<open>admissible\<close> says what an admitted document is, and admission is shown to decide it.
\<close>

section \<open>Outside code\<close>

text \<open>
  What the program calls but does not define: \<^verbatim>\<open>rfc8785.dumps\<close>; the reading of JSON and YAML
  text into a tree, objects as the list of their members in text order (duplicates included)
  and floats as the exact value of their token, \<^const>\<open>None\<close> where the text is malformed;
  rounding to binary64, \<^const>\<open>None\<close> where the result is not finite; SHA-256, as the number
  its 32 bytes spell; regular expression search on a pattern that compiles, whether a pattern
  compiles; the printed form of floats, lists and dictionaries.
\<close>

record runtime =
  rt_dumps :: "json \<Rightarrow> bytes"
  rt_json :: "bytes \<Rightarrow> json option"
  rt_yaml :: "bytes \<Rightarrow> json option"
  rt_float :: "rat \<Rightarrow> rat option"
  rt_sha256 :: "bytes \<Rightarrow> nat"
  rt_search :: "string \<Rightarrow> string \<Rightarrow> bool"
  rt_compiles :: "string \<Rightarrow> bool"
  rt_repr :: "json \<Rightarrow> string"

definition canonical_json_bytes :: "runtime \<Rightarrow> json \<Rightarrow> bytes" where
  "canonical_json_bytes rt v = rt_dumps rt v"

text \<open>\<^verbatim>\<open>hexdigest()\<close>: the 64 lower-case hexadecimal digits of the 256-bit number.\<close>

definition hex_char :: "nat \<Rightarrow> char" where
  "hex_char n = (if n < 10 then char_of (48 + n) else char_of (87 + n))"

fun hex_digits :: "nat \<Rightarrow> nat \<Rightarrow> string" where
  "hex_digits 0 n = []"
| "hex_digits (Suc k) n = hex_digits k (n div 16) @ [hex_char (n mod 16)]"

definition sha256_digest :: "runtime \<Rightarrow> bytes \<Rightarrow> string" where
  "sha256_digest rt b = ''sha256:'' @ hex_digits 64 (rt_sha256 rt b)"

definition canonical_digest :: "runtime \<Rightarrow> json \<Rightarrow> string" where
  "canonical_digest rt v = sha256_digest rt (canonical_json_bytes rt v)"

lemma hex_char_hex: "n < 16 \<Longrightarrow> is_hex_lower (hex_char n)"
  by (simp add: hex_char_def is_hex_lower_def Let_def of_char_of)

lemma hex_char_inject:
  assumes "hex_char m = hex_char n" "m < 16" "n < 16" shows "m = n"
proof -
  have "(of_char (hex_char m) :: nat) = of_char (hex_char n)" by (simp add: assms(1))
  then show ?thesis using assms(2,3) by (simp add: hex_char_def of_char_of split: if_splits)
qed

lemma hex_digits_length [simp]: "length (hex_digits k n) = k"
  by (induction k n rule: hex_digits.induct) auto

lemma hex_digits_hex: "list_all is_hex_lower (hex_digits k n)"
  by (induction k n rule: hex_digits.induct) (auto simp: hex_char_hex)

lemma hex_digits_inject: "hex_digits k m = hex_digits k n \<Longrightarrow> m < 16 ^ k \<Longrightarrow> n < 16 ^ k \<Longrightarrow> m = n"
proof (induction k arbitrary: m n)
  case (Suc k)
  then have "hex_digits k (m div 16) = hex_digits k (n div 16)" "hex_char (m mod 16) = hex_char (n mod 16)"
    by auto
  moreover have "m div 16 < 16 ^ k" "n div 16 < 16 ^ k"
    using Suc.prems(2,3) by (auto simp: less_mult_imp_div_less mult.commute)
  ultimately have "m div 16 = n div 16" "m mod 16 = n mod 16"
    using Suc.IH hex_char_inject by simp_all
  then show ?case by (metis div_mult_mod_eq)
qed simp

lemma sha256_digest_is_digest [simp]: "is_digest_str (sha256_digest rt b)"
  by (simp add: is_digest_str_def sha256_digest_def starts_with_def hex_digits_hex)

lemma canonical_digest_is_digest [simp]: "is_digest_str (canonical_digest rt v)"
  by (simp add: canonical_digest_def)

text \<open>
  A concrete runtime for the witnesses: a value is written as its position in a list, in
  unary; the hash is the length.
\<close>

definition sample_runtime :: "json list \<Rightarrow> runtime" where
  "sample_runtime xs = \<lparr>rt_dumps = index_digest xs,
     rt_json = (\<lambda>s. if length s < length xs then Some (xs ! length s) else None),
     rt_yaml = (\<lambda>_. None), rt_float = Some, rt_sha256 = length, rt_search = str_in,
     rt_compiles = (\<lambda>_. True), rt_repr = (\<lambda>_. ''?'')\<rparr>"

lemma sample_dumps [simp]: "canonical_json_bytes (sample_runtime xs) = index_digest xs"
  by (simp add: canonical_json_bytes_def sample_runtime_def fun_eq_iff)

lemma sample_digest: "canonical_digest (sample_runtime xs) x = ''sha256:'' @ hex_digits 64 (length (index_digest xs x))"
  by (simp add: canonical_digest_def sha256_digest_def) (simp add: sample_runtime_def)

lemma sample_canonical [simp, intro]: "canonical_fn (canonical_digest (sample_runtime xs))"
  unfolding canonical_fn_def
proof (intro allI impI)
  fix x y assume "canon x = canon y"
  then have "index_digest xs x = index_digest xs y"
    by (rule canonical_fnD [OF index_digest_canonical])
  then show "canonical_digest (sample_runtime xs) x = canonical_digest (sample_runtime xs) y"
    by (simp only: sample_digest)
qed

lemma index_digest_absent:
  "\<forall>x \<in> set xs. canon x \<noteq> canon a \<Longrightarrow> index_digest xs a = replicate (length xs) (CHR ''1'')"
  unfolding index_digest_def by (subst takeWhile_eq_all_conv [THEN iffD2]) auto

lemma takeWhile_shorter: "x \<in> set xs \<Longrightarrow> \<not> P x \<Longrightarrow> length (takeWhile P xs) < length xs"
  by (induction xs) auto

lemma sample_collision_free:
  assumes "S \<subseteq> set xs" "length xs \<le> 16 ^ 64"
  shows "collision_free (canonical_digest (sample_runtime xs)) S"
  unfolding collision_free_def
proof (intro ballI impI)
  fix x y assume xy: "x \<in> S" "y \<in> S"
    and eq: "canonical_digest (sample_runtime xs) x = canonical_digest (sample_runtime xs) y"
  have lt: "length (index_digest xs u) < 16 ^ 64" if "u \<in> S" for u
  proof -
    have "u \<in> set xs" using that assms(1) by blast
    then have "length (takeWhile (\<lambda>z. canon z \<noteq> canon u) xs) < length xs"
      by (rule takeWhile_shorter) simp
    with assms(2) show ?thesis by (simp add: index_digest_def)
  qed
  from eq have "hex_digits 64 (length (index_digest xs x)) = hex_digits 64 (length (index_digest xs y))"
    by (simp only: sample_digest append_same_eq same_append_eq)
  then have "length (index_digest xs x) = length (index_digest xs y)"
    by (rule hex_digits_inject [OF _ lt [OF xy(1)] lt [OF xy(2)]])
  then have "index_digest xs x = index_digest xs y"
    by (simp add: index_digest_def)
  then show "canon x = canon y"
    by (rule collision_freeD [OF index_digest_collision_free [OF assms(1)] xy])
qed

section \<open>Canonically equal values\<close>

lemma map_of_sort_key_fst:
  "distinct (map fst d) \<Longrightarrow> map_of (sort_key fst d) = map_of d"
proof -
  assume d: "distinct (map fst d)"
  then have "distinct (map fst (sort_key fst d))"
    by (metis distinct_map distinct_sort inj_on_cong set_sort)
  with d show ?thesis by (subst map_of_inject_set) auto
qed

lemma fst_map_canon [simp]: "map fst (map (\<lambda>(k, v). (k, canon v)) d) = map fst d"
  by (simp add: case_prod_beta comp_def)

lemma keys_canon: "set (map fst (sort_key fst (map (\<lambda>(k, v). (k, canon v)) d))) = set (map fst d)"
  by (metis fst_map_canon set_map set_sort)

lemma map_of_map_canon: "map_of (map (\<lambda>(k, v). (k, canon v)) d) k = map_option canon (map_of d k)"
  by (simp add: map_of_map)

text \<open>Objects with the same canonical form agree, member by member, up to canonical form.\<close>

lemma canon_obj_lookup:
  assumes "canon (JObj d) = canon (JObj e)" "distinct (map fst d)" "distinct (map fst e)"
  shows "map_option canon (map_of d k) = map_option canon (map_of e k)"
proof -
  have "map_of (sort_key fst (map (\<lambda>(k, v). (k, canon v)) d)) k
      = map_of (sort_key fst (map (\<lambda>(k, v). (k, canon v)) e)) k"
    using assms(1) by simp
  then show ?thesis
    by (simp only: map_of_sort_key_fst map_of_map_canon fst_map_canon assms(2,3))
qed

lemma canon_obj_map_of:
  assumes "canon (JObj d) = canon (JObj e)" "wf_json (JObj d)" "wf_json (JObj e)"
  shows "map_option canon (map_of d k) = map_option canon (map_of e k)"
  by (rule canon_obj_lookup) (use assms in simp_all)

lemma sort_key_cong:
  fixes xs ys :: "(string \<times> 'v) list"
  assumes "distinct (map fst xs)" "distinct (map fst ys)" "set xs = set ys"
  shows "sort_key fst xs = sort_key fst ys"
proof (rule map_sorted_distinct_set_unique [of fst])
  show "inj_on fst (set (sort_key fst xs) \<union> set (sort_key fst ys))"
    using assms by (simp add: distinct_map)
  show "distinct (map fst (sort_key fst xs))" "distinct (map fst (sort_key fst ys))"
    using assms by (simp_all add: distinct_map)
qed (use assms in simp_all)

text \<open>Conversely, objects that agree member by member have the same canonical form.\<close>

lemma canon_obj_eqI:
  assumes "distinct (map fst d)" "distinct (map fst e)"
    and "\<And>k. map_option canon (map_of d k) = map_option canon (map_of e k)"
  shows "canon (JObj d) = canon (JObj e)"
proof -
  let ?c = "map (\<lambda>(k, v). (k, canon v))"
  have dist: "distinct (map fst (?c d))" "distinct (map fst (?c e))"
    using assms(1,2) by (simp_all only: fst_map_canon)
  have "map_of (?c d) = map_of (?c e)"
    by (rule ext) (use assms(3) in \<open>simp only: map_of_map_canon\<close>)
  then have set: "set (?c d) = set (?c e)"
    using dist by (metis map_of_inject_set)
  from sort_key_cong [OF dist set] show ?thesis by simp
qed

lemma canon_obj_dhas: "canon (JObj d) = canon (JObj e) \<Longrightarrow> dhas d k = dhas e k"
proof -
  assume "canon (JObj d) = canon (JObj e)"
  then have "sort_key fst (map (\<lambda>(k, v). (k, canon v)) d) = sort_key fst (map (\<lambda>(k, v). (k, canon v)) e)"
    by simp
  then have "set (map fst d) = set (map fst e)"
    using keys_canon [of d] keys_canon [of e] by simp
  then show ?thesis by (simp only: dhas_def)
qed

lemma canon_num: "canon x = canon y \<Longrightarrow> num_of x = num_of y"
  by (cases x; cases y) auto

lemma canon_str [simp]: "canon x = JStr s \<longleftrightarrow> x = JStr s"
  by (cases x) auto

lemma canon_bool [simp]: "canon x = JBool b \<longleftrightarrow> x = JBool b"
  by (cases x) auto

lemma canon_null [simp]: "canon x = JNull \<longleftrightarrow> x = JNull"
  by (cases x) auto

section \<open>The hooks of the JSON reader\<close>

datatype canonical_error =
    DUPLICATE_OBJECT_KEY
  | NON_JSON_NUMBER
  | INPUT_COMPLEXITY_EXCEEDED
  | INVALID_UNICODE
  | MALFORMED_SOURCE
  | CONTENT_TYPE_REJECTED

definition max_interoperable_integer :: int where
  "max_interoperable_integer = 2 ^ 53 - 1"

definition parse_int :: "int \<Rightarrow> canonical_error + json" where
  "parse_int n = (if \<bar>n\<bar> > max_interoperable_integer then Inl NON_JSON_NUMBER else Inr (JInt n))"

definition parse_float :: "runtime \<Rightarrow> rat \<Rightarrow> canonical_error + json" where
  "parse_float rt exact = (case rt_float rt exact of
      None \<Rightarrow> Inl NON_JSON_NUMBER
    | Some x \<Rightarrow> (if exact = of_int \<lfloor>exact\<rfloor> \<and> \<bar>exact\<bar> > of_int max_interoperable_integer
                then Inl NON_JSON_NUMBER else Inr (JFloat x)))"

definition reject_duplicate_pairs :: "(string \<times> json) list \<Rightarrow> canonical_error + json" where
  "reject_duplicate_pairs ps =
     (if distinct (map fst ps) then Inr (JObj ps) else Inl DUPLICATE_OBJECT_KEY)"

text \<open>
  \<^verbatim>\<open>json.loads\<close> calls the number hooks as it reads a token and the object hook as it closes
  an object: the tree is walked in that order.
\<close>

fun run_hooks :: "runtime \<Rightarrow> json \<Rightarrow> canonical_error + json"
  and run_hooks_list :: "runtime \<Rightarrow> json list \<Rightarrow> canonical_error + json list"
  and run_hooks_members :: "runtime \<Rightarrow> (string \<times> json) list \<Rightarrow> canonical_error + (string \<times> json) list" where
  "run_hooks rt (JInt n) = parse_int n"
| "run_hooks rt (JFloat r) = parse_float rt r"
| "run_hooks rt (JList xs) = bindr (run_hooks_list rt xs) (\<lambda>ys. Inr (JList ys))"
| "run_hooks rt (JObj d) = bindr (run_hooks_members rt d) reject_duplicate_pairs"
| "run_hooks rt v = Inr v"
| "run_hooks_list rt [] = Inr []"
| "run_hooks_list rt (x # xs) =
     bindr (run_hooks rt x) (\<lambda>y. bindr (run_hooks_list rt xs) (\<lambda>ys. Inr (y # ys)))"
| "run_hooks_members rt [] = Inr []"
| "run_hooks_members rt ((k, x) # d) =
     bindr (run_hooks rt x) (\<lambda>y. bindr (run_hooks_members rt d) (\<lambda>e. Inr ((k, y) # e)))"

section \<open>Unicode admission\<close>

text \<open>
  Decoding UTF-8 strictly (no overlong form, no surrogate, at most U+10FFFF). A \<^verbatim>\<open>str\<close> of
  the model is UTF-8, so it never holds an unpaired surrogate.
\<close>

definition cont_byte :: "char \<Rightarrow> bool" where
  "cont_byte c \<longleftrightarrow> (let n = (of_char c :: nat) in 128 \<le> n \<and> n \<le> 191)"

text \<open>The characters of a string, each as its UTF-8 bytes.\<close>

function code_points :: "string \<Rightarrow> string list" where
  "code_points [] = []"
| "code_points (c # s) = (c # takeWhile cont_byte s) # code_points (dropWhile cont_byte s)"
  by pat_completeness auto
termination
  by (relation "measure length") (auto simp: less_Suc_eq_le length_dropWhile_le)

definition low6 :: "char \<Rightarrow> nat" where
  "low6 c = of_char c - 128"

definition valid_3 :: "nat \<Rightarrow> bool" where
  "valid_3 p \<longleftrightarrow> 2048 \<le> p \<and> \<not> (55296 \<le> p \<and> p \<le> 57343)"

definition valid_4 :: "nat \<Rightarrow> bool" where
  "valid_4 p \<longleftrightarrow> 65536 \<le> p \<and> p \<le> 1114111"

fun utf8_decode :: "bytes \<Rightarrow> nat list option" where
  "utf8_decode [] = Some []"
| "utf8_decode (c # s) =
     (let n = (of_char c :: nat) in
      if n < 128 then map_option (Cons n) (utf8_decode s)
      else if 194 \<le> n \<and> n \<le> 223 then
        (case s of d # t \<Rightarrow>
             (if cont_byte d then map_option (Cons ((n - 192) * 64 + low6 d)) (utf8_decode t) else None)
         | _ \<Rightarrow> None)
      else if 224 \<le> n \<and> n \<le> 239 then
        (case s of d # e # t \<Rightarrow>
             (let p = (n - 224) * 4096 + low6 d * 64 + low6 e in
              if cont_byte d \<and> cont_byte e \<and> valid_3 p then map_option (Cons p) (utf8_decode t) else None)
         | _ \<Rightarrow> None)
      else if 240 \<le> n \<and> n \<le> 244 then
        (case s of d # e # f # t \<Rightarrow>
             (let p = (n - 240) * 262144 + low6 d * 4096 + low6 e * 64 + low6 f in
              if cont_byte d \<and> cont_byte e \<and> cont_byte f \<and> valid_4 p
              then map_option (Cons p) (utf8_decode t) else None)
         | _ \<Rightarrow> None)
      else None)"

definition noncharacter :: "nat \<Rightarrow> bool" where
  "noncharacter p \<longleftrightarrow> (64976 \<le> p \<and> p \<le> 65007) \<or> p mod 65536 = 65534 \<or> p mod 65536 = 65535"

definition admit_string :: "string \<Rightarrow> canonical_error + unit" where
  "admit_string s = (case utf8_decode s of
      None \<Rightarrow> Inl INVALID_UNICODE
    | Some ps \<Rightarrow> guard (\<not> list_ex noncharacter ps) INVALID_UNICODE)"

definition max_structure_depth :: nat where "max_structure_depth = 128"
definition max_structure_nodes :: nat where "max_structure_nodes = 100000"

text \<open>The count of a node: the new budget, or the complexity error.\<close>

definition count_node :: "nat \<Rightarrow> nat \<Rightarrow> canonical_error + nat" where
  "count_node depth nodes =
     (if depth > max_structure_depth \<or> nodes + 1 > max_structure_nodes
      then Inl INPUT_COMPLEXITY_EXCEEDED else Inr (nodes + 1))"

definition admit_key :: "nat \<Rightarrow> nat \<Rightarrow> string \<Rightarrow> canonical_error + nat" where
  "admit_key depth nodes s = bindr (count_node depth nodes) (\<lambda>n. bindr (admit_string s) (\<lambda>_. Inr n))"

fun admit_unicode :: "nat \<Rightarrow> nat \<Rightarrow> json \<Rightarrow> canonical_error + nat"
  and admit_items :: "nat \<Rightarrow> nat \<Rightarrow> json list \<Rightarrow> canonical_error + nat"
  and admit_members :: "nat \<Rightarrow> nat \<Rightarrow> string list \<Rightarrow> (string \<times> json) list \<Rightarrow> canonical_error + nat" where
  "admit_unicode depth nodes (JStr s) = admit_key depth nodes s"
| "admit_unicode depth nodes (JObj d) =
     bindr (count_node depth nodes) (\<lambda>n. admit_members (depth + 1) n [] d)"
| "admit_unicode depth nodes (JList xs) =
     bindr (count_node depth nodes) (\<lambda>n. admit_items (depth + 1) n xs)"
| "admit_unicode depth nodes v = count_node depth nodes"
| "admit_items depth nodes [] = Inr nodes"
| "admit_items depth nodes (x # xs) =
     bindr (admit_unicode depth nodes x) (\<lambda>n. admit_items depth n xs)"
| "admit_members depth nodes seen [] = Inr nodes"
| "admit_members depth nodes seen ((k, x) # d) =
     bindr (admit_key depth nodes k) (\<lambda>n.
       if k \<in> set seen then Inl DUPLICATE_OBJECT_KEY
       else bindr (admit_unicode depth n x) (\<lambda>m. admit_members depth m (k # seen) d))"

text \<open>\<^verbatim>\<open>json.loads\<close> without the duplicate hook: the last member of a name wins.\<close>

fun plain_value :: "runtime \<Rightarrow> json \<Rightarrow> json option"
  and plain_list :: "runtime \<Rightarrow> json list \<Rightarrow> json list option"
  and plain_members :: "runtime \<Rightarrow> obj \<Rightarrow> obj option" where
  "plain_value rt (JFloat r) = map_option JFloat (rt_float rt r)"
| "plain_value rt (JList xs) = map_option JList (plain_list rt xs)"
| "plain_value rt (JObj d) = map_option (\<lambda>e. JObj (fold (\<lambda>(k, v) m. dput k v m) e [])) (plain_members rt d)"
| "plain_value rt v = Some v"
| "plain_list rt [] = Some []"
| "plain_list rt (x # xs) = (case plain_value rt x of None \<Rightarrow> None
     | Some y \<Rightarrow> map_option (Cons y) (plain_list rt xs))"
| "plain_members rt [] = Some []"
| "plain_members rt ((k, x) # d) = (case plain_value rt x of None \<Rightarrow> None
     | Some y \<Rightarrow> map_option (Cons (k, y)) (plain_members rt d))"

definition plain_loads :: "runtime \<Rightarrow> string \<Rightarrow> json option" where
  "plain_loads rt s = (case rt_json rt s of None \<Rightarrow> None | Some v \<Rightarrow> plain_value rt v)"

text \<open>\<^verbatim>\<open>str(d.get(k, dflt))\<close>.\<close>

definition text_or :: "runtime \<Rightarrow> obj \<Rightarrow> string \<Rightarrow> string \<Rightarrow> string" where
  "text_or rt d k dflt = py_str (rt_repr rt) (get_or d k (JStr dflt))"

text \<open>
  \<^verbatim>\<open>strict_loads\<close>. The canonicalisation at its end raises for an integer outside the
  interoperable range, which only a YAML source can still hold.
\<close>

fun interoperable :: "json \<Rightarrow> bool" where
  "interoperable (JInt n) = (\<bar>n\<bar> \<le> max_interoperable_integer)"
| "interoperable (JList xs) = (\<forall>x \<in> set xs. interoperable x)"
| "interoperable (JObj d) = (\<forall>p \<in> set d. interoperable (snd p))"
| "interoperable _ = True"

fun yaml_duplicates :: "json \<Rightarrow> bool" where
  "yaml_duplicates (JList xs) = (\<exists>x \<in> set xs. yaml_duplicates x)"
| "yaml_duplicates (JObj d) = (\<not> distinct (map fst d) \<or> (\<exists>p \<in> set d. yaml_duplicates (snd p)))"
| "yaml_duplicates _ = False"

definition read_source :: "runtime \<Rightarrow> bytes \<Rightarrow> string \<Rightarrow> canonical_error + json" where
  "read_source rt payload content_type =
     (if content_type = ''application/json'' then
        (case rt_json rt payload of None \<Rightarrow> Inl MALFORMED_SOURCE | Some v \<Rightarrow> run_hooks rt v)
      else if content_type = ''application/yaml'' \<or> content_type = ''application/x-yaml'' then
        (case rt_yaml rt payload of
           None \<Rightarrow> Inl MALFORMED_SOURCE
         | Some v \<Rightarrow> (if yaml_duplicates v then Inl DUPLICATE_OBJECT_KEY else Inr v))
      else Inl CONTENT_TYPE_REJECTED)"

definition strict_loads :: "runtime \<Rightarrow> bytes \<Rightarrow> string \<Rightarrow> canonical_error + obj" where
  "strict_loads rt payload content_type =
     (case utf8_decode payload of
        None \<Rightarrow> Inl INVALID_UNICODE
      | Some _ \<Rightarrow>
          bindr (read_source rt payload content_type) (\<lambda>v.
          bindr (admit_unicode 0 0 v) (\<lambda>_.
          (case v of
             JObj d \<Rightarrow> (if interoperable v then Inr d else Inl NON_JSON_NUMBER)
           | _ \<Rightarrow> Inl MALFORMED_SOURCE))))"

section \<open>What admission decides\<close>

fun json_depth :: "json \<Rightarrow> nat" where
  "json_depth (JList xs) = fold max (map (\<lambda>x. Suc (json_depth x)) xs) 0"
| "json_depth (JObj d) = fold max (map (\<lambda>p. Suc (json_depth (snd p))) d) 0"
| "json_depth _ = 0"

fun json_nodes :: "json \<Rightarrow> nat" where
  "json_nodes (JList xs) = Suc (sum_list (map json_nodes xs))"
| "json_nodes (JObj d) = Suc (sum_list (map (\<lambda>p. Suc (json_nodes (snd p))) d))"
| "json_nodes _ = 1"

definition clean_string :: "string \<Rightarrow> bool" where
  "clean_string s \<longleftrightarrow> (\<exists>ps. utf8_decode s = Some ps \<and> (\<forall>p \<in> set ps. \<not> noncharacter p))"

fun clean :: "json \<Rightarrow> bool" where
  "clean (JStr s) = clean_string s"
| "clean (JList xs) = (\<forall>x \<in> set xs. clean x)"
| "clean (JObj d) = (\<forall>p \<in> set d. clean_string (fst p) \<and> clean (snd p))"
| "clean _ = True"

text \<open>
  An admissible document: unique member names, no noncharacter, at most 128 levels and
  100,000 nodes, member names counted.
\<close>

definition admissible :: "json \<Rightarrow> bool" where
  "admissible v \<longleftrightarrow> wf_json v \<and> clean v \<and> json_depth v \<le> max_structure_depth
     \<and> json_nodes v \<le> max_structure_nodes"

lemma fold_max_le: "fold max ys a \<le> k \<longleftrightarrow> a \<le> k \<and> (\<forall>y \<in> set ys. y \<le> (k::nat))"
  by (induction ys arbitrary: a) auto

lemma depth_list_le:
  "d + json_depth (JList xs) \<le> k \<longleftrightarrow> d \<le> k \<and> (\<forall>x \<in> set xs. d + 1 + json_depth x \<le> k)"
proof -
  have "d + json_depth (JList xs) \<le> k \<longleftrightarrow> d \<le> k \<and> json_depth (JList xs) \<le> k - d" by linarith
  also have "\<dots> \<longleftrightarrow> d \<le> k \<and> (\<forall>x \<in> set xs. Suc (json_depth x) \<le> k - d)"
    by (simp add: fold_max_le)
  finally show ?thesis by (auto simp: le_diff_conv2 add.commute [of d])
qed

lemma depth_obj_le:
  "d + json_depth (JObj ms) \<le> k \<longleftrightarrow> d \<le> k \<and> (\<forall>p \<in> set ms. d + 1 + json_depth (snd p) \<le> k)"
proof -
  have "d + json_depth (JObj ms) \<le> k \<longleftrightarrow> d \<le> k \<and> json_depth (JObj ms) \<le> k - d" by linarith
  also have "\<dots> \<longleftrightarrow> d \<le> k \<and> (\<forall>p \<in> set ms. Suc (json_depth (snd p)) \<le> k - d)"
    by (simp add: fold_max_le)
  finally show ?thesis by (auto simp: le_diff_conv2 add.commute [of d])
qed

lemma admit_string_iff: "admit_string s = Inr u \<longleftrightarrow> clean_string s"
  by (auto simp: admit_string_def clean_string_def list_ex_iff split: option.splits)

lemma count_node_iff:
  "count_node depth n = Inr m \<longleftrightarrow> depth \<le> max_structure_depth \<and> n < max_structure_nodes \<and> m = Suc n"
  by (auto simp: count_node_def)

lemma admit_key_iff:
  "admit_key depth n s = Inr m \<longleftrightarrow>
     depth \<le> max_structure_depth \<and> n < max_structure_nodes \<and> clean_string s \<and> m = Suc n"
  by (auto simp: admit_key_def count_node_iff admit_string_iff)

lemma ascii_clean: "list_all (\<lambda>c. (of_char c :: nat) < 128) s \<Longrightarrow> clean_string s"
proof -
  assume *: "list_all (\<lambda>c. (of_char c :: nat) < 128) s"
  then have "utf8_decode s = Some (map of_char s)" by (induction s) auto
  with * show ?thesis by (auto simp: clean_string_def noncharacter_def list_all_iff)
qed

lemma canonical_digest_clean [simp]: "clean_string (canonical_digest rt v)"
proof (rule ascii_clean)
  have "list_all (\<lambda>c. (of_char c :: nat) < 128) (hex_digits 64 n)" for n
    using hex_digits_hex [of 64 n] by (auto simp: list_all_iff is_hex_lower_def Let_def)
  then show "list_all (\<lambda>c. (of_char c :: nat) < 128) (canonical_digest rt v)"
    by (simp add: canonical_digest_def sha256_digest_def)
qed

text \<open>The promise of the three admission functions, relative to depth and budget.\<close>

lemma admit_iff:
  "admit_unicode depth n v = Inr m \<longleftrightarrow>
     wf_json v \<and> clean v \<and> depth + json_depth v \<le> max_structure_depth
     \<and> n + json_nodes v \<le> max_structure_nodes \<and> m = n + json_nodes v"
  "n \<le> max_structure_nodes \<Longrightarrow> admit_items depth n xs = Inr m \<longleftrightarrow>
     (\<forall>x \<in> set xs. wf_json x \<and> clean x \<and> depth + json_depth x \<le> max_structure_depth)
     \<and> n + sum_list (map json_nodes xs) \<le> max_structure_nodes
     \<and> m = n + sum_list (map json_nodes xs)"
  "n \<le> max_structure_nodes \<Longrightarrow> admit_members depth n seen d = Inr m \<longleftrightarrow>
     distinct (map fst d)
     \<and> (\<forall>p \<in> set d. fst p \<notin> set seen \<and> clean_string (fst p) \<and> wf_json (snd p) \<and> clean (snd p)
          \<and> depth + json_depth (snd p) \<le> max_structure_depth)
     \<and> n + sum_list (map (\<lambda>p. Suc (json_nodes (snd p))) d) \<le> max_structure_nodes
     \<and> m = n + sum_list (map (\<lambda>p. Suc (json_nodes (snd p))) d)"
proof (induction depth n v and depth n xs and depth n seen d arbitrary: m and m and m
    rule: admit_unicode_admit_items_admit_members.induct)
  case (1 depth nodes s)
  then show ?case by (auto simp: admit_key_iff)
next
  case (2 depth nodes d)
  then show ?case
    by (fastforce simp: count_node_iff depth_obj_le simp del: json_depth.simps)
next
  case (3 depth nodes xs)
  then show ?case
    by (auto simp: count_node_iff depth_list_le simp del: json_depth.simps)
next
  case (6 depth nodes x xs)
  show ?case
    using 6 by (auto simp del: json_depth.simps json_nodes.simps)
next
  case (8 depth nodes seen k x d)
  show ?case
    using 8 by (auto simp: admit_key_iff simp del: json_depth.simps json_nodes.simps) force+
qed (auto simp: count_node_iff)

lemma reject_duplicate_pairs_iff: "reject_duplicate_pairs ps = Inr v \<longleftrightarrow> distinct (map fst ps) \<and> v = JObj ps"
  by (auto simp: reject_duplicate_pairs_def)

lemma hooks_interoperable:
  "run_hooks rt v = Inr w \<Longrightarrow> interoperable w"
  "run_hooks_list rt xs = Inr ys \<Longrightarrow> \<forall>y \<in> set ys. interoperable y"
  "run_hooks_members rt d = Inr e \<Longrightarrow> \<forall>p \<in> set e. interoperable (snd p)"
proof (induction rt v and rt xs and rt d arbitrary: w and ys and e
    rule: run_hooks_run_hooks_list_run_hooks_members.induct)
  case (9 rt k x d)
  then show ?case by fastforce
qed (auto simp: parse_int_def parse_float_def reject_duplicate_pairs_iff split: if_splits option.splits)

lemma strict_loads_spec:
  assumes "strict_loads rt payload content_type = Inr d"
  shows "admissible (JObj d) \<and> interoperable (JObj d)"
proof -
  from assms obtain v m where ok: "admit_unicode 0 0 v = Inr m"
    and v: "(case v of JObj d \<Rightarrow> (if interoperable v then Inr d else Inl NON_JSON_NUMBER)
           | _ \<Rightarrow> Inl MALFORMED_SOURCE) = Inr d"
    by (auto simp: strict_loads_def simp del: admit_unicode.simps interoperable.simps split: option.splits)
  from v have "v = JObj d \<and> interoperable v"
    by (cases v) (simp_all del: interoperable.simps split: if_splits)
  moreover have "admissible v" using ok [unfolded admit_iff] by (simp add: admissible_def)
  ultimately show ?thesis by blast
qed

lemma strict_loads_wf: "strict_loads rt payload content_type = Inr d \<Longrightarrow> wf_json (JObj d)"
  using strict_loads_spec unfolding admissible_def by blast

text \<open>
  What a value reads back as once written by \<^verbatim>\<open>rfc8785.dumps\<close>: members in sorted order, a
  float with an integral value as an integer.
\<close>

fun reparsed :: "json \<Rightarrow> json" where
  "reparsed (JFloat r) = (if r = of_int \<lfloor>r\<rfloor> then JInt \<lfloor>r\<rfloor> else JFloat r)"
| "reparsed (JList xs) = JList (map reparsed xs)"
| "reparsed (JObj d) = JObj (sort_key fst (map (\<lambda>(k, v). (k, reparsed v)) d))"
| "reparsed v = v"

section \<open>Properties\<close>

text \<open>
  Admission decides exactly the admissible documents: \<^verbatim>\<open>_admit_unicode\<close> accepts a value
  if and only if its member names are unique at every level, no string holds a Unicode
  noncharacter, it is at most 128 levels deep and has at most 100,000 nodes; and the budget
  it reports is then the number of nodes.
\<close>

theorem admit_unicode_decides:
  "admit_unicode 0 0 v = Inr m \<longleftrightarrow> admissible v \<and> m = json_nodes v"
  unfolding admit_iff admissible_def by auto

text \<open>
  C34. A document that \<^verbatim>\<open>strict_loads\<close> returns, from JSON or YAML, is admissible and holds
  integers of the interoperable range only.
\<close>

theorem strict_loads_admissible:
  assumes "strict_loads rt payload content_type = Inr d"
  shows "admissible (JObj d) \<and> interoperable (JObj d)"
  using strict_loads_spec [OF assms] by blast

theorem strict_loads_admissible_witness:
  "admissible (JObj [(''a'', JInt 7)]) \<and> interoperable (JObj [(''a'', JInt 7)])"
proof -
  have "strict_loads (sample_runtime [JObj [(''a'', JInt 7)]]) [] ''application/json'' = Inr [(''a'', JInt 7)]"
    by (simp add: strict_loads_def read_source_def sample_runtime_def reject_duplicate_pairs_def
        parse_int_def max_interoperable_integer_def count_node_def max_structure_depth_def
        max_structure_nodes_def admit_key_def admit_string_def noncharacter_def)
  then show ?thesis by (rule strict_loads_admissible)
qed

end
