(* ===== verification/Acceptance.thy ===== *)
theory Acceptance
  imports Canonical
begin

text \<open>
  The acceptance-criteria compiler, \<^verbatim>\<open>src/pmpe/contracts/acceptance.py\<close>: property
  assertions and their compile-time evaluation, the detection of contradictory assertions,
  and the compilation of a product contract into a build plan. The code appends to a list
  of diagnostics; here every function returns the diagnostics it adds. The run-time side of
  assertions (\<^verbatim>\<open>_path\<close> and \<^verbatim>\<open>_assertion_passes\<close> of \<^verbatim>\<open>src/pmpe/barebones.py\<close>) is
  here too, because the contradiction check is judged against it.
\<close>

section \<open>Data model\<close>

datatype operator = EQ | NE | LT | LTE | GT | GTE | CONTAINS | NOT_CONTAINS | MATCHES
  | IS_TRUE | IS_FALSE | IS_NULL | NOT_NULL

definition operator_names :: "(string \<times> operator) list" where
  [py_defs]: "operator_names =
     [(''eq'', EQ), (''ne'', NE), (''lt'', LT), (''lte'', LTE), (''gt'', GT), (''gte'', GTE),
      (''contains'', CONTAINS), (''not_contains'', NOT_CONTAINS), (''matches'', MATCHES),
      (''is_true'', IS_TRUE), (''is_false'', IS_FALSE), (''is_null'', IS_NULL),
      (''not_null'', NOT_NULL)]"

text \<open>\<^verbatim>\<open>Operator(name)\<close>: \<^const>\<open>None\<close> is the \<^verbatim>\<open>ValueError\<close>.\<close>

definition operator_of :: "string \<Rightarrow> operator option" where
  [py_defs]: "operator_of s = map_of operator_names s"

fun operator_name :: "operator \<Rightarrow> string" where
  "operator_name EQ = ''eq''"
| "operator_name NE = ''ne''"
| "operator_name LT = ''lt''"
| "operator_name LTE = ''lte''"
| "operator_name GT = ''gt''"
| "operator_name GTE = ''gte''"
| "operator_name CONTAINS = ''contains''"
| "operator_name NOT_CONTAINS = ''not_contains''"
| "operator_name MATCHES = ''matches''"
| "operator_name IS_TRUE = ''is_true''"
| "operator_name IS_FALSE = ''is_false''"
| "operator_name IS_NULL = ''is_null''"
| "operator_name NOT_NULL = ''not_null''"

record diagnostic =
  dg_code :: string
  dg_subject :: string
  dg_message :: string

definition diag :: "string \<Rightarrow> string \<Rightarrow> string \<Rightarrow> diagnostic" where
  [py_defs]: "diag c s m = \<lparr>dg_code = c, dg_subject = s, dg_message = m\<rparr>"

record property_assertion =
  pa_path :: string
  pa_operator :: operator
  pa_value :: json

record action_call =
  ac_action :: string
  ac_arguments :: obj

record human_test =
  ht_path :: string
  ht_node :: string
  ht_command :: "string list"
  ht_digest :: string

record template_proof =
  tp_version :: string
  tp_test :: string
  tp_digest :: string

datatype form = Given_when_then | Measure | Human_form | Satisfied_by_template

fun form_name :: "form \<Rightarrow> string" where
  "form_name Given_when_then = ''given_when_then''"
| "form_name Measure = ''measure''"
| "form_name Human_form = ''human_test''"
| "form_name Satisfied_by_template = ''satisfied_by_template''"

record criterion =
  cc_id :: string
  cc_refs :: "string list"
  cc_form :: form
  cc_given :: "property_assertion list"
  cc_when :: "action_call option"
  cc_then :: "property_assertion list"
  cc_measure :: string
  cc_operator :: "operator option"
  cc_value :: json
  cc_minimum :: "int option"
  cc_human :: "human_test option"
  cc_template :: "template_proof option"

text \<open>\<^verbatim>\<open>CompiledCriterion(id, refs, form)\<close> with every other field at its default.\<close>

definition bare_criterion :: "string \<Rightarrow> string list \<Rightarrow> form \<Rightarrow> criterion" where
  [py_defs]: "bare_criterion i r f =
     \<lparr>cc_id = i, cc_refs = r, cc_form = f, cc_given = [], cc_when = None, cc_then = [],
      cc_measure = [], cc_operator = None, cc_value = JNull, cc_minimum = None,
      cc_human = None, cc_template = None\<rparr>"

record build_task =
  bt_id :: string
  bt_requirement :: string

record plan =
  pl_contract :: string
  pl_requirements :: "string list"
  pl_tasks :: "build_task list"
  pl_criteria :: "criterion list"
  pl_trusted :: "(string \<times> string) list"
  pl_digest :: string

section \<open>Evaluating an assertion on a literal\<close>

definition compare_op :: "operator \<Rightarrow> 'a::linorder \<Rightarrow> 'a \<Rightarrow> bool option" where
  "compare_op op a b = (case op of
      LT \<Rightarrow> Some (a < b) | LTE \<Rightarrow> Some (a \<le> b) | GT \<Rightarrow> Some (a > b) | GTE \<Rightarrow> Some (a \<ge> b)
    | _ \<Rightarrow> None)"

definition ordered_comparison :: "json \<Rightarrow> operator \<Rightarrow> json \<Rightarrow> bool option" where
  "ordered_comparison l op r =
     (case (num_of l, num_of r) of
        (Some a, Some b) \<Rightarrow> compare_op op a b
      | _ \<Rightarrow> (case (l, r) of (JStr a, JStr b) \<Rightarrow> compare_op op a b | _ \<Rightarrow> None))"

text \<open>
  Membership as the \<^verbatim>\<open>contains\<close> operators use it: \<^const>\<open>None\<close> where the container and the
  item do not fit together.
\<close>

fun present :: "runtime \<Rightarrow> json \<Rightarrow> json \<Rightarrow> bool option" where
  "present rt (JList xs) v = Some (list_ex (\<lambda>x. canonical_digest rt x = canonical_digest rt v) xs)"
| "present rt (JStr s) (JStr p) = Some (str_in p s)"
| "present rt (JObj d) (JStr p) = Some (dhas d p)"
| "present rt _ _ = None"

definition literal_satisfies :: "runtime \<Rightarrow> property_assertion \<Rightarrow> json \<Rightarrow> bool" where
  "literal_satisfies rt a v = (case pa_operator a of
      EQ \<Rightarrow> canonical_digest rt v = canonical_digest rt (pa_value a)
    | NE \<Rightarrow> canonical_digest rt v \<noteq> canonical_digest rt (pa_value a)
    | MATCHES \<Rightarrow> (case (v, pa_value a) of (JStr s, JStr p) \<Rightarrow> rt_search rt p s | _ \<Rightarrow> False)
    | CONTAINS \<Rightarrow> (case present rt v (pa_value a) of None \<Rightarrow> False | Some b \<Rightarrow> b)
    | NOT_CONTAINS \<Rightarrow> (case present rt v (pa_value a) of None \<Rightarrow> False | Some b \<Rightarrow> \<not> b)
    | IS_TRUE \<Rightarrow> v = JBool True
    | IS_FALSE \<Rightarrow> v = JBool False
    | IS_NULL \<Rightarrow> v = JNull
    | NOT_NULL \<Rightarrow> v \<noteq> JNull
    | op \<Rightarrow> ordered_comparison v op (pa_value a) = Some True)"

section \<open>Contradictory assertions\<close>

datatype domain = D_null | D_boolean | D_number | D_string | D_list | D_mapping

definition json_domains :: "domain set" where
  "json_domains = {D_null, D_boolean, D_number, D_string, D_list, D_mapping}"

fun value_domain :: "json \<Rightarrow> domain" where
  "value_domain JNull = D_null"
| "value_domain (JBool _) = D_boolean"
| "value_domain (JInt _) = D_number"
| "value_domain (JFloat _) = D_number"
| "value_domain (JStr _) = D_string"
| "value_domain (JList _) = D_list"
| "value_domain (JObj _) = D_mapping"

fun contains_domains :: "json \<Rightarrow> domain set" where
  "contains_domains (JStr _) = {D_string, D_list, D_mapping}"
| "contains_domains _ = {D_list}"

definition assertion_domains :: "property_assertion \<Rightarrow> domain set" where
  "assertion_domains a = (case pa_operator a of
      EQ \<Rightarrow> {value_domain (pa_value a)}
    | NE \<Rightarrow> json_domains
    | MATCHES \<Rightarrow> {D_string}
    | CONTAINS \<Rightarrow> contains_domains (pa_value a)
    | NOT_CONTAINS \<Rightarrow> contains_domains (pa_value a)
    | IS_TRUE \<Rightarrow> {D_boolean}
    | IS_FALSE \<Rightarrow> {D_boolean}
    | IS_NULL \<Rightarrow> {D_null}
    | NOT_NULL \<Rightarrow> json_domains - {D_null}
    | _ \<Rightarrow> {value_domain (pa_value a)})"

definition is_ordered :: "operator \<Rightarrow> bool" where
  "is_ordered op \<longleftrightarrow> op = LT \<or> op = LTE \<or> op = GT \<or> op = GTE"

definition is_unary :: "operator \<Rightarrow> bool" where
  "is_unary op \<longleftrightarrow> op = IS_TRUE \<or> op = IS_FALSE \<or> op = IS_NULL \<or> op = NOT_NULL"

definition is_equality :: "operator \<Rightarrow> bool" where
  "is_equality op \<longleftrightarrow> op = EQ \<or> op = NE"

fun exact_unary :: "operator \<Rightarrow> json option" where
  "exact_unary IS_TRUE = Some (JBool True)"
| "exact_unary IS_FALSE = Some (JBool False)"
| "exact_unary IS_NULL = Some JNull"
| "exact_unary _ = None"

text \<open>\<^verbatim>\<open>lower.value == upper.value\<close>, reached only for two numbers or two strings.\<close>

definition same_bound :: "json \<Rightarrow> json \<Rightarrow> bool" where
  "same_bound l r \<longleftrightarrow> (case (num_of l, num_of r) of (Some a, Some b) \<Rightarrow> a = b | _ \<Rightarrow> l = r)"

text \<open>The tail of \<^verbatim>\<open>_contradictory\<close>: a lower bound against an upper bound.\<close>

definition bounds_contradictory :: "property_assertion \<Rightarrow> property_assertion \<Rightarrow> bool" where
  "bounds_contradictory left right =
     (let lower = (if pa_operator left = GT \<or> pa_operator left = GTE then left else right);
          upper = (if pa_operator right = LT \<or> pa_operator right = LTE then right else left)
      in if \<not> (pa_operator lower = GT \<or> pa_operator lower = GTE)
            \<or> \<not> (pa_operator upper = LT \<or> pa_operator upper = LTE) then False
         else (case ordered_comparison (pa_value lower) GT (pa_value upper) of
                 None \<Rightarrow> True
               | Some True \<Rightarrow> True
               | Some False \<Rightarrow> same_bound (pa_value lower) (pa_value upper)
                   \<and> (pa_operator lower = GT \<or> pa_operator upper = LT)))"

text \<open>The clause on an equality against a unary operator.\<close>

definition unary_matches :: "operator \<Rightarrow> json \<Rightarrow> bool" where
  "unary_matches op v = (case op of IS_TRUE \<Rightarrow> v = JBool True | IS_FALSE \<Rightarrow> v = JBool False
     | IS_NULL \<Rightarrow> v = JNull | _ \<Rightarrow> v \<noteq> JNull)"

definition contradictory :: "runtime \<Rightarrow> property_assertion \<Rightarrow> property_assertion \<Rightarrow> bool" where
  "contradictory rt left right =
     (let lo = pa_operator left; ro = pa_operator right; lv = pa_value left; rv = pa_value right;
          eqa = (if is_equality lo then left else right);
          una = (if is_unary lo then left else right)
      in if assertion_domains left \<inter> assertion_domains right = {} then True
         else if lo = EQ \<and> ro = EQ then canonical_digest rt lv \<noteq> canonical_digest rt rv
         else if {lo, ro} = {EQ, NE} then canonical_digest rt lv = canonical_digest rt rv
         else if {lo, ro} = {CONTAINS, NOT_CONTAINS} then canonical_digest rt lv = canonical_digest rt rv
         else if (lo, ro) \<in> {(IS_TRUE, IS_FALSE), (IS_FALSE, IS_TRUE),
                             (IS_NULL, NOT_NULL), (NOT_NULL, IS_NULL)} then True
         else if exact_unary lo \<noteq> None then \<not> literal_satisfies rt right (the (exact_unary lo))
         else if exact_unary ro \<noteq> None then \<not> literal_satisfies rt left (the (exact_unary ro))
         else if is_equality (pa_operator eqa) \<and> is_unary (pa_operator una) then
           (if pa_operator eqa = EQ then \<not> unary_matches (pa_operator una) (pa_value eqa)
            else pa_operator una \<noteq> NOT_NULL \<and> unary_matches (pa_operator una) (pa_value eqa))
         else if is_ordered lo \<and> is_ordered ro \<and> ordered_comparison lv GT rv = None then True
         else if lo = EQ \<and> is_ordered ro then ordered_comparison lv ro rv \<noteq> Some True
         else if ro = EQ \<and> is_ordered lo then ordered_comparison rv lo lv \<noteq> Some True
         else bounds_contradictory left right)"

fun pairwise_contradictory :: "runtime \<Rightarrow> property_assertion list \<Rightarrow> bool" where
  "pairwise_contradictory rt [] = False"
| "pairwise_contradictory rt (a # as) =
     (list_ex (contradictory rt a) as \<or> pairwise_contradictory rt as)"

definition exact_values :: "runtime \<Rightarrow> property_assertion list \<Rightarrow> json list" where
  "exact_values rt as =
     map pa_value (filter (\<lambda>a. pa_operator a = EQ) as)
     @ concat (map (\<lambda>a. case exact_unary (pa_operator a) of None \<Rightarrow> [] | Some v \<Rightarrow> [v]) as)
     @ concat (map (\<lambda>f. concat (map (\<lambda>c.
           if canonical_digest rt (pa_value f) = canonical_digest rt (pa_value c) then [pa_value f] else [])
         (filter (\<lambda>a. pa_operator a = LTE) as)))
       (filter (\<lambda>a. pa_operator a = GTE) as))"

definition assertion_set_contradictory :: "runtime \<Rightarrow> property_assertion list \<Rightarrow> bool" where
  "assertion_set_contradictory rt as \<longleftrightarrow>
     pairwise_contradictory rt as
     \<or> list_ex (\<lambda>v. list_ex (\<lambda>a. \<not> literal_satisfies rt a v) as) (exact_values rt as)"

text \<open>
  Following a dotted path through nested objects: \<^const>\<open>None\<close> is the \<^verbatim>\<open>KeyError\<close> of \<^verbatim>\<open>_path\<close>
  and the early \<^verbatim>\<open>return True\<close> of the loop in \<^verbatim>\<open>_ancestor_contradicts_descendant\<close>.
\<close>

fun walk :: "json \<Rightarrow> string list \<Rightarrow> json option" where
  "walk v [] = Some v"
| "walk (JObj d) (p # ps) = (case map_of d p of None \<Rightarrow> None | Some v \<Rightarrow> walk v ps)"
| "walk _ (p # ps) = None"

definition ancestor_contradicts_descendant ::
  "runtime \<Rightarrow> property_assertion \<Rightarrow> property_assertion \<Rightarrow> bool" where
  "ancestor_contradicts_descendant rt ancestor descendant =
     (let suffix = remove_prefix (pa_path ancestor @ ''.'') (pa_path descendant);
          parts = split_on (CHR ''.'') suffix
      in if D_mapping \<notin> assertion_domains ancestor then True
         else if pa_operator ancestor = NOT_CONTAINS \<and> pa_value ancestor = JStr (hd parts) then True
         else if pa_operator ancestor \<noteq> EQ \<or> as_mapping (pa_value ancestor) = None then False
         else (case walk (pa_value ancestor) parts of
                 None \<Rightarrow> True
               | Some current \<Rightarrow> \<not> literal_satisfies rt descendant current))"

section \<open>Run-time evaluation of an assertion\<close>

definition path_get :: "json \<Rightarrow> string \<Rightarrow> json option" where
  "path_get v dotted = walk v (split_on (CHR ''.'') dotted)"

definition run_ordered :: "json \<Rightarrow> json \<Rightarrow> operator \<Rightarrow> bool" where
  "run_ordered l r op =
     (case (num_of l, num_of r) of
        (Some a, Some b) \<Rightarrow> compare_op op a b = Some True
      | _ \<Rightarrow> (case (l, r) of (JStr a, JStr b) \<Rightarrow> compare_op op a b = Some True | _ \<Rightarrow> False))"

fun run_contains :: "runtime \<Rightarrow> json \<Rightarrow> json \<Rightarrow> bool \<Rightarrow> bool" where
  "run_contains rt (JList xs) r negate =
     (let p = list_ex (\<lambda>x. canonical_digest rt x = canonical_digest rt r) xs in if negate then \<not> p else p)"
| "run_contains rt (JStr s) (JStr p) negate = (if negate then \<not> str_in p s else str_in p s)"
| "run_contains rt (JObj d) (JStr p) negate = (if negate then \<not> dhas d p else dhas d p)"
| "run_contains rt _ _ negate = False"

text \<open>\<^verbatim>\<open>matches\<close>: a pattern that does not compile raises \<^verbatim>\<open>re.error\<close>, which is \<^const>\<open>False\<close>.\<close>

fun run_matches :: "runtime \<Rightarrow> json \<Rightarrow> json \<Rightarrow> bool" where
  "run_matches rt (JStr s) (JStr p) = (rt_compiles rt p \<and> rt_search rt p s)"
| "run_matches rt _ _ = False"

definition assertion_passes :: "runtime \<Rightarrow> property_assertion \<Rightarrow> json \<Rightarrow> bool" where
  "assertion_passes rt a v = (case path_get v (pa_path a) of
      None \<Rightarrow> False
    | Some actual \<Rightarrow> (case pa_operator a of
        EQ \<Rightarrow> canonical_digest rt actual = canonical_digest rt (pa_value a)
      | NE \<Rightarrow> canonical_digest rt actual \<noteq> canonical_digest rt (pa_value a)
      | CONTAINS \<Rightarrow> run_contains rt actual (pa_value a) False
      | NOT_CONTAINS \<Rightarrow> run_contains rt actual (pa_value a) True
      | MATCHES \<Rightarrow> run_matches rt actual (pa_value a)
      | IS_TRUE \<Rightarrow> actual = JBool True
      | IS_FALSE \<Rightarrow> actual = JBool False
      | IS_NULL \<Rightarrow> actual = JNull
      | NOT_NULL \<Rightarrow> actual \<noteq> JNull
      | op \<Rightarrow> run_ordered actual (pa_value a) op))"

section \<open>Well-formed assertions\<close>

text \<open>
  What \<^verbatim>\<open>_assertions\<close> has checked of every assertion it compiles: a \<^verbatim>\<open>matches\<close> pattern is a
  string that compiles, an ordered operator has a number or a string to compare with.
\<close>

definition wf_assertion :: "runtime \<Rightarrow> property_assertion \<Rightarrow> bool" where
  "wf_assertion rt a \<longleftrightarrow>
     (pa_operator a = MATCHES \<longrightarrow> (\<exists>p. pa_value a = JStr p \<and> rt_compiles rt p))
     \<and> (is_ordered (pa_operator a) \<longrightarrow> num_of (pa_value a) \<noteq> None \<or> is_str (pa_value a))"

lemmas operator_class_defs = is_ordered_def is_unary_def is_equality_def

lemma ordered_comparison_simps [simp]:
  "num_of l = Some a \<Longrightarrow> num_of r = Some b \<Longrightarrow> ordered_comparison l op r = compare_op op a b"
  "ordered_comparison (JStr s) op (JStr t) = compare_op op s t"
  by (simp_all add: ordered_comparison_def)

lemma ordered_comparison_SomeE:
  assumes "ordered_comparison l op r = Some b"
  obtains (num) a c where "num_of l = Some a" "num_of r = Some c" "compare_op op a c = Some b"
  | (str) s t where "l = JStr s" "r = JStr t" "compare_op op s t = Some b"
  using assms by (auto simp: ordered_comparison_def split: option.splits json.splits)

lemma compare_op_simps [simp]:
  "compare_op LT a b = Some (a < b)"
  "compare_op LTE a b = Some (a \<le> b)"
  "compare_op GT a b = Some (b < a)"
  "compare_op GTE a b = Some (b \<le> a)"
  by (simp_all add: compare_op_def)

section \<open>The run-time evaluator agrees with the compile-time one\<close>

lemma run_ordered_eq: "run_ordered l r op = (ordered_comparison l op r = Some True)"
  by (auto simp: run_ordered_def ordered_comparison_def split: option.splits json.splits)

lemma run_contains_eq:
  "run_contains rt l r False = (case present rt l r of None \<Rightarrow> False | Some b \<Rightarrow> b)"
  "run_contains rt l r True = (case present rt l r of None \<Rightarrow> False | Some b \<Rightarrow> \<not> b)"
  by (cases "(rt, l, r)" rule: present.cases, auto simp: Let_def)+

lemma assertion_passes_literal:
  assumes "wf_assertion rt a"
  shows "assertion_passes rt a v =
    (case path_get v (pa_path a) of None \<Rightarrow> False | Some x \<Rightarrow> literal_satisfies rt a x)"
proof (cases "path_get v (pa_path a)")
  case (Some x)
  then show ?thesis
    using assms
    by (cases "pa_operator a"; cases x)
      (auto simp: assertion_passes_def literal_satisfies_def run_ordered_eq run_contains_eq
        wf_assertion_def)
qed (simp add: assertion_passes_def)

section \<open>Canonically equal values are indistinguishable\<close>

lemma canon_domain: "canon x = canon y \<Longrightarrow> value_domain x = value_domain y"
  by (cases x; cases y) auto

lemma canon_ordered: "canon x = canon y \<Longrightarrow> ordered_comparison x op r = ordered_comparison y op r"
  by (cases x; cases y) (auto simp: ordered_comparison_def split: option.splits json.splits)

lemma canon_of_num: "num_of x = Some r \<Longrightarrow> canon x = JFloat r"
  by (cases x) auto

lemma list_ex_digest_canon:
  assumes "canonical_fn dg" "map canon xs = map canon ys"
  shows "list_ex (\<lambda>x. dg x = w) xs = list_ex (\<lambda>x. dg x = w) ys"
  using assms(2)
proof (induction xs arbitrary: ys)
  case (Cons x xs)
  then obtain y zs where y: "ys = y # zs" "canon x = canon y" "map canon xs = map canon zs"
    by (cases ys) auto
  with Cons.IH [OF y(3)] canonical_fnD [OF assms(1) y(2)] show ?case by simp
qed simp

lemma canon_present:
  assumes "canonical_fn (canonical_digest rt)" "canon x = canon y"
  shows "present rt x v = present rt y v"
proof (cases x)
  case (JList xs)
  with assms obtain ys where ys: "y = JList ys" "map canon xs = map canon ys"
    by (cases y) auto
  have "list_ex (\<lambda>x. canonical_digest rt x = w) xs = list_ex (\<lambda>x. canonical_digest rt x = w) ys" for w
    by (rule list_ex_digest_canon [OF assms(1) ys(2)])
  then show ?thesis by (simp add: JList ys(1))
next
  case (JObj d)
  with assms obtain e where e: "y = JObj e" by (cases y) auto
  have "dhas d k = dhas e k" for k
    using canon_obj_dhas assms(2) JObj e by blast
  with JObj e show ?thesis by (cases v) auto
next
  case (JStr s)
  with assms(2) have "y = JStr s" by (metis canon.simps(5) canon_str)
  with JStr show ?thesis by simp
qed (use assms in \<open>cases y; cases v; simp\<close>)+

lemma canon_literal_satisfies:
  assumes "canonical_fn (canonical_digest rt)" "canon x = canon y"
  shows "literal_satisfies rt a x = literal_satisfies rt a y"
proof -
  have dig: "canonical_digest rt x = canonical_digest rt y" by (rule canonical_fnD [OF assms])
  have match: "(case x of JStr s \<Rightarrow> (case pa_value a of JStr p \<Rightarrow> rt_search rt p s | _ \<Rightarrow> False) | _ \<Rightarrow> False)
    = (case y of JStr s \<Rightarrow> (case pa_value a of JStr p \<Rightarrow> rt_search rt p s | _ \<Rightarrow> False) | _ \<Rightarrow> False)"
    using assms(2) by (cases x; cases y) auto
  have cst: "(x = JBool b) = (y = JBool b)" "(x = JNull) = (y = JNull)" for b
    using assms(2) by (metis canon_bool, metis canon_null)
  show ?thesis
    unfolding literal_satisfies_def
    by (simp add: dig match cst canon_present [OF assms] canon_ordered [OF assms(2)]
        split: operator.split)
qed

lemma canon_walk:
  assumes "canon x = canon y" "wf_json x" "wf_json y"
  shows "map_option canon (walk x ps) = map_option canon (walk y ps)"
  using assms
proof (induction ps arbitrary: x y)
  case Nil
  then show ?case by simp
next
  case (Cons p ps)
  show ?case
  proof (cases "\<exists>d. x = JObj d")
    case True
    then obtain d where d: "x = JObj d" by blast
    with Cons.prems(1) obtain e where e: "y = JObj e" by (cases y) auto
    note mo = canon_obj_map_of [of d e p, OF Cons.prems [unfolded d e]]
    show ?thesis
    proof (cases "map_of d p")
      case None
      with mo have "map_of e p = None" by simp
      with None d e show ?thesis by simp
    next
      case (Some u)
      with mo obtain w where w: "map_of e p = Some w" "canon u = canon w"
        by (cases "map_of e p") auto
      have "wf_json u" "wf_json w"
        using Some w(1) Cons.prems(2,3) by (fastforce simp: d e dest: map_of_SomeD)+
      with Cons.IH [OF w(2)] Some w(1) d e show ?thesis by simp
    qed
  next
    case False
    then have "walk x (p # ps) = None" by (cases x) auto
    moreover have "walk y (p # ps) = None" using False Cons.prems(1) by (cases x; cases y) auto
    ultimately show ?thesis by simp
  qed
qed

end
