(* ===== verification/Contradiction.thy ===== *)
theory Contradiction
  imports Acceptance
begin

text \<open>
  Soundness of the contradiction check of the acceptance compiler: assertions it calls
  contradictory are satisfied together by no value, and an assertion on an object that it
  calls incompatible with an assertion below it never passes together with that one. So the
  compiler rejects no criterion that a candidate could meet.
\<close>

text \<open>The values whose digests are compared when assertions are evaluated on \<open>x\<close>.\<close>

definition compared :: "json \<Rightarrow> property_assertion list \<Rightarrow> json set" where
  "compared x as = insert x (pa_value ` set as)"

lemma literal_EQ_canon:
  assumes "literal_satisfies rt a x" "pa_operator a = EQ" "collision_free (canonical_digest rt) S"
    "x \<in> S" "pa_value a \<in> S"
  shows "canon x = canon (pa_value a)"
proof -
  have "canonical_digest rt x = canonical_digest rt (pa_value a)"
    using assms(1,2) by (simp add: literal_satisfies_def)
  then show ?thesis by (rule collision_freeD [OF assms(3-5)])
qed

lemma present_domain: "present rt x v \<noteq> None \<Longrightarrow> value_domain x \<in> contains_domains v"
  by (cases "(rt, x, v)" rule: present.cases) (auto, cases v, auto)

lemma value_in_json_domains [simp]: "value_domain x \<in> json_domains"
  by (cases x) (auto simp: json_domains_def)

lemma ordered_comparison_domain:
  "ordered_comparison x op v \<noteq> None \<Longrightarrow> value_domain x = value_domain v"
  by (cases x; cases v) (auto simp: ordered_comparison_def)

lemma value_domain_null [simp]: "value_domain x = D_null \<longleftrightarrow> x = JNull"
  by (cases x) auto

text \<open>A value that satisfies an assertion lies in the domains computed for it.\<close>

lemma satisfied_domain:
  assumes "literal_satisfies rt a x" "pa_operator a = EQ \<Longrightarrow> canon x = canon (pa_value a)"
  shows "value_domain x \<in> assertion_domains a"
  using assms
  by (cases "pa_operator a")
    (auto simp: literal_satisfies_def assertion_domains_def dest: canon_domain
      intro: present_domain ordered_comparison_domain split: option.splits json.splits)

lemma not_if: "(c \<Longrightarrow> \<not> a) \<Longrightarrow> (\<not> c \<Longrightarrow> \<not> b) \<Longrightarrow> \<not> (if c then a else b)"
  by simp

lemma exact_unary_satisfied:
  "literal_satisfies rt a x \<Longrightarrow> exact_unary (pa_operator a) = Some v \<Longrightarrow> x = v"
  by (cases "pa_operator a") (auto simp: literal_satisfies_def)

lemma unary_matches_satisfied:
  "literal_satisfies rt a x \<Longrightarrow> is_unary (pa_operator a) \<Longrightarrow> unary_matches (pa_operator a) x"
  by (cases "pa_operator a") (auto simp: literal_satisfies_def is_unary_def unary_matches_def)

lemma unary_matches_canon:
  "canon x = canon y \<Longrightarrow> unary_matches op x = unary_matches op y"
proof -
  assume "canon x = canon y"
  then have "(x = JBool b) = (y = JBool b)" "(x = JNull) = (y = JNull)" for b
    by (metis canon_bool, metis canon_null)
  then show ?thesis by (simp add: unary_matches_def split: operator.split)
qed

lemma ordered_satisfied:
  "literal_satisfies rt a x \<Longrightarrow> is_ordered (pa_operator a) \<Longrightarrow>
   ordered_comparison x (pa_operator a) (pa_value a) = Some True"
  by (cases "pa_operator a") (auto simp: literal_satisfies_def is_ordered_def)

text \<open>Two bounds on one value are comparable, and not crossed.\<close>

lemma two_bounds_comparable:
  assumes "ordered_comparison x op v = Some b" "ordered_comparison x op' w = Some b'"
    "op'' = GT"
  shows "ordered_comparison v op'' w \<noteq> None"
  using assms by (auto elim!: ordered_comparison_SomeE)

lemma not_bounds_contradictory:
  assumes l: "literal_satisfies rt left x" and r: "literal_satisfies rt right x"
  shows "\<not> bounds_contradictory left right"
proof -
  define lower where "lower = (if pa_operator left = GT \<or> pa_operator left = GTE then left else right)"
  define upper where "upper = (if pa_operator right = LT \<or> pa_operator right = LTE then right else left)"
  have "\<not> (case ordered_comparison (pa_value lower) GT (pa_value upper) of
       None \<Rightarrow> True | Some True \<Rightarrow> True
     | Some False \<Rightarrow> same_bound (pa_value lower) (pa_value upper)
         \<and> (pa_operator lower = GT \<or> pa_operator upper = LT))"
    if lo: "pa_operator lower = GT \<or> pa_operator lower = GTE"
      and up: "pa_operator upper = LT \<or> pa_operator upper = LTE"
  proof -
    have "literal_satisfies rt lower x" "literal_satisfies rt upper x"
      using l r by (auto simp: lower_def upper_def)
    with lo up have cl: "ordered_comparison x (pa_operator lower) (pa_value lower) = Some True"
      and cu: "ordered_comparison x (pa_operator upper) (pa_value upper) = Some True"
      by (auto simp: is_ordered_def dest: ordered_satisfied)
    from cl show ?thesis
    proof (cases rule: ordered_comparison_SomeE)
      case (num a c)
      from cu num obtain d where "num_of (pa_value upper) = Some d"
        "compare_op (pa_operator upper) a d = Some True"
        by (auto elim!: ordered_comparison_SomeE)
      with num lo up show ?thesis by (auto simp: same_bound_def)
    next
      case (str s t)
      from cu str obtain u where "pa_value upper = JStr u"
        "compare_op (pa_operator upper) s u = Some True"
        by (auto elim!: ordered_comparison_SomeE)
      with str lo up show ?thesis by (auto simp: same_bound_def split: bool.splits)
    qed
  qed
  then show ?thesis
    unfolding bounds_contradictory_def Let_def lower_def [symmetric] upper_def [symmetric]
    by auto
qed

lemma contains_both:
  assumes "literal_satisfies rt a x" "literal_satisfies rt b x"
    "pa_operator a = CONTAINS" "pa_operator b = NOT_CONTAINS"
    "collision_free (canonical_digest rt) {x, pa_value a, pa_value b}"
  shows "canonical_digest rt (pa_value a) \<noteq> canonical_digest rt (pa_value b)"
proof
  assume d: "canonical_digest rt (pa_value a) = canonical_digest rt (pa_value b)"
  with assms(5) have c: "canon (pa_value a) = canon (pa_value b)"
    by (auto dest: collision_freeD)
  have "present rt x (pa_value a) = present rt x (pa_value b)"
  proof (cases x)
    case (JList xs)
    then show ?thesis by (simp add: d)
  next
    case (JStr s)
    with c show ?thesis by (cases "pa_value a"; cases "pa_value b") auto
  next
    case (JObj e)
    with c show ?thesis by (cases "pa_value a"; cases "pa_value b") auto
  qed auto
  with assms show False
    by (auto simp: literal_satisfies_def split: option.splits)
qed

lemma contradictory_sound:
  assumes cf: "canonical_fn (canonical_digest rt)"
    and col: "collision_free (canonical_digest rt) {x, pa_value left, pa_value right}"
    and l: "literal_satisfies rt left x" and r: "literal_satisfies rt right x"
  shows "\<not> contradictory rt left right"
proof -
  have eql: "pa_operator left = EQ \<Longrightarrow> canon x = canon (pa_value left)"
    using literal_EQ_canon [OF l _ col] by simp
  have eqr: "pa_operator right = EQ \<Longrightarrow> canon x = canon (pa_value right)"
    using literal_EQ_canon [OF r _ col] by simp
  have dom: "value_domain x \<in> assertion_domains left \<inter> assertion_domains right"
    using satisfied_domain [OF l eql] satisfied_domain [OF r eqr] by simp
  have col': "collision_free (canonical_digest rt) {x, pa_value right, pa_value left}"
    using col by (simp add: insert_commute)
  show ?thesis
    unfolding contradictory_def Let_def
  proof (intro not_if)
    assume "assertion_domains left \<inter> assertion_domains right = {}"
    with dom show "\<not> True" by auto
  next
    assume "pa_operator left = EQ \<and> pa_operator right = EQ"
    with l r show "\<not> canonical_digest rt (pa_value left) \<noteq> canonical_digest rt (pa_value right)"
      by (simp add: literal_satisfies_def)
  next
    assume "{pa_operator left, pa_operator right} = {EQ, NE}"
    with l r show "\<not> canonical_digest rt (pa_value left) = canonical_digest rt (pa_value right)"
      by (auto simp: literal_satisfies_def doubleton_eq_iff)
  next
    assume "{pa_operator left, pa_operator right} = {CONTAINS, NOT_CONTAINS}"
    then show "\<not> canonical_digest rt (pa_value left) = canonical_digest rt (pa_value right)"
      using contains_both [OF l r _ _ col] contains_both [OF r l _ _ col']
      by (auto simp: doubleton_eq_iff)
  next
    assume "(pa_operator left, pa_operator right) \<in> {(IS_TRUE, IS_FALSE), (IS_FALSE, IS_TRUE),
      (IS_NULL, NOT_NULL), (NOT_NULL, IS_NULL)}"
    with l r show "\<not> True" by (auto simp: literal_satisfies_def)
  next
    assume "exact_unary (pa_operator left) \<noteq> None"
    with exact_unary_satisfied [OF l] r
    show "\<not> \<not> literal_satisfies rt right (the (exact_unary (pa_operator left)))" by auto
  next
    assume "exact_unary (pa_operator right) \<noteq> None"
    with exact_unary_satisfied [OF r] l
    show "\<not> \<not> literal_satisfies rt left (the (exact_unary (pa_operator right)))" by auto
  next
    define eqa where "eqa = (if is_equality (pa_operator left) then left else right)"
    define una where "una = (if is_unary (pa_operator left) then left else right)"
    assume "is_equality (pa_operator (if is_equality (pa_operator left) then left else right))
      \<and> is_unary (pa_operator (if is_unary (pa_operator left) then left else right))"
    then have una: "is_unary (pa_operator una)" by (simp add: una_def)
    assume "pa_operator (if is_equality (pa_operator left) then left else right) = EQ"
    then have "pa_operator eqa = EQ" by (simp add: eqa_def)
    then have "canon x = canon (pa_value eqa)" using eql eqr by (auto simp: eqa_def)
    moreover have "unary_matches (pa_operator una) x"
      using unary_matches_satisfied l r una by (auto simp: una_def)
    ultimately have "unary_matches (pa_operator una) (pa_value eqa)"
      using unary_matches_canon by blast
    then show "\<not> \<not> unary_matches
        (pa_operator (if is_unary (pa_operator left) then left else right))
        (pa_value (if is_equality (pa_operator left) then left else right))"
      unfolding eqa_def una_def by blast
  next
    assume n: "\<not> exact_unary (pa_operator left) \<noteq> None" "\<not> exact_unary (pa_operator right) \<noteq> None"
    assume "is_equality (pa_operator (if is_equality (pa_operator left) then left else right))
      \<and> is_unary (pa_operator (if is_unary (pa_operator left) then left else right))"
    with n have "pa_operator (if is_unary (pa_operator left) then left else right) = NOT_NULL"
      by (auto simp: is_unary_def split: if_splits)
    then show "\<not> (pa_operator (if is_unary (pa_operator left) then left else right) \<noteq> NOT_NULL
      \<and> unary_matches (pa_operator (if is_unary (pa_operator left) then left else right))
          (pa_value (if is_equality (pa_operator left) then left else right)))" by simp
  next
    assume "is_ordered (pa_operator left) \<and> is_ordered (pa_operator right)
      \<and> ordered_comparison (pa_value left) GT (pa_value right) = None"
    with l r show "\<not> True"
      using two_bounds_comparable by (blast dest: ordered_satisfied)
  next
    assume "pa_operator left = EQ \<and> is_ordered (pa_operator right)"
    with r eql show "\<not> ordered_comparison (pa_value left) (pa_operator right) (pa_value right) \<noteq> Some True"
      by (metis canon_ordered ordered_satisfied)
  next
    assume "pa_operator right = EQ \<and> is_ordered (pa_operator left)"
    with l eqr show "\<not> ordered_comparison (pa_value right) (pa_operator left) (pa_value left) \<noteq> Some True"
      by (metis canon_ordered ordered_satisfied)
  next
    show "\<not> bounds_contradictory left right" by (rule not_bounds_contradictory [OF l r])
  qed
qed

section \<open>Sets of assertions\<close>

lemma pairwise_sound:
  assumes cf: "canonical_fn (canonical_digest rt)"
    and col: "collision_free (canonical_digest rt) (compared x as)"
    and sat: "\<forall>a \<in> set as. literal_satisfies rt a x"
  shows "\<not> pairwise_contradictory rt as"
  using col sat
proof (induction as)
  case (Cons a as)
  have "collision_free (canonical_digest rt) (compared x as)"
    by (rule collision_free_subset [OF Cons.prems(1)]) (auto simp: compared_def)
  moreover have "\<not> contradictory rt a b" if "b \<in> set as" for b
  proof (rule contradictory_sound [OF cf])
    show "collision_free (canonical_digest rt) {x, pa_value a, pa_value b}"
      by (rule collision_free_subset [OF Cons.prems(1)]) (use that in \<open>auto simp: compared_def\<close>)
  qed (use Cons.prems(2) that in auto)
  ultimately show ?case
    using Cons by (auto simp: list_ex_iff)
qed simp

text \<open>A value between a floor and a ceiling with equal digests is canonically the floor.\<close>

lemma floor_ceiling_exact:
  assumes "ordered_comparison x GTE f = Some True" "ordered_comparison x LTE c = Some True"
    and "canon f = canon c"
  shows "canon x = canon f"
  using assms(1)
proof (cases rule: ordered_comparison_SomeE)
  case (num a b)
  with assms(3) have "num_of c = Some b" by (auto dest: canon_num)
  with num assms(2) have "a = b" by (auto elim!: ordered_comparison_SomeE)
  with num show ?thesis by (simp add: canon_of_num)
next
  case (str s t)
  with assms(3) have "c = JStr t" by (metis canon.simps(5) canon_str)
  with str assms(2) show ?thesis by (auto elim!: ordered_comparison_SomeE)
qed

text \<open>Every value the check calls exact is canonically the value that satisfies the assertions.\<close>

lemma exact_values_canon:
  assumes col: "collision_free (canonical_digest rt) (compared x as)"
    and sat: "\<forall>a \<in> set as. literal_satisfies rt a x"
    and v: "v \<in> set (exact_values rt as)"
  shows "canon x = canon v"
proof -
  have inS: "pa_value a \<in> compared x as" if "a \<in> set as" for a
    using that by (simp add: compared_def)
  have xS: "x \<in> compared x as" by (simp add: compared_def)
  from v consider
    (eq) a where "a \<in> set as" "pa_operator a = EQ" "v = pa_value a"
  | (unary) a where "a \<in> set as" "exact_unary (pa_operator a) = Some v"
  | (floor) f c where "f \<in> set as" "c \<in> set as" "pa_operator f = GTE" "pa_operator c = LTE"
      "canonical_digest rt (pa_value f) = canonical_digest rt (pa_value c)" "v = pa_value f"
    by (auto simp: exact_values_def split: option.splits if_splits)
  then show ?thesis
  proof cases
    case eq
    then show ?thesis using literal_EQ_canon [OF _ _ col xS] sat inS by blast
  next
    case unary
    then show ?thesis using exact_unary_satisfied sat by blast
  next
    case floor
    have "canon (pa_value f) = canon (pa_value c)"
      by (rule collision_freeD [OF col inS inS]) (use floor in auto)
    moreover have "ordered_comparison x GTE (pa_value f) = Some True"
      "ordered_comparison x LTE (pa_value c) = Some True"
      using floor sat ordered_satisfied [of rt _ x] by (force simp: is_ordered_def)+
    ultimately show ?thesis using floor(6) floor_ceiling_exact by blast
  qed
qed

lemma set_contradictory_sound:
  assumes cf: "canonical_fn (canonical_digest rt)"
    and col: "collision_free (canonical_digest rt) (compared x as)"
    and sat: "\<forall>a \<in> set as. literal_satisfies rt a x"
  shows "\<not> assertion_set_contradictory rt as"
proof -
  have "literal_satisfies rt a v" if "v \<in> set (exact_values rt as)" "a \<in> set as" for v a
    using canon_literal_satisfies [OF cf exact_values_canon [OF col sat that(1)]] sat that(2) by blast
  with pairwise_sound [OF cf col sat] show ?thesis
    by (auto simp: assertion_set_contradictory_def list_ex_iff)
qed

section \<open>Assertions on an object and below it\<close>

lemma split_on_nonempty [simp]: "split_on c s \<noteq> []"
  by (induction s) (auto split: list.splits)

lemma split_on_append: "split_on c (p @ c # s) = split_on c p @ split_on c s"
proof (induction p)
  case (Cons x p)
  then show ?case
    by (cases "split_on c p") (auto split: list.splits)
qed simp

lemma walk_append: "walk v (ps @ qs) = (case walk v ps of None \<Rightarrow> None | Some u \<Rightarrow> walk u qs)"
  by (induction v ps rule: walk.induct) (auto split: option.splits)

lemma path_get_below:
  "path_get v (p @ ''.'' @ s) =
     (case path_get v p of None \<Rightarrow> None | Some u \<Rightarrow> walk u (split_on (CHR ''.'') s))"
  using split_on_append [of "CHR ''.''" p s] by (simp add: path_get_def walk_append)

lemma walk_mapping: "walk u ps = Some w \<Longrightarrow> ps \<noteq> [] \<Longrightarrow> \<exists>d. u = JObj d \<and> dhas d (hd ps)"
  by (cases "(u, ps)" rule: walk.cases) (auto simp: dhas_map_of split: option.splits)

lemma ancestor_sound:
  assumes cf: "canonical_fn (canonical_digest rt)"
    and col: "collision_free (canonical_digest rt) {u, pa_value ancestor}"
    and wf: "wf_json u" "wf_json (pa_value ancestor)"
    and below: "pa_path descendant = pa_path ancestor @ ''.'' @ s"
    and u: "literal_satisfies rt ancestor u"
    and w: "walk u (split_on (CHR ''.'') s) = Some w" "literal_satisfies rt descendant w"
  shows "\<not> ancestor_contradicts_descendant rt ancestor descendant"
proof -
  let ?parts = "split_on (CHR ''.'') s"
  obtain d where d: "u = JObj d" "dhas d (hd ?parts)"
    using walk_mapping [OF w(1)] by auto
  have suffix: "remove_prefix (pa_path ancestor @ ''.'') (pa_path descendant) = s"
    by (simp add: below remove_prefix_def starts_with_def)
  have eq: "pa_operator ancestor = EQ \<Longrightarrow> canon u = canon (pa_value ancestor)"
    using literal_EQ_canon [OF u _ col] by simp
  have dom: "D_mapping \<in> assertion_domains ancestor"
    using satisfied_domain [OF u eq] d by simp
  have key: "\<not> (pa_operator ancestor = NOT_CONTAINS \<and> pa_value ancestor = JStr (hd ?parts))"
    using u d by (auto simp: literal_satisfies_def)
  have "walk (pa_value ancestor) ?parts \<noteq> None \<and>
      literal_satisfies rt descendant (the (walk (pa_value ancestor) ?parts))"
    if "pa_operator ancestor = EQ"
  proof -
    have "map_option canon (walk (pa_value ancestor) ?parts) = Some (canon w)"
      using canon_walk [OF eq [OF that] wf] w(1) by (metis option.simps(9))
    then obtain w' where "walk (pa_value ancestor) ?parts = Some w'" "canon w' = canon w" by auto
    with canon_literal_satisfies [OF cf this(2)] w(2) show ?thesis by simp
  qed
  then show ?thesis
    unfolding ancestor_contradicts_descendant_def Let_def suffix
    using dom key by (auto split: option.splits)
qed

end
