(* ===== verification/Plan_Compiler.thy ===== *)
theory Plan_Compiler
  imports Contradiction
begin

text \<open>
  Compilation of a product contract into a build plan, \<^verbatim>\<open>compile_acceptance_plan\<close> of
  \<^verbatim>\<open>src/pmpe/contracts/acceptance.py\<close> with its helpers, and what a plan that compiles
  guarantees: every requirement is covered, every criterion has one executable form, refers
  to known requirements only and holds well-formed, non-contradictory assertions.
\<close>

text \<open>The keyword arguments of \<^verbatim>\<open>compile_acceptance_plan\<close>, and the repository's files.\<close>

record compile_env =
  ce_actions :: "string list"
  ce_version :: string
  ce_proofs :: "(string \<times> string) list"
  ce_measures :: "string list"
  ce_trusted :: "(string \<times> string) list"
  ce_repo :: "string \<Rightarrow> bytes option"

section \<open>Collections keyed by id\<close>

definition upper_collection :: "string \<Rightarrow> string" where
  [py_defs]: "upper_collection c = (if c = ''requirement'' then ''REQUIREMENT'' else ''CRITERION'')"

definition normalize_item :: "string \<Rightarrow> obj \<Rightarrow> obj" where
  [py_defs]: "normalize_item collection item =
     (if collection = ''criterion'' \<and> \<not> dhas item ''requirement_refs''
         \<and> nonempty_str (dget item ''requirement'')
      then dput ''requirement_refs'' (JList [dget item ''requirement'']) item else item)"

fun keyed_items :: "string \<Rightarrow> nat \<Rightarrow> json list \<Rightarrow> obj \<Rightarrow> diagnostic list \<times> obj" where
  "keyed_items c i [] keyed = ([], keyed)"
| "keyed_items c i (raw # rest) keyed =
     (case as_mapping raw of
        None \<Rightarrow>
          (let (ds, k) = keyed_items c (Suc i) rest keyed in
            (diag (upper_collection c @ ''_ID_MISSING'') (c @ ''['' @ show_nat i @ '']'')
               (c @ '' item requires a non-empty id'') # ds, k))
      | Some item \<Rightarrow>
          (case dget item ''id'' of
             JStr item_id \<Rightarrow>
               (if item_id = [] then
                  (let (ds, k) = keyed_items c (Suc i) rest keyed in
                    (diag (upper_collection c @ ''_ID_MISSING'') (c @ ''['' @ show_nat i @ '']'')
                       (c @ '' item requires a non-empty id'') # ds, k))
                else if dhas keyed item_id then
                  (let (ds, k) = keyed_items c (Suc i) rest keyed in
                    (diag (upper_collection c @ ''_ID_DUPLICATE'') item_id
                       (c @ '' contains a duplicate id'') # ds, k))
                else keyed_items c (Suc i) rest
                       (dput item_id (JObj (normalize_item c item)) keyed))
           | _ \<Rightarrow>
               (let (ds, k) = keyed_items c (Suc i) rest keyed in
                 (diag (upper_collection c @ ''_ID_MISSING'') (c @ ''['' @ show_nat i @ '']'')
                    (c @ '' item requires a non-empty id'') # ds, k))))"

fun id_keyed_collection :: "json \<Rightarrow> string \<Rightarrow> diagnostic list \<times> obj option" where
  "id_keyed_collection (JObj d) c = ([], Some d)"
| "id_keyed_collection (JList xs) c =
     (let (ds, k) = keyed_items c 0 xs [] in (ds, Some k))"
| "id_keyed_collection _ c = ([], None)"

section \<open>Assertion lists\<close>

definition operator_of_json :: "runtime \<Rightarrow> json \<Rightarrow> operator option" where
  [py_defs]: "operator_of_json rt v = operator_of (py_str (rt_repr rt) v)"

definition valid_pattern :: "runtime \<Rightarrow> json \<Rightarrow> bool" where
  [py_defs]: "valid_pattern rt v = (case v of JStr p \<Rightarrow> rt_compiles rt p | _ \<Rightarrow> False)"

definition ordered_value :: "json \<Rightarrow> bool" where
  [py_defs]: "ordered_value v \<longleftrightarrow> num_of v \<noteq> None \<or> is_str v"

definition compile_assertion ::
  "runtime \<Rightarrow> string \<Rightarrow> string \<Rightarrow> nat \<Rightarrow> json \<Rightarrow> diagnostic + property_assertion" where
  [py_defs]: "compile_assertion rt cid field i raw =
     (let loc = field @ ''['' @ show_nat i @ '']'' in
      case as_mapping raw of
        None \<Rightarrow> Inl (diag ''INVALID_ASSERTION_PATH'' cid (loc @ '' requires a path''))
      | Some item \<Rightarrow>
          (case dget item ''path'' of
             JStr p \<Rightarrow>
               (if p = [] then Inl (diag ''INVALID_ASSERTION_PATH'' cid (loc @ '' requires a path''))
                else case operator_of_json rt (get_or item ''operator'' (JStr [])) of
                  None \<Rightarrow> Inl (diag ''UNKNOWN_ASSERTION_OPERATOR'' cid
                                (loc @ '' uses an unregistered operator''))
                | Some op \<Rightarrow>
                    (let v = dget item ''value'' in
                     if \<not> is_unary op \<and> \<not> dhas item ''value'' then
                       Inl (diag ''MISSING_ASSERTION_VALUE'' cid (loc @ '' requires an explicit value''))
                     else if op = MATCHES \<and> \<not> valid_pattern rt v then
                       Inl (diag ''INVALID_REGEX_ASSERTION'' cid (loc @ '' requires a valid string regex''))
                     else if is_ordered op \<and> \<not> ordered_value v then
                       Inl (diag ''INVALID_ORDERED_ASSERTION_VALUE'' cid
                              (loc @ '' requires a number or string value''))
                     else Inr \<lparr>pa_path = p, pa_operator = op, pa_value = v\<rparr>))
           | _ \<Rightarrow> Inl (diag ''INVALID_ASSERTION_PATH'' cid (loc @ '' requires a path''))))"

fun compile_each ::
  "runtime \<Rightarrow> string \<Rightarrow> string \<Rightarrow> nat \<Rightarrow> json list \<Rightarrow> diagnostic list \<times> property_assertion list" where
  "compile_each rt cid field i [] = ([], [])"
| "compile_each rt cid field i (raw # rest) =
     (let (ds, as) = compile_each rt cid field (Suc i) rest in
      case compile_assertion rt cid field i raw of Inl d \<Rightarrow> (d # ds, as) | Inr a \<Rightarrow> (ds, a # as))"

definition contradiction_diags ::
  "runtime \<Rightarrow> string \<Rightarrow> string \<Rightarrow> property_assertion list \<Rightarrow> diagnostic list" where
  [py_defs]: "contradiction_diags rt cid field compiled =
     (case find (\<lambda>p. assertion_set_contradictory rt (filter (\<lambda>a. pa_path a = p) compiled))
             (sorted_set (map pa_path compiled)) of
        Some p \<Rightarrow> [diag ''CONTRADICTORY_ASSERTIONS'' cid
                     (field @ '' contains incompatible assertions for '' @ p)]
      | None \<Rightarrow>
          (case find (\<lambda>anc. list_ex (ancestor_contradicts_descendant rt anc)
                 (filter (\<lambda>a. starts_with (pa_path anc @ ''.'') (pa_path a)) compiled)) compiled of
             Some anc \<Rightarrow> [diag ''CONTRADICTORY_ASSERTIONS'' cid
                (field @ '' constrains '' @ pa_path anc @ '' to a non-object with descendants'')]
           | None \<Rightarrow> []))"

definition assertions ::
  "runtime \<Rightarrow> json \<Rightarrow> string \<Rightarrow> string \<Rightarrow> diagnostic list \<times> property_assertion list" where
  [py_defs]: "assertions rt v cid field =
     (case v of
        JList (x # xs) \<Rightarrow>
          (let (ds, compiled) = compile_each rt cid field 0 (x # xs) in
            (ds @ contradiction_diags rt cid field compiled, compiled))
      | _ \<Rightarrow> ([diag ''INVALID_ASSERTION_LIST'' cid (field @ '' must be a non-empty assertion list'')], []))"

section \<open>Human tests\<close>

text \<open>\<^verbatim>\<open>Path(s).name\<close>.\<close>

definition path_name :: "string \<Rightarrow> string" where
  [py_defs]: "path_name s =
     (case rev (filter (\<lambda>p. p \<noteq> [] \<and> p \<noteq> ''.'') (split_on (CHR ''/'') s)) of [] \<Rightarrow> [] | x # _ \<Rightarrow> x)"

fun strings_of :: "json list \<Rightarrow> string list option" where
  "strings_of [] = Some []"
| "strings_of (JStr s # xs) = (if s = [] then None else map_option (Cons s) (strings_of xs))"
| "strings_of (_ # xs) = None"

definition compile_human_test ::
  "runtime \<Rightarrow> compile_env \<Rightarrow> obj \<Rightarrow> string \<Rightarrow> diagnostic + human_test" where
  [py_defs]: "compile_human_test rt env raw cid =
     (case (dget raw ''path'', dget raw ''node_id'', dget raw ''command'') of
        (JStr path, JStr node, JList cmd) \<Rightarrow>
          (case strings_of cmd of
             Some (c # cs) \<Rightarrow>
               (if \<not> starts_with ''tests/'' path
                   \<or> list_ex (\<lambda>p. p = ''.'' \<or> p = ''..'') (split_on (CHR ''/'') path) \<or> node = []
                then Inl (diag ''INVALID_HUMAN_TEST_REFERENCE'' cid
                            ''human test must bind a safe tests/ path, node ID, and argv'')
                else case ce_repo env path of
                  None \<Rightarrow> Inl (diag ''HUMAN_TEST_MISSING'' cid (''human test does not exist: '' @ path))
                | Some content \<Rightarrow>
                    (if \<not> (starts_with ''pytest'' (path_name c)
                           \<or> (length (c # cs) \<ge> 3 \<and> take 2 cs = [''-m'', ''pytest'']))
                        \<or> (path @ ''::'' @ node) \<notin> set (c # cs)
                     then Inl (diag ''HUMAN_TEST_COMMAND_MISMATCH'' cid
                                 ''human test command must run pytest against its exact bound node'')
                     else Inr \<lparr>ht_path = path, ht_node = node, ht_command = c # cs,
                               ht_digest = sha256_digest rt content\<rparr>))
           | _ \<Rightarrow> Inl (diag ''INVALID_HUMAN_TEST_REFERENCE'' cid
                        ''human test must bind a safe tests/ path, node ID, and argv''))
      | _ \<Rightarrow> Inl (diag ''INVALID_HUMAN_TEST_REFERENCE'' cid
                   ''human test must bind a safe tests/ path, node ID, and argv''))"

section \<open>One criterion\<close>

definition selected_forms :: "obj \<Rightarrow> form list" where
  [py_defs]: "selected_forms item =
     (if list_all (dhas item) [''given'', ''when'', ''then''] then [Given_when_then] else [])
     @ (if list_all (dhas item) [''measure'', ''operator'', ''value''] then [Measure] else [])
     @ (if dhas item ''human_test'' then [Human_form] else [])
     @ (if dhas item ''satisfied_by_template'' then [Satisfied_by_template] else [])"

type_synonym compiled = "diagnostic list \<times> criterion option"

definition compile_given ::
  "runtime \<Rightarrow> compile_env \<Rightarrow> string \<Rightarrow> string list \<Rightarrow> obj \<Rightarrow> compiled" where
  [py_defs]: "compile_given rt env cid refs item =
     (let when_raw = as_mapping (dget item ''when'');
          action = (case when_raw of None \<Rightarrow> []
                    | Some w \<Rightarrow> py_str (rt_repr rt) (get_or w ''action'' (JStr [])));
          arguments = (case when_raw of None \<Rightarrow> JObj [] | Some w \<Rightarrow> get_or w ''arguments'' (JObj []))
      in case (action \<in> set (ce_actions env), as_mapping arguments) of
           (True, Some args) \<Rightarrow>
             (let (dg, given) = assertions rt (dget item ''given'') cid ''given'';
                  (dt, thn) = assertions rt (dget item ''then'') cid ''then''
              in (dg @ dt,
                  if given \<noteq> [] \<and> thn \<noteq> [] \<and> dg @ dt = [] then
                    Some ((bare_criterion cid refs Given_when_then)
                      \<lparr>cc_given := given, cc_when := Some \<lparr>ac_action = action, ac_arguments = args\<rparr>,
                       cc_then := thn\<rparr>)
                  else None))
         | _ \<Rightarrow> ([diag ''ACTION_NOT_REGISTERED'' cid ''when.action is not registered''], None))"

definition compile_measure ::
  "runtime \<Rightarrow> compile_env \<Rightarrow> string \<Rightarrow> string list \<Rightarrow> obj \<Rightarrow> compiled" where
  [py_defs]: "compile_measure rt env cid refs item =
     (case operator_of_json rt (get_or item ''operator'' (JStr [])) of
        None \<Rightarrow> ([diag ''UNKNOWN_ASSERTION_OPERATOR'' cid ''measure operator is unregistered''], None)
      | Some op \<Rightarrow>
          (let sample = (case as_mapping (dget item ''sample'') of None \<Rightarrow> [] | Some s \<Rightarrow> s);
               v = dget item ''value''
           in case (dget item ''measure'', dget sample ''minimum'') of
                (JStr m, JInt n) \<Rightarrow>
                  (if m = [] \<or> m \<notin> set (ce_measures env) \<or> n \<le> 0 then
                     ([diag ''MEASURE_INVALID'' cid
                         ''measure needs a registered source and positive sample.minimum''], None)
                   else if op = MATCHES \<and> \<not> valid_pattern rt v then
                     ([diag ''INVALID_REGEX_ASSERTION'' cid ''measure requires a valid string regex''], None)
                   else if is_ordered op \<and> \<not> ordered_value v then
                     ([diag ''INVALID_ORDERED_ASSERTION_VALUE'' cid
                         ''measure requires a number or string value''], None)
                   else ([], Some ((bare_criterion cid refs Measure)
                          \<lparr>cc_measure := m, cc_operator := Some op, cc_value := v,
                           cc_minimum := Some n\<rparr>)))
              | _ \<Rightarrow> ([diag ''MEASURE_INVALID'' cid
                       ''measure needs a registered source and positive sample.minimum''], None)))"

definition compile_human ::
  "runtime \<Rightarrow> compile_env \<Rightarrow> string \<Rightarrow> string list \<Rightarrow> obj \<Rightarrow> compiled" where
  [py_defs]: "compile_human rt env cid refs item =
     (let raw = (case as_mapping (dget item ''human_test'') of None \<Rightarrow> [] | Some r \<Rightarrow> r)
      in case compile_human_test rt env raw cid of
           Inl d \<Rightarrow> ([d], None)
         | Inr h \<Rightarrow> ([], Some ((bare_criterion cid refs Human_form)\<lparr>cc_human := Some h\<rparr>)))"

definition compile_template ::
  "runtime \<Rightarrow> compile_env \<Rightarrow> string \<Rightarrow> string list \<Rightarrow> obj \<Rightarrow> compiled" where
  [py_defs]: "compile_template rt env cid refs item =
     (let proof_raw = as_mapping (dget item ''satisfied_by_template'');
          version = (case proof_raw of None \<Rightarrow> []
                     | Some r \<Rightarrow> py_str (rt_repr rt) (get_or r ''template_version'' (JStr [])));
          test_id = (case proof_raw of None \<Rightarrow> []
                     | Some r \<Rightarrow> py_str (rt_repr rt) (get_or r ''test_id'' (JStr [])))
      in case map_of (ce_proofs env) test_id of
           Some dig \<Rightarrow>
             (if version \<noteq> ce_version env then
                ([diag ''TEMPLATE_PROOF_INVALID'' cid
                    ''template proof does not match the pinned template''], None)
              else ([], Some ((bare_criterion cid refs Satisfied_by_template)
                     \<lparr>cc_template := Some \<lparr>tp_version = version, tp_test = test_id,
                                            tp_digest = dig\<rparr>\<rparr>)))
         | None \<Rightarrow> ([diag ''TEMPLATE_PROOF_INVALID'' cid
                     ''template proof does not match the pinned template''], None))"

text \<open>The body of the loop over the criteria, one early \<^verbatim>\<open>continue\<close> per failed check.\<close>

definition compile_criterion ::
  "runtime \<Rightarrow> compile_env \<Rightarrow> string list \<Rightarrow> string \<times> json \<Rightarrow> compiled" where
  [py_defs]: "compile_criterion rt env requirements entry =
     (let cid = fst entry in
      case as_mapping (snd entry) of
        None \<Rightarrow> ([diag ''INVALID_CRITERION'' cid ''criterion must be an object''], None)
      | Some item \<Rightarrow>
          (case dget item ''requirement_refs'' of
             JList rs \<Rightarrow>
               (case strings_of rs of
                  Some (r # rest) \<Rightarrow>
                    (let refs = sorted_set (r # rest);
                         unknown = sorted_set (filter (\<lambda>x. x \<notin> set requirements) refs)
                     in if unknown \<noteq> [] then
                          ([diag ''UNKNOWN_REQUIREMENT_REF'' cid (join '', '' unknown)], None)
                        else case selected_forms item of
                          [Given_when_then] \<Rightarrow> compile_given rt env cid refs item
                        | [Measure] \<Rightarrow> compile_measure rt env cid refs item
                        | [Human_form] \<Rightarrow> compile_human rt env cid refs item
                        | [Satisfied_by_template] \<Rightarrow> compile_template rt env cid refs item
                        | _ \<Rightarrow> ([diag ''CRITERION_FORM_INVALID'' cid
                                 ''criterion must select exactly one executable form''], None))
                | _ \<Rightarrow> ([diag ''REQUIREMENT_REFS_MISSING'' cid ''criterion needs requirement_refs''], None))
           | _ \<Rightarrow> ([diag ''REQUIREMENT_REFS_MISSING'' cid ''criterion needs requirement_refs''], None)))"

fun compile_criteria ::
  "runtime \<Rightarrow> compile_env \<Rightarrow> string list \<Rightarrow> obj \<Rightarrow> diagnostic list \<times> criterion list" where
  "compile_criteria rt env reqs [] = ([], [])"
| "compile_criteria rt env reqs (e # es) =
     (let (d, c) = compile_criterion rt env reqs e; (ds, cs) = compile_criteria rt env reqs es
      in (d @ ds, (case c of None \<Rightarrow> cs | Some x \<Rightarrow> x # cs)))"

section \<open>The plan\<close>

definition assertion_json :: "property_assertion \<Rightarrow> json" where
  [py_defs]: "assertion_json a = JObj [(''path'', JStr (pa_path a)),
     (''operator'', JStr (operator_name (pa_operator a))), (''value'', pa_value a)]"

definition opt_json :: "('a \<Rightarrow> json) \<Rightarrow> 'a option \<Rightarrow> json" where
  [py_defs]: "opt_json f x = (case x of None \<Rightarrow> JNull | Some y \<Rightarrow> f y)"

definition strs_json :: "string list \<Rightarrow> json" where
  [py_defs]: "strs_json xs = JList (map JStr xs)"

definition criterion_json :: "criterion \<Rightarrow> json" where
  [py_defs]: "criterion_json c = JObj
     [(''criterion_id'', JStr (cc_id c)),
      (''requirement_refs'', strs_json (cc_refs c)),
      (''form'', JStr (form_name (cc_form c))),
      (''given'', JList (map assertion_json (cc_given c))),
      (''when'', opt_json (\<lambda>w. JObj [(''action'', JStr (ac_action w)),
          (''arguments'', JObj (ac_arguments w))]) (cc_when c)),
      (''then'', JList (map assertion_json (cc_then c))),
      (''measure'', JStr (cc_measure c)),
      (''operator'', opt_json (\<lambda>op. JStr (operator_name op)) (cc_operator c)),
      (''value'', cc_value c),
      (''minimum_sample'', opt_json JInt (cc_minimum c)),
      (''human_test'', opt_json (\<lambda>h. JObj [(''path'', JStr (ht_path h)),
          (''node_id'', JStr (ht_node h)), (''command'', strs_json (ht_command h)),
          (''file_digest'', JStr (ht_digest h))]) (cc_human c)),
      (''template_proof'', opt_json (\<lambda>t. JObj [(''template_version'', JStr (tp_version t)),
          (''test_id'', JStr (tp_test t)), (''file_digest'', JStr (tp_digest t))]) (cc_template c))]"

definition task_json :: "build_task \<Rightarrow> json" where
  [py_defs]: "task_json t = JObj [(''task_id'', JStr (bt_id t)),
     (''requirement_id'', JStr (bt_requirement t))]"

definition pair_json :: "string \<times> string \<Rightarrow> json" where
  [py_defs]: "pair_json p = JList [JStr (fst p), JStr (snd p)]"

definition build_tasks :: "string list \<Rightarrow> build_task list" where
  [py_defs]: "build_tasks reqs =
     map (\<lambda>(i, r). \<lparr>bt_id = ''TASK-'' @ pad3 (Suc i), bt_requirement = r\<rparr>)
       (zip [0..<length reqs] reqs)"

text \<open>The dictionary whose digest is the plan digest.\<close>

definition plan_shell :: "string \<Rightarrow> string list \<Rightarrow> build_task list \<Rightarrow> criterion list
    \<Rightarrow> (string \<times> string) list \<Rightarrow> json" where
  [py_defs]: "plan_shell contract_digest reqs tasks criteria trusted = JObj
     [(''contract_digest'', JStr contract_digest),
      (''requirements'', strs_json reqs),
      (''tasks'', JList (map task_json tasks)),
      (''criteria'', JList (map criterion_json criteria)),
      (''trusted_test_digests'', JList (map pair_json trusted))]"

definition uncovered :: "string list \<Rightarrow> criterion list \<Rightarrow> string list" where
  [py_defs]: "uncovered reqs cs =
     sorted_set (filter (\<lambda>r. r \<notin> set (concat (map cc_refs cs))) reqs)"

definition missing_collection :: "obj option \<Rightarrow> diagnostic \<Rightarrow> diagnostic list \<times> obj" where
  [py_defs]: "missing_collection raw d =
     (case raw of None \<Rightarrow> ([d], []) | Some [] \<Rightarrow> ([d], []) | Some r \<Rightarrow> ([], r))"

definition compile_acceptance_plan ::
  "runtime \<Rightarrow> compile_env \<Rightarrow> obj \<Rightarrow> diagnostic list + plan" where
  [py_defs]: "compile_acceptance_plan rt env contract =
     (let (d1, rraw) = id_keyed_collection (dget contract ''functional_requirements'') ''requirement'';
          (d2, craw) = id_keyed_collection (dget contract ''acceptance_criteria'') ''criterion'';
          (d3, reqs_raw) = missing_collection rraw
             (diag ''REQUIREMENTS_MISSING'' ''contract'' ''functional requirements are required'');
          (d4, crit_raw) = missing_collection craw
             (diag ''CRITERIA_MISSING'' ''contract'' ''acceptance criteria are required'');
          reqs = sort (map fst reqs_raw);
          (d5, compiled) = compile_criteria rt env reqs (sort_key fst crit_raw);
          d6 = map (\<lambda>r. diag ''REQUIREMENT_UNCOVERED'' r ''requirement has no executable criterion'')
                 (uncovered reqs compiled);
          diagnostics = d1 @ d2 @ d3 @ d4 @ d5 @ d6
      in if diagnostics \<noteq> [] then Inl diagnostics
         else (let tasks = build_tasks reqs;
                   trusted = sort (ce_trusted env);
                   cd = canonical_digest rt (JObj contract)
               in Inr \<lparr>pl_contract = cd, pl_requirements = reqs, pl_tasks = tasks,
                       pl_criteria = compiled, pl_trusted = trusted,
                       pl_digest = canonical_digest rt (plan_shell cd reqs tasks compiled trusted)\<rparr>))"

section \<open>What compilation guarantees\<close>

text \<open>
  The promise of one compiled criterion, by its form: registered actions, measures and
  template proofs, well-formed assertion lists free of detected contradictions, and human
  tests bound to the bytes of an existing file under \<^verbatim>\<open>tests/\<close>.
\<close>

definition good_assertions :: "runtime \<Rightarrow> property_assertion list \<Rightarrow> bool" where
  "good_assertions rt as \<longleftrightarrow>
     as \<noteq> [] \<and> (\<forall>a \<in> set as. wf_assertion rt a \<and> pa_path a \<noteq> [])
     \<and> contradiction_diags rt [] [] as = []"

definition executable_criterion :: "runtime \<Rightarrow> compile_env \<Rightarrow> criterion \<Rightarrow> bool" where
  "executable_criterion rt env c = (case cc_form c of
      Given_when_then \<Rightarrow>
        good_assertions rt (cc_given c) \<and> good_assertions rt (cc_then c)
        \<and> (\<exists>w. cc_when c = Some w \<and> ac_action w \<in> set (ce_actions env))
    | Measure \<Rightarrow>
        cc_measure c \<in> set (ce_measures env)
        \<and> (\<exists>op n. cc_operator c = Some op \<and> cc_minimum c = Some n \<and> 0 < n
             \<and> wf_assertion rt \<lparr>pa_path = ''value'', pa_operator = op, pa_value = cc_value c\<rparr>)
    | Human_form \<Rightarrow>
        (\<exists>h content. cc_human c = Some h \<and> starts_with ''tests/'' (ht_path h)
           \<and> ''..'' \<notin> set (split_on (CHR ''/'') (ht_path h))
           \<and> ce_repo env (ht_path h) = Some content
           \<and> ht_digest h = sha256_digest rt content
           \<and> (ht_path h @ ''::'' @ ht_node h) \<in> set (ht_command h))
    | Satisfied_by_template \<Rightarrow>
        (\<exists>t. cc_template c = Some t \<and> tp_version t = ce_version env
           \<and> map_of (ce_proofs env) (tp_test t) = Some (tp_digest t)))"

lemma compile_assertion_Inr:
  "compile_assertion rt cid field i raw = Inr a \<Longrightarrow> wf_assertion rt a \<and> pa_path a \<noteq> []"
  by (auto simp: compile_assertion_def wf_assertion_def valid_pattern_def ordered_value_def
      is_ordered_def Let_def split: option.splits json.splits if_splits)

lemma compile_each_wf:
  "a \<in> set (snd (compile_each rt cid field i xs)) \<Longrightarrow> wf_assertion rt a \<and> pa_path a \<noteq> []"
proof (induction xs arbitrary: i)
  case (Cons x xs)
  note IH = Cons.IH [of "Suc i"]
  show ?case
    using Cons.prems IH compile_assertion_Inr [of rt cid field i x]
    by (cases "compile_each rt cid field (Suc i) xs"; cases "compile_assertion rt cid field i x") auto
qed simp

lemma assertions_cases:
  obtains xs where "assertions rt v cid field =
      (fst (compile_each rt cid field 0 xs)
         @ contradiction_diags rt cid field (snd (compile_each rt cid field 0 xs)),
       snd (compile_each rt cid field 0 xs))"
  | d where "assertions rt v cid field = ([d], [])" "dg_code d = ''INVALID_ASSERTION_LIST''"
proof (cases "\<exists>x xs. v = JList (x # xs)")
  case True
  then obtain x xs where "v = JList (x # xs)" by blast
  then show thesis
    by (intro that(1) [of "x # xs"])
      (simp only: assertions_def json.case list.case case_prod_beta Let_def)
next
  case False
  then have "assertions rt v cid field =
      ([diag ''INVALID_ASSERTION_LIST'' cid (field @ '' must be a non-empty assertion list'')], [])"
    by (simp add: assertions_def split: json.split list.split)
  then show thesis by (rule that(2)) (simp add: diag_def)
qed

lemma contradiction_diags_subject:
  "(contradiction_diags rt cid field as = []) = (contradiction_diags rt [] [] as = [])"
  by (simp add: contradiction_diags_def split: option.splits)

lemma assertions_wf:
  "a \<in> set (snd (assertions rt v cid field)) \<Longrightarrow> wf_assertion rt a \<and> pa_path a \<noteq> []"
  by (rule assertions_cases [of rt v cid field]) (auto dest: compile_each_wf)

lemma assertions_good:
  assumes "assertions rt v cid field = ([], as)" "as \<noteq> []"
  shows "good_assertions rt as"
proof -
  have "contradiction_diags rt cid field as = []"
    by (rule assertions_cases [of rt v cid field]) (use assms in auto)
  moreover have "\<forall>a \<in> set as. wf_assertion rt a \<and> pa_path a \<noteq> []"
    using assertions_wf [of _ rt v cid field] assms(1) by simp
  ultimately show ?thesis
    using assms(2) contradiction_diags_subject [of rt cid field as]
    by (simp add: good_assertions_def)
qed

lemma compile_given_Some:
  assumes "snd (compile_given rt env cid refs item) = Some c"
  shows "cc_id c = cid \<and> cc_refs c = refs \<and> executable_criterion rt env c"
  using assms assertions_good
  by (auto simp: compile_given_def executable_criterion_def bare_criterion_def Let_def
      split: prod.splits option.splits bool.splits if_splits)

lemma compile_measure_Some:
  assumes "snd (compile_measure rt env cid refs item) = Some c"
  shows "cc_id c = cid \<and> cc_refs c = refs \<and> executable_criterion rt env c"
proof -
  note defs = compile_measure_def Let_def
  from assms obtain op where op: "operator_of_json rt (get_or item ''operator'' (JStr [])) = Some op"
    by (cases "operator_of_json rt (get_or item ''operator'' (JStr []))") (simp_all add: defs)
  with assms obtain m where m: "dget item ''measure'' = JStr m"
    by (cases "dget item ''measure''") (simp_all add: defs)
  let ?sample = "case as_mapping (dget item ''sample'') of None \<Rightarrow> [] | Some s \<Rightarrow> s"
  from assms op m obtain n where n: "dget ?sample ''minimum'' = JInt n"
    by (cases "dget ?sample ''minimum''") (simp_all add: defs)
  let ?v = "dget item ''value''"
  from assms have ok: "m \<in> set (ce_measures env)" "0 < n"
    "op = MATCHES \<Longrightarrow> valid_pattern rt ?v" "is_ordered op \<Longrightarrow> ordered_value ?v"
    and c: "c = (bare_criterion cid refs Measure)
       \<lparr>cc_measure := m, cc_operator := Some op, cc_value := ?v, cc_minimum := Some n\<rparr>"
    by (simp_all add: defs op m n split: if_splits)
  have "wf_assertion rt \<lparr>pa_path = ''value'', pa_operator = op, pa_value = ?v\<rparr>"
    using ok(3,4) by (auto simp: wf_assertion_def valid_pattern_def ordered_value_def split: json.splits)
  with ok show ?thesis
    by (simp add: c bare_criterion_def executable_criterion_def)
qed

lemma compile_human_test_Inr:
  assumes "compile_human_test rt env raw cid = Inr h"
  shows "starts_with ''tests/'' (ht_path h) \<and> ''..'' \<notin> set (split_on (CHR ''/'') (ht_path h))
    \<and> (\<exists>content. ce_repo env (ht_path h) = Some content
         \<and> ht_digest h = sha256_digest rt content)
    \<and> (ht_path h @ ''::'' @ ht_node h) \<in> set (ht_command h)"
proof -
  from assms obtain path where p: "dget raw ''path'' = JStr path"
    by (cases "dget raw ''path''") (simp_all add: compile_human_test_def)
  with assms obtain node where n: "dget raw ''node_id'' = JStr node"
    by (cases "dget raw ''node_id''") (simp_all add: compile_human_test_def)
  with assms p obtain cmd where c: "dget raw ''command'' = JList cmd"
    by (cases "dget raw ''command''") (simp_all add: compile_human_test_def)
  with assms p n obtain ss where ss: "strings_of cmd = Some ss"
    by (cases "strings_of cmd") (simp_all add: compile_human_test_def)
  with assms p n c obtain c1 cs where "ss = c1 # cs"
    by (cases ss) (simp_all add: compile_human_test_def)
  with ss have s: "strings_of cmd = Some (c1 # cs)" by simp
  note eqs = assms [unfolded compile_human_test_def p n c s json.case prod.case option.case list.case]
  then have safe: "starts_with ''tests/'' path" "''..'' \<notin> set (split_on (CHR ''/'') path)"
    by (auto simp: list_ex_iff split: if_splits)
  from eqs obtain content where f: "ce_repo env path = Some content"
    by (cases "ce_repo env path") (simp_all split: if_splits)
  from eqs have "(path @ ''::'' @ node) \<in> set (c1 # cs)"
    and "h = \<lparr>ht_path = path, ht_node = node, ht_command = c1 # cs,
       ht_digest = sha256_digest rt content\<rparr>"
    by (simp_all only: f option.case split: if_splits) simp_all
  with safe f show ?thesis by simp
qed

lemma compile_human_Some:
  assumes "snd (compile_human rt env cid refs item) = Some c"
  shows "cc_id c = cid \<and> cc_refs c = refs \<and> executable_criterion rt env c"
  using assms
  by (auto simp: compile_human_def executable_criterion_def bare_criterion_def Let_def
      dest!: compile_human_test_Inr split: sum.splits)

lemma compile_template_Some:
  assumes "snd (compile_template rt env cid refs item) = Some c"
  shows "cc_id c = cid \<and> cc_refs c = refs \<and> executable_criterion rt env c"
  using assms
  by (auto simp: compile_template_def executable_criterion_def bare_criterion_def Let_def
      split: option.splits if_splits)

lemma compile_criterion_branch:
  assumes "snd (compile_criterion rt env reqs e) = Some c"
  shows "\<exists>item r rest. (\<forall>x \<in> set (sorted_set (r # rest)). x \<in> set reqs) \<and>
     compile_criterion rt env reqs e \<in>
       {compile_given rt env (fst e) (sorted_set (r # rest)) item,
        compile_measure rt env (fst e) (sorted_set (r # rest)) item,
        compile_human rt env (fst e) (sorted_set (r # rest)) item,
        compile_template rt env (fst e) (sorted_set (r # rest)) item}"
proof -
  from assms obtain item where i: "as_mapping (snd e) = Some item"
    by (cases "as_mapping (snd e)") (simp_all add: compile_criterion_def)
  with assms obtain rs where rs: "dget item ''requirement_refs'' = JList rs"
    by (cases "dget item ''requirement_refs''") (simp_all add: compile_criterion_def)
  with assms i obtain ss where ss: "strings_of rs = Some ss"
    by (cases "strings_of rs") (simp_all add: compile_criterion_def Let_def)
  with assms i rs obtain r rest where "ss = r # rest"
    by (cases ss) (simp_all add: compile_criterion_def Let_def)
  with ss have r: "strings_of rs = Some (r # rest)" by simp
  from assms i rs r have known: "filter (\<lambda>x. x \<notin> set reqs) (sorted_set (r # rest)) = []"
    by (simp add: compile_criterion_def Let_def split: if_splits)
  from assms i rs r known obtain f where f: "selected_forms item = [f]"
    by (cases "selected_forms item") (auto simp: compile_criterion_def Let_def split: list.splits form.splits)
  from known have k: "\<forall>x \<in> set (sorted_set (r # rest)). x \<in> set reqs"
    by (simp add: filter_empty_conv)
  have "compile_criterion rt env reqs e =
     (case f of Given_when_then \<Rightarrow> compile_given rt env (fst e) (sorted_set (r # rest)) item
      | Measure \<Rightarrow> compile_measure rt env (fst e) (sorted_set (r # rest)) item
      | Human_form \<Rightarrow> compile_human rt env (fst e) (sorted_set (r # rest)) item
      | Satisfied_by_template \<Rightarrow> compile_template rt env (fst e) (sorted_set (r # rest)) item)"
    by (simp add: compile_criterion_def Let_def i rs r known f split: form.splits)
  with k show ?thesis by (cases f) (auto simp del: set_sorted_set)
qed

lemma compile_criterion_Some:
  assumes "snd (compile_criterion rt env reqs e) = Some c"
  shows "cc_id c = fst e \<and> cc_refs c \<noteq> [] \<and> set (cc_refs c) \<subseteq> set reqs
    \<and> executable_criterion rt env c"
proof -
  obtain item r rest where
    known: "\<forall>x \<in> set (sorted_set (r # rest)). x \<in> set reqs"
    and form: "compile_criterion rt env reqs e \<in>
       {compile_given rt env (fst e) (sorted_set (r # rest)) item,
        compile_measure rt env (fst e) (sorted_set (r # rest)) item,
        compile_human rt env (fst e) (sorted_set (r # rest)) item,
        compile_template rt env (fst e) (sorted_set (r # rest)) item}"
    using compile_criterion_branch [OF assms] by blast
  from form assms have "cc_id c = fst e \<and> cc_refs c = sorted_set (r # rest) \<and> executable_criterion rt env c"
    using compile_given_Some [of rt env "fst e" "sorted_set (r # rest)" item c]
      compile_measure_Some [of rt env "fst e" "sorted_set (r # rest)" item c]
      compile_human_Some [of rt env "fst e" "sorted_set (r # rest)" item c]
      compile_template_Some [of rt env "fst e" "sorted_set (r # rest)" item c]
    by auto
  with known show ?thesis by (auto simp del: set_sorted_set)
qed

lemma compile_criteria_mem:
  "c \<in> set (snd (compile_criteria rt env reqs es)) \<Longrightarrow>
     \<exists>e \<in> set es. snd (compile_criterion rt env reqs e) = Some c"
proof (induction es)
  case (Cons e es)
  then show ?case
    by (cases "compile_criterion rt env reqs e"; cases "compile_criteria rt env reqs es")
      (auto split: option.splits)
qed simp

lemma compile_criteria_ids:
  "subseq (map cc_id (snd (compile_criteria rt env reqs es))) (map fst es)"
proof (induction es)
  case (Cons e es)
  then show ?case
    using compile_criterion_Some [of rt env reqs e]
    by (cases "compile_criterion rt env reqs e"; cases "compile_criteria rt env reqs es")
      (auto split: option.splits)
qed simp

lemma compile_plan_Inr:
  assumes "compile_acceptance_plan rt env contract = Inr p"
  obtains reqs_raw crit_raw :: obj where
    "reqs_raw \<noteq> []" "pl_requirements p = sort (map fst reqs_raw)"
    "pl_criteria p = snd (compile_criteria rt env (pl_requirements p) (sort_key fst crit_raw))"
    "uncovered (pl_requirements p) (pl_criteria p) = []"
    "pl_tasks p = build_tasks (pl_requirements p)"
    "pl_trusted p = sort (ce_trusted env)"
    "pl_contract p = canonical_digest rt (JObj contract)"
    "pl_digest p = canonical_digest rt (plan_shell (pl_contract p) (pl_requirements p) (pl_tasks p)
       (pl_criteria p) (pl_trusted p))"
proof -
  note defs = compile_acceptance_plan_def Let_def missing_collection_def case_prod_beta
  let ?R = "snd (id_keyed_collection (dget contract ''functional_requirements'') ''requirement'')"
  let ?C = "snd (id_keyed_collection (dget contract ''acceptance_criteria'') ''criterion'')"
  from assms obtain reqs_raw where R1: "?R = Some reqs_raw" by (cases ?R) (simp_all add: defs)
  with assms have R2: "reqs_raw \<noteq> []" by (cases reqs_raw) (simp_all add: defs)
  from assms obtain crit_raw where C1: "?C = Some crit_raw" by (cases ?C) (simp_all add: defs)
  with assms have C2: "crit_raw \<noteq> []" by (cases crit_raw) (simp_all add: defs)
  have mc: "missing_collection (Some xs) d = ([], xs)" if "xs \<noteq> []" for xs d
    using that by (cases xs) (simp_all add: missing_collection_def)
  show thesis
    using assms R1 R2 C1 C2
    by (intro that [of reqs_raw crit_raw])
      (auto simp: compile_acceptance_plan_def Let_def case_prod_beta mc simp del: sort_key_simps
        split: if_splits)
qed

section \<open>Contradiction diagnostics\<close>

lemma compile_assertion_code:
  "compile_assertion rt cid field i raw = Inl d \<Longrightarrow> dg_code d \<noteq> ''CONTRADICTORY_ASSERTIONS''"
  by (auto simp: compile_assertion_def diag_def Let_def split: option.splits json.splits if_splits)

lemma compile_each_code:
  "d \<in> set (fst (compile_each rt cid field i xs)) \<Longrightarrow> dg_code d \<noteq> ''CONTRADICTORY_ASSERTIONS''"
proof (induction xs arbitrary: i)
  case (Cons x xs)
  note IH = Cons.IH [of "Suc i"]
  show ?case
    using Cons.prems IH compile_assertion_code [of rt cid field i x]
    by (cases "compile_each rt cid field (Suc i) xs"; cases "compile_assertion rt cid field i x") auto
qed simp

lemma wf_dget: "wf_json (JObj d) \<Longrightarrow> wf_json (dget d k)"
  by (fastforce simp: dget_def dest: map_of_SomeD split: option.splits)

lemma compile_assertion_value:
  assumes "compile_assertion rt cid field i raw = Inr a" "wf_json raw"
  shows "wf_json (pa_value a)"
proof -
  from assms(1) obtain item where i: "as_mapping raw = Some item"
    by (cases "as_mapping raw") (simp_all add: compile_assertion_def Let_def)
  with assms(1) obtain p where p: "dget item ''path'' = JStr p"
    by (cases "dget item ''path''") (simp_all add: compile_assertion_def Let_def)
  from assms(1) have "pa_value a = dget item ''value''"
    by (auto simp: compile_assertion_def Let_def i p split: option.splits if_splits)
  moreover from i have "raw = JObj item" by (cases raw) (simp_all add: as_mapping_def)
  ultimately show ?thesis using assms(2) wf_dget by simp
qed

lemma compile_each_values:
  "a \<in> set (snd (compile_each rt cid field i xs)) \<Longrightarrow> \<forall>x \<in> set xs. wf_json x \<Longrightarrow> wf_json (pa_value a)"
proof (induction xs arbitrary: i)
  case (Cons x xs)
  note IH = Cons.IH [of "Suc i"]
  show ?case
    using Cons.prems IH compile_assertion_value [of rt cid field i x]
    by (cases "compile_each rt cid field (Suc i) xs"; cases "compile_assertion rt cid field i x") auto
qed simp

lemma assertions_contradictory:
  assumes "d \<in> set (fst (assertions rt raw cid field))" "dg_code d = ''CONTRADICTORY_ASSERTIONS''"
  shows "contradiction_diags rt cid field (snd (assertions rt raw cid field)) \<noteq> []"
  by (rule assertions_cases [of rt raw cid field]) (use assms compile_each_code in force)+

lemma assertions_values:
  assumes "a \<in> set (snd (assertions rt raw cid field))" "wf_json raw"
  shows "wf_json (pa_value a)"
proof (cases "\<exists>x xs. raw = JList (x # xs)")
  case True
  with assms compile_each_values show ?thesis
    by (fastforce simp: assertions_def case_prod_beta Let_def simp del: compile_each.simps)
next
  case False
  then have "snd (assertions rt raw cid field) = []"
    by (simp add: assertions_def split: json.split list.split)
  with assms show ?thesis by simp
qed

text \<open>The values the assertions read in a document: what sits at their paths.\<close>

definition observed :: "json \<Rightarrow> property_assertion list \<Rightarrow> json set" where
  "observed v as = {x. \<exists>a \<in> set as. path_get v (pa_path a) = Some x} \<union> pa_value ` set as"

lemma walk_wf: "walk v ps = Some x \<Longrightarrow> wf_json v \<Longrightarrow> wf_json x"
proof (induction v ps rule: walk.induct)
  case (2 d p ps)
  then show ?case
    by (fastforce dest: map_of_SomeD split: option.splits)
qed auto

lemma starts_with_append: "starts_with p s \<Longrightarrow> \<exists>t. s = p @ t"
  by (metis append_take_drop_id starts_with_def)

lemma no_contradiction_when_all_pass:
  assumes cf: "canonical_fn (canonical_digest rt)"
    and col: "collision_free (canonical_digest rt) (observed v as)"
    and wf: "wf_json v" "\<forall>a \<in> set as. wf_assertion rt a \<and> wf_json (pa_value a)"
    and pass: "\<forall>a \<in> set as. assertion_passes rt a v"
  shows "contradiction_diags rt cid field as = []"
proof -
  have val: "\<exists>x. path_get v (pa_path a) = Some x \<and> literal_satisfies rt a x" if "a \<in> set as" for a
    using that pass wf(2) assertion_passes_literal [of rt a v] by (auto split: option.splits)
  have same_path: "\<not> assertion_set_contradictory rt (filter (\<lambda>a. pa_path a = p) as)"
    if "p \<in> set (map pa_path as)" for p
  proof -
    from that val obtain x where x: "path_get v p = Some x" by fastforce
    show ?thesis
    proof (rule set_contradictory_sound [OF cf, of x])
      show "collision_free (canonical_digest rt) (compared x (filter (\<lambda>a. pa_path a = p) as))"
        by (rule collision_free_subset [OF col])
          (use x that in \<open>auto simp: compared_def observed_def\<close>)
      show "\<forall>a \<in> set (filter (\<lambda>a. pa_path a = p) as). literal_satisfies rt a x"
        using val x by fastforce
    qed
  qed
  have below: "\<not> ancestor_contradicts_descendant rt anc a"
    if "anc \<in> set as" "a \<in> set as" "starts_with (pa_path anc @ ''.'') (pa_path a)" for anc a
  proof -
    from starts_with_append [OF that(3)] obtain s where s: "pa_path a = pa_path anc @ ''.'' @ s" by auto
    from val [OF that(1)] obtain u where u: "path_get v (pa_path anc) = Some u" "literal_satisfies rt anc u"
      by blast
    from val [OF that(2)] obtain w where w: "path_get v (pa_path a) = Some w" "literal_satisfies rt a w"
      by blast
    have "walk u (split_on (CHR ''.'') s) = Some w"
      using w(1) u(1) path_get_below [of v "pa_path anc" s] by (simp add: s)
    moreover have "collision_free (canonical_digest rt) {u, pa_value anc}"
      by (rule collision_free_subset [OF col]) (use u(1) that(1) in \<open>auto simp: observed_def\<close>)
    moreover have "wf_json u" using walk_wf u(1) wf(1) by (simp add: path_get_def)
    ultimately show ?thesis
      using ancestor_sound [OF cf _ _ _ s u(2)] w(2) wf(2) that(1) by blast
  qed
  have "find (\<lambda>p. assertion_set_contradictory rt (filter (\<lambda>a. pa_path a = p) as))
      (sorted_set (map pa_path as)) = None"
    using same_path by (simp add: find_None_iff)
  moreover have "find (\<lambda>anc. list_ex (ancestor_contradicts_descendant rt anc)
      (filter (\<lambda>a. starts_with (pa_path anc @ ''.'') (pa_path a)) as)) as = None"
    using below by (auto simp: find_None_iff list_ex_iff)
  ultimately show ?thesis by (simp add: contradiction_diags_def)
qed

section \<open>The plan as a whole\<close>

lemma uncovered_Nil: "uncovered reqs cs = [] \<longleftrightarrow> set reqs \<subseteq> (\<Union>c \<in> set cs. set (cc_refs c))"
  by (auto simp: uncovered_def filter_empty_conv)

lemma build_tasks_requirements [simp]: "map bt_requirement (build_tasks reqs) = reqs"
  by (simp add: build_tasks_def case_prod_beta comp_def map_snd_zip [unfolded comp_def])

lemma compiled_member:
  assumes "compile_acceptance_plan rt env contract = Inr p" "c \<in> set (pl_criteria p)"
  shows "cc_refs c \<noteq> [] \<and> set (cc_refs c) \<subseteq> set (pl_requirements p) \<and> executable_criterion rt env c"
proof -
  from assms(1) obtain reqs_raw crit_raw :: obj where
    "pl_criteria p = snd (compile_criteria rt env (pl_requirements p) (sort_key fst crit_raw))"
    by (rule compile_plan_Inr)
  with assms(2) compile_criteria_mem obtain e where
    "snd (compile_criterion rt env (pl_requirements p) e) = Some c" by metis
  then show ?thesis using compile_criterion_Some by blast
qed

lemma sorted_subseq:
  fixes ys :: "'a::linorder list"
  shows "subseq xs ys \<Longrightarrow> sorted ys \<Longrightarrow> sorted xs"
  by (induction rule: list_emb.induct) (auto dest: list_emb_set)

lemma compiled_ids_sorted:
  assumes "compile_acceptance_plan rt env contract = Inr p"
  shows "sorted (map cc_id (pl_criteria p))"
proof -
  from assms obtain reqs_raw crit_raw :: obj where
    "pl_criteria p = snd (compile_criteria rt env (pl_requirements p) (sort_key fst crit_raw))"
    by (rule compile_plan_Inr)
  then have "subseq (map cc_id (pl_criteria p)) (map fst (sort_key fst crit_raw))"
    using compile_criteria_ids by metis
  then show ?thesis by (rule sorted_subseq) simp
qed

lemma canon_strs_json [simp]: "canon (strs_json xs) = canon (strs_json ys) \<longleftrightarrow> xs = ys"
  by (simp add: strs_json_def inj_map_eq_map inj_def)

lemma canon_pairs_json:
  "map (canon \<circ> pair_json) xs = map (canon \<circ> pair_json) ys \<longleftrightarrow> xs = ys"
  by (rule inj_map_eq_map) (auto simp: inj_def pair_json_def)

lemma plan_shell_inject:
  assumes "canon (plan_shell c r t cs tr) = canon (plan_shell c' r' t' cs' tr')"
  shows "c = c' \<and> r = r' \<and> tr = tr' \<and> map (canon \<circ> criterion_json) cs = map (canon \<circ> criterion_json) cs'"
proof -
  note at_key = canon_obj_lookup [OF assms [unfolded plan_shell_def]]
  have "c = c'" using at_key [of "''contract_digest''"] by simp
  moreover have "r = r'" using at_key [of "''requirements''"] by simp
  moreover have "tr = tr'" using at_key [of "''trusted_test_digests''"] canon_pairs_json by simp
  moreover have "map (canon \<circ> criterion_json) cs = map (canon \<circ> criterion_json) cs'"
    using at_key [of "''criteria''"] by simp
  ultimately show ?thesis by blast
qed

section \<open>Properties\<close>

text \<open>
  C11. Whenever the compiler reports contradictory assertions, the assertions it compiled can
  not all pass at run time: for every well-formed document some compiled assertion fails,
  as long as the digests of the values involved do not collide.
\<close>

theorem contradiction_is_unsatisfiable:
  assumes "canonical_fn (canonical_digest rt)" "wf_json raw" "wf_json v"
    and "collision_free (canonical_digest rt) (observed v (snd (assertions rt raw cid field)))"
    and "d \<in> set (fst (assertions rt raw cid field))" "dg_code d = ''CONTRADICTORY_ASSERTIONS''"
  shows "\<exists>a \<in> set (snd (assertions rt raw cid field)). \<not> assertion_passes rt a v"
proof (rule ccontr)
  assume "\<not> ?thesis"
  then have "contradiction_diags rt cid field (snd (assertions rt raw cid field)) = []"
    using assms assertions_wf assertions_values
    by (intro no_contradiction_when_all_pass [of rt v]) blast+
  with assertions_contradictory assms(5,6) show False by blast
qed

definition clash :: json where
  "clash = JList [JObj [(''path'', JStr ''a''), (''operator'', JStr ''eq''), (''value'', JInt 1)],
                  JObj [(''path'', JStr ''a''), (''operator'', JStr ''eq''), (''value'', JInt 2)]]"

lemma assertions_clash:
  "assertions (sample_runtime [JInt 1, JInt 2]) clash ''AC-1'' ''then'' =
     ([diag ''CONTRADICTORY_ASSERTIONS'' ''AC-1'' ''then contains incompatible assertions for a''],
      [\<lparr>pa_path = ''a'', pa_operator = EQ, pa_value = JInt 1\<rparr>,
       \<lparr>pa_path = ''a'', pa_operator = EQ, pa_value = JInt 2\<rparr>])"
  by code_simp

theorem contradiction_is_unsatisfiable_witness:
  "\<exists>a \<in> set (snd (assertions (sample_runtime [JInt 1, JInt 2]) clash ''AC-1'' ''then'')).
     \<not> assertion_passes (sample_runtime [JInt 1, JInt 2]) a (JObj [(''a'', JInt 1)])"
proof (rule contradiction_is_unsatisfiable)
  show "collision_free (canonical_digest (sample_runtime [JInt 1, JInt 2])) (observed (JObj [(''a'', JInt 1)])
      (snd (assertions (sample_runtime [JInt 1, JInt 2]) clash ''AC-1'' ''then'')))"
    by (rule sample_collision_free) (auto simp: assertions_clash observed_def path_get_def)
  show "diag ''CONTRADICTORY_ASSERTIONS'' ''AC-1'' ''then contains incompatible assertions for a''
      \<in> set (fst (assertions (sample_runtime [JInt 1, JInt 2]) clash ''AC-1'' ''then''))"
    by (simp add: assertions_clash)
qed (simp_all add: clash_def diag_def)

text \<open>
  C32. A contract compiles only if it is covered: the plan has at least one requirement, its
  requirements are exactly those its criteria refer to, in sorted order, and the build tasks
  are one per requirement in that order.
\<close>

theorem plan_covers_requirements:
  assumes "compile_acceptance_plan rt env contract = Inr p"
  shows "pl_requirements p \<noteq> [] \<and> sorted (pl_requirements p)
    \<and> set (pl_requirements p) = (\<Union>c \<in> set (pl_criteria p). set (cc_refs c))
    \<and> map bt_requirement (pl_tasks p) = pl_requirements p"
proof -
  from assms obtain reqs_raw crit_raw :: obj where
    r: "reqs_raw \<noteq> []" "pl_requirements p = sort (map fst reqs_raw)"
    and u: "uncovered (pl_requirements p) (pl_criteria p) = []"
    and t: "pl_tasks p = build_tasks (pl_requirements p)"
    by (rule compile_plan_Inr)
  have "pl_requirements p \<noteq> []"
    using r by (metis length_0_conv length_map length_sort)
  moreover have "sorted (pl_requirements p)" by (simp add: r(2))
  moreover have "(\<Union>c \<in> set (pl_criteria p). set (cc_refs c)) \<subseteq> set (pl_requirements p)"
    using compiled_member [OF assms] by blast
  ultimately show ?thesis
    using u t by (simp add: uncovered_Nil subset_antisym)
qed

definition sample_contract :: "json \<Rightarrow> obj" where
  "sample_contract limit =
     [(''functional_requirements'', JObj [(''FR-1'', JNull)]),
      (''acceptance_criteria'', JObj [(''AC-1'', JObj
         [(''requirement_refs'', JList [JStr ''FR-1'']),
          (''given'', JList [JObj [(''path'', JStr ''name''), (''operator'', JStr ''not_null'')]]),
          (''when'', JObj [(''action'', JStr ''greet'')]),
          (''then'', JList [JObj [(''path'', JStr ''count''), (''operator'', JStr ''lte''),
                                  (''value'', limit)]])])])]"

definition sample_env :: compile_env where
  "sample_env = \<lparr>ce_actions = [''greet''], ce_version = ''v1'', ce_proofs = [], ce_measures = [],
     ce_trusted = [(''t'', ''d'')], ce_repo = (\<lambda>_. None)\<rparr>"

definition sample_criterion :: "json \<Rightarrow> criterion" where
  "sample_criterion limit = (bare_criterion ''AC-1'' [''FR-1''] Given_when_then)
     \<lparr>cc_given := [\<lparr>pa_path = ''name'', pa_operator = NOT_NULL, pa_value = JNull\<rparr>],
      cc_when := Some \<lparr>ac_action = ''greet'', ac_arguments = []\<rparr>,
      cc_then := [\<lparr>pa_path = ''count'', pa_operator = LTE, pa_value = limit\<rparr>]\<rparr>"

definition sample_plan :: "runtime \<Rightarrow> json \<Rightarrow> plan" where
  "sample_plan rt limit =
     (let tasks = [\<lparr>bt_id = ''TASK-001'', bt_requirement = ''FR-1''\<rparr>];
          cd = canonical_digest rt (JObj (sample_contract limit))
      in \<lparr>pl_contract = cd, pl_requirements = [''FR-1''], pl_tasks = tasks,
          pl_criteria = [sample_criterion limit], pl_trusted = [(''t'', ''d'')],
          pl_digest = canonical_digest rt (plan_shell cd [''FR-1''] tasks [sample_criterion limit] [(''t'', ''d'')])\<rparr>)"

lemma sample_compiles:
  "compile_acceptance_plan (sample_runtime []) sample_env (sample_contract (JInt 5))
     = Inr (sample_plan (sample_runtime []) (JInt 5))"
  by code_simp

lemma sample_compiles_float:
  "compile_acceptance_plan (sample_runtime []) sample_env (sample_contract (JFloat 5))
     = Inr (sample_plan (sample_runtime []) (JFloat 5))"
  by code_simp

theorem plan_covers_requirements_witness:
  "set (pl_requirements (sample_plan (sample_runtime []) (JInt 5))) =
     (\<Union>c \<in> set (pl_criteria (sample_plan (sample_runtime []) (JInt 5))). set (cc_refs c))"
  using plan_covers_requirements [OF sample_compiles] by simp

text \<open>
  Every criterion of a compiled plan is executable in its one form (registered action,
  measure or template proof, an existing test file bound by its digest, assertions that are
  well formed and free of detected contradictions), names known requirements only, and the
  criteria stand in the order of their ids.
\<close>

theorem plan_criteria_executable:
  assumes "compile_acceptance_plan rt env contract = Inr p"
  shows "sorted (map cc_id (pl_criteria p)) \<and>
    (\<forall>c \<in> set (pl_criteria p). executable_criterion rt env c
       \<and> cc_refs c \<noteq> [] \<and> set (cc_refs c) \<subseteq> set (pl_requirements p))"
  using compiled_ids_sorted [OF assms] compiled_member [OF assms] by blast

theorem plan_criteria_executable_witness:
  "executable_criterion (sample_runtime []) sample_env (sample_criterion (JInt 5))"
  using plan_criteria_executable [OF sample_compiles] by (simp add: sample_plan_def Let_def)

text \<open>
  The plan digest seals the plan: two compilations with the same plan digest have the
  same contract digest, requirements, tasks and trusted test digests, and their criteria have
  the same canonical form, as long as the digests of the two sealed dictionaries do not
  collide.
\<close>

theorem plan_digest_seals:
  assumes "compile_acceptance_plan rt env contract = Inr p"
    and "compile_acceptance_plan rt env' contract' = Inr q"
    and "collision_free (canonical_digest rt)
      {plan_shell (pl_contract p) (pl_requirements p) (pl_tasks p) (pl_criteria p) (pl_trusted p),
       plan_shell (pl_contract q) (pl_requirements q) (pl_tasks q) (pl_criteria q) (pl_trusted q)}"
    and "pl_digest p = pl_digest q"
  shows "pl_contract p = pl_contract q \<and> pl_requirements p = pl_requirements q
    \<and> pl_tasks p = pl_tasks q \<and> pl_trusted p = pl_trusted q
    \<and> map (canon \<circ> criterion_json) (pl_criteria p) = map (canon \<circ> criterion_json) (pl_criteria q)"
proof -
  have tasks: "pl_tasks p = build_tasks (pl_requirements p)" "pl_tasks q = build_tasks (pl_requirements q)"
    using compile_plan_Inr [OF assms(1)] compile_plan_Inr [OF assms(2)] by metis+
  have dp: "pl_digest p = canonical_digest rt (plan_shell (pl_contract p) (pl_requirements p) (pl_tasks p)
       (pl_criteria p) (pl_trusted p))"
    by (rule compile_plan_Inr [OF assms(1)])
  have dq: "pl_digest q = canonical_digest rt (plan_shell (pl_contract q) (pl_requirements q) (pl_tasks q)
       (pl_criteria q) (pl_trusted q))"
    by (rule compile_plan_Inr [OF assms(2)])
  have "canon (plan_shell (pl_contract p) (pl_requirements p) (pl_tasks p) (pl_criteria p) (pl_trusted p))
      = canon (plan_shell (pl_contract q) (pl_requirements q) (pl_tasks q) (pl_criteria q) (pl_trusted q))"
    by (rule collision_freeD [OF assms(3)]) (use assms(4) dp dq in auto)
  from plan_shell_inject [OF this] tasks show ?thesis by simp
qed

lemma canon_obj_cong:
  "map (\<lambda>(k, v). (k, canon v)) d = map (\<lambda>(k, v). (k, canon v)) e \<Longrightarrow> canon (JObj d) = canon (JObj e)"
  by simp

lemma sample_criterion_canon:
  "canon (criterion_json (sample_criterion (JInt 5))) = canon (criterion_json (sample_criterion (JFloat 5)))"
proof -
  have "canon (assertion_json \<lparr>pa_path = ''count'', pa_operator = LTE, pa_value = JInt 5\<rparr>)
      = canon (assertion_json \<lparr>pa_path = ''count'', pa_operator = LTE, pa_value = JFloat 5\<rparr>)"
    unfolding assertion_json_def by (rule canon_obj_cong) simp
  then show ?thesis
    unfolding criterion_json_def
    by (intro canon_obj_cong) (simp add: sample_criterion_def bare_criterion_def)
qed

theorem plan_digest_seals_witness:
  "sample_plan (sample_runtime []) (JInt 5) \<noteq> sample_plan (sample_runtime []) (JFloat 5)
   \<and> map (canon \<circ> criterion_json) (pl_criteria (sample_plan (sample_runtime []) (JInt 5)))
     = map (canon \<circ> criterion_json) (pl_criteria (sample_plan (sample_runtime []) (JFloat 5)))"
proof -
  let ?p = "sample_plan (sample_runtime []) (JInt 5)" and ?q = "sample_plan (sample_runtime []) (JFloat 5)"
  let ?sh = "\<lambda>p. plan_shell (pl_contract p) (pl_requirements p) (pl_tasks p) (pl_criteria p) (pl_trusted p)"
  have dig: "canonical_digest (sample_runtime []) x = canonical_digest (sample_runtime []) y" for x y
    by (simp only: sample_digest index_digest_def takeWhile.simps list.size replicate.simps)
  then have "pl_digest ?p = pl_digest ?q" "pl_contract ?p = pl_contract ?q"
    by (simp_all add: sample_plan_def Let_def)
  moreover have "canon (?sh ?p) = canon (?sh ?q)"
    unfolding plan_shell_def using calculation(2) sample_criterion_canon
    by (intro canon_obj_cong) (simp add: sample_plan_def Let_def)
  then have "collision_free (canonical_digest (sample_runtime [])) {?sh ?p, ?sh ?q}"
    unfolding collision_free_def by auto
  moreover have "?p \<noteq> ?q"
    by (simp add: sample_plan_def Let_def sample_criterion_def bare_criterion_def)
  ultimately show ?thesis
    using plan_digest_seals [OF sample_compiles sample_compiles_float] by blast
qed

text \<open>
  C33. The evaluator that runs a compiled assertion and the evaluator the compiler reasons with
  agree: an assertion passes on a document exactly when the value at its path exists and
  satisfies it.
\<close>

theorem evaluators_agree:
  assumes "a \<in> set (snd (assertions rt raw cid field))"
  shows "assertion_passes rt a v =
    (case path_get v (pa_path a) of None \<Rightarrow> False | Some x \<Rightarrow> literal_satisfies rt a x)"
  by (rule assertion_passes_literal) (use assertions_wf [OF assms] in blast)

theorem evaluators_agree_witness:
  "assertion_passes (sample_runtime [JInt 1, JInt 2])
     \<lparr>pa_path = ''a'', pa_operator = EQ, pa_value = JInt 2\<rparr> (JObj [(''a'', JFloat 2)])"
proof -
  have "\<lparr>pa_path = ''a'', pa_operator = EQ, pa_value = JInt 2\<rparr> \<in>
      set (snd (assertions (sample_runtime [JInt 1, JInt 2]) clash ''AC-1'' ''then''))"
    by (simp add: assertions_clash)
  from evaluators_agree [OF this, of "JObj [(''a'', JFloat 2)]"] show ?thesis
    by (simp add: path_get_def literal_satisfies_def sample_digest index_digest_def)
qed

end
