(* ===== verification/Ledger.thy ===== *)
theory Ledger
  imports Canonical
begin

text \<open>
  The evidence ledger, \<^verbatim>\<open>src/pmpe/evidence/ledger.py\<close>: a content-addressed blob store and
  one append-only, hash-chained event file per run. A handle is the \<^verbatim>\<open>EvidenceLedger\<close>
  object, the state is what the code keeps on disk: the event file of the run and the blobs
  directory. Reads and writes that fail for reasons outside the program (\<^verbatim>\<open>OSError\<close>) are
  not modelled; a missing file is.

  Two interfaces are stated as locales: a content-addressed store and a hash chain. They are
  interpreted on the ledger's own operations below.
\<close>

section \<open>State\<close>

datatype ledger_error =
    Integrity string    \<comment> \<open>\<^verbatim>\<open>EvidenceIntegrityError\<close>\<close>
  | Bad_value string    \<comment> \<open>\<^verbatim>\<open>ValueError\<close>\<close>
  | Timed_out string    \<comment> \<open>\<^verbatim>\<open>TimeoutError\<close>\<close>

record ledger_fs =
  lf_events :: "bytes option"
  lf_blobs :: "string \<Rightarrow> bytes option"

record ledger =
  lg_run_id :: string
  lg_read_only :: bool
  lg_max_read :: "nat option"
  lg_max_total :: "nat option"

definition genesis_digest :: string where
  "genesis_digest = ''sha256:'' @ replicate 64 (CHR ''0'')"

definition event_fields :: "string list" where
  "event_fields = [''schema_version'', ''run_id'', ''sequence'', ''previous_digest'', ''event_type'',
     ''state'', ''subject_digest'', ''blob_digests'', ''payload'', ''event_digest'']"

definition frozen_states :: "string list" where
  "frozen_states = [''VALIDATED'', ''BUILDING'', ''VERIFYING'', ''RELEASE_READY'', ''HALTED'', ''STOPPED'']"

definition terminal_states :: "string list" where
  "terminal_states = [''RELEASE_READY'', ''HALTED'', ''STOPPED'']"

section \<open>Schema\<close>

definition is_digest :: "json \<Rightarrow> bool" where
  "is_digest v = (case v of JStr s \<Rightarrow> is_digest_str s | _ \<Rightarrow> False)"

definition run_id_tail_char :: "char \<Rightarrow> bool" where
  "run_id_tail_char c \<longleftrightarrow> is_alnum_ascii c \<or> c = CHR ''.'' \<or> c = CHR ''_'' \<or> c = CHR ''-''"

definition valid_run_id :: "string \<Rightarrow> bool" where
  "valid_run_id s = (case s of [] \<Rightarrow> False
     | c # cs \<Rightarrow> is_alnum_ascii c \<and> length cs \<le> 127 \<and> list_all run_id_tail_char cs)"

definition str_of :: "json \<Rightarrow> string" where
  "str_of v = (case v of JStr s \<Rightarrow> s | _ \<Rightarrow> [])"

definition items_of :: "json \<Rightarrow> json list" where
  "items_of v = (case v of JList xs \<Rightarrow> xs | _ \<Rightarrow> [])"

definition is_list :: "json \<Rightarrow> bool" where
  "is_list v = (case v of JList _ \<Rightarrow> True | _ \<Rightarrow> False)"

text \<open>A sequence of \<^verbatim>\<open>if not cond: raise\<close>: the first failing check is the error.\<close>

fun check_all :: "(bool \<times> string) list \<Rightarrow> ledger_error + unit" where
  "check_all [] = Inr ()"
| "check_all ((ok, msg) # rest) = (if ok then check_all rest else Inl (Integrity msg))"

definition event_checks :: "obj \<Rightarrow> (bool \<times> string) list" where
  "event_checks event =
     [(set (map fst event) = set event_fields, ''event fields do not match schema version 1.0.0''),
      (dget event ''schema_version'' = JStr ''1.0.0'', ''event schema_version is unsupported''),
      (is_str (dget event ''run_id'') \<and> valid_run_id (str_of (dget event ''run_id'')),
         ''event run_id is malformed''),
      ((case dget event ''sequence'' of JInt n \<Rightarrow> n \<ge> 1 | _ \<Rightarrow> False), ''event sequence is malformed''),
      (is_digest (dget event ''previous_digest''), ''event previous_digest is malformed''),
      (nonempty_str (dget event ''event_type''), ''event event_type is malformed''),
      (is_str (dget event ''state'') \<and> str_of (dget event ''state'') \<in> set frozen_states,
         ''event state is not a frozen core state''),
      (is_digest (dget event ''subject_digest''), ''event subject_digest is malformed''),
      (is_list (dget event ''blob_digests''), ''event blob_digests must be a list''),
      (list_all is_digest (items_of (dget event ''blob_digests'')),
         ''event blob_digests contain a malformed digest''),
      (items_of (dget event ''blob_digests'') =
         map JStr (sorted_set (map str_of (items_of (dget event ''blob_digests'')))),
         ''event blob_digests must be sorted and unique''),
      (as_mapping (dget event ''payload'') \<noteq> None, ''event payload must be an object''),
      (is_digest (dget event ''event_digest''), ''event event_digest is malformed'')]"

definition validate_event_schema :: "obj \<Rightarrow> ledger_error + unit" where
  "validate_event_schema event = check_all (event_checks event)"

section \<open>Blobs\<close>

definition blob_name :: "string \<Rightarrow> string" where
  "blob_name digest = remove_prefix ''sha256:'' digest"

text \<open>
  The temporary file of \<^verbatim>\<open>put_blob\<close> is gone when it returns and linking is atomic, so what
  remains of it is the new entry.
\<close>

definition put_blob :: "runtime \<Rightarrow> ledger \<Rightarrow> ledger_fs \<Rightarrow> bytes \<Rightarrow> ledger_error + (string \<times> ledger_fs)" where
  "put_blob rt lg fs payload =
     (if lg_read_only lg then Inl (Integrity ''an inspection ledger is read-only'')
      else let digest = sha256_digest rt payload; name = blob_name digest in
        case lf_blobs fs name of
          Some b \<Rightarrow> (if b \<noteq> payload then Inl (Integrity ''content-addressed blob does not match its name'')
                    else Inr (digest, fs))
        | None \<Rightarrow> Inr (digest, fs\<lparr>lf_blobs := (lf_blobs fs)(name \<mapsto> payload)\<rparr>))"

definition read_bounded :: "ledger \<Rightarrow> bytes \<Rightarrow> string \<Rightarrow> ledger_error + bytes" where
  "read_bounded lg content description = (case lg_max_read lg of
      None \<Rightarrow> Inr content
    | Some limit \<Rightarrow> (if length content > limit then Inl (Integrity (description @ '' exceeds size limit''))
                    else Inr content))"

definition read_blob :: "runtime \<Rightarrow> ledger \<Rightarrow> ledger_fs \<Rightarrow> string \<Rightarrow> ledger_error + bytes" where
  "read_blob rt lg fs digest =
     (if \<not> is_digest_str digest then Inl (Integrity ''blob digest is malformed'')
      else case lf_blobs fs (drop 7 digest) of
        None \<Rightarrow> Inl (Integrity ''evidence blob does not exist'')
      | Some content \<Rightarrow>
          bindr (read_bounded lg content ''evidence blob'') (\<lambda>payload.
          if sha256_digest rt payload \<noteq> digest
          then Inl (Integrity ''blob content does not match its digest'') else Inr payload))"

section \<open>Verification\<close>

text \<open>\<^verbatim>\<open>bytes.splitlines()\<close>: lines end at LF, CR or CR LF; no empty last line.\<close>

definition LF :: char where "LF = CHR 0x0A"
definition CR :: char where "CR = CHR 0x0D"

function lines_from :: "bytes \<Rightarrow> bytes \<Rightarrow> bytes list" where
  "lines_from cur [] = (if cur = [] then [] else [cur])"
| "lines_from cur (c # s) =
     (if c = LF then cur # lines_from [] s
      else if c = CR then cur # lines_from [] (case s of d # t \<Rightarrow> if d = LF then t else s | [] \<Rightarrow> [])
      else lines_from (cur @ [c]) s)"
  by pat_completeness auto
termination
  by (relation "measure (length \<circ> snd)") (auto split: list.split)

definition splitlines :: "bytes \<Rightarrow> bytes list" where
  "splitlines s = lines_from [] s"

text \<open>The variables of the loop in \<^verbatim>\<open>_verify_payload\<close>.\<close>

record verifier =
  vf_previous :: string
  vf_expected :: nat
  vf_total :: nat
  vf_counted :: "string list"

fun verify_blobs :: "runtime \<Rightarrow> ledger \<Rightarrow> ledger_fs \<Rightarrow> nat \<Rightarrow> string list \<Rightarrow> json list
    \<Rightarrow> ledger_error + (nat \<times> string list)" where
  "verify_blobs rt lg fs bytes_read counted [] = Inr (bytes_read, counted)"
| "verify_blobs rt lg fs bytes_read counted (JStr d # ds) =
     (if d \<in> set counted then verify_blobs rt lg fs bytes_read counted ds
      else case read_blob rt lg fs d of
        Inl _ \<Rightarrow> Inl (Integrity ''event references an invalid blob'')
      | Inr blob \<Rightarrow>
          (let bytes_read' = bytes_read + length blob in
           case lg_max_total lg of
             Some limit \<Rightarrow> (if bytes_read' > limit then Inl (Integrity ''evidence exceeds aggregate size limit'')
                           else verify_blobs rt lg fs bytes_read' (d # counted) ds)
           | None \<Rightarrow> verify_blobs rt lg fs bytes_read' (d # counted) ds))"
| "verify_blobs rt lg fs bytes_read counted (_ # ds) = Inl (Integrity ''event references a missing blob'')"

definition event_body :: "obj \<Rightarrow> obj" where
  "event_body event = ddel ''event_digest'' event"

definition chain_ok :: "runtime \<Rightarrow> verifier \<Rightarrow> bytes \<Rightarrow> obj \<Rightarrow> bool" where
  "chain_ok rt vf raw_line event \<longleftrightarrow>
     dget event ''sequence'' = JInt (int (vf_expected vf))
     \<and> dget event ''previous_digest'' = JStr (vf_previous vf)
     \<and> dget event ''event_digest'' = JStr (canonical_digest rt (JObj (event_body event)))
     \<and> raw_line = canonical_json_bytes rt (JObj event)"

definition verify_line :: "runtime \<Rightarrow> ledger \<Rightarrow> ledger_fs \<Rightarrow> verifier \<Rightarrow> bytes
    \<Rightarrow> ledger_error + (verifier \<times> obj)" where
  "verify_line rt lg fs vf raw_line =
     (case strict_loads rt raw_line ''application/json'' of
        Inl _ \<Rightarrow> Inl (Integrity ''event is not canonical JSON'')
      | Inr event \<Rightarrow>
          bindr (validate_event_schema event) (\<lambda>_.
          if \<not> chain_ok rt vf raw_line event then
            Inl (Integrity (''broken evidence chain at event '' @ show_nat (vf_expected vf)))
          else if dget event ''run_id'' \<noteq> JStr (lg_run_id lg) then
            Inl (Integrity (''event run_id mismatch at event '' @ show_nat (vf_expected vf)))
          else if \<not> is_list (dget event ''blob_digests'') then
            Inl (Integrity ''event blob_digests must be a list'')
          else bindr (verify_blobs rt lg fs (vf_total vf) (vf_counted vf)
                        (items_of (dget event ''blob_digests''))) (\<lambda>(bytes_read, counted).
            Inr (\<lparr>vf_previous = str_of (dget event ''event_digest''), vf_expected = Suc (vf_expected vf),
                  vf_total = bytes_read, vf_counted = counted\<rparr>, event))))"

fun verify_lines :: "runtime \<Rightarrow> ledger \<Rightarrow> ledger_fs \<Rightarrow> verifier \<Rightarrow> bytes list
    \<Rightarrow> ledger_error + (verifier \<times> obj list)" where
  "verify_lines rt lg fs vf [] = Inr (vf, [])"
| "verify_lines rt lg fs vf (l # ls) =
     bindr (verify_line rt lg fs vf l) (\<lambda>(vf', e).
     bindr (verify_lines rt lg fs vf' ls) (\<lambda>(vf'', es). Inr (vf'', e # es)))"

definition verify_payload :: "runtime \<Rightarrow> ledger \<Rightarrow> ledger_fs \<Rightarrow> bytes \<Rightarrow> ledger_error + obj list" where
  "verify_payload rt lg fs payload =
     bindr (verify_lines rt lg fs
        \<lparr>vf_previous = genesis_digest, vf_expected = 1, vf_total = length payload, vf_counted = []\<rparr>
        (splitlines payload)) (\<lambda>(_, es). Inr es)"

definition verify :: "runtime \<Rightarrow> ledger \<Rightarrow> ledger_fs \<Rightarrow> ledger_error + obj list" where
  "verify rt lg fs = (case lf_events fs of
      None \<Rightarrow> Inr []
    | Some content \<Rightarrow> bindr (read_bounded lg content ''evidence ledger'') (verify_payload rt lg fs))"

section \<open>Opening a ledger\<close>

definition new_ledger :: "runtime \<Rightarrow> ledger_fs \<Rightarrow> string \<Rightarrow> bool \<Rightarrow> ledger_error + (ledger \<times> ledger_fs)" where
  "new_ledger rt fs run_id resume =
     (if \<not> valid_run_id run_id then Inl (Bad_value ''run_id must be a bounded filesystem-safe identifier'')
      else let lg = \<lparr>lg_run_id = run_id, lg_read_only = False, lg_max_read = None, lg_max_total = None\<rparr> in
        if resume then
          (if lf_events fs = None then Inl (Integrity ''cannot resume a run without an evidence ledger'')
           else bindr (verify rt lg fs) (\<lambda>events.
             if events = [] then Inl (Integrity ''cannot resume an empty evidence ledger'')
             else if str_of (dget (last events) ''state'') \<in> set terminal_states
             then Inl (Integrity ''a terminal run cannot be resumed'')
             else Inr (lg, fs)))
        else
          (if lf_events fs \<noteq> None
           then Inl (Integrity ''run_id already has an evidence ledger; use a new run_id'')
           else Inr (lg, fs\<lparr>lf_events := Some []\<rparr>)))"

definition open_existing :: "runtime \<Rightarrow> ledger_fs \<Rightarrow> string \<Rightarrow> nat option \<Rightarrow> nat option
    \<Rightarrow> ledger_error + ledger" where
  "open_existing rt fs run_id max_read max_total =
     (if \<not> valid_run_id run_id then Inl (Bad_value ''run_id must be a bounded filesystem-safe identifier'')
      else let lg = \<lparr>lg_run_id = run_id, lg_read_only = True, lg_max_read = max_read,
                     lg_max_total = max_total\<rparr> in
        if lf_events fs = None then Inl (Integrity ''evidence ledger does not exist'')
        else bindr (verify rt lg fs) (\<lambda>_. Inr lg))"

section \<open>Appending\<close>

record event_request =
  er_type :: string
  er_state :: string
  er_subject :: string
  er_blobs :: "string list"
  er_payload :: obj

definition new_body :: "ledger \<Rightarrow> obj list \<Rightarrow> event_request \<Rightarrow> obj" where
  "new_body lg events rq =
     [(''schema_version'', JStr ''1.0.0''),
      (''run_id'', JStr (lg_run_id lg)),
      (''sequence'', JInt (int (length events + 1))),
      (''previous_digest'', if events = [] then JStr genesis_digest else dget (last events) ''event_digest''),
      (''event_type'', JStr (er_type rq)),
      (''state'', JStr (er_state rq)),
      (''subject_digest'', JStr (er_subject rq)),
      (''blob_digests'', JList (map JStr (sorted_set (er_blobs rq)))),
      (''payload'', JObj (er_payload rq))]"

definition new_event :: "runtime \<Rightarrow> ledger \<Rightarrow> obj list \<Rightarrow> event_request \<Rightarrow> obj" where
  "new_event rt lg events rq =
     new_body lg events rq @ [(''event_digest'', JStr (canonical_digest rt (JObj (new_body lg events rq))))]"

text \<open>
  The commit: without a deadline the line is appended. With one, the new file is published
  by a rename between two readings of the trusted clock, and the old file is put back when
  the second reading is late.
\<close>

definition commit :: "ledger_fs \<Rightarrow> bytes \<Rightarrow> bytes \<Rightarrow> obj \<Rightarrow> (rat \<times> rat \<times> rat) option
    \<Rightarrow> (ledger_error + obj) \<times> ledger_fs" where
  "commit fs current encoded event timing = (case timing of
      None \<Rightarrow> (Inr event, fs\<lparr>lf_events := Some (current @ encoded)\<rparr>)
    | Some (deadline, before, after) \<Rightarrow>
        (if before > deadline then (Inl (Timed_out ''evidence commit deadline exceeded''), fs)
         else let published = fs\<lparr>lf_events := Some (current @ encoded)\<rparr> in
           if after > deadline
           then (Inl (Timed_out ''evidence commit deadline exceeded''),
                 published\<lparr>lf_events := Some current\<rparr>)
           else (Inr event, published)))"

definition append_event :: "runtime \<Rightarrow> ledger \<Rightarrow> ledger_fs \<Rightarrow> event_request \<Rightarrow> rat option
    \<Rightarrow> (rat \<times> rat) option \<Rightarrow> (ledger_error + obj) \<times> ledger_fs" where
  "append_event rt lg fs rq deadline clock =
     (if lg_read_only lg then (Inl (Integrity ''an inspection ledger is read-only''), fs)
      else if er_type rq = [] \<or> er_state rq \<notin> set frozen_states \<or> \<not> is_digest_str (er_subject rq) then
        (Inl (Bad_value ''event type, state, and subject digest are required''), fs)
      else if list_ex (\<lambda>d. \<not> is_digest_str d) (er_blobs rq) then
        (Inl (Bad_value ''blob references must be SHA-256 digests''), fs)
      else if (deadline = None) \<noteq> (clock = None) then
        (Inl (Bad_value ''commit deadline and trusted monotonic clock must be provided together''), fs)
      else case lf_events fs of
        None \<Rightarrow> (Inl (Integrity ''evidence ledger cannot be read''), fs)
      | Some content \<Rightarrow>
          (case bindr (read_bounded lg content ''evidence ledger'') (\<lambda>current.
                bindr (verify_payload rt lg fs current) (\<lambda>events.
                let event = new_event rt lg events rq in
                bindr (validate_event_schema event) (\<lambda>_. Inr (current, event)))) of
             Inl e \<Rightarrow> (Inl e, fs)
           | Inr (current, event) \<Rightarrow>
               commit fs current (canonical_json_bytes rt (JObj event) @ [LF]) event
                 (case (deadline, clock) of (Some d, Some (b, a)) \<Rightarrow> Some (d, b, a) | _ \<Rightarrow> None)))"

section \<open>Interface: a content-addressed store\<close>

fun put_all :: "('s \<Rightarrow> 'b \<Rightarrow> 'e + ('d \<times> 's)) \<Rightarrow> 's \<Rightarrow> 'b list \<Rightarrow> 'e + ('d list \<times> 's)" where
  "put_all put s [] = Inr ([], s)"
| "put_all put s (b # bs) =
     bindr (put s b) (\<lambda>(d, s'). bindr (put_all put s' bs) (\<lambda>(ds, s''). Inr (d # ds, s'')))"

locale content_store =
  fixes put :: "'s \<Rightarrow> 'b \<Rightarrow> 'e + ('d \<times> 's)"
    and get :: "'s \<Rightarrow> 'd \<Rightarrow> 'e + 'b"
    and hash :: "'b \<Rightarrow> 'd"
  assumes put_digest: "put s b = Inr (d, s') \<Longrightarrow> d = hash b"
    and get_after_put: "put s b = Inr (d, s') \<Longrightarrow> get s' d = Inr b"
    and put_keeps: "put s b = Inr (d, s') \<Longrightarrow> get s k = Inr c \<Longrightarrow> get s' k = Inr c"
    and get_digest: "get s k = Inr b \<Longrightarrow> hash b = k"
    and put_again: "get s (hash b) = Inr b \<Longrightarrow> put s b = Inr (hash b, s)"
begin

lemma put_all_keeps: "put_all put s bs = Inr (ds, s') \<Longrightarrow> get s k = Inr c \<Longrightarrow> get s' k = Inr c"
  by (induction bs arbitrary: s ds) (auto dest: put_keeps)

lemma put_all_stored:
  "put_all put s bs = Inr (ds, s') \<Longrightarrow> ds = map hash bs \<and> (\<forall>b \<in> set bs. get s' (hash b) = Inr b)"
proof (induction bs arbitrary: s ds)
  case (Cons b bs)
  then obtain d s1 es where p: "put s b = Inr (d, s1)" "put_all put s1 bs = Inr (es, s')" "ds = d # es"
    by auto
  with Cons.IH show ?case
    using put_digest [OF p(1)] get_after_put [OF p(1)] put_all_keeps [OF p(2)] by auto
qed simp

lemma put_all_again:
  "\<forall>b \<in> set bs. get s (hash b) = Inr b \<Longrightarrow> put_all put s bs = Inr (map hash bs, s)"
  by (induction bs) (auto simp: put_again)

lemma put_idempotent: "put s b = Inr (d, s') \<Longrightarrow> put s' b = Inr (d, s')"
  using put_again get_after_put put_digest by metis

end

section \<open>Interface: a hash chain\<close>

fun linked :: "('e \<Rightarrow> bool) \<Rightarrow> ('e \<Rightarrow> nat) \<Rightarrow> ('e \<Rightarrow> 'd) \<Rightarrow> ('e \<Rightarrow> 'd) \<Rightarrow> nat \<Rightarrow> 'd \<Rightarrow> 'e list \<Rightarrow> bool" where
  "linked valid number prev dig n p [] = True"
| "linked valid number prev dig n p (e # es) =
     (valid e \<and> number e = n \<and> prev e = p \<and> linked valid number prev dig (Suc n) (dig e) es)"

lemma linked_snoc:
  "linked valid number prev dig n p (es @ [e]) \<longleftrightarrow>
     linked valid number prev dig n p es \<and> valid e \<and> number e = n + length es
     \<and> prev e = (if es = [] then p else dig (last es))"
  by (induction es arbitrary: n p) auto

text \<open>
  An event's digest covers its number, its predecessor's digest and its content, up to a
  collision of the hash. Then the head of a chain fixes the whole chain, or exhibits a
  collision.
\<close>

locale hash_chain =
  fixes valid :: "'e \<Rightarrow> bool" and number :: "'e \<Rightarrow> nat" and prev dig :: "'e \<Rightarrow> 'd"
    and same collide :: "'e \<Rightarrow> 'e \<Rightarrow> bool"
  assumes digest_binds: "valid a \<Longrightarrow> valid b \<Longrightarrow> dig a = dig b \<Longrightarrow>
    collide a b \<or> (number a = number b \<and> prev a = prev b \<and> same a b)"
begin

lemma head_fixes_chain:
  assumes "linked valid number prev dig 1 p xs" "linked valid number prev dig 1 p ys"
    and "xs \<noteq> []" "ys \<noteq> []" "dig (last xs) = dig (last ys)"
    and "\<forall>x \<in> set xs. \<forall>y \<in> set ys. \<not> collide x y"
  shows "list_all2 same xs ys"
  using assms
proof (induction xs arbitrary: ys rule: rev_induct)
  case (snoc x xs)
  from snoc.prems(4) obtain ys' y where ys: "ys = ys' @ [y]" by (cases ys rule: rev_cases) auto
  have wf: "valid x" "valid y" and num: "number x = 1 + length xs" "number y = 1 + length ys'"
    and prev: "prev x = (if xs = [] then p else dig (last xs))"
      "prev y = (if ys' = [] then p else dig (last ys'))"
    and pre: "linked valid number prev dig 1 p xs" "linked valid number prev dig 1 p ys'"
    using snoc.prems(1,2) by (simp_all add: ys linked_snoc)
  have "dig x = dig y" "\<not> collide x y" using snoc.prems(5,6) by (simp_all add: ys)
  with digest_binds [OF wf] have eq: "number x = number y" "prev x = prev y" "same x y" by auto
  then have len: "length xs = length ys'" using num by simp
  have "list_all2 same xs ys'"
  proof (cases "xs = []")
    case False
    moreover from this len have "ys' \<noteq> []" by auto
    ultimately show ?thesis
      using snoc.IH [OF pre] prev eq(2) snoc.prems(6) by (auto simp: ys)
  qed (use len in simp)
  with eq(3) show ?case by (simp add: ys list_all2_appendI)
qed simp

end

section \<open>The blob store is a content-addressed store\<close>

definition writer :: "string \<Rightarrow> ledger" where
  "writer run_id = \<lparr>lg_run_id = run_id, lg_read_only = False, lg_max_read = None, lg_max_total = None\<rparr>"

lemma writer_simps [simp]:
  "lg_run_id (writer r) = r" "lg_read_only (writer r) = False"
  "lg_max_read (writer r) = None" "lg_max_total (writer r) = None"
  by (simp_all add: writer_def)

lemma read_bounded_writer [simp]: "read_bounded (writer r) c what = Inr c"
  by (simp add: read_bounded_def)

lemma blob_name_digest: "is_digest_str s \<Longrightarrow> blob_name s = drop 7 s"
  by (simp add: blob_name_def remove_prefix_def is_digest_str_def eval_nat_numeral)

lemma read_blob_Inr:
  "read_blob rt (writer r) fs d = Inr b \<longleftrightarrow>
     is_digest_str d \<and> lf_blobs fs (blob_name d) = Some b \<and> sha256_digest rt b = d"
  by (auto simp: read_blob_def blob_name_digest split: option.splits)

lemma put_blob_Inr:
  "put_blob rt (writer r) fs b = Inr (d, fs') \<longleftrightarrow>
     d = sha256_digest rt b \<and>
     (lf_blobs fs (blob_name d) = Some b \<and> fs' = fs \<or>
      lf_blobs fs (blob_name d) = None \<and> fs' = fs\<lparr>lf_blobs := (lf_blobs fs)(blob_name d \<mapsto> b)\<rparr>)"
  by (auto simp: put_blob_def Let_def split: option.splits)

interpretation blobs: content_store "put_blob rt (writer r)" "read_blob rt (writer r)" "sha256_digest rt"
  for rt r
  by unfold_locales (auto simp: put_blob_Inr read_blob_Inr)

section \<open>The event file is a hash chain\<close>

lemma check_all_iff: "check_all cs = Inr u \<longleftrightarrow> (\<forall>c \<in> set cs. fst c)"
  by (induction cs rule: check_all.induct) auto

lemma schema_iff: "validate_event_schema e = Inr u \<longleftrightarrow> (\<forall>c \<in> set (event_checks e). fst c)"
  by (simp add: validate_event_schema_def check_all_iff)

definition seq_of :: "obj \<Rightarrow> nat" where
  "seq_of e = (case dget e ''sequence'' of JInt n \<Rightarrow> nat n | _ \<Rightarrow> 0)"

definition prev_of :: "obj \<Rightarrow> string" where
  "prev_of e = str_of (dget e ''previous_digest'')"

definition digest_of :: "obj \<Rightarrow> string" where
  "digest_of e = str_of (dget e ''event_digest'')"

text \<open>
  A sealed event satisfies the schema and carries the digest of its own body. Two events are
  the same when their canonical forms are; they collide when different bodies have one digest.
\<close>

definition sealed :: "runtime \<Rightarrow> obj \<Rightarrow> bool" where
  "sealed rt e \<longleftrightarrow> distinct (map fst e) \<and> validate_event_schema e = Inr ()
     \<and> dget e ''event_digest'' = JStr (canonical_digest rt (JObj (event_body e)))"

definition same_event :: "obj \<Rightarrow> obj \<Rightarrow> bool" where
  "same_event a b \<longleftrightarrow> canon (JObj a) = canon (JObj b)"

definition colliding :: "runtime \<Rightarrow> obj \<Rightarrow> obj \<Rightarrow> bool" where
  "colliding rt a b \<longleftrightarrow>
     canonical_digest rt (JObj (event_body a)) = canonical_digest rt (JObj (event_body b))
     \<and> canon (JObj (event_body a)) \<noteq> canon (JObj (event_body b))"

lemma sealed_keys: "sealed rt e \<Longrightarrow> set (map fst e) = set event_fields"
  by (simp add: sealed_def schema_iff event_checks_def)

lemma sealed_sequence: "sealed rt e \<Longrightarrow> \<exists>n. dget e ''sequence'' = JInt n \<and> n \<ge> 1"
  by (cases "dget e ''sequence''") (simp_all add: sealed_def schema_iff event_checks_def)

lemma sealed_previous: "sealed rt e \<Longrightarrow> \<exists>p. dget e ''previous_digest'' = JStr p \<and> is_digest_str p"
  by (cases "dget e ''previous_digest''") (simp_all add: sealed_def schema_iff event_checks_def is_digest_def)

lemma map_of_field: "sealed rt e \<Longrightarrow> k \<in> set event_fields \<Longrightarrow> map_of e k = Some (dget e k)"
  using sealed_keys [of rt e] by (metis dget_Some dhas_def dhas_map_of)

lemma distinct_body: "distinct (map fst e) \<Longrightarrow> distinct (map fst (event_body e))"
  by (simp add: event_body_def ddel_def distinct_map_filter)

lemma body_lookup: "k \<noteq> ''event_digest'' \<Longrightarrow> map_of (event_body e) k = map_of e k"
  by (simp add: event_body_def map_of_ddel)

lemma sealed_binds:
  assumes a: "sealed rt a" and b: "sealed rt b" and d: "digest_of a = digest_of b"
  shows "colliding rt a b \<or> (seq_of a = seq_of b \<and> prev_of a = prev_of b \<and> same_event a b)"
proof (cases "colliding rt a b")
  case False
  have dig: "canonical_digest rt (JObj (event_body a)) = canonical_digest rt (JObj (event_body b))"
    using a b d by (simp add: sealed_def digest_of_def str_of_def)
  with False have can: "canon (JObj (event_body a)) = canon (JObj (event_body b))"
    by (simp only: colliding_def simp_thms)
  have dist: "distinct (map fst a)" "distinct (map fst b)"
    using a b by (simp_all only: sealed_def)
  have look: "map_option canon (map_of a k) = map_option canon (map_of b k)" for k
  proof (cases "k = ''event_digest''")
    case True
    have "k \<in> set event_fields" by (simp add: True event_fields_def)
    moreover have "dget a k = dget b k" using a b dig by (simp only: True sealed_def)
    ultimately show ?thesis by (simp only: map_of_field [OF a] map_of_field [OF b])
  next
    case False
    with canon_obj_lookup [OF can distinct_body [OF dist(1)] distinct_body [OF dist(2)], of k]
    show ?thesis by (simp add: body_lookup)
  qed
  have at_field: "canon (dget a k) = canon (dget b k)" if "k \<in> set event_fields" for k
    using look [of k] by (simp only: map_of_field [OF a that] map_of_field [OF b that] option.map option.inject)
  obtain m n where sq: "dget a ''sequence'' = JInt m" "dget b ''sequence'' = JInt n"
    using sealed_sequence [OF a] sealed_sequence [OF b] by blast
  have "canon (JInt m) = canon (JInt n)"
    using at_field [of "''sequence''"] by (simp only: sq) (simp add: event_fields_def)
  then have "seq_of a = seq_of b" by (simp add: seq_of_def sq)
  moreover obtain p q where pv: "dget a ''previous_digest'' = JStr p" "dget b ''previous_digest'' = JStr q"
    using sealed_previous [OF a] sealed_previous [OF b] by blast
  have "canon (JStr p) = canon (JStr q)"
    using at_field [of "''previous_digest''"] by (simp only: pv) (simp add: event_fields_def)
  then have "prev_of a = prev_of b" by (simp add: prev_of_def pv)
  moreover have "same_event a b"
    unfolding same_event_def by (rule canon_obj_eqI [OF dist look])
  ultimately show ?thesis by blast
qed simp

interpretation events: hash_chain "sealed rt" seq_of prev_of digest_of same_event "colliding rt"
  for rt
  by unfold_locales (rule sealed_binds)

section \<open>What verification accepts\<close>

text \<open>
  The abstract reading of an event file: line by line, each line the canonical bytes of an
  event that continues the chain, belongs to the run and references stored blobs only. The
  byte counters of the code play no part for a handle without limits.
\<close>

definition readable :: "runtime \<Rightarrow> ledger \<Rightarrow> ledger_fs \<Rightarrow> string \<Rightarrow> bool" where
  "readable rt lg fs d \<longleftrightarrow> (\<exists>b. read_blob rt lg fs d = Inr b)"

definition blob_refs :: "obj \<Rightarrow> string list" where
  "blob_refs e = map str_of (items_of (dget e ''blob_digests''))"

definition line_ok :: "runtime \<Rightarrow> ledger \<Rightarrow> ledger_fs \<Rightarrow> nat \<Rightarrow> string \<Rightarrow> bytes \<Rightarrow> obj \<Rightarrow> bool" where
  "line_ok rt lg fs n prev l e \<longleftrightarrow>
     strict_loads rt l ''application/json'' = Inr e
     \<and> validate_event_schema e = Inr ()
     \<and> dget e ''sequence'' = JInt (int n) \<and> dget e ''previous_digest'' = JStr prev
     \<and> dget e ''event_digest'' = JStr (canonical_digest rt (JObj (event_body e)))
     \<and> l = canonical_json_bytes rt (JObj e)
     \<and> dget e ''run_id'' = JStr (lg_run_id lg)
     \<and> (\<forall>d \<in> set (blob_refs e). readable rt lg fs d)"

fun lines_ok :: "runtime \<Rightarrow> ledger \<Rightarrow> ledger_fs \<Rightarrow> nat \<Rightarrow> string \<Rightarrow> bytes list \<Rightarrow> obj list \<Rightarrow> bool" where
  "lines_ok rt lg fs n prev [] [] = True"
| "lines_ok rt lg fs n prev (l # ls) (e # es) =
     (line_ok rt lg fs n prev l e \<and> lines_ok rt lg fs (Suc n) (digest_of e) ls es)"
| "lines_ok rt lg fs n prev _ _ = False"

lemma verify_blobs_Cons:
  assumes "lg_max_total lg = None"
  shows "verify_blobs rt lg fs n counted (JStr d # ds) =
    (if d \<in> set counted then verify_blobs rt lg fs n counted ds
     else case read_blob rt lg fs d of
       Inl _ \<Rightarrow> Inl (Integrity ''event references an invalid blob'')
     | Inr b \<Rightarrow> verify_blobs rt lg fs (n + length b) (d # counted) ds)"
  using assms by (simp split: sum.split)

lemma verify_blobs_sound:
  assumes "lg_max_total lg = None"
  shows "verify_blobs rt lg fs n counted (map JStr ss) = Inr (n', counted') \<Longrightarrow>
     \<forall>d \<in> set counted. readable rt lg fs d \<Longrightarrow>
     (\<forall>d \<in> set ss. readable rt lg fs d) \<and> (\<forall>d \<in> set counted'. readable rt lg fs d)"
proof (induction ss arbitrary: n counted)
  case (Cons d ss)
  show ?case
  proof (cases "d \<in> set counted")
    case True
    then have "verify_blobs rt lg fs n counted (map JStr ss) = Inr (n', counted')"
      using Cons.prems(1) by (simp add: verify_blobs_Cons [OF assms] del: verify_blobs.simps)
    from Cons.IH [OF this Cons.prems(2)] True Cons.prems(2) show ?thesis by simp
  next
    case False
    with Cons.prems(1) obtain b where b: "read_blob rt lg fs d = Inr b"
      and rest: "verify_blobs rt lg fs (n + length b) (d # counted) (map JStr ss) = Inr (n', counted')"
      by (auto simp: verify_blobs_Cons [OF assms] simp del: verify_blobs.simps split: sum.splits)
    from b have "readable rt lg fs d" by (auto simp: readable_def)
    with Cons.IH [OF rest] Cons.prems(2) show ?thesis by simp
  qed
qed simp

lemma verify_blobs_complete:
  assumes "lg_max_total lg = None"
  shows "\<forall>d \<in> set ss. readable rt lg fs d \<Longrightarrow> \<exists>r. verify_blobs rt lg fs n counted (map JStr ss) = Inr r"
proof (induction ss arbitrary: n counted)
  case (Cons d ss)
  then obtain b where "read_blob rt lg fs d = Inr b" by (auto simp: readable_def)
  with Cons show ?case
    by (simp add: verify_blobs_Cons [OF assms] del: verify_blobs.simps split_paired_Ex)
qed simp

lemma schema_blobs:
  assumes "validate_event_schema e = Inr ()"
  shows "is_list (dget e ''blob_digests'')"
    and "items_of (dget e ''blob_digests'') = map JStr (blob_refs e)"
    and "blob_refs e = sorted_set (blob_refs e)"
proof -
  from assms show "is_list (dget e ''blob_digests'')" by (simp add: schema_iff event_checks_def)
  from assms have *: "items_of (dget e ''blob_digests'') = map JStr (sorted_set (blob_refs e))"
    by (simp add: schema_iff event_checks_def blob_refs_def)
  then have "map str_of (items_of (dget e ''blob_digests'')) = sorted_set (blob_refs e)"
    by (simp add: comp_def str_of_def)
  then show "blob_refs e = sorted_set (blob_refs e)" by (simp add: blob_refs_def)
  with * show "items_of (dget e ''blob_digests'') = map JStr (blob_refs e)" by simp
qed

lemma verify_line_sound:
  assumes "lg_max_total lg = None" "\<forall>d \<in> set (vf_counted vf). readable rt lg fs d"
    and "verify_line rt lg fs vf l = Inr (vf', e)"
  shows "line_ok rt lg fs (vf_expected vf) (vf_previous vf) l e
    \<and> vf_expected vf' = Suc (vf_expected vf) \<and> vf_previous vf' = digest_of e
    \<and> (\<forall>d \<in> set (vf_counted vf'). readable rt lg fs d)"
proof -
  from assms(3) obtain n counted where
    load: "strict_loads rt l ''application/json'' = Inr e" and sch: "validate_event_schema e = Inr ()"
    and chain: "chain_ok rt vf l e" and run: "dget e ''run_id'' = JStr (lg_run_id lg)"
    and bl: "verify_blobs rt lg fs (vf_total vf) (vf_counted vf) (items_of (dget e ''blob_digests''))
       = Inr (n, counted)"
    and vf': "vf' = \<lparr>vf_previous = str_of (dget e ''event_digest''), vf_expected = Suc (vf_expected vf),
       vf_total = n, vf_counted = counted\<rparr>"
    by (auto simp: verify_line_def split: sum.splits if_splits)
  from verify_blobs_sound [OF assms(1) bl [unfolded schema_blobs(2) [OF sch]] assms(2)]
  show ?thesis
    using load sch chain run by (simp add: line_ok_def chain_ok_def vf' digest_of_def)
qed

lemma verify_line_complete:
  assumes "lg_max_total lg = None" "line_ok rt lg fs (vf_expected vf) (vf_previous vf) l e"
  shows "\<exists>vf'. verify_line rt lg fs vf l = Inr (vf', e)"
proof -
  have sch: "validate_event_schema e = Inr ()" and "\<forall>d \<in> set (blob_refs e). readable rt lg fs d"
    using assms(2) unfolding line_ok_def by blast+
  from verify_blobs_complete [OF assms(1) this(2)] obtain r where
    "verify_blobs rt lg fs (vf_total vf) (vf_counted vf) (items_of (dget e ''blob_digests'')) = Inr r"
    unfolding schema_blobs(2) [OF sch] by blast
  moreover have "strict_loads rt l ''application/json'' = Inr e" "chain_ok rt vf l e"
    "dget e ''run_id'' = JStr (lg_run_id lg)"
    using assms(2) unfolding line_ok_def chain_ok_def by blast+
  ultimately show ?thesis
    by (simp add: verify_line_def sch schema_blobs(1) [OF sch] case_prod_beta)
qed

lemma verify_lines_sound:
  assumes "lg_max_total lg = None"
  shows "\<forall>d \<in> set (vf_counted vf). readable rt lg fs d \<Longrightarrow>
    verify_lines rt lg fs vf ls = Inr (vf', es) \<Longrightarrow>
    lines_ok rt lg fs (vf_expected vf) (vf_previous vf) ls es"
proof (induction ls arbitrary: vf es)
  case (Cons l ls)
  then obtain vf1 e es' where l: "verify_line rt lg fs vf l = Inr (vf1, e)"
    and r: "verify_lines rt lg fs vf1 ls = Inr (vf', es')" and es: "es = e # es'"
    by auto
  from verify_line_sound [OF assms Cons.prems(1) l] Cons.IH [OF _ r] es show ?case by auto
qed simp

lemma verify_lines_complete:
  assumes "lg_max_total lg = None"
  shows "\<forall>d \<in> set (vf_counted vf). readable rt lg fs d \<Longrightarrow>
    lines_ok rt lg fs (vf_expected vf) (vf_previous vf) ls es \<Longrightarrow>
    \<exists>vf'. verify_lines rt lg fs vf ls = Inr (vf', es)"
proof (induction ls arbitrary: vf es)
  case Nil
  then show ?case by (cases es) auto
next
  case (Cons l ls)
  then obtain e es' where es: "es = e # es'" by (cases es) auto
  with Cons.prems(2) have lk: "line_ok rt lg fs (vf_expected vf) (vf_previous vf) l e" by simp
  from verify_line_complete [OF assms lk] obtain vf1 where l: "verify_line rt lg fs vf l = Inr (vf1, e)"
    by blast
  note s = verify_line_sound [OF assms Cons.prems(1) l]
  have "lines_ok rt lg fs (vf_expected vf1) (vf_previous vf1) ls es'"
    using Cons.prems(2) s by (simp add: es)
  with Cons.IH s obtain vf2 where "verify_lines rt lg fs vf1 ls = Inr (vf2, es')" by blast
  with l es show ?case by auto
qed

lemma verify_payload_iff:
  assumes "lg_max_total lg = None"
  shows "verify_payload rt lg fs p = Inr es \<longleftrightarrow> lines_ok rt lg fs 1 genesis_digest (splitlines p) es"
proof -
  let ?vf = "\<lparr>vf_previous = genesis_digest, vf_expected = 1, vf_total = length p, vf_counted = []\<rparr>"
  have "verify_payload rt lg fs p = Inr es \<longleftrightarrow> (\<exists>vf'. verify_lines rt lg fs ?vf (splitlines p) = Inr (vf', es))"
    by (auto simp: verify_payload_def)
  also have "\<dots> \<longleftrightarrow> lines_ok rt lg fs 1 genesis_digest (splitlines p) es"
    using verify_lines_sound [OF assms, of ?vf] verify_lines_complete [OF assms, of ?vf] by auto
  finally show ?thesis .
qed

lemma lines_ok_linked: "lines_ok rt lg fs n prev ls es \<Longrightarrow> linked (sealed rt) seq_of prev_of digest_of n prev es"
proof (induction rt lg fs n prev ls es rule: lines_ok.induct)
  case (2 rt lg fs n prev l ls e es)
  from "2.prems" have ok: "line_ok rt lg fs n prev l e" by simp
  then have "distinct (map fst e)"
    using strict_loads_wf by (fastforce simp: line_ok_def)
  with ok have "sealed rt e" by (simp add: sealed_def line_ok_def)
  moreover from ok have "seq_of e = n" "prev_of e = prev"
    by (simp_all add: line_ok_def seq_of_def prev_of_def str_of_def)
  ultimately show ?case using 2 by simp
qed auto

lemma lines_ok_length: "lines_ok rt lg fs n prev ls es \<Longrightarrow> length es = length ls"
  by (induction rt lg fs n prev ls es rule: lines_ok.induct) auto

lemma lines_ok_snoc:
  "lines_ok rt lg fs n prev ls es \<Longrightarrow>
     line_ok rt lg fs (n + length ls) (if es = [] then prev else digest_of (last es)) l e \<Longrightarrow>
     lines_ok rt lg fs n prev (ls @ [l]) (es @ [e])"
  by (induction rt lg fs n prev ls es rule: lines_ok.induct) (auto split: if_splits)

section \<open>Lines of the event file\<close>

definition complete_lines :: "bytes \<Rightarrow> bool" where
  "complete_lines f \<longleftrightarrow> f = [] \<or> last f = LF"

lemma LF_CR [simp]: "LF \<noteq> CR" "CR \<noteq> LF"
  by (simp_all add: LF_def CR_def)

lemma lines_from_append:
  "f \<noteq> [] \<Longrightarrow> last f = LF \<Longrightarrow> lines_from cur (f @ s) = lines_from cur f @ lines_from [] s"
proof (induction cur f rule: lines_from.induct)
  case (2 cur c f)
  show ?case
  proof (cases f)
    case Nil
    with "2.prems" show ?thesis by simp
  next
    case (Cons d t)
    then have "last f = LF" "f \<noteq> []" using "2.prems" by auto
    moreover have "t = [] \<or> last t = LF" using calculation Cons by (cases t) auto
    ultimately show ?thesis
      using "2.IH" Cons by (cases "c = LF"; cases "c = CR"; cases "d = LF"; cases "t = []") auto
  qed
qed simp

lemma lines_from_line:
  "LF \<notin> set l \<Longrightarrow> CR \<notin> set l \<Longrightarrow> lines_from cur (l @ [LF]) = [cur @ l]"
  by (induction l arbitrary: cur) auto

lemma splitlines_snoc:
  assumes "complete_lines f" "LF \<notin> set l" "CR \<notin> set l"
  shows "splitlines (f @ l @ [LF]) = splitlines f @ [l]"
  using assms lines_from_line [of l "[]"] lines_from_append [of f "[]" "l @ [LF]"]
  by (cases "f = []") (auto simp: splitlines_def complete_lines_def)

section \<open>A written event reads back\<close>

lemma keys_map_reparsed: "map fst (map (\<lambda>(k, v). (k, reparsed v)) d) = map fst d"
  by (simp add: case_prod_beta comp_def)

lemma reparsed_obj:
  assumes "reparsed (JObj d) = JObj e" "distinct (map fst d)"
  shows "distinct (map fst e)" "set (map fst e) = set (map fst d)"
    "map_of e k = map_option reparsed (map_of d k)" "dget e k = reparsed (dget d k)"
proof -
  let ?r = "map (\<lambda>(k, v). (k, reparsed v)) d"
  have e: "e = sort_key fst ?r" using assms(1) by simp
  have dr: "distinct (map fst ?r)" using assms(2) by (simp only: keys_map_reparsed)
  then show "distinct (map fst e)" unfolding e by (simp only: distinct_map distinct_sort set_sort)
  have "set (map fst e) = fst ` set ?r" by (simp only: e set_map set_sort)
  also have "\<dots> = set (map fst d)" by (metis keys_map_reparsed set_map)
  finally show "set (map fst e) = set (map fst d)" .
  have "map_of e k = map_of ?r k" by (simp only: e map_of_sort_key_fst [OF dr])
  also have "\<dots> = map_option reparsed (map_of d k)" by (simp add: map_of_map)
  finally show "map_of e k = map_option reparsed (map_of d k)" .
  then show "dget e k = reparsed (dget d k)" by (simp add: dget_def split: option.split)
qed

lemma canon_reparsed: "wf_json v \<Longrightarrow> canon (reparsed v) = canon v"
proof (induction v rule: reparsed.induct)
  case (1 r)
  then show ?case by (metis canon.simps(3,4) reparsed.simps(1))
next
  case (3 d)
  obtain e where e: "reparsed (JObj d) = JObj e" by simp
  have dd: "distinct (map fst d)" using "3.prems" by simp
  have "canon (JObj e) = canon (JObj d)"
  proof (rule canon_obj_eqI [OF reparsed_obj(1) [OF e dd] dd])
    fix k
    show "map_option canon (map_of e k) = map_option canon (map_of d k)"
    proof (cases "map_of d k")
      case (Some v)
      then have "(k, v) \<in> set d" by (rule map_of_SomeD)
      then have "canon (reparsed v) = canon v" using 3 by fastforce
      then show ?thesis by (simp only: reparsed_obj(3) [OF e dd] Some option.map)
    qed (simp add: reparsed_obj(3) [OF e dd])
  qed
  then show ?case by (simp only: e)
qed auto

text \<open>
  What the code relies on of \<^verbatim>\<open>rfc8785.dumps\<close> and \<^verbatim>\<open>json.loads\<close>: the bytes written are
  UTF-8 without line breaks, and reading them gives the value back, members sorted and
  integral floats as integers. \<^verbatim>\<open>storable\<close> is what \<^verbatim>\<open>strict_loads\<close> then demands of the value.
\<close>

definition reads_back :: "runtime \<Rightarrow> json \<Rightarrow> bool" where
  "reads_back rt v \<longleftrightarrow> utf8_decode (canonical_json_bytes rt v) \<noteq> None
     \<and> rt_json rt (canonical_json_bytes rt v) = Some (reparsed v)
     \<and> LF \<notin> set (canonical_json_bytes rt v) \<and> CR \<notin> set (canonical_json_bytes rt v)"

definition storable :: "runtime \<Rightarrow> json \<Rightarrow> bool" where
  "storable rt v \<longleftrightarrow> run_hooks rt (reparsed v) = Inr (reparsed v)
     \<and> admissible (reparsed v) \<and> interoperable (reparsed v)"

lemma strict_loads_written:
  assumes "reads_back rt (JObj d)" "reparsed (JObj d) = JObj e" "storable rt (JObj d)"
  shows "strict_loads rt (canonical_json_bytes rt (JObj d)) ''application/json'' = Inr e"
proof -
  from assms(3) have st: "run_hooks rt (JObj e) = Inr (JObj e)" "admissible (JObj e)" "interoperable (JObj e)"
    by (simp_all only: storable_def assms(2))
  from st(2) have "admit_unicode 0 0 (JObj e) = Inr (json_nodes (JObj e))"
    unfolding admit_iff admissible_def by simp
  with st(1,3) assms(1,2) show ?thesis
    by (auto simp: strict_loads_def read_source_def reads_back_def
        simp del: run_hooks.simps admit_unicode.simps interoperable.simps json_nodes.simps reparsed.simps)
qed




section \<open>Appending\<close>

lemma read_bounded_Inr: "read_bounded lg c what = Inr x \<Longrightarrow> x = c"
  by (auto simp: read_bounded_def split: option.splits if_splits)

lemma append_cases:
  assumes "append_event rt lg fs rq deadline clock = (r, fs')"
  obtains err where "r = Inl err" "fs' = fs"
  | f es e where "r = Inr e" "lf_events fs = Some f" "verify_payload rt lg fs f = Inr es"
      "e = new_event rt lg es rq"
      "validate_event_schema e = Inr ()"
      "fs' = fs\<lparr>lf_events := Some (f @ canonical_json_bytes rt (JObj e) @ [LF])\<rparr>"
      "\<not> lg_read_only lg" "\<forall>d \<in> set (er_blobs rq). is_digest_str d"
proof -
  let ?n = "\<lambda>es. new_event rt lg es rq"
  have guards: "\<exists>err. r = Inl err \<and> fs' = fs" if
    "lg_read_only lg \<or> (er_type rq = [] \<or> er_state rq \<notin> set frozen_states \<or> \<not> is_digest_str (er_subject rq))
      \<or> list_ex (\<lambda>d. \<not> is_digest_str d) (er_blobs rq) \<or> (deadline = None) \<noteq> (clock = None) \<or> lf_events fs = None"
    using that assms by (auto simp: append_event_def split: if_splits)
  show thesis
  proof (cases "\<exists>err. r = Inl err \<and> fs' = fs")
    case True
    then show thesis using that(1) by blast
  next
    case False
    then obtain f where f: "lf_events fs = Some f" and rd: "\<not> lg_read_only lg"
      and bl: "\<not> list_ex (\<lambda>d. \<not> is_digest_str d) (er_blobs rq)"
      and tm: "(deadline = None) = (clock = None)"
      and rq: "\<not> (er_type rq = [] \<or> er_state rq \<notin> set frozen_states \<or> \<not> is_digest_str (er_subject rq))"
      using guards by (cases "lf_events fs") blast+
    let ?pre = "bindr (read_bounded lg f ''evidence ledger'') (\<lambda>current.
        bindr (verify_payload rt lg fs current) (\<lambda>events. let event = new_event rt lg events rq in
        bindr (validate_event_schema event) (\<lambda>_. Inr (current, event))))"
    have eq: "(r, fs') = (case ?pre of Inl e \<Rightarrow> (Inl e, fs)
       | Inr (current, event) \<Rightarrow> commit fs current (canonical_json_bytes rt (JObj event) @ [LF]) event
           (case (deadline, clock) of (Some d, Some (b, a)) \<Rightarrow> Some (d, b, a) | _ \<Rightarrow> None))"
      unfolding assms [symmetric] append_event_def using f rd bl tm rq by simp
    with False obtain current e where pre: "?pre = Inr (current, e)"
      by (cases ?pre) auto
    then obtain es where es: "verify_payload rt lg fs f = Inr es" "e = ?n es"
      "validate_event_schema e = Inr ()" "current = f"
      by (auto simp: Let_def dest: read_bounded_Inr)
    have same: "fs\<lparr>lf_events := Some f\<rparr> = fs" using f by simp
    have "r = Inr e \<and> fs' = fs\<lparr>lf_events := Some (f @ canonical_json_bytes rt (JObj e) @ [LF])\<rparr>"
      using eq [unfolded pre sum.case prod.case es(4)] False
      by (auto simp: commit_def Let_def same split: option.splits if_splits)
    then show thesis
      using that(2) f es rd bl by (auto simp: list_ex_iff)
  qed
qed

lemma verify_payload_events_irrelevant:
  "verify_payload rt lg (fs\<lparr>lf_events := x\<rparr>) p = verify_payload rt lg fs p"
proof -
  have rb: "read_blob rt lg (fs\<lparr>lf_events := x\<rparr>) = read_blob rt lg fs"
    by (simp add: fun_eq_iff read_blob_def)
  have "verify_blobs rt lg (fs\<lparr>lf_events := x\<rparr>) n c ds = verify_blobs rt lg fs n c ds" for n c ds
    by (induction rt lg fs n c ds rule: verify_blobs.induct)
      (auto simp: read_blob_def Let_def split: option.split sum.split)
  then have "verify_line rt lg (fs\<lparr>lf_events := x\<rparr>) vf l = verify_line rt lg fs vf l" for vf l
    by (simp add: verify_line_def split: sum.split)
  then have "verify_lines rt lg (fs\<lparr>lf_events := x\<rparr>) vf ls = verify_lines rt lg fs vf ls" for vf ls
    by (induction ls arbitrary: vf) simp_all
  then show ?thesis by (simp add: verify_payload_def)
qed

lemma dget_new_event [simp]:
  "dget (new_event rt lg es rq) ''schema_version'' = JStr ''1.0.0''"
  "dget (new_event rt lg es rq) ''run_id'' = JStr (lg_run_id lg)"
  "dget (new_event rt lg es rq) ''sequence'' = JInt (int (length es + 1))"
  "dget (new_event rt lg es rq) ''previous_digest'' =
     (if es = [] then JStr genesis_digest else dget (last es) ''event_digest'')"
  "dget (new_event rt lg es rq) ''event_type'' = JStr (er_type rq)"
  "dget (new_event rt lg es rq) ''state'' = JStr (er_state rq)"
  "dget (new_event rt lg es rq) ''subject_digest'' = JStr (er_subject rq)"
  "dget (new_event rt lg es rq) ''blob_digests'' = JList (map JStr (sorted_set (er_blobs rq)))"
  "dget (new_event rt lg es rq) ''payload'' = JObj (er_payload rq)"
  "dget (new_event rt lg es rq) ''event_digest'' = JStr (canonical_digest rt (JObj (new_body lg es rq)))"
  by (simp_all add: dget_def new_event_def new_body_def)

lemma new_event_body: "event_body (new_event rt lg es rq) = new_body lg es rq"
  by (simp add: event_body_def ddel_def new_event_def new_body_def)

lemma new_event_distinct: "distinct (map fst (new_event rt lg es rq))"
  by (simp add: new_event_def new_body_def)

lemma map_reparsed_strings [simp]: "map (reparsed \<circ> JStr) xs = map JStr xs"
  by simp

text \<open>The event as it reads back from the file satisfies the schema and seals the same body.\<close>

lemma reparsed_schema:
  assumes "reparsed (JObj d) = JObj e" "distinct (map fst d)" "validate_event_schema d = Inr ()"
    and "dget d ''payload'' = JObj p" "dget d ''blob_digests'' = JList (map JStr bs)"
  shows "validate_event_schema e = Inr ()"
proof -
  note get = reparsed_obj(4) [OF assms(1,2)]
  have str: "is_str x \<Longrightarrow> reparsed x = x" "is_digest x \<Longrightarrow> reparsed x = x" "nonempty_str x \<Longrightarrow> reparsed x = x" for x
    by (cases x; simp add: is_str_def is_digest_def nonempty_str_def)+
  obtain n where n: "dget d ''sequence'' = JInt n" "n \<ge> 1"
    using assms(3) by (cases "dget d ''sequence''") (simp_all add: schema_iff event_checks_def)
  show ?thesis
    using assms(3) n
    by (simp add: schema_iff event_checks_def get str assms(4,5) reparsed_obj(2) [OF assms(1,2)]
        as_mapping_def del: set_map)
qed

lemma reparsed_body:
  assumes "reparsed (JObj d) = JObj e" "wf_json (JObj d)"
  shows "canon (JObj (event_body e)) = canon (JObj (event_body d))"
proof -
  have dd: "distinct (map fst d)" using assms(2) by simp
  have c: "canon (JObj e) = canon (JObj d)" using canon_reparsed [OF assms(2)] by (simp only: assms(1))
  have de: "distinct (map fst e)" by (rule reparsed_obj(1) [OF assms(1) dd])
  show ?thesis
  proof (rule canon_obj_eqI [OF distinct_body [OF de] distinct_body [OF dd]])
    show "map_option canon (map_of (event_body e) k) = map_option canon (map_of (event_body d) k)" for k
      using canon_obj_lookup [OF c de dd, of k]
      by (cases "k = ''event_digest''") (simp_all add: event_body_def map_of_ddel)
  qed
qed

lemma canonical_digest_canonical:
  assumes "canonical_fn (canonical_json_bytes rt)"
  shows "canonical_fn (canonical_digest rt)"
  unfolding canonical_fn_def canonical_digest_def
proof (intro allI impI)
  fix x y assume "canon x = canon y"
  then have "canonical_json_bytes rt x = canonical_json_bytes rt y" by (rule canonical_fnD [OF assms])
  then show "sha256_digest rt (canonical_json_bytes rt x) = sha256_digest rt (canonical_json_bytes rt y)"
    by (rule arg_cong)
qed

lemma linked_valid: "linked valid number prev dig n p es \<Longrightarrow> e \<in> set es \<Longrightarrow> valid e"
  by (induction es arbitrary: n p) auto

lemma last_digest:
  assumes "lines_ok rt lg fs n prev ls es" "es \<noteq> []"
  shows "sealed rt (last es)" "dget (last es) ''event_digest'' = JStr (digest_of (last es))"
proof -
  show "sealed rt (last es)"
    by (rule linked_valid [OF lines_ok_linked [OF assms(1)]]) (use assms(2) in simp)
  then show "dget (last es) ''event_digest'' = JStr (digest_of (last es))"
    by (simp add: sealed_def digest_of_def str_of_def)
qed

lemma new_event_wf:
  assumes "lines_ok rt lg fs n prev ls es" "wf_json (JObj (er_payload rq))"
  shows "wf_json (JObj (new_event rt lg es rq))"
  using assms(2) last_digest(2) [OF assms(1)]
  by (simp add: new_event_def new_body_def)

lemma append_line_ok:
  assumes cf: "canonical_fn (canonical_json_bytes rt)"
    and ok: "lines_ok rt lg fs 1 genesis_digest ls es"
    and e: "e = new_event rt lg es rq" "validate_event_schema e = Inr ()"
    and re: "reparsed (JObj e) = JObj e'"
    and pay: "wf_json (JObj (er_payload rq))"
    and codec: "reads_back rt (JObj e)" "storable rt (JObj e)"
    and blobs: "\<forall>d \<in> set (er_blobs rq). readable rt lg fs d"
  shows "same_event e e'"
    and "line_ok rt lg fs (1 + length ls) (if es = [] then genesis_digest else digest_of (last es))
      (canonical_json_bytes rt (JObj e)) e'"
proof -
  have dist: "distinct (map fst e)" by (simp add: e(1) new_event_distinct)
  have wf: "wf_json (JObj e)" unfolding e(1) by (rule new_event_wf [OF ok pay])
  have c: "canon (JObj e) = canon (JObj e')" using canon_reparsed [OF wf] by (simp only: re)
  then show "same_event e e'" by (simp only: same_event_def)
  note get = reparsed_obj(4) [OF re dist]
  have dig: "canonical_digest rt (JObj (event_body e)) = canonical_digest rt (JObj (event_body e'))"
    by (rule canonical_fnD [OF canonical_digest_canonical [OF cf] reparsed_body [OF re wf, symmetric]])
  have "validate_event_schema e' = Inr ()"
    by (rule reparsed_schema [OF re dist e(2)]) (simp_all add: e(1))
  moreover have "strict_loads rt (canonical_json_bytes rt (JObj e)) ''application/json'' = Inr e'"
    by (rule strict_loads_written [OF codec(1) re codec(2)])
  moreover have "dget e' ''previous_digest'' = JStr (if es = [] then genesis_digest else digest_of (last es))"
    using last_digest(2) [OF ok] by (simp add: get) (simp add: e(1))
  moreover have "dget e' ''sequence'' = JInt (int (1 + length ls))"
    using lines_ok_length [OF ok] by (simp add: get) (simp add: e(1))
  moreover have "dget e' ''event_digest'' = JStr (canonical_digest rt (JObj (event_body e')))"
    unfolding get dig [symmetric] by (simp add: e(1) new_event_body)
  moreover have "canonical_json_bytes rt (JObj e) = canonical_json_bytes rt (JObj e')"
    by (rule canonical_fnD [OF cf c])
  moreover have "dget e' ''run_id'' = JStr (lg_run_id lg)" by (simp add: get) (simp add: e(1))
  moreover have "blob_refs e' = sorted_set (er_blobs rq)"
    by (simp add: blob_refs_def get) (simp add: e(1) items_of_def str_of_def comp_def)
  ultimately show "line_ok rt lg fs (1 + length ls)
      (if es = [] then genesis_digest else digest_of (last es)) (canonical_json_bytes rt (JObj e)) e'"
    using blobs unfolding line_ok_def by simp
qed

text \<open>What a successful append makes the ledger verify to.\<close>

lemma append_extends:
  assumes "canonical_fn (canonical_json_bytes rt)"
    and "lf_events fs = Some f" "complete_lines f" "verify rt (writer r) fs = Inr es"
    and "append_event rt (writer r) fs rq deadline clock = (Inr e, fs')"
    and "\<forall>d \<in> set (er_blobs rq). readable rt (writer r) fs d" "wf_json (JObj (er_payload rq))"
    and "reads_back rt (JObj e)" "storable rt (JObj e)" "reparsed (JObj e) = JObj e'"
  shows "same_event e e'" "verify rt (writer r) fs' = Inr (es @ [e'])"
    "fs' = fs\<lparr>lf_events := Some (f @ canonical_json_bytes rt (JObj e) @ [LF])\<rparr>"
proof -
  let ?l = "canonical_json_bytes rt (JObj e)"
  from assms(5) obtain f1 es1 where a: "lf_events fs = Some f1" "verify_payload rt (writer r) fs f1 = Inr es1"
    "e = new_event rt (writer r) es1 rq" "validate_event_schema e = Inr ()"
    "fs' = fs\<lparr>lf_events := Some (f1 @ ?l @ [LF])\<rparr>"
    by (rule append_cases) auto
  have es1: "f1 = f" "es1 = es" using a(1,2) assms(2,4) by (simp_all add: verify_def)
  have ok: "lines_ok rt (writer r) fs 1 genesis_digest (splitlines f) es"
    using a(2) es1 by (simp add: verify_payload_iff)
  note new = append_line_ok [OF assms(1) ok a(3) [unfolded es1] a(4) assms(10,7,8,9,6)]
  from new(1) show "same_event e e'" .
  show "fs' = fs\<lparr>lf_events := Some (f @ ?l @ [LF])\<rparr>" using a(5) es1(1) by simp
  have "LF \<notin> set ?l" "CR \<notin> set ?l" using assms(8) by (simp_all add: reads_back_def)
  then have "splitlines (f @ ?l @ [LF]) = splitlines f @ [?l]" by (rule splitlines_snoc [OF assms(3)])
  moreover have "lines_ok rt (writer r) fs 1 genesis_digest (splitlines f @ [?l]) (es @ [e'])"
    by (rule lines_ok_snoc [OF ok new(2)])
  ultimately show "verify rt (writer r) fs' = Inr (es @ [e'])"
    unfolding a(5) es1(1)
    by (simp add: verify_def verify_payload_events_irrelevant verify_payload_iff)
qed

section \<open>A concrete ledger\<close>

text \<open>An empty ledger, a first event with a given payload, and a runtime that can write it.\<close>

definition first_request :: "obj \<Rightarrow> event_request" where
  "first_request p = \<lparr>er_type = ''run_started'', er_state = ''VALIDATED'', er_subject = genesis_digest,
     er_blobs = [], er_payload = p\<rparr>"

definition first_body :: "obj \<Rightarrow> obj" where
  "first_body p = new_body (writer ''r1'') [] (first_request p)"

definition first_event :: "obj \<Rightarrow> obj" where
  "first_event p = first_body p @ [(''event_digest'', JStr genesis_digest)]"

definition ledger_runtime :: "obj \<Rightarrow> runtime" where
  "ledger_runtime p = sample_runtime [JObj (first_body p), reparsed (JObj (first_event p))]"

definition empty_ledger :: ledger_fs where
  "empty_ledger = \<lparr>lf_events = Some [], lf_blobs = (\<lambda>_. None)\<rparr>"

lemma hex_zero: "hex_digits k 0 = replicate k (CHR ''0'')"
proof (induction k)
  case (Suc k)
  have "hex_char 0 = CHR ''0''" by code_simp
  with Suc show ?case by (simp add: replicate_append_same)
qed simp

lemma first_digest: "canonical_digest (ledger_runtime p) (JObj (first_body p)) = genesis_digest"
  by (simp add: ledger_runtime_def sample_digest index_digest_def genesis_digest_def hex_zero)

lemma first_new: "new_event (ledger_runtime p) (writer ''r1'') [] (first_request p) = first_event p"
  using first_digest by (simp add: new_event_def first_event_def first_body_def)

lemma genesis_is_digest [simp]: "is_digest_str genesis_digest"
  by (simp add: genesis_digest_def is_digest_str_def starts_with_def is_hex_lower_def list_all_iff)

lemma first_schema: "validate_event_schema (first_event p) = Inr ()"
  by (simp add: schema_iff event_checks_def first_event_def first_body_def new_body_def first_request_def
      dget_def is_str_def str_of_def is_digest_def nonempty_str_def frozen_states_def
      is_list_def items_of_def as_mapping_def valid_run_id_def run_id_tail_char_def is_alnum_ascii_def
      is_digit_def is_lower_def is_upper_def event_fields_def insert_commute sorted_set_def)

lemma first_append:
  "append_event (ledger_runtime p) (writer ''r1'') empty_ledger (first_request p) None None =
     (Inr (first_event p), empty_ledger\<lparr>lf_events :=
        Some (canonical_json_bytes (ledger_runtime p) (JObj (first_event p)) @ [LF])\<rparr>)"
  using first_new [of p] first_schema [of p]
  by (simp add: append_event_def empty_ledger_def verify_payload_def splitlines_def commit_def Let_def)
    (simp add: first_request_def frozen_states_def)

lemma first_wf: "wf_json (JObj p) \<Longrightarrow> wf_json (JObj (first_event p))"
  by (simp add: first_event_def first_body_def new_body_def first_request_def)

lemma first_reads_back:
  assumes "wf_json (JObj p)"
  shows "reads_back (ledger_runtime p) (JObj (first_event p))"
proof -
  have "\<not> dhas (first_body p) ''event_digest''" "dhas (first_event p) ''event_digest''"
    by (simp_all add: dhas_def first_body_def new_body_def first_event_def)
  then have "canon (JObj (first_body p)) \<noteq> canon (JObj (first_event p))" using canon_obj_dhas by blast
  moreover have "canon (reparsed (JObj (first_event p))) = canon (JObj (first_event p))"
    by (rule canon_reparsed [OF first_wf [OF assms]])
  ultimately have "canonical_json_bytes (ledger_runtime p) (JObj (first_event p)) = ''1''"
    by (simp add: ledger_runtime_def index_digest_def del: canon.simps reparsed.simps)
  moreover have "rt_json (ledger_runtime p) ''1'' = Some (reparsed (JObj (first_event p)))"
    by (simp add: ledger_runtime_def sample_runtime_def del: reparsed.simps)
  ultimately show ?thesis
    by (simp add: reads_back_def LF_def CR_def del: reparsed.simps)
qed

definition small_payload :: obj where
  "small_payload = [(''n'', JInt 1)]"

lemma small_wf [simp]: "wf_json (JObj small_payload)"
  by (simp add: small_payload_def)

definition first_read :: obj where
  "first_read =
     [(''blob_digests'', JList []), (''event_digest'', JStr genesis_digest),
      (''event_type'', JStr ''run_started''), (''payload'', JObj [(''n'', JInt 1)]),
      (''previous_digest'', JStr genesis_digest), (''run_id'', JStr ''r1''),
      (''schema_version'', JStr ''1.0.0''), (''sequence'', JInt 1), (''state'', JStr ''VALIDATED''),
      (''subject_digest'', JStr genesis_digest)]"

lemma first_reparsed: "reparsed (JObj (first_event small_payload)) = JObj first_read"
  by code_simp

lemma first_storable: "storable rt (JObj (first_event small_payload))"
  unfolding storable_def first_reparsed
  by (simp add: first_read_def genesis_digest_def parse_int_def reject_duplicate_pairs_def max_interoperable_integer_def
      admissible_def ascii_clean max_structure_nodes_def max_structure_depth_def
      list_all_iff)

section \<open>Properties\<close>

text \<open>
  C13. Appending keeps a ledger verifiable: if a run's ledger verifies to the events \<^verbatim>\<open>es\<close>
  and an append of a storable event that references stored blobs succeeds, then the ledger
  verifies afterwards, to \<^verbatim>\<open>es\<close> followed by the new event as it reads back, and its file
  again ends in a complete line.
\<close>

theorem append_keeps_verifiable:
  assumes "canonical_fn (canonical_json_bytes rt)"
    and "lf_events fs = Some f" "complete_lines f" "verify rt (writer r) fs = Inr es"
    and "append_event rt (writer r) fs rq deadline clock = (Inr e, fs')"
    and "\<forall>d \<in> set (er_blobs rq). readable rt (writer r) fs d" "wf_json (JObj (er_payload rq))"
    and "reads_back rt (JObj e)" "storable rt (JObj e)"
  shows "\<exists>e' f'. same_event e e' \<and> verify rt (writer r) fs' = Inr (es @ [e'])
    \<and> lf_events fs' = Some f' \<and> complete_lines f'"
proof -
  obtain e' where "reparsed (JObj e) = JObj e'" by simp
  from append_extends [OF assms this] show ?thesis by (auto simp: complete_lines_def)
qed

theorem append_keeps_verifiable_witness:
  "\<exists>e'. same_event (first_event small_payload) e' \<and>
     verify (ledger_runtime small_payload) (writer ''r1'')
       (snd (append_event (ledger_runtime small_payload) (writer ''r1'') empty_ledger (first_request small_payload) None None)) = Inr [e']"
proof -
  have "canonical_fn (canonical_json_bytes (ledger_runtime small_payload))"
    by (simp add: ledger_runtime_def)
  moreover have "lf_events empty_ledger = Some []" "complete_lines []"
    by (simp_all add: empty_ledger_def complete_lines_def)
  moreover have "verify (ledger_runtime small_payload) (writer ''r1'') empty_ledger = Inr []"
    by (simp add: verify_def empty_ledger_def verify_payload_def splitlines_def)
  moreover have "\<forall>d \<in> set (er_blobs (first_request small_payload)). readable (ledger_runtime small_payload) (writer ''r1'') empty_ledger d"
    "wf_json (JObj (er_payload (first_request small_payload)))"
    by (simp_all add: first_request_def small_payload_def)
  ultimately show ?thesis
    using append_keeps_verifiable [OF _ _ _ _ first_append _ _ first_reads_back [OF small_wf] first_storable]
    by (fastforce simp: first_append)
qed

text \<open>
  The ledger is append-only on every path: an append that succeeds adds exactly one line
  after the bytes that were there, an append that fails (a guard, a broken chain, a missed
  deadline before or after publication) leaves the event file as it was, and no append
  touches a blob.
\<close>

theorem append_only:
  "lf_blobs (snd (append_event rt lg fs rq deadline clock)) = lf_blobs fs \<and>
   (case fst (append_event rt lg fs rq deadline clock) of
      Inl _ \<Rightarrow> lf_events (snd (append_event rt lg fs rq deadline clock)) = lf_events fs
    | Inr e \<Rightarrow> \<exists>f. lf_events fs = Some f \<and>
        lf_events (snd (append_event rt lg fs rq deadline clock)) =
          Some (f @ canonical_json_bytes rt (JObj e) @ [LF]))"
  by (rule append_cases [of rt lg fs rq deadline clock
        "fst (append_event rt lg fs rq deadline clock)" "snd (append_event rt lg fs rq deadline clock)"])
    simp_all

text \<open>
  C12. Tampering shows: if two event files of a run both verify and end in the same event
  digest, they hold the same events in the same order, unless two of their events have
  different bodies with one SHA-256 digest.
\<close>

theorem tampering_is_evident:
  assumes "lg_max_total lg = None"
    and "verify_payload rt lg fs p = Inr xs" "verify_payload rt lg fs' q = Inr ys"
    and "xs \<noteq> []" "ys \<noteq> []" "digest_of (last xs) = digest_of (last ys)"
    and "\<forall>x \<in> set xs. \<forall>y \<in> set ys. \<not> colliding rt x y"
  shows "list_all2 same_event xs ys"
proof (rule events.head_fixes_chain)
  show "linked (sealed rt) seq_of prev_of digest_of 1 genesis_digest xs"
    by (rule lines_ok_linked) (use assms(2) verify_payload_iff [OF assms(1)] in blast)
  show "linked (sealed rt) seq_of prev_of digest_of 1 genesis_digest ys"
    by (rule lines_ok_linked) (use assms(3) verify_payload_iff [OF assms(1)] in blast)
qed (use assms in simp_all)

theorem tampering_is_evident_witness:
  "\<exists>p e. verify_payload (ledger_runtime small_payload) (writer ''r1'') empty_ledger p = Inr [e] \<and> list_all2 same_event [e] [e]"
proof -
  let ?fs = "snd (append_event (ledger_runtime small_payload) (writer ''r1'') empty_ledger (first_request small_payload) None None)"
  have ok: "lines_ok (ledger_runtime small_payload) (writer ''r1'') empty_ledger 1 genesis_digest [] []" by simp
  have "line_ok (ledger_runtime small_payload) (writer ''r1'') empty_ledger 1 genesis_digest
      (canonical_json_bytes (ledger_runtime small_payload) (JObj (first_event small_payload))) first_read"
    using append_line_ok(2) [OF _ ok first_new [symmetric] first_schema first_reparsed _
        first_reads_back [OF small_wf] first_storable]
      small_wf
    by (simp add: first_request_def ledger_runtime_def del: wf_json.simps reparsed.simps)
  moreover have "splitlines (canonical_json_bytes (ledger_runtime small_payload) (JObj (first_event small_payload)) @ [LF])
      = [canonical_json_bytes (ledger_runtime small_payload) (JObj (first_event small_payload))]"
    using first_reads_back [OF small_wf] splitlines_snoc [of "[]"]
    by (simp add: reads_back_def complete_lines_def splitlines_def)
  ultimately have v: "verify_payload (ledger_runtime small_payload) (writer ''r1'') empty_ledger
      (canonical_json_bytes (ledger_runtime small_payload) (JObj (first_event small_payload)) @ [LF]) = Inr [first_read]"
    by (simp add: verify_payload_iff)
  have "list_all2 same_event [first_read] [first_read]"
    by (rule tampering_is_evident [OF _ v v]) (simp_all add: colliding_def)
  with v show ?thesis by blast
qed

text \<open>
  Stored blobs stay: after any sequence of writes through a run's handle, every blob
  written, and every blob readable before, is returned by \<^verbatim>\<open>read_blob\<close> under its digest,
  unchanged.
\<close>

theorem blobs_read_back:
  assumes "put_all (put_blob rt (writer r)) fs bs = Inr (ds, fs')"
  shows "ds = map (sha256_digest rt) bs
    \<and> (\<forall>b \<in> set bs. read_blob rt (writer r) fs' (sha256_digest rt b) = Inr b)
    \<and> (\<forall>d b. read_blob rt (writer r) fs d = Inr b \<longrightarrow> read_blob rt (writer r) fs' d = Inr b)"
  using blobs.put_all_stored [OF assms] blobs.put_all_keeps [OF assms] by blast

theorem blobs_read_back_witness:
  "\<exists>fs'. put_all (put_blob (ledger_runtime small_payload) (writer ''r1'')) empty_ledger [''a'', ''bc''] =
       Inr ([sha256_digest (ledger_runtime small_payload) ''a'', sha256_digest (ledger_runtime small_payload) ''bc''], fs')
     \<and> read_blob (ledger_runtime small_payload) (writer ''r1'') fs' (sha256_digest (ledger_runtime small_payload) ''a'') = Inr ''a''"
proof -
  have len: "rt_sha256 (ledger_runtime small_payload) s = length s" for s
    by (simp add: ledger_runtime_def sample_runtime_def)
  have "hex_digits 64 (Suc (Suc 0)) \<noteq> hex_digits 64 (Suc 0)"
    using hex_digits_inject [of 64 "Suc (Suc 0)" "Suc 0"] by auto
  then have "blob_name (sha256_digest (ledger_runtime small_payload) ''bc'') \<noteq> blob_name (sha256_digest (ledger_runtime small_payload) ''a'')"
    by (simp add: blob_name_digest) (simp add: sha256_digest_def len)
  then have p: "put_all (put_blob (ledger_runtime small_payload) (writer ''r1'')) empty_ledger [''a'', ''bc''] =
      Inr ([sha256_digest (ledger_runtime small_payload) ''a'', sha256_digest (ledger_runtime small_payload) ''bc''],
        empty_ledger\<lparr>lf_blobs := (\<lambda>_. None)(blob_name (sha256_digest (ledger_runtime small_payload) ''a'') \<mapsto> ''a'',
           blob_name (sha256_digest (ledger_runtime small_payload) ''bc'') \<mapsto> ''bc'')\<rparr>)"
    by (simp add: put_blob_def Let_def empty_ledger_def)
  from blobs_read_back [OF p] p show ?thesis by auto
qed

text \<open>
  A ledger handle for writing is given out only where the run may go on: a fresh run gets
  one only if no ledger exists, and starts it empty; a resumed run gets one only if its ledger
  verifies, is not empty and does not end in a terminal state, and nothing is written.
\<close>

theorem new_ledger_admits:
  "new_ledger rt fs run_id resume = Inr (lg, fs') \<longleftrightarrow>
     valid_run_id run_id \<and> lg = writer run_id \<and>
     (if resume then fs' = fs \<and> lf_events fs \<noteq> None \<and>
        (\<exists>es. verify rt (writer run_id) fs = Inr es \<and> es \<noteq> []
           \<and> str_of (dget (last es) ''state'') \<notin> set terminal_states)
      else lf_events fs = None \<and> fs' = fs\<lparr>lf_events := Some []\<rparr>)"
  by (auto simp: new_ledger_def Let_def writer_def [symmetric] split: if_splits)




end
