(* ===== verification/Authoring.thy ===== *)
theory Authoring
  imports Canonical
begin

text \<open>
  Contract authoring and digest-bound approval, \<^verbatim>\<open>src/pmpe/contracts/authoring.py\<close>, with the
  contract loader it validates against, \<^verbatim>\<open>src/pmpe/contracts/model.py\<close>. The JSON-schema
  validator and Python's ISO date parser are parameters. \<^verbatim>\<open>str.lower\<close> is modelled for ASCII
  letters.
\<close>

section \<open>Python equality on JSON values\<close>

text \<open>\<^verbatim>\<open>==\<close>: numbers and booleans by value, objects as mappings.\<close>

fun py_norm :: "json \<Rightarrow> json" where
  "py_norm (JBool b) = JFloat (if b then 1 else 0)"
| "py_norm (JInt n) = JFloat (of_int n)"
| "py_norm (JList xs) = JList (map py_norm xs)"
| "py_norm (JObj d) = JObj (sort_key fst (map (\<lambda>(k, v). (k, py_norm v)) d))"
| "py_norm v = v"

definition py_eq :: "json \<Rightarrow> json \<Rightarrow> bool" where
  "py_eq x y \<longleftrightarrow> py_norm x = py_norm y"

lemma py_norm_str [simp]: "py_norm x = JStr s \<longleftrightarrow> x = JStr s"
  by (cases x) auto

lemma py_norm_str' [simp]: "JStr s = py_norm x \<longleftrightarrow> x = JStr s"
  by (cases x) auto

lemma py_eq_refl [simp]: "py_eq x x"
  by (simp add: py_eq_def)

lemma py_eq_str [simp]: "py_eq x (JStr s) \<longleftrightarrow> x = JStr s"
  by (simp add: py_eq_def)

section \<open>Loading a contract\<close>

datatype contract_error =
    Spec_error string "string list"    \<comment> \<open>\<^verbatim>\<open>SpecError\<close>\<close>
  | Contract_violation string          \<comment> \<open>\<^verbatim>\<open>ContractViolation\<close>\<close>

text \<open>
  What the module calls and does not define: the field-level messages of the schema
  validator, and \<^verbatim>\<open>datetime.fromisoformat\<close>, \<^const>\<open>None\<close> where it raises and otherwise
  whether the result has a time zone.
\<close>

record authoring_env =
  au_schema :: "obj \<Rightarrow> string list"
  au_iso :: "string \<Rightarrow> bool option"

definition contract_id_tail :: "char \<Rightarrow> bool" where
  "contract_id_tail c \<longleftrightarrow> is_alnum_ascii c \<or> c \<in> {CHR ''.'', CHR ''_'', CHR '':'', CHR ''-''}"

definition safe_contract_id :: "string \<Rightarrow> bool" where
  "safe_contract_id s = (case s of [] \<Rightarrow> False
     | c # cs \<Rightarrow> is_alnum_ascii c \<and> length cs \<le> 127 \<and> list_all contract_id_tail cs)"

definition id_collections :: "string list" where
  "id_collections = [''functional_requirements'', ''acceptance_criteria'', ''binary_release_gates'',
     ''scored_eval_rubric'', ''non_functional_requirements'', ''approved_product_decisions'',
     ''unresolved_questions'']"

text \<open>\<^verbatim>\<open>str(item.get(key, ""))\<close>.\<close>

definition text_at :: "runtime \<Rightarrow> obj \<Rightarrow> string \<Rightarrow> string" where
  "text_at rt d k = (case map_of d k of None \<Rightarrow> [] | Some v \<Rightarrow> py_str (rt_repr rt) v)"

fun duplicate_ids :: "runtime \<Rightarrow> string \<Rightarrow> string list \<Rightarrow> json list \<Rightarrow> string list" where
  "duplicate_ids rt c seen [] = []"
| "duplicate_ids rt c seen (JObj item # rest) =
     (let i = text_at rt item ''id'' in
      (if i \<in> set seen then [c @ '': duplicate id '' @ [CHR 0x27] @ i @ [CHR 0x27]] else [])
      @ duplicate_ids rt c (i # seen) rest)"
| "duplicate_ids rt c seen (_ # rest) = duplicate_ids rt c seen rest"

text \<open>
  Iterating over \<^verbatim>\<open>data.get(collection, [])\<close>: a list gives its items; iterating over any
  other JSON value gives no object (or raises, after the schema has already failed).
\<close>

definition collection_items :: "obj \<Rightarrow> string \<Rightarrow> json list" where
  "collection_items d c = (case dget d c of JList xs \<Rightarrow> xs | _ \<Rightarrow> [])"

definition contract_errors :: "runtime \<Rightarrow> authoring_env \<Rightarrow> obj \<Rightarrow> string list" where
  "contract_errors rt env d =
     au_schema env d
     @ (case dget d ''contract_id'' of
          JStr s \<Rightarrow> (if safe_contract_id s then [] else [''contract_id: unsafe or unbounded identifier''])
        | _ \<Rightarrow> [''contract_id: unsafe or unbounded identifier''])
     @ concat (map (\<lambda>c. duplicate_ids rt c [] (collection_items d c)) id_collections)"

text \<open>\<^verbatim>\<open>load_contract\<close> on the bytes of the file; the typed view is \<^verbatim>\<open>raw\<close> itself.\<close>

definition load_contract :: "runtime \<Rightarrow> authoring_env \<Rightarrow> bytes \<Rightarrow> contract_error + obj" where
  "load_contract rt env payload = (case strict_loads rt payload ''application/json'' of
      Inl _ \<Rightarrow> Inl (Spec_error ''cannot read contract'' [])
    | Inr d \<Rightarrow> (let errors = contract_errors rt env d in
        if errors \<noteq> [] then Inl (Spec_error ''contract violates the schema'' errors) else Inr d))"

definition validate_contract_object :: "runtime \<Rightarrow> authoring_env \<Rightarrow> obj \<Rightarrow> contract_error + unit" where
  "validate_contract_object rt env contract =
     bindr (load_contract rt env (canonical_json_bytes rt (JObj contract) @ [CHR 0x0A])) (\<lambda>_. Inr ())"

text \<open>\<^verbatim>\<open>bool(v)\<close>.\<close>

fun truthy :: "json \<Rightarrow> bool" where
  "truthy JNull = False"
| "truthy (JBool b) = b"
| "truthy (JInt n) = (n \<noteq> 0)"
| "truthy (JFloat r) = (r \<noteq> 0)"
| "truthy (JStr s) = (s \<noteq> [])"
| "truthy (JList xs) = (xs \<noteq> [])"
| "truthy (JObj d) = (d \<noteq> [])"

definition question_open :: "json \<Rightarrow> bool" where
  "question_open q = (case q of
      JObj d \<Rightarrow> truthy (dget d ''product_critical'')
        \<and> (case dget d ''resolution'' of JStr s \<Rightarrow> strip s = [] | _ \<Rightarrow> True)
    | _ \<Rightarrow> False)"

definition field_text :: "obj \<Rightarrow> string \<Rightarrow> string" where
  "field_text d k = (case dget d k of JStr s \<Rightarrow> s | _ \<Rightarrow> [])"

text \<open>\<^verbatim>\<open>ProductDecisionContract.blockers\<close>, by kind, and \<^verbatim>\<open>runnable\<close>.\<close>

datatype blocker = Not_approved string | No_approver | No_timestamp | Open_question string

definition blockers :: "obj \<Rightarrow> blocker list" where
  "blockers d =
     (if field_text d ''contract_status'' \<noteq> ''APPROVED''
      then [Not_approved (field_text d ''contract_status'')] else [])
     @ (if field_text d ''contract_status'' = ''APPROVED'' \<and> strip (field_text d ''approved_by'') = []
        then [No_approver] else [])
     @ (if field_text d ''contract_status'' = ''APPROVED'' \<and> strip (field_text d ''approved_at'') = []
        then [No_timestamp] else [])
     @ concat (map (\<lambda>q. if question_open q
          then [Open_question (case q of JObj e \<Rightarrow> field_text e ''id'' | _ \<Rightarrow> [])] else [])
         (collection_items d ''unresolved_questions''))"

definition runnable :: "obj \<Rightarrow> bool" where
  "runnable d \<longleftrightarrow> blockers d = []"

section \<open>Drafting\<close>

definition required_answer_fields :: "(string \<times> string) list" where
  "required_answer_fields =
     [(''acceptance_criteria'', ''What observable acceptance criteria prove each requirement?''),
      (''binary_release_gates'', ''Which binary gates must pass before release?''),
      (''desired_outcome'', ''What user outcome should change if this works?''),
      (''functional_requirements'', ''What behaviors must the product provide?''),
      (''golden_cases'', ''Which representative cases must remain correct?''),
      (''guardrails'', ''Which safety or quality limits must not be crossed?''),
      (''known_risks'', ''What known risks must engineering and release account for?''),
      (''leading_metrics'', ''Which early measures indicate movement toward the outcome?''),
      (''non_functional_requirements'', ''What reliability, security, latency, or scale is required?''),
      (''north_star_metric'', ''Which outcome metric best represents delivered user value?''),
      (''out_of_scope'', ''What is explicitly excluded from this version?''),
      (''problem'', ''What customer problem are we solving, and why does it matter?''),
      (''product_name'', ''What should this product or capability be called?''),
      (''required_approvals'', ''Which roles must approve high-impact actions or release?''),
      (''scope'', ''What is included in the first version?''),
      (''scored_eval_rubric'', ''Which quality dimensions require scored evaluation?''),
      (''target_user'', ''Who specifically experiences the problem?'')]"

definition optional_answer_fields :: "string list" where
  "optional_answer_fields = [''approved_product_decisions'', ''contract_id'', ''contract_version'']"

definition activity_metric_terms :: "string list" where
  "activity_metric_terms = [''number of prompts'', ''prompts generated'', ''number of tasks created'',
     ''tasks created'', ''number of logins'', ''daily active users'']"

record blocking_question =
  bq_id :: string
  bq_field :: string
  bq_question :: string
  bq_reason :: string

record draft_result =
  dr_status :: string
  dr_draft :: "obj option"
  dr_digest :: "string option"
  dr_questions :: "blocking_question list"
  dr_source_map :: "(string \<times> string) list"

definition answer_present :: "json \<Rightarrow> bool" where
  "answer_present v = (case v of
      JNull \<Rightarrow> False | JStr s \<Rightarrow> strip s \<noteq> [] | JList xs \<Rightarrow> xs \<noteq> [] | JObj d \<Rightarrow> d \<noteq> [] | _ \<Rightarrow> True)"

definition question :: "string \<Rightarrow> string \<Rightarrow> nat \<Rightarrow> blocking_question" where
  "question field reason index =
     \<lparr>bq_id = ''Q-'' @ pad3 index, bq_field = field,
      bq_question = (case map_of required_answer_fields field of
         Some q \<Rightarrow> q | None \<Rightarrow> ''Supply explicit product truth for '' @ field @ ''.''),
      bq_reason = reason\<rparr>"

definition ascii_lower :: "string \<Rightarrow> string" where
  "ascii_lower = map (\<lambda>c. if is_upper c then char_of ((of_char c :: nat) + 32) else c)"

definition ascii_upper :: "string \<Rightarrow> string" where
  "ascii_upper = map (\<lambda>c. if is_lower c then char_of ((of_char c :: nat) - 32) else c)"

definition ids_in :: "runtime \<Rightarrow> string \<Rightarrow> json list \<Rightarrow> string list" where
  "ids_in rt k xs = concat (map (\<lambda>x. case x of JObj d \<Rightarrow> [text_at rt d k] | _ \<Rightarrow> []) xs)"

definition reference_questions :: "runtime \<Rightarrow> obj \<Rightarrow> (string \<times> string) list" where
  "reference_questions rt answers =
     (case (dget answers ''functional_requirements'', dget answers ''acceptance_criteria'') of
        (JList rs, JList cs) \<Rightarrow>
          (let known = ids_in rt ''id'' rs; refs = ids_in rt ''requirement'' cs;
               unknown = sorted_set (filter (\<lambda>r. r \<notin> set known) refs);
               unref = sorted_set (filter (\<lambda>r. r \<notin> set refs) known)
           in (if unknown \<noteq> [] then [(''acceptance_criteria'',
                 ''Acceptance criteria reference unknown requirement '' @ hd unknown @ ''.'')] else [])
              @ (if unref \<noteq> [] then [(''acceptance_criteria'',
                 ''Requirement '' @ hd unref @ '' has no acceptance criterion.'')] else []))
      | _ \<Rightarrow> [])"

definition semantic_questions :: "runtime \<Rightarrow> obj \<Rightarrow> (string \<times> string) list" where
  "semantic_questions rt answers =
     reference_questions rt answers
     @ (case dget answers ''north_star_metric'' of
          JStr m \<Rightarrow> (if list_ex (\<lambda>t. str_in t (ascii_lower m)) activity_metric_terms
             then [(''north_star_metric'', ''The proposed North Star is an activity measure, not an outcome.'')]
             else [])
        | _ \<Rightarrow> [])"

definition required_names :: "string list" where
  "required_names = sort (map fst required_answer_fields)"

definition missing_answers :: "obj \<Rightarrow> (string \<times> string) list" where
  "missing_answers answers =
     map (\<lambda>f. (f, ''Required product truth is missing.''))
       (filter (\<lambda>f. \<not> answer_present (dget answers f)) required_names)"

definition number_questions :: "(string \<times> string) list \<Rightarrow> blocking_question list" where
  "number_questions fs = map (\<lambda>(i, f, r). question f r (Suc i)) (zip [0..<length fs] fs)"

definition source_map_of :: "obj \<Rightarrow> (string \<times> string) list" where
  "source_map_of answers =
     map (\<lambda>f. (''/'' @ f, ''/answers/'' @ f)) (filter (dhas answers) required_names)"

text \<open>\<^verbatim>\<open>answers.get("contract_id") or ...\<close>: the default applies to every false value.\<close>

definition draft_contract_id :: "runtime \<Rightarrow> obj \<Rightarrow> string" where
  "draft_contract_id rt answers =
     (if truthy (dget answers ''contract_id'') then py_str (rt_repr rt) (dget answers ''contract_id'')
      else ''PDC-'' @ ascii_upper (take 12 (remove_prefix ''sha256:'' (canonical_digest rt (JObj answers)))))"

definition draft_version :: "obj \<Rightarrow> int option" where
  "draft_version answers = (case map_of answers ''contract_version'' of
      None \<Rightarrow> Some 1
    | Some (JInt n) \<Rightarrow> (if n < 1 then None else Some n)
    | Some _ \<Rightarrow> None)"

definition draft_object :: "runtime \<Rightarrow> obj \<Rightarrow> int \<Rightarrow> obj" where
  "draft_object rt answers version =
     [(''acceptance_criteria'', dget answers ''acceptance_criteria''),
      (''approved_at'', JStr []),
      (''approved_by'', JStr []),
      (''approved_product_decisions'', (case map_of answers ''approved_product_decisions'' of
          None \<Rightarrow> JList [] | Some v \<Rightarrow> v)),
      (''binary_release_gates'', dget answers ''binary_release_gates''),
      (''contract_id'', JStr (draft_contract_id rt answers)),
      (''contract_status'', JStr ''DRAFT''),
      (''contract_version'', JInt version),
      (''desired_outcome'', dget answers ''desired_outcome''),
      (''functional_requirements'', dget answers ''functional_requirements''),
      (''golden_cases'', dget answers ''golden_cases''),
      (''guardrails'', dget answers ''guardrails''),
      (''known_risks'', dget answers ''known_risks''),
      (''leading_metrics'', dget answers ''leading_metrics''),
      (''non_functional_requirements'', dget answers ''non_functional_requirements''),
      (''north_star_metric'', dget answers ''north_star_metric''),
      (''out_of_scope'', dget answers ''out_of_scope''),
      (''problem'', dget answers ''problem''),
      (''product_name'', dget answers ''product_name''),
      (''required_approvals'', dget answers ''required_approvals''),
      (''scope'', dget answers ''scope''),
      (''scored_eval_rubric'', dget answers ''scored_eval_rubric''),
      (''source_digest'', JStr (canonical_digest rt (JObj answers))),
      (''target_user'', dget answers ''target_user''),
      (''unresolved_questions'', JList [])]"

definition build_contract_draft :: "runtime \<Rightarrow> authoring_env \<Rightarrow> obj \<Rightarrow> contract_error + draft_result" where
  "build_contract_draft rt env answers =
     (let unknown = sorted_set (filter (\<lambda>k. k \<notin> set (map fst required_answer_fields)
            \<and> k \<notin> set optional_answer_fields) (map fst answers)) in
      if unknown \<noteq> [] then Inl (Spec_error (''contract answers contain an unmapped field: '' @ hd unknown
           @ ''; map or remove it before approval'') [])
      else let questions = number_questions (missing_answers answers @ semantic_questions rt answers) in
        if questions \<noteq> [] then
          Inr \<lparr>dr_status = ''PRODUCT_INPUT_REQUIRED'', dr_draft = None, dr_digest = None,
               dr_questions = questions, dr_source_map = source_map_of answers\<rparr>
        else if \<not> safe_contract_id (draft_contract_id rt answers) then
          Inl (Spec_error ''contract_id must be a bounded identifier containing only letters, digits, . _ : or -'' [])
        else case draft_version answers of
          None \<Rightarrow> Inl (Spec_error ''contract_version must be a positive integer'' [])
        | Some version \<Rightarrow>
            (let draft = draft_object rt answers version in
             bindr (validate_contract_object rt env draft) (\<lambda>_.
               Inr \<lparr>dr_status = ''DRAFT_READY_FOR_APPROVAL'', dr_draft = Some draft,
                    dr_digest = Some (canonical_digest rt (JObj draft)), dr_questions = [],
                    dr_source_map = source_map_of answers\<rparr>)))"

section \<open>Approval\<close>

text \<open>\<^verbatim>\<open>value.replace("Z", "+00:00")\<close> before the ISO parser.\<close>

definition iso_text :: "string \<Rightarrow> string" where
  "iso_text s = concat (map (\<lambda>c. if c = CHR ''Z'' then ''+00:00'' else [c]) s)"

definition valid_rfc3339 :: "authoring_env \<Rightarrow> string \<Rightarrow> bool" where
  "valid_rfc3339 env s \<longleftrightarrow> au_iso env (iso_text s) = Some True \<and> strip s \<noteq> []"

definition approved_form :: "obj \<Rightarrow> string \<Rightarrow> string \<Rightarrow> obj" where
  "approved_form draft approver approved_at =
     dput ''approved_at'' (JStr (strip approved_at))
       (dput ''approved_by'' (JStr (strip approver))
         (dput ''contract_status'' (JStr ''APPROVED'') draft))"

definition unsigned_receipt :: "runtime \<Rightarrow> obj \<Rightarrow> obj \<Rightarrow> string \<Rightarrow> string \<Rightarrow> obj" where
  "unsigned_receipt rt draft approved approver approved_at =
     [(''approved_at'', JStr (strip approved_at)),
      (''approved_by'', JStr (strip approver)),
      (''approved_contract_digest'', JStr (canonical_digest rt (JObj approved))),
      (''contract_id'', dget approved ''contract_id''),
      (''contract_version'', dget approved ''contract_version''),
      (''decision'', JStr ''APPROVED''),
      (''draft_digest'', JStr (canonical_digest rt (JObj draft))),
      (''schema_version'', JStr ''1.0.0'')]"

text \<open>The receipt with the digest of everything else in it.\<close>

definition sign_receipt :: "runtime \<Rightarrow> obj \<Rightarrow> obj" where
  "sign_receipt rt unsigned =
     unsigned @ [(''receipt_digest'', JStr (canonical_digest rt (JObj unsigned)))]"

definition approve_contract_draft ::
  "runtime \<Rightarrow> authoring_env \<Rightarrow> obj \<Rightarrow> string \<Rightarrow> string \<Rightarrow> string \<Rightarrow> contract_error + (obj \<times> obj)" where
  "approve_contract_draft rt env draft expected approver approved_at =
     (if dget draft ''contract_status'' \<noteq> JStr ''DRAFT'' then
        Inl (Contract_violation ''only a DRAFT contract can be approved'')
      else if \<not> is_digest_str expected then
        Inl (Contract_violation ''expected draft digest is malformed'')
      else if canonical_digest rt (JObj draft) \<noteq> expected then
        Inl (Contract_violation ''draft content differs from the explicitly approved digest'')
      else if strip approver = [] \<or> \<not> valid_rfc3339 env approved_at then
        Inl (Contract_violation ''approval requires a named approver and timestamp'')
      else let approved = approved_form draft approver approved_at in
        bindr (validate_contract_object rt env approved) (\<lambda>_.
          Inr (approved, sign_receipt rt (unsigned_receipt rt draft approved approver approved_at))))"

definition receipt_fields :: "string list" where
  "receipt_fields = [''approved_at'', ''approved_by'', ''approved_contract_digest'', ''contract_id'',
     ''contract_version'', ''decision'', ''draft_digest'', ''receipt_digest'', ''schema_version'']"

definition digest_text :: "json \<Rightarrow> bool" where
  "digest_text v = (case v of JStr s \<Rightarrow> is_digest_str s | _ \<Rightarrow> False)"

definition bound_to_contract :: "runtime \<Rightarrow> obj \<Rightarrow> obj \<Rightarrow> bool" where
  "bound_to_contract rt contract receipt \<longleftrightarrow>
     dget receipt ''schema_version'' = JStr ''1.0.0''
     \<and> dget receipt ''decision'' = JStr ''APPROVED''
     \<and> dget receipt ''approved_contract_digest'' = JStr (canonical_digest rt (JObj contract))
     \<and> dget contract ''contract_status'' = JStr ''APPROVED''
     \<and> py_eq (dget receipt ''contract_id'') (dget contract ''contract_id'')
     \<and> py_eq (dget receipt ''contract_version'') (dget contract ''contract_version'')
     \<and> py_eq (dget receipt ''approved_by'') (dget contract ''approved_by'')
     \<and> py_eq (dget receipt ''approved_at'') (dget contract ''approved_at'')"

definition reconstructed_draft :: "obj \<Rightarrow> obj" where
  "reconstructed_draft contract =
     dput ''approved_at'' (JStr []) (dput ''approved_by'' (JStr [])
       (dput ''contract_status'' (JStr ''DRAFT'') contract))"

definition verify_contract_approval ::
  "runtime \<Rightarrow> obj \<Rightarrow> obj \<Rightarrow> string \<Rightarrow> contract_error + string" where
  "verify_contract_approval rt contract receipt expected_approver =
     (if set (map fst receipt) \<noteq> set receipt_fields then
        Inl (Contract_violation ''approval receipt has an unexpected shape'')
      else if \<not> digest_text (dget receipt ''receipt_digest'') then
        Inl (Contract_violation ''approval receipt digest is malformed'')
      else if dget receipt ''receipt_digest'' \<noteq> JStr (canonical_digest rt (JObj (ddel ''receipt_digest'' receipt))) then
        Inl (Contract_violation ''approval receipt content differs from its digest'')
      else if \<not> bound_to_contract rt contract receipt then
        Inl (Contract_violation ''approval receipt is not bound to the approved contract'')
      else if \<not> digest_text (dget receipt ''draft_digest'') then
        Inl (Contract_violation ''approval receipt draft digest is malformed'')
      else if dget receipt ''draft_digest'' \<noteq> JStr (canonical_digest rt (JObj (reconstructed_draft contract))) then
        Inl (Contract_violation ''approval receipt is not bound to the exact reviewed draft'')
      else let authority = strip expected_approver in
        if authority = [] \<or> dget receipt ''approved_by'' \<noteq> JStr authority then
          Inl (Contract_violation ''approval receipt is not from the expected approver'')
        else Inr (case dget receipt ''receipt_digest'' of JStr s \<Rightarrow> s | _ \<Rightarrow> []))"

section \<open>Approving and verifying\<close>

lemma distinct_approved: "distinct (map fst d) \<Longrightarrow> distinct (map fst (approved_form d a t))"
  unfolding approved_form_def by (intro distinct_dput)

lemma distinct_reconstructed: "distinct (map fst d) \<Longrightarrow> distinct (map fst (reconstructed_draft d))"
  unfolding reconstructed_draft_def by (intro distinct_dput)

lemma reconstruct_approved:
  assumes "distinct (map fst draft)" "map_of draft ''contract_status'' = Some (JStr ''DRAFT'')"
    and "map_of draft ''approved_by'' = Some (JStr [])" "map_of draft ''approved_at'' = Some (JStr [])"
  shows "canon (JObj (reconstructed_draft (approved_form draft a t))) = canon (JObj draft)"
proof (rule canon_obj_eqI)
  show "map_option canon (map_of (reconstructed_draft (approved_form draft a t)) k)
      = map_option canon (map_of draft k)" for k
    using assms(2-4) by (simp add: reconstructed_draft_def approved_form_def fun_upd_def)
qed (use assms(1) distinct_reconstructed distinct_approved in blast)+

lemma receipt_keys: "map fst (sign_receipt rt (unsigned_receipt rt d a ap at')) =
   [''approved_at'', ''approved_by'', ''approved_contract_digest'', ''contract_id'', ''contract_version'',
    ''decision'', ''draft_digest'', ''schema_version'', ''receipt_digest'']"
  by (simp add: sign_receipt_def unsigned_receipt_def)

lemma receipt_get [simp]:
  "dget (sign_receipt rt (unsigned_receipt rt d a ap t)) ''approved_at'' = JStr (strip t)"
  "dget (sign_receipt rt (unsigned_receipt rt d a ap t)) ''approved_by'' = JStr (strip ap)"
  "dget (sign_receipt rt (unsigned_receipt rt d a ap t)) ''approved_contract_digest'' =
     JStr (canonical_digest rt (JObj a))"
  "dget (sign_receipt rt (unsigned_receipt rt d a ap t)) ''contract_id'' = dget a ''contract_id''"
  "dget (sign_receipt rt (unsigned_receipt rt d a ap t)) ''contract_version'' = dget a ''contract_version''"
  "dget (sign_receipt rt (unsigned_receipt rt d a ap t)) ''decision'' = JStr ''APPROVED''"
  "dget (sign_receipt rt (unsigned_receipt rt d a ap t)) ''draft_digest'' = JStr (canonical_digest rt (JObj d))"
  "dget (sign_receipt rt (unsigned_receipt rt d a ap t)) ''schema_version'' = JStr ''1.0.0''"
  "dget (sign_receipt rt (unsigned_receipt rt d a ap t)) ''receipt_digest'' =
     JStr (canonical_digest rt (JObj (unsigned_receipt rt d a ap t)))"
  by (simp_all add: dget_def sign_receipt_def unsigned_receipt_def)

lemma unsign: "ddel ''receipt_digest'' (sign_receipt rt (unsigned_receipt rt d a ap t)) = unsigned_receipt rt d a ap t"
  by (simp add: ddel_def sign_receipt_def unsigned_receipt_def)

lemma approved_get [simp]:
  "dget (approved_form d a t) ''contract_status'' = JStr ''APPROVED''"
  "dget (approved_form d a t) ''approved_by'' = JStr (strip a)"
  "dget (approved_form d a t) ''approved_at'' = JStr (strip t)"
  by (simp_all add: dget_def approved_form_def)

lemma approve_Inr:
  assumes "approve_contract_draft rt env draft expected approver at' = Inr (c, r)"
  shows "c = approved_form draft approver at'"
    "r = sign_receipt rt (unsigned_receipt rt draft c approver at')"
    "dget draft ''contract_status'' = JStr ''DRAFT''" "canonical_digest rt (JObj draft) = expected"
    "strip approver \<noteq> []" "valid_rfc3339 env at'"
  using assms by (auto simp: approve_contract_draft_def Let_def split: if_splits)

lemma signed_receipt_verifies:
  assumes cf: "canonical_fn (canonical_digest rt)" and d: "distinct (map fst draft)"
    and blank: "map_of draft ''approved_by'' = Some (JStr [])" "map_of draft ''approved_at'' = Some (JStr [])"
    and ok: "approve_contract_draft rt env draft expected approver at' = Inr (c, r)"
    and who: "strip approver' = strip approver"
  shows "verify_contract_approval rt c r approver' = Inr (canonical_digest rt (JObj (unsigned_receipt rt draft c approver at')))"
proof -
  note a = approve_Inr [OF ok]
  have "map_of draft ''contract_status'' = Some (JStr ''DRAFT'')"
    using a(3) by (simp add: dget_def split: option.splits)
  then have "canonical_digest rt (JObj (reconstructed_draft c)) = canonical_digest rt (JObj draft)"
    unfolding a(1) by (intro canonical_fnD [OF cf] reconstruct_approved d blank)
  moreover have "set (map fst r) = set receipt_fields"
    by (simp add: a(2) receipt_keys receipt_fields_def insert_commute del: set_map)
  moreover have "bound_to_contract rt c r"
    by (simp add: bound_to_contract_def a(2)) (simp add: a(1))
  ultimately show ?thesis
    using a(5) who
    unfolding verify_contract_approval_def
    by (simp add: a(2) unsign digest_text_def Let_def del: set_map)
qed

lemma verified_facts:
  assumes "verify_contract_approval rt c r approver = Inr d"
  shows "set (map fst r) = set receipt_fields"
    "dget r ''receipt_digest'' = JStr d" "d = canonical_digest rt (JObj (ddel ''receipt_digest'' r))"
    "dget r ''approved_contract_digest'' = JStr (canonical_digest rt (JObj c))"
    "dget r ''approved_by'' = JStr (strip approver)" "strip approver \<noteq> []"
    "dget r ''draft_digest'' = JStr (canonical_digest rt (JObj (reconstructed_draft c)))"
    "dget c ''contract_status'' = JStr ''APPROVED''" "dget c ''approved_by'' = JStr (strip approver)"
  using assms
  by (auto simp: verify_contract_approval_def Let_def bound_to_contract_def py_eq_def split: if_splits json.splits)

lemma required_names_set: "set required_names = set (map fst required_answer_fields)"
  by (simp only: required_names_def set_sort)

lemma draft_keeps_answers:
  "f \<in> set (map fst required_answer_fields) \<Longrightarrow> dget (draft_object rt answers v) f = dget answers f"
proof -
  assume f: "f \<in> set (map fst required_answer_fields)"
  have "map (dget (draft_object rt answers v)) (map fst required_answer_fields)
      = map (dget answers) (map fst required_answer_fields)"
    by (simp add: required_answer_fields_def dget_def [of "draft_object rt answers v"] draft_object_def)
  with f show ?thesis by (simp only: map_eq_conv)
qed

lemma draft_object_blank:
  "distinct (map fst (draft_object rt answers v))"
  "map_of (draft_object rt answers v) ''contract_status'' = Some (JStr ''DRAFT'')"
  "map_of (draft_object rt answers v) ''approved_by'' = Some (JStr [])"
  "map_of (draft_object rt answers v) ''approved_at'' = Some (JStr [])"
  by (simp_all add: draft_object_def)

lemma build_draft_Some:
  assumes "build_contract_draft rt env answers = Inr r" "dr_draft r = Some draft"
  shows "\<exists>v. draft = draft_object rt answers v" "dr_questions r = []"
    "missing_answers answers = []" "semantic_questions rt answers = []"
    "dr_digest r = Some (canonical_digest rt (JObj draft))"
    "validate_contract_object rt env draft = Inr ()"
proof -
  have nq: "number_questions fs = [] \<longleftrightarrow> fs = []" for fs
    by (cases fs) (simp_all add: number_questions_def)
  show "\<exists>v. draft = draft_object rt answers v" "dr_questions r = []"
    "missing_answers answers = []" "semantic_questions rt answers = []"
    "dr_digest r = Some (canonical_digest rt (JObj draft))"
    "validate_contract_object rt env draft = Inr ()"
    using assms by (auto simp: build_contract_draft_def Let_def nq split: if_splits option.splits)
qed

section \<open>A concrete approval\<close>

text \<open>Complete answers, a runtime that can write the draft and the approved contract.\<close>

definition demo_answers :: obj where
  "demo_answers = map (\<lambda>f. (fst f, JStr ''x'')) required_answer_fields @ [(''contract_id'', JStr ''C1'')]"

definition demo_env :: authoring_env where
  "demo_env = \<lparr>au_schema = (\<lambda>_. []), au_iso = (\<lambda>_. Some True)\<rparr>"

definition demo_draft :: obj where
  "demo_draft = draft_object (sample_runtime [JNull, JNull, JNull, JNull]) demo_answers 1"

definition demo_contract :: obj where
  "demo_contract = approved_form demo_draft ''pm'' ''t''"

definition demo_runtime :: runtime where
  "demo_runtime = sample_runtime [JObj demo_draft, JObj demo_draft, JObj demo_contract, JObj demo_contract]"

lemma demo_keys:
  "\<not> dhas demo_answers ''contract_status''" "dhas demo_draft ''contract_status''" "dhas demo_contract ''contract_status''"
  by (simp_all add: dhas_def demo_answers_def required_answer_fields_def demo_draft_def draft_object_def
      demo_contract_def approved_form_def)

lemma demo_answers_digest:
  "canonical_digest demo_runtime (JObj demo_answers) = canonical_digest (sample_runtime [JNull, JNull, JNull, JNull]) (JObj demo_answers)"
proof -
  have "canon (JObj demo_draft) \<noteq> canon (JObj demo_answers)" "canon (JObj demo_contract) \<noteq> canon (JObj demo_answers)"
    using demo_keys canon_obj_dhas by blast+
  then have "index_digest [JObj demo_draft, JObj demo_draft, JObj demo_contract, JObj demo_contract] (JObj demo_answers)
      = replicate (length [JObj demo_draft, JObj demo_draft, JObj demo_contract, JObj demo_contract]) (CHR ''1'')"
    by (intro index_digest_absent) (simp only: list.set ball_simps simp_thms)
  moreover have "index_digest [JNull, JNull, JNull, JNull] (JObj demo_answers) = replicate (length [JNull, JNull, JNull, JNull]) (CHR ''1'')"
    by (intro index_digest_absent) simp
  ultimately show ?thesis by (simp only: demo_runtime_def sample_digest) simp
qed

lemma demo_draft_eq: "draft_object demo_runtime demo_answers 1 = demo_draft"
  using demo_answers_digest
  by (simp add: demo_draft_def draft_object_def draft_contract_id_def)
    (simp add: demo_answers_def required_answer_fields_def dget_def)


lemma demo_draft_explicit:
  "demo_draft =
     [(''acceptance_criteria'', JStr ''x''), (''approved_at'', JStr []), (''approved_by'', JStr []),
      (''approved_product_decisions'', JList []), (''binary_release_gates'', JStr ''x''),
      (''contract_id'', JStr ''C1''), (''contract_status'', JStr ''DRAFT''), (''contract_version'', JInt 1),
      (''desired_outcome'', JStr ''x''), (''functional_requirements'', JStr ''x''),
      (''golden_cases'', JStr ''x''), (''guardrails'', JStr ''x''), (''known_risks'', JStr ''x''),
      (''leading_metrics'', JStr ''x''), (''non_functional_requirements'', JStr ''x''),
      (''north_star_metric'', JStr ''x''), (''out_of_scope'', JStr ''x''), (''problem'', JStr ''x''),
      (''product_name'', JStr ''x''), (''required_approvals'', JStr ''x''), (''scope'', JStr ''x''),
      (''scored_eval_rubric'', JStr ''x''),
      (''source_digest'', JStr (canonical_digest (sample_runtime [JNull, JNull, JNull, JNull]) (JObj demo_answers))),
      (''target_user'', JStr ''x''), (''unresolved_questions'', JList [])]"
  by (simp add: demo_draft_def draft_object_def draft_contract_id_def)
    (simp add: demo_answers_def required_answer_fields_def dget_def)

lemma demo_contract_explicit:
  "demo_contract = map (\<lambda>(k, v). (k, if k = ''contract_status'' then JStr ''APPROVED''
      else if k = ''approved_by'' then JStr ''pm'' else if k = ''approved_at'' then JStr ''t'' else v)) demo_draft"
  by (simp add: demo_contract_def approved_form_def demo_draft_explicit strip_def is_space_def)

definition valid_document :: "obj \<Rightarrow> bool" where
  "valid_document d \<longleftrightarrow> run_hooks demo_runtime (JObj d) = Inr (JObj d) \<and> admissible (JObj d) \<and> interoperable (JObj d)"

lemma demo_valid: "valid_document demo_draft" "valid_document demo_contract"
  by (simp_all add: valid_document_def demo_contract_explicit demo_draft_explicit reject_duplicate_pairs_def parse_int_def
      max_interoperable_integer_def admissible_def ascii_clean max_structure_nodes_def max_structure_depth_def)

lemma demo_differ: "canon (JObj demo_draft) \<noteq> canon (JObj demo_contract)"
proof
  assume eq: "canon (JObj demo_draft) = canon (JObj demo_contract)"
  have d: "distinct (map fst demo_draft)" "distinct (map fst demo_contract)"
    using demo_valid by (simp_all add: valid_document_def admissible_def)
  have "map_of demo_draft ''contract_status'' = Some (JStr ''DRAFT'')"
    "map_of demo_contract ''contract_status'' = Some (JStr ''APPROVED'')"
    by (simp_all add: demo_contract_explicit demo_draft_explicit)
  with canon_obj_lookup [OF eq d, of "''contract_status''"] show False by simp
qed

lemma demo_bytes:
  "canonical_json_bytes demo_runtime (JObj demo_draft) = []"
  "canonical_json_bytes demo_runtime (JObj demo_contract) = ''11''"
  using demo_differ by (simp_all add: demo_runtime_def index_digest_def del: canon.simps)

lemma demo_loads:
  assumes "valid_document d" "rt_json demo_runtime b = Some (JObj d)" "utf8_decode b = Some ps"
  shows "strict_loads demo_runtime b ''application/json'' = Inr d"
proof -
  from assms(1) have "admit_unicode 0 0 (JObj d) = Inr (json_nodes (JObj d))"
    unfolding valid_document_def admit_iff admissible_def by simp
  with assms show ?thesis
    by (simp add: strict_loads_def read_source_def valid_document_def
        del: run_hooks.simps admit_unicode.simps interoperable.simps json_nodes.simps)
qed

lemma demo_errors: "contract_errors demo_runtime demo_env demo_draft = []"
  "contract_errors demo_runtime demo_env demo_contract = []"
  by (simp_all add: contract_errors_def demo_env_def demo_contract_explicit demo_draft_explicit dget_def
      safe_contract_id_def is_alnum_ascii_def is_digit_def is_upper_def contract_id_tail_def
      id_collections_def collection_items_def)

lemma demo_validates:
  "validate_contract_object demo_runtime demo_env demo_draft = Inr ()"
  "validate_contract_object demo_runtime demo_env demo_contract = Inr ()"
proof -
  have "rt_json demo_runtime [CHR 0x0A] = Some (JObj demo_draft)"
    "rt_json demo_runtime (''11'' @ [CHR 0x0A]) = Some (JObj demo_contract)"
    by (simp_all add: demo_runtime_def sample_runtime_def)
  then have "strict_loads demo_runtime [CHR 0x0A] ''application/json'' = Inr demo_draft"
    "strict_loads demo_runtime (''11'' @ [CHR 0x0A]) ''application/json'' = Inr demo_contract"
    using demo_loads demo_valid by simp_all
  then show "validate_contract_object demo_runtime demo_env demo_draft = Inr ()"
    "validate_contract_object demo_runtime demo_env demo_contract = Inr ()"
    by (simp_all add: validate_contract_object_def load_contract_def demo_bytes demo_errors)
qed

lemma demo_builds:
  "\<exists>b. build_contract_draft demo_runtime demo_env demo_answers = Inr b \<and> dr_draft b = Some demo_draft"
proof -
  have "sorted_set (filter (\<lambda>k. k \<notin> set (map fst required_answer_fields)
            \<and> k \<notin> set optional_answer_fields) (map fst demo_answers)) = []" by code_simp
  moreover have "missing_answers demo_answers = []" by code_simp
  moreover have "semantic_questions demo_runtime demo_answers = []"
    by (simp add: semantic_questions_def reference_questions_def demo_answers_def required_answer_fields_def dget_def
        ascii_lower_def is_upper_def activity_metric_terms_def starts_with_def)
  moreover have "safe_contract_id (draft_contract_id demo_runtime demo_answers)"
    by (simp add: draft_contract_id_def demo_answers_def required_answer_fields_def dget_def
        safe_contract_id_def is_alnum_ascii_def is_digit_def is_upper_def contract_id_tail_def)
  moreover have "draft_version demo_answers = Some 1" by code_simp
  ultimately show ?thesis
    by (simp add: build_contract_draft_def Let_def number_questions_def demo_draft_eq demo_validates)
qed

lemma demo_approves:
  "approve_contract_draft demo_runtime demo_env demo_draft (canonical_digest demo_runtime (JObj demo_draft)) ''pm'' ''t''
     = Inr (demo_contract, sign_receipt demo_runtime (unsigned_receipt demo_runtime demo_draft demo_contract ''pm'' ''t''))"
proof -
  have "dget demo_draft ''contract_status'' = JStr ''DRAFT''" by (simp add: demo_draft_explicit dget_def)
  moreover have "strip ''pm'' = ''pm''" "valid_rfc3339 demo_env ''t''"
    by (simp_all add: valid_rfc3339_def demo_env_def iso_text_def strip_def is_space_def)
  ultimately show ?thesis
    by (simp add: approve_contract_draft_def demo_contract_def [symmetric] demo_validates)
qed

section \<open>Properties\<close>

text \<open>
  C35. From answers to hand-off: a draft built from complete answers, approved under its own
  digest by a named approver, yields a contract and a receipt that \<^verbatim>\<open>verify_contract_approval\<close>
  accepts for exactly that approver, returning the receipt's own digest.
\<close>

theorem approval_roundtrip:
  assumes "canonical_fn (canonical_digest rt)"
    and "build_contract_draft rt env answers = Inr b" "dr_draft b = Some draft"
    and "approve_contract_draft rt env draft digest approver time = Inr (contract, receipt)"
  shows "(verify_contract_approval rt contract receipt approver' =
      Inr (canonical_digest rt (JObj (ddel ''receipt_digest'' receipt))))
    \<longleftrightarrow> strip approver' = strip approver"
proof
  assume "strip approver' = strip approver"
  moreover obtain v where "draft = draft_object rt answers v"
    using build_draft_Some(1) [OF assms(2,3)] by blast
  ultimately show "verify_contract_approval rt contract receipt approver' =
      Inr (canonical_digest rt (JObj (ddel ''receipt_digest'' receipt)))"
    using signed_receipt_verifies [OF assms(1) _ _ _ assms(4)] approve_Inr(2) [OF assms(4)]
    by (simp add: draft_object_blank unsign del: map_of.simps)
next
  assume "verify_contract_approval rt contract receipt approver' =
      Inr (canonical_digest rt (JObj (ddel ''receipt_digest'' receipt)))"
  from verified_facts(5) [OF this] show "strip approver' = strip approver"
    using approve_Inr(2) [OF assms(4)] by simp
qed

theorem approval_roundtrip_witness:
  "\<exists>receipt d. verify_contract_approval demo_runtime demo_contract receipt '' pm '' = Inr d
     \<and> (\<forall>e. verify_contract_approval demo_runtime demo_contract receipt ''eve'' \<noteq> Inr e)"
proof -
  obtain b where b: "build_contract_draft demo_runtime demo_env demo_answers = Inr b" "dr_draft b = Some demo_draft"
    using demo_builds by blast
  have cf: "canonical_fn (canonical_digest demo_runtime)" by (simp add: demo_runtime_def)
  note rt = approval_roundtrip [OF cf b demo_approves]
  have st: "strip '' pm '' = strip ''pm''" "strip ''eve'' \<noteq> strip ''pm''" by (simp_all add: strip_def is_space_def)
  from rt [of "'' pm ''"] st(1) rt [of "''eve''"] st(2) verified_facts(3) show ?thesis by blast
qed

text \<open>
  An approval receipt fixes what it approves: if one receipt verifies for two contracts,
  the two have the same canonical form and were reviewed as the same draft by the same
  approver, up to a digest collision.
\<close>

theorem receipt_fixes_contract:
  assumes "verify_contract_approval rt c r approver = Inr d"
    and "verify_contract_approval rt c' r approver' = Inr d'"
    and "collision_free (canonical_digest rt) {JObj c, JObj c'}"
  shows "canon (JObj c) = canon (JObj c') \<and> d = d' \<and> strip approver = strip approver'
    \<and> canonical_digest rt (JObj (reconstructed_draft c)) = canonical_digest rt (JObj (reconstructed_draft c'))"
proof -
  note v = verified_facts [OF assms(1)] and w = verified_facts [OF assms(2)]
  have "canonical_digest rt (JObj c) = canonical_digest rt (JObj c')" using v(4) w(4) by simp
  then have "canon (JObj c) = canon (JObj c')" by (intro collision_freeD [OF assms(3)]) simp_all
  moreover have "d = d'" "strip approver = strip approver'" using v(2,5) w(2,5) by simp_all
  moreover have "canonical_digest rt (JObj (reconstructed_draft c)) = canonical_digest rt (JObj (reconstructed_draft c'))"
    using v(7) w(7) by simp
  ultimately show ?thesis by blast
qed

theorem receipt_fixes_contract_witness:
  "\<exists>r d. verify_contract_approval demo_runtime demo_contract r ''pm'' = Inr d
     \<and> canon (JObj demo_contract) = canon (JObj demo_contract)"
proof -
  let ?r = "sign_receipt demo_runtime (unsigned_receipt demo_runtime demo_draft demo_contract ''pm'' ''t'')"
  have cf: "canonical_fn (canonical_digest demo_runtime)" by (simp add: demo_runtime_def)
  have "distinct (map fst demo_draft)" "map_of demo_draft ''approved_by'' = Some (JStr [])"
    "map_of demo_draft ''approved_at'' = Some (JStr [])"
    by (simp_all add: demo_draft_explicit)
  from signed_receipt_verifies [OF cf this demo_approves refl]
  obtain d where d: "verify_contract_approval demo_runtime demo_contract ?r ''pm'' = Inr d" by blast
  have "collision_free (canonical_digest demo_runtime) {JObj demo_contract, JObj demo_contract}"
    by (simp add: collision_free_def)
  from receipt_fixes_contract [OF d d this] d show ?thesis by blast
qed

text \<open>
  A draft is offered for approval only when nothing is open: every required answer is
  present and carried into the draft unchanged, no semantic question remains, the draft has
  passed contract validation, its digest is the one offered, and it is not yet runnable.
\<close>

theorem draft_complete:
  assumes "build_contract_draft rt env answers = Inr b" "dr_draft b = Some draft"
  shows "dr_questions b = [] \<and> semantic_questions rt answers = []
    \<and> (\<forall>f \<in> set (map fst required_answer_fields). answer_present (dget answers f) \<and> dget draft f = dget answers f)
    \<and> validate_contract_object rt env draft = Inr ()
    \<and> dr_digest b = Some (canonical_digest rt (JObj draft)) \<and> \<not> runnable draft"
proof -
  note d = build_draft_Some [OF assms]
  obtain v where v: "draft = draft_object rt answers v" using d(1) by blast
  have present: "answer_present (dget answers f)" if "f \<in> set (map fst required_answer_fields)" for f
  proof -
    have "f \<in> set required_names" using that by (simp only: required_names_set)
    with d(3) show ?thesis by (auto simp: missing_answers_def filter_empty_conv)
  qed
  have "\<not> runnable draft"
    by (simp add: runnable_def blockers_def v field_text_def dget_def draft_object_def)
  with present d draft_keeps_answers [of _ rt answers v] show ?thesis by (simp add: v)
qed

theorem draft_complete_witness:
  "\<not> runnable demo_draft \<and> dget demo_draft ''problem'' = dget demo_answers ''problem''"
proof -
  obtain b where b: "build_contract_draft demo_runtime demo_env demo_answers = Inr b" "dr_draft b = Some demo_draft"
    using demo_builds by blast
  have "''problem'' \<in> set (map fst required_answer_fields)" by (simp add: required_answer_fields_def)
  with draft_complete [OF b] show ?thesis by blast
qed

end
