(* ===== verification/Behavior_Drift.thy ===== *)
theory Behavior_Drift
  imports Canonical
begin

text \<open>
  Comparison of recorded provider behaviour, \<^verbatim>\<open>src/pmpe/evals/barebones_drift.py\<close>: one
  response is reduced to digests and configuration, two observations of one request are
  compared, and a difference is attributed to the configuration fields that changed.
\<close>

record provider_behavior =
  pb_purpose :: string
  pb_request :: string
  pb_output :: string
  pb_provider :: string
  pb_model :: string
  pb_prompt :: string
  pb_cli :: string

record behavior_drift =
  bd_detected :: bool
  bd_cause :: string
  bd_attribution :: "string list"
  bd_baseline :: string
  bd_current :: string

text \<open>The errors are the messages of the \<^verbatim>\<open>ValueError\<close>.\<close>

definition metadata_text :: "obj \<Rightarrow> string \<Rightarrow> string + string" where
  "metadata_text m k = (case dget m k of
      JStr s \<Rightarrow> (if s = [] then Inl (''provider metadata lacks '' @ k) else Inr s)
    | _ \<Rightarrow> Inl (''provider metadata lacks '' @ k))"

definition cli_version :: "obj \<Rightarrow> string + string" where
  "cli_version m = (case map_of m ''cli_version'' of
      None \<Rightarrow> Inr ''unknown''
    | Some (JStr s) \<Rightarrow> (if s = [] then Inl ''provider metadata has malformed cli_version'' else Inr s)
    | Some _ \<Rightarrow> Inl ''provider metadata has malformed cli_version'')"

definition observed_output :: "string \<Rightarrow> obj \<Rightarrow> string + json" where
  "observed_output purpose response =
     (if purpose = ''code'' then
        (case dget response ''files'' of
           JObj d \<Rightarrow> (if list_all (\<lambda>p. is_str (snd p)) d then Inr (JObj d)
                     else Inl ''code response lacks a UTF-8 file mapping'')
         | _ \<Rightarrow> Inl ''code response lacks a UTF-8 file mapping'')
      else (case dget response ''summary'' of
           JStr s \<Rightarrow> Inr (JStr s)
         | _ \<Rightarrow> Inl ''advisory response lacks a summary''))"

definition observe_provider_behavior ::
  "runtime \<Rightarrow> string \<Rightarrow> obj \<Rightarrow> string + provider_behavior" where
  "observe_provider_behavior rt purpose response =
     (if purpose \<noteq> ''code'' \<and> purpose \<noteq> ''advisory_review'' then Inl ''unsupported provider purpose''
      else case (dget response ''request_digest'', dget response ''provider_metadata'') of
        (JStr rd, JObj m) \<Rightarrow>
          (if \<not> is_digest_str rd then Inl ''provider response lacks digest-bound metadata''
           else bindr (metadata_text m ''provider'') (\<lambda>provider.
             bindr (metadata_text m ''model'') (\<lambda>model.
             bindr (metadata_text m ''prompt_version'') (\<lambda>prompt.
             bindr (cli_version m) (\<lambda>cli.
             bindr (observed_output purpose response) (\<lambda>output.
               Inr \<lparr>pb_purpose = purpose, pb_request = rd, pb_output = canonical_digest rt output,
                    pb_provider = provider, pb_model = model, pb_prompt = prompt, pb_cli = cli\<rparr>))))))
      | _ \<Rightarrow> Inl ''provider response lacks digest-bound metadata'')"

definition changed_fields :: "provider_behavior \<Rightarrow> provider_behavior \<Rightarrow> string list" where
  "changed_fields b c =
     (if pb_provider b \<noteq> pb_provider c then [''provider''] else [])
     @ (if pb_model b \<noteq> pb_model c then [''model''] else [])
     @ (if pb_prompt b \<noteq> pb_prompt c then [''prompt_version''] else [])
     @ (if pb_cli b \<noteq> pb_cli c \<and> ''unknown'' \<notin> {pb_cli b, pb_cli c} then [''cli_version''] else [])"

definition compare_provider_behavior ::
  "provider_behavior \<Rightarrow> provider_behavior \<Rightarrow> string + behavior_drift" where
  "compare_provider_behavior b c =
     (if (pb_purpose b, pb_request b) \<noteq> (pb_purpose c, pb_request c)
      then Inl ''provider behavior observations are not comparable''
      else if pb_output b = pb_output c then
        Inr \<lparr>bd_detected = False, bd_cause = ''NO_BEHAVIOR_DRIFT'', bd_attribution = [],
             bd_baseline = pb_output b, bd_current = pb_output c\<rparr>
      else let attribution = changed_fields b c in
        Inr \<lparr>bd_detected = True,
             bd_cause = (if attribution \<noteq> [] then ''PROVIDER_CONFIGURATION_CHANGED''
                         else ''UNATTRIBUTED_BEHAVIOR_DRIFT''),
             bd_attribution = attribution, bd_baseline = pb_output b, bd_current = pb_output c\<rparr>)"

section \<open>Properties\<close>

lemma observe_Inr:
  assumes "observe_provider_behavior rt purpose response = Inr b"
  obtains out where "observed_output purpose response = Inr out" "pb_output b = canonical_digest rt out"
    "pb_purpose b = purpose" "dget response ''request_digest'' = JStr (pb_request b)"
  using assms by (auto simp: observe_provider_behavior_def split: if_splits json.splits)

lemma compare_detected:
  "compare_provider_behavior b c = Inr d \<Longrightarrow> bd_detected d \<longleftrightarrow> pb_output b \<noteq> pb_output c"
  by (auto simp: compare_provider_behavior_def Let_def split: if_splits)

lemma comparable:
  "pb_purpose b = pb_purpose c \<Longrightarrow> pb_request b = pb_request c \<Longrightarrow> \<exists>d. compare_provider_behavior b c = Inr d"
  by (simp add: compare_provider_behavior_def Let_def)

lemma compare_attribution:
  "compare_provider_behavior b c = Inr d \<Longrightarrow>
     bd_attribution d = (if pb_output b = pb_output c then [] else changed_fields b c)"
  by (auto simp: compare_provider_behavior_def Let_def split: if_splits)

lemma changed_fields_sym: "changed_fields c b = changed_fields b c"
  by (simp add: changed_fields_def eq_commute [of "pb_provider c"] eq_commute [of "pb_model c"]
      eq_commute [of "pb_prompt c"] eq_commute [of "pb_cli c"] conj_commute [of "''unknown'' \<noteq> pb_cli c"])

lemma changed_fields_set: "set (changed_fields b c) \<subseteq> {''provider'', ''model'', ''prompt_version'', ''cli_version''}"
  unfolding changed_fields_def set_append by (intro Un_least) (simp_all, blast+)

text \<open>
  Drift is detected exactly when the outputs differ: comparing two recorded responses to
  one request for one purpose reports drift if and only if the recorded outputs (the files of
  a coding response, the summary of a review) have different canonical forms, as long as
  their digests do not collide.
\<close>

theorem drift_detected_iff_output_changed:
  assumes "canonical_fn (canonical_digest rt)" "collision_free (canonical_digest rt) {x, y}"
    and "observe_provider_behavior rt purpose r = Inr b" "observe_provider_behavior rt purpose s = Inr c"
    and "observed_output purpose r = Inr x" "observed_output purpose s = Inr y"
    and "compare_provider_behavior b c = Inr d"
  shows "bd_detected d \<longleftrightarrow> canon x \<noteq> canon y"
proof -
  have b: "pb_output b = canonical_digest rt x"
    using assms(3,5) by (metis observe_Inr sum.inject(2))
  have c: "pb_output c = canonical_digest rt y"
    using assms(4,6) by (metis observe_Inr sum.inject(2))
  show ?thesis
  proof
    assume "bd_detected d"
    then have "canonical_digest rt x \<noteq> canonical_digest rt y"
      using compare_detected [OF assms(7)] b c by simp
    then show "canon x \<noteq> canon y" using canonical_fnD [OF assms(1)] by blast
  next
    assume "canon x \<noteq> canon y"
    then have "canonical_digest rt x \<noteq> canonical_digest rt y"
      using collision_freeD [OF assms(2)] by blast
    then show "bd_detected d" using compare_detected [OF assms(7)] b c by simp
  qed
qed

definition sample_response :: "string \<Rightarrow> string \<Rightarrow> obj" where
  "sample_response model summary =
     [(''request_digest'', JStr (''sha256:'' @ replicate 64 (CHR ''a''))),
      (''provider_metadata'', JObj [(''provider'', JStr ''p''), (''model'', JStr model), (''prompt_version'', JStr ''1'')]),
      (''summary'', JStr summary)]"

definition sample_observation :: "runtime \<Rightarrow> string \<Rightarrow> string \<Rightarrow> provider_behavior" where
  "sample_observation rt model summary =
     \<lparr>pb_purpose = ''advisory_review'', pb_request = ''sha256:'' @ replicate 64 (CHR ''a''),
      pb_output = canonical_digest rt (JStr summary), pb_provider = ''p'', pb_model = model,
      pb_prompt = ''1'', pb_cli = ''unknown''\<rparr>"

lemma sample_observed:
  "m \<noteq> [] \<Longrightarrow> observe_provider_behavior rt ''advisory_review'' (sample_response m s) = Inr (sample_observation rt m s)"
  by (simp add: observe_provider_behavior_def sample_response_def sample_observation_def dget_def
      is_digest_str_def starts_with_def is_hex_lower_def list_all_iff metadata_text_def cli_version_def
      observed_output_def)

theorem drift_detected_iff_output_changed_witness:
  "\<exists>d. compare_provider_behavior (sample_observation (sample_runtime [JStr ''u'', JStr ''v'']) ''m1'' ''u'')
         (sample_observation (sample_runtime [JStr ''u'', JStr ''v'']) ''m2'' ''v'') = Inr d
       \<and> bd_detected d \<and> canon (JStr ''u'') \<noteq> canon (JStr ''v'')"
proof -
  let ?rt = "sample_runtime [JStr ''u'', JStr ''v'']"
  let ?b = "sample_observation ?rt ''m1'' ''u''" and ?c = "sample_observation ?rt ''m2'' ''v''"
  obtain d where d: "compare_provider_behavior ?b ?c = Inr d"
    using comparable [of ?b ?c] by (auto simp: sample_observation_def)
  have "collision_free (canonical_digest ?rt) {JStr ''u'', JStr ''v''}"
    by (rule sample_collision_free) auto
  moreover have "observe_provider_behavior ?rt ''advisory_review'' (sample_response ''m1'' ''u'') = Inr ?b"
    "observe_provider_behavior ?rt ''advisory_review'' (sample_response ''m2'' ''v'') = Inr ?c"
    by (simp_all add: sample_observed)
  moreover have "observed_output ''advisory_review'' (sample_response ''m1'' ''u'') = Inr (JStr ''u'')"
    "observed_output ''advisory_review'' (sample_response ''m2'' ''v'') = Inr (JStr ''v'')"
    by (simp_all add: observed_output_def sample_response_def dget_def)
  ultimately have "bd_detected d \<longleftrightarrow> canon (JStr ''u'') \<noteq> canon (JStr ''v'')"
    by (intro drift_detected_iff_output_changed [OF sample_canonical _ _ _ _ _ d])
  with d show ?thesis by simp
qed

text \<open>
  Attribution is exact and does not depend on which observation came first: a
  configuration field is named if and only if drift was detected and the field differs, an
  unknown command-line version never counting as a difference.
\<close>

theorem attribution_exact:
  assumes "compare_provider_behavior b c = Inr d"
  shows "set (bd_attribution d) \<subseteq> {''provider'', ''model'', ''prompt_version'', ''cli_version''}
    \<and> (''provider'' \<in> set (bd_attribution d) \<longleftrightarrow> bd_detected d \<and> pb_provider b \<noteq> pb_provider c)
    \<and> (''model'' \<in> set (bd_attribution d) \<longleftrightarrow> bd_detected d \<and> pb_model b \<noteq> pb_model c)
    \<and> (''prompt_version'' \<in> set (bd_attribution d) \<longleftrightarrow> bd_detected d \<and> pb_prompt b \<noteq> pb_prompt c)
    \<and> (''cli_version'' \<in> set (bd_attribution d) \<longleftrightarrow> bd_detected d \<and> pb_cli b \<noteq> pb_cli c
         \<and> pb_cli b \<noteq> ''unknown'' \<and> pb_cli c \<noteq> ''unknown'')
    \<and> (\<exists>e. compare_provider_behavior c b = Inr e \<and> bd_attribution e = bd_attribution d)"
proof -
  note attr = compare_attribution [OF assms] and det = compare_detected [OF assms]
  have same: "pb_purpose b = pb_purpose c" "pb_request b = pb_request c"
    using assms by (auto simp: compare_provider_behavior_def split: if_splits)
  then obtain e where e: "compare_provider_behavior c b = Inr e" using comparable [of c b] by auto
  have "bd_attribution e = bd_attribution d"
    using compare_attribution [OF e] attr changed_fields_sym [of c b] by auto
  moreover have "set (bd_attribution d) \<subseteq> {''provider'', ''model'', ''prompt_version'', ''cli_version''}"
    using changed_fields_set [of b c] by (simp add: attr)
  moreover have "''provider'' \<in> set (changed_fields b c) \<longleftrightarrow> pb_provider b \<noteq> pb_provider c"
    "''model'' \<in> set (changed_fields b c) \<longleftrightarrow> pb_model b \<noteq> pb_model c"
    "''prompt_version'' \<in> set (changed_fields b c) \<longleftrightarrow> pb_prompt b \<noteq> pb_prompt c"
    "''cli_version'' \<in> set (changed_fields b c) \<longleftrightarrow>
       pb_cli b \<noteq> pb_cli c \<and> ''unknown'' \<notin> {pb_cli b, pb_cli c}"
    by (simp_all add: changed_fields_def)
  ultimately show ?thesis using e by (simp add: attr det) metis
qed

theorem attribution_exact_witness:
  "\<exists>d. compare_provider_behavior (sample_observation (sample_runtime [JStr ''u'']) ''m1'' ''u'')
         (sample_observation (sample_runtime [JStr ''u'']) ''m2'' ''v'') = Inr d \<and> ''model'' \<in> set (bd_attribution d)"
proof -
  let ?rt = "sample_runtime [JStr ''u'']"
  let ?b = "sample_observation ?rt ''m1'' ''u''" and ?c = "sample_observation ?rt ''m2'' ''v''"
  obtain d where d: "compare_provider_behavior ?b ?c = Inr d"
    using comparable [of ?b ?c] by (auto simp: sample_observation_def)
  have "pb_output ?b \<noteq> pb_output ?c"
    using hex_digits_inject [of 64 0 "Suc 0"]
    by (auto simp: sample_observation_def sample_digest index_digest_def)
  moreover have "pb_model ?b \<noteq> pb_model ?c" by (simp add: sample_observation_def)
  ultimately have "''model'' \<in> set (bd_attribution d)" 
    using attribution_exact [OF d] compare_detected [OF d] by blast
  with d show ?thesis by blast
qed

end
