(* ===== verification/Workspace.thy ===== *)
theory Workspace
  imports Canonical
begin

text \<open>
  The candidate workspace of \<^verbatim>\<open>src/pmpe/barebones.py\<close>: safe relative paths, writing files,
  snapshots and the security scan. A workspace is the list of its files, path and bytes, with
  distinct paths; directories are implied. It holds no symbolic link, so resolving a safe
  relative path below the (resolved) root is the path itself. A write whose parent is a file
  or whose target is a directory raises \<^verbatim>\<open>OSError\<close>.
\<close>

section \<open>Paths\<close>

definition safe_char :: "char \<Rightarrow> bool" where
  "safe_char c \<longleftrightarrow> is_alnum_ascii c \<or> c = CHR ''_'' \<or> c = CHR ''.'' \<or> c = CHR ''-''"

abbreviation parts :: "string \<Rightarrow> string list" where
  "parts p \<equiv> split_on (CHR ''/'') p"

text \<open>\<^verbatim>\<open>_SAFE_RELATIVE.fullmatch\<close> and the check for dot components.\<close>

definition safe_relative :: "string \<Rightarrow> bool" where
  "safe_relative s \<longleftrightarrow> list_all (\<lambda>p. p \<noteq> [] \<and> list_all safe_char p) (parts s)"

definition dotted :: "string \<Rightarrow> bool" where
  "dotted s \<longleftrightarrow> list_ex (\<lambda>p. p = ''.'' \<or> p = ''..'') (parts s)"

datatype file_error =
    Value_error string
  | Os_error string

definition safe_path :: "string \<Rightarrow> file_error + string" where
  "safe_path relative =
     (if \<not> safe_relative relative \<or> dotted relative
      then Inl (Value_error (''unsafe candidate path: '' @ relative)) else Inr relative)"

text \<open>\<^verbatim>\<open>Path(p).suffix\<close>: from the last dot of the name, unless it starts or ends the name.\<close>

fun last_dot :: "string \<Rightarrow> string option" where
  "last_dot [] = None"
| "last_dot (c # s) = (case last_dot s of
      Some t \<Rightarrow> Some t
    | None \<Rightarrow> (if c = CHR ''.'' then Some (c # s) else None))"

definition path_suffix :: "string \<Rightarrow> string" where
  "path_suffix p = (let name = last (parts p) in
     case last_dot name of
       None \<Rightarrow> []
     | Some t \<Rightarrow> (if t = name \<or> length t = 1 then [] else t))"

section \<open>Files\<close>

type_synonym files = "(string \<times> bytes) list"

text \<open>\<^verbatim>\<open>read_text()\<close>: UTF-8, every line ending read as a line feed.\<close>

function universal_newlines :: "bytes \<Rightarrow> string" where
  "universal_newlines [] = []"
| "universal_newlines (c # s) =
     (if c = CHR 0x0D then CHR 0x0A # universal_newlines
        (case s of d # t \<Rightarrow> if d = CHR 0x0A then t else s | [] \<Rightarrow> [])
      else c # universal_newlines s)"
  by pat_completeness auto
termination
  by (relation "measure length") (auto split: list.split)

definition read_text :: "bytes \<Rightarrow> string option" where
  "read_text b = (case utf8_decode b of None \<Rightarrow> None | Some _ \<Rightarrow> Some (universal_newlines b))"

text \<open>
  \<^verbatim>\<open>str.splitlines()\<close>: besides LF, CR and CR LF also VT, FF, the separators 1C to 1E, U+0085,
  U+2028 and U+2029.
\<close>

definition one_byte_break :: "char \<Rightarrow> bool" where
  "one_byte_break c \<longleftrightarrow> (let n = (of_char c :: nat) in n = 10 \<or> n = 11 \<or> n = 12 \<or> n = 28 \<or> n = 29 \<or> n = 30)"

definition line_break :: "string \<Rightarrow> nat" where
  "line_break s = (case s of [] \<Rightarrow> 0 | c # t \<Rightarrow>
      if one_byte_break c then 1
      else if c = CHR 0x0D then (if take 1 t = [CHR 0x0A] then 2 else 1)
      else if take 2 s = [CHR 0xC2, CHR 0x85] then 2
      else if take 3 s = [CHR 0xE2, CHR 0x80, CHR 0xA8] \<or> take 3 s = [CHR 0xE2, CHR 0x80, CHR 0xA9] then 3
      else 0)"

function text_lines_from :: "string \<Rightarrow> string \<Rightarrow> string list" where
  "text_lines_from cur [] = (if cur = [] then [] else [cur])"
| "text_lines_from cur (c # s) =
     (if line_break (c # s) > 0 then cur # text_lines_from [] (drop (line_break (c # s)) (c # s))
      else text_lines_from (cur @ [c]) s)"
  by pat_completeness auto
termination
  by (relation "measure (length \<circ> snd)") auto

definition is_directory :: "files \<Rightarrow> string \<Rightarrow> bool" where
  "is_directory fs p \<longleftrightarrow> list_ex (\<lambda>f. starts_with (p @ ''/'') (fst f)) fs"

definition below_file :: "files \<Rightarrow> string \<Rightarrow> bool" where
  "below_file fs p \<longleftrightarrow> list_ex (\<lambda>f. starts_with (fst f @ ''/'') p) fs"

text \<open>One round of the loop in \<^verbatim>\<open>_write_files\<close>: whether the file changed, and the files after.\<close>

definition write_one :: "files \<Rightarrow> string \<Rightarrow> json \<Rightarrow> file_error + (bool \<times> files)" where
  "write_one fs relative content = (case content of
      JStr text \<Rightarrow>
        bindr (safe_path relative) (\<lambda>target.
          (case map_of fs target of
             Some b \<Rightarrow>
               (case read_text b of
                  None \<Rightarrow> Inl (Value_error ''file is not UTF-8 text'')
                | Some before \<Rightarrow> (if before = text then Inr (False, fs) else Inr (True, dput target text fs)))
           | None \<Rightarrow>
               (if below_file fs target then Inl (Os_error ''parent is not a directory'')
                else if is_directory fs target then Inl (Os_error ''target is a directory'')
                else Inr (True, dput target text fs))))
    | _ \<Rightarrow> Inl (Value_error ''candidate files must map safe paths to UTF-8 text''))"

fun write_all :: "files \<Rightarrow> (string \<times> json) list \<Rightarrow> (file_error + string list) \<times> files" where
  "write_all fs [] = (Inr [], fs)"
| "write_all fs ((p, v) # rest) =
     (case write_one fs p v of
        Inl e \<Rightarrow> (Inl e, fs)
      | Inr (changed, fs') \<Rightarrow>
          (case write_all fs' rest of
             (Inl e, fs'') \<Rightarrow> (Inl e, fs'')
           | (Inr ps, fs'') \<Rightarrow> (Inr (if changed then p # ps else ps), fs'')))"

definition write_files :: "files \<Rightarrow> (string \<times> json) list \<Rightarrow> (file_error + string list) \<times> files" where
  "write_files fs new = write_all fs (sort_key fst new)"

text \<open>\<^verbatim>\<open>_workspace_snapshot\<close>: paths in \<^verbatim>\<open>Path\<close> order, which compares component by component.\<close>

definition workspace_snapshot :: "files \<Rightarrow> files" where
  "workspace_snapshot fs = sort_key (\<lambda>f. parts (fst f)) fs"

fun materialize_snapshot :: "files \<Rightarrow> file_error + unit" where
  "materialize_snapshot [] = Inr ()"
| "materialize_snapshot ((p, _) # rest) = bindr (safe_path p) (\<lambda>_. materialize_snapshot rest)"

section \<open>The security scan\<close>

record finding =
  fd_code :: string
  fd_subject :: string
  fd_message :: string
  fd_files :: "string list"

definition credential_pattern :: string where
  "credential_pattern =
     ''-----BEGIN (?:RSA |EC |OPENSSH )?PRIVATE KEY-----|AKIA[0-9A-Z]{16}|sk-[A-Za-z0-9_-]{20,}''"

definition high_risk_pattern :: string where
  "high_risk_pattern = [CHR 0x5C, CHR ''b''] @ ''(?:eval|exec)'' @ [CHR 0x5C] @ ''s*'' @ [CHR 0x5C] @ ''(''"

definition file_security :: "runtime \<Rightarrow> string \<times> bytes \<Rightarrow> finding list" where
  "file_security rt f = (case read_text (snd f) of
      None \<Rightarrow> []
    | Some content \<Rightarrow>
        (let relative = fst f; py = (path_suffix relative = ''.py'') in
         (if rt_search rt credential_pattern content
          then [\<lparr>fd_code = ''CRITICAL_CREDENTIAL'', fd_subject = relative,
                 fd_message = ''credential material'', fd_files = [relative]\<rparr>] else [])
         @ (if py \<and> rt_search rt high_risk_pattern content
            then [\<lparr>fd_code = ''HIGH_DYNAMIC_EXECUTION'', fd_subject = relative,
                   fd_message = ''dynamic execution'', fd_files = [relative]\<rparr>] else [])
         @ (if py \<and> str_in ''TODO'' content
            then [\<lparr>fd_code = ''LOW_TODO'', fd_subject = relative,
                   fd_message = ''TODO remains'', fd_files = [relative]\<rparr>] else [])))"

definition security_findings :: "runtime \<Rightarrow> files \<Rightarrow> finding list" where
  "security_findings rt fs = concat (map (file_security rt) (workspace_snapshot fs))"

definition blocking :: "finding \<Rightarrow> bool" where
  "blocking f \<longleftrightarrow> starts_with ''CRITICAL_'' (fd_code f) \<or> starts_with ''HIGH_'' (fd_code f)"

section \<open>Interface: a file store\<close>

text \<open>
  What the runtime relies on of the workspace: a write is seen at its own path and nowhere
  else. A batch of writes then leaves every path alone that it does not name.
\<close>

locale file_store =
  fixes rd :: "'s \<Rightarrow> 'k \<Rightarrow> 'v option" and wr :: "'s \<Rightarrow> 'k \<Rightarrow> 'v \<Rightarrow> 's"
  assumes rd_wr_same: "rd (wr s k v) k = Some v"
    and rd_wr_other: "k \<noteq> l \<Longrightarrow> rd (wr s k v) l = rd s l"
begin

lemma batch_frame: "l \<notin> set (map fst kvs) \<Longrightarrow> rd (fold (\<lambda>(k, v) s. wr s k v) kvs s) l = rd s l"
  by (induction kvs arbitrary: s) (auto simp: rd_wr_other)

lemma batch_last:
  "distinct (map fst kvs) \<Longrightarrow> (k, v) \<in> set kvs \<Longrightarrow> rd (fold (\<lambda>(k, v) s. wr s k v) kvs s) k = Some v"
proof (induction kvs arbitrary: s)
  case (Cons p kvs)
  show ?case
  proof (cases "p = (k, v)")
    case True
    then have "k \<notin> set (map fst kvs)" using Cons.prems(1) by simp
    with True show ?thesis using batch_frame rd_wr_same by (simp del: set_map)
  next
    case False
    with Cons show ?thesis by (cases p) auto
  qed
qed simp

end

interpretation ws: file_store "\<lambda>fs p. map_of fs p" "\<lambda>fs p b. dput p b fs"
  by unfold_locales simp_all

section \<open>What writing does\<close>

lemma write_one_Inr:
  assumes "write_one fs p v = Inr (c, fs')"
  obtains t where "v = JStr t" "safe_relative p" "\<not> dotted p"
    "(\<not> c \<and> fs' = fs \<and> (\<exists>b. map_of fs p = Some b \<and> read_text b = Some t)) \<or> (c \<and> fs' = dput p t fs)"
  using assms
  by (cases v) (auto simp: write_one_def safe_path_def split: if_splits option.splits)

lemma write_all_batch:
  assumes "write_all fs new = (r, fs')"
  shows "\<exists>kvs. fs' = fold (\<lambda>(k, v) s. dput k v s) kvs fs \<and> set (map fst kvs) \<subseteq> set (map fst new)"
  using assms
proof (induction new arbitrary: fs r fs')
  case (Cons f new)
  obtain p v where f: "f = (p, v)" by (cases f)
  show ?case
  proof (cases "write_one fs p v")
    case (Inl e)
    with Cons.prems f show ?thesis by (intro exI [of _ "[]"]) simp
  next
    case (Inr c)
    obtain ch fs1 where c: "c = (ch, fs1)" by (cases c)
    obtain r1 fs2 where rest: "write_all fs1 new = (r1, fs2)" by (cases "write_all fs1 new")
    have "fs2 = fs'" using Cons.prems by (simp add: f Inr c rest split: sum.splits)
    moreover from Cons.IH [OF rest] obtain kvs where
      kvs: "fs2 = fold (\<lambda>(k, v) s. dput k v s) kvs fs1" "set (map fst kvs) \<subseteq> set (map fst new)" by blast
    moreover from Inr c obtain t where "fs1 = fs \<or> fs1 = dput p t fs"
      by (auto elim: write_one_Inr)
    ultimately show ?thesis
      by (elim disjE) (rule exI [of _ kvs], force simp: f, rule exI [of _ "(p, t) # kvs"], force simp: f)
  qed
qed (auto intro: exI [of _ "[]"])

lemma write_files_frame:
  assumes "write_files fs new = (r, fs')" "p \<notin> set (map fst new)"
  shows "map_of fs' p = map_of fs p"
proof -
  from assms(1) obtain kvs where
    k: "fs' = fold (\<lambda>(k, v) s. dput k v s) kvs fs" "set (map fst kvs) \<subseteq> set (map fst (sort_key fst new))"
    unfolding write_files_def using write_all_batch by blast
  have "p \<notin> set (map fst kvs)" using k(2) assms(2) by auto
  then show ?thesis unfolding k(1) by (rule ws.batch_frame)
qed

lemma distinct_write:
  assumes "write_files fs new = (r, fs')" "distinct (map fst fs)"
  shows "distinct (map fst fs')"
proof -
  from assms(1) obtain kvs where k: "fs' = fold (\<lambda>(k, v) s. dput k v s) kvs fs"
    unfolding write_files_def using write_all_batch by blast
  have "distinct (map fst (fold (\<lambda>(k, v) s. dput k v s) kvs fs))"
    using assms(2) by (induction kvs arbitrary: fs) (auto intro: distinct_dput simp: case_prod_beta)
  then show ?thesis by (simp only: k)
qed

lemma map_of_snapshot: "distinct (map fst fs) \<Longrightarrow> map_of (workspace_snapshot fs) = map_of fs"
proof -
  assume d: "distinct (map fst fs)"
  then have "distinct (map fst (workspace_snapshot fs))"
    unfolding workspace_snapshot_def by (simp add: distinct_map)
  with d show ?thesis by (subst map_of_inject_set) (auto simp: workspace_snapshot_def)
qed

lemma security_findings_blocking:
  "(\<exists>f \<in> set (security_findings rt fs). blocking f) \<longleftrightarrow>
     (\<exists>(p, b) \<in> set fs. \<exists>t. read_text b = Some t \<and>
        (rt_search rt credential_pattern t \<or> path_suffix p = ''.py'' \<and> rt_search rt high_risk_pattern t))"
proof -
  have "(\<exists>f \<in> set (file_security rt x). blocking f) \<longleftrightarrow>
     (\<exists>t. read_text (snd x) = Some t \<and>
        (rt_search rt credential_pattern t \<or> path_suffix (fst x) = ''.py'' \<and> rt_search rt high_risk_pattern t))" for x
    by (cases "read_text (snd x)") (auto simp: file_security_def blocking_def starts_with_def Let_def)
  then show ?thesis
    by (fastforce simp: security_findings_def workspace_snapshot_def)
qed

end
