(* ===== verification/Engine_Defs.thy ===== *)
theory Engine_Defs
  imports Plan_Compiler Ledger Authoring Behavior_Drift Workspace
begin

text \<open>
  The frozen core, \<^verbatim>\<open>src/pmpe/barebones.py\<close>: compiling a contract, confirming a meaningful
  red baseline, and the attempt loop that asks a model provider for files, scans and
  verifies them, and ends in RELEASE_READY, HALTED or STOPPED. The calls on the evidence
  ledger are recorded in order as a trace; the ledger theory says what performing them does.

  The model provider, the stop request, the candidate sandbox, the static quality checker,
  \<^verbatim>\<open>json.dumps\<close> and the clock are fields of \<^verbatim>\<open>world\<close>. The provider and the stop request see
  how often they were asked before, the sandbox and the checker see the round (0 is the
  baseline, k the k-th attempt), so each may behave differently from call to call. The
  workspace root is taken to be resolved, as the command line passes it.
\<close>

section \<open>Templates, budgets, results\<close>

datatype run_state = VALIDATED | BUILDING | VERIFYING | RELEASE_READY | HALTED | STOPPED

fun state_name :: "run_state \<Rightarrow> string" where
  "state_name VALIDATED = ''VALIDATED''"
| "state_name BUILDING = ''BUILDING''"
| "state_name VERIFYING = ''VERIFYING''"
| "state_name RELEASE_READY = ''RELEASE_READY''"
| "state_name HALTED = ''HALTED''"
| "state_name STOPPED = ''STOPPED''"

record template_test =
  tt_path :: string
  tt_node :: string
  tt_command :: "string list"

record template =
  tm_version :: string
  tm_files :: "(string \<times> string) list"
  tm_actions :: "(string \<times> string) list"
  tm_context :: obj
  tm_proofs :: "(string \<times> template_test) list"
  tm_measures :: "(string \<times> string) list"

record budget_caps =
  bc_attempts :: int
  bc_calls :: int
  bc_bytes :: int

definition default_budget :: budget_caps where
  "default_budget = \<lparr>bc_attempts = 3, bc_calls = 8, bc_bytes = 1000000\<rparr>"

definition default_template :: template where
  "default_template = \<lparr>tm_version = ''barebones-1'',
     tm_files = [(''product.py'',
        [CHR 0x22, CHR 0x22, CHR 0x22] @ ''Product behavior generated from a PMOS contract.''
        @ [CHR 0x22, CHR 0x22, CHR 0x22, CHR 0x0A, CHR 0x0A]
        @ ''def health() -> dict[str, str]:'' @ [CHR 0x0A]
        @ ''    return {'' @ [CHR 0x22] @ ''status'' @ [CHR 0x22] @ '': '' @ [CHR 0x22] @ ''not_implemented''
        @ [CHR 0x22] @ ''}'' @ [CHR 0x0A])],
     tm_actions = [(''health'', ''product:health'')],
     tm_context = [(''service'', JObj [(''running'', JBool True)])],
     tm_proofs = [], tm_measures = []\<rparr>"

record counters =
  ct_calls :: int
  ct_bytes :: int
  ct_in :: int
  ct_out :: int
  ct_cost :: rat
  ct_model :: string
  ct_structured :: nat
  ct_human :: nat

record run_result =
  rr_state :: run_state
  rr_cause :: string
  rr_attempts :: int
  rr_calls :: int
  rr_annotation :: obj

datatype run_error =
    Contract_invalid string              \<comment> \<open>\<^verbatim>\<open>ContractInvalidError\<close>\<close>
  | Not_compiled "diagnostic list"       \<comment> \<open>\<^verbatim>\<open>AcceptanceCompileError\<close>\<close>
  | File_error file_error                \<comment> \<open>\<^verbatim>\<open>ValueError\<close> or \<^verbatim>\<open>OSError\<close> of a file operation\<close>
  | Missing_key string                   \<comment> \<open>\<^verbatim>\<open>KeyError\<close>\<close>
  | No_attribute string                  \<comment> \<open>\<^verbatim>\<open>AttributeError\<close>\<close>
  | Ledger_failed ledger_error

section \<open>The outside world\<close>

datatype provider_reply = Reply obj | Runtime_failure string | Os_failure

datatype sandbox_call =
    Call_action string string obj
  | Call_pytest "string list" "string list"

datatype sandbox_reply =
    Rejected string                      \<comment> \<open>the sandbox raised \<^verbatim>\<open>ContractInvalidError\<close>\<close>
  | Completed int string string

record quality_check =
  qc_name :: string
  qc_status :: string
  qc_details :: string

record world =
  w_rt :: runtime
  w_dumps :: "json \<Rightarrow> bytes"            \<comment> \<open>\<^verbatim>\<open>json.dumps(.., sort_keys=True, separators=(",", ":"))\<close>\<close>
  w_dumps_spaced :: "json \<Rightarrow> bytes"     \<comment> \<open>\<^verbatim>\<open>json.dumps(.., sort_keys=True)\<close>\<close>
  w_provider :: "int \<Rightarrow> string \<Rightarrow> obj \<Rightarrow> provider_reply"
  w_stop :: "nat \<Rightarrow> bool"
  w_sandbox :: "int \<Rightarrow> files \<Rightarrow> sandbox_call \<Rightarrow> sandbox_reply \<times> files"
  w_quality :: "int \<Rightarrow> files \<Rightarrow> string list \<Rightarrow> obj \<times> quality_check list"
  w_missing_tools :: "string list"
  w_repo :: "string \<Rightarrow> bytes option"     \<comment> \<open>the repository when the plan is compiled\<close>
  w_repo_now :: "string \<Rightarrow> bytes option" \<comment> \<open>the repository when the workspace is prepared\<close>
  w_overlap :: bool                      \<comment> \<open>workspace and evidence storage overlap\<close>
  w_occupied :: bool                     \<comment> \<open>the workspace exists and is not an empty directory\<close>
  w_ledger :: "ledger_error option"      \<comment> \<open>the failure to open the run's ledger, if it fails\<close>
  w_elapsed :: int

datatype ledger_call = Put bytes | Append event_request

section \<open>Compiling\<close>

definition invalid_proof :: "template \<Rightarrow> string \<times> template_test \<Rightarrow> string option" where
  "invalid_proof tm p =
     (let proof_test = snd p; target = tt_path proof_test @ ''::'' @ tt_node proof_test in
      if \<not> safe_relative (tt_path proof_test) \<or> dotted (tt_path proof_test)
      then Some (''invalid template proof path: '' @ fst p)
      else if tt_path proof_test \<notin> set (map fst (tm_files tm)) \<or> target \<notin> set (tt_command proof_test)
      then Some (''invalid template proof binding: '' @ fst p) else None)"

fun first_some :: "('a \<Rightarrow> 'b option) \<Rightarrow> 'a list \<Rightarrow> 'b option" where
  "first_some f [] = None"
| "first_some f (x # xs) = (case f x of Some y \<Rightarrow> Some y | None \<Rightarrow> first_some f xs)"

definition file_text :: "template \<Rightarrow> string \<Rightarrow> string" where
  "file_text tm p = (case map_of (tm_files tm) p of None \<Rightarrow> [] | Some t \<Rightarrow> t)"

definition compile_barebones_plan :: "world \<Rightarrow> template \<Rightarrow> obj \<Rightarrow> run_error + plan" where
  "compile_barebones_plan w tm contract =
     (case first_some (invalid_proof tm) (tm_proofs tm) of
        Some msg \<Rightarrow> Inl (Contract_invalid msg)
      | None \<Rightarrow>
          (case compile_acceptance_plan (w_rt w)
             \<lparr>ce_actions = map fst (tm_actions tm), ce_version = tm_version tm,
              ce_proofs = map (\<lambda>p. (fst p, sha256_digest (w_rt w) (file_text tm (tt_path (snd p))))) (tm_proofs tm),
              ce_measures = map fst (tm_measures tm),
              ce_trusted = map (\<lambda>f. (fst f, sha256_digest (w_rt w) (snd f)))
                 (filter (\<lambda>f. starts_with ''tests/'' (fst f)) (tm_files tm)),
              ce_repo = w_repo w\<rparr> contract of
             Inl ds \<Rightarrow> Inl (Not_compiled ds)
           | Inr p \<Rightarrow> Inr p))"

section \<open>Running candidate code\<close>

definition target_head :: "char \<Rightarrow> bool" where
  "target_head c \<longleftrightarrow> is_upper c \<or> is_lower c \<or> c = CHR ''_''"

definition module_target :: "string \<Rightarrow> (string \<times> string) option" where
  "module_target s = (case split_on (CHR '':'') s of
      [c # cs, d # ds] \<Rightarrow>
        (if target_head c \<and> list_all (\<lambda>x. is_alnum_ascii x \<or> x = CHR ''_'' \<or> x = CHR ''.'') cs
            \<and> target_head d \<and> list_all (\<lambda>x. is_alnum_ascii x \<or> x = CHR ''_'') ds
         then Some (c # cs, d # ds) else None)
    | _ \<Rightarrow> None)"

definition dots_to_slashes :: "string \<Rightarrow> string" where
  "dots_to_slashes = map (\<lambda>c. if c = CHR ''.'' then CHR ''/'' else c)"

definition norm_path :: "string \<Rightarrow> string" where
  "norm_path p = join ''/'' (filter (\<lambda>x. x \<noteq> [] \<and> x \<noteq> ''.'') (parts p))"

definition module_file :: "string \<Rightarrow> string" where
  "module_file target = dots_to_slashes (hd (split_on (CHR '':'') target)) @ ''.py''"

definition run_action :: "world \<Rightarrow> int \<Rightarrow> files \<Rightarrow> string \<Rightarrow> obj \<Rightarrow> (run_error + json) \<times> files" where
  "run_action w rnd ws target arguments = (case module_target target of
      None \<Rightarrow> (Inl (Contract_invalid (''invalid template action target: '' @ target)), ws)
    | Some (mdl, fn) \<Rightarrow>
        (if norm_path (dots_to_slashes mdl @ ''.py'') \<notin> set (map fst ws)
         then (Inl (Contract_invalid (''template action module is missing: '' @ mdl)), ws)
         else case w_sandbox w rnd ws (Call_action mdl fn arguments) of
           (Rejected msg, ws') \<Rightarrow> (Inl (Contract_invalid msg), ws')
         | (Completed code out err, ws') \<Rightarrow>
             (if code \<noteq> 0
              then (Inl (Contract_invalid (''action failed before an assertion: '' @ strip err)), ws')
              else case plain_loads (w_rt w) out of
                Some v \<Rightarrow> (if interoperable v then (Inr v, ws')
                          else (Inl (Contract_invalid ''action did not return one JSON value''), ws'))
              | None \<Rightarrow> (Inl (Contract_invalid ''action did not return one JSON value''), ws'))))"

definition pytest_prefix :: string where
  "pytest_prefix = ''__PMPE_PYTEST_RESULT__:''"

definition pytest_arguments :: "string list \<Rightarrow> string list" where
  "pytest_arguments command =
     (if length command \<ge> 3 \<and> take 2 (drop 1 command) = [''-m'', ''pytest''] then drop 3 command
      else drop 1 command)"

definition result_lines :: "string \<Rightarrow> string list" where
  "result_lines out = map (drop (length pytest_prefix))
     (filter (starts_with pytest_prefix) (text_lines_from [] out))"

text \<open>The verdict on the structured result of one test node.\<close>

definition node_verdict :: "world \<Rightarrow> string \<Rightarrow> int \<Rightarrow> json \<Rightarrow> run_error + bool" where
  "node_verdict w node code structured = (case structured of
      JObj d \<Rightarrow>
        (case (case map_of d ''reports'' of None \<Rightarrow> JObj [] | Some r \<Rightarrow> r) of
           JObj reports \<Rightarrow>
             (case dget reports node of
                JObj report \<Rightarrow>
                  (if dget report ''outcome'' = JStr ''failed'' \<and> code = 1 then Inr False
                   else if dget report ''outcome'' = JStr ''passed'' \<and> code = 0 then Inr True
                   else Inl (Contract_invalid (''bound human test was skipped, errored, or mutated evidence: ''
                     @ w_dumps_spaced w (case map_of d ''writes'' of None \<Rightarrow> JList [] | Some x \<Rightarrow> x))))
              | _ \<Rightarrow> Inl (Contract_invalid ''bound human test node did not execute exactly once''))
         | _ \<Rightarrow> Inl (No_attribute ''get''))
    | _ \<Rightarrow> Inl (No_attribute ''get''))"

definition run_pytest_node ::
  "world \<Rightarrow> int \<Rightarrow> files \<Rightarrow> template_test \<Rightarrow> string list \<Rightarrow> (run_error + bool) \<times> files" where
  "run_pytest_node w rnd ws test protected_paths =
     (case w_sandbox w rnd ws (Call_pytest (sorted_set protected_paths) (pytest_arguments (tt_command test))) of
        (Rejected msg, ws') \<Rightarrow> (Inl (Contract_invalid msg), ws')
      | (Completed code out err, ws') \<Rightarrow>
          (case result_lines out of
             [line] \<Rightarrow>
               (case plain_loads (w_rt w) line of
                  None \<Rightarrow> (Inl (Contract_invalid ''human test produced malformed structured evidence''), ws')
                | Some structured \<Rightarrow>
                    (node_verdict w (tt_path test @ ''::'' @ tt_node test) code structured, ws'))
           | _ \<Rightarrow> (Inl (Contract_invalid (''human test produced no structured pytest result''
                     @ (if strip err = [] then [] else '': '' @ strip err))), ws')))"

section \<open>Verifying\<close>

definition mk_finding :: "string \<Rightarrow> string \<Rightarrow> string \<Rightarrow> string list \<Rightarrow> finding" where
  "mk_finding c s m f = \<lparr>fd_code = c, fd_subject = s, fd_message = m, fd_files = f\<rparr>"

definition lift_run :: "'a + 'b \<Rightarrow> ('a \<Rightarrow> 'c) \<Rightarrow> 'c + 'b" where
  "lift_run r f = (case r of Inl e \<Rightarrow> Inl (f e) | Inr x \<Rightarrow> Inr x)"

definition protected_for :: "template \<Rightarrow> criterion \<Rightarrow> string list" where
  "protected_for tm c = filter (starts_with ''tests/'') (map fst (tm_files tm))
     @ (case cc_human c of None \<Rightarrow> [] | Some h \<Rightarrow> [ht_path h])"

definition check_template_proof ::
  "world \<Rightarrow> int \<Rightarrow> template \<Rightarrow> files \<Rightarrow> criterion \<Rightarrow> template_proof \<Rightarrow> (run_error + finding list) \<times> files" where
  "check_template_proof w rnd tm ws c tp = (case map_of (tm_proofs tm) (tp_test tp) of
      None \<Rightarrow> (Inl (Missing_key (tp_test tp)), ws)
    | Some test \<Rightarrow>
        (case safe_path (tt_path test) of
           Inl e \<Rightarrow> (Inl (File_error e), ws)
         | Inr p \<Rightarrow>
             (case map_of ws p of
                None \<Rightarrow> (Inl (File_error (Os_error ''no such file'')), ws)
              | Some content \<Rightarrow>
                  (if sha256_digest (w_rt w) content \<noteq> tp_digest tp
                   then (Inl (Contract_invalid ''template proof file does not match its compiled digest''), ws)
                   else case run_pytest_node w rnd ws test (protected_for tm c) of
                     (Inl e, ws') \<Rightarrow> (Inl e, ws')
                   | (Inr ok, ws') \<Rightarrow> (Inr (if ok then [] else [mk_finding ''ASSERTION_FAILED'' (cc_id c)
                        ''template acceptance proof failed'' [tt_path test]]), ws')))))"

definition check_human ::
  "world \<Rightarrow> int \<Rightarrow> template \<Rightarrow> files \<Rightarrow> criterion \<Rightarrow> human_test \<Rightarrow> (run_error + finding list) \<times> files" where
  "check_human w rnd tm ws c h =
     (case run_pytest_node w rnd ws \<lparr>tt_path = ht_path h, tt_node = ht_node h, tt_command = ht_command h\<rparr>
         (protected_for tm c) of
        (Inl e, ws') \<Rightarrow> (Inl e, ws')
      | (Inr ok, ws') \<Rightarrow> (Inr (if ok then [] else [mk_finding ''ASSERTION_FAILED'' (cc_id c)
           ''human-authored acceptance assertion failed'' [ht_path h]]), ws'))"

definition check_measure ::
  "world \<Rightarrow> int \<Rightarrow> template \<Rightarrow> files \<Rightarrow> criterion \<Rightarrow> operator \<Rightarrow> int \<Rightarrow> (run_error + finding list) \<times> files" where
  "check_measure w rnd tm ws c op minimum = (case map_of (tm_measures tm) (cc_measure c) of
      None \<Rightarrow> (Inl (Missing_key (cc_measure c)), ws)
    | Some target \<Rightarrow>
        (case run_action w rnd ws target [] of
           (Inl e, ws') \<Rightarrow> (Inl e, ws')
         | (Inr (JObj observation), ws') \<Rightarrow>
             (case dget observation ''sample_size'' of
                JInt n \<Rightarrow>
                  (Inr (if n \<ge> minimum \<and> assertion_passes (w_rt w)
                          \<lparr>pa_path = ''value'', pa_operator = op, pa_value = cc_value c\<rparr> (JObj observation)
                        then [] else [mk_finding ''ASSERTION_FAILED'' (cc_id c)
                          ''compiled measure assertion failed'' [module_file target]]), ws')
              | _ \<Rightarrow> (Inl (Contract_invalid ''measure did not return an integer sample_size''), ws'))
         | (Inr _, ws') \<Rightarrow> (Inl (Contract_invalid ''measure did not return a JSON object''), ws')))"

definition check_given ::
  "world \<Rightarrow> int \<Rightarrow> template \<Rightarrow> files \<Rightarrow> criterion \<Rightarrow> action_call \<Rightarrow> (run_error + finding list) \<times> files" where
  "check_given w rnd tm ws c when' =
     (if list_ex (\<lambda>a. \<not> assertion_passes (w_rt w) a (JObj (tm_context tm))) (cc_given c)
      then (Inl (Contract_invalid (cc_id c @ '': Given precondition is false'')), ws)
      else case map_of (tm_actions tm) (ac_action when') of
        None \<Rightarrow> (Inl (Missing_key (ac_action when')), ws)
      | Some target \<Rightarrow>
          (case run_action w rnd ws target (ac_arguments when') of
             (Inl e, ws') \<Rightarrow> (Inl e, ws')
           | (Inr result, ws') \<Rightarrow>
               (Inr (if list_all (\<lambda>a. assertion_passes (w_rt w) a (JObj [(''result'', result)])) (cc_then c)
                     then [] else [mk_finding ''ASSERTION_FAILED'' (cc_id c)
                       ''compiled acceptance assertion failed'' [module_file target]]), ws')))"

text \<open>\<^verbatim>\<open>_criterion_findings\<close>; the missing parts its assertions exclude are key errors here.\<close>

definition criterion_findings ::
  "world \<Rightarrow> int \<Rightarrow> template \<Rightarrow> files \<Rightarrow> criterion \<Rightarrow> (run_error + finding list) \<times> files" where
  "criterion_findings w rnd tm ws c = (case cc_form c of
      Satisfied_by_template \<Rightarrow> (case cc_template c of
         None \<Rightarrow> (Inl (Missing_key ''template_proof''), ws) | Some tp \<Rightarrow> check_template_proof w rnd tm ws c tp)
    | Human_form \<Rightarrow> (case cc_human c of
         None \<Rightarrow> (Inl (Missing_key ''human_test''), ws) | Some h \<Rightarrow> check_human w rnd tm ws c h)
    | Measure \<Rightarrow> (case (cc_operator c, cc_minimum c) of
         (Some op, Some m) \<Rightarrow> check_measure w rnd tm ws c op m | _ \<Rightarrow> (Inl (Missing_key ''measure''), ws))
    | Given_when_then \<Rightarrow> (case cc_when c of
         None \<Rightarrow> (Inl (Missing_key ''when''), ws) | Some a \<Rightarrow> check_given w rnd tm ws c a))"

definition changed_paths :: "files \<Rightarrow> files \<Rightarrow> string list" where
  "changed_paths snap now = sorted_set (filter (\<lambda>p. \<not> (p \<in> set (map fst snap) \<and> p \<in> set (map fst now)
     \<and> map_of snap p = map_of now p)) (map fst snap @ map fst now))"

text \<open>One round of \<^verbatim>\<open>_verify_snapshot\<close>: the criterion on a fresh copy, then the copy compared.\<close>

definition verify_criterion :: "world \<Rightarrow> int \<Rightarrow> template \<Rightarrow> files \<Rightarrow> criterion \<Rightarrow> run_error + finding list" where
  "verify_criterion w rnd tm snap c =
     bindr (lift_run (materialize_snapshot (sort_key fst snap)) File_error) (\<lambda>_.
       (case criterion_findings w rnd tm snap c of
          (r, now) \<Rightarrow>
            (let mutated = (if changed_paths snap now = [] then []
                   else [mk_finding ''CANDIDATE_MUTATED_DURING_VERIFICATION'' (cc_id c)
                     ''candidate changed its isolated verification snapshot'' (changed_paths snap now)])
             in case r of
               Inr fs \<Rightarrow> Inr (fs @ mutated)
             | Inl (Contract_invalid msg) \<Rightarrow>
                 (case cc_human c of
                    None \<Rightarrow> Inl (Contract_invalid msg)
                  | Some h \<Rightarrow> Inr ([mk_finding ''CANDIDATE_EXECUTION_FAILED'' (cc_id c) msg [ht_path h]] @ mutated))
             | Inl e \<Rightarrow> Inl e)))"

fun verify_criteria :: "world \<Rightarrow> int \<Rightarrow> template \<Rightarrow> files \<Rightarrow> criterion list \<Rightarrow> run_error + finding list" where
  "verify_criteria w rnd tm snap [] = Inr []"
| "verify_criteria w rnd tm snap (c # cs) =
     bindr (verify_criterion w rnd tm snap c) (\<lambda>fs.
     bindr (verify_criteria w rnd tm snap cs) (\<lambda>gs. Inr (fs @ gs)))"

definition verify_snapshot :: "world \<Rightarrow> int \<Rightarrow> template \<Rightarrow> plan \<Rightarrow> files \<Rightarrow> run_error + finding list" where
  "verify_snapshot w rnd tm p snap = verify_criteria w rnd tm snap (pl_criteria p)"

section \<open>Provider calls\<close>

datatype provider_fault = Fault_runtime string | Fault_os

definition provider_code :: "string \<Rightarrow> bool" where
  "provider_code s = (case s of [] \<Rightarrow> False
     | c # cs \<Rightarrow> is_upper c \<and> list_all (\<lambda>x. is_upper x \<or> is_digit x \<or> x = CHR ''_'') cs)"

definition classify_provider_error :: "runtime \<Rightarrow> provider_fault \<Rightarrow> string" where
  "classify_provider_error rt f = (case f of
      Fault_os \<Rightarrow> ''MODEL_PROVIDER_FAILED''
    | Fault_runtime msg \<Rightarrow> (if rt_search rt credential_pattern msg \<or> \<not> provider_code msg
        then ''MODEL_PROVIDER_FAILED'' else msg))"

text \<open>Usage counters; \<^const>\<open>None\<close> is the invalid usage.\<close>

definition add_tokens :: "json \<Rightarrow> int \<Rightarrow> int option" where
  "add_tokens v acc = (case v of
      JNull \<Rightarrow> Some acc
    | JInt n \<Rightarrow> (if n < 0 \<or> acc + n > max_interoperable_integer then None else Some (acc + n))
    | _ \<Rightarrow> None)"

definition add_cost :: "runtime \<Rightarrow> json \<Rightarrow> rat \<Rightarrow> rat option" where
  "add_cost rt v acc =
     (if v = JNull then Some acc
      else case num_of v of
        None \<Rightarrow> None
      | Some r \<Rightarrow>
          (if (case v of JInt n \<Rightarrow> \<bar>n\<bar> > max_interoperable_integer | _ \<Rightarrow> False) then None
           else case rt_float rt r of
             None \<Rightarrow> None
           | Some x \<Rightarrow> (if x < 0 then None else rt_float rt (acc + x))))"

definition usage_invalid :: provider_fault where
  "usage_invalid = Fault_runtime ''MODEL_PROVIDER_USAGE_INVALID''"

definition count_usage :: "runtime \<Rightarrow> json \<Rightarrow> counters \<Rightarrow> (provider_fault + unit) \<times> counters" where
  "count_usage rt usage ct = (case usage of
      JObj u \<Rightarrow>
        (case add_tokens (dget u ''input_tokens'') (ct_in ct) of
           None \<Rightarrow> (Inl usage_invalid, ct)
         | Some i \<Rightarrow>
             (let ct1 = ct\<lparr>ct_in := i\<rparr> in
              case add_tokens (dget u ''output_tokens'') (ct_out ct1) of
                None \<Rightarrow> (Inl usage_invalid, ct1)
              | Some out \<Rightarrow>
                  (let ct2 = ct1\<lparr>ct_out := out\<rparr> in
                   case add_cost rt (dget u ''estimated_cost_usd'') (ct_cost ct2) of
                     None \<Rightarrow> (Inl usage_invalid, ct2)
                   | Some c \<Rightarrow> (Inr (), ct2\<lparr>ct_cost := c\<rparr>))))
    | _ \<Rightarrow> (Inr (), ct))"

definition note_model :: "json \<Rightarrow> counters \<Rightarrow> counters" where
  "note_model metadata ct = (case metadata of
      JObj m \<Rightarrow> (case dget m ''model'' of
          JStr s \<Rightarrow> (if s = [] then ct
             else ct\<lparr>ct_model := (if ct_model ct = [] \<or> ct_model ct = s then s else ''multiple'')\<rparr>)
        | _ \<Rightarrow> ct)
    | _ \<Rightarrow> ct)"

definition invoke_bound ::
  "world \<Rightarrow> string \<Rightarrow> obj \<Rightarrow> budget_caps \<Rightarrow> counters \<Rightarrow> (provider_fault + obj) \<times> counters" where
  "invoke_bound w purpose request budget ct =
     (if ct_calls ct \<ge> bc_calls budget then (Inl (Fault_runtime ''MODEL_CALL_BUDGET_EXHAUSTED''), ct)
      else let ct1 = ct\<lparr>ct_calls := ct_calls ct + 1\<rparr> in
        case w_provider w (ct_calls ct) purpose request of
          Runtime_failure msg \<Rightarrow> (Inl (Fault_runtime msg), ct1)
        | Os_failure \<Rightarrow> (Inl Fault_os, ct1)
        | Reply response \<Rightarrow>
            (let serialized = w_dumps w (JObj response) in
             if rt_search (w_rt w) credential_pattern serialized
             then (Inl (Fault_runtime ''MODEL_RESPONSE_CONTAINS_CREDENTIAL''), ct1)
             else let ct2 = ct1\<lparr>ct_bytes := ct_bytes ct1 + int (length serialized)\<rparr> in
               if ct_bytes ct2 > bc_bytes budget
               then (Inl (Fault_runtime ''MODEL_OUTPUT_BUDGET_EXHAUSTED''), ct2)
               else if dget response ''request_digest'' \<noteq> dget request ''request_digest''
               then (Inl (Fault_runtime ''MODEL_RESPONSE_UNBOUND''), ct2)
               else case count_usage (w_rt w) (dget response ''usage'') ct2 of
                 (Inl f, ct3) \<Rightarrow> (Inl f, ct3)
               | (Inr _, ct3) \<Rightarrow> (Inr response, note_model (dget response ''provider_metadata'') ct3)))"

definition generation_policy :: json where
  "generation_policy = JObj
     [(''profile'', JStr ''python-stdlib-quality/v1''),
      (''required_checks'', strs_json [''syntax'', ''dependencies'', ''verification_integrity'', ''format'',
         ''lint'', ''types'']),
      (''dependencies'', JStr ''Python standard library and candidate-local modules only''),
      (''instructions'', strs_json
         [''Implement the approved contract; do not change acceptance expectations.'',
          ''Keep module responsibilities explicit; reuse existing local components.'',
          ''Use typed public interfaces and explicit error handling.'',
          ''Use ruff formatting and fix undefined names and type mismatches.'',
          ''Do not add checker suppressions, external dependencies or unrelated code.'',
          ''Make the smallest coherent repair for the supplied findings.''])]"

definition plan_dict :: "plan \<Rightarrow> json" where
  "plan_dict p = JObj
     [(''contract_digest'', JStr (pl_contract p)), (''requirements'', strs_json (pl_requirements p)),
      (''tasks'', JList (map task_json (pl_tasks p))), (''criteria'', JList (map criterion_json (pl_criteria p))),
      (''trusted_test_digests'', JList (map pair_json (pl_trusted p))), (''plan_digest'', JStr (pl_digest p))]"

definition finding_json :: "finding \<Rightarrow> json" where
  "finding_json f = JObj [(''code'', JStr (fd_code f)), (''subject_id'', JStr (fd_subject f)),
     (''message'', JStr (fd_message f)), (''files'', strs_json (fd_files f))]"

definition findings_json :: "finding list \<Rightarrow> json" where
  "findings_json fs = JList (map finding_json fs)"

definition request_suffixes :: "string list" where
  "request_suffixes = [''.json'', ''.md'', ''.py'', ''.toml'', ''.txt'', ''.yaml'', ''.yml'']"

definition request_files :: "files \<Rightarrow> files" where
  "request_files ws = filter (\<lambda>f. ''__pycache__'' \<notin> set (parts (fst f))
     \<and> path_suffix (fst f) \<in> set request_suffixes) (workspace_snapshot ws)"

definition with_digest :: "runtime \<Rightarrow> obj \<Rightarrow> obj" where
  "with_digest rt body = dput ''request_digest'' (JStr (canonical_digest rt (JObj body))) body"

definition model_request ::
  "world \<Rightarrow> obj \<Rightarrow> plan \<Rightarrow> files \<Rightarrow> finding list \<Rightarrow> bool \<Rightarrow> run_error + obj" where
  "model_request w contract p ws findings enforce =
     (if list_ex (\<lambda>f. read_text (snd f) = None) (request_files ws)
      then Inl (File_error (Value_error ''file is not UTF-8 text''))
      else Inr (with_digest (w_rt w)
        ([(''contract'', JObj contract), (''plan'', plan_dict p),
          (''files'', JObj (map (\<lambda>f. (fst f, JStr (the (read_text (snd f))))) (request_files ws))),
          (''findings'', findings_json findings)]
         @ (if enforce then [(''generation_policy'', generation_policy)] else []))))"

definition provider_behavior_payload :: "runtime \<Rightarrow> string \<Rightarrow> obj \<Rightarrow> json option" where
  "provider_behavior_payload rt purpose response = (case observe_provider_behavior rt purpose response of
      Inl _ \<Rightarrow> None
    | Inr b \<Rightarrow> Some (JObj [(''purpose'', JStr (pb_purpose b)), (''request_digest'', JStr (pb_request b)),
        (''output_digest'', JStr (pb_output b)), (''provider'', JStr (pb_provider b)),
        (''model'', JStr (pb_model b)), (''prompt_version'', JStr (pb_prompt b)),
        (''cli_version'', JStr (pb_cli b))]))"

end
