(* ===== verification/Run.thy ===== *)
theory Run
  imports Engine_Defs
begin

text \<open>
  \<^verbatim>\<open>run_to_release_ready\<close> of \<^verbatim>\<open>src/pmpe/barebones.py\<close>, in the order of the code: the checks
  before anything is written, the validated contract, the prepared workspace and its
  meaningful red baseline, and the attempts. The calls on the evidence ledger are recorded
  in order in \<^verbatim>\<open>en_trace\<close>; a blob's digest is what \<^verbatim>\<open>put_blob\<close> returns for it. An append is
  taken to succeed here; the theory of the ledger says when it does.
\<close>

section \<open>State of a run\<close>

record engine =
  en_files :: files
  en_counters :: counters
  en_findings :: "finding list"
  en_previous :: string
  en_stops :: nat                        \<comment> \<open>how often \<^verbatim>\<open>stop_requested\<close> was asked\<close>
  en_trace :: "ledger_call list"

record run_setup =
  su_contract :: obj
  su_plan :: plan
  su_template :: template
  su_budget :: budget_caps
  su_subject :: string
  su_protected :: "string list"
  su_quality :: bool

record run_request =
  rq_contract :: obj
  rq_template :: "template option"
  rq_budget :: "budget_caps option"
  rq_receipt :: "obj option"
  rq_authority :: "string option"
  rq_receipt_bytes :: "bytes option"
  rq_quality :: bool

datatype outcome =
    Raised run_error engine              \<comment> \<open>an exception leaves the function\<close>
  | Finished run_result engine
  | Continue engine

definition initial_counters :: counters where
  "initial_counters = \<lparr>ct_calls = 0, ct_bytes = 0, ct_in = 0, ct_out = 0, ct_cost = 0, ct_model = [],
     ct_structured = 0, ct_human = 0\<rparr>"

definition initial_engine :: engine where
  "initial_engine = \<lparr>en_files = [], en_counters = initial_counters, en_findings = [], en_previous = [],
     en_stops = 0, en_trace = []\<rparr>"

definition record_call :: "ledger_call \<Rightarrow> engine \<Rightarrow> engine" where
  "record_call c e = e\<lparr>en_trace := en_trace e @ [c]\<rparr>"

definition put :: "bytes \<Rightarrow> engine \<Rightarrow> engine" where
  "put b = record_call (Put b)"

definition event :: "string \<Rightarrow> string \<Rightarrow> run_state \<Rightarrow> string list \<Rightarrow> obj \<Rightarrow> engine \<Rightarrow> engine" where
  "event subject ty st blobs payload = record_call (Append \<lparr>er_type = ty, er_state = state_name st,
     er_subject = subject, er_blobs = blobs, er_payload = payload\<rparr>)"

abbreviation blob_of :: "world \<Rightarrow> bytes \<Rightarrow> string" where
  "blob_of w b \<equiv> sha256_digest (w_rt w) b"

definition telemetry :: "world \<Rightarrow> engine \<Rightarrow> json" where
  "telemetry w e = (let ct = en_counters e in JObj
     [(''calls'', JInt (ct_calls ct)), (''bytes'', JInt (ct_bytes ct)), (''tokens_in'', JInt (ct_in ct)),
      (''tokens_out'', JInt (ct_out ct)), (''estimated_cost_usd'', JFloat (ct_cost ct)),
      (''provider_model_id'', JStr (ct_model ct)),
      (''structured_criteria_count'', JInt (int (ct_structured ct))),
      (''human_test_count'', JInt (int (ct_human ct))), (''elapsed_ms'', JInt (w_elapsed w))])"

definition finish :: "run_state \<Rightarrow> string \<Rightarrow> int \<Rightarrow> obj \<Rightarrow> engine \<Rightarrow> outcome" where
  "finish st cause attempts annotation e = Finished \<lparr>rr_state = st, rr_cause = cause, rr_attempts = attempts,
     rr_calls = ct_calls (en_counters e), rr_annotation = annotation\<rparr> e"

text \<open>The append of a terminal event and the result, as each early return has them.\<close>

definition stop_run :: "world \<Rightarrow> string \<Rightarrow> int \<Rightarrow> engine \<Rightarrow> outcome" where
  "stop_run w subject attempts e = finish STOPPED ''STOP_REQUESTED'' attempts []
     (event subject ''stopped'' STOPPED [] [(''cause'', JStr ''STOP_REQUESTED''), (''telemetry'', telemetry w e)] e)"

definition halt_run :: "world \<Rightarrow> string \<Rightarrow> string \<Rightarrow> obj \<Rightarrow> int \<Rightarrow> engine \<Rightarrow> outcome" where
  "halt_run w subject cause extra attempts e = finish HALTED cause attempts []
     (event subject ''halted'' HALTED [] ((''cause'', JStr cause) # extra @ [(''telemetry'', telemetry w e)]) e)"

section \<open>Before anything is written\<close>

definition check_approval :: "world \<Rightarrow> run_request \<Rightarrow> run_error + obj" where
  "check_approval w rq = (case (rq_receipt rq, rq_authority rq, rq_receipt_bytes rq) of
      (None, None, None) \<Rightarrow> Inr [(''status'', JStr ''UNVERIFIED_DIRECT_CALL'')]
    | (Some receipt, Some authority, Some raw) \<Rightarrow>
        (case strict_loads (w_rt w) raw ''application/json'' of
           Inl _ \<Rightarrow> Inl (Contract_invalid ''submitted approval receipt is malformed'')
         | Inr submitted \<Rightarrow>
             (if canonical_digest (w_rt w) (JObj submitted) \<noteq> canonical_digest (w_rt w) (JObj receipt)
              then Inl (Contract_invalid ''submitted approval receipt bytes do not match receipt'')
              else case verify_contract_approval (w_rt w) (rq_contract rq) receipt authority of
                Inl (Contract_violation msg) \<Rightarrow> Inl (Contract_invalid msg)
              | Inl (Spec_error msg _) \<Rightarrow> Inl (Contract_invalid msg)
              | Inr receipt_digest \<Rightarrow> Inr [(''status'', JStr ''VERIFIED''), (''authority'', JStr authority),
                  (''receipt_digest'', JStr receipt_digest)]))
    | _ \<Rightarrow> Inl (Contract_invalid
        ''approval receipt, authority, and submitted bytes must be supplied together''))"

definition active_template :: "run_request \<Rightarrow> template" where
  "active_template rq = (case rq_template rq of None \<Rightarrow> default_template | Some t \<Rightarrow> t)"

definition active_budget :: "run_request \<Rightarrow> budget_caps" where
  "active_budget rq = (case rq_budget rq of None \<Rightarrow> default_budget | Some b \<Rightarrow> b)"

text \<open>Up to the opened ledger: the approval payload and the compiled plan.\<close>

definition preflight :: "world \<Rightarrow> run_request \<Rightarrow> run_error + obj \<times> plan" where
  "preflight w rq =
     bindr (guard (\<not> rq_quality rq \<or> w_missing_tools w = [])
       (Contract_invalid (''GENERATION_CHECKER_UNAVAILABLE: '' @ join '', '' (w_missing_tools w)))) (\<lambda>_.
     bindr (check_approval w rq) (\<lambda>approval.
     bindr (compile_barebones_plan w (active_template rq) (rq_contract rq)) (\<lambda>p.
     bindr (guard (\<not> w_overlap w)
       (Contract_invalid ''candidate workspace must not overlap evidence storage'')) (\<lambda>_.
     bindr (guard (\<not> w_occupied w) (Contract_invalid ''candidate workspace must be empty'')) (\<lambda>_.
     (case w_ledger w of Some err \<Rightarrow> Inl (Ledger_failed err) | None \<Rightarrow> Inr (approval, p)))))))"

definition plan_counters :: "plan \<Rightarrow> counters \<Rightarrow> counters" where
  "plan_counters p ct = ct\<lparr>
     ct_structured := length (filter (\<lambda>c. cc_form c \<noteq> Human_form) (pl_criteria p)),
     ct_human := length (filter (\<lambda>c. cc_form c = Human_form) (pl_criteria p))\<rparr>"

text \<open>The blobs and the event \<^verbatim>\<open>contract_validated\<close>.\<close>

definition validated :: "world \<Rightarrow> run_request \<Rightarrow> string \<Rightarrow> obj \<Rightarrow> plan \<Rightarrow> engine \<Rightarrow> engine" where
  "validated w rq subject approval p e =
     (let plan_bytes = w_dumps w (plan_dict p);
          contract_bytes = w_dumps w (JObj (rq_contract rq));
          receipt = (case rq_receipt_bytes rq of None \<Rightarrow> [] | Some raw \<Rightarrow> [raw]);
          payload = (case rq_receipt_bytes rq of None \<Rightarrow> approval
            | Some raw \<Rightarrow> dput ''receipt_blob_digest'' (JStr (blob_of w raw)) approval)
      in event subject ''contract_validated'' VALIDATED
           ([blob_of w contract_bytes, blob_of w plan_bytes] @ map (blob_of w) receipt)
           [(''approval'', JObj payload), (''contract_digest'', JStr (blob_of w contract_bytes)),
            (''plan_digest'', JStr (pl_digest p)),
            (''generation_policy'', if rq_quality rq then generation_policy else JNull)]
           (fold put ([plan_bytes, contract_bytes] @ receipt) e))"

section \<open>Preparing the workspace\<close>

fun trusted_support :: "world \<Rightarrow> files \<Rightarrow> (string \<times> string) list \<Rightarrow> run_error + string list" where
  "trusted_support w fs [] = Inr []"
| "trusted_support w fs ((relative, digest) # rest) =
     bindr (lift_run (safe_path relative) File_error) (\<lambda>path.
     (case map_of fs path of
        None \<Rightarrow> Inl (File_error (Os_error ''no such file''))
      | Some content \<Rightarrow>
          (if blob_of w content \<noteq> digest
           then Inl (Contract_invalid ''trusted test support does not match its compiled digest'')
           else bindr (trusted_support w fs rest) (\<lambda>paths. Inr (path # paths)))))"

fun install_human_tests :: "world \<Rightarrow> files \<Rightarrow> criterion list \<Rightarrow> (run_error + string list) \<times> files" where
  "install_human_tests w fs [] = (Inr [], fs)"
| "install_human_tests w fs (c # cs) = (case cc_human c of
      None \<Rightarrow> install_human_tests w fs cs
    | Some h \<Rightarrow>
        (case w_repo_now w (ht_path h) of
           None \<Rightarrow> (Inl (File_error (Os_error ''no such file'')), fs)
         | Some content \<Rightarrow>
             (if blob_of w content \<noteq> ht_digest h
              then (Inl (Contract_invalid ''human test changed after compilation''), fs)
              else case read_text content of
                None \<Rightarrow> (Inl (File_error (Value_error ''file is not UTF-8 text'')), fs)
              | Some content_text \<Rightarrow>
                  (case write_files fs [(ht_path h, JStr content_text)] of
                     (Inl err, fs') \<Rightarrow> (Inl (File_error err), fs')
                   | (Inr _, fs') \<Rightarrow>
                       (case install_human_tests w fs' cs of
                          (Inl err, fs'') \<Rightarrow> (Inl err, fs'')
                        | (Inr paths, fs'') \<Rightarrow> (Inr (ht_path h # paths), fs''))))))"

text \<open>The package initialisers of a protected test: one in each directory above it.\<close>

fun initializers :: "string list \<Rightarrow> string list" where
  "initializers parent = (if parent = [] then []
     else join ''/'' (parent @ [''__init__.py'']) # initializers (butlast parent))"

declare initializers.simps [simp del]

definition with_initializers :: "string list \<Rightarrow> string list" where
  "with_initializers tests = tests @ concat (map (\<lambda>p. initializers (butlast (parts p))) tests)"

fun safe_paths :: "string list \<Rightarrow> file_error + string list" where
  "safe_paths [] = Inr []"
| "safe_paths (p # ps) = bindr (safe_path p) (\<lambda>x. bindr (safe_paths ps) (\<lambda>xs. Inr (x # xs)))"

definition template_contents :: "template \<Rightarrow> (string \<times> json) list" where
  "template_contents tm = map (\<lambda>f. (fst f, JStr (snd f))) (tm_files tm)"

text \<open>The protected paths and the workspace after the template and the human tests are in.\<close>

definition install :: "world \<Rightarrow> template \<Rightarrow> plan \<Rightarrow> (run_error + string list) \<times> files" where
  "install w tm p = (case write_files [] (template_contents tm) of
      (Inl err, fs) \<Rightarrow> (Inl (File_error err), fs)
    | (Inr _, fs) \<Rightarrow>
        (case bindr (lift_run (safe_paths (map (\<lambda>q. tt_path (snd q)) (tm_proofs tm))) File_error) (\<lambda>proofs.
               bindr (trusted_support w fs (pl_trusted p)) (\<lambda>support. Inr (proofs @ support))) of
           Inl err \<Rightarrow> (Inl err, fs)
         | Inr tests \<Rightarrow>
             (case install_human_tests w fs (pl_criteria p) of
                (Inl err, fs') \<Rightarrow> (Inl err, fs')
              | (Inr human, fs') \<Rightarrow> (Inr (with_initializers (tests @ human)), fs'))))"

definition meaningful_red :: "plan \<Rightarrow> finding list \<Rightarrow> bool" where
  "meaningful_red p baseline \<longleftrightarrow>
     list_all (\<lambda>f. fd_code f = ''ASSERTION_FAILED'') baseline \<and>
     set (map fd_subject baseline) =
       set (map cc_id (filter (\<lambda>c. cc_form c \<noteq> Satisfied_by_template) (pl_criteria p)))"

definition red_confirmed :: "world \<Rightarrow> string \<Rightarrow> finding list \<Rightarrow> engine \<Rightarrow> engine" where
  "red_confirmed w subject baseline e =
     (let blob = w_dumps w (findings_json baseline) in
      event subject ''meaningful_red_confirmed'' BUILDING [blob_of w blob] [(''findings'', findings_json baseline)]
        (put blob e))"

section \<open>One attempt\<close>

definition halt_invalid :: "world \<Rightarrow> run_setup \<Rightarrow> int \<Rightarrow> engine \<Rightarrow> outcome" where
  "halt_invalid w su attempt = halt_run w (su_subject su) ''CODER_RESPONSE_INVALID'' [] attempt"

text \<open>The files of a response, checked and written: the end of the run or the changed paths.\<close>

definition accept_response :: "world \<Rightarrow> run_setup \<Rightarrow> int \<Rightarrow> obj \<Rightarrow> engine \<Rightarrow> outcome + string list \<times> engine" where
  "accept_response w su attempt response e = (case dget response ''files'' of
      JObj files \<Rightarrow>
        (case safe_paths (map fst files) of
           Inl _ \<Rightarrow> Inl (halt_invalid w su attempt e)
         | Inr paths \<Rightarrow>
             (if length (remdups paths) \<noteq> length files then Inl (halt_invalid w su attempt e)
              else if list_ex (\<lambda>p. p \<in> set (su_protected su)) paths
              then Inl (halt_run w (su_subject su) ''CODER_MODIFIED_EVIDENCE'' [] attempt e)
              else case write_files (en_files e) files of
                (Inl (Value_error _), fs) \<Rightarrow> Inl (halt_invalid w su attempt (e\<lparr>en_files := fs\<rparr>))
              | (Inl (Os_error msg), fs) \<Rightarrow> Inl (Raised (File_error (Os_error msg)) (e\<lparr>en_files := fs\<rparr>))
              | (Inr changed, fs) \<Rightarrow> Inr (changed, e\<lparr>en_files := fs\<rparr>)))
    | _ \<Rightarrow> Inl (halt_invalid w su attempt e))"

definition coder_completed ::
  "world \<Rightarrow> run_setup \<Rightarrow> int \<Rightarrow> obj \<Rightarrow> obj \<Rightarrow> string list \<Rightarrow> engine \<Rightarrow> engine" where
  "coder_completed w su attempt request response changed e =
     (let coder = w_dumps w (JObj response); req = w_dumps w (JObj request) in
      event (su_subject su) ''coder_completed'' BUILDING [blob_of w req, blob_of w coder]
        ([(''attempt'', JInt attempt), (''changed'', strs_json changed),
          (''request_blob_digest'', JStr (blob_of w req)), (''response_blob_digest'', JStr (blob_of w coder))]
         @ (case provider_behavior_payload (w_rt w) ''code'' response of None \<Rightarrow> []
            | Some b \<Rightarrow> [(''provider_behavior'', b)]))
        (put req (put coder e)))"

text \<open>The check for a repeated finding without a relevant change.\<close>

definition relevant_change :: "plan \<Rightarrow> finding list \<Rightarrow> string list \<Rightarrow> bool" where
  "relevant_change p findings changed \<longleftrightarrow>
     list_ex (\<lambda>f. list_ex (\<lambda>x. x \<in> set changed) (fd_files f)) findings
     \<or> (changed \<noteq> [] \<and> list_ex (\<lambda>f. fd_subject f \<in>
          set (map cc_id (filter (\<lambda>c. cc_form c = Human_form) (pl_criteria p)))) findings)
     \<or> (list_ex (\<lambda>f. fd_code f = ''CANDIDATE_EXECUTION_FAILED'') findings \<and> list_ex (ends_with ''.py'') changed)"

definition finding_digest :: "world \<Rightarrow> finding list \<Rightarrow> string" where
  "finding_digest w findings = canonical_digest (w_rt w) (findings_json findings)"

definition repeats :: "world \<Rightarrow> run_setup \<Rightarrow> string list \<Rightarrow> engine \<Rightarrow> bool" where
  "repeats w su changed e \<longleftrightarrow> en_previous e = finding_digest w (en_findings e)
     \<and> \<not> relevant_change (su_plan su) (en_findings e) changed"

definition repeat_cause :: "finding list \<Rightarrow> string" where
  "repeat_cause findings = ''REPEAT_FINDING_WITHOUT_RELEVANT_CHANGE:''
     @ join '','' (sorted_set (map fd_subject findings))"

text \<open>An event that reports findings, with their blob; the findings become the current ones.\<close>

definition report_findings :: "world \<Rightarrow> run_setup \<Rightarrow> int \<Rightarrow> string \<Rightarrow> finding list \<Rightarrow> engine \<Rightarrow> engine" where
  "report_findings w su attempt ty findings e =
     (let blob = w_dumps w (findings_json findings) in
      (event (su_subject su) ty BUILDING [blob_of w blob]
         [(''attempt'', JInt attempt), (''findings'', findings_json findings)] (put blob e))
      \<lparr>en_findings := findings, en_previous := finding_digest w findings\<rparr>)"

section \<open>Verification and release\<close>

definition no_quality :: obj where
  "no_quality = [(''status'', JStr ''NOT_REQUESTED''), (''passed'', JBool False)]"

text \<open>The quality check: its report, its findings, and the event recorded for it.\<close>

definition quality_findings :: "files \<Rightarrow> quality_check list \<Rightarrow> finding list" where
  "quality_findings snap checks = map (\<lambda>c. mk_finding ''GENERATED_QUALITY_FAILED'' (''quality:'' @ qc_name c)
       (qc_details c) (filter (ends_with ''.py'') (map fst snap)))
     (filter (\<lambda>c. qc_status c \<noteq> ''PASS'') checks)"

definition check_quality :: "world \<Rightarrow> run_setup \<Rightarrow> int \<Rightarrow> files \<Rightarrow> engine \<Rightarrow> obj \<times> finding list \<times> engine" where
  "check_quality w su attempt snap e =
     (if \<not> su_quality su then (no_quality, [], e)
      else case w_quality w attempt snap (sorted_set (su_protected su)) of
        (quality, checks) \<Rightarrow>
          (let blob = w_dumps_spaced w (JObj quality) in
           (quality, quality_findings snap checks,
            event (su_subject su) ''generated_quality_checked'' VERIFYING [blob_of w blob]
              (fold (\<lambda>(k, v) d. dput k v d) quality [(''attempt'', JInt attempt)]) (put blob e))))"

definition implicated_files :: "template \<Rightarrow> string list" where
  "implicated_files tm = sorted_set (map (module_file \<circ> snd) (tm_actions tm @ tm_measures tm))"

text \<open>\<^verbatim>\<open>_verify_snapshot\<close> inside the attempt: an invalid contract error becomes a finding.\<close>

definition verify_attempt :: "world \<Rightarrow> run_setup \<Rightarrow> int \<Rightarrow> files \<Rightarrow> run_error + finding list" where
  "verify_attempt w su attempt snap = (case verify_snapshot w attempt (su_template su) (su_plan su) snap of
      Inl (Contract_invalid msg) \<Rightarrow> Inr [mk_finding ''CANDIDATE_EXECUTION_FAILED'' ''candidate'' msg
        (implicated_files (su_template su))]
    | r \<Rightarrow> r)"

text \<open>\<^verbatim>\<open>bytes.decode("utf-8", errors="replace")\<close>: a maximal ill-formed part becomes U+FFFD.\<close>

definition sequence_need :: "nat \<Rightarrow> nat" where
  "sequence_need n = (if n < 128 then 0 else if 194 \<le> n \<and> n \<le> 223 then 1
     else if 224 \<le> n \<and> n \<le> 239 then 2 else if 240 \<le> n \<and> n \<le> 244 then 3 else 4)"

definition second_byte :: "nat \<Rightarrow> char \<Rightarrow> bool" where
  "second_byte n c \<longleftrightarrow> (let m = (of_char c :: nat) in
     (if n = 224 then 160 else if n = 240 then 144 else 128) \<le> m
     \<and> m \<le> (if n = 237 then 159 else if n = 244 then 143 else 191))"

definition well_formed_tail :: "nat \<Rightarrow> bytes \<Rightarrow> nat" where
  "well_formed_tail n s = (case s of [] \<Rightarrow> 0 | c # t \<Rightarrow>
     (if sequence_need n \<in> {1, 2, 3} \<and> second_byte n c
      then 1 + length (takeWhile cont_byte (take (sequence_need n - 1) t)) else 0))"

function decode_replace :: "bytes \<Rightarrow> string" where
  "decode_replace [] = []"
| "decode_replace (c # s) =
     (let n = of_char c; k = well_formed_tail n s in
      (if k = sequence_need n then c # take k s else [CHR 0xEF, CHR 0xBF, CHR 0xBD])
      @ decode_replace (drop k s))"
  by pat_completeness auto
termination
  by (relation "measure length") (auto simp: le_imp_less_Suc)

text \<open>\<^verbatim>\<open>_candidate_manifest\<close>: the blobs it puts, the manifest, and the digests it returns.\<close>

definition manifest_entries :: "files \<Rightarrow> files" where
  "manifest_entries snap = sort_key fst snap"

definition candidate_manifest :: "world \<Rightarrow> files \<Rightarrow> bytes" where
  "candidate_manifest w snap =
     w_dumps w (JObj (map (\<lambda>f. (fst f, JStr (blob_of w (snd f)))) (manifest_entries snap)))"

definition candidate_blobs :: "world \<Rightarrow> files \<Rightarrow> string list" where
  "candidate_blobs w snap = sorted_set (map (\<lambda>f. blob_of w (snd f)) (manifest_entries snap))"

definition review_request :: "world \<Rightarrow> run_setup \<Rightarrow> files \<Rightarrow> string \<Rightarrow> obj \<Rightarrow> obj" where
  "review_request w su snap evidence_digest quality = with_digest (w_rt w)
     ([(''contract_digest'', JStr (su_subject su)), (''plan_digest'', JStr (pl_digest (su_plan su))),
       (''evidence_digest'', JStr evidence_digest),
       (''instruction'', JStr ''Return one non-blocking advisory annotation.'')]
      @ (if su_quality su then
          [(''contract'', JObj (su_contract su)),
           (''files'', JObj (map (\<lambda>f. (fst f, JStr (decode_replace (snd f)))) snap)),
           (''generation_policy'', generation_policy), (''quality'', JObj quality)] else []))"

definition release_evidence :: "int \<Rightarrow> finding list \<Rightarrow> obj \<Rightarrow> json" where
  "release_evidence attempt security quality = JObj
     [(''assertions'', JStr ''passed''), (''coverage'', JStr ''complete''),
      (''security'', findings_json security), (''attempt'', JInt attempt), (''quality'', JObj quality)]"

definition advisory :: "world \<Rightarrow> run_setup \<Rightarrow> obj \<Rightarrow> counters \<Rightarrow> obj \<times> counters" where
  "advisory w su request ct = (case invoke_bound w ''advisory_review'' request (su_budget su) ct of
      (Inl fault, ct') \<Rightarrow> ([(''status'', JStr ''unavailable''),
         (''cause'', JStr (classify_provider_error (w_rt w) fault))], ct')
    | (Inr annotation, ct') \<Rightarrow> (annotation, ct'))"

definition release :: "world \<Rightarrow> run_setup \<Rightarrow> int \<Rightarrow> files \<Rightarrow> finding list \<Rightarrow> obj \<Rightarrow> engine \<Rightarrow> outcome" where
  "release w su attempt snap security quality e =
     (let evidence = w_dumps_spaced w (release_evidence attempt security quality);
          manifest = candidate_manifest w snap;
          e1 = fold put ([evidence] @ map snd (manifest_entries snap) @ [manifest]) e;
          (annotation, ct) = advisory w su (review_request w su snap (blob_of w evidence) quality) (en_counters e1);
          e2 = e1\<lparr>en_counters := ct, en_findings := []\<rparr>
      in finish RELEASE_READY ''PASS'' attempt annotation
        (event (su_subject su) ''release_ready'' RELEASE_READY
           ([blob_of w evidence, blob_of w manifest] @ candidate_blobs w snap)
           ([(''annotation'', JObj annotation), (''candidate_digest'', JStr (blob_of w manifest)),
             (''telemetry'', telemetry w e2), (''quality'', JObj quality)]
            @ (case provider_behavior_payload (w_rt w) ''advisory_review'' annotation of None \<Rightarrow> []
               | Some b \<Rightarrow> [(''provider_behavior'', b)])) e2))"

text \<open>After the repeat check: the security scan, then verification, then release or findings.\<close>

definition verify_phase :: "world \<Rightarrow> run_setup \<Rightarrow> int \<Rightarrow> string list \<Rightarrow> engine \<Rightarrow> outcome" where
  "verify_phase w su attempt changed e =
     (let snap = workspace_snapshot (en_files e);
          security = security_findings (w_rt w) (en_files e);
          blocked = filter blocking security
      in if blocked \<noteq> [] then Continue (report_findings w su attempt ''security_failed'' blocked e)
      else
        (let e1 = event (su_subject su) ''verification_started'' VERIFYING []
               [(''attempt'', JInt attempt), (''changed'', strs_json changed)] e;
             (quality, qf, e2) = check_quality w su attempt snap e1
         in case (if qf \<noteq> [] then Inr qf else verify_attempt w su attempt snap) of
              Inl err \<Rightarrow> Raised err e2
            | Inr findings \<Rightarrow>
                (if findings = [] then release w su attempt snap security quality e2
                 else Continue (report_findings w su attempt ''verification_failed'' findings e2))))"

definition one_attempt :: "world \<Rightarrow> run_setup \<Rightarrow> int \<Rightarrow> engine \<Rightarrow> outcome" where
  "one_attempt w su attempt e0 =
     (let e = e0\<lparr>en_stops := Suc (en_stops e0)\<rparr> in
      if w_stop w (en_stops e0) then stop_run w (su_subject su) (attempt - 1) e
      else case model_request w (su_contract su) (su_plan su) (en_files e) (en_findings e) (su_quality su) of
        Inl err \<Rightarrow> Raised err e
      | Inr request \<Rightarrow>
          (case invoke_bound w ''code'' request (su_budget su) (en_counters e) of
             (Inl fault, ct) \<Rightarrow> halt_run w (su_subject su) (classify_provider_error (w_rt w) fault) []
                (attempt - 1) (e\<lparr>en_counters := ct\<rparr>)
           | (Inr response, ct) \<Rightarrow>
               (case accept_response w su attempt response (e\<lparr>en_counters := ct\<rparr>) of
                  Inl out \<Rightarrow> out
                | Inr (changed, e1) \<Rightarrow>
                    (let e2 = coder_completed w su attempt request response changed e1 in
                     if repeats w su changed e2
                     then halt_run w (su_subject su) (repeat_cause (en_findings e2))
                       [(''findings'', findings_json (en_findings e2))] attempt e2
                     else verify_phase w su attempt changed e2))))"

fun attempts_loop :: "world \<Rightarrow> run_setup \<Rightarrow> nat \<Rightarrow> engine \<Rightarrow> outcome" where
  "attempts_loop w su 0 e = halt_run w (su_subject su) ''ATTEMPT_BUDGET_EXHAUSTED''
     [(''findings'', findings_json (en_findings e))] (bc_attempts (su_budget su)) e"
| "attempts_loop w su (Suc n) e =
     (case one_attempt w su (bc_attempts (su_budget su) - int n) e of
        Continue e' \<Rightarrow> attempts_loop w su n e'
      | out \<Rightarrow> out)"

section \<open>The run\<close>

definition building :: "world \<Rightarrow> run_request \<Rightarrow> string \<Rightarrow> plan \<Rightarrow> engine \<Rightarrow> outcome" where
  "building w rq subject p e = (case install w (active_template rq) p of
      (Inl err, fs) \<Rightarrow> Raised err (e\<lparr>en_files := fs\<rparr>)
    | (Inr protected_tests, fs) \<Rightarrow>
        (let e1 = e\<lparr>en_files := fs\<rparr> in
         case verify_snapshot w 0 (active_template rq) p (workspace_snapshot fs) of
           Inl err \<Rightarrow> Raised err e1
         | Inr baseline \<Rightarrow>
             (if \<not> meaningful_red p baseline
              then Raised (Contract_invalid ''baseline must fail every non-template criterion by assertion'') e1
              else attempts_loop w
                \<lparr>su_contract = rq_contract rq, su_plan = p, su_template = active_template rq,
                 su_budget = active_budget rq, su_subject = subject, su_protected = protected_tests,
                 su_quality = rq_quality rq\<rparr>
                (nat (bc_attempts (active_budget rq)))
                ((red_confirmed w subject baseline e1)\<lparr>en_findings := baseline, en_previous := []\<rparr>))))"

definition run_to_release_ready :: "world \<Rightarrow> run_request \<Rightarrow> outcome" where
  "run_to_release_ready w rq = (case preflight w rq of
      Inl err \<Rightarrow> Raised err initial_engine
    | Inr (approval, p) \<Rightarrow>
        (let subject = canonical_digest (w_rt w) (JObj (rq_contract rq));
             e = validated w rq subject approval p
               (initial_engine\<lparr>en_counters := plan_counters p initial_counters\<rparr>);
             e1 = e\<lparr>en_stops := 1\<rparr>
         in if w_stop w 0 then stop_run w subject 0 e1 else building w rq subject p e1))"

end
