(* ===== verification/Run_Protocol.thy ===== *)
theory Run_Protocol
  imports Run
begin

text \<open>
  The abstract specification of a run's evidence: an automaton over the calls on the ledger,
  and the refinement that \<^verbatim>\<open>run_to_release_ready\<close> only makes calls the automaton allows. From
  it follow the lifecycle facts: a returned result has exactly one terminal event, its last
  one; an exception leaves none; nothing is released before a red baseline, a scan and a
  verification have been recorded.
\<close>

section \<open>The automaton\<close>

datatype phase = Ph_start | Ph_valid | Ph_idle | Ph_coded | Ph_verify | Ph_checked | Ph_done run_state

fun is_done :: "phase \<Rightarrow> bool" where
  "is_done (Ph_done _) = True"
| "is_done _ = False"

text \<open>The phase an event of a type and a state leads to; the flag is \<^verbatim>\<open>enforce_quality\<close>.\<close>

inductive emits :: "bool \<Rightarrow> phase \<Rightarrow> string \<Rightarrow> run_state \<Rightarrow> phase \<Rightarrow> bool" for q where
  validated: "emits q Ph_start ''contract_validated'' VALIDATED Ph_valid"
| stopped_early: "emits q Ph_valid ''stopped'' STOPPED (Ph_done STOPPED)"
| red: "emits q Ph_valid ''meaningful_red_confirmed'' BUILDING Ph_idle"
| stopped: "emits q Ph_idle ''stopped'' STOPPED (Ph_done STOPPED)"
| halted: "emits q Ph_idle ''halted'' HALTED (Ph_done HALTED)"
| coded: "emits q Ph_idle ''coder_completed'' BUILDING Ph_coded"
| repeated: "emits q Ph_coded ''halted'' HALTED (Ph_done HALTED)"
| blocked: "emits q Ph_coded ''security_failed'' BUILDING Ph_idle"
| verifying: "emits q Ph_coded ''verification_started'' VERIFYING Ph_verify"
| checked: "q \<Longrightarrow> emits q Ph_verify ''generated_quality_checked'' VERIFYING Ph_checked"
| failed: "ph = (if q then Ph_checked else Ph_verify) \<Longrightarrow> emits q ph ''verification_failed'' BUILDING Ph_idle"
| released: "ph = (if q then Ph_checked else Ph_verify) \<Longrightarrow>
    emits q ph ''release_ready'' RELEASE_READY (Ph_done RELEASE_READY)"

inductive allowed :: "bool \<Rightarrow> phase \<Rightarrow> ledger_call list \<Rightarrow> phase \<Rightarrow> bool" for q where
  none: "allowed q ph [] ph"
| blob: "allowed q ph cs ph' \<Longrightarrow> \<not> is_done ph' \<Longrightarrow> allowed q ph (cs @ [Put b]) ph'"
| append: "allowed q ph cs ph' \<Longrightarrow> emits q ph' (er_type rq) st ph'' \<Longrightarrow> er_state rq = state_name st \<Longrightarrow>
    allowed q ph (cs @ [Append rq]) ph''"

inductive_cases emits_doneE: "emits q ph ty st (Ph_done s)"

lemmas emits_intros = emits.intros

definition terminal_call :: "ledger_call \<Rightarrow> bool" where
  "terminal_call c = (case c of Put _ \<Rightarrow> False | Append rq \<Rightarrow> er_state rq \<in> set terminal_states)"

lemma state_name_inject [simp]: "state_name s = state_name t \<longleftrightarrow> s = t"
  by (cases s; cases t) simp_all

lemma terminal_name: "state_name st \<in> set terminal_states \<longleftrightarrow> st \<in> {RELEASE_READY, HALTED, STOPPED}"
  by (cases st) (simp_all add: terminal_states_def)

lemma emits_terminal: "emits q ph ty st ph' \<Longrightarrow> is_done ph' \<longleftrightarrow> st \<in> {RELEASE_READY, HALTED, STOPPED}"
  by (induction rule: emits.induct) simp_all

lemma emits_done_state: "emits q ph ty st (Ph_done s) \<Longrightarrow> s = st \<and> \<not> is_done ph"
  by (erule emits_doneE) (auto split: if_splits)

lemma emits_open: "emits q ph ty st ph' \<Longrightarrow> \<not> is_done ph"
  by (induction rule: emits.induct) simp_all

text \<open>What the automaton guarantees of an allowed trace.\<close>

lemma allowed_open: "allowed q ph cs ph' \<Longrightarrow> \<not> is_done ph' \<Longrightarrow> \<not> is_done ph \<Longrightarrow> list_all (Not \<circ> terminal_call) cs"
proof (induction rule: allowed.induct)
  case (append ph cs ph' rq st ph'')
  have "\<not> is_done ph'" using append.hyps(2) by (rule emits_open)
  then show ?case using append emits_terminal [OF append.hyps(2)]
    by (simp add: terminal_call_def terminal_name)
qed (simp_all add: terminal_call_def)

lemma allowed_done:
  assumes "allowed q ph cs (Ph_done s)" "\<not> is_done ph"
  obtains pre rq ph' where "cs = pre @ [Append rq]" "er_state rq = state_name s" "allowed q ph pre ph'"
    "emits q ph' (er_type rq) s (Ph_done s)" "list_all (Not \<circ> terminal_call) pre"
  using assms(1)
proof (cases rule: allowed.cases)
  case (append cs' ph' rq st)
  with emits_done_state [OF append(3)] allowed_open [OF append(2) _ assms(2)] that show ?thesis by auto
qed (use assms(2) in auto)

section \<open>The run refines the automaton\<close>

definition reached :: "bool \<Rightarrow> engine \<Rightarrow> phase \<Rightarrow> bool" where
  "reached q e ph \<longleftrightarrow> allowed q Ph_start (en_trace e) ph"

definition refines :: "bool \<Rightarrow> outcome \<Rightarrow> bool" where
  "refines q out = (case out of
      Raised _ e \<Rightarrow> (\<exists>ph. reached q e ph \<and> \<not> is_done ph)
    | Finished r e \<Rightarrow> reached q e (Ph_done (rr_state r))
    | Continue e \<Rightarrow> reached q e Ph_idle)"

lemma en_trace_call [simp]:
  "en_trace (record_call c e) = en_trace e @ [c]" "en_files (record_call c e) = en_files e"
  "en_counters (record_call c e) = en_counters e" "en_findings (record_call c e) = en_findings e"
  "en_previous (record_call c e) = en_previous e" "en_stops (record_call c e) = en_stops e"
  by (simp_all add: record_call_def)

lemma reached_cong: "en_trace e = en_trace e' \<Longrightarrow> reached q e ph = reached q e' ph"
  by (simp add: reached_def)

lemma reached_update [simp]:
  "reached q (e\<lparr>en_files := fs\<rparr>) = reached q e" "reached q (e\<lparr>en_counters := ct\<rparr>) = reached q e"
  "reached q (e\<lparr>en_findings := f\<rparr>) = reached q e" "reached q (e\<lparr>en_previous := d\<rparr>) = reached q e"
  "reached q (e\<lparr>en_stops := n\<rparr>) = reached q e"
  by (simp_all add: reached_def fun_eq_iff)

lemma reached_put: "reached q e ph \<Longrightarrow> \<not> is_done ph \<Longrightarrow> reached q (put b e) ph"
  by (simp add: reached_def put_def allowed.blob)

lemma reached_puts: "reached q e ph \<Longrightarrow> \<not> is_done ph \<Longrightarrow> reached q (fold put bs e) ph"
  by (induction bs arbitrary: e) (simp_all add: reached_put)

lemma reached_event: "reached q e ph \<Longrightarrow> emits q ph ty st ph' \<Longrightarrow> reached q (event su ty st bl pl e) ph'"
  by (simp add: reached_def event_def allowed.append)

lemma refines_stop: "reached q e Ph_valid \<or> reached q e Ph_idle \<Longrightarrow> refines q (stop_run w su n e)"
  by (auto simp: refines_def stop_run_def finish_def intro: reached_event emits_intros)

lemma refines_halt: "reached q e Ph_idle \<or> reached q e Ph_coded \<Longrightarrow> refines q (halt_run w su c x n e)"
  by (auto simp: refines_def halt_run_def finish_def intro: reached_event emits_intros)

lemma refines_raised: "reached q e ph \<Longrightarrow> \<not> is_done ph \<Longrightarrow> refines q (Raised err e)"
  by (auto simp: refines_def)

lemma reached_report:
  "reached q e ph \<Longrightarrow> \<not> is_done ph \<Longrightarrow> emits q ph ty BUILDING Ph_idle \<Longrightarrow>
     refines q (Continue (report_findings w su n ty f e))"
  by (auto simp: refines_def report_findings_def Let_def intro!: reached_put elim!: reached_event [rotated])

lemma accept_refines:
  assumes "reached q e Ph_idle"
  shows "case accept_response w su n response e of
      Inl out \<Rightarrow> refines q out | Inr (changed, e') \<Rightarrow> reached q e' Ph_idle"
  using assms by (auto simp: accept_response_def halt_invalid_def refines_halt refines_raised
      split: json.split sum.split file_error.split prod.split)

lemma coder_reached: "reached q e Ph_idle \<Longrightarrow> reached q (coder_completed w su n rq rs ch e) Ph_coded"
  by (auto simp: coder_completed_def Let_def intro!: reached_event [OF reached_put [OF reached_put]] emits_intros)

lemma quality_reached:
  assumes "reached q e Ph_verify" "su_quality su = q" "check_quality w su n snap e = (ql, qf, e')"
  shows "reached q e' (if q then Ph_checked else Ph_verify)"
  using assms by (auto simp: check_quality_def Let_def intro!: reached_event [OF reached_put] emits_intros
      split: if_splits prod.splits)

lemma release_refines:
  assumes "reached q e (if q then Ph_checked else Ph_verify)"
  shows "refines q (release w su n snap sec ql e)"
proof -
  define ph where "ph = (if q then Ph_checked else Ph_verify)"
  have "\<not> is_done ph" by (simp add: ph_def)
  then have e1: "reached q (put m (fold put bs (put b e))) ph" for m bs b
    using assms unfolding ph_def [symmetric] by (intro reached_put reached_puts)
  show ?thesis
    by (auto simp: release_def Let_def refines_def finish_def e1 split: prod.split
        intro!: reached_event [OF _ released [OF ph_def]])
qed

lemma verify_refines:
  assumes "reached q e Ph_coded" "su_quality su = q"
  shows "refines q (verify_phase w su n changed e)"
proof -
  let ?snap = "workspace_snapshot (en_files e)"
  let ?e1 = "event (su_subject su) ''verification_started'' VERIFYING []
               [(''attempt'', JInt n), (''changed'', strs_json changed)] e"
  obtain ql qf e2 where cq: "check_quality w su n ?snap ?e1 = (ql, qf, e2)" by (metis prod_cases3)
  have "reached q ?e1 Ph_verify" by (rule reached_event [OF assms(1) verifying])
  then have e2: "reached q e2 (if q then Ph_checked else Ph_verify)"
    by (rule quality_reached [OF _ assms(2) cq])
  show ?thesis
    using reached_report [OF assms(1) _ blocked] reached_report [OF e2 _ failed [OF refl]]
      release_refines [OF e2] refines_raised [OF e2]
    by (auto simp: verify_phase_def Let_def cq split: sum.split)
qed

text \<open>The ways an attempt goes on, for every proof about attempts.\<close>

lemma one_attempt_cases:
  fixes w su n and e :: engine
  defines "e1 \<equiv> e\<lparr>en_stops := Suc (en_stops e)\<rparr>"
  obtains (stop) "one_attempt w su n e = stop_run w (su_subject su) (n - 1) e1"
  | (unreadable) err where "one_attempt w su n e = Raised err e1"
  | (provider) request fault ct where
      "invoke_bound w ''code'' request (su_budget su) (en_counters e) = (Inl fault, ct)"
      "one_attempt w su n e = halt_run w (su_subject su) (classify_provider_error (w_rt w) fault) [] (n - 1)
         (e1\<lparr>en_counters := ct\<rparr>)"
  | (rejected) request response ct out where
      "invoke_bound w ''code'' request (su_budget su) (en_counters e) = (Inr response, ct)"
      "accept_response w su n response (e1\<lparr>en_counters := ct\<rparr>) = Inl out" "one_attempt w su n e = out"
  | (repeated) request response ct changed e2 e3 where
      "invoke_bound w ''code'' request (su_budget su) (en_counters e) = (Inr response, ct)"
      "accept_response w su n response (e1\<lparr>en_counters := ct\<rparr>) = Inr (changed, e2)"
      "e3 = coder_completed w su n request response changed e2" "repeats w su changed e3"
      "one_attempt w su n e = halt_run w (su_subject su) (repeat_cause (en_findings e3))
         [(''findings'', findings_json (en_findings e3))] n e3"
  | (verify) request response ct changed e2 where
      "invoke_bound w ''code'' request (su_budget su) (en_counters e) = (Inr response, ct)"
      "accept_response w su n response (e1\<lparr>en_counters := ct\<rparr>) = Inr (changed, e2)"
      "one_attempt w su n e = verify_phase w su n changed (coder_completed w su n request response changed e2)"
proof (cases "w_stop w (en_stops e)")
  case True
  then show ?thesis by (intro stop) (simp add: one_attempt_def e1_def)
next
  case go: False
  show ?thesis
  proof (cases "model_request w (su_contract su) (su_plan su) (en_files e) (en_findings e) (su_quality su)")
    case (Inl err)
    with go show ?thesis by (intro unreadable) (simp add: one_attempt_def e1_def)
  next
    case rq: (Inr request)
    obtain r ct where inv: "invoke_bound w ''code'' request (su_budget su) (en_counters e) = (r, ct)"
      by fastforce
    show ?thesis
    proof (cases r)
      case (Inl fault)
      with go rq inv show ?thesis by (intro provider) (simp_all add: one_attempt_def e1_def)
    next
      case r: (Inr response)
      show ?thesis
      proof (cases "accept_response w su n response (e1\<lparr>en_counters := ct\<rparr>)")
        case (Inl out)
        with go rq inv r show ?thesis by (intro rejected) (simp_all add: one_attempt_def e1_def)
      next
        case (Inr c)
        obtain changed e2 where c: "c = (changed, e2)" by (cases c)
        show ?thesis
        proof (cases "repeats w su changed (coder_completed w su n request response changed e2)")
          case True
          with go rq inv r Inr c show ?thesis
            by (intro repeated [OF _ _ refl]) (simp_all add: one_attempt_def e1_def Let_def)
        next
          case False
          with go rq inv r Inr c show ?thesis
            by (intro verify) (simp_all add: one_attempt_def e1_def Let_def)
        qed
      qed
    qed
  qed
qed

lemma attempt_refines:
  assumes "reached q e Ph_idle" "su_quality su = q"
  shows "refines q (one_attempt w su n e)"
proof -
  have acc: "case accept_response w su n rs (e\<lparr>en_stops := k, en_counters := ct\<rparr>) of
      Inl out \<Rightarrow> refines q out | Inr (changed, e') \<Rightarrow> reached q e' Ph_idle" for rs ct k
    by (rule accept_refines) (simp add: assms(1))
  show ?thesis
  proof (cases rule: one_attempt_cases [where w = w and su = su and n = n and e = e])
    case (rejected request response ct out)
    then show ?thesis using acc [of response ct "Suc (en_stops e)"] by simp
  next
    case (repeated request response ct changed e2 e3)
    then show ?thesis using acc [of response ct "Suc (en_stops e)"]
        by (simp add: refines_halt coder_reached)
  next
    case (verify request response ct changed e2)
    then show ?thesis using acc [of response ct "Suc (en_stops e)"]
      by (simp add: verify_refines [OF coder_reached assms(2)])
  qed (simp_all add: refines_stop refines_raised [where ph = Ph_idle] refines_halt assms(1))
qed

text \<open>A run does not end in the middle of its attempts.\<close>

definition ends :: "bool \<Rightarrow> outcome \<Rightarrow> bool" where
  "ends q out \<longleftrightarrow> refines q out \<and> (\<forall>e. out \<noteq> Continue e)"

lemma ends_simps [simp]:
  "ends q (Raised err e) = refines q (Raised err e)" "ends q (Finished r e) = refines q (Finished r e)"
  "\<not> ends q (Continue e)"
  "ends q (halt_run w su c x n e) = refines q (halt_run w su c x n e)"
  "ends q (stop_run w su n e) = refines q (stop_run w su n e)"
  by (simp_all add: ends_def halt_run_def stop_run_def finish_def)

lemma loop_ends:
  assumes "reached q e Ph_idle" "su_quality su = q"
  shows "ends q (attempts_loop w su n e)"
  using assms(1)
proof (induction n arbitrary: e)
  case (Suc n)
  have "refines q (one_attempt w su (bc_attempts (su_budget su) - int n) e)"
    using Suc.prems assms(2) by (rule attempt_refines)
  moreover have "refines q (Continue e') \<Longrightarrow> reached q e' Ph_idle" for e' by (simp add: refines_def)
  ultimately show ?case using Suc.IH
    by (cases "one_attempt w su (bc_attempts (su_budget su) - int n) e") simp_all
qed (simp add: refines_halt)

lemma building_ends:
  assumes "reached (rq_quality rq) e Ph_valid"
  shows "ends (rq_quality rq) (building w rq subject p e)"
proof -
  have "reached (rq_quality rq) (red_confirmed w subject b (e\<lparr>en_files := fs\<rparr>)) Ph_idle" for b fs
    unfolding red_confirmed_def Let_def
    by (rule reached_event [OF reached_put red]) (simp_all add: assms)
  then show ?thesis
    using assms by (auto simp: building_def Let_def refines_raised split: sum.split prod.split intro!: loop_ends)
qed

lemma run_ends: "ends (rq_quality rq) (run_to_release_ready w rq)"
proof -
  have init: "reached q (initial_engine\<lparr>en_counters := ct\<rparr>) Ph_start" "reached q initial_engine Ph_start" for q ct
    by (simp_all add: reached_def initial_engine_def allowed.none)
  have valid: "reached (rq_quality rq) (validated w rq s a p (initial_engine\<lparr>en_counters := ct\<rparr>)) Ph_valid" for s a p ct
    unfolding validated_def Let_def by (intro reached_event [OF _ emits.validated] reached_puts init) simp
  show ?thesis
    by (auto simp: run_to_release_ready_def Let_def valid refines_raised [OF init(2)] refines_stop
        split: sum.split intro!: building_ends)
qed

section \<open>Properties\<close>

text \<open>
  C2. A run refines the evidence automaton: the calls it makes on the ledger, in their
  order, are a path of the automaton, to the terminal phase of the state it returns when it
  returns and to a phase that is not terminal when an exception leaves it; and the run always
  ends in one of the two.
\<close>

theorem run_refines_protocol:
  "case run_to_release_ready w rq of
     Finished r e \<Rightarrow> allowed (rq_quality rq) Ph_start (en_trace e) (Ph_done (rr_state r))
   | Raised err e \<Rightarrow> (\<exists>ph. allowed (rq_quality rq) Ph_start (en_trace e) ph \<and> \<not> is_done ph)
   | Continue e \<Rightarrow> False"
  using run_ends [of rq w]
  by (simp add: ends_def refines_def reached_def split: outcome.splits)

text \<open>
  Terminal events: a run that returns appended exactly one event in a terminal state,
  as its last call, in the state it returns; a run left by an exception appended none.
\<close>

theorem one_terminal_event:
  "case run_to_release_ready w rq of
     Finished r e \<Rightarrow> (\<exists>request. last (en_trace e) = Append request \<and> er_state request = state_name (rr_state r)
       \<and> rr_state r \<in> {RELEASE_READY, HALTED, STOPPED} \<and> filter terminal_call (en_trace e) = [Append request])
   | Raised err e \<Rightarrow> filter terminal_call (en_trace e) = []
   | Continue e \<Rightarrow> False"
proof (cases "run_to_release_ready w rq")
  case (Raised err e)
  then obtain ph where "allowed (rq_quality rq) Ph_start (en_trace e) ph" "\<not> is_done ph"
    using run_ends [of rq w] by (auto simp: refines_def reached_def)
  from allowed_open [OF this] Raised show ?thesis by (simp add: list_all_iff filter_empty_conv)
next
  case (Finished r e)
  then have "allowed (rq_quality rq) Ph_start (en_trace e) (Ph_done (rr_state r))"
    using run_ends [of rq w] by (simp add: refines_def reached_def)
  then obtain pre request ph where p: "en_trace e = pre @ [Append request]"
    "er_state request = state_name (rr_state r)"
    "emits (rq_quality rq) ph (er_type request) (rr_state r) (Ph_done (rr_state r))"
    "list_all (Not \<circ> terminal_call) pre"
    by (rule allowed_done) simp
  then have "rr_state r \<in> {RELEASE_READY, HALTED, STOPPED}" using emits_terminal [OF p(3)] by simp
  with p Finished show ?thesis
    by (auto simp: terminal_call_def terminal_name list_all_iff filter_empty_conv)
qed (use run_ends [of rq w] in simp)

end
