(* ===== verification/Run_Safety.thy ===== *)
theory Run_Safety
  imports Run_Protocol
begin

text \<open>
  What a run guarantees of its candidate: the protected tests stay as installed, the budgets
  hold, and RELEASE_READY means that the sealed snapshot passed the security scan, the quality
  check where it is enforced, and every criterion of the compiled plan.
\<close>

section \<open>Frames\<close>

fun engine_of :: "outcome \<Rightarrow> engine" where
  "engine_of (Raised _ e) = e"
| "engine_of (Finished _ e) = e"
| "engine_of (Continue e) = e"

lemma put_frame [simp]:
  "en_files (put b e) = en_files e" "en_counters (put b e) = en_counters e"
  "en_findings (put b e) = en_findings e" "en_previous (put b e) = en_previous e"
  "en_trace (put b e) = en_trace e @ [Put b]"
  by (simp_all add: put_def)

lemma puts_frame [simp]:
  "en_files (fold put bs e) = en_files e" "en_counters (fold put bs e) = en_counters e"
  "en_findings (fold put bs e) = en_findings e" "en_previous (fold put bs e) = en_previous e"
  "en_trace (fold put bs e) = en_trace e @ map Put bs"
  by (induction bs arbitrary: e) simp_all

lemma event_frame [simp]:
  "en_files (event s ty st bl pl e) = en_files e" "en_counters (event s ty st bl pl e) = en_counters e"
  "en_findings (event s ty st bl pl e) = en_findings e" "en_previous (event s ty st bl pl e) = en_previous e"
  "en_trace (event s ty st bl pl e) = en_trace e @
     [Append \<lparr>er_type = ty, er_state = state_name st, er_subject = s, er_blobs = bl, er_payload = pl\<rparr>]"
  by (simp_all add: event_def)

lemma engine_of_end [simp]:
  "en_files (engine_of (halt_run w s c x n e)) = en_files e"
  "en_files (engine_of (stop_run w s n e)) = en_files e"
  "en_counters (engine_of (halt_run w s c x n e)) = en_counters e"
  "en_counters (engine_of (stop_run w s n e)) = en_counters e"
  by (simp_all add: halt_run_def stop_run_def finish_def)

lemma coder_frame [simp]:
  "en_files (coder_completed w su n rq rs ch e) = en_files e"
  "en_counters (coder_completed w su n rq rs ch e) = en_counters e"
  "en_findings (coder_completed w su n rq rs ch e) = en_findings e"
  "en_previous (coder_completed w su n rq rs ch e) = en_previous e"
  by (simp_all add: coder_completed_def Let_def)

lemma report_frame [simp]:
  "en_files (report_findings w su n ty f e) = en_files e"
  "en_counters (report_findings w su n ty f e) = en_counters e"
  "en_findings (report_findings w su n ty f e) = f"
  "en_previous (report_findings w su n ty f e) = finding_digest w f"
  by (simp_all add: report_findings_def Let_def)

lemma quality_frame:
  "check_quality w su n snap e = (ql, qf, e') \<Longrightarrow> en_files e' = en_files e \<and> en_counters e' = en_counters e"
  by (auto simp: check_quality_def Let_def split: if_splits prod.splits)

lemma release_frame [simp]: "en_files (engine_of (release w su n snap sec ql e)) = en_files e"
  by (simp add: release_def Let_def finish_def split: prod.split)

text \<open>Verification works on copies: the workspace is what the coder left.\<close>

lemma verify_frame [simp]: "en_files (engine_of (verify_phase w su n ch e)) = en_files e"
proof -
  let ?e1 = "event (su_subject su) ''verification_started'' VERIFYING []
               [(''attempt'', JInt n), (''changed'', strs_json ch)] e"
  obtain ql qf e2 where cq: "check_quality w su n (workspace_snapshot (en_files e)) ?e1 = (ql, qf, e2)"
    by (metis prod_cases3)
  show ?thesis using quality_frame [OF cq] by (simp add: verify_phase_def Let_def cq split: sum.split)
qed

section \<open>Protected files\<close>

lemma safe_paths_Inr: "safe_paths ps = Inr qs \<Longrightarrow> qs = ps \<and> list_all (\<lambda>p. safe_relative p \<and> \<not> dotted p) ps"
  by (induction ps arbitrary: qs) (auto simp: safe_path_def split: if_splits)

definition kept :: "run_setup \<Rightarrow> files \<Rightarrow> files \<Rightarrow> bool" where
  "kept su fs fs' \<longleftrightarrow> (\<forall>p \<in> set (su_protected su). map_of fs' p = map_of fs p)"

lemma kept_refl [simp]: "kept su fs fs"
  by (simp add: kept_def)

lemma kept_trans: "kept su fs fs' \<Longrightarrow> kept su fs' fs'' \<Longrightarrow> kept su fs fs''"
  by (simp add: kept_def)

lemma accept_keeps:
  "case accept_response w su n response e of
     Inl out \<Rightarrow> kept su (en_files e) (en_files (engine_of out))
   | Inr (changed, e') \<Rightarrow> kept su (en_files e) (en_files e')"
proof (cases "dget response ''files''")
  case (JObj files)
  show ?thesis
  proof (cases "safe_paths (map fst files)")
    case (Inr paths)
    then have p: "paths = map fst files" using safe_paths_Inr by blast
    obtain r fs where wr: "write_files (en_files e) files = (r, fs)" by fastforce
    have "kept su (en_files e) fs" if "\<not> list_ex (\<lambda>p. p \<in> set (su_protected su)) paths"
      unfolding kept_def
    proof
      fix q assume "q \<in> set (su_protected su)"
      then have "q \<notin> set (map fst files)" using that by (auto simp: list_ex_iff p)
      then show "map_of fs q = map_of (en_files e) q" by (rule write_files_frame [OF wr])
    qed
    then show ?thesis
      by (auto simp: accept_response_def JObj Inr wr halt_invalid_def
          split: sum.split file_error.split)
  qed (simp add: accept_response_def JObj halt_invalid_def)
qed (simp_all add: accept_response_def halt_invalid_def)

lemma attempt_keeps: "kept su (en_files e) (en_files (engine_of (one_attempt w su n e)))"
proof -
  have acc: "case accept_response w su n rs (e\<lparr>en_stops := k, en_counters := ct\<rparr>) of
      Inl out \<Rightarrow> kept su (en_files e) (en_files (engine_of out))
    | Inr (changed, e') \<Rightarrow> kept su (en_files e) (en_files e')" for rs ct k
    using accept_keeps [where w = w and su = su and n = n and response = rs and e = "e\<lparr>en_stops := k, en_counters := ct\<rparr>"]
    by (simp cong: sum.case_cong prod.case_cong)
  show ?thesis
  proof (cases rule: one_attempt_cases [where w = w and su = su and n = n and e = e])
    case (rejected request response ct out)
    then show ?thesis using acc [of response ct "Suc (en_stops e)"] by simp
  next
    case (repeated request response ct changed e2 e3)
    then show ?thesis using acc [of response ct "Suc (en_stops e)"] by simp
  next
    case (verify request response ct changed e2)
    then show ?thesis using acc [of response ct "Suc (en_stops e)"] by simp
  qed simp_all
qed

lemma loop_keeps: "kept su (en_files e) (en_files (engine_of (attempts_loop w su n e)))"
proof (induction n arbitrary: e)
  case (Suc n)
  have a: "kept su (en_files e) (en_files (engine_of (one_attempt w su (bc_attempts (su_budget su) - int n) e)))"
    by (rule attempt_keeps)
  show ?case
  proof (cases "one_attempt w su (bc_attempts (su_budget su) - int n) e")
    case (Continue e')
    with a have "kept su (en_files e) (en_files e')" by simp
    from kept_trans [OF this Suc.IH] Continue show ?thesis by simp
  qed (use a in simp_all)
qed simp

section \<open>Provider calls and budgets\<close>

lemma note_model_frame [simp]:
  "ct_calls (note_model m ct) = ct_calls ct" "ct_bytes (note_model m ct) = ct_bytes ct"
  by (simp_all add: note_model_def split: json.split)

lemma count_usage_frame:
  "count_usage rt u ct = (r, ct') \<Longrightarrow> ct_calls ct' = ct_calls ct \<and> ct_bytes ct' = ct_bytes ct"
  by (auto simp: count_usage_def Let_def split: json.splits option.splits)

lemma invoke_calls:
  assumes "invoke_bound w purpose request budget ct = (r, ct')"
  shows "ct_calls ct' \<le> max (ct_calls ct) (bc_calls budget) \<and> ct_calls ct \<le> ct_calls ct'
    \<and> ct_calls ct' \<le> ct_calls ct + 1"
  using assms
  by (auto simp: invoke_bound_def Let_def split: if_splits provider_reply.splits prod.splits sum.splits
      dest: count_usage_frame)

definition calls_ok :: "budget_caps \<Rightarrow> engine \<Rightarrow> engine \<Rightarrow> int \<Rightarrow> bool" where
  "calls_ok b e e' k \<longleftrightarrow> ct_calls (en_counters e') \<le> max (ct_calls (en_counters e)) (bc_calls b)
     \<and> ct_calls (en_counters e') \<le> ct_calls (en_counters e) + k"

lemma advisory_calls:
  "advisory w su request ct = (a, ct') \<Longrightarrow>
     ct_calls ct' \<le> max (ct_calls ct) (bc_calls (su_budget su)) \<and> ct_calls ct' \<le> ct_calls ct + 1"
  by (auto simp: advisory_def split: prod.splits sum.splits dest: invoke_calls)

text \<open>What a release records: evidence, every file, the manifest, then the event that names them.\<close>

lemma release_Finished:
  obtains r e' rq where "release w su n snap sec ql e = Finished r e'" "calls_ok (su_budget su) e e' 1"
    "rr_state r = RELEASE_READY" "rr_attempts r = n" "en_files e' = en_files e"
    "en_trace e' = en_trace e @ Put (w_dumps_spaced w (release_evidence n sec ql))
        # map Put (map snd (manifest_entries snap)) @ [Put (candidate_manifest w snap), Append rq]"
    "er_type rq = ''release_ready''" "er_subject rq = su_subject su"
    "er_blobs rq = [blob_of w (w_dumps_spaced w (release_evidence n sec ql)), blob_of w (candidate_manifest w snap)]
        @ candidate_blobs w snap"
    "map_of (er_payload rq) ''candidate_digest'' = Some (JStr (blob_of w (candidate_manifest w snap)))"
    "map_of (er_payload rq) ''quality'' = Some (JObj ql)"
proof -
  obtain a ct where adv: "advisory w su (review_request w su snap
      (blob_of w (w_dumps_spaced w (release_evidence n sec ql))) ql) (en_counters e) = (a, ct)" by fastforce
  define e2 where "e2 = (fold put ([w_dumps_spaced w (release_evidence n sec ql)] @ map snd (manifest_entries snap)
      @ [candidate_manifest w snap]) e)\<lparr>en_counters := ct, en_findings := []\<rparr>"
  define rq where "rq = \<lparr>er_type = ''release_ready'', er_state = state_name RELEASE_READY, er_subject = su_subject su,
     er_blobs = [blob_of w (w_dumps_spaced w (release_evidence n sec ql)), blob_of w (candidate_manifest w snap)]
        @ candidate_blobs w snap,
     er_payload = [(''annotation'', JObj a), (''candidate_digest'', JStr (blob_of w (candidate_manifest w snap))),
             (''telemetry'', telemetry w e2), (''quality'', JObj ql)]
            @ (case provider_behavior_payload (w_rt w) ''advisory_review'' a of None \<Rightarrow> []
               | Some b \<Rightarrow> [(''provider_behavior'', b)])\<rparr>"
  have "release w su n snap sec ql e = Finished \<lparr>rr_state = RELEASE_READY, rr_cause = ''PASS'', rr_attempts = n,
     rr_calls = ct_calls ct, rr_annotation = a\<rparr> (record_call (Append rq) e2)"
    by (simp add: release_def Let_def finish_def adv event_def rq_def e2_def)
  then show ?thesis
    by (rule that [of _ _ rq])
      (use advisory_calls [OF adv] in \<open>simp_all add: calls_ok_def e2_def rq_def\<close>)
qed

text \<open>Only a releasing attempt makes a second call.\<close>

lemma verify_calls:
  "calls_ok (su_budget su) e (engine_of (verify_phase w su n ch e))
     (case verify_phase w su n ch e of Continue _ \<Rightarrow> 0 | _ \<Rightarrow> 1)"
proof -
  let ?e1 = "event (su_subject su) ''verification_started'' VERIFYING []
               [(''attempt'', JInt n), (''changed'', strs_json ch)] e"
  obtain ql qf e2 where cq: "check_quality w su n (workspace_snapshot (en_files e)) ?e1 = (ql, qf, e2)"
    by (metis prod_cases3)
  obtain r e' where rel: "release w su n (workspace_snapshot (en_files e))
      (security_findings (w_rt w) (en_files e)) ql e2 = Finished r e'" "calls_ok (su_budget su) e2 e' 1"
    by (rule release_Finished)
  show ?thesis using quality_frame [OF cq] rel(2)
    by (auto simp: verify_phase_def Let_def cq calls_ok_def rel(1) split: sum.split)
qed

lemma accept_counters:
  "case accept_response w su n response e of
     Inl out \<Rightarrow> en_counters (engine_of out) = en_counters e \<and> (\<forall>e'. out \<noteq> Continue e')
   | Inr (changed, e') \<Rightarrow> en_counters e' = en_counters e \<and> en_findings e' = en_findings e
       \<and> en_previous e' = en_previous e \<and> en_trace e' = en_trace e"
  by (auto simp: accept_response_def halt_invalid_def halt_run_def finish_def
      split: json.split sum.split prod.split file_error.split)

lemma attempt_calls:
  "calls_ok (su_budget su) e (engine_of (one_attempt w su n e))
     (case one_attempt w su n e of Continue _ \<Rightarrow> 1 | _ \<Rightarrow> 2)"
proof (cases rule: one_attempt_cases [where w = w and su = su and n = n and e = e])
  case (rejected request response ct out)
  then show ?thesis
    using invoke_calls [OF rejected(1)]
      accept_counters [where w = w and su = su and n = n and response = response
        and e = "e\<lparr>en_stops := Suc (en_stops e), en_counters := ct\<rparr>"]
    by (auto simp: calls_ok_def split: outcome.split)
next
  case (repeated request response ct changed e2 e3)
  then show ?thesis
    using invoke_calls [OF repeated(1)]
      accept_counters [where w = w and su = su and n = n and response = response
        and e = "e\<lparr>en_stops := Suc (en_stops e), en_counters := ct\<rparr>"]
    by (auto simp: calls_ok_def halt_run_def finish_def)
next
  case (verify request response ct changed e2)
  let ?e3 = "coder_completed w su n request response changed e2"
  have "ct_calls (en_counters ?e3) = ct_calls ct"
    using verify(2) accept_counters [where w = w and su = su and n = n and response = response
        and e = "e\<lparr>en_stops := Suc (en_stops e), en_counters := ct\<rparr>"] by simp
  then show ?thesis
    using verify(3) invoke_calls [OF verify(1)]
      verify_calls [where w = w and su = su and n = n and ch = changed and e = ?e3]
    by (auto simp: calls_ok_def split: outcome.splits)
qed (auto simp: calls_ok_def stop_run_def halt_run_def finish_def dest: invoke_calls)

lemma loop_calls:
  "calls_ok (su_budget su) e (engine_of (attempts_loop w su n e)) (int n + 1)"
proof (induction n arbitrary: e)
  case (Suc n)
  let ?a = "one_attempt w su (bc_attempts (su_budget su) - int n) e"
  have a: "calls_ok (su_budget su) e (engine_of ?a) (case ?a of Continue _ \<Rightarrow> 1 | _ \<Rightarrow> 2)"
    by (rule attempt_calls)
  show ?case
  proof (cases ?a)
    case (Continue e')
    with a Suc.IH [of e'] show ?thesis by (auto simp: calls_ok_def)
  qed (use a in \<open>auto simp: calls_ok_def\<close>)
qed (simp add: calls_ok_def)

text \<open>The attempts a result reports.\<close>

lemma verify_attempts: "verify_phase w su n ch e = Finished r e' \<Longrightarrow> rr_attempts r = n"
  by (auto simp: verify_phase_def release_def finish_def Let_def split: prod.splits sum.splits if_splits)

lemma accept_attempts: "accept_response w su n rs e = Inl (Finished r e') \<Longrightarrow> rr_attempts r = n"
  by (auto simp: accept_response_def halt_invalid_def halt_run_def finish_def
      split: json.splits sum.splits prod.splits file_error.splits if_splits)

lemma attempt_attempts: "one_attempt w su n e = Finished r e' \<Longrightarrow> rr_attempts r = n \<or> rr_attempts r = n - 1"
  by (cases rule: one_attempt_cases [where w = w and su = su and n = n and e = e])
    (auto simp: stop_run_def halt_run_def finish_def dest: verify_attempts accept_attempts)

lemma loop_attempts:
  "attempts_loop w su n e = Finished r e' \<Longrightarrow>
     bc_attempts (su_budget su) - int n \<le> rr_attempts r \<and> rr_attempts r \<le> bc_attempts (su_budget su)"
proof (induction n arbitrary: e)
  case (Suc n)
  then show ?case
    by (cases "one_attempt w su (bc_attempts (su_budget su) - int n) e") (fastforce dest: attempt_attempts)+
qed (auto simp: halt_run_def finish_def)

end
