(* ===== verification/Release.thy ===== *)
theory Release
  imports Run_Safety
begin

text \<open>
  The guarantees of a released run, the budgets, the protection of tests, and the failure
  modes of an attempt, as properties of \<^verbatim>\<open>run_to_release_ready\<close>.
\<close>

section \<open>What a release rests on\<close>

definition accepted :: "world \<Rightarrow> run_setup \<Rightarrow> int \<Rightarrow> files \<Rightarrow> bool" where
  "accepted w su k fs \<longleftrightarrow>
     list_all (\<lambda>f. \<not> blocking f) (security_findings (w_rt w) fs)
     \<and> (su_quality su \<longrightarrow> list_all (\<lambda>c. qc_status c = ''PASS'')
          (snd (w_quality w k (workspace_snapshot fs) (sorted_set (su_protected su)))))
     \<and> verify_snapshot w k (su_template su) (su_plan su) (workspace_snapshot fs) = Inr []"

text \<open>The release event seals the files: each one and the manifest is a blob put before it.\<close>

definition seals :: "world \<Rightarrow> files \<Rightarrow> ledger_call list \<Rightarrow> bool" where
  "seals w fs trace \<longleftrightarrow> (\<exists>pre rq. trace = pre @ [Append rq] \<and> er_type rq = ''release_ready''
     \<and> Put (candidate_manifest w (workspace_snapshot fs)) \<in> set pre
     \<and> map_of (er_payload rq) ''candidate_digest'' = Some (JStr (blob_of w (candidate_manifest w (workspace_snapshot fs))))
     \<and> blob_of w (candidate_manifest w (workspace_snapshot fs)) \<in> set (er_blobs rq)
     \<and> (\<forall>f \<in> set fs. Put (snd f) \<in> set pre \<and> blob_of w (snd f) \<in> set (er_blobs rq)))"

lemma quality_findings_Nil: "quality_findings snap checks = [] \<longleftrightarrow> list_all (\<lambda>c. qc_status c = ''PASS'') checks"
  by (auto simp: quality_findings_def filter_empty_conv list_all_iff)

lemma check_quality_passed:
  "check_quality w su n snap e = (ql, [], e') \<Longrightarrow> su_quality su \<Longrightarrow>
     list_all (\<lambda>c. qc_status c = ''PASS'') (snd (w_quality w n snap (sorted_set (su_protected su))))"
  by (auto simp: check_quality_def Let_def quality_findings_Nil split: prod.splits)

lemma verify_attempt_Nil:
  "verify_attempt w su n snap = Inr [] \<Longrightarrow> verify_snapshot w n (su_template su) (su_plan su) snap = Inr []"
  by (auto simp: verify_attempt_def split: sum.splits run_error.splits)

lemma verify_released:
  assumes "verify_phase w su n ch e = Finished r e'"
  shows "accepted w su n (en_files e') \<and> seals w (en_files e') (en_trace e') \<and> rr_attempts r = n"
proof -
  let ?snap = "workspace_snapshot (en_files e)" and ?sec = "security_findings (w_rt w) (en_files e)"
  let ?e1 = "event (su_subject su) ''verification_started'' VERIFYING []
               [(''attempt'', JInt n), (''changed'', strs_json ch)] e"
  obtain ql qf e2 where cq: "check_quality w su n ?snap ?e1 = (ql, qf, e2)" by (metis prod_cases3)
  from assms have sec: "filter blocking ?sec = []" and qf: "qf = []"
    and va: "verify_attempt w su n ?snap = Inr []" and rel: "release w su n ?snap ?sec ql e2 = Finished r e'"
    by (auto simp: verify_phase_def Let_def cq split: if_splits sum.splits)
  obtain r1 e1 rq where R: "release w su n ?snap ?sec ql e2 = Finished r1 e1" "rr_attempts r1 = n"
    "en_files e1 = en_files e2"
    "en_trace e1 = en_trace e2 @ Put (w_dumps_spaced w (release_evidence n ?sec ql))
        # map Put (map snd (manifest_entries ?snap)) @ [Put (candidate_manifest w ?snap), Append rq]"
    "er_type rq = ''release_ready''"
    "er_blobs rq = [blob_of w (w_dumps_spaced w (release_evidence n ?sec ql)), blob_of w (candidate_manifest w ?snap)]
        @ candidate_blobs w ?snap"
    "map_of (er_payload rq) ''candidate_digest'' = Some (JStr (blob_of w (candidate_manifest w ?snap)))"
    by (rule release_Finished)
  have eq: "r1 = r" "e1 = e'" using R(1) rel by auto
  have fs: "en_files e' = en_files e" using R(3) quality_frame [OF cq] eq by simp
  have "accepted w su n (en_files e')"
    using sec check_quality_passed [OF cq [unfolded qf]] verify_attempt_Nil [OF va]
    by (simp add: accepted_def fs filter_empty_conv list_all_iff)
  moreover have "seals w (en_files e') (en_trace e')"
    unfolding seals_def fs R(4) [unfolded eq(2)]
    by (rule exI [of _ "en_trace e2 @ Put (w_dumps_spaced w (release_evidence n ?sec ql))
        # map Put (map snd (manifest_entries ?snap)) @ [Put (candidate_manifest w ?snap)]"], rule exI [of _ rq])
      (auto simp: R(5-7) candidate_blobs_def manifest_entries_def workspace_snapshot_def)
  ultimately show ?thesis using R(2) eq by simp
qed

lemma accept_not_released: "accept_response w su n rs e = Inl (Finished r e') \<Longrightarrow> rr_state r = HALTED"
  by (auto simp: accept_response_def halt_invalid_def halt_run_def finish_def
      split: json.splits sum.splits prod.splits file_error.splits if_splits)

lemma attempt_released:
  assumes "one_attempt w su n e = Finished r e'" "rr_state r = RELEASE_READY"
  shows "accepted w su n (en_files e') \<and> seals w (en_files e') (en_trace e') \<and> rr_attempts r = n"
proof (cases rule: one_attempt_cases [where w = w and su = su and n = n and e = e])
  case (verify request response ct changed e2)
  with assms verify_released show ?thesis by simp
next
  case (rejected request response ct out)
  with assms show ?thesis by (auto dest: accept_not_released)
qed (use assms in \<open>auto simp: stop_run_def halt_run_def finish_def\<close>)

lemma loop_released:
  assumes "attempts_loop w su n e = Finished r e'" "rr_state r = RELEASE_READY"
  shows "\<exists>k. bc_attempts (su_budget su) - int n < k \<and> k \<le> bc_attempts (su_budget su) \<and> rr_attempts r = k
    \<and> accepted w su k (en_files e') \<and> seals w (en_files e') (en_trace e')"
  using assms
proof (induction n arbitrary: e)
  case (Suc n)
  show ?case
  proof (cases "one_attempt w su (bc_attempts (su_budget su) - int n) e")
    case (Finished r2 e2)
    with Suc.prems have eq: "r2 = r" "e2 = e'" by auto
    from attempt_released [OF Finished] Suc.prems(2) eq show ?thesis
      by (intro exI [of _ "bc_attempts (su_budget su) - int n"]) simp
  next
    case (Continue e2)
    with Suc.prems Suc.IH [of e2] show ?thesis by fastforce
  qed (use Suc.prems in simp)
qed (auto simp: halt_run_def finish_def)

text \<open>The set-up of the attempts, when a run gets that far.\<close>

definition prepared :: "world \<Rightarrow> run_request \<Rightarrow> run_setup \<Rightarrow> files \<Rightarrow> finding list \<Rightarrow> bool" where
  "prepared w rq su fs baseline \<longleftrightarrow>
     (\<exists>approval. preflight w rq = Inr (approval, su_plan su))
     \<and> install w (active_template rq) (su_plan su) = (Inr (su_protected su), fs)
     \<and> verify_snapshot w 0 (active_template rq) (su_plan su) (workspace_snapshot fs) = Inr baseline
     \<and> meaningful_red (su_plan su) baseline
     \<and> su_contract su = rq_contract rq \<and> su_template su = active_template rq \<and> su_budget su = active_budget rq
     \<and> su_subject su = canonical_digest (w_rt w) (JObj (rq_contract rq)) \<and> su_quality su = rq_quality rq"

lemma building_prepared:
  assumes "building w rq subject p e = Finished r e'"
  obtains prot fs baseline e1 where "install w (active_template rq) p = (Inr prot, fs)"
    "verify_snapshot w 0 (active_template rq) p (workspace_snapshot fs) = Inr baseline"
    "meaningful_red p baseline" "en_files e1 = fs" "en_counters e1 = en_counters e"
    "attempts_loop w \<lparr>su_contract = rq_contract rq, su_plan = p, su_template = active_template rq,
       su_budget = active_budget rq, su_subject = subject, su_protected = prot, su_quality = rq_quality rq\<rparr>
       (nat (bc_attempts (active_budget rq))) e1 = Finished r e'"
proof -
  obtain ri fs where i: "install w (active_template rq) p = (ri, fs)" by fastforce
  with assms obtain prot where prot: "ri = Inr prot" by (cases ri) (simp_all add: building_def)
  from assms i prot obtain baseline where
    v: "verify_snapshot w 0 (active_template rq) p (workspace_snapshot fs) = Inr baseline"
    by (cases "verify_snapshot w 0 (active_template rq) p (workspace_snapshot fs)") (simp_all add: building_def)
  let ?e1 = "(red_confirmed w subject baseline (e\<lparr>en_files := fs\<rparr>))\<lparr>en_findings := baseline, en_previous := []\<rparr>"
  show ?thesis
    by (rule that [of prot fs baseline ?e1])
      (use assms i prot v in \<open>auto simp: building_def Let_def red_confirmed_def split: if_splits\<close>)
qed

lemma run_cases:
  assumes "run_to_release_ready w rq = Finished r e"
  obtains (stopped) "rr_state r = STOPPED" "rr_attempts r = 0" "rr_calls r = 0"
  | (built) su fs baseline e1 where "prepared w rq su fs baseline" "en_files e1 = fs"
      "ct_calls (en_counters e1) = 0"
      "attempts_loop w su (nat (bc_attempts (active_budget rq))) e1 = Finished r e"
proof (cases "preflight w rq")
  case (Inl err)
  with assms show ?thesis by (simp add: run_to_release_ready_def)
next
  case (Inr ap)
  obtain a p where ap: "ap = (a, p)" by (cases ap)
  let ?s = "canonical_digest (w_rt w) (JObj (rq_contract rq))"
  let ?e = "(validated w rq ?s a p (initial_engine\<lparr>en_counters := plan_counters p initial_counters\<rparr>))\<lparr>en_stops := 1\<rparr>"
  have ct: "ct_calls (en_counters ?e) = 0"
    by (simp add: validated_def Let_def plan_counters_def initial_counters_def)
  show ?thesis
  proof (cases "w_stop w 0")
    case True
    with assms Inr ap ct show ?thesis
      by (intro stopped) (auto simp: run_to_release_ready_def Let_def stop_run_def finish_def)
  next
    case False
    with assms Inr ap have "building w rq ?s p ?e = Finished r e"
      by (simp add: run_to_release_ready_def Let_def)
    then show ?thesis
      by (rule building_prepared, intro built) (use Inr ap ct in \<open>auto simp: prepared_def\<close>)
  qed
qed

lemma compiled_plan:
  assumes "preflight w rq = Inr (a, p)"
  obtains env where "compile_acceptance_plan (w_rt w) env (rq_contract rq) = Inr p"
proof -
  from assms have "compile_barebones_plan w (active_template rq) (rq_contract rq) = Inr p"
    by (auto simp: preflight_def split: option.splits)
  then show ?thesis by (auto simp: compile_barebones_plan_def split: option.splits sum.splits intro: that)
qed

section \<open>What verification means\<close>

lemma changed_paths_Nil: "changed_paths snap now = [] \<longleftrightarrow> map_of snap = map_of now"
proof -
  have none: "map_of fs p = None \<longleftrightarrow> p \<notin> set (map fst fs)" for fs :: files and p
    by (simp add: map_of_eq_None_iff)
  have "changed_paths snap now = [] \<longleftrightarrow> (\<forall>p \<in> set (map fst snap) \<union> set (map fst now). p \<in> set (map fst snap)
      \<and> p \<in> set (map fst now) \<and> map_of snap p = map_of now p)"
    by (auto simp: changed_paths_def filter_empty_conv)
  also have "\<dots> \<longleftrightarrow> (\<forall>p. map_of snap p = map_of now p)"
    using none by (metis (no_types, lifting) Un_iff)
  finally show ?thesis by (simp add: fun_eq_iff)
qed

lemma verify_criterion_Nil:
  assumes "verify_criterion w k tm snap c = Inr []"
  obtains now where "criterion_findings w k tm snap c = (Inr [], now)" "map_of now = map_of snap"
proof -
  obtain r now where cf: "criterion_findings w k tm snap c = (r, now)" by fastforce
  from assms cf have "r = Inr []" "changed_paths snap now = []"
    by (auto simp: verify_criterion_def Let_def split: sum.splits run_error.splits option.splits if_splits)
  with cf that show ?thesis by (auto simp: changed_paths_Nil)
qed

lemma verify_criteria_Nil:
  "verify_criteria w k tm snap cs = Inr [] \<longleftrightarrow> list_all (\<lambda>c. verify_criterion w k tm snap c = Inr []) cs"
  by (induction cs) auto

lemma criterion_passed:
  assumes "verify_snapshot w k tm p snap = Inr []" "c \<in> set (pl_criteria p)"
  obtains now where "criterion_findings w k tm snap c = (Inr [], now)" "map_of now = map_of snap"
  using assms by (auto simp: verify_snapshot_def verify_criteria_Nil list_all_iff intro: verify_criterion_Nil)

section \<open>More on attempts\<close>

definition counted :: "outcome \<Rightarrow> bool" where
  "counted out = (case out of Finished r e \<Rightarrow> rr_calls r = ct_calls (en_counters e) | _ \<Rightarrow> True)"

lemma counted_end [simp]:
  "counted (Raised err e)" "counted (Continue e)" "counted (halt_run w s c x n e)" "counted (stop_run w s n e)"
  "counted (Finished r e) \<longleftrightarrow> rr_calls r = ct_calls (en_counters e)"
  by (simp_all add: counted_def halt_run_def stop_run_def finish_def)

lemma verify_counted [simp]: "counted (verify_phase w su n ch e)"
  by (simp add: verify_phase_def release_def finish_def Let_def split: prod.split sum.split)

lemma accept_counted: "accept_response w su n rs e = Inl out \<Longrightarrow> counted out"
  by (auto simp: accept_response_def halt_invalid_def
      split: json.splits sum.splits prod.splits file_error.splits if_splits)

lemma attempt_counted: "counted (one_attempt w su n e)"
  by (cases rule: one_attempt_cases [where w = w and su = su and n = n and e = e])
    (simp_all add: accept_counted)

lemma loop_counted: "counted (attempts_loop w su n e)"
proof (induction n arbitrary: e)
  case (Suc n)
  then show ?case using attempt_counted [of w su "bc_attempts (su_budget su) - int n" e]
    by (cases "one_attempt w su (bc_attempts (su_budget su) - int n) e") simp_all
qed simp

lemma accepted_released:
  assumes "accepted w su k (en_files e)"
  shows "\<exists>r e'. verify_phase w su k changed e = Finished r e' \<and> rr_state r = RELEASE_READY \<and> en_files e' = en_files e"
proof -
  let ?snap = "workspace_snapshot (en_files e)" and ?sec = "security_findings (w_rt w) (en_files e)"
  let ?e1 = "event (su_subject su) ''verification_started'' VERIFYING []
               [(''attempt'', JInt k), (''changed'', strs_json changed)] e"
  obtain ql qf e2 where cq: "check_quality w su k ?snap ?e1 = (ql, qf, e2)" by (metis prod_cases3)
  have "qf = []" using cq assms
    by (auto simp: check_quality_def accepted_def Let_def quality_findings_Nil split: if_splits prod.splits)
  moreover have "filter blocking ?sec = []" using assms by (auto simp: accepted_def list_all_iff filter_empty_conv)
  moreover have "verify_attempt w su k ?snap = Inr []" using assms by (simp add: accepted_def verify_attempt_def)
  moreover obtain r e' where "release w su k ?snap ?sec ql e2 = Finished r e'" "rr_state r = RELEASE_READY"
    "en_files e' = en_files e2" by (rule release_Finished)
  ultimately show ?thesis using quality_frame [OF cq] by (simp add: verify_phase_def Let_def cq)
qed

lemma verify_previous: "verify_phase w su k ch e = Continue e' \<Longrightarrow> en_previous e' = finding_digest w (en_findings e')"
  by (auto simp: verify_phase_def Let_def release_def finish_def split: if_splits prod.splits sum.splits)

lemma attempt_previous: "one_attempt w su k e = Continue e' \<Longrightarrow> en_previous e' = finding_digest w (en_findings e')"
proof (cases rule: one_attempt_cases [where w = w and su = su and n = k and e = e])
  case (rejected request response ct out)
  assume "one_attempt w su k e = Continue e'"
  with rejected show ?thesis
    using accept_counters [where w = w and su = su and n = k and response = response
      and e = "e\<lparr>en_stops := Suc (en_stops e), en_counters := ct\<rparr>"] by auto
qed (auto simp: halt_run_def stop_run_def finish_def dest: verify_previous)





section \<open>A concrete run\<close>

text \<open>One criterion, a template of one file, and a provider that answers with one file.\<close>

definition tiny_template :: template where
  "tiny_template = \<lparr>tm_version = ''v'', tm_files = [(''p.py'', ''x'')], tm_actions = [(''h'', ''p:h'')],
     tm_context = [(''on'', JBool True)], tm_proofs = [], tm_measures = []\<rparr>"

definition tiny_contract :: obj where
  "tiny_contract =
     [(''functional_requirements'', JObj [(''FR-1'', JNull)]),
      (''acceptance_criteria'', JObj [(''AC-1'', JObj
         [(''requirement_refs'', JList [JStr ''FR-1'']),
          (''given'', JList [JObj [(''path'', JStr ''on''), (''operator'', JStr ''is_true'')]]),
          (''when'', JObj [(''action'', JStr ''h'')]),
          (''then'', JList [JObj [(''path'', JStr ''result.ok''), (''operator'', JStr ''is_true'')]])])])]"

definition tiny_request :: run_request where
  "tiny_request = \<lparr>rq_contract = tiny_contract, rq_template = Some tiny_template, rq_budget = None,
     rq_receipt = None, rq_authority = None, rq_receipt_bytes = None, rq_quality = True\<rparr>"

definition tiny_runtime :: runtime where
  "tiny_runtime = (sample_runtime [])\<lparr>rt_json := (\<lambda>s. Some (JObj [(''ok'', JBool (s \<noteq> []))]))\<rparr>"

definition tiny_world :: world where
  "tiny_world = \<lparr>w_rt = tiny_runtime, w_dumps = (\<lambda>_. ''{}''), w_dumps_spaced = (\<lambda>_. ''{}''),
     w_provider = (\<lambda>n purpose request. Reply [(''request_digest'', dget request ''request_digest''),
        (''files'', JObj [(''p.py'', JStr ''y'')])]),
     w_stop = (\<lambda>_. False),
     w_sandbox = (\<lambda>rnd fs call. (Completed 0 (if rnd = 0 then [] else ''x'') [], fs)),
     w_quality = (\<lambda>rnd fs ps. ([], [\<lparr>qc_name = ''syntax'', qc_status = ''PASS'', qc_details = []\<rparr>])),
     w_missing_tools = [], w_repo = (\<lambda>_. None), w_repo_now = (\<lambda>_. None), w_overlap = False,
     w_occupied = False, w_ledger = None, w_elapsed = 0\<rparr>"

definition tiny_criterion :: criterion where
  "tiny_criterion = (bare_criterion ''AC-1'' [''FR-1''] Given_when_then)
     \<lparr>cc_given := [\<lparr>pa_path = ''on'', pa_operator = IS_TRUE, pa_value = JNull\<rparr>],
      cc_when := Some \<lparr>ac_action = ''h'', ac_arguments = []\<rparr>,
      cc_then := [\<lparr>pa_path = ''result.ok'', pa_operator = IS_TRUE, pa_value = JNull\<rparr>]\<rparr>"

definition tiny_plan :: plan where
  "tiny_plan =
     (let tasks = [\<lparr>bt_id = ''TASK-001'', bt_requirement = ''FR-1''\<rparr>];
          cd = canonical_digest tiny_runtime (JObj tiny_contract)
      in \<lparr>pl_contract = cd, pl_requirements = [''FR-1''], pl_tasks = tasks,
          pl_criteria = [tiny_criterion], pl_trusted = [],
          pl_digest = canonical_digest tiny_runtime (plan_shell cd [''FR-1''] tasks [tiny_criterion] [])\<rparr>)"

definition tiny_env :: compile_env where
  "tiny_env = \<lparr>ce_actions = [''h''], ce_version = ''v'', ce_proofs = [], ce_measures = [], ce_trusted = [],
     ce_repo = (\<lambda>_. None)\<rparr>"

lemma tiny_acceptance: "compile_acceptance_plan tiny_runtime tiny_env tiny_contract = Inr tiny_plan"
  by code_simp

lemma tiny_compiles: "compile_barebones_plan tiny_world tiny_template tiny_contract = Inr tiny_plan"
  using tiny_acceptance
  by (simp add: compile_barebones_plan_def tiny_env_def tiny_template_def tiny_world_def starts_with_def)

lemma tiny_install: "install tiny_world tiny_template tiny_plan = (Inr [], [(''p.py'', ''x'')])"
  by code_simp

lemma tiny_baseline:
  "verify_snapshot tiny_world 0 tiny_template tiny_plan [(''p.py'', ''x'')] =
     Inr [mk_finding ''ASSERTION_FAILED'' ''AC-1'' ''compiled acceptance assertion failed'' [''p.py'']]"
  by code_simp

lemma tiny_passes: "verify_snapshot tiny_world 1 tiny_template tiny_plan [(''p.py'', ''y'')] = Inr []"
  by code_simp

lemma tiny_preflight:
  "preflight tiny_world tiny_request = Inr ([(''status'', JStr ''UNVERIFIED_DIRECT_CALL'')], tiny_plan)"
  using tiny_compiles
  by (simp add: preflight_def check_approval_def tiny_request_def active_template_def)
    (simp add: tiny_world_def)

lemma tiny_red: "meaningful_red tiny_plan
    [mk_finding ''ASSERTION_FAILED'' ''AC-1'' ''compiled acceptance assertion failed'' [''p.py'']]"
  by (simp add: meaningful_red_def tiny_plan_def Let_def tiny_criterion_def bare_criterion_def mk_finding_def)

definition tiny_setup :: run_setup where
  "tiny_setup = \<lparr>su_contract = tiny_contract, su_plan = tiny_plan, su_template = tiny_template,
     su_budget = default_budget, su_subject = canonical_digest tiny_runtime (JObj tiny_contract),
     su_protected = [], su_quality = True\<rparr>"

lemma tiny_setup_simps [simp]:
  "su_contract tiny_setup = tiny_contract" "su_plan tiny_setup = tiny_plan"
  "su_template tiny_setup = tiny_template" "su_budget tiny_setup = default_budget" "su_quality tiny_setup = True"
  by (simp_all add: tiny_setup_def)

lemma tiny_accepted: "accepted tiny_world tiny_setup 1 [(''p.py'', ''y'')]"
  unfolding accepted_def using tiny_passes by (simp add: tiny_setup_def workspace_snapshot_def) code_simp

lemma tiny_no_credential: "\<not> rt_search tiny_runtime credential_pattern ''{}''"
  by code_simp

definition tiny_response :: "json \<Rightarrow> obj" where
  "tiny_response d = [(''request_digest'', d), (''files'', JObj [(''p.py'', JStr ''y'')])]"

lemma tiny_invoke:
  assumes "ct_calls ct < 8" "ct_bytes ct < 100" and "w_provider w = w_provider tiny_world"
    and "w_rt w = w_rt tiny_world" "w_dumps w = w_dumps tiny_world"
  shows "invoke_bound w purpose request default_budget ct =
    (Inr (tiny_response (dget request ''request_digest'')), ct\<lparr>ct_calls := ct_calls ct + 1, ct_bytes := ct_bytes ct + 2\<rparr>)"
  using assms tiny_no_credential
  by (simp add: invoke_bound_def default_budget_def tiny_world_def Let_def tiny_response_def dget_def
      count_usage_def note_model_def)

lemma tiny_request_text:
  "\<exists>request. model_request w tiny_contract tiny_plan [(''p.py'', ''x'')] fs q = Inr request"
  by (simp add: model_request_def request_files_def workspace_snapshot_def read_text_def)

lemma tiny_accept:
  "en_files e = [(''p.py'', ''x'')] \<Longrightarrow> accept_response w tiny_setup 1 (tiny_response d) e =
     Inr ([''p.py''], e\<lparr>en_files := [(''p.py'', ''y'')]\<rparr>)"
  by (simp add: accept_response_def tiny_response_def dget_def safe_path_def safe_relative_def safe_char_def
      dotted_def py_defs tiny_setup_def write_files_def write_one_def read_text_def)

lemma tiny_attempt:
  assumes "en_files e = [(''p.py'', ''x'')]" "en_previous e = []" "ct_calls (en_counters e) = 0"
    and "ct_bytes (en_counters e) = 0"
  shows "\<exists>r e'. one_attempt tiny_world tiny_setup 1 e = Finished r e' \<and> rr_state r = RELEASE_READY
    \<and> en_files e' = [(''p.py'', ''y'')]"
proof -
  obtain request where rq: "model_request tiny_world tiny_contract tiny_plan [(''p.py'', ''x'')] (en_findings e) True
      = Inr request" using tiny_request_text by blast
  have "en_previous e \<noteq> finding_digest tiny_world fs" for fs
    using assms(2) by (simp add: finding_digest_def canonical_digest_def sha256_digest_def)
  moreover have "\<not> w_stop tiny_world n" for n by (simp add: tiny_world_def)
  ultimately have "\<exists>e1. one_attempt tiny_world tiny_setup 1 e = verify_phase tiny_world tiny_setup 1 [''p.py''] e1
      \<and> en_files e1 = [(''p.py'', ''y'')]"
    using assms rq by (auto simp: one_attempt_def Let_def tiny_accept tiny_invoke repeats_def)
  then show ?thesis using accepted_released tiny_accepted by metis
qed

lemma tiny_run: "\<exists>r e. run_to_release_ready tiny_world tiny_request = Finished r e \<and> rr_state r = RELEASE_READY"
proof -
  define e where "e = (validated tiny_world tiny_request (su_subject tiny_setup)
      [(''status'', JStr ''UNVERIFIED_DIRECT_CALL'')] tiny_plan
      (initial_engine\<lparr>en_counters := plan_counters tiny_plan initial_counters\<rparr>))\<lparr>en_stops := 1\<rparr>"
  define baseline where
    "baseline = [mk_finding ''ASSERTION_FAILED'' ''AC-1'' ''compiled acceptance assertion failed'' [''p.py'']]"
  define e1 where "e1 = (red_confirmed tiny_world (su_subject tiny_setup) baseline (e\<lparr>en_files := [(''p.py'', ''x'')]\<rparr>))
      \<lparr>en_findings := baseline, en_previous := []\<rparr>"
  have rq: "active_template tiny_request = tiny_template" "active_budget tiny_request = default_budget"
    "rq_contract tiny_request = tiny_contract" "rq_quality tiny_request = True"
    by (simp_all add: tiny_request_def active_template_def active_budget_def)
  have w: "w_rt tiny_world = tiny_runtime" "\<not> w_stop tiny_world n" for n
    by (simp_all add: tiny_world_def)
  have "\<exists>r e'. one_attempt tiny_world tiny_setup 1 e1 = Finished r e' \<and> rr_state r = RELEASE_READY
      \<and> en_files e' = [(''p.py'', ''y'')]"
    by (rule tiny_attempt) (simp_all add: e1_def red_confirmed_def Let_def e_def validated_def plan_counters_def
        initial_counters_def)
  then obtain r e' where a: "one_attempt tiny_world tiny_setup 1 e1 = Finished r e'" "rr_state r = RELEASE_READY"
    by blast
  have "run_to_release_ready tiny_world tiny_request = building tiny_world tiny_request (su_subject tiny_setup) tiny_plan e"
    by (simp add: run_to_release_ready_def tiny_preflight Let_def w rq e_def) (simp add: tiny_setup_def)
  also have "\<dots> = attempts_loop tiny_world tiny_setup 3 e1"
    using tiny_install tiny_baseline tiny_red
    by (simp add: building_def rq Let_def e1_def baseline_def workspace_snapshot_def)
      (simp add: tiny_setup_def default_budget_def)
  also have "\<dots> = Finished r e'"
    using a(1) by (simp add: numeral_3_eq_3 default_budget_def)
  finally show ?thesis using a(2) by blast
qed

text \<open>The same world with a candidate that never passes.\<close>

definition stuck_world :: world where
  "stuck_world = tiny_world\<lparr>w_sandbox := (\<lambda>rnd fs call. (Completed 0 [] [], fs))\<rparr>"

lemma stuck_fails: "verify_snapshot stuck_world 1 tiny_template tiny_plan [(''p.py'', ''y'')] =
    Inr [mk_finding ''ASSERTION_FAILED'' ''AC-1'' ''compiled acceptance assertion failed'' [''p.py'']]"
  by code_simp

lemma stuck_attempt:
  "\<exists>e'. one_attempt stuck_world tiny_setup 1 (initial_engine\<lparr>en_files := [(''p.py'', ''x'')]\<rparr>) = Continue e'"
proof -
  let ?e = "initial_engine\<lparr>en_files := [(''p.py'', ''x'')]\<rparr>"
  obtain request where rq: "model_request stuck_world tiny_contract tiny_plan [(''p.py'', ''x'')] [] True = Inr request"
    using tiny_request_text by blast
  have "[] \<noteq> finding_digest stuck_world fs" for fs
    by (simp add: finding_digest_def canonical_digest_def sha256_digest_def)
  moreover have "\<not> w_stop stuck_world n" for n by (simp add: tiny_world_def stuck_world_def)
  moreover have "w_provider stuck_world = w_provider tiny_world" "w_rt stuck_world = w_rt tiny_world"
    "w_dumps stuck_world = w_dumps tiny_world" by (simp_all add: stuck_world_def)
  ultimately have "\<exists>e1. one_attempt stuck_world tiny_setup 1 ?e = verify_phase stuck_world tiny_setup 1 [''p.py''] e1
      \<and> en_files e1 = [(''p.py'', ''y'')]"
    using rq by (auto simp: one_attempt_def Let_def tiny_accept tiny_invoke repeats_def initial_engine_def
        initial_counters_def)
  then obtain e1 where e1: "one_attempt stuck_world tiny_setup 1 ?e = verify_phase stuck_world tiny_setup 1 [''p.py''] e1"
    "en_files e1 = [(''p.py'', ''y'')]" by blast
  obtain ql qf e2 where cq: "check_quality stuck_world tiny_setup 1 [(''p.py'', ''y'')]
      (event (su_subject tiny_setup) ''verification_started'' VERIFYING []
        [(''attempt'', JInt 1), (''changed'', strs_json [''p.py''])] e1) = (ql, qf, e2)" by (metis prod_cases3)
  have "verify_attempt stuck_world tiny_setup 1 [(''p.py'', ''y'')] =
      Inr [mk_finding ''ASSERTION_FAILED'' ''AC-1'' ''compiled acceptance assertion failed'' [''p.py'']]"
    by (simp add: verify_attempt_def stuck_fails)
  with e1(1) show ?thesis
    by (simp add: verify_phase_def Let_def e1(2) workspace_snapshot_def cq)
qed

section \<open>Properties\<close>

text \<open>
  C1. RELEASE_READY is earned. When a run returns RELEASE_READY, the contract compiled to a
  plan, the installed workspace failed exactly the criteria the template does not satisfy, and
  at some attempt within the budget the final files passed: no critical or high security
  finding, every quality check passed where quality is enforced, and every criterion of the
  plan came out without a finding and left its snapshot unchanged; and every requirement of
  the plan is among the references of such a criterion.
\<close>

theorem release_ready_verified:
  assumes "run_to_release_ready w rq = Finished r e" "rr_state r = RELEASE_READY"
  shows "\<exists>su fs baseline k. prepared w rq su fs baseline \<and> 1 \<le> k \<and> k \<le> bc_attempts (active_budget rq)
    \<and> rr_attempts r = k \<and> accepted w su k (en_files e)
    \<and> (\<forall>c \<in> set (pl_criteria (su_plan su)). \<exists>now. map_of now = map_of (workspace_snapshot (en_files e))
         \<and> criterion_findings w k (active_template rq) (workspace_snapshot (en_files e)) c = (Inr [], now))
    \<and> (\<forall>req \<in> set (pl_requirements (su_plan su)). \<exists>c \<in> set (pl_criteria (su_plan su)). req \<in> set (cc_refs c))"
  using assms(1)
proof (cases rule: run_cases)
  case (built su fs baseline e1)
  have su: "su_budget su = active_budget rq" "su_template su = active_template rq"
    using built(1) by (simp_all add: prepared_def)
  from loop_released [OF built(4) assms(2)] obtain k where
    k: "bc_attempts (active_budget rq) - int (nat (bc_attempts (active_budget rq))) < k"
      "k \<le> bc_attempts (active_budget rq)" "rr_attempts r = k" "accepted w su k (en_files e)"
    by (auto simp: su)
  have v: "verify_snapshot w k (active_template rq) (su_plan su) (workspace_snapshot (en_files e)) = Inr []"
    using k(4) su by (simp add: accepted_def)
  from built(1) obtain a where "preflight w rq = Inr (a, su_plan su)" by (auto simp: prepared_def)
  then obtain env where "compile_acceptance_plan (w_rt w) env (rq_contract rq) = Inr (su_plan su)"
    by (rule compiled_plan)
  then have "uncovered (pl_requirements (su_plan su)) (pl_criteria (su_plan su)) = []"
    by (rule compile_plan_Inr)
  then have "\<forall>req \<in> set (pl_requirements (su_plan su)). \<exists>c \<in> set (pl_criteria (su_plan su)). req \<in> set (cc_refs c)"
    by (auto simp: uncovered_Nil)
  with built(1) k show ?thesis
    by (intro exI [of _ su] exI [of _ fs] exI [of _ baseline] exI [of _ k])
      (auto elim!: criterion_passed [OF v] split: if_splits)
qed (use assms(2) in simp)

theorem release_ready_verified_witness:
  "\<exists>r e su fs baseline k. run_to_release_ready tiny_world tiny_request = Finished r e
     \<and> prepared tiny_world tiny_request su fs baseline \<and> accepted tiny_world su k (en_files e)"
proof -
  obtain r e where "run_to_release_ready tiny_world tiny_request = Finished r e" "rr_state r = RELEASE_READY"
    using tiny_run by blast
  with release_ready_verified [OF this] show ?thesis by blast
qed

text \<open>
  C28. A release seals what was verified: its last event is \<^verbatim>\<open>release_ready\<close>, every file of the
  final workspace and the manifest of their digests was put as a blob before it, and the event
  names the digests of all of them.
\<close>

theorem release_seals_candidate:
  assumes "run_to_release_ready w rq = Finished r e" "rr_state r = RELEASE_READY"
  shows "seals w (en_files e) (en_trace e)"
  using assms(1)
proof (cases rule: run_cases)
  case (built su fs baseline e1)
  then show ?thesis using loop_released [OF built(4) assms(2)] by blast
qed (use assms(2) in simp)

theorem release_seals_candidate_witness:
  "\<exists>r e. run_to_release_ready tiny_world tiny_request = Finished r e \<and> seals tiny_world (en_files e) (en_trace e)"
  using tiny_run release_seals_candidate by blast



text \<open>
  C31. Budgets: a run reports at most the attempts it was given, makes no more provider calls
  than its cap allows, and never more than one per attempt and one advisory call.
\<close>

theorem run_within_budget:
  assumes "run_to_release_ready w rq = Finished r e"
  shows "min 0 (bc_attempts (active_budget rq)) \<le> rr_attempts r
    \<and> rr_attempts r \<le> max 0 (bc_attempts (active_budget rq))
    \<and> rr_calls r \<le> max 0 (bc_calls (active_budget rq))
    \<and> rr_calls r \<le> max 0 (bc_attempts (active_budget rq)) + 1"
  using assms
proof (cases rule: run_cases)
  case stopped
  then show ?thesis by simp
next
  case (built su fs baseline e1)
  have su: "su_budget su = active_budget rq" using built(1) by (simp add: prepared_def)
  have "calls_ok (active_budget rq) e1 e (int (nat (bc_attempts (active_budget rq))) + 1)"
    using loop_calls [of su e1 w "nat (bc_attempts (active_budget rq))"] built(4) su by simp
  moreover have "rr_calls r = ct_calls (en_counters e)"
    using loop_counted [of w su "nat (bc_attempts (active_budget rq))" e1] built(4) by simp
  ultimately show ?thesis using loop_attempts [OF built(4)] built(3) su
    by (auto simp: calls_ok_def split: if_splits)
qed

theorem run_within_budget_witness:
  "\<exists>r e. run_to_release_ready tiny_world tiny_request = Finished r e \<and> rr_attempts r \<le> 3 \<and> rr_calls r \<le> 4"
proof -
  obtain r e where r: "run_to_release_ready tiny_world tiny_request = Finished r e" using tiny_run by blast
  have "active_budget tiny_request = default_budget" by (simp add: active_budget_def tiny_request_def)
  with run_within_budget [OF r] show ?thesis using r by (auto simp: default_budget_def)
qed

text \<open>
  A response counts only when it is bound: what a provider call returns echoes the digest
  of exactly the request it was given, carries no credential pattern, and keeps the number of
  calls and the bytes returned so far within their caps.
\<close>

theorem response_is_bound:
  assumes "invoke_bound w purpose (with_digest (w_rt w) body) budget ct = (Inr response, ct')"
  shows "dget response ''request_digest'' = JStr (canonical_digest (w_rt w) (JObj body))
    \<and> \<not> rt_search (w_rt w) credential_pattern (w_dumps w (JObj response))
    \<and> ct_calls ct' = ct_calls ct + 1 \<and> ct_calls ct' \<le> bc_calls budget
    \<and> ct_bytes ct' = ct_bytes ct + int (length (w_dumps w (JObj response))) \<and> ct_bytes ct' \<le> bc_bytes budget"
proof -
  have "dget (with_digest (w_rt w) body) ''request_digest'' = JStr (canonical_digest (w_rt w) (JObj body))"
    by (simp add: with_digest_def)
  with assms show ?thesis
    by (auto simp: invoke_bound_def Let_def split: if_splits provider_reply.splits prod.splits sum.splits
        dest: count_usage_frame)
qed

theorem response_is_bound_witness:
  "dget (tiny_response (JStr (canonical_digest tiny_runtime (JObj [])))) ''request_digest''
     = JStr (canonical_digest tiny_runtime (JObj []))"
proof -
  have w: "w_rt tiny_world = tiny_runtime" by (simp add: tiny_world_def)
  have d: "dget (with_digest tiny_runtime []) ''request_digest'' = JStr (canonical_digest tiny_runtime (JObj []))"
    by (simp add: with_digest_def)
  have "invoke_bound tiny_world [] (with_digest (w_rt tiny_world) []) default_budget initial_counters =
      (Inr (tiny_response (JStr (canonical_digest tiny_runtime (JObj [])))),
       initial_counters\<lparr>ct_calls := ct_calls initial_counters + 1, ct_bytes := ct_bytes initial_counters + 2\<rparr>)"
    by (subst tiny_invoke) (simp_all add: w d initial_counters_def)
  from response_is_bound [OF this] show ?thesis by (simp add: w)
qed



text \<open>
  From the second attempt on, the digest comparison of the repeat check says nothing: the
  stored digest is always that of the current findings, so an attempt is a repeat exactly when
  its change is not relevant, even if the findings are new.
\<close>

theorem repeat_check_ignores_findings:
  assumes "one_attempt w su k e = Continue e'"
  shows "repeats w su changed e' \<longleftrightarrow> \<not> relevant_change (su_plan su) (en_findings e') changed"
  using attempt_previous [OF assms] by (simp add: repeats_def)

theorem repeat_check_ignores_findings_witness:
  "\<exists>e'. one_attempt stuck_world tiny_setup 1 (initial_engine\<lparr>en_files := [(''p.py'', ''x'')]\<rparr>) = Continue e'
     \<and> (repeats stuck_world tiny_setup [] e' \<longleftrightarrow> \<not> relevant_change tiny_plan (en_findings e') [])"
  using stuck_attempt repeat_check_ignores_findings by (metis tiny_setup_simps(2))

text \<open>
  A path below an existing file escapes the error handling: the write raises an operating
  system error that the attempt does not catch, so the exception leaves the run and no halted
  event is recorded.
\<close>

theorem os_error_escapes:
  assumes "dget response ''files'' = JObj [(path, JStr content)]" "safe_relative path" "\<not> dotted path"
    and "path \<notin> set (su_protected su)" "map_of (en_files e) path = None" "below_file (en_files e) path"
  shows "\<exists>msg. accept_response w su k response e = Inl (Raised (File_error (Os_error msg)) e)"
  using assms by (simp add: accept_response_def write_files_def write_one_def safe_path_def)

theorem os_error_escapes_witness:
  "\<exists>msg. accept_response tiny_world tiny_setup 1 [(''files'', JObj [(''p.py/q'', JStr [])])]
      (initial_engine\<lparr>en_files := [(''p.py'', ''x'')]\<rparr>)
    = Inl (Raised (File_error (Os_error msg)) (initial_engine\<lparr>en_files := [(''p.py'', ''x'')]\<rparr>))"
  by (rule os_error_escapes [where path = "''p.py/q''" and content = "[]"])
    (simp_all add: py_defs safe_relative_def safe_char_def dotted_def tiny_setup_def below_file_def)

end
