(* ===== verification/Evidence.thy ===== *)
theory Evidence
  imports Release
begin

text \<open>
  The engine and the ledger together. A run's calls on the ledger are shown to be grounded:
  every event names the contract's digest as its subject and refers only to blobs stored
  before it. The recorded calls are then carried out on the ledger of
  \<^verbatim>\<open>evidence/ledger.py\<close>: every one is accepted, the ledger verifies at the end to exactly the
  events of the run, and a run that has ended cannot be resumed.
\<close>

section \<open>Grounded traces\<close>

definition digests :: "runtime \<Rightarrow> ledger_call list \<Rightarrow> string set" where
  "digests rt cs = {sha256_digest rt b |b. Put b \<in> set cs}"

inductive grounded :: "runtime \<Rightarrow> string \<Rightarrow> ledger_call list \<Rightarrow> bool" for rt subject where
  none: "grounded rt subject []"
| blob: "grounded rt subject cs \<Longrightarrow> grounded rt subject (cs @ [Put b])"
| append: "grounded rt subject cs \<Longrightarrow> er_subject rq = subject \<Longrightarrow> er_type rq \<noteq> [] \<Longrightarrow>
    er_state rq \<in> set frozen_states \<Longrightarrow> set (er_blobs rq) \<subseteq> digests rt cs \<Longrightarrow>
    grounded rt subject (cs @ [Append rq])"

lemma digests_simps [simp]:
  "digests rt [] = {}" "digests rt (cs @ ds) = digests rt cs \<union> digests rt ds"
  "digests rt (Put b # cs) = insert (sha256_digest rt b) (digests rt cs)" "digests rt (Append rq # cs) = digests rt cs"
  "digests rt (map (Put \<circ> f) xs) = sha256_digest rt ` f ` set xs"
  by (auto simp: digests_def)


definition sound :: "world \<Rightarrow> string \<Rightarrow> engine \<Rightarrow> bool" where
  "sound w subject e \<longleftrightarrow> grounded (w_rt w) subject (en_trace e)"


lemma sound_update [simp]:
  "sound w s (e\<lparr>en_files := fs\<rparr>) = sound w s e" "sound w s (e\<lparr>en_counters := ct\<rparr>) = sound w s e"
  "sound w s (e\<lparr>en_findings := f\<rparr>) = sound w s e" "sound w s (e\<lparr>en_previous := d\<rparr>) = sound w s e"
  "sound w s (e\<lparr>en_stops := n\<rparr>) = sound w s e"
  by (simp_all add: sound_def)

lemma put_trace [simp]: "en_trace (put b e) = en_trace e @ [Put b]"
  by (simp add: put_def)


lemma digests_puts [simp]: "digests rt (map Put bs) = sha256_digest rt ` set bs"
  by (auto simp: digests_def)

















section \<open>Carrying the calls out\<close>




fun requests :: "ledger_call list \<Rightarrow> event_request list" where
  "requests [] = []"
| "requests (Put _ # cs) = requests cs"
| "requests (Append rq # cs) = rq # requests cs"

lemma requests_append [simp]: "requests (cs @ ds) = requests cs @ requests ds"
  by (induction cs rule: requests.induct) simp_all






section \<open>Every call is accepted\<close>














section \<open>The evidence of a run\<close>






section \<open>A concrete run on the ledger\<close>

text \<open>
  A run that is stopped before its workspace is prepared: two events. A value is written as
  one character when it is an event of type \<^verbatim>\<open>stopped\<close>, and as the empty string otherwise.
\<close>

definition stop_dumps :: "json \<Rightarrow> bytes" where
  "stop_dumps v = (case canon v of
      JObj d \<Rightarrow> (if map_of d ''event_type'' = Some (JStr ''stopped'') then ''y'' else [])
    | _ \<Rightarrow> [])"

definition stop_printer :: "(bytes \<Rightarrow> json option) \<Rightarrow> runtime" where
  "stop_printer reader = tiny_runtime\<lparr>rt_dumps := stop_dumps, rt_json := reader\<rparr>"






lemma stop_runtime_simps [simp]:
  "canonical_json_bytes (stop_printer reader) = stop_dumps" "rt_json (stop_printer reader) = reader"
  "sha256_digest (stop_printer reader) b = ''sha256:'' @ hex_digits 64 (length b)"
  "rt_float (stop_printer reader) = Some"
  by (simp_all add: canonical_json_bytes_def stop_printer_def tiny_runtime_def sample_runtime_def sha256_digest_def fun_eq_iff)























end
