(* ===== verification/Assurance.thy ===== *)
theory Assurance
  imports Authoring "HOL-Library.Multiset"
begin

text \<open>
  Review findings and their lifecycle: \<^verbatim>\<open>src/pmpe/assurance/findings.py\<close> (the store),
  \<^verbatim>\<open>fixer_gate.py\<close>, \<^verbatim>\<open>reconcile.py\<close>, \<^verbatim>\<open>readonly_guard.py\<close>, and the product change requests of
  \<^verbatim>\<open>src/pmpe/contracts/change_request.py\<close> that reconciliation creates.

  A store is the content of its directories: documents by name, in the order they were first
  written. Reading a stored record back gives the record. The clock is an argument, and so is
  \<^verbatim>\<open>str.casefold\<close>.
\<close>

section \<open>Numbered names\<close>

definition digits_value :: "string \<Rightarrow> nat" where
  "digits_value = foldl (\<lambda>a c. a * 10 + (of_char c - 48)) 0"

text \<open>Documents numbered by a name that no two numbers share.\<close>

locale numbering =
  fixes nm :: "nat \<Rightarrow> string"
  assumes inj_nm: "inj nm"
begin

lemma fresh: "\<forall>k \<in> K. k < n \<Longrightarrow> nm n \<notin> nm ` K"
  using inj_nm by (auto dest: injD)

lemma numbered_distinct: "distinct (map nm [a..<b])"
  by (simp add: distinct_map inj_on_subset [OF inj_nm])

lemma names_snoc: "map nm [1..<Suc n] @ [nm (Suc n)] = map nm [1..<Suc (Suc n)]"
  by simp

lemma next_is_new: "nm (Suc n) \<notin> set (map nm [1..<Suc n])"
  using fresh [of "{1..<Suc n}" "Suc n"] by (simp only: set_map set_upt) auto

end

definition rf_name :: "nat \<Rightarrow> string" where
  "rf_name n = ''RF-'' @ pad3 n"

definition pcr_name :: "nat \<Rightarrow> string" where
  "pcr_name n = ''PCR-'' @ pad3 n"

lemma of_digit_char: "d < 10 \<Longrightarrow> (of_char (digit_char d) :: nat) = 48 + d"
  by (simp add: digit_char_def)

lemma foldl_zeros: "foldl (\<lambda>a c. a * 10 + (of_char c - 48)) 0 (replicate k (CHR ''0'')) = (0::nat)"
  by (induction k) simp_all

lemma digits_value_snoc: "digits_value (s @ [c]) = digits_value s * 10 + (of_char c - 48)"
  by (simp add: digits_value_def)

lemma digits_value_show [simp]: "digits_value (show_nat n) = n"
proof (induction n rule: show_nat.induct)
  case (1 n)
  show ?case
  proof (cases "n < 10")
    case True
    then show ?thesis by (simp add: show_nat.simps [of n] digits_value_def of_digit_char)
  next
    case False
    then have "digits_value (show_nat n) = digits_value (show_nat (n div 10)) * 10 + (of_char (digit_char (n mod 10)) - 48)"
      by (subst show_nat.simps) (simp add: digits_value_snoc)
    with 1 False show ?thesis by (simp add: of_digit_char)
  qed
qed

lemma digits_value_pad3 [simp]: "digits_value (pad3 n) = n"
  using digits_value_show [of n] by (simp add: pad3_def Let_def digits_value_def foldl_append foldl_zeros)

lemma pad3_inject [simp]: "pad3 m = pad3 n \<longleftrightarrow> m = n"
  by (metis digits_value_pad3)

interpretation rf: numbering rf_name
  by unfold_locales (simp add: inj_def rf_name_def)

interpretation pcr: numbering pcr_name
  by unfold_locales (simp add: inj_def pcr_name_def)

section \<open>Review findings\<close>

record review_finding =
  rf_id :: string
  rf_reviewer :: string
  rf_candidate :: string
  rf_severity :: string
  rf_blocking :: bool
  rf_file :: string
  rf_line :: int
  rf_evidence :: string
  rf_mechanism :: string
  rf_requirement :: json
  rf_direction :: string
  rf_fixable :: bool
  rf_product :: bool
  rf_title :: string
  rf_status :: string
  rf_duplicate :: "string option"
  rf_decided_by :: "string option"
  rf_reason :: string
  rf_fixed_by :: "string option"
  rf_commits :: "string list"
  rf_verified_by :: "string option"

text \<open>One constructor per \<^verbatim>\<open>raise\<close>, with what its message names.\<close>

datatype assurance_error =
    Same_candidate string string         \<comment> \<open>\<^verbatim>\<open>SameCandidateViolation\<close>: reviewer, digest\<close>
  | Not_an_integer json                  \<comment> \<open>\<^verbatim>\<open>int(raw.get("line", 0))\<close> raised\<close>
  | Not_a_decision string                \<comment> \<open>\<^verbatim>\<open>FindingTransitionError\<close> from here\<close>
  | Wrong_status string string
  | Unnamed_decision string
  | Verifier_is_fixer string
  | Unknown_finding string               \<comment> \<open>\<^verbatim>\<open>PmpeError\<close>\<close>
  | Not_accepted string string           \<comment> \<open>\<^verbatim>\<open>FixScopeViolation\<close>\<close>
  | Outside_scope "string list"

record findings_store =
  fs_reviews :: "(string \<times> string \<times> obj list) list"
  fs_findings :: "(string \<times> review_finding) list"

definition decision_targets :: "string list" where
  "decision_targets = [''ACCEPTED'', ''REJECTED'', ''DUPLICATE'', ''PRODUCT_DECISION_REQUIRED'']"

definition empty_store :: findings_store where
  "empty_store = \<lparr>fs_reviews = [], fs_findings = []\<rparr>"

text \<open>\<^verbatim>\<open>all()\<close>: the documents \<^verbatim>\<open>RF-*.json\<close> in the order of their file names.\<close>

definition all_findings :: "findings_store \<Rightarrow> review_finding list" where
  "all_findings s = map snd (sort_key (\<lambda>p. fst p @ ''.json'')
     (filter (\<lambda>p. starts_with ''RF-'' (fst p)) (fs_findings s)))"

definition save_finding :: "review_finding \<Rightarrow> findings_store \<Rightarrow> findings_store" where
  "save_finding f s = s\<lparr>fs_findings := dput (rf_id f) f (fs_findings s)\<rparr>"

definition get_finding :: "findings_store \<Rightarrow> string \<Rightarrow> assurance_error + review_finding" where
  "get_finding s i = (case map_of (fs_findings s) i of None \<Rightarrow> Inl (Unknown_finding i) | Some f \<Rightarrow> Inr f)"

text \<open>\<^verbatim>\<open>int(v)\<close>; digits may be grouped by single underscores.\<close>

fun underscored :: "string \<Rightarrow> bool" where
  "underscored [] = False"
| "underscored [c] = is_digit c"
| "underscored (c # d # s) = (is_digit c \<and> (if d = CHR ''_'' then underscored s else underscored (d # s)))"

definition int_of_string :: "string \<Rightarrow> int option" where
  "int_of_string s = (let t = strip s; neg = (take 1 t = ''-'');
       body = (if neg \<or> take 1 t = ''+'' then drop 1 t else t)
     in if underscored body
        then Some ((if neg then - 1 else 1) * int (digits_value (filter (\<lambda>c. c \<noteq> CHR ''_'') body))) else None)"

definition py_int :: "json \<Rightarrow> int option" where
  "py_int v = (case v of
      JInt n \<Rightarrow> Some n
    | JBool b \<Rightarrow> Some (if b then 1 else 0)
    | JFloat r \<Rightarrow> Some (if r < 0 then - \<lfloor>- r\<rfloor> else \<lfloor>r\<rfloor>)
    | JStr s \<Rightarrow> int_of_string s
    | _ \<Rightarrow> None)"

definition flag_at :: "obj \<Rightarrow> string \<Rightarrow> bool" where
  "flag_at d k = truthy (get_or d k (JBool False))"

definition raw_finding :: "runtime \<Rightarrow> string \<Rightarrow> string \<Rightarrow> nat \<Rightarrow> obj \<Rightarrow> assurance_error + review_finding" where
  "raw_finding rt reviewer digest number raw = (case py_int (get_or raw ''line'' (JInt 0)) of
      None \<Rightarrow> Inl (Not_an_integer (get_or raw ''line'' (JInt 0)))
    | Some line \<Rightarrow> Inr
        \<lparr>rf_id = rf_name number, rf_reviewer = reviewer, rf_candidate = digest,
         rf_severity = text_or rt raw ''severity'' ''medium'', rf_blocking = flag_at raw ''blocking'',
         rf_file = text_or rt raw ''file'' [], rf_line = line, rf_evidence = text_or rt raw ''evidence'' [],
         rf_mechanism = text_or rt raw ''failure_mechanism'' [],
         rf_requirement = dget raw ''affected_requirement'',
         rf_direction = text_or rt raw ''recommended_fix_direction'' [],
         rf_fixable = flag_at raw ''mechanically_fixable'',
         rf_product = flag_at raw ''requires_product_decision'', rf_title = text_or rt raw ''title'' [],
         rf_status = ''PROPOSED'', rf_duplicate = None, rf_decided_by = None, rf_reason = [],
         rf_fixed_by = None, rf_commits = [], rf_verified_by = None\<rparr>)"

fun intake_each ::
  "runtime \<Rightarrow> string \<Rightarrow> string \<Rightarrow> nat \<Rightarrow> obj list \<Rightarrow> findings_store
     \<Rightarrow> (assurance_error + review_finding list) \<times> findings_store" where
  "intake_each rt reviewer digest n [] s = (Inr [], s)"
| "intake_each rt reviewer digest n (raw # raws) s = (case raw_finding rt reviewer digest n raw of
      Inl e \<Rightarrow> (Inl e, s)
    | Inr f \<Rightarrow> (case intake_each rt reviewer digest (Suc n) raws (save_finding f s) of
        (Inl e, s') \<Rightarrow> (Inl e, s')
      | (Inr fs, s') \<Rightarrow> (Inr (f # fs), s')))"

definition intake ::
  "runtime \<Rightarrow> findings_store \<Rightarrow> string \<Rightarrow> string \<Rightarrow> obj list
     \<Rightarrow> (assurance_error + review_finding list) \<times> findings_store" where
  "intake rt s reviewer digest raws =
     (if list_ex (\<lambda>f. rf_candidate f \<noteq> digest) (all_findings s) then (Inl (Same_candidate reviewer digest), s)
      else let s1 = s\<lparr>fs_reviews := dput reviewer (digest, raws) (fs_reviews s)\<rparr> in
        intake_each rt reviewer digest (length (all_findings s1) + 1) raws s1)"

definition originals :: "findings_store \<Rightarrow> string \<Rightarrow> (string \<times> obj list) option" where
  "originals s reviewer = map_of (fs_reviews s) reviewer"

section \<open>Lifecycle\<close>

definition set_status ::
  "findings_store \<Rightarrow> string \<Rightarrow> string \<Rightarrow> string \<Rightarrow> string \<Rightarrow> string option
     \<Rightarrow> assurance_error + findings_store" where
  "set_status s i status decided_by reason duplicate_of =
     bindr (guard (status \<in> set decision_targets) (Not_a_decision status)) (\<lambda>_.
     bindr (get_finding s i) (\<lambda>f.
     bindr (guard (rf_status f = ''PROPOSED'') (Wrong_status i (rf_status f))) (\<lambda>_.
     bindr (guard (strip decided_by \<noteq> [] \<and> strip reason \<noteq> []) (Unnamed_decision i)) (\<lambda>_.
     Inr (save_finding (f\<lparr>rf_status := status, rf_decided_by := Some decided_by, rf_reason := reason,
       rf_duplicate := duplicate_of\<rparr>) s)))))"

definition record_fixed :: "findings_store \<Rightarrow> string \<Rightarrow> string \<Rightarrow> string list \<Rightarrow> assurance_error + findings_store" where
  "record_fixed s i fixer commits =
     bindr (get_finding s i) (\<lambda>f.
     bindr (guard (rf_status f = ''ACCEPTED'') (Wrong_status i (rf_status f))) (\<lambda>_.
     Inr (save_finding (f\<lparr>rf_status := ''FIXED'', rf_fixed_by := Some fixer, rf_commits := commits\<rparr>) s)))"

definition record_verified :: "findings_store \<Rightarrow> string \<Rightarrow> string \<Rightarrow> assurance_error + findings_store" where
  "record_verified s i verifier =
     bindr (get_finding s i) (\<lambda>f.
     bindr (guard (rf_status f = ''FIXED'') (Wrong_status i (rf_status f))) (\<lambda>_.
     bindr (guard (Some verifier \<noteq> rf_fixed_by f) (Verifier_is_fixer i)) (\<lambda>_.
     Inr (save_finding (f\<lparr>rf_status := ''VERIFIED'', rf_verified_by := Some verifier\<rparr>) s))))"

section \<open>The fixer's scope\<close>

definition granted :: "findings_store \<Rightarrow> review_finding list" where
  "granted s = filter (\<lambda>f. rf_status f \<in> {''ACCEPTED'', ''FIXED'', ''VERIFIED''}) (all_findings s)"

definition scope_ids :: "findings_store \<Rightarrow> string list" where
  "scope_ids s = map rf_id (filter (\<lambda>f. rf_status f = ''ACCEPTED'') (granted s))"

definition scope_files :: "findings_store \<Rightarrow> string list \<Rightarrow> string list" where
  "scope_files s extra = filter (\<lambda>x. x \<noteq> []) (map rf_file (granted s)) @ extra"

definition record_fix ::
  "findings_store \<Rightarrow> string list \<Rightarrow> string \<Rightarrow> string \<Rightarrow> string list \<Rightarrow> string list
     \<Rightarrow> assurance_error + findings_store" where
  "record_fix s extra i fixer commits changed_files =
     (if i \<notin> set (scope_ids s)
      then bindr (get_finding s i) (\<lambda>f. Inl (Not_accepted i (rf_status f)))
      else let out_of_scope = sorted_set (filter (\<lambda>x. x \<notin> set (scope_files s extra)) changed_files) in
        if out_of_scope \<noteq> [] then Inl (Outside_scope out_of_scope)
        else record_fixed s i fixer commits)"

section \<open>Product change requests\<close>

record change_request =
  pc_id :: string
  pc_contract :: string
  pc_version :: int
  pc_requirements :: "json list"
  pc_finding :: string
  pc_reason :: string
  pc_options :: "string list"
  pc_consequences :: string
  pc_default :: string
  pc_owner :: string
  pc_status :: string
  pc_result :: "int option"
  pc_created :: string
  pc_decided :: string

type_synonym change_store = "(string \<times> change_request) list"

datatype change_error = Invalid_status string | No_result_version | Unknown_request string

definition change_statuses :: "string list" where
  "change_statuses = [''OPEN'', ''APPROVED'', ''REJECTED'']"

definition request_number :: "string \<Rightarrow> nat" where
  "request_number i = (let suffix = drop 4 i in
     if starts_with ''PCR-'' i \<and> suffix \<noteq> [] \<and> list_all is_digit suffix then digits_value suffix else 0)"

definition next_id :: "change_store \<Rightarrow> string" where
  "next_id ps = pcr_name (fold max (map (request_number \<circ> fst) ps) 0 + 1)"

definition create_request :: "change_store \<Rightarrow> string \<Rightarrow> change_request \<Rightarrow> change_store" where
  "create_request ps now pcr = dput (next_id ps)
     (pcr\<lparr>pc_id := next_id ps, pc_status := ''OPEN'', pc_result := None, pc_created := now, pc_decided := []\<rparr>) ps"

definition get_request :: "change_store \<Rightarrow> string \<Rightarrow> change_error + change_request" where
  "get_request ps i = (case map_of ps i of None \<Rightarrow> Inl (Unknown_request i) | Some p \<Rightarrow> Inr p)"

definition decide_request ::
  "change_store \<Rightarrow> string \<Rightarrow> string \<Rightarrow> string \<Rightarrow> int option \<Rightarrow> change_error + change_store" where
  "decide_request ps now i status resulting =
     bindr (guard (status \<in> set change_statuses) (Invalid_status status)) (\<lambda>_.
     bindr (get_request ps i) (\<lambda>p.
     bindr (guard (status \<noteq> ''APPROVED'' \<or> resulting \<noteq> None) No_result_version) (\<lambda>_.
     Inr (dput i (p\<lparr>pc_status := status, pc_decided := now,
       pc_result := (if status = ''APPROVED'' then resulting else pc_result p)\<rparr>) ps))))"

section \<open>Reconciliation\<close>

record owner_decision =
  od_status :: string
  od_owner :: string
  od_reason :: string

record reconciliation =
  rc_accepted :: "string list"
  rc_rejected :: "string list"
  rc_duplicates :: "string list"
  rc_product :: "string list"
  rc_undecided :: "string list"

record reconcile_args =
  ra_casefold :: "string \<Rightarrow> string"
  ra_now :: string
  ra_decisions :: "(string \<times> owner_decision) list"
  ra_contract :: string
  ra_version :: int
  ra_owner :: string

record rstate =
  rs_store :: findings_store
  rs_requests :: "change_store option"
  rs_seen :: "((string \<times> int \<times> string) \<times> string) list"
  rs_result :: reconciliation

definition auto_accept_rule :: string where
  "auto_accept_rule = ''REC-001: low severity AND mechanically fixable -> ACCEPTED by policy''"

definition finding_key :: "reconcile_args \<Rightarrow> review_finding \<Rightarrow> string \<times> int \<times> string" where
  "finding_key a f = (rf_file f, rf_line f, ra_casefold a (rf_title f))"

definition tally :: "string \<Rightarrow> string \<Rightarrow> reconciliation \<Rightarrow> reconciliation" where
  "tally i status r =
     (if status = ''ACCEPTED'' then r\<lparr>rc_accepted := rc_accepted r @ [i]\<rparr>
      else if status = ''REJECTED'' then r\<lparr>rc_rejected := rc_rejected r @ [i]\<rparr>
      else if status = ''DUPLICATE'' then r\<lparr>rc_duplicates := rc_duplicates r @ [i]\<rparr>
      else if status = ''PRODUCT_DECISION_REQUIRED'' then r\<lparr>rc_product := rc_product r @ [i]\<rparr>
      else r)"

definition or_text :: "string \<Rightarrow> string \<Rightarrow> string" where
  "or_text a b = (if a = [] then b else a)"

definition change_fields :: "reconcile_args \<Rightarrow> review_finding \<Rightarrow> change_request" where
  "change_fields a f = \<lparr>pc_id = [], pc_contract = ra_contract a, pc_version = ra_version a,
     pc_requirements = (if truthy (rf_requirement f) then [rf_requirement f] else []),
     pc_finding = rf_id f @ '': '' @ rf_title f @ [CHR '' '', CHR 0xE2, CHR 0x80, CHR 0x94, CHR '' ''] @ rf_evidence f,
     pc_reason = or_text (rf_mechanism f) ''implementation cannot proceed without a product decision'',
     pc_options = [or_text (rf_direction f) ''(owner to define options)''],
     pc_consequences = rf_mechanism f, pc_default = rf_direction f,
     pc_owner = or_text (ra_owner a) ''product-owner'', pc_status = [], pc_result = None, pc_created = [],
     pc_decided = []\<rparr>"

definition reconcile_one :: "reconcile_args \<Rightarrow> review_finding \<Rightarrow> rstate \<Rightarrow> assurance_error + rstate" where
  "reconcile_one a f st =
     (let key = finding_key a f; i = rf_id f in
      if rf_status f \<noteq> ''PROPOSED''
      then Inr (st\<lparr>rs_result := tally i (rf_status f) (rs_result st),
        rs_seen := (if map_of (rs_seen st) key = None then rs_seen st @ [(key, i)] else rs_seen st)\<rparr>)
      else case map_of (rs_seen st) key of
        Some original \<Rightarrow>
          bindr (set_status (rs_store st) i ''DUPLICATE'' ''reconciliation''
            (''duplicate of '' @ original @ '' (same file, line, and title)'') (Some original)) (\<lambda>s.
          Inr (st\<lparr>rs_store := s, rs_result := tally i ''DUPLICATE'' (rs_result st)\<rparr>))
      | None \<Rightarrow>
          (let st1 = st\<lparr>rs_seen := rs_seen st @ [(key, i)]\<rparr> in
           if rf_product f
           then bindr (set_status (rs_store st) i ''PRODUCT_DECISION_REQUIRED'' ''reconciliation''
             ''finding requires a product decision (PD-07)'' None) (\<lambda>s.
             Inr (st1\<lparr>rs_store := s, rs_result := tally i ''PRODUCT_DECISION_REQUIRED'' (rs_result st),
               rs_requests := map_option (\<lambda>ps. create_request ps (ra_now a) (change_fields a f)) (rs_requests st)\<rparr>))
           else case map_of (ra_decisions a) i of
             Some d \<Rightarrow>
               bindr (set_status (rs_store st) i (od_status d) (od_owner d) (od_reason d) None) (\<lambda>s.
               Inr (st1\<lparr>rs_store := s, rs_result := tally i (od_status d) (rs_result st)\<rparr>))
           | None \<Rightarrow>
               (if rf_severity f = ''low'' \<and> rf_fixable f
                then bindr (set_status (rs_store st) i ''ACCEPTED'' ''policy'' auto_accept_rule None) (\<lambda>s.
                  Inr (st1\<lparr>rs_store := s, rs_result := tally i ''ACCEPTED'' (rs_result st)\<rparr>))
                else Inr (st1\<lparr>rs_result := (rs_result st)\<lparr>rc_undecided := rc_undecided (rs_result st) @ [i]\<rparr>\<rparr>))))"

text \<open>The loop; an exception leaves what was written before it.\<close>

fun reconcile_each ::
  "reconcile_args \<Rightarrow> review_finding list \<Rightarrow> rstate \<Rightarrow> assurance_error option \<times> rstate" where
  "reconcile_each a [] st = (None, st)"
| "reconcile_each a (f # fs) st = (case reconcile_one a f st of
      Inl e \<Rightarrow> (Some e, st\<lparr>rs_seen := []\<rparr>) | Inr st' \<Rightarrow> reconcile_each a fs st')"

definition empty_result :: reconciliation where
  "empty_result = \<lparr>rc_accepted = [], rc_rejected = [], rc_duplicates = [], rc_product = [], rc_undecided = []\<rparr>"

definition reconcile ::
  "reconcile_args \<Rightarrow> findings_store \<Rightarrow> change_store option \<Rightarrow> assurance_error option \<times> rstate" where
  "reconcile a s requests = reconcile_each a (all_findings s)
     \<lparr>rs_store = s, rs_requests = requests, rs_seen = [], rs_result = empty_result\<rparr>"

section \<open>The read-only proof\<close>

definition skip_parts :: "string list" where
  "skip_parts = [''.git'', ''__pycache__'', ''.ruff_cache'', ''.pytest_cache'', ''.mypy_cache'']"

text \<open>Trees are their files; the list of tracked names is what \<^verbatim>\<open>git ls-files\<close> prints.\<close>

definition file_map :: "(bytes \<Rightarrow> string) \<Rightarrow> (string \<times> bytes) list \<Rightarrow> (string \<times> string) list" where
  "file_map hex tree = map (\<lambda>f. (fst f, hex (snd f)))
     (filter (\<lambda>f. \<not> list_ex (\<lambda>p. p \<in> set skip_parts) (split_on (CHR ''/'') (fst f)))
       (sort_key (\<lambda>f. split_on (CHR ''/'') (fst f)) tree))"

definition tracked_file_map ::
  "(bytes \<Rightarrow> string) \<Rightarrow> string list \<Rightarrow> (string \<times> bytes) list \<Rightarrow> (string \<times> string) list" where
  "tracked_file_map hex tracked tree =
     concat (map (\<lambda>rel. case map_of tree rel of None \<Rightarrow> [] | Some b \<Rightarrow> [(rel, hex b)]) (sorted_set tracked))"

definition verify_unmodified :: "(string \<times> string) list \<Rightarrow> (string \<times> string) list \<Rightarrow> string list" where
  "verify_unmodified before after' =
     map (\<lambda>r. ''changed: '' @ r) (filter (\<lambda>r. map_of before r \<noteq> map_of after' r)
       (sorted_set (filter (\<lambda>r. r \<in> set (map fst after')) (map fst before))))
     @ map (\<lambda>r. ''added: '' @ r) (sorted_set (filter (\<lambda>r. r \<notin> set (map fst before)) (map fst after')))
     @ map (\<lambda>r. ''removed: '' @ r) (sorted_set (filter (\<lambda>r. r \<notin> set (map fst after')) (map fst before)))"

section \<open>Stores\<close>

lemma dput_known: "k \<in> set (map fst d) \<Longrightarrow> map fst (dput k v d) = map fst d"
  by (induction k v d rule: dput.induct) auto

lemma dput_new: "k \<notin> set (map fst d) \<Longrightarrow> dput k v d = d @ [(k, v)]"
  by (induction k v d rule: dput.induct) auto

lemma dput_members: "x \<in> set (dput k v d) \<Longrightarrow> x = (k, v) \<or> x \<in> set d"
  by (induction k v d rule: dput.induct) (auto split: if_splits)

text \<open>
  A well-formed finding: its status is one of the lifecycle's, a decided one names its decider
  and reason, a fixed one its fixer, and a verified one a verifier who is not the fixer.
\<close>

definition finding_ok :: "review_finding \<Rightarrow> bool" where
  "finding_ok f \<longleftrightarrow>
     rf_status f \<in> {''PROPOSED'', ''ACCEPTED'', ''REJECTED'', ''DUPLICATE'', ''PRODUCT_DECISION_REQUIRED'', ''FIXED'', ''VERIFIED''}
     \<and> (rf_status f \<noteq> ''PROPOSED'' \<longrightarrow> (\<exists>d. rf_decided_by f = Some d \<and> strip d \<noteq> [] \<and> strip (rf_reason f) \<noteq> []))
     \<and> (rf_fixed_by f \<noteq> None \<longleftrightarrow> rf_status f \<in> {''FIXED'', ''VERIFIED''})
     \<and> (rf_verified_by f \<noteq> None \<longleftrightarrow> rf_status f = ''VERIFIED'')
     \<and> (rf_verified_by f \<noteq> None \<longrightarrow> rf_verified_by f \<noteq> rf_fixed_by f)"

definition numbered :: "(string \<times> review_finding) list \<Rightarrow> bool" where
  "numbered xs \<longleftrightarrow> map fst xs = map rf_name [1..<Suc (length xs)]"

definition members_ok :: "(string \<times> review_finding) list \<Rightarrow> bool" where
  "members_ok xs \<longleftrightarrow> (\<forall>p \<in> set xs. rf_id (snd p) = fst p \<and> finding_ok (snd p))"

definition one_candidate :: "(string \<times> review_finding) list \<Rightarrow> bool" where
  "one_candidate xs \<longleftrightarrow> (\<exists>digest. \<forall>p \<in> set xs. rf_candidate (snd p) = digest)"

definition store_ok :: "findings_store \<Rightarrow> bool" where
  "store_ok s \<longleftrightarrow> numbered (fs_findings s) \<and> members_ok (fs_findings s) \<and> one_candidate (fs_findings s)"

lemma numbered_distinct_keys: "numbered xs \<Longrightarrow> distinct (map fst xs)"
  unfolding numbered_def by (simp only: rf.numbered_distinct)

lemma numbered_next: "numbered xs \<Longrightarrow> rf_name (Suc (length xs)) \<notin> set (map fst xs)"
  unfolding numbered_def by (simp only: rf.next_is_new not_False_eq_True)

lemma numbered_snoc: "numbered xs \<Longrightarrow> numbered (xs @ [(rf_name (Suc (length xs)), f)])"
proof -
  assume n: "numbered xs"
  have "length (xs @ [(rf_name (Suc (length xs)), f)]) = Suc (length xs)" by simp
  moreover have "map fst (xs @ [(rf_name (Suc (length xs)), f)]) = map fst xs @ [rf_name (Suc (length xs))]" by simp
  ultimately show ?thesis
    unfolding numbered_def using n rf.names_snoc [of "length xs"] by (simp only: numbered_def)
qed

lemma numbered_prefix: "numbered xs \<Longrightarrow> p \<in> set xs \<Longrightarrow> starts_with ''RF-'' (fst p)"
proof -
  assume "numbered xs" "p \<in> set xs"
  then have "fst p \<in> set (map rf_name [1..<Suc (length xs)])" unfolding numbered_def by (metis in_set_conv_nth length_map nth_map nth_mem)
  then show ?thesis by (auto simp: rf_name_def starts_with_def)
qed

lemma store_ok_D:
  assumes "store_ok s"
  shows "distinct (map fst (fs_findings s))"
    "(k, f) \<in> set (fs_findings s) \<Longrightarrow> rf_id f = k \<and> finding_ok f"
  using assms numbered_distinct_keys by (auto simp: store_ok_def members_ok_def)

lemma all_findings_mset:
  assumes "store_ok s"
  shows "mset (all_findings s) = mset (map snd (fs_findings s))"
proof -
  have "\<forall>p \<in> set (fs_findings s). starts_with ''RF-'' (fst p)"
    using assms numbered_prefix by (auto simp: store_ok_def)
  then show ?thesis by (simp add: all_findings_def filter_id_conv [THEN iffD2])
qed

lemma all_findings_set: "store_ok s \<Longrightarrow> set (all_findings s) = snd ` set (fs_findings s)"
  by (metis all_findings_mset list.set_map mset_eq_setD)

lemma all_findings_length: "store_ok s \<Longrightarrow> length (all_findings s) = length (fs_findings s)"
  by (metis all_findings_mset length_map mset_eq_length)

lemma all_findings_ids: "store_ok s \<Longrightarrow> distinct (map rf_id (all_findings s))"
proof -
  assume ok: "store_ok s"
  have "mset (map rf_id (all_findings s)) = mset (map (rf_id \<circ> snd) (fs_findings s))"
    using all_findings_mset [OF ok] by (metis map_map mset_map)
  also have "map (rf_id \<circ> snd) (fs_findings s) = map fst (fs_findings s)"
    using store_ok_D(2) [OF ok] by auto
  finally show ?thesis using store_ok_D(1) [OF ok] by (metis mset_eq_imp_distinct_iff)
qed

lemma get_finding_Inr:
  "store_ok s \<Longrightarrow> get_finding s i = Inr f \<Longrightarrow> (i, f) \<in> set (fs_findings s) \<and> rf_id f = i \<and> finding_ok f"
  by (auto simp: get_finding_def split: option.splits dest!: map_of_SomeD dest: store_ok_D(2))

lemma get_finding_all: "store_ok s \<Longrightarrow> f \<in> set (all_findings s) \<Longrightarrow> get_finding s (rf_id f) = Inr f"
proof -
  assume ok: "store_ok s" and "f \<in> set (all_findings s)"
  then obtain k where k: "(k, f) \<in> set (fs_findings s)" by (auto simp: all_findings_set)
  then have "rf_id f = k" using store_ok_D(2) [OF ok k] by simp
  with k show ?thesis using store_ok_D(1) [OF ok] by (simp add: get_finding_def)
qed

text \<open>Rewriting a stored finding, and adding the next one, keep the store well formed.\<close>

lemma save_known:
  assumes "store_ok s" "get_finding s (rf_id g) = Inr f" "finding_ok g" "rf_candidate g = rf_candidate f"
  shows "store_ok (save_finding g s)"
proof -
  let ?xs = "fs_findings s" and ?ys = "dput (rf_id g) g (fs_findings s)"
  have m: "(rf_id g, f) \<in> set ?xs" using get_finding_Inr [OF assms(1,2)] by simp
  then have "rf_id g \<in> set (map fst ?xs)" by force
  then have keys: "map fst ?ys = map fst ?xs" by (rule dput_known)
  then have len: "length ?ys = length ?xs" by (metis length_map)
  have "numbered ?ys" using assms(1) unfolding store_ok_def numbered_def keys len by blast
  moreover have "members_ok ?ys"
    using assms(1,3) dput_members by (fastforce simp: store_ok_def members_ok_def)
  moreover obtain digest where d: "\<forall>p \<in> set ?xs. rf_candidate (snd p) = digest"
    using assms(1) by (auto simp: store_ok_def one_candidate_def)
  have "one_candidate ?ys"
    unfolding one_candidate_def using d m assms(4) dput_members by (metis snd_conv)
  ultimately show ?thesis by (simp add: store_ok_def save_finding_def)
qed

lemma save_new:
  assumes "store_ok s" "rf_id g = rf_name (Suc (length (fs_findings s)))" "finding_ok g"
    and "\<forall>p \<in> set (fs_findings s). rf_candidate (snd p) = rf_candidate g"
  shows "store_ok (save_finding g s) \<and> fs_findings (save_finding g s) = fs_findings s @ [(rf_id g, g)]"
proof -
  have n: "numbered (fs_findings s)" using assms(1) by (simp add: store_ok_def)
  have "rf_id g \<notin> set (map fst (fs_findings s))" unfolding assms(2) by (rule numbered_next [OF n])
  then have new: "fs_findings (save_finding g s) = fs_findings s @ [(rf_id g, g)]"
    by (simp add: save_finding_def dput_new del: set_map)
  moreover have "numbered (fs_findings s @ [(rf_id g, g)])" unfolding assms(2) by (rule numbered_snoc [OF n])
  moreover have "members_ok (fs_findings s @ [(rf_id g, g)])"
    using assms(1,3) by (auto simp: store_ok_def members_ok_def)
  moreover have "one_candidate (fs_findings s @ [(rf_id g, g)])"
    using assms(4) by (auto simp: one_candidate_def)
  ultimately show ?thesis by (simp add: store_ok_def)
qed

section \<open>The lifecycle as a step relation\<close>

inductive store_step :: "findings_store \<Rightarrow> findings_store \<Rightarrow> bool" where
  reviewed: "intake rt s reviewer digest raws = (r, s') \<Longrightarrow> store_step s s'"
| decided: "set_status s i status who reason dup = Inr s' \<Longrightarrow> store_step s s'"
| fixed: "record_fixed s i fixer commits = Inr s' \<Longrightarrow> store_step s s'"
| verified: "record_verified s i verifier = Inr s' \<Longrightarrow> store_step s s'"

inductive_cases store_stepE: "store_step s s'"

lemma raw_finding_ok:
  "raw_finding rt reviewer digest n raw = Inr f \<Longrightarrow>
     rf_id f = rf_name n \<and> rf_candidate f = digest \<and> rf_status f = ''PROPOSED'' \<and> finding_ok f"
  by (auto simp: raw_finding_def finding_ok_def split: option.splits)

lemma intake_each_ok:
  assumes "intake_each rt reviewer digest n raws s = (r, s')" "store_ok s" "n = Suc (length (fs_findings s))"
    and "\<forall>p \<in> set (fs_findings s). rf_candidate (snd p) = digest"
  shows "store_ok s' \<and> (\<exists>new. fs_findings s' = fs_findings s @ new \<and> (\<forall>fs. r = Inr fs \<longrightarrow> map snd new = fs))"
  using assms
proof (induction rt reviewer digest n raws s arbitrary: r s' rule: intake_each.induct)
  case (2 rt reviewer digest n raw raws s)
  show ?case
  proof (cases "raw_finding rt reviewer digest n raw")
    case (Inl e)
    with 2(2,3) show ?thesis by auto
  next
    case (Inr f)
    note f = raw_finding_ok [OF Inr]
    have sv: "store_ok (save_finding f s)" "fs_findings (save_finding f s) = fs_findings s @ [(rf_id f, f)]"
      using save_new [of s f] f 2(3-5) by auto
    obtain r1 s1 where rest: "intake_each rt reviewer digest (Suc n) raws (save_finding f s) = (r1, s1)" by fastforce
    have "s1 = s'" "r = (case r1 of Inl e \<Rightarrow> Inl e | Inr fs \<Rightarrow> Inr (f # fs))"
      using 2(2) Inr rest by (auto split: sum.splits)
    moreover have "store_ok s1 \<and> (\<exists>new. fs_findings s1 = fs_findings (save_finding f s) @ new \<and>
        (\<forall>fs. r1 = Inr fs \<longrightarrow> map snd new = fs))"
      by (rule 2(1) [OF Inr rest sv(1)]) (use sv f 2(4,5) in auto)
    ultimately show ?thesis using sv(2) by (auto split: sum.splits)
  qed
qed auto

lemma intake_ok:
  assumes "intake rt s reviewer digest raws = (r, s')" "store_ok s"
  shows "store_ok s' \<and> (\<exists>new. fs_findings s' = fs_findings s @ new)"
proof (cases "list_ex (\<lambda>f. rf_candidate f \<noteq> digest) (all_findings s)")
  case True
  with assms show ?thesis by (auto simp: intake_def)
next
  case False
  let ?s = "s\<lparr>fs_reviews := dput reviewer (digest, raws) (fs_reviews s)\<rparr>"
  have ok: "store_ok ?s" using assms(2) by (simp add: store_ok_def)
  have "\<forall>p \<in> set (fs_findings ?s). rf_candidate (snd p) = digest"
    using False all_findings_set [OF assms(2)] by (auto simp: list_ex_iff)
  moreover have "intake_each rt reviewer digest (Suc (length (fs_findings ?s))) raws ?s = (r, s')"
    using assms(1) False all_findings_length [OF ok] by (simp add: intake_def Let_def)
  ultimately show ?thesis using intake_each_ok [OF _ ok refl] by fastforce
qed

lemma set_status_Inr:
  assumes "set_status s i status who reason dup = Inr s'"
  obtains f where "get_finding s i = Inr f" "rf_status f = ''PROPOSED''" "status \<in> set decision_targets"
    "strip who \<noteq> []" "strip reason \<noteq> []"
    "s' = save_finding (f\<lparr>rf_status := status, rf_decided_by := Some who, rf_reason := reason, rf_duplicate := dup\<rparr>) s"
  using assms by (auto simp: set_status_def)

lemma set_status_ok:
  assumes "set_status s i status who reason dup = Inr s'" "store_ok s"
  shows "store_ok s'"
  using assms(1)
proof (rule set_status_Inr)
  fix f assume f: "get_finding s i = Inr f" "rf_status f = ''PROPOSED''" "status \<in> set decision_targets"
    "strip who \<noteq> []" "strip reason \<noteq> []"
    and s': "s' = save_finding (f\<lparr>rf_status := status, rf_decided_by := Some who, rf_reason := reason,
      rf_duplicate := dup\<rparr>) s"
  note g = get_finding_Inr [OF assms(2) f(1)]
  show ?thesis unfolding s'
    by (rule save_known [OF assms(2), of _ f])
      (use f g in \<open>auto simp: finding_ok_def decision_targets_def\<close>)
qed

lemma record_fixed_ok:
  assumes "record_fixed s i fixer commits = Inr s'" "store_ok s"
  shows "store_ok s'"
proof -
  from assms(1) obtain f where f: "get_finding s i = Inr f" "rf_status f = ''ACCEPTED''"
    and s': "s' = save_finding (f\<lparr>rf_status := ''FIXED'', rf_fixed_by := Some fixer, rf_commits := commits\<rparr>) s"
    by (auto simp: record_fixed_def)
  show ?thesis unfolding s'
    by (rule save_known [OF assms(2), of _ f]) (use f get_finding_Inr [OF assms(2) f(1)] in \<open>auto simp: finding_ok_def\<close>)
qed

lemma record_verified_ok:
  assumes "record_verified s i verifier = Inr s'" "store_ok s"
  shows "store_ok s'"
proof -
  from assms(1) obtain f where f: "get_finding s i = Inr f" "rf_status f = ''FIXED''" "Some verifier \<noteq> rf_fixed_by f"
    and s': "s' = save_finding (f\<lparr>rf_status := ''VERIFIED'', rf_verified_by := Some verifier\<rparr>) s"
    by (auto simp: record_verified_def)
  show ?thesis unfolding s'
    by (rule save_known [OF assms(2), of _ f]) (use f get_finding_Inr [OF assms(2) f(1)] in \<open>auto simp: finding_ok_def\<close>)
qed

lemma store_step_ok: "store_step s s' \<Longrightarrow> store_ok s \<Longrightarrow> store_ok s'"
  by (erule store_stepE) (auto dest: intake_ok set_status_ok record_fixed_ok record_verified_ok)

lemma empty_ok: "store_ok empty_store"
  by (simp add: store_ok_def numbered_def members_ok_def one_candidate_def empty_store_def)

lemma reachable_ok: "rtranclp store_step empty_store s \<Longrightarrow> store_ok s"
  by (induction rule: rtranclp_induct) (auto intro: store_step_ok empty_ok)

section \<open>What reconciliation does\<close>

definition tallied :: "reconciliation \<Rightarrow> string multiset" where
  "tallied r = mset (rc_accepted r @ rc_rejected r @ rc_duplicates r @ rc_product r @ rc_undecided r)"

lemma tallied_empty [simp]: "tallied empty_result = {#}"
  by (simp add: tallied_def empty_result_def)

lemma tallied_tally:
  "tallied (tally i status r) = tallied r + (if status \<in> set decision_targets then {#i#} else {#})"
  by (simp add: tallied_def tally_def decision_targets_def)

text \<open>The three ways a finding goes through reconciliation.\<close>

lemma reconcile_one_cases:
  assumes "reconcile_one a f st = Inr st'"
  obtains (old) "rf_status f \<noteq> ''PROPOSED''" "rs_store st' = rs_store st"
      "rs_result st' = tally (rf_id f) (rf_status f) (rs_result st)"
  | (decided) status who reason dup where "rf_status f = ''PROPOSED''"
      "set_status (rs_store st) (rf_id f) status who reason dup = Inr (rs_store st')"
      "rs_result st' = tally (rf_id f) status (rs_result st)"
      "rf_product f \<longrightarrow> status = ''DUPLICATE'' \<or> status = ''PRODUCT_DECISION_REQUIRED''"
  | (undecided) "rf_status f = ''PROPOSED''" "\<not> rf_product f" "rs_store st' = rs_store st"
      "rs_result st' = (rs_result st)\<lparr>rc_undecided := rc_undecided (rs_result st) @ [rf_id f]\<rparr>"
proof (cases "rf_status f = ''PROPOSED''")
  case False
  with assms show ?thesis by (intro old) (auto simp: reconcile_one_def Let_def)
next
  case p: True
  show ?thesis
  proof (cases "map_of (rs_seen st) (finding_key a f)")
    case (Some original)
    with assms p show ?thesis
      by (intro decided [of "''DUPLICATE''"]) (auto simp: reconcile_one_def Let_def)
  next
    case new: None
    show ?thesis
    proof (cases "rf_product f")
      case True
      with assms p new show ?thesis
        by (intro decided [of "''PRODUCT_DECISION_REQUIRED''"]) (auto simp: reconcile_one_def Let_def)
    next
      case np: False
      show ?thesis
      proof (cases "map_of (ra_decisions a) (rf_id f)")
        case (Some d)
        with assms p new np show ?thesis
          by (intro decided [of "od_status d" "od_owner d" "od_reason d" None]) (auto simp: reconcile_one_def Let_def)
      next
        case None
        show ?thesis
        proof (cases "rf_severity f = ''low'' \<and> rf_fixable f")
          case True
          with assms p new np None show ?thesis
            by (intro decided [of "''ACCEPTED''" "''policy''" auto_accept_rule None]) (auto simp: reconcile_one_def Let_def)
        next
          case False
          with assms p new np None show ?thesis
            by (intro undecided) (auto simp: reconcile_one_def Let_def)
        qed
      qed
    qed
  qed
qed

lemma reconcile_one_tallied:
  assumes "reconcile_one a f st = Inr st'" "finding_ok f"
  shows "tallied (rs_result st') = tallied (rs_result st)
     + (if rf_status f \<in> {''FIXED'', ''VERIFIED''} then {#} else {#rf_id f#})"
  using assms(1)
proof (cases rule: reconcile_one_cases)
  case old
  then have "rf_status f \<in> set decision_targets \<longleftrightarrow> rf_status f \<notin> {''FIXED'', ''VERIFIED''}"
    using assms(2) by (auto simp: finding_ok_def decision_targets_def)
  with old show ?thesis by (simp add: tallied_tally)
next
  case (decided status who reason dup)
  then have "status \<in> set decision_targets" by (auto elim: set_status_Inr)
  with decided show ?thesis by (simp add: tallied_tally)
qed (simp add: tallied_def)

lemma reconcile_each_tallied:
  assumes "reconcile_each a fs st = (None, st')" "\<forall>f \<in> set fs. finding_ok f"
  shows "tallied (rs_result st') = tallied (rs_result st)
     + mset (map rf_id (filter (\<lambda>f. rf_status f \<notin> {''FIXED'', ''VERIFIED''}) fs))"
  using assms
proof (induction fs arbitrary: st)
  case (Cons f fs)
  then obtain st1 where st1: "reconcile_one a f st = Inr st1" "reconcile_each a fs st1 = (None, st')"
    by (auto split: sum.splits)
  from Cons.IH [OF st1(2)] reconcile_one_tallied [OF st1(1)] Cons.prems(2) show ?case by simp
qed simp

text \<open>Reconciliation only decides, one finding at a time.\<close>

lemma set_status_lookup:
  assumes "set_status s i status who reason dup = Inr s'" "store_ok s"
  shows "j \<noteq> i \<Longrightarrow> map_of (fs_findings s') j = map_of (fs_findings s) j"
    and "\<exists>g. map_of (fs_findings s') i = Some g \<and> rf_status g = status"
  using assms(1) get_finding_Inr [OF assms(2)]
  by (auto elim!: set_status_Inr simp: save_finding_def)

lemma reconcile_one_keeps:
  assumes "reconcile_one a f st = Inr st'" "store_ok (rs_store st)"
  shows "store_ok (rs_store st') \<and> rtranclp store_step (rs_store st) (rs_store st')
    \<and> (\<forall>j. j \<noteq> rf_id f \<longrightarrow> map_of (fs_findings (rs_store st')) j = map_of (fs_findings (rs_store st)) j)"
  using assms(1)
proof (cases rule: reconcile_one_cases)
  case (decided status who reason dup)
  then show ?thesis
    using set_status_ok [OF decided(2) assms(2)] set_status_lookup(1) [OF decided(2) assms(2)]
      store_step.decided [OF decided(2)] by auto
qed (use assms(2) in simp_all)

lemma reconcile_each_keeps:
  assumes "reconcile_each a fs st = (r, st')" "store_ok (rs_store st)"
  shows "store_ok (rs_store st') \<and> rtranclp store_step (rs_store st) (rs_store st')
    \<and> (\<forall>j. j \<notin> set (map rf_id fs) \<longrightarrow> map_of (fs_findings (rs_store st')) j = map_of (fs_findings (rs_store st)) j)"
  using assms
proof (induction fs arbitrary: st)
  case (Cons f fs)
  show ?case
  proof (cases "reconcile_one a f st")
    case (Inl e)
    with Cons.prems show ?thesis by auto
  next
    case (Inr st1)
    note k = reconcile_one_keeps [OF Inr Cons.prems(2)]
    have "reconcile_each a fs st1 = (r, st')" using Cons.prems(1) Inr by simp
    from Cons.IH [OF this] k show ?thesis by (auto intro: rtranclp_trans)
  qed
qed auto

lemma reconcile_each_product:
  assumes "reconcile_each a fs st = (None, st')" "store_ok (rs_store st)" "distinct (map rf_id fs)"
    and "f \<in> set fs" "rf_product f" "rf_status f = ''PROPOSED''"
  shows "\<exists>g. map_of (fs_findings (rs_store st')) (rf_id f) = Some g
    \<and> rf_status g \<in> {''DUPLICATE'', ''PRODUCT_DECISION_REQUIRED''}"
  using assms
proof (induction fs arbitrary: st)
  case (Cons h fs)
  then obtain st1 where st1: "reconcile_one a h st = Inr st1" "reconcile_each a fs st1 = (None, st')"
    by (auto split: sum.splits)
  note k = reconcile_one_keeps [OF st1(1) Cons.prems(2)]
  show ?case
  proof (cases "f = h")
    case True
    from st1(1) Cons.prems(5,6) True obtain status who reason dup where
      d: "set_status (rs_store st) (rf_id f) status who reason dup = Inr (rs_store st1)"
        "status = ''DUPLICATE'' \<or> status = ''PRODUCT_DECISION_REQUIRED''"
      by (cases rule: reconcile_one_cases) auto
    have "rf_id f \<notin> set (map rf_id fs)" using Cons.prems(3) True by simp
    with reconcile_each_keeps [OF st1(2)] k
    have "map_of (fs_findings (rs_store st')) (rf_id f) = map_of (fs_findings (rs_store st1)) (rf_id f)" by blast
    with set_status_lookup(2) [OF d(1) Cons.prems(2)] d(2) show ?thesis by auto
  next
    case False
    with Cons.prems Cons.IH [OF st1(2)] k show ?thesis by simp
  qed
qed simp

section \<open>Change requests\<close>

lemma fold_max_bound: "n \<in> set ns \<or> n \<le> m \<Longrightarrow> n \<le> fold max ns (m :: nat)"
  by (induction ns arbitrary: m) (auto simp: le_max_iff_disj)

lemma show_nat_digits: "list_all is_digit (show_nat n)"
proof (induction n rule: show_nat.induct)
  case (1 n)
  have "is_digit (digit_char d)" if "d < 10" for d using that by (simp add: is_digit_def of_digit_char)
  with 1 show ?case by (cases "n < 10") (simp_all add: show_nat.simps [of n])
qed

lemma show_nat_nonempty: "show_nat n \<noteq> []"
  by (cases "n < 10") (simp_all add: show_nat.simps [of n])

lemma request_number_name [simp]: "request_number (pcr_name n) = n"
proof -
  have "list_all is_digit (pad3 n)" "pad3 n \<noteq> []"
    using show_nat_digits [of n] show_nat_nonempty [of n]
    by (auto simp: pad3_def Let_def list_all_iff is_digit_def)
  then show ?thesis by (simp add: request_number_def pcr_name_def starts_with_def)
qed

lemma next_id_fresh: "next_id ps \<notin> set (map fst ps)"
proof
  let ?m = "fold max (map (request_number \<circ> fst) ps) 0"
  assume "next_id ps \<in> set (map fst ps)"
  then obtain p where "p \<in> set ps" "fst p = pcr_name (?m + 1)" by (auto simp: next_id_def)
  then have "?m + 1 \<in> set (map (request_number \<circ> fst) ps)" by (force intro: image_eqI [of _ _ p])
  then have "?m + 1 \<le> ?m" by (rule fold_max_bound [OF disjI1])
  then show False by simp
qed

section \<open>The read-only proof decides\<close>

lemma map_of_tracked:
  "map_of (tracked_file_map hex tracked tree) r = (if r \<in> set tracked then map_option hex (map_of tree r) else None)"
proof -
  have "map_of (concat (map (\<lambda>rel. case map_of tree rel of None \<Rightarrow> [] | Some b \<Rightarrow> [(rel, hex b)]) rels)) r
      = (if r \<in> set rels then map_option hex (map_of tree r) else None)" for rels
    by (induction rels) (auto split: option.split simp: map_add_def)
  then show ?thesis by (simp add: tracked_file_map_def)
qed

lemma verify_unmodified_Nil: "verify_unmodified xs ys = [] \<longleftrightarrow> (\<forall>r. map_of xs r = map_of ys r)"
proof -
  have none: "map_of zs r = None \<longleftrightarrow> r \<notin> set (map fst zs)" for zs :: "(string \<times> string) list" and r
    by (simp add: map_of_eq_None_iff)
  have "verify_unmodified xs ys = [] \<longleftrightarrow>
      (\<forall>r. (r \<in> set (map fst xs) \<longleftrightarrow> r \<in> set (map fst ys)) \<and> (r \<in> set (map fst xs) \<longrightarrow> map_of xs r = map_of ys r))"
    by (auto simp: verify_unmodified_def filter_empty_conv)
  also have "\<dots> \<longleftrightarrow> (\<forall>r. map_of xs r = map_of ys r)"
    using none by metis
  finally show ?thesis .
qed

section \<open>A concrete store\<close>

definition demo_raw :: "string \<Rightarrow> bool \<Rightarrow> obj" where
  "demo_raw title product = [(''severity'', JStr ''low''), (''file'', JStr ''a.py''), (''line'', JInt 3),
     (''title'', JStr title), (''mechanically_fixable'', JBool True), (''requires_product_decision'', JBool product)]"

definition demo_store :: findings_store where
  "demo_store = snd (intake (sample_runtime []) empty_store ''code'' ''d1'' [demo_raw ''A'' False, demo_raw ''B'' True])"

definition demo_args :: reconcile_args where
  "demo_args = \<lparr>ra_casefold = id, ra_now = ''t'', ra_decisions = [], ra_contract = ''c'', ra_version = 1, ra_owner = []\<rparr>"

lemma demo_reachable: "rtranclp store_step empty_store demo_store"
proof -
  have "store_step empty_store demo_store"
    unfolding demo_store_def
    by (rule store_step.reviewed [where rt = "sample_runtime []" and r = "fst (intake (sample_runtime []) empty_store
      ''code'' ''d1'' [demo_raw ''A'' False, demo_raw ''B'' True])"]) simp
  then show ?thesis by simp
qed

lemma demo_all: "map (\<lambda>f. (rf_id f, rf_status f, rf_product f)) (all_findings demo_store) =
    [(''RF-001'', ''PROPOSED'', False), (''RF-002'', ''PROPOSED'', True)]"
  by code_simp

lemma demo_reconciled:
  "fst (reconcile demo_args demo_store (Some [])) = None"
  "rs_result (snd (reconcile demo_args demo_store (Some []))) =
     \<lparr>rc_accepted = [''RF-001''], rc_rejected = [], rc_duplicates = [], rc_product = [''RF-002''], rc_undecided = []\<rparr>"
  by code_simp+

definition demo_accepted :: findings_store where
  "demo_accepted = rs_store (snd (reconcile demo_args demo_store None))"

lemma demo_fix: "\<exists>s'. record_fix demo_accepted [] ''RF-001'' ''fixer'' [''c1''] [''a.py''] = Inr s'"
proof -
  have "(case record_fix demo_accepted [] ''RF-001'' ''fixer'' [''c1''] [''a.py''] of Inl _ \<Rightarrow> False | Inr _ \<Rightarrow> True)"
    by code_simp
  then show ?thesis by (auto split: sum.splits)
qed

section \<open>Properties\<close>

text \<open>
  C20. The lifecycle of findings: in every store that intake, decisions, fixes and
  verifications can reach, all findings report the same candidate under ids of their own, each
  status is one of the lifecycle's, every decision names its decider and a reason, exactly the
  fixed and verified ones name a fixer, and a verifier is never the fixer.
\<close>

theorem findings_lifecycle:
  assumes "rtranclp store_step empty_store s"
  shows "list_all finding_ok (all_findings s) \<and> distinct (map rf_id (all_findings s))
    \<and> (\<exists>digest. list_all (\<lambda>f. rf_candidate f = digest) (all_findings s))"
proof -
  have ok: "store_ok s" using assms by (rule reachable_ok)
  then have "list_all finding_ok (all_findings s)"
    by (auto simp: list_all_iff all_findings_set dest: store_ok_D(2))
  moreover have "\<exists>digest. list_all (\<lambda>f. rf_candidate f = digest) (all_findings s)"
    using ok by (auto simp: list_all_iff all_findings_set) (auto simp: store_ok_def one_candidate_def)
  ultimately show ?thesis using all_findings_ids [OF ok] by blast
qed

theorem findings_lifecycle_witness: "list_all finding_ok (all_findings demo_store)"
  using findings_lifecycle [OF demo_reachable] by blast

text \<open>
  Reconciliation drops nothing: when it returns, every finding of the store that was not
  already fixed or verified is in exactly one of its five lists, once.
\<close>

theorem reconcile_drops_nothing:
  assumes "rtranclp store_step empty_store s" "reconcile a s requests = (None, st)"
  shows "mset (rc_accepted (rs_result st) @ rc_rejected (rs_result st) @ rc_duplicates (rs_result st)
      @ rc_product (rs_result st) @ rc_undecided (rs_result st))
    = mset (map rf_id (filter (\<lambda>f. rf_status f \<notin> {''FIXED'', ''VERIFIED''}) (all_findings s)))"
proof -
  have ok: "store_ok s" using assms(1) by (rule reachable_ok)
  have "\<forall>f \<in> set (all_findings s). finding_ok f"
    using ok by (auto simp: all_findings_set dest: store_ok_D(2))
  from reconcile_each_tallied [OF assms(2) [unfolded reconcile_def] this] show ?thesis
    by (simp add: tallied_def empty_result_def)
qed

theorem reconcile_drops_nothing_witness:
  "{#''RF-001'', ''RF-002''#} = mset (map rf_id (filter (\<lambda>f. rf_status f \<notin> {''FIXED'', ''VERIFIED''}) (all_findings demo_store)))"
proof -
  have "reconcile demo_args demo_store (Some []) = (None, snd (reconcile demo_args demo_store (Some [])))"
    using demo_reconciled(1) by (metis prod.collapse)
  from reconcile_drops_nothing [OF demo_reachable this] show ?thesis by (simp add: demo_reconciled(2))
qed

text \<open>
  Engineering never accepts a product decision: after reconciliation a proposed finding
  that requires one is a product decision or a duplicate, and reconciliation only ever takes
  steps of the lifecycle.
\<close>

theorem product_decisions_not_accepted:
  assumes "rtranclp store_step empty_store s" "reconcile a s requests = (None, st)"
    and "f \<in> set (all_findings s)" "rf_status f = ''PROPOSED''" "rf_product f"
  shows "\<exists>g. get_finding (rs_store st) (rf_id f) = Inr g
      \<and> rf_status g \<in> {''DUPLICATE'', ''PRODUCT_DECISION_REQUIRED''}
    \<and> rtranclp store_step empty_store (rs_store st)"
proof -
  have ok: "store_ok s" using assms(1) by (rule reachable_ok)
  have "\<exists>g. map_of (fs_findings (rs_store st)) (rf_id f) = Some g \<and> rf_status g \<in> {''DUPLICATE'', ''PRODUCT_DECISION_REQUIRED''}"
    by (rule reconcile_each_product [OF assms(2) [unfolded reconcile_def] _ _ assms(3,5,4)])
      (simp_all add: ok all_findings_ids)
  moreover have "rtranclp store_step s (rs_store st)"
    using reconcile_each_keeps [OF assms(2) [unfolded reconcile_def]] ok by simp
  ultimately show ?thesis using assms(1) by (auto simp: get_finding_def intro: rtranclp_trans)
qed

theorem product_decisions_not_accepted_witness:
  "\<exists>g. get_finding (rs_store (snd (reconcile demo_args demo_store (Some [])))) ''RF-002'' = Inr g
     \<and> rf_status g \<in> {''DUPLICATE'', ''PRODUCT_DECISION_REQUIRED''}"
proof -
  have r: "reconcile demo_args demo_store (Some []) = (None, snd (reconcile demo_args demo_store (Some [])))"
    using demo_reconciled(1) by (metis prod.collapse)
  have "(''RF-002'', ''PROPOSED'', True) \<in> set (map (\<lambda>f. (rf_id f, rf_status f, rf_product f)) (all_findings demo_store))"
    unfolding demo_all by simp
  then obtain f where "f \<in> set (all_findings demo_store)" "rf_id f = ''RF-002''" "rf_status f = ''PROPOSED''" "rf_product f"
    by auto
  with product_decisions_not_accepted [OF demo_reachable r, of f] show ?thesis by auto
qed

text \<open>
  C37. The fixer stays in its scope: a recorded fix is for a finding that was accepted,
  touches only files that accepted, fixed or verified findings name (or that were allowed
  beforehand), and changes no other finding.
\<close>

theorem fix_within_scope:
  assumes "rtranclp store_step empty_store s" "record_fix s extra i fixer commits changed_files = Inr s'"
  shows "\<exists>f. get_finding s i = Inr f \<and> rf_status f = ''ACCEPTED''
    \<and> set changed_files \<subseteq> {rf_file g |g. g \<in> set (all_findings s)
         \<and> rf_status g \<in> {''ACCEPTED'', ''FIXED'', ''VERIFIED''}} \<union> set extra
    \<and> get_finding s' i = Inr (f\<lparr>rf_status := ''FIXED'', rf_fixed_by := Some fixer, rf_commits := commits\<rparr>)
    \<and> (\<forall>j. j \<noteq> i \<longrightarrow> get_finding s' j = get_finding s j)"
proof -
  have ok: "store_ok s" using assms(1) by (rule reachable_ok)
  from assms(2) have scope: "set changed_files \<subseteq> set (scope_files s extra)"
    and rec: "record_fixed s i fixer commits = Inr s'"
    by (auto simp: record_fix_def Let_def filter_empty_conv bindr_def split: if_splits sum.splits)
  from rec obtain f where f: "get_finding s i = Inr f" "rf_status f = ''ACCEPTED''"
    and s': "s' = save_finding (f\<lparr>rf_status := ''FIXED'', rf_fixed_by := Some fixer, rf_commits := commits\<rparr>) s"
    by (auto simp: record_fixed_def)
  have "rf_id f = i" using get_finding_Inr [OF ok f(1)] by simp
  moreover have "set (scope_files s extra) \<subseteq> {rf_file g |g. g \<in> set (all_findings s)
         \<and> rf_status g \<in> {''ACCEPTED'', ''FIXED'', ''VERIFIED''}} \<union> set extra"
    by (auto simp: scope_files_def granted_def)
  ultimately show ?thesis using f scope unfolding s' by (auto simp: get_finding_def save_finding_def)
qed

theorem fix_within_scope_witness:
  "\<exists>f. get_finding demo_accepted ''RF-001'' = Inr f \<and> rf_status f = ''ACCEPTED''"
proof -
  have r: "reconcile demo_args demo_store None = (None, snd (reconcile demo_args demo_store None))"
    by (rule prod_eqI) (code_simp, simp)
  have "rtranclp store_step demo_store demo_accepted"
    using reconcile_each_keeps [OF r [unfolded reconcile_def]] reachable_ok [OF demo_reachable]
    by (simp add: demo_accepted_def reconcile_def)
  with demo_reachable have "rtranclp store_step empty_store demo_accepted" by (rule rtranclp_trans)
  then show ?thesis using demo_fix fix_within_scope by meson
qed

text \<open>
  A new change request never replaces another: its id is not in use, the request is
  stored under it as open, and every other request is as before.
\<close>

theorem change_request_fresh:
  "next_id ps \<notin> set (map fst ps)
   \<and> (\<exists>p. get_request (create_request ps now r) (next_id ps) = Inr p \<and> pc_id p = next_id ps
        \<and> pc_status p = ''OPEN'' \<and> pc_finding p = pc_finding r)
   \<and> map_of (create_request ps now r) = (map_of ps)(next_id ps \<mapsto> r\<lparr>pc_id := next_id ps, pc_status := ''OPEN'',
        pc_result := None, pc_created := now, pc_decided := []\<rparr>)"
  using next_id_fresh [of ps] by (simp add: get_request_def create_request_def)

text \<open>
  The read-only proof decides: comparing the snapshots of two trees at the same tracked
  boundary reports no violation exactly when every tracked file has the same digest, or is
  missing, in both.
\<close>

theorem readonly_proof_decides:
  "verify_unmodified (tracked_file_map hex tracked tree) (tracked_file_map hex tracked tree') = [] \<longleftrightarrow>
     map (\<lambda>r. map_option hex (map_of tree r)) tracked = map (\<lambda>r. map_option hex (map_of tree' r)) tracked"
  by (auto simp: verify_unmodified_Nil map_of_tracked)

end
