(* ===== verification/Governance.thy ===== *)
theory Governance
  imports Workspace
begin

text \<open>
  The decisions that govern a workflow run: the declarative risk policy
  (\<^verbatim>\<open>policies/engine.py\<close>), the requirement traceability report (\<^verbatim>\<open>audit/traceability.py\<close>)
  and the merge gate that reads it (\<^verbatim>\<open>review/merge_gate.py\<close>), the agent registry and its
  read-only proof (\<^verbatim>\<open>agents/registry.py\<close>, \<^verbatim>\<open>agents/permissions.py\<close>), and the validation of
  a routing proposal (\<^verbatim>\<open>agents/router.py\<close>). The records are those of \<^verbatim>\<open>domain/models.py\<close>.
  The gate is shown to say MERGE exactly when its four checks hold, and a routing is accepted
  exactly when it meets the abstract contract of minimum routing.
\<close>

section \<open>Risk policy\<close>

datatype risk_level = LOW | MEDIUM | HIGH

fun risk_rank :: "risk_level \<Rightarrow> nat" where
  "risk_rank LOW = 0"
| "risk_rank MEDIUM = 1"
| "risk_rank HIGH = 2"

instantiation risk_level :: linorder
begin

definition less_eq_risk_level :: "risk_level \<Rightarrow> risk_level \<Rightarrow> bool" where
  "less_eq_risk_level a b \<longleftrightarrow> risk_rank a \<le> risk_rank b"

definition less_risk_level :: "risk_level \<Rightarrow> risk_level \<Rightarrow> bool" where
  "less_risk_level a b \<longleftrightarrow> risk_rank a < risk_rank b"

instance
proof
  fix a b :: risk_level
  show "a \<le> b \<Longrightarrow> b \<le> a \<Longrightarrow> a = b"
    by (cases a; cases b) (simp_all add: less_eq_risk_level_def)
qed (auto simp: less_eq_risk_level_def less_risk_level_def)

end

record policy_rule =
  pr_id :: string
  pr_decision_type :: string
  pr_level :: risk_level
  pr_justification :: string

definition rule :: "string \<Rightarrow> string \<Rightarrow> risk_level \<Rightarrow> string \<Rightarrow> policy_rule" where
  "rule i t l j = \<lparr>pr_id = i, pr_decision_type = t, pr_level = l, pr_justification = j\<rparr>"

definition default_rules :: "policy_rule list" where
  "default_rules =
    [rule ''POL-001'' ''validation.contradiction'' HIGH
       ''Contradictory product requirements: only the PM can decide which side wins.'',
     rule ''POL-002'' ''validation.missing_product_decision'' HIGH
       ''A required product decision is absent from the spec.'',
     rule ''POL-003'' ''validation.unclear_acceptance_criteria'' HIGH
       ''An acceptance criterion cannot be expressed as a verifiable assertion.'',
     rule ''POL-004'' ''validation.activity_only_nsm'' HIGH
       ''The North Star Metric measures activity, not an outcome.'',
     rule ''POL-005'' ''architecture.irreversible_choice'' HIGH
       ''Irreversible architecture choices require human sign-off.'',
     rule ''POL-006'' ''deployment.production_target'' HIGH
       ''Production deployment carries material risk and V1 has no production adapter.'',
     rule ''POL-007'' ''fix.unresolvable_test_failure'' HIGH
       ''Failing checks the fix agent cannot safely resolve need an engineer.'',
     rule ''POL-008'' ''data.destructive_migration'' HIGH
       ''Possible data loss; out of V1 scope entirely.'',
     rule ''POL-009'' ''implementation.auth_token'' MEDIUM
       (''Auth work is security-sensitive but explicitly required by the spec (capability '' @
        ''auth.bearer_token); templates use env-injected tokens with constant-time compare, '' @
        ''and the security gate re-checks the result.''),
     rule ''POL-010'' ''architecture.storage_choice'' MEDIUM
       ''Storage choice follows the declared data model and stack; reversible, logged.'',
     rule ''POL-011'' ''codegen.crud_endpoint'' LOW
       ''Mechanical template expansion of a spec capability.'',
     rule ''POL-012'' ''deployment.local'' LOW
       ''Local process deployment in an isolated workspace; fully reversible.'',
     rule ''POL-013'' ''review.safe_autofix'' LOW
       ''Allow-listed formatting-level fix; all gates re-run afterwards.'']"

definition default_rule :: policy_rule where
  "default_rule = rule ''POL-DEFAULT'' ''*'' HIGH
     ''Unknown decision type: fail closed until an explicit policy rule is admitted.''"

record policy_decision =
  pd_decision_type :: string
  pd_level :: risk_level
  pd_rule_id :: string
  pd_justification :: string

text \<open>\<^verbatim>\<open>PolicyEngine(rules)\<close>: the last rule of a decision type is the one kept.\<close>

definition policy_table :: "policy_rule list \<Rightarrow> (string \<times> policy_rule) list" where
  "policy_table rules = fold (\<lambda>r t. dput (pr_decision_type r) r t) rules []"

definition classify :: "policy_rule list \<Rightarrow> string \<Rightarrow> policy_decision" where
  "classify rules t =
     (let r = (case map_of (policy_table rules) t of None \<Rightarrow> default_rule | Some r \<Rightarrow> r)
      in \<lparr>pd_decision_type = t, pd_level = pr_level r, pd_rule_id = pr_id r,
          pd_justification = pr_justification r\<rparr>)"

definition requires_approval :: "risk_level \<Rightarrow> bool" where
  "requires_approval l \<longleftrightarrow> l = HIGH"

section \<open>Traceability\<close>

definition quoted :: "string \<Rightarrow> string" where
  "quoted s = CHR 0x27 # s @ [CHR 0x27]"

record plan_task =
  pt_id :: string
  pt_title :: string
  pt_component :: string
  pt_kind :: string
  pt_requirements :: "string list"
  pt_depends_on :: "string list"
  pt_complexity :: string

datatype severity = INFO | MINOR | MAJOR | CRITICAL

record review_item =
  ri_id :: string
  ri_category :: string
  ri_severity :: severity
  ri_blocking :: bool
  ri_autofix :: bool
  ri_file :: string
  ri_line :: int
  ri_message :: string
  ri_rule :: string

record deployment_result =
  dr_environment :: string
  dr_url :: string
  dr_healthy :: bool
  dr_journey :: bool
  dr_rollback :: string
  dr_details :: string

record trace_entry =
  te_requirement :: string
  te_tasks :: "string list"
  te_adrs :: "string list"
  te_code :: "string list"
  te_tests :: "string list"
  te_findings :: "string list"
  te_evidence :: string

record trace_report =
  tr_entries :: "trace_entry list"
  tr_complete :: bool
  tr_gaps :: "string list"

text \<open>
  The arguments of \<^verbatim>\<open>TraceabilityBuilder.build\<close>. The specification enters through the ids of
  its functional requirements and the plan through its tasks; \<^verbatim>\<open>workspace\<close> is the test
  \<^verbatim>\<open>(workspace / path).exists()\<close>, or nothing.
\<close>

record trace_args =
  ta_requirements :: "string list"
  ta_plan :: "plan_task list"
  ta_adrs :: "string \<rightharpoonup> string list"
  ta_tests :: "string \<rightharpoonup> string list"
  ta_code :: "string \<rightharpoonup> string list"
  ta_findings :: "review_item list"
  ta_deployment :: "deployment_result option"
  ta_workspace :: "(string \<Rightarrow> bool) option"

definition get_list :: "(string \<rightharpoonup> string list) \<Rightarrow> string \<Rightarrow> string list" where
  "get_list m k = (case m k of None \<Rightarrow> [] | Some xs \<Rightarrow> xs)"

definition trace_evidence :: "deployment_result option \<Rightarrow> string" where
  "trace_evidence dep = (case dep of None \<Rightarrow> []
     | Some r \<Rightarrow> if dr_healthy r \<and> dr_journey r
         then dr_environment r @ '' deploy verified: '' @ dr_details r else [])"

definition missing_code :: "trace_args \<Rightarrow> string \<Rightarrow> string list" where
  "missing_code a fr = (case ta_workspace a of None \<Rightarrow> []
     | Some on_disk \<Rightarrow> filter (\<lambda>c. \<not> on_disk c) (get_list (ta_code a) fr))"

definition kept_code :: "trace_args \<Rightarrow> string \<Rightarrow> string list" where
  "kept_code a fr = (case ta_workspace a of None \<Rightarrow> get_list (ta_code a) fr
     | Some _ \<Rightarrow> filter (\<lambda>c. c \<notin> set (missing_code a fr)) (get_list (ta_code a) fr))"

definition trace_entry_for :: "trace_args \<Rightarrow> string \<Rightarrow> trace_entry" where
  "trace_entry_for a fr =
     \<lparr>te_requirement = fr,
      te_tasks = map pt_id (filter (\<lambda>t. fr \<in> set (pt_requirements t)) (ta_plan a)),
      te_adrs = get_list (ta_adrs a) fr,
      te_code = kept_code a fr,
      te_tests = get_list (ta_tests a) fr,
      te_findings = map ri_id (filter (\<lambda>f. ri_file f \<noteq> [] \<and>
         list_ex (\<lambda>c. str_in (ri_file f) c \<or> str_in c (ri_file f)) (kept_code a fr)) (ta_findings a)),
      te_evidence = trace_evidence (ta_deployment a)\<rparr>"

definition gap_if :: "bool \<Rightarrow> string \<Rightarrow> string list" where
  "gap_if b s = (if b then [s] else [])"

definition trace_gaps_for :: "trace_args \<Rightarrow> string \<Rightarrow> string list" where
  "trace_gaps_for a fr = (let e = trace_entry_for a fr in
     map (\<lambda>p. fr @ '' maps to '' @ quoted p @ '' which does not exist on disk'') (missing_code a fr)
     @ gap_if (te_tasks e = []) (fr @ '' maps to no plan task'')
     @ gap_if (te_adrs e = []) (fr @ '' maps to no architecture decision'')
     @ gap_if (te_code e = []) (fr @ '' maps to no code'')
     @ gap_if (te_tests e = []) (fr @ '' has no tests''))"

definition build_trace :: "trace_args \<Rightarrow> trace_report" where
  "build_trace a = (let gaps = concat (map (trace_gaps_for a) (ta_requirements a)) in
     \<lparr>tr_entries = map (trace_entry_for a) (ta_requirements a), tr_complete = (gaps = []), tr_gaps = gaps\<rparr>)"

section \<open>The merge gate\<close>

record gate_result =
  gr_gate :: string
  gr_passed :: bool
  gr_required :: bool
  gr_details :: string
  gr_duration :: rat
  gr_skipped :: bool

record escalation =
  es_id :: string
  es_risk :: risk_level
  es_reason :: string
  es_step :: string
  es_context :: obj
  es_created_at :: string

record approval =
  ap_escalation :: string
  ap_approver :: string
  ap_reason :: string
  ap_approved :: bool
  ap_timestamp :: string

datatype merge_recommendation = MERGE | NO_MERGE

record merge_decision =
  md_recommendation :: merge_recommendation
  md_reasons :: "string list"
  md_checks :: "(string \<times> bool) list"

text \<open>\<^verbatim>\<open>s[:n]\<close>.\<close>

definition take_points :: "nat \<Rightarrow> string \<Rightarrow> string" where
  "take_points n s = concat (take n (code_points s))"

definition em_dash :: string where
  "em_dash = [CHR 0xE2, CHR 0x80, CHR 0x94]"

definition blocking_items :: "review_item list \<Rightarrow> review_item list" where
  "blocking_items fs = filter ri_blocking fs"

definition failed_gates :: "gate_result list \<Rightarrow> gate_result list" where
  "failed_gates gs = filter (\<lambda>g. gr_required g \<and> \<not> gr_passed g) gs"

definition unapproved :: "(string \<times> approval) list \<Rightarrow> escalation \<Rightarrow> string option" where
  "unapproved approvals e = (case map_of approvals (es_id e) of
      None \<Rightarrow> Some (''escalation '' @ es_id e @ '' has no recorded approval'')
    | Some a \<Rightarrow> if ap_approved a then None
        else Some (''escalation '' @ es_id e @ '' was rejected by '' @ ap_approver a @ '': '' @ ap_reason a))"

definition gate_reason :: "gate_result \<Rightarrow> string" where
  "gate_reason g = ''required gate '' @ quoted (gr_gate g) @ '' failed: '' @ take_points 200 (gr_details g)"

definition finding_reason :: "review_item \<Rightarrow> string" where
  "finding_reason f = ''blocking finding '' @ ri_id f @ '' ['' @ ri_rule f @ ''] at '' @ ri_file f @ '':''
     @ show_int (ri_line f) @ '' '' @ em_dash @ '' '' @ ri_message f"

definition decide_merge ::
  "gate_result list \<Rightarrow> review_item list \<Rightarrow> trace_report \<Rightarrow> escalation list
     \<Rightarrow> (string \<times> approval) list \<Rightarrow> merge_decision" where
  "decide_merge gates review trace escalations approvals =
     (let failed = failed_gates gates;
          open_items = List.map_filter (unapproved approvals) escalations;
          reasons = map gate_reason failed @ map finding_reason (blocking_items review)
            @ (if tr_complete trace then [] else map (\<lambda>g. ''traceability gap: '' @ g) (tr_gaps trace))
            @ open_items;
          checks = [(''required_gates_passed'', failed = []),
                    (''no_blocking_findings'', blocking_items review = []),
                    (''traceability_complete'', tr_complete trace),
                    (''escalations_approved'', open_items = [])]
      in if list_all snd checks
         then \<lparr>md_recommendation = MERGE,
               md_reasons = [''all '' @ show_nat (length (filter gr_required gates)) @ '' required gates passed'',
                 ''no blocking review findings'',
                 ''traceability complete across '' @ show_nat (length (tr_entries trace)) @ '' requirement(s)'',
                 ''escalations approved: '' @ show_nat (length escalations)],
               md_checks = checks\<rparr>
         else \<lparr>md_recommendation = NO_MERGE, md_reasons = reasons, md_checks = checks\<rparr>)"

section \<open>Agent definitions\<close>

record agent_definition =
  ad_name :: string
  ad_description :: string
  ad_tools :: "string list"
  ad_isolation :: string
  ad_path :: string

type_synonym registry = "(string \<times> agent_definition) list"

text \<open>\<^verbatim>\<open>line.partition(":")\<close>: the parts before and after the first colon, if there is one.\<close>

definition partition_colon :: "string \<Rightarrow> (string \<times> string) option" where
  "partition_colon s = (case dropWhile (\<lambda>c. c \<noteq> CHR '':'') s of
      [] \<Rightarrow> None
    | _ # rest \<Rightarrow> Some (takeWhile (\<lambda>c. c \<noteq> CHR '':'') s, rest))"

fun frontmatter :: "string list \<Rightarrow> (string \<times> string) list \<Rightarrow> (string \<times> string) list" where
  "frontmatter [] d = d"
| "frontmatter (line # rest) d =
     (if strip line = ''---'' then d
      else (case partition_colon line of
          None \<Rightarrow> frontmatter rest d
        | Some (k, v) \<Rightarrow> frontmatter rest (dput (strip k) (strip v) d)))"

definition field :: "(string \<times> string) list \<Rightarrow> string \<Rightarrow> string" where
  "field d k = (case map_of d k of None \<Rightarrow> [] | Some v \<Rightarrow> v)"

definition parse_agent :: "string \<Rightarrow> string \<Rightarrow> agent_definition option" where
  "parse_agent path contents = (case text_lines_from [] contents of
      [] \<Rightarrow> None
    | first # rest \<Rightarrow>
        if strip first \<noteq> ''---'' then None
        else let d = frontmatter rest [] in
          if field d ''name'' = [] then None
          else Some \<lparr>ad_name = field d ''name'', ad_description = field d ''description'',
            ad_tools = filter (\<lambda>t. t \<noteq> []) (map strip (split_on (CHR '','') (field d ''tools''))),
            ad_isolation = field d ''isolation'', ad_path = path\<rparr>)"

datatype agent_error =
    Undecodable string
  | No_definition string
  | Read_only_violation string

text \<open>
  \<^verbatim>\<open>AgentRegistry(agents_dir)\<close> on the directory's Markdown files, given as path and content
  in the order of their paths. A file that is not UTF-8 makes the constructor raise.
\<close>

fun load_agents :: "(string \<times> bytes) list \<Rightarrow> registry \<Rightarrow> agent_error + registry" where
  "load_agents [] reg = Inr reg"
| "load_agents ((path, content) # rest) reg = (case read_text content of
      None \<Rightarrow> Inl (Undecodable path)
    | Some s \<Rightarrow> load_agents rest (case parse_agent path s of
          None \<Rightarrow> reg
        | Some a \<Rightarrow> dput (ad_name a) a reg))"

definition agent_registry :: "(string \<times> bytes) list \<Rightarrow> agent_error + registry" where
  "agent_registry paths = load_agents (sort_key fst paths) []"

definition get_agent :: "registry \<Rightarrow> string \<Rightarrow> agent_error + agent_definition" where
  "get_agent reg name = (case map_of reg name of None \<Rightarrow> Inl (No_definition name) | Some a \<Rightarrow> Inr a)"

definition has_agent :: "registry \<Rightarrow> string \<Rightarrow> bool" where
  "has_agent reg name \<longleftrightarrow> map_of reg name \<noteq> None"

definition all_agents :: "registry \<Rightarrow> agent_definition list" where
  "all_agents reg = map snd reg"

definition v2_agents :: "registry \<Rightarrow> agent_definition list" where
  "v2_agents reg = filter (\<lambda>a. starts_with ''v2-'' (ad_name a)) (map snd reg)"

definition read_only_tools :: "string list" where
  "read_only_tools = [''Read'', ''Grep'', ''Glob'']"

definition reviewer_names :: "string list" where
  "reviewer_names = [''v2-code-reviewer'', ''v2-product-conformance-reviewer'',
     ''v2-architecture-simplicity-reviewer'', ''v2-eval-integrity-auditor'']"

definition fullstack_review_lenses :: "(string \<times> string) list" where
  "fullstack_review_lenses =
    [(''ux-journey'', ''v3-ux-journey-reviewer''),
     (''frontend-accessibility'', ''v3-frontend-accessibility-reviewer''),
     (''backend-api-security'', ''v3-backend-api-security-reviewer''),
     (''architecture-simplicity'', ''v3-architecture-simplicity-reviewer''),
     (''product-conformance'', ''v3-product-conformance-reviewer''),
     (''evidence-integrity'', ''v3-evidence-integrity-reviewer'')]"

definition is_read_only :: "agent_definition \<Rightarrow> bool" where
  "is_read_only a \<longleftrightarrow> ad_tools a \<noteq> [] \<and> list_all (\<lambda>t. t \<in> set read_only_tools) (ad_tools a)"

definition offending_tools :: "agent_definition \<Rightarrow> string list" where
  "offending_tools a =
     (let ts = sorted_set (filter (\<lambda>t. t \<notin> set read_only_tools) (ad_tools a))
      in if ts = [] then [''<inherit-all>''] else ts)"

fun assert_named_read_only :: "registry \<Rightarrow> string list \<Rightarrow> agent_error + unit" where
  "assert_named_read_only reg [] = Inr ()"
| "assert_named_read_only reg (name # names) =
     (if \<not> has_agent reg name
      then Inl (Read_only_violation (''reviewer '' @ quoted name @ '' has no agent definition''))
      else bindr (get_agent reg name) (\<lambda>a.
        if is_read_only a then assert_named_read_only reg names
        else Inl (Read_only_violation (''reviewer '' @ quoted name @ '' is not read-only: tool(s) ''
               @ join '', '' (offending_tools a)))))"

definition assert_reviewers_read_only :: "registry \<Rightarrow> agent_error + unit" where
  "assert_reviewers_read_only reg = assert_named_read_only reg reviewer_names"

definition assert_fullstack_reviewers_read_only :: "registry \<Rightarrow> agent_error + unit" where
  "assert_fullstack_reviewers_read_only reg = assert_named_read_only reg (map snd fullstack_review_lenses)"

section \<open>Routing\<close>

definition specialist_profiles :: "(string \<times> string) list" where
  "specialist_profiles =
    [(''backend'', ''v2-backend-engineer''), (''frontend'', ''frontend-engineer''),
     (''data'', ''data-migration-engineer''), (''eval'', ''eval-engineer''),
     (''security'', ''security-engineer''), (''platform'', ''platform-reliability-engineer''),
     (''test'', ''v2-test-engineer'')]"

definition all_profiles :: "string list" where
  "all_profiles = sorted_set (map snd specialist_profiles)"

text \<open>A routing error carries its message; the other two are the exceptions of ill-typed input.\<close>

datatype routing_error =
    Routing_error string
  | Attribute_error
  | Type_error
  | Key_error string

text \<open>\<^verbatim>\<open>list(v)\<close>, or iteration over \<^verbatim>\<open>v\<close>: a string gives its characters, a dictionary its keys.\<close>

definition py_iter :: "json \<Rightarrow> routing_error + json list" where
  "py_iter v = (case v of
      JList xs \<Rightarrow> Inr xs
    | JStr s \<Rightarrow> Inr (map JStr (code_points s))
    | JObj d \<Rightarrow> Inr (map (JStr \<circ> fst) d)
    | _ \<Rightarrow> Inl Type_error)"

record selection =
  se_agent :: string
  se_tasks :: "string list"
  se_reason :: string

text \<open>The fields one entry of \<^verbatim>\<open>selected\<close> is read into.\<close>

definition read_selection :: "runtime \<Rightarrow> json \<Rightarrow> routing_error + selection" where
  "read_selection rt entry = (case entry of
      JObj d \<Rightarrow> bindr (py_iter (get_or d ''tasks'' (JList []))) (\<lambda>ts.
        Inr \<lparr>se_agent = text_or rt d ''agent'' [], se_tasks = map (py_str (rt_repr rt)) ts,
             se_reason = strip (text_or rt d ''reason'' [])\<rparr>)
    | _ \<Rightarrow> Inl Attribute_error)"

fun assign_tasks :: "string \<Rightarrow> string list \<Rightarrow> (string \<times> string) list
     \<Rightarrow> routing_error + (string \<times> string) list" where
  "assign_tasks agent [] assigned = Inr assigned"
| "assign_tasks agent (t # ts) assigned = (case map_of assigned t of
      Some other \<Rightarrow> Inl (Routing_error (''task '' @ t @ '' assigned to both '' @ other @ '' and '' @ agent))
    | None \<Rightarrow> assign_tasks agent ts (dput t agent assigned))"

text \<open>The loop over \<^verbatim>\<open>selected\<close>: the assignment so far and the selections without tasks.\<close>

fun route_entries :: "runtime \<Rightarrow> registry \<Rightarrow> json list \<Rightarrow> (string \<times> string) list \<Rightarrow> string list
     \<Rightarrow> routing_error + ((string \<times> string) list \<times> string list)" where
  "route_entries rt reg [] assigned idle = Inr (assigned, idle)"
| "route_entries rt reg (entry # entries) assigned idle =
     bindr (read_selection rt entry) (\<lambda>s.
       if \<not> has_agent reg (se_agent s)
       then Inl (Routing_error (''selected specialist '' @ quoted (se_agent s) @ '' has no agent definition ''
              @ em_dash @ '' create .claude/agents/'' @ se_agent s @ ''.md before routing work to it''))
       else if se_reason s = []
       then Inl (Routing_error (''selected specialist '' @ quoted (se_agent s) @ '' has no justification''))
       else bindr (assign_tasks (se_agent s) (se_tasks s) assigned) (\<lambda>assigned'.
         route_entries rt reg entries assigned' (if se_tasks s = [] then idle @ [se_agent s] else idle)))"

fun tasks_by_id :: "runtime \<Rightarrow> obj list \<Rightarrow> (string \<times> obj) list \<Rightarrow> routing_error + (string \<times> obj) list" where
  "tasks_by_id rt [] tab = Inr tab"
| "tasks_by_id rt (t # ts) tab = (case map_of t ''id'' of
      None \<Rightarrow> Inl (Key_error ''id'')
    | Some v \<Rightarrow> tasks_by_id rt ts (dput (py_str (rt_repr rt) v) t tab))"

definition capability_of :: "runtime \<Rightarrow> (string \<times> obj) list \<Rightarrow> string \<Rightarrow> string" where
  "capability_of rt tab t = (case map_of tab t of
      None \<Rightarrow> []
    | Some task \<Rightarrow> text_or rt task ''required_capability'' [])"

fun check_owners :: "runtime \<Rightarrow> (string \<times> obj) list \<Rightarrow> (string \<times> string) list \<Rightarrow> routing_error + unit" where
  "check_owners rt tab [] = Inr ()"
| "check_owners rt tab ((t, agent) # rest) =
     (let capability = capability_of rt tab t in
      case map_of specialist_profiles capability of
        None \<Rightarrow> Inl (Routing_error (''task '' @ t @ '' needs unknown capability '' @ quoted capability))
      | Some owner \<Rightarrow>
          if owner \<noteq> agent
          then Inl (Routing_error (''task '' @ t @ '' needs capability '' @ quoted capability @ '' owned by ''
                 @ owner @ '', but was routed to '' @ agent))
          else check_owners rt tab rest)"

fun explained_agents :: "runtime \<Rightarrow> json list \<Rightarrow> routing_error + string list" where
  "explained_agents rt [] = Inr []"
| "explained_agents rt (JObj d # es) = bindr (explained_agents rt es) (\<lambda>names.
     Inr (if strip (text_or rt d ''reason'' []) \<noteq> [] then py_str (rt_repr rt) (dget d ''agent'') # names else names))"
| "explained_agents rt (_ # es) = Inl Attribute_error"

definition agent_or_none :: "runtime \<Rightarrow> json \<Rightarrow> string" where
  "agent_or_none rt e = (case e of JObj d \<Rightarrow> py_str (rt_repr rt) (dget d ''agent'') | _ \<Rightarrow> [])"

definition raise_if :: "string list \<Rightarrow> string \<Rightarrow> routing_error + unit" where
  "raise_if names message =
     (if names = [] then Inr () else Inl (Routing_error (message @ join '', '' names)))"

definition validate_routing :: "runtime \<Rightarrow> obj list \<Rightarrow> obj \<Rightarrow> registry \<Rightarrow> routing_error + unit" where
  "validate_routing rt tasks routing reg =
     bindr (py_iter (get_or routing ''selected'' (JList []))) (\<lambda>selected.
     bindr (py_iter (get_or routing ''not_selected'' (JList []))) (\<lambda>not_selected.
     bindr (route_entries rt reg selected [] []) (\<lambda>(assigned, idle).
     bindr (tasks_by_id rt tasks []) (\<lambda>by_id.
     bindr (raise_if (sorted_set (filter (\<lambda>t. t \<notin> set (map fst assigned)) (map fst by_id)))
              ''unrouted task(s): '') (\<lambda>_.
     bindr (raise_if (sorted_set (filter (\<lambda>t. t \<notin> set (map fst by_id)) (map fst assigned)))
              ''routing references unknown task(s): '') (\<lambda>_.
     bindr (raise_if idle (''selected specialist(s) with no assigned tasks '' @ em_dash
              @ '' violates minimum routing: '')) (\<lambda>_.
     bindr (check_owners rt by_id assigned) (\<lambda>_.
     bindr (explained_agents rt not_selected) (\<lambda>explained.
       raise_if (filter (\<lambda>p. p \<notin> set (map (agent_or_none rt) selected) \<and> p \<notin> set explained) all_profiles)
         ''not_selected must explain why each unused profile is unnecessary; missing: '')))))))))"

section \<open>Decisions of the policy and the gate\<close>

lemma map_of_policy_fold:
  "map_of (fold (\<lambda>r t. dput (pr_decision_type r) r t) rules tab)
   = map_of tab ++ map_of (map (\<lambda>r. (pr_decision_type r, r)) (rev rules))"
proof (induction rules arbitrary: tab)
  case (Cons r rules)
  show ?case
    unfolding fold_simps Cons.IH by (auto simp: fun_eq_iff map_add_def split: option.split)
qed simp

text \<open>The rule that decides: the last of its decision type, if there is one.\<close>

lemma classify_level_HIGH:
  "pd_level (classify rules t) = HIGH \<longleftrightarrow>
     (case map_of (map (\<lambda>r. (pr_decision_type r, r)) (rev rules)) t of None \<Rightarrow> True | Some r \<Rightarrow> pr_level r = HIGH)"
  by (simp add: classify_def policy_table_def map_of_policy_fold Let_def default_rule_def rule_def split: option.split)

text \<open>
  The policy fails closed: with the shipped rules a decision proceeds without approval
  only for the five named decision types below HIGH; every other decision type, known or
  not, requires approval.
\<close>
theorem policy_fails_closed:
  "requires_approval (pd_level (classify default_rules t)) \<longleftrightarrow>
     t \<notin> {''implementation.auth_token'', ''architecture.storage_choice'', ''codegen.crud_endpoint'',
          ''deployment.local'', ''review.safe_autofix''}"
  unfolding requires_approval_def classify_level_HIGH
  by (simp add: default_rules_def rule_def)

lemma map_filter_Nil: "List.map_filter f xs = [] \<longleftrightarrow> (\<forall>x \<in> set xs. f x = None)"
  by (induction xs) (auto simp: List.map_filter_simps split: option.splits)

lemma unapproved_None: "unapproved ap e = None \<longleftrightarrow> (\<exists>a. map_of ap (es_id e) = Some a \<and> ap_approved a)"
  by (simp add: unapproved_def split: option.split)

lemma merge_checks:
  "md_recommendation (decide_merge gs rv tr es ap) = MERGE \<longleftrightarrow>
     failed_gates gs = [] \<and> blocking_items rv = [] \<and> tr_complete tr \<and> (\<forall>e \<in> set es. unapproved ap e = None)"
  by (simp add: decide_merge_def Let_def map_filter_Nil)

lemma no_merge_reasons:
  "md_recommendation (decide_merge gs rv tr es ap) = NO_MERGE \<Longrightarrow>
   md_reasons (decide_merge gs rv tr es ap) = map gate_reason (failed_gates gs) @ map finding_reason (blocking_items rv)
     @ (if tr_complete tr then [] else map (\<lambda>g. ''traceability gap: '' @ g) (tr_gaps tr))
     @ List.map_filter (unapproved ap) es"
  by (simp add: decide_merge_def Let_def split: if_splits)

section \<open>Traceability\<close>

lemma gap_if_Nil [simp]: "gap_if b s = [] \<longleftrightarrow> \<not> b"
  by (simp add: gap_if_def)

text \<open>What a requirement needs to be traceable.\<close>

definition traceable :: "trace_args \<Rightarrow> string \<Rightarrow> bool" where
  "traceable a fr \<longleftrightarrow>
     list_ex (\<lambda>t. fr \<in> set (pt_requirements t)) (ta_plan a) \<and>
     get_list (ta_adrs a) fr \<noteq> [] \<and> get_list (ta_tests a) fr \<noteq> [] \<and> get_list (ta_code a) fr \<noteq> [] \<and>
     (case ta_workspace a of None \<Rightarrow> True | Some on_disk \<Rightarrow> list_all on_disk (get_list (ta_code a) fr))"

lemma no_gaps_traceable: "trace_gaps_for a fr = [] \<longleftrightarrow> traceable a fr"
proof (cases "ta_workspace a")
  case None
  then show ?thesis
    by (auto simp: trace_gaps_for_def Let_def trace_entry_for_def kept_code_def missing_code_def traceable_def
        filter_empty_conv list_ex_iff)
next
  case (Some on_disk)
  show ?thesis
  proof (cases "missing_code a fr = []")
    case True
    then have "list_all on_disk (get_list (ta_code a) fr)" "kept_code a fr = get_list (ta_code a) fr"
      using Some by (auto simp: missing_code_def filter_empty_conv list_all_iff kept_code_def)
    with True Some show ?thesis
      by (auto simp: trace_gaps_for_def Let_def trace_entry_for_def traceable_def filter_empty_conv list_ex_iff)
  next
    case False
    then show ?thesis
      using Some by (auto simp: trace_gaps_for_def Let_def traceable_def missing_code_def filter_empty_conv list_all_iff)
  qed
qed

lemma trace_complete: "tr_complete (build_trace a) \<longleftrightarrow> (\<forall>fr \<in> set (ta_requirements a). traceable a fr)"
  by (simp add: build_trace_def Let_def no_gaps_traceable)

lemma trace_complete_gaps: "tr_complete (build_trace a) \<longleftrightarrow> tr_gaps (build_trace a) = []"
  by (simp add: build_trace_def Let_def)

text \<open>
  C18. The merge gate says MERGE exactly when every required gate passed, no finding blocks,
  every functional requirement is traceable to a task, a decision, tests and code that exists,
  and every escalation has a positive approval; so an approval never makes up for a failing
  gate. Either way it states at least one reason.
\<close>
theorem merge_gate_decides:
  "(md_recommendation (decide_merge gs rv (build_trace a) es ap) = MERGE \<longleftrightarrow>
      (\<forall>g \<in> set gs. gr_required g \<longrightarrow> gr_passed g) \<and> (\<forall>f \<in> set rv. \<not> ri_blocking f) \<and>
      (\<forall>fr \<in> set (ta_requirements a). traceable a fr) \<and>
      (\<forall>e \<in> set es. \<exists>x. map_of ap (es_id e) = Some x \<and> ap_approved x)) \<and>
   md_reasons (decide_merge gs rv (build_trace a) es ap) \<noteq> []"
proof
  show "md_recommendation (decide_merge gs rv (build_trace a) es ap) = MERGE \<longleftrightarrow>
      (\<forall>g \<in> set gs. gr_required g \<longrightarrow> gr_passed g) \<and> (\<forall>f \<in> set rv. \<not> ri_blocking f) \<and>
      (\<forall>fr \<in> set (ta_requirements a). traceable a fr) \<and>
      (\<forall>e \<in> set es. \<exists>x. map_of ap (es_id e) = Some x \<and> ap_approved x)"
    unfolding merge_checks trace_complete unapproved_None
    by (simp add: failed_gates_def blocking_items_def filter_empty_conv)
  show "md_reasons (decide_merge gs rv (build_trace a) es ap) \<noteq> []"
  proof (cases "md_recommendation (decide_merge gs rv (build_trace a) es ap)")
    case MERGE
    then show ?thesis by (simp add: decide_merge_def Let_def split: if_splits)
  next
    case NO_MERGE
    then have "\<not> (failed_gates gs = [] \<and> blocking_items rv = [] \<and> tr_complete (build_trace a)
        \<and> (\<forall>e \<in> set es. unapproved ap e = None))"
      using merge_checks [of gs rv "build_trace a" es ap] by simp
    then show ?thesis
      unfolding no_merge_reasons [OF NO_MERGE] trace_complete_gaps [symmetric]
      using trace_complete_gaps [of a] map_filter_Nil [of "unapproved ap" es] by auto
  qed
qed

definition demo_trace :: trace_args where
  "demo_trace = \<lparr>ta_requirements = [''FR-1''], ta_plan = [\<lparr>pt_id = ''T-1'', pt_title = [], pt_component = [], pt_kind = ''feature'',
       pt_requirements = [''FR-1''], pt_depends_on = [], pt_complexity = ''S''\<rparr>],
     ta_adrs = [''FR-1'' \<mapsto> [''ADR-1'']], ta_tests = [''FR-1'' \<mapsto> [''t.py'']], ta_code = [''FR-1'' \<mapsto> [''a.py'']],
     ta_findings = [], ta_deployment = None, ta_workspace = Some (\<lambda>p. p = ''a.py'')\<rparr>"

definition demo_escalation :: escalation where
  "demo_escalation = \<lparr>es_id = ''E1'', es_risk = HIGH, es_reason = ''risk'', es_step = ''build'', es_context = [], es_created_at = []\<rparr>"

definition demo_approval :: "bool \<Rightarrow> approval" where
  "demo_approval b = \<lparr>ap_escalation = ''E1'', ap_approver = ''pm'', ap_reason = ''ok'', ap_approved = b,
     ap_timestamp = []\<rparr>"

definition demo_gate :: gate_result where
  "demo_gate = \<lparr>gr_gate = ''unit'', gr_passed = True, gr_required = True, gr_details = [],
     gr_duration = 0, gr_skipped = False\<rparr>"

theorem merge_gate_decides_witness:
  "md_recommendation (decide_merge [demo_gate] []
     (build_trace demo_trace) [demo_escalation] [(''E1'', demo_approval True)]) = MERGE"
  using merge_gate_decides [of "[demo_gate]" "[]"
      demo_trace "[demo_escalation]" "[(''E1'', demo_approval True)]"]
  by (simp add: demo_trace_def demo_gate_def demo_escalation_def demo_approval_def traceable_def get_list_def)

section \<open>The read-only proof\<close>

lemma assert_named_iff:
  "assert_named_read_only reg names = Inr () \<longleftrightarrow>
     (\<forall>n \<in> set names. \<exists>a. map_of reg n = Some a \<and> is_read_only a)"
  by (induction names) (auto simp: has_agent_def get_agent_def)

text \<open>An agent without a tool list inherits every tool, and is refused.\<close>

lemma no_tools_not_read_only: "ad_tools a = [] \<Longrightarrow> \<not> is_read_only a"
  by (simp add: is_read_only_def)

section \<open>Minimum routing\<close>

fun mapr :: "('a \<Rightarrow> 'e + 'b) \<Rightarrow> 'a list \<Rightarrow> 'e + 'b list" where
  "mapr f [] = Inr []"
| "mapr f (x # xs) = bindr (f x) (\<lambda>y. bindr (mapr f xs) (\<lambda>ys. Inr (y # ys)))"

lemma assign_tasks_iff:
  "assign_tasks a ts as = Inr as' \<longleftrightarrow>
     distinct ts \<and> set ts \<inter> set (map fst as) = {} \<and> as' = as @ map (\<lambda>t. (t, a)) ts"
proof (induction ts arbitrary: as)
  case (Cons t ts)
  show ?case
  proof (cases "map_of as t")
    case None
    then have new: "t \<notin> set (map fst as)" by (simp add: map_of_eq_None_iff)
    show ?thesis using None new by (auto simp: Cons.IH dput_fresh)
  next
    case (Some b)
    then have "t \<in> set (map fst as)" by (metis map_of_eq_None_iff option.distinct(1) set_map)
    then show ?thesis using Some by auto
  qed
qed auto

definition routed :: "selection list \<Rightarrow> (string \<times> string) list" where
  "routed sel = concat (map (\<lambda>s. map (\<lambda>t. (t, se_agent s)) (se_tasks s)) sel)"

lemma routed_simps [simp]:
  "routed [] = []"
  "routed (s # sel) = map (\<lambda>t. (t, se_agent s)) (se_tasks s) @ routed sel"
  by (simp_all add: routed_def)

lemma fst_routed: "map fst (routed sel) = concat (map se_tasks sel)"
  by (induction sel) (simp_all add: comp_def)

lemma set_routed: "set (routed sel) = {(t, se_agent s) |s t. s \<in> set sel \<and> t \<in> set (se_tasks s)}"
  by (auto simp: routed_def)

lemma route_entries_iff:
  "route_entries rt reg es as idle = Inr (as', idle') \<longleftrightarrow>
     (\<exists>sel. mapr (read_selection rt) es = Inr sel \<and>
        (\<forall>s \<in> set sel. has_agent reg (se_agent s) \<and> se_reason s \<noteq> []) \<and>
        distinct (map fst (routed sel)) \<and> set (map fst (routed sel)) \<inter> set (map fst as) = {} \<and>
        as' = as @ routed sel \<and> idle' = idle @ map se_agent (filter (\<lambda>s. se_tasks s = []) sel))"
proof (induction es arbitrary: as idle)
  case (Cons e es)
  show ?case
  proof (cases "read_selection rt e")
    case (Inr s)
    show ?thesis
      by (auto simp: Inr Cons.IH assign_tasks_iff comp_def image_Un image_image Int_Un_distrib Int_Un_distrib2 Int_commute)
  qed simp
qed auto

lemma check_owners_iff:
  "check_owners rt tab as = Inr () \<longleftrightarrow>
     (\<forall>(t, a) \<in> set as. map_of specialist_profiles (capability_of rt tab t) = Some a)"
  by (induction rt tab as rule: check_owners.induct) (auto simp: Let_def split: option.split)

lemma raise_if_Inr [simp]: "raise_if names m = Inr u \<longleftrightarrow> names = []"
  by (simp add: raise_if_def)

text \<open>
  What is read from the proposal, and the contract on it: every selection has an agent file, a
  justification and work, every task is routed exactly once, to the owner of its capability,
  no other task is, and every profile that is not selected is explained.
\<close>

definition read_routing ::
  "runtime \<Rightarrow> obj list \<Rightarrow> obj \<Rightarrow> routing_error + (selection list \<times> string list \<times> (string \<times> obj) list)" where
  "read_routing rt tasks routing =
     bindr (py_iter (get_or routing ''selected'' (JList []))) (\<lambda>selected.
     bindr (py_iter (get_or routing ''not_selected'' (JList []))) (\<lambda>not_selected.
     bindr (mapr (read_selection rt) selected) (\<lambda>sel.
     bindr (tasks_by_id rt tasks []) (\<lambda>by_id.
     bindr (explained_agents rt not_selected) (\<lambda>expl. Inr (sel, expl, by_id))))))"

definition minimum_routing ::
  "registry \<Rightarrow> (string \<Rightarrow> string) \<Rightarrow> string set \<Rightarrow> selection list \<Rightarrow> string set \<Rightarrow> bool" where
  "minimum_routing reg capability tasks sel explained \<longleftrightarrow>
     (\<forall>s \<in> set sel. has_agent reg (se_agent s) \<and> se_reason s \<noteq> [] \<and> se_tasks s \<noteq> [] \<and>
        (\<forall>t \<in> set (se_tasks s). map_of specialist_profiles (capability t) = Some (se_agent s))) \<and>
     distinct (concat (map se_tasks sel)) \<and> set (concat (map se_tasks sel)) = tasks \<and>
     snd ` set specialist_profiles \<subseteq> se_agent ` set sel \<union> explained"

lemma read_selection_JObj: "read_selection rt e = Inr s \<Longrightarrow> \<exists>d. e = JObj d \<and> se_agent s = text_or rt d ''agent'' []"
  by (auto simp: read_selection_def split: json.splits)

lemma agent_or_none_eq:
  assumes "read_selection rt e = Inr s" "p \<noteq> []" "p \<noteq> ''None''"
  shows "agent_or_none rt e = p \<longleftrightarrow> se_agent s = p"
proof -
  from read_selection_JObj [OF assms(1)] obtain d
    where "e = JObj d" "se_agent s = text_or rt d ''agent'' []" by blast
  then show ?thesis
    using assms(2,3) by (simp add: agent_or_none_def text_or_def get_or_def dget_def split: option.split)
qed

lemma selected_names:
  assumes "mapr (read_selection rt) es = Inr sel" "p \<noteq> []" "p \<noteq> ''None''"
  shows "p \<in> set (map (agent_or_none rt) es) \<longleftrightarrow> p \<in> se_agent ` set sel"
  using assms(1)
proof (induction es arbitrary: sel)
  case (Cons e es)
  then obtain s sel' where r: "read_selection rt e = Inr s" "mapr (read_selection rt) es = Inr sel'" "sel = s # sel'"
    by auto
  show ?case using Cons.IH [OF r(2)] agent_or_none_eq [OF r(1) assms(2,3)] r(3) by auto
qed simp

lemma profile_names: "set all_profiles = snd ` set specialist_profiles"
  by (simp only: all_profiles_def set_sorted_set set_map)

lemma profile_named: "p \<in> set all_profiles \<Longrightarrow> p \<noteq> [] \<and> p \<noteq> ''None''"
  unfolding profile_names by (auto simp: specialist_profiles_def)

lemma unexplained_iff:
  assumes "mapr (read_selection rt) es = Inr sel"
  shows "filter (\<lambda>p. p \<notin> set (map (agent_or_none rt) es) \<and> p \<notin> set expl) all_profiles = []
     \<longleftrightarrow> snd ` set specialist_profiles \<subseteq> se_agent ` set sel \<union> set expl"
proof -
  have "p \<in> set (map (agent_or_none rt) es) \<longleftrightarrow> p \<in> se_agent ` set sel" if "p \<in> set all_profiles" for p
    by (rule selected_names [OF assms]) (use profile_named [OF that] in simp_all)
  then have "filter (\<lambda>p. p \<notin> set (map (agent_or_none rt) es) \<and> p \<notin> set expl) all_profiles = []
     \<longleftrightarrow> (\<forall>p \<in> set all_profiles. p \<in> se_agent ` set sel \<union> set expl)"
    unfolding filter_empty_conv by (intro ball_cong) simp_all
  then show ?thesis unfolding profile_names subset_eq .
qed

lemma owners_routed:
  "check_owners rt tab (routed sel) = Inr () \<longleftrightarrow>
     (\<forall>s \<in> set sel. \<forall>t \<in> set (se_tasks s). map_of specialist_profiles (capability_of rt tab t) = Some (se_agent s))"
  unfolding check_owners_iff set_routed by blast

lemma set_diff_Nil: "sorted_set (filter (\<lambda>t. t \<notin> B) xs) = [] \<longleftrightarrow> set xs \<subseteq> B"
  by (auto simp: filter_empty_conv)

lemma routing_checks:
  assumes "mapr (read_selection rt) es = Inr sel"
  shows "minimum_routing reg (capability_of rt tab) (set (map fst tab)) sel (set expl) \<longleftrightarrow>
    (\<exists>as idle. route_entries rt reg es [] [] = Inr (as, idle) \<and>
      sorted_set (filter (\<lambda>t. t \<notin> set (map fst as)) (map fst tab)) = [] \<and>
      sorted_set (filter (\<lambda>t. t \<notin> set (map fst tab)) (map fst as)) = [] \<and>
      idle = [] \<and> check_owners rt tab as = Inr () \<and>
      filter (\<lambda>p. p \<notin> set (map (agent_or_none rt) es) \<and> p \<notin> set expl) all_profiles = [])"
    (is "_ \<longleftrightarrow> ?checks")
proof -
  have "?checks \<longleftrightarrow> (\<forall>s \<in> set sel. has_agent reg (se_agent s) \<and> se_reason s \<noteq> []) \<and>
      distinct (concat (map se_tasks sel)) \<and>
      set (map fst tab) \<subseteq> set (concat (map se_tasks sel)) \<and> set (concat (map se_tasks sel)) \<subseteq> set (map fst tab) \<and>
      filter (\<lambda>s. se_tasks s = []) sel = [] \<and> check_owners rt tab (routed sel) = Inr () \<and>
      snd ` set specialist_profiles \<subseteq> se_agent ` set sel \<union> set expl"
    unfolding route_entries_iff unexplained_iff [OF assms] set_diff_Nil by (auto simp: assms fst_routed simp del: set_map set_concat)
  then show ?thesis
    unfolding minimum_routing_def owners_routed filter_empty_conv by blast
qed

text \<open>
  C19. Routing validation decides minimum routing: a proposal is accepted exactly when it can
  be read and meets the contract. Every task then has exactly one specialist, the owner of its
  capability, no specialist is selected without work or justification, and every unused
  profile is explained.
\<close>
theorem routing_is_minimum:
  "validate_routing rt tasks routing reg = Inr () \<longleftrightarrow>
     (\<exists>sel expl by_id. read_routing rt tasks routing = Inr (sel, expl, by_id) \<and>
        minimum_routing reg (capability_of rt by_id) (set (map fst by_id)) sel (set expl))"
proof
  assume "validate_routing rt tasks routing reg = Inr ()"
  then obtain es ns as idle tab expl u where
    read: "py_iter (get_or routing ''selected'' (JList [])) = Inr es"
      "py_iter (get_or routing ''not_selected'' (JList [])) = Inr ns"
      "tasks_by_id rt tasks [] = Inr tab" "explained_agents rt ns = Inr expl"
    and checks: "route_entries rt reg es [] [] = Inr (as, idle)"
      "sorted_set (filter (\<lambda>t. t \<notin> set (map fst as)) (map fst tab)) = []"
      "sorted_set (filter (\<lambda>t. t \<notin> set (map fst tab)) (map fst as)) = []"
      "idle = []" "check_owners rt tab as = Inr u"
      "filter (\<lambda>p. p \<notin> set (map (agent_or_none rt) es) \<and> p \<notin> set expl) all_profiles = []"
    unfolding validate_routing_def bindr_eq_Inr raise_if_Inr split_paired_Ex case_prod_conv by blast
  from checks(1) obtain sel where sel: "mapr (read_selection rt) es = Inr sel"
    unfolding route_entries_iff by blast
  have "minimum_routing reg (capability_of rt tab) (set (map fst tab)) sel (set expl)"
    unfolding routing_checks [OF sel] using checks by simp
  moreover have "read_routing rt tasks routing = Inr (sel, expl, tab)"
    by (simp add: read_routing_def read sel)
  ultimately show "\<exists>sel expl by_id. read_routing rt tasks routing = Inr (sel, expl, by_id) \<and>
      minimum_routing reg (capability_of rt by_id) (set (map fst by_id)) sel (set expl)" by blast
next
  assume "\<exists>sel expl by_id. read_routing rt tasks routing = Inr (sel, expl, by_id) \<and>
      minimum_routing reg (capability_of rt by_id) (set (map fst by_id)) sel (set expl)"
  then obtain sel expl tab es ns where
    read: "py_iter (get_or routing ''selected'' (JList [])) = Inr es"
      "py_iter (get_or routing ''not_selected'' (JList [])) = Inr ns"
      "tasks_by_id rt tasks [] = Inr tab" "explained_agents rt ns = Inr expl"
    and sel: "mapr (read_selection rt) es = Inr sel"
    and contract: "minimum_routing reg (capability_of rt tab) (set (map fst tab)) sel (set expl)"
    by (auto simp: read_routing_def)
  from contract show "validate_routing rt tasks routing reg = Inr ()"
    unfolding routing_checks [OF sel] validate_routing_def read by (auto simp: read raise_if_def)
qed

end
