(* ===== verification/Admission.thy ===== *)
theory Admission
  imports Canonical "HOL-Library.Transitive_Closure_Table"
begin

text \<open>
  The keyed admission receipts of \<^verbatim>\<open>admission/receipts.py\<close>: the owner of a stage admits an
  artifact by writing one immutable receipt under the artifact's kind and digest, and a later
  stage verifies a receipt against the stored bytes and the key provider.

  The receipt directory is a map from kind and file name to an entry, which is either a
  regular file or something the code refuses to read: a symbolic link, or a device or a file
  with several links. The key provider (\<^verbatim>\<open>KeyedFingerprintProvider\<close>, a protocol without an
  implementation in the package) is a record of its three operations, whose results are
  encodable text. What the environment decides during one call, whether the lock file is a
  plain file and whether another process publishes the same name first, is an argument.
  Failing disk operations are not modelled.

  Shown: a receipt that \<^verbatim>\<open>admit\<close> returns is accepted by \<^verbatim>\<open>verify\<close>, at once and after any
  number of further admissions, and no two verified receipts bind one artifact differently.
\<close>

record admission_receipt =
  ar_schema_version :: string
  ar_kind :: string
  ar_digest :: string
  ar_bindings :: "(string \<times> string) list"
  ar_key_version :: string
  ar_fingerprint :: string
  ar_receipt_digest :: string

record key_provider =
  kp_key_version :: string
  kp_fingerprint :: "string \<Rightarrow> bytes \<Rightarrow> string"
  kp_candidates :: "string \<Rightarrow> bytes \<Rightarrow> (string \<times> string) list"

datatype receipt_error = Receipt_error string | Receipt_conflict string

datatype receipt_entry = Regular bytes | Link_entry | Irregular_entry

type_synonym receipt_dir = "string \<times> string \<Rightarrow> receipt_entry option"

definition admission_schema :: string where
  "admission_schema = ''1.0.0''"

definition fingerprint_domain :: string where
  "fingerprint_domain = ''pmpe.artifact-admission.v1''"

definition max_receipt_bytes :: nat where
  "max_receipt_bytes = 65536"

section \<open>Subjects and receipts\<close>

definition kind_char :: "char \<Rightarrow> bool" where
  "kind_char c \<longleftrightarrow> is_upper c \<or> is_digit c \<or> c = CHR ''_''"

definition is_kind :: "string \<Rightarrow> bool" where
  "is_kind s = (case s of [] \<Rightarrow> False
     | c # t \<Rightarrow> is_upper c \<and> 1 \<le> length t \<and> length t \<le> 63 \<and> list_all kind_char t)"

definition is_utf8 :: "string \<Rightarrow> bool" where
  "is_utf8 s \<longleftrightarrow> utf8_decode s \<noteq> None"

definition binding_ok :: "string \<times> json \<Rightarrow> bool" where
  "binding_ok p \<longleftrightarrow> fst p \<noteq> [] \<and> is_utf8 (fst p)
     \<and> (case snd p of JStr s \<Rightarrow> s \<noteq> [] \<and> is_utf8 s | _ \<Rightarrow> False)"

definition binding_text :: "string \<times> json \<Rightarrow> string \<times> string" where
  "binding_text p = (fst p, (case snd p of JStr s \<Rightarrow> s | _ \<Rightarrow> []))"

definition validate_subject :: "string \<Rightarrow> string \<Rightarrow> obj \<Rightarrow> receipt_error + (string \<times> string) list" where
  "validate_subject kind digest bindings =
     (if \<not> is_kind kind then Inl (Receipt_error ''artifact kind is not a bounded canonical identifier'')
      else if \<not> is_digest_str digest then Inl (Receipt_error ''artifact digest is not canonical SHA-256'')
      else if bindings = [] \<or> \<not> list_all binding_ok bindings
      then Inl (Receipt_error ''subject bindings must be non-empty string pairs'')
      else Inr (sort_key fst (map binding_text bindings)))"

definition bindings_json :: "(string \<times> string) list \<Rightarrow> json" where
  "bindings_json b = JObj (map (\<lambda>(k, v). (k, JStr v)) (sort_key fst b))"

definition authority_payload :: "admission_receipt \<Rightarrow> obj" where
  "authority_payload r =
     [(''artifact_digest'', JStr (ar_digest r)), (''artifact_kind'', JStr (ar_kind r)),
      (''key_version'', JStr (ar_key_version r)), (''schema_version'', JStr (ar_schema_version r)),
      (''subject_bindings'', bindings_json (ar_bindings r))]"

definition receipt_dict :: "admission_receipt \<Rightarrow> obj" where
  "receipt_dict r = authority_payload r @
     [(''fingerprint'', JStr (ar_fingerprint r)), (''receipt_digest'', JStr (ar_receipt_digest r))]"

definition receipt_malformed :: receipt_error where
  "receipt_malformed = Receipt_error ''stored admission receipt is malformed''"

text \<open>\<^verbatim>\<open>str(value[k])\<close>, for a key that must be present.\<close>

definition text_field :: "runtime \<Rightarrow> obj \<Rightarrow> string \<Rightarrow> receipt_error + string" where
  "text_field rt d k = (case map_of d k of None \<Rightarrow> Inl receipt_malformed | Some v \<Rightarrow> Inr (py_str (rt_repr rt) v))"

definition receipt_from_dict :: "runtime \<Rightarrow> json \<Rightarrow> receipt_error + admission_receipt" where
  "receipt_from_dict rt v = (case v of
      JObj d \<Rightarrow> (case map_of d ''subject_bindings'' of
          Some (JObj b) \<Rightarrow>
            bindr (text_field rt d ''schema_version'') (\<lambda>schema.
            bindr (text_field rt d ''artifact_kind'') (\<lambda>kind.
            bindr (text_field rt d ''artifact_digest'') (\<lambda>digest.
            bindr (text_field rt d ''key_version'') (\<lambda>key.
            bindr (text_field rt d ''fingerprint'') (\<lambda>fingerprint.
            bindr (text_field rt d ''receipt_digest'') (\<lambda>seal.
              Inr \<lparr>ar_schema_version = schema, ar_kind = kind, ar_digest = digest,
                   ar_bindings = map (\<lambda>(k, x). (k, py_str (rt_repr rt) x)) b,
                   ar_key_version = key, ar_fingerprint = fingerprint, ar_receipt_digest = seal\<rparr>))))))
        | _ \<Rightarrow> Inl receipt_malformed)
    | _ \<Rightarrow> Inl receipt_malformed)"

text \<open>
  A receipt's canonical bytes exist when every string in it is encodable; otherwise
  \<^verbatim>\<open>rfc8785.dumps\<close> raises a \<^verbatim>\<open>ValueError\<close>.
\<close>

definition receipt_encodable :: "admission_receipt \<Rightarrow> bool" where
  "receipt_encodable r \<longleftrightarrow>
     list_all is_utf8 [ar_schema_version r, ar_kind r, ar_digest r, ar_key_version r, ar_fingerprint r]
     \<and> list_all (\<lambda>(k, v). is_utf8 k \<and> is_utf8 v) (ar_bindings r)"

definition receipt_seal :: "runtime \<Rightarrow> admission_receipt \<Rightarrow> string" where
  "receipt_seal rt r = canonical_digest rt (JObj (ddel ''receipt_digest'' (receipt_dict r)))"

definition digest_is_valid :: "runtime \<Rightarrow> admission_receipt \<Rightarrow> bool" where
  "digest_is_valid rt r \<longleftrightarrow> receipt_encodable r \<and> is_digest_str (ar_receipt_digest r)
     \<and> ar_receipt_digest r = receipt_seal rt r"

definition receipt_bytes :: "runtime \<Rightarrow> admission_receipt \<Rightarrow> bytes" where
  "receipt_bytes rt r = canonical_json_bytes rt (JObj (receipt_dict r)) @ [CHR 0x0A]"

definition load_canonical_receipt :: "runtime \<Rightarrow> bytes \<Rightarrow> receipt_error + admission_receipt" where
  "load_canonical_receipt rt payload = (case plain_loads rt payload of
      None \<Rightarrow> Inl receipt_malformed
    | Some v \<Rightarrow> bindr (receipt_from_dict rt v) (\<lambda>r.
        if \<not> (receipt_encodable r \<and> is_utf8 (ar_receipt_digest r)) then Inl receipt_malformed
        else if payload \<noteq> receipt_bytes rt r
        then Inl (Receipt_error ''stored admission receipt is not canonical'')
        else Inr r))"

definition provider_verifies :: "runtime \<Rightarrow> key_provider \<Rightarrow> admission_receipt \<Rightarrow> bool" where
  "provider_verifies rt p r \<longleftrightarrow>
     list_ex (\<lambda>(version, fp). version = ar_key_version r \<and> fp = ar_fingerprint r)
       (kp_candidates p fingerprint_domain (canonical_json_bytes rt (JObj (authority_payload r))))"

section \<open>Admission\<close>

definition receipt_filename :: "string \<Rightarrow> string" where
  "receipt_filename digest = remove_prefix ''sha256:'' digest @ ''.json''"

definition read_entry :: "receipt_entry \<Rightarrow> receipt_error + bytes" where
  "read_entry e = (case e of
      Link_entry \<Rightarrow> Inl (Receipt_error ''admission receipt cannot be opened safely'')
    | Irregular_entry \<Rightarrow> Inl (Receipt_error ''admission receipt is not a bounded regular file'')
    | Regular b \<Rightarrow> if length b > max_receipt_bytes
        then Inl (Receipt_error ''admission receipt is not a bounded regular file'') else Inr b)"

text \<open>Equality of dictionaries, and of receipts, which compare their bindings as dictionaries.\<close>

definition same_bindings :: "(string \<times> string) list \<Rightarrow> (string \<times> string) list \<Rightarrow> bool" where
  "same_bindings a b \<longleftrightarrow> sort_key fst a = sort_key fst b"

definition same_receipt :: "admission_receipt \<Rightarrow> admission_receipt \<Rightarrow> bool" where
  "same_receipt r s \<longleftrightarrow> same_bindings (ar_bindings r) (ar_bindings s) \<and> r\<lparr>ar_bindings := []\<rparr> = s\<lparr>ar_bindings := []\<rparr>"

definition validated_replay ::
  "runtime \<Rightarrow> key_provider \<Rightarrow> bytes \<Rightarrow> string \<Rightarrow> string \<Rightarrow> (string \<times> string) list
     \<Rightarrow> receipt_error + admission_receipt" where
  "validated_replay rt p payload kind digest bindings = (case load_canonical_receipt rt payload of
      Inl _ \<Rightarrow> Inl (Receipt_conflict ''artifact identity was claimed by unsafe authority evidence'')
    | Inr r \<Rightarrow>
        if ar_schema_version r \<noteq> admission_schema \<or> ar_kind r \<noteq> kind \<or> ar_digest r \<noteq> digest
           \<or> \<not> same_bindings (ar_bindings r) bindings \<or> \<not> digest_is_valid rt r \<or> \<not> provider_verifies rt p r
        then Inl (Receipt_conflict ''artifact already has different authority evidence'')
        else Inr r)"

record admission_env =
  ae_lock_safe :: bool
  ae_raced :: "receipt_entry option"

definition new_receipt ::
  "runtime \<Rightarrow> key_provider \<Rightarrow> string \<Rightarrow> string \<Rightarrow> (string \<times> string) list \<Rightarrow> admission_receipt" where
  "new_receipt rt p kind digest bindings =
     (let unsigned = \<lparr>ar_schema_version = admission_schema, ar_kind = kind, ar_digest = digest,
            ar_bindings = bindings, ar_key_version = kp_key_version p, ar_fingerprint = [],
            ar_receipt_digest = []\<rparr>;
          signed = unsigned\<lparr>ar_fingerprint := kp_fingerprint p fingerprint_domain
            (canonical_json_bytes rt (JObj (authority_payload unsigned)))\<rparr>
      in signed\<lparr>ar_receipt_digest := receipt_seal rt signed\<rparr>)"

definition publish ::
  "runtime \<Rightarrow> key_provider \<Rightarrow> admission_env \<Rightarrow> receipt_dir \<Rightarrow> string \<Rightarrow> string \<Rightarrow> (string \<times> string) list
     \<Rightarrow> (receipt_error + admission_receipt) \<times> receipt_dir" where
  "publish rt p env fs kind digest bindings =
     (let r = new_receipt rt p kind digest bindings; target = (kind, receipt_filename digest)
      in if length (receipt_bytes rt r) > max_receipt_bytes
         then (Inl (Receipt_error ''admission receipt exceeds its size limit''), fs)
         else if \<not> provider_verifies rt p r
         then (Inl (Receipt_error ''current admission key is absent or inconsistent in the candidate set''), fs)
         else (case ae_raced env of
             None \<Rightarrow> (Inr r, fs(target \<mapsto> Regular (receipt_bytes rt r)))
           | Some e \<Rightarrow> (case read_entry e of
                 Inl _ \<Rightarrow> Inl (Receipt_conflict ''artifact identity was claimed by unsafe authority evidence'')
               | Inr payload \<Rightarrow> validated_replay rt p payload kind digest bindings, fs(target \<mapsto> e))))"

definition admit_artifact ::
  "runtime \<Rightarrow> key_provider \<Rightarrow> admission_env \<Rightarrow> receipt_dir \<Rightarrow> string \<Rightarrow> string \<Rightarrow> obj
     \<Rightarrow> (receipt_error + admission_receipt) \<times> receipt_dir" where
  "admit_artifact rt p env fs kind digest subject = (case validate_subject kind digest subject of
      Inl e \<Rightarrow> (Inl e, fs)
    | Inr bindings \<Rightarrow>
        if \<not> ae_lock_safe env
        then (Inl (Receipt_error ''admission receipt lock is not a safe regular file''), fs)
        else (case fs (kind, receipt_filename digest) of
            None \<Rightarrow> publish rt p env fs kind digest bindings
          | Some e \<Rightarrow> (case read_entry e of
                Inl x \<Rightarrow> Inl x
              | Inr payload \<Rightarrow> validated_replay rt p payload kind digest bindings, fs)))"

definition verify_receipt ::
  "runtime \<Rightarrow> key_provider \<Rightarrow> receipt_dir \<Rightarrow> admission_receipt \<Rightarrow> string \<Rightarrow> string \<Rightarrow> obj \<Rightarrow> bool" where
  "verify_receipt rt p fs r kind digest subject = (case validate_subject kind digest subject of
      Inl _ \<Rightarrow> False
    | Inr bindings \<Rightarrow>
        if ar_schema_version r \<noteq> admission_schema \<or> ar_kind r \<noteq> kind \<or> ar_digest r \<noteq> digest
           \<or> \<not> same_bindings (ar_bindings r) bindings \<or> \<not> digest_is_valid rt r
        then False
        else (case fs (kind, receipt_filename digest) of
            None \<Rightarrow> False
          | Some e \<Rightarrow> (case read_entry e of
              Inl _ \<Rightarrow> False
            | Inr stored_bytes \<Rightarrow>
                stored_bytes = receipt_bytes rt r \<and>
                (case load_canonical_receipt rt stored_bytes of
                   Inl _ \<Rightarrow> False
                 | Inr stored \<Rightarrow> same_receipt stored r \<and> provider_verifies rt p r))))"

section \<open>What is written reads back\<close>

text \<open>
  What the code relies on of \<^verbatim>\<open>rfc8785.dumps\<close> and \<^verbatim>\<open>json.loads\<close> for one receipt: the stored
  line reads back as the receipt's dictionary, members in sorted order.
\<close>

definition reads_receipt :: "runtime \<Rightarrow> admission_receipt \<Rightarrow> bool" where
  "reads_receipt rt r \<longleftrightarrow> rt_json rt (receipt_bytes rt r) = Some (reparsed (JObj (receipt_dict r)))"

definition provider_text :: "key_provider \<Rightarrow> bool" where
  "provider_text p \<longleftrightarrow> is_utf8 (kp_key_version p) \<and> (\<forall>dom b. is_utf8 (kp_fingerprint p dom b))"

lemma ascii_is_utf8: "list_all (\<lambda>c. (of_char c :: nat) < 128) s \<Longrightarrow> is_utf8 s"
  using ascii_clean [of s] by (auto simp: is_utf8_def clean_string_def)

lemma list_all_take_drop: "list_all P s \<longleftrightarrow> list_all P (take n s) \<and> list_all P (drop n s)"
  using list_all_append [of P "take n s" "drop n s"] by simp

lemma is_digest_str_utf8:
  assumes "is_digest_str s" shows "is_utf8 s"
proof (rule ascii_is_utf8)
  have "take 7 s = ''sha256:''" using assms by (simp add: is_digest_str_def starts_with_def eval_nat_numeral)
  moreover have "list_all (\<lambda>c. (of_char c :: nat) < 128) (drop 7 s)"
    using assms by (auto simp: is_digest_str_def list_all_iff is_hex_lower_def Let_def)
  ultimately show "list_all (\<lambda>c. (of_char c :: nat) < 128) s"
    unfolding list_all_take_drop [of _ s 7] by simp
qed

lemma is_kind_utf8: "is_kind s \<Longrightarrow> is_utf8 s"
  by (rule ascii_is_utf8)
    (auto simp: is_kind_def kind_char_def is_upper_def is_digit_def Let_def list_all_iff split: list.splits)

lemma dict_keys: "map fst (receipt_dict r) = [''artifact_digest'', ''artifact_kind'', ''key_version'', ''schema_version'',
     ''subject_bindings'', ''fingerprint'', ''receipt_digest'']"
  by (simp add: receipt_dict_def authority_payload_def)

lemma dict_distinct: "distinct (map fst (receipt_dict r))"
  unfolding dict_keys by simp

text \<open>The value a stored receipt reads back as: the same members, in another order.\<close>

definition sorted_members :: "(string \<times> string) list \<Rightarrow> obj" where
  "sorted_members b = map (\<lambda>(k, v). (k, JStr v)) (sort_key fst b)"

lemma sorted_members_keys: "map fst (sorted_members b) = map fst (sort_key fst b)"
  by (simp add: sorted_members_def comp_def case_prod_unfold)

lemma reparsed_bindings: "reparsed (bindings_json b) = JObj (sorted_members b)"
proof -
  have "map (\<lambda>(k, v). (k, reparsed v)) (sorted_members b) = sorted_members b"
    by (simp add: sorted_members_def case_prod_unfold)
  moreover have "sort_key fst (sorted_members b) = sorted_members b"
    by (rule sort_key_id_if_sorted) (metis sorted_members_keys sorted_sort_key)
  ultimately show ?thesis by (simp add: bindings_json_def flip: sorted_members_def)
qed

lemma plain_members_fixed:
  "\<forall>p \<in> set d. plain_value rt (snd p) = Some (snd p) \<Longrightarrow> plain_members rt d = Some d"
  by (induction d) auto

lemma plain_fixed:
  assumes "distinct (map fst d)" "\<forall>p \<in> set d. plain_value rt (snd p) = Some (snd p)"
  shows "plain_value rt (JObj d) = Some (JObj d)"
  by (simp add: plain_members_fixed [OF assms(2)] fold_dput_id [OF assms(1)])

lemma distinct_sort_fst: "distinct (map fst (sort_key fst d)) \<longleftrightarrow> distinct (map fst d)"
  by (simp add: distinct_map)

lemma plain_bindings:
  assumes "distinct (map fst b)"
  shows "plain_value rt (JObj (sorted_members b)) = Some (JObj (sorted_members b))"
proof (rule plain_fixed)
  show "distinct (map fst (sorted_members b))"
    using assms unfolding sorted_members_keys distinct_sort_fst .
qed (auto simp: sorted_members_def)

definition read_dict :: "admission_receipt \<Rightarrow> obj" where
  "read_dict r = map (\<lambda>(k, v). (k, reparsed v)) (receipt_dict r)"

lemma read_dict_eq:
  "read_dict r = [(''artifact_digest'', JStr (ar_digest r)), (''artifact_kind'', JStr (ar_kind r)),
      (''key_version'', JStr (ar_key_version r)), (''schema_version'', JStr (ar_schema_version r)),
      (''subject_bindings'', JObj (sorted_members (ar_bindings r))),
      (''fingerprint'', JStr (ar_fingerprint r)), (''receipt_digest'', JStr (ar_receipt_digest r))]"
  by (simp add: read_dict_def receipt_dict_def authority_payload_def reparsed_bindings)

lemma read_dict_distinct: "distinct (map fst (read_dict r))"
  unfolding read_dict_eq by simp

lemma plain_receipt:
  assumes "reads_receipt rt r" "distinct (map fst (ar_bindings r))"
  shows "plain_loads rt (receipt_bytes rt r) = Some (JObj (sort_key fst (read_dict r)))"
proof -
  have "plain_value rt (JObj (sort_key fst (read_dict r))) = Some (JObj (sort_key fst (read_dict r)))"
  proof (rule plain_fixed)
    show "distinct (map fst (sort_key fst (read_dict r)))"
      unfolding distinct_sort_fst by (rule read_dict_distinct)
    show "\<forall>p \<in> set (sort_key fst (read_dict r)). plain_value rt (snd p) = Some (snd p)"
      unfolding set_sort read_dict_eq using plain_bindings [OF assms(2)] by (simp del: plain_value.simps(3))
  qed
  then show ?thesis
    using assms(1) by (simp add: plain_loads_def reads_receipt_def read_dict_def)
qed

lemma from_read_dict:
  assumes "sort_key fst (ar_bindings r) = ar_bindings r"
  shows "receipt_from_dict rt (JObj (sort_key fst (read_dict r))) = Inr r"
proof -
  have "map_of (sort_key fst (read_dict r)) = map_of (read_dict r)"
    by (rule map_of_sort_key_fst [OF read_dict_distinct])
  moreover have "map (\<lambda>(k, x). (k, py_str (rt_repr rt) x)) (sorted_members (ar_bindings r)) = ar_bindings r"
    by (simp add: sorted_members_def assms case_prod_unfold comp_def)
  ultimately show ?thesis
    by (simp add: receipt_from_dict_def text_field_def read_dict_eq)
qed

lemma load_own_bytes:
  assumes "reads_receipt rt r" "distinct (map fst (ar_bindings r))"
    "sort_key fst (ar_bindings r) = ar_bindings r" "receipt_encodable r" "is_utf8 (ar_receipt_digest r)"
  shows "load_canonical_receipt rt (receipt_bytes rt r) = Inr r"
  by (simp add: load_canonical_receipt_def plain_receipt [OF assms(1,2)] from_read_dict [OF assms(3)] assms(4,5))

section \<open>Admitted receipts verify\<close>

lemma validated_bindings:
  assumes "validate_subject kind digest subject = Inr b"
  shows "is_kind kind" "is_digest_str digest" "b = sort_key fst (map binding_text subject)"
    "list_all (\<lambda>(k, v). is_utf8 k \<and> is_utf8 v) b" "sort_key fst b = b"
proof -
  show *: "is_kind kind" "is_digest_str digest" "b = sort_key fst (map binding_text subject)"
    using assms by (simp_all add: validate_subject_def split: if_splits)
  have "list_all binding_ok subject" using assms by (simp add: validate_subject_def split: if_splits)
  then show "list_all (\<lambda>(k, v). is_utf8 k \<and> is_utf8 v) b"
    unfolding *(3) by (auto simp: list_all_iff binding_ok_def binding_text_def split: json.splits)
  show "sort_key fst b = b" unfolding *(3) by (simp add: sort_key_id_if_sorted)
qed

lemma binding_keys: "map fst (map binding_text subject) = map fst subject"
  by (simp add: binding_text_def comp_def)

lemma new_receipt_fields:
  "ar_schema_version (new_receipt rt p kind digest b) = admission_schema"
  "ar_kind (new_receipt rt p kind digest b) = kind" "ar_digest (new_receipt rt p kind digest b) = digest"
  "ar_bindings (new_receipt rt p kind digest b) = b"
  "ar_receipt_digest (new_receipt rt p kind digest b) = receipt_seal rt (new_receipt rt p kind digest b)"
  by (simp_all add: new_receipt_def Let_def)
    (simp add: receipt_seal_def receipt_dict_def authority_payload_def ddel_def)

lemma new_receipt_valid:
  assumes "validate_subject kind digest subject = Inr b" "provider_text p"
  shows "digest_is_valid rt (new_receipt rt p kind digest b)"
proof -
  have "is_utf8 kind" "is_utf8 digest" "is_utf8 admission_schema"
    using validated_bindings [OF assms(1)] is_kind_utf8 is_digest_str_utf8
    by (auto simp: admission_schema_def intro: ascii_is_utf8)
  then have "receipt_encodable (new_receipt rt p kind digest b)"
    using assms(2) validated_bindings(4) [OF assms(1)]
    by (simp add: receipt_encodable_def provider_text_def new_receipt_def Let_def)
  then show ?thesis
    unfolding digest_is_valid_def new_receipt_fields(5) by (simp add: receipt_seal_def)
qed

text \<open>
  The evidence behind a receipt: its fields are those of the subject, its seal holds, the
  provider knows its fingerprint, and a stored entry holds its bytes, from which it is read.
\<close>

definition backed ::
  "runtime \<Rightarrow> key_provider \<Rightarrow> receipt_dir \<Rightarrow> admission_receipt \<Rightarrow> string \<Rightarrow> string \<Rightarrow> (string \<times> string) list \<Rightarrow> bool" where
  "backed rt p fs r kind digest b \<longleftrightarrow>
     ar_schema_version r = admission_schema \<and> ar_kind r = kind \<and> ar_digest r = digest \<and>
     same_bindings (ar_bindings r) b \<and> digest_is_valid rt r \<and> provider_verifies rt p r \<and>
     (\<exists>e. fs (kind, receipt_filename digest) = Some e \<and> read_entry e = Inr (receipt_bytes rt r)) \<and>
     (\<exists>s. load_canonical_receipt rt (receipt_bytes rt r) = Inr s \<and> same_receipt s r)"

lemma same_receipt_refl [simp]: "same_receipt r r"
  by (simp add: same_receipt_def same_bindings_def)

lemma verify_backed:
  "verify_receipt rt p fs r kind digest subject \<longleftrightarrow>
     (\<exists>b. validate_subject kind digest subject = Inr b \<and> backed rt p fs r kind digest b)"
proof (cases "validate_subject kind digest subject")
  case b: (Inr b)
  show ?thesis
  proof (cases "fs (kind, receipt_filename digest)")
    case e: (Some e)
    show ?thesis
    proof (cases "read_entry e")
      case (Inr payload)
      show ?thesis
        by (cases "load_canonical_receipt rt payload") (auto simp: verify_receipt_def backed_def b e Inr)
    qed (simp add: verify_receipt_def backed_def b e)
  qed (simp add: verify_receipt_def backed_def b)
qed (simp add: verify_receipt_def)

lemma replay_backed:
  assumes "validated_replay rt p payload kind digest b = Inr r"
    "fs (kind, receipt_filename digest) = Some e" "read_entry e = Inr payload"
  shows "backed rt p fs r kind digest b"
proof -
  have r: "load_canonical_receipt rt payload = Inr r"
    "ar_schema_version r = admission_schema \<and> ar_kind r = kind \<and> ar_digest r = digest \<and>
     same_bindings (ar_bindings r) b \<and> digest_is_valid rt r \<and> provider_verifies rt p r"
    using assms(1) by (auto simp: validated_replay_def split: sum.splits if_splits)
  have "payload = receipt_bytes rt r"
    using r(1) by (auto simp: load_canonical_receipt_def split: option.splits if_splits)
  with r assms(2,3) show ?thesis unfolding backed_def by auto
qed

lemma publish_backed:
  assumes v: "validate_subject kind digest subject = Inr b" and p: "provider_text p"
    and dist: "distinct (map fst subject)"
    and pub: "publish rt p env fs kind digest b = (Inr r, fs')" and reads: "reads_receipt rt r"
  shows "backed rt p fs' r kind digest b"
proof (cases "ae_raced env")
  case (Some e)
  then show ?thesis
    using pub by (auto simp: publish_def Let_def split: if_splits sum.splits intro: replay_backed)
next
  case None
  with pub have r: "r = new_receipt rt p kind digest b" "provider_verifies rt p r"
      "length (receipt_bytes rt r) \<le> max_receipt_bytes"
      "fs' = fs((kind, receipt_filename digest) \<mapsto> Regular (receipt_bytes rt r))"
    by (auto simp: publish_def Let_def split: if_splits)
  have valid: "digest_is_valid rt r" unfolding r(1) by (rule new_receipt_valid [OF v p])
  have "distinct (map fst b)"
    unfolding validated_bindings(3) [OF v] distinct_sort_fst binding_keys by (rule dist)
  then have "load_canonical_receipt rt (receipt_bytes rt r) = Inr r"
    using load_own_bytes [OF reads] valid validated_bindings(5) [OF v] is_digest_str_utf8
    by (simp add: r(1) new_receipt_fields digest_is_valid_def)
  with valid r(2-4) show ?thesis
    by (simp add: backed_def r(1) new_receipt_fields same_bindings_def read_entry_def)
qed

lemma admit_backed:
  assumes "admit_artifact rt p env fs kind digest subject = (Inr r, fs')" "provider_text p"
    "distinct (map fst subject)" "reads_receipt rt r"
  shows "\<exists>b. validate_subject kind digest subject = Inr b \<and> backed rt p fs' r kind digest b"
proof -
  from assms(1) obtain b where b: "validate_subject kind digest subject = Inr b" and lock: "ae_lock_safe env"
    by (auto simp: admit_artifact_def split: sum.splits if_splits)
  have "backed rt p fs' r kind digest b"
  proof (cases "fs (kind, receipt_filename digest)")
    case None
    then show ?thesis
      using assms(1) b lock publish_backed [OF b assms(2,3) _ assms(4)] by (simp add: admit_artifact_def)
  next
    case (Some e)
    then show ?thesis
      using assms(1) b lock by (auto simp: admit_artifact_def split: sum.splits intro: replay_backed)
  qed
  with b show ?thesis by blast
qed

section \<open>The receipt directory only grows\<close>

inductive admissions :: "runtime \<Rightarrow> receipt_dir \<Rightarrow> receipt_dir \<Rightarrow> bool" for rt where
  none: "admissions rt fs fs"
| more: "admissions rt fs fs' \<Longrightarrow> admit_artifact rt p env fs' kind digest subject = (res, fs'')
    \<Longrightarrow> admissions rt fs fs''"

lemma admit_keeps:
  assumes "admit_artifact rt p env fs kind digest subject = (res, fs')" "fs target = Some e"
  shows "fs' target = Some e"
  using assms
  by (auto simp: admit_artifact_def publish_def Let_def split: sum.splits if_splits option.splits)

lemma admissions_keep:
  assumes "admissions rt fs fs'" "fs target = Some e" shows "fs' target = Some e"
  using assms by induction (auto dest: admit_keeps)

lemma backed_keeps: "backed rt p fs r kind digest b \<Longrightarrow> admissions rt fs fs' \<Longrightarrow> backed rt p fs' r kind digest b"
  unfolding backed_def using admissions_keep by blast

text \<open>
  C14. An admitted receipt is evidence that lasts: a receipt that \<^verbatim>\<open>admit\<close> returned, freshly
  published, replayed, or published first by another process, is accepted by \<^verbatim>\<open>verify\<close> for
  the same subject, then and after any further admissions, failed ones included.
\<close>
theorem admitted_receipt_verifies:
  assumes "admit_artifact rt p env fs kind digest subject = (Inr r, fs')"
    and "provider_text p" "distinct (map fst subject)" "reads_receipt rt r"
    and "admissions rt fs' fs''"
  shows "verify_receipt rt p fs'' r kind digest subject"
  using admit_backed [OF assms(1-4)] backed_keeps [OF _ assms(5)] unfolding verify_backed by blast

text \<open>
  C36. No equivocation: if two receipts for one artifact verify against one directory, whatever
  providers vouch for them, they are the same receipt and their subjects bind the same names
  to the same values.
\<close>
theorem one_receipt_per_artifact:
  assumes "verify_receipt rt p fs r kind digest subject" "verify_receipt rt p' fs r' kind digest subject'"
  shows "same_receipt r r' \<and>
     sort_key fst (map binding_text subject) = sort_key fst (map binding_text subject')"
proof -
  obtain b b' where b: "validate_subject kind digest subject = Inr b" "backed rt p fs r kind digest b"
    "validate_subject kind digest subject' = Inr b'" "backed rt p' fs r' kind digest b'"
    using assms unfolding verify_backed by blast
  then have bytes: "receipt_bytes rt r = receipt_bytes rt r'" unfolding backed_def by auto
  from b obtain s where "load_canonical_receipt rt (receipt_bytes rt r) = Inr s" "same_receipt s r" "same_receipt s r'"
    unfolding backed_def bytes by auto
  then have same: "same_receipt r r'" by (simp add: same_receipt_def same_bindings_def)
  have "same_bindings (ar_bindings r) b" "same_bindings (ar_bindings r') b'"
    using b(2,4) by (simp_all add: backed_def)
  with same have "sort_key fst b = sort_key fst b'" by (simp add: same_receipt_def same_bindings_def)
  with same show ?thesis
    using validated_bindings(3,5) [OF b(1)] validated_bindings(3,5) [OF b(3)] by simp
qed

section \<open>A concrete admission\<close>

definition receipt_subject :: string where
  "receipt_subject = ''sha256:'' @ hex_digits 64 0"

definition demo_provider :: "string list \<Rightarrow> key_provider" where
  "demo_provider versions = \<lparr>kp_key_version = ''k2'', kp_fingerprint = (\<lambda>_ _. ''f''),
     kp_candidates = (\<lambda>_ _. map (\<lambda>v. (v, ''f'')) versions)\<rparr>"

definition demo_subject :: obj where
  "demo_subject = [(''run'', JStr ''1''), (''plan'', JStr ''2'')]"

definition demo_printer :: runtime where
  "demo_printer = (sample_runtime [])\<lparr>rt_dumps := (\<lambda>_. ''x'')\<rparr>"

definition demo_receipt :: admission_receipt where
  "demo_receipt = new_receipt demo_printer (demo_provider [''k2'']) ''AB'' receipt_subject [(''plan'', ''2''), (''run'', ''1'')]"

definition receipt_runtime :: runtime where
  "receipt_runtime = demo_printer\<lparr>rt_json := (\<lambda>_. Some (reparsed (JObj (receipt_dict demo_receipt))))\<rparr>"

definition demo_dir :: receipt_dir where
  "demo_dir = [(''AB'', receipt_filename receipt_subject) \<mapsto> Regular (receipt_bytes receipt_runtime demo_receipt)]"

lemma receipt_valid:
  "validate_subject ''AB'' receipt_subject demo_subject = Inr [(''plan'', ''2''), (''run'', ''1'')]"
  "validate_subject ''AB'' receipt_subject (rev demo_subject) = Inr [(''plan'', ''2''), (''run'', ''1'')]"
proof -
  have "is_digest_str receipt_subject"
    by (simp add: receipt_subject_def is_digest_str_def starts_with_def hex_digits_hex)
  moreover have "is_kind ''AB''" by code_simp
  moreover have "list_all binding_ok demo_subject" by code_simp
  ultimately show "validate_subject ''AB'' receipt_subject demo_subject = Inr [(''plan'', ''2''), (''run'', ''1'')]"
    "validate_subject ''AB'' receipt_subject (rev demo_subject) = Inr [(''plan'', ''2''), (''run'', ''1'')]"
    by (simp_all add: validate_subject_def demo_subject_def binding_text_def)
qed

lemma demo_new: "new_receipt receipt_runtime (demo_provider [''k2'']) ''AB'' receipt_subject [(''plan'', ''2''), (''run'', ''1'')] = demo_receipt"
  by (simp add: demo_receipt_def receipt_runtime_def new_receipt_def receipt_seal_def canonical_digest_def
      canonical_json_bytes_def sha256_digest_def)

lemma demo_reads: "reads_receipt receipt_runtime demo_receipt"
  by (simp add: reads_receipt_def receipt_runtime_def del: reparsed.simps)

lemma demo_provider_text: "provider_text (demo_provider vs)"
proof -
  have "is_utf8 ''k2''" "is_utf8 ''f''" by code_simp+
  then show ?thesis by (simp add: provider_text_def demo_provider_def)
qed

lemma demo_admit:
  "admit_artifact receipt_runtime (demo_provider [''k2'']) \<lparr>ae_lock_safe = True, ae_raced = None\<rparr> (\<lambda>_. None)
     ''AB'' receipt_subject demo_subject = (Inr demo_receipt, demo_dir)"
proof -
  have "receipt_bytes receipt_runtime demo_receipt = [CHR ''x'', CHR 0x0A]"
    by (simp add: receipt_bytes_def receipt_runtime_def demo_printer_def canonical_json_bytes_def)
  moreover have "provider_verifies receipt_runtime (demo_provider [''k2'']) demo_receipt"
    by (simp add: provider_verifies_def demo_provider_def demo_receipt_def new_receipt_def Let_def)
  ultimately show ?thesis
    by (simp add: admit_artifact_def receipt_valid publish_def Let_def demo_new demo_dir_def max_receipt_bytes_def)
qed

lemma demo_distinct: "distinct (map fst demo_subject)"
  by (simp add: demo_subject_def)

lemma demo_backed:
  "backed receipt_runtime (demo_provider [''k2'']) demo_dir demo_receipt ''AB'' receipt_subject [(''plan'', ''2''), (''run'', ''1'')]"
  using admit_backed [OF demo_admit demo_provider_text demo_distinct demo_reads] by (simp add: receipt_valid)

theorem admitted_receipt_verifies_witness:
  "verify_receipt receipt_runtime (demo_provider [''k2'']) demo_dir demo_receipt ''AB'' receipt_subject demo_subject"
  by (rule admitted_receipt_verifies
      [OF demo_admit demo_provider_text demo_distinct demo_reads admissions.none])

theorem one_receipt_per_artifact_witness:
  "same_receipt demo_receipt demo_receipt \<and>
     sort_key fst (map binding_text demo_subject) = sort_key fst (map binding_text (rev demo_subject))"
proof (rule one_receipt_per_artifact)
  show "verify_receipt receipt_runtime (demo_provider [''k2'']) demo_dir demo_receipt ''AB'' receipt_subject demo_subject"
    "verify_receipt receipt_runtime (demo_provider [''k2'']) demo_dir demo_receipt ''AB'' receipt_subject (rev demo_subject)"
    unfolding verify_backed receipt_valid using demo_backed by auto
qed

end
