(* ===== verification/Kernel.thy ===== *)
theory Kernel
  imports Admission
begin

text \<open>
  The execution kernel of \<^verbatim>\<open>execution/kernel.py\<close>: bounded commands and policies, the resolution
  of the executable inside the sandbox, the sandbox's argument vector, the materialisation of
  an exact Git commit, and \<^verbatim>\<open>execute\<close>, which signs what ran and admits it by a receipt.

  Outside the model, and therefore arguments: the host's file system and executables
  (record \<^verbatim>\<open>host\<close>), the bounded subprocess \<^verbatim>\<open>_run_bounded_process\<close> for Git and for the
  sandbox, and SHA-1. The tar container between the two halves of the materialisation is its
  list of members. Command arguments are encodable text.

  Shown: the resolution of \<^verbatim>\<open>/proc/self\<close> aliases reaches its fixed point within the loop's
  bound and never yields a path below \<^verbatim>\<open>/proc\<close>; the planned command ends the argument vector
  unchanged; and what a completed execution has admitted.
\<close>

datatype execution_error =
    Execution_failed string
  | Executable_unavailable string
  | Execution_timed_out
  | Output_limit_exceeded
  | Isolation_unavailable string
  | Cleanup_failed
  | Os_failed
  | Not_admitted receipt_error

section \<open>Commands and policies\<close>

type_synonym command = "string list"

definition argument_ok :: "string \<Rightarrow> bool" where
  "argument_ok a \<longleftrightarrow> a \<noteq> [] \<and> CHR 0x00 \<notin> set a \<and> length a \<le> 8192"

definition execution_command :: "string list \<Rightarrow> execution_error + command" where
  "execution_command argv =
     (if argv = [] \<or> length argv > 128 \<or> \<not> list_all argument_ok argv
      then Inl (Execution_failed ''command must be a bounded non-empty argv tuple'') else Inr argv)"

record execution_policy =
  ep_timeout :: rat
  ep_output :: int
  ep_archive :: int
  ep_memory :: int
  ep_processes :: int
  ep_file :: int
  ep_writable :: int
  ep_open_files :: int
  ep_path :: string

definition default_policy :: execution_policy where
  "default_policy = \<lparr>ep_timeout = 300, ep_output = 1024 * 1024, ep_archive = 64 * 1024 * 1024,
     ep_memory = 1024 * 1024 * 1024, ep_processes = 128, ep_file = 64 * 1024 * 1024,
     ep_writable = 64 * 1024 * 1024, ep_open_files = 256, ep_path = ''/usr/local/bin:/usr/bin:/bin''\<rparr>"

definition path_entry_ok :: "string \<Rightarrow> bool" where
  "path_entry_ok e \<longleftrightarrow> starts_with ''/'' e
     \<and> list_all (\<lambda>p. p \<notin> {[], ''.'', ''..''}) (tl (split_on (CHR ''/'') e))"

definition policy_ok :: "execution_policy \<Rightarrow> bool" where
  "policy_ok p \<longleftrightarrow> 0 < ep_timeout p \<and> ep_timeout p \<le> 3600
     \<and> 0 < ep_output p \<and> ep_output p \<le> 16 * 1024 * 1024
     \<and> 0 < ep_archive p \<and> ep_archive p \<le> 256 * 1024 * 1024
     \<and> 16 * 1024 * 1024 \<le> ep_memory p \<and> ep_memory p \<le> 8 * 1024 * 1024 * 1024
     \<and> 0 < ep_processes p \<and> ep_processes p \<le> 1024
     \<and> 0 < ep_file p \<and> ep_file p \<le> 1024 * 1024 * 1024
     \<and> 1024 * 1024 \<le> ep_writable p \<and> ep_writable p \<le> 1024 * 1024 * 1024
     \<and> 16 \<le> ep_open_files p \<and> ep_open_files p \<le> 4096
     \<and> list_all path_entry_ok (split_on (CHR '':'') (ep_path p)) \<and> CHR 0x00 \<notin> set (ep_path p)"

definition policy_digest :: "runtime \<Rightarrow> execution_policy \<Rightarrow> string" where
  "policy_digest rt p = canonical_digest rt (JObj
     [(''executable_path'', JStr (ep_path p)), (''max_archive_bytes'', JInt (ep_archive p)),
      (''max_file_bytes'', JInt (ep_file p)), (''max_memory_bytes'', JInt (ep_memory p)),
      (''max_open_files'', JInt (ep_open_files p)), (''max_output_bytes'', JInt (ep_output p)),
      (''max_processes'', JInt (ep_processes p)), (''max_writable_bytes'', JInt (ep_writable p)),
      (''timeout_seconds'', JFloat (ep_timeout p))])"

section \<open>POSIX paths\<close>

text \<open>\<^verbatim>\<open>PurePosixPath\<close>: the root, which may be two slashes, and the components.\<close>

type_synonym ppath = "string \<times> string list"

definition posix_path :: "string \<Rightarrow> ppath" where
  "posix_path s =
     (if starts_with ''//'' s \<and> \<not> starts_with ''///'' s then ''//'' else if starts_with ''/'' s then ''/'' else [],
      filter (\<lambda>p. p \<noteq> [] \<and> p \<noteq> ''.'') (split_on (CHR ''/'') s))"

definition path_text :: "ppath \<Rightarrow> string" where
  "path_text p = (if fst p = [] \<and> snd p = [] then ''.'' else fst p @ join ''/'' (snd p))"

text \<open>\<^verbatim>\<open>len(path.parts)\<close>: the root is a part.\<close>

definition parts_count :: "ppath \<Rightarrow> nat" where
  "parts_count p = (if fst p = [] then 0 else 1) + length (snd p)"

text \<open>\<^verbatim>\<open>p.relative_to(base)\<close>, \<^verbatim>\<open>None\<close> for its \<^verbatim>\<open>ValueError\<close>, and \<^verbatim>\<open>base.joinpath(*parts)\<close>.\<close>

definition relative_to :: "ppath \<Rightarrow> ppath \<Rightarrow> string list option" where
  "relative_to p base =
     (if fst p = fst base \<and> take (length (snd base)) (snd p) = snd base
      then Some (drop (length (snd base)) (snd p)) else None)"

definition join_path :: "ppath \<Rightarrow> string list \<Rightarrow> ppath" where
  "join_path base ps = (fst base, snd base @ ps)"

definition root_path :: "string list \<Rightarrow> ppath" where
  "root_path ps = (''/'', ps)"

definition in_proc :: "ppath \<Rightarrow> bool" where
  "in_proc p \<longleftrightarrow> relative_to p (root_path [''proc'']) \<noteq> None"

section \<open>Resolving the executable\<close>

definition path_aliases :: "(ppath \<times> ppath) list" where
  "path_aliases = [(root_path [''proc'', ''self'', ''cwd''], root_path [''workspace'']),
     (root_path [''proc'', ''self'', ''root''], root_path [])]"

fun apply_alias :: "(ppath \<times> ppath) list \<Rightarrow> ppath \<Rightarrow> ppath option" where
  "apply_alias [] p = None"
| "apply_alias ((alias, target) # rest) p = (case relative_to p alias of
      Some rel \<Rightarrow> Some (join_path target rel)
    | None \<Rightarrow> apply_alias rest p)"

fun canonical_loop :: "nat \<Rightarrow> ppath \<Rightarrow> ppath option" where
  "canonical_loop 0 p = (if in_proc p then None else Some p)"
| "canonical_loop (Suc n) p = (case apply_alias path_aliases p of
      Some q \<Rightarrow> canonical_loop n q
    | None \<Rightarrow> if in_proc p then None else Some p)"

definition canonical_sandbox_path :: "ppath \<Rightarrow> ppath option" where
  "canonical_sandbox_path p = canonical_loop (parts_count p + 1) p"

record host =
  ho_resolve_strict :: "ppath \<Rightarrow> ppath option"   \<comment> \<open>\<^verbatim>\<open>resolve(strict=True)\<close>, nothing for an \<^verbatim>\<open>OSError\<close>\<close>
  ho_resolve :: "ppath \<Rightarrow> ppath"
  ho_runnable :: "ppath \<Rightarrow> bool"                 \<comment> \<open>\<^verbatim>\<open>is_file()\<close> and \<^verbatim>\<open>os.access(.., os.X_OK)\<close>\<close>
  ho_which :: "string \<Rightarrow> string option"
  ho_available :: bool                           \<comment> \<open>\<^verbatim>\<open>is_available()\<close>\<close>
  ho_status_fd :: nat

definition runtime_roots :: "ppath list" where
  "runtime_roots = map root_path
     [[''etc'', ''alternatives''], [''usr''], [''bin''], [''sbin''], [''lib''], [''lib64'']]"

definition below_roots :: "ppath \<Rightarrow> bool" where
  "below_roots p \<longleftrightarrow> list_ex (\<lambda>r. relative_to p r \<noteq> None) runtime_roots"

definition host_path :: "host \<Rightarrow> ppath \<Rightarrow> ppath \<Rightarrow> ppath option" where
  "host_path h workspace p =
     (if list_ex (\<lambda>x. x = ''.'' \<or> x = ''..'') (snd p) then None
      else (case relative_to p (root_path [''workspace'']) of
          None \<Rightarrow>
            (if relative_to p (root_path [''tmp'']) \<noteq> None then None
             else if \<not> below_roots p then None
             else (case ho_resolve_strict h p of
                 None \<Rightarrow> None
               | Some r \<Rightarrow> if below_roots r then Some p else None))
        | Some rel \<Rightarrow>
            (let candidate = ho_resolve h (join_path workspace rel)
             in if relative_to candidate (ho_resolve h workspace) = None then None else Some candidate)))"

fun search_path :: "host \<Rightarrow> ppath \<Rightarrow> string \<Rightarrow> string list \<Rightarrow> (ppath \<times> ppath) option" where
  "search_path h workspace name [] = None"
| "search_path h workspace name (entry # entries) =
     (case canonical_sandbox_path (join_path (posix_path entry) (snd (posix_path name))) of
        None \<Rightarrow> search_path h workspace name entries
      | Some candidate \<Rightarrow> (case host_path h workspace candidate of
            None \<Rightarrow> search_path h workspace name entries
          | Some found \<Rightarrow> if ho_runnable h found then Some (found, candidate)
              else search_path h workspace name entries))"

text \<open>The executable on the host and its name in the sandbox.\<close>

definition find_executable :: "host \<Rightarrow> ppath \<Rightarrow> string \<Rightarrow> execution_policy \<Rightarrow> (ppath \<times> ppath) option" where
  "find_executable h workspace name policy =
     (let requested = posix_path name in
      if fst requested \<noteq> [] then
        (case canonical_sandbox_path requested of
           None \<Rightarrow> None
         | Some s \<Rightarrow> map_option (\<lambda>e. (e, s)) (host_path h workspace s))
      else if CHR ''/'' \<in> set name then
        (let executable = ho_resolve h (join_path workspace (snd requested)) in
         map_option (\<lambda>rel. (executable, join_path (root_path [''workspace'']) rel))
           (relative_to executable (ho_resolve h workspace)))
      else search_path h workspace name (split_on (CHR '':'') (ep_path policy)))"

section \<open>The sandbox's argument vector\<close>

definition ro_bind_try :: "string list \<Rightarrow> string list" where
  "ro_bind_try ps = concat (map (\<lambda>p. [''--ro-bind-try'', p, p]) ps)"

definition bwrap_argv :: "string \<Rightarrow> ppath \<Rightarrow> command \<Rightarrow> execution_policy \<Rightarrow> nat option \<Rightarrow> string list" where
  "bwrap_argv executable workspace command policy status_fd =
     [executable, ''--die-with-parent'', ''--new-session'', ''--unshare-all'', ''--clearenv'', ''--tmpfs'', ''/'',
      ''--dir'', ''/etc'', ''--dir'', ''/workspace'', ''--ro-bind'', path_text workspace, ''/workspace'']
     @ ro_bind_try [''/usr'', ''/bin'', ''/sbin'', ''/lib'', ''/lib64'']
     @ ro_bind_try [''/etc/alternatives'', ''/etc/group'', ''/etc/ld.so.cache'', ''/etc/ld.so.conf'',
         ''/etc/ld.so.conf.d'', ''/etc/localtime'', ''/etc/nsswitch.conf'', ''/etc/passwd'']
     @ [''--dev'', ''/dev'', ''--remount-ro'', ''/dev'', ''--proc'', ''/proc'', ''--size'', show_int (ep_writable policy),
        ''--tmpfs'', ''/tmp'', ''--dir'', ''/tmp/home'', ''--setenv'', ''HOME'', ''/tmp/home'', ''--setenv'', ''PATH'',
        ep_path policy, ''--remount-ro'', ''/'', ''--chdir'', ''/workspace'']
     @ (case status_fd of None \<Rightarrow> [] | Some fd \<Rightarrow> [''--json-status-fd'', show_nat fd])
     @ ''--'' # command"

definition resource_argv :: "string \<Rightarrow> string \<Rightarrow> ppath \<Rightarrow> command \<Rightarrow> execution_policy \<Rightarrow> nat \<Rightarrow> string list" where
  "resource_argv limiter sandbox workspace command policy status_fd =
     [limiter, ''--as='' @ show_int (ep_memory policy), ''--cpu='' @ show_int (\<lceil>ep_timeout policy\<rceil> + 1),
      ''--fsize='' @ show_int (ep_file policy), ''--nofile='' @ show_int (ep_open_files policy),
      ''--nproc='' @ show_int (ep_processes policy), ''--'']
     @ bwrap_argv sandbox workspace command policy (Some status_fd)"

definition cgroup_argv ::
  "string \<Rightarrow> string \<Rightarrow> string \<Rightarrow> ppath \<Rightarrow> command \<Rightarrow> execution_policy \<Rightarrow> nat \<Rightarrow> string list" where
  "cgroup_argv cgroup_limiter limiter sandbox workspace command policy status_fd =
     [cgroup_limiter, ''--scope'', ''--quiet'', ''--collect'', ''--property'', ''MemoryMax='' @ show_int (ep_memory policy),
      ''--property'', ''MemorySwapMax=0'', ''--property'', ''TasksMax='' @ show_int (ep_processes policy), ''--'']
     @ resource_argv limiter sandbox workspace command policy status_fd"

record command_outcome =
  co_return_code :: int
  co_stdout :: bytes
  co_stderr :: bytes
  co_status :: bytes
  co_executable :: string

text \<open>
  \<^verbatim>\<open>BubblewrapSandbox.run\<close>; the last argument is \<^verbatim>\<open>_run_bounded_process\<close> under the policy's
  time and output limits.
\<close>

definition sandbox_run ::
  "host \<Rightarrow> ppath \<Rightarrow> command \<Rightarrow> execution_policy \<Rightarrow> (string list \<Rightarrow> execution_error + command_outcome)
     \<Rightarrow> execution_error + command_outcome" where
  "sandbox_run h workspace command policy process = (case find_executable h workspace (hd command) policy of
      None \<Rightarrow> Inl (Executable_unavailable (hd command))
    | Some (executable, name) \<Rightarrow>
        if \<not> ho_runnable h executable then Inl (Executable_unavailable (hd command))
        else (case ho_which h ''bwrap'' of
            None \<Rightarrow> Inl (Isolation_unavailable ''bubblewrap is unavailable'')
          | Some sandbox \<Rightarrow> (case ho_which h ''prlimit'' of
              None \<Rightarrow> Inl (Isolation_unavailable ''process resource limiter is unavailable'')
            | Some limiter \<Rightarrow> (case ho_which h ''systemd-run'' of
                None \<Rightarrow> Inl (Isolation_unavailable ''aggregate cgroup limiter is unavailable'')
              | Some cgroup \<Rightarrow>
                  if \<not> ho_available h then Inl (Isolation_unavailable ''bubblewrap could not establish isolation'')
                  else bindr (process (cgroup_argv cgroup limiter sandbox workspace command policy (ho_status_fd h)))
                    (\<lambda>out. if co_status out = []
                      then Inl (Isolation_unavailable ''bubblewrap could not establish isolation'')
                      else Inr (out\<lparr>co_executable := path_text name\<rparr>))))))"

section \<open>Materialising a commit\<close>

definition is_commit :: "string \<Rightarrow> bool" where
  "is_commit s \<longleftrightarrow> (length s = 40 \<or> length s = 64) \<and> list_all is_hex_lower s"

definition safe_archive_path :: "string \<Rightarrow> execution_error + ppath" where
  "safe_archive_path name =
     (if name = [] \<or> fst (posix_path name) \<noteq> [] \<or> ''..'' \<in> set (snd (posix_path name))
      then Inl (Execution_failed ''repository archive contains an unsafe path'') else Inr (posix_path name))"

datatype member_kind = Directory_member | File_member | Other_member

record archive_member =
  am_name :: string
  am_kind :: member_kind
  am_size :: nat
  am_executable :: bool
  am_payload :: bytes

text \<open>
  \<^verbatim>\<open>_exact_commit_archive\<close>. \<^verbatim>\<open>git\<close> answers an argument vector with a return code and the
  bytes on standard output, or raises; \<^verbatim>\<open>sha1\<close> is the hexadecimal SHA-1.
\<close>

record git_env =
  ge_directory :: bool
  ge_git :: "string list \<Rightarrow> execution_error + int \<times> bytes"
  ge_sha1 :: "bytes \<Rightarrow> string"
  ge_tar_size :: "archive_member list \<Rightarrow> nat"
  ge_in_time :: bool                   \<comment> \<open>the last reading of the clock is within the budget\<close>

definition git_base :: "string list" where
  "git_base = [''git'', ''--no-replace-objects'', ''-c'', ''core.hooksPath=/dev/null'', ''-c'',
     ''protocol.file.allow=never'']"

text \<open>\<^verbatim>\<open>split(sep, n)\<close> at the first \<^verbatim>\<open>n\<close> separators.\<close>

fun split_first :: "char \<Rightarrow> nat \<Rightarrow> bytes \<Rightarrow> bytes list" where
  "split_first c 0 s = [s]"
| "split_first c (Suc n) s = (case dropWhile (\<lambda>x. x \<noteq> c) s of
      [] \<Rightarrow> [s]
    | _ # rest \<Rightarrow> takeWhile (\<lambda>x. x \<noteq> c) s # split_first c n rest)"

definition is_ascii :: "bytes \<Rightarrow> bool" where
  "is_ascii b \<longleftrightarrow> list_all (\<lambda>c. (of_char c :: nat) < 128) b"

text \<open>Mode, object type, object id and path of one record of \<^verbatim>\<open>ls-tree\<close>.\<close>

definition tree_record :: "bytes \<Rightarrow> (string \<times> string \<times> string \<times> string) option" where
  "tree_record r = (case split_first (CHR 0x09) 1 r of
      [header, path] \<Rightarrow>
        (if is_ascii header \<and> is_utf8 path then
           (case split_first (CHR '' '') 2 header of
              [mode, ty, oid] \<Rightarrow> Some (mode, ty, oid, path)
            | _ \<Rightarrow> None)
         else None)
    | _ \<Rightarrow> None)"

definition object_identity :: "runtime \<Rightarrow> git_env \<Rightarrow> string \<Rightarrow> bytes \<Rightarrow> execution_error + string" where
  "object_identity rt g oid blob =
     (let content = ''blob '' @ show_nat (length blob) @ [CHR 0x00] @ blob in
      if length oid = 40 then Inr (ge_sha1 g content)
      else if length oid = 64 then Inr (hex_digits 64 (rt_sha256 rt content))
      else Inl (Execution_failed ''repository object identity is malformed''))"

definition read_member :: "runtime \<Rightarrow> git_env \<Rightarrow> int \<Rightarrow> bytes \<Rightarrow> execution_error + archive_member" where
  "read_member rt g remaining r = (case tree_record r of
      None \<Rightarrow> Inl (Execution_failed ''repository tree entry is malformed'')
    | Some (mode, ty, oid, path) \<Rightarrow>
        bindr (safe_archive_path path) (\<lambda>_.
        if ty \<noteq> ''blob'' \<or> (mode \<noteq> ''100644'' \<and> mode \<noteq> ''100755'')
        then Inl (Execution_failed ''repository tree contains an unsupported entry'')
        else bindr (ge_git g (git_base @ [''cat-file'', ''blob'', oid])) (\<lambda>(rc, blob).
          if rc \<noteq> 0 \<or> int (length blob) > remaining
          then Inl (Execution_failed ''repository blob exceeds the snapshot bound'')
          else bindr (object_identity rt g oid blob) (\<lambda>identity.
            if identity \<noteq> oid then Inl (Execution_failed ''materialized Git object failed identity verification'')
            else Inr \<lparr>am_name = path, am_kind = File_member, am_size = length blob,
                      am_executable = (mode = ''100755''), am_payload = blob\<rparr>))))"

fun read_members :: "runtime \<Rightarrow> git_env \<Rightarrow> int \<Rightarrow> bytes list \<Rightarrow> execution_error + archive_member list" where
  "read_members rt g remaining [] = Inr []"
| "read_members rt g remaining (r # rs) =
     bindr (read_member rt g remaining r) (\<lambda>m.
     bindr (read_members rt g (remaining - int (length (am_payload m))) rs) (\<lambda>ms. Inr (m # ms)))"

definition exact_commit_archive ::
  "runtime \<Rightarrow> git_env \<Rightarrow> string \<Rightarrow> execution_policy \<Rightarrow> execution_error + archive_member list" where
  "exact_commit_archive rt g commit_sha policy =
     (if \<not> is_commit commit_sha then Inl (Execution_failed ''commit identity is not a full canonical Git object ID'')
      else if \<not> ge_directory g then Inl (Execution_failed ''repository is unavailable'')
      else bindr (ge_git g (git_base @ [''rev-parse'', ''--verify'', commit_sha @ ''^{commit}''])) (\<lambda>(rc, out).
        if rc \<noteq> 0 \<or> strip out \<noteq> commit_sha
        then Inl (Execution_failed ''commit does not resolve to the exact admitted identity'')
        else bindr (ge_git g (git_base @ [''fsck'', ''--strict'', ''--no-reflogs'', ''--no-dangling'', commit_sha])) (\<lambda>(rc, _).
        if rc \<noteq> 0 then Inl (Execution_failed ''reachable Git object integrity verification failed'')
        else bindr (ge_git g (git_base @ [''ls-tree'', ''-rz'', ''--full-tree'', commit_sha])) (\<lambda>(rc, listed).
        if rc \<noteq> 0 then Inl (Execution_failed ''exact commit tree could not be listed'')
        else let records = filter (\<lambda>r. r \<noteq> []) (split_on (CHR 0x00) listed) in
          if length records > 100000 then Inl (Execution_failed ''repository tree contains too many members'')
          else bindr (read_members rt g (ep_archive policy) records) (\<lambda>members.
            if \<not> ge_in_time g then Inl Execution_timed_out
            else if int (ge_tar_size g members) > ep_archive policy
            then Inl (Execution_failed ''repository snapshot exceeds its archive bound'')
            else Inr members)))))"

text \<open>
  \<^verbatim>\<open>_extract_snapshot\<close>: first every member is checked, then they are written in the order of
  their depth. A tree maps the components of a path to a file's bytes, or to nothing for a
  directory; a path in conflict with a file or a directory is an \<^verbatim>\<open>OSError\<close>.
\<close>

type_synonym tree = "(string list \<times> bytes option) list"

fun check_members :: "nat \<Rightarrow> nat \<Rightarrow> ppath list \<Rightarrow> archive_member list \<Rightarrow> execution_error + unit" where
  "check_members limit used seen [] = Inr ()"
| "check_members limit used seen (m # ms) = bindr (safe_archive_path (am_name m)) (\<lambda>p.
     if p \<in> set seen \<or> am_kind m = Other_member
     then Inl (Execution_failed ''repository archive contains unsupported members'')
     else if used + am_size m > limit then Inl (Execution_failed ''repository archive expansion is unbounded'')
     else check_members limit (used + am_size m) (p # seen) ms)"

fun put_entry :: "string list \<Rightarrow> bytes option \<Rightarrow> tree \<Rightarrow> tree" where
  "put_entry p v [] = [(p, v)]"
| "put_entry p v ((q, x) # t) = (if p = q then (p, v) # t else (q, x) # put_entry p v t)"

fun make_directories :: "string list list \<Rightarrow> tree \<Rightarrow> execution_error + tree" where
  "make_directories [] t = Inr t"
| "make_directories (d # ds) t = (case map_of t d of
      None \<Rightarrow> make_directories ds (put_entry d None t)
    | Some None \<Rightarrow> make_directories ds t
    | Some (Some _) \<Rightarrow> Inl Os_failed)"

text \<open>The proper prefixes of a path, shortest first; a path itself is added by its writer.\<close>

definition parents_of :: "string list \<Rightarrow> string list list" where
  "parents_of p = map (\<lambda>n. take n p) [1..<length p]"

definition write_member :: "archive_member \<Rightarrow> tree \<Rightarrow> execution_error + tree" where
  "write_member m t = bindr (safe_archive_path (am_name m)) (\<lambda>path.
     let p = snd path in
     if am_kind m = Directory_member
     then make_directories (if p = [] then [] else parents_of p @ [p]) t
     else bindr (make_directories (parents_of p) t) (\<lambda>t'.
       if length (am_payload m) \<noteq> am_size m
       then Inl (Execution_failed ''repository archive member size is inconsistent'')
       else if p = [] \<or> map_of t' p = Some None then Inl Os_failed
       else Inr (put_entry p (Some (am_payload m)) t')))"

fun write_members :: "archive_member list \<Rightarrow> tree \<Rightarrow> execution_error + tree" where
  "write_members [] t = Inr t"
| "write_members (m # ms) t = bindr (write_member m t) (write_members ms)"

definition extract_snapshot :: "nat \<Rightarrow> archive_member list \<Rightarrow> execution_error + tree" where
  "extract_snapshot archive_length members =
     (if length members > 100000 then Inl (Execution_failed ''repository archive contains too many members'')
      else bindr (check_members (archive_length * 100 + 1024 * 1024) 0 [] members) (\<lambda>_.
        write_members (sort_key (\<lambda>m. (parts_count (posix_path (am_name m)), am_name m)) members) []))"

text \<open>\<^verbatim>\<open>_snapshot_digest\<close> of a tree of files and directories.\<close>

definition snapshot_entry :: "runtime \<Rightarrow> string list \<times> bytes option \<Rightarrow> json" where
  "snapshot_entry rt e = (case snd e of
      Some b \<Rightarrow> JObj [(''digest'', JStr (sha256_digest rt b)), (''kind'', JStr ''file''),
                      (''path'', JStr (join ''/'' (fst e)))]
    | None \<Rightarrow> JObj [(''digest'', JStr []), (''kind'', JStr ''directory''), (''path'', JStr (join ''/'' (fst e)))])"

definition snapshot_digest :: "runtime \<Rightarrow> tree \<Rightarrow> string" where
  "snapshot_digest rt t = canonical_digest rt (JList (map (snapshot_entry rt) (sort_key fst t)))"

section \<open>Execution\<close>

record execution_result =
  er_commit :: string
  er_command :: command
  er_return_code :: int
  er_stdout_digest :: string
  er_stderr_digest :: string
  er_before :: string
  er_after :: string
  er_isolation :: string
  er_executable :: string
  er_digest :: string
  er_bindings :: "(string \<times> string) list"
  er_receipt :: admission_receipt

text \<open>
  What the kernel meets: Git, the sandbox runner with its identity, the subject copy as it is
  after the run, whether the temporary directory could be removed, and the admission.
\<close>

record kernel_env =
  ke_git :: git_env
  ke_identity :: string
  ke_sandbox :: "tree \<Rightarrow> command \<Rightarrow> execution_policy \<Rightarrow> execution_error + command_outcome"
  ke_subject_after :: "tree \<Rightarrow> tree"
  ke_cleaned :: bool

definition executable_ok :: "string \<Rightarrow> bool" where
  "executable_ok s \<longleftrightarrow> s \<noteq> [] \<and> fst (posix_path s) \<noteq> [] \<and> ''..'' \<notin> set (snd (posix_path s)) \<and> CHR 0x00 \<notin> set s"

definition evidence_json ::
  "runtime \<Rightarrow> string \<Rightarrow> execution_policy \<Rightarrow> string \<Rightarrow> string \<Rightarrow> command \<Rightarrow> command_outcome \<Rightarrow> string \<Rightarrow> obj" where
  "evidence_json rt identity policy commit_sha plan_digest command out before =
     [(''command_digest'', JStr (canonical_digest rt (JList (map JStr command)))), (''commit_sha'', JStr commit_sha),
      (''isolation_policy'', JStr identity), (''plan_digest'', JStr plan_digest),
      (''policy_digest'', JStr (policy_digest rt policy)), (''resolved_executable'', JStr (co_executable out)),
      (''return_code'', JInt (co_return_code out)), (''stderr_digest'', JStr (sha256_digest rt (co_stderr out))),
      (''stdout_digest'', JStr (sha256_digest rt (co_stdout out))), (''subject_digest'', JStr before)]"

text \<open>The body of the \<^verbatim>\<open>try\<close>: the outcome and the digest of the subject.\<close>

definition run_in_copy ::
  "runtime \<Rightarrow> kernel_env \<Rightarrow> execution_policy \<Rightarrow> string \<Rightarrow> command \<Rightarrow> execution_error + command_outcome \<times> string" where
  "run_in_copy rt k policy commit_sha command =
     bindr (exact_commit_archive rt (ke_git k) commit_sha policy) (\<lambda>members.
     bindr (extract_snapshot (ge_tar_size (ke_git k) members) members) (\<lambda>subject.
     bindr (ke_sandbox k subject command policy) (\<lambda>out.
       if \<not> executable_ok (co_executable out)
       then Inl (Execution_failed ''sandbox did not report a canonical executable identity'')
       else if snapshot_digest rt subject \<noteq> snapshot_digest rt (ke_subject_after k subject)
       then Inl (Execution_failed ''independent exact-commit subject changed during execution'')
       else Inr (out, snapshot_digest rt subject))))"

text \<open>\<^verbatim>\<open>{key: str(value) ...}\<close> of the evidence.\<close>

definition text_bindings :: "runtime \<Rightarrow> obj \<Rightarrow> (string \<times> string) list" where
  "text_bindings rt d = map (\<lambda>(k, v). (k, py_str (rt_repr rt) v)) d"

definition json_bindings :: "(string \<times> string) list \<Rightarrow> obj" where
  "json_bindings b = map (\<lambda>(k, v). (k, JStr v)) b"

definition execution_kind :: string where
  "execution_kind = ''RED_TEST_EXECUTION''"

definition execute ::
  "runtime \<Rightarrow> kernel_env \<Rightarrow> key_provider \<Rightarrow> admission_env \<Rightarrow> receipt_dir \<Rightarrow> execution_policy
     \<Rightarrow> string \<Rightarrow> string \<Rightarrow> command \<Rightarrow> (execution_error + execution_result) \<times> receipt_dir" where
  "execute rt k p env fs policy commit_sha plan_digest command =
     (if \<not> is_digest_str plan_digest then (Inl (Execution_failed ''plan digest is not canonical SHA-256''), fs)
      else if \<not> ke_cleaned k then (Inl Cleanup_failed, fs)
      else (case run_in_copy rt k policy commit_sha command of
          Inl err \<Rightarrow> (Inl err, fs)
        | Inr (out, before) \<Rightarrow>
            (let evidence = evidence_json rt (ke_identity k) policy commit_sha plan_digest command out before;
                 bindings = text_bindings rt evidence;
                 digest = canonical_digest rt (JObj evidence)
             in case admit_artifact rt p env fs execution_kind digest (json_bindings bindings) of
                 (Inl err, fs') \<Rightarrow> (Inl (Not_admitted err), fs')
               | (Inr receipt, fs') \<Rightarrow>
                   (Inr \<lparr>er_commit = commit_sha, er_command = command, er_return_code = co_return_code out,
                         er_stdout_digest = sha256_digest rt (co_stdout out),
                         er_stderr_digest = sha256_digest rt (co_stderr out),
                         er_before = before, er_after = before, er_isolation = ke_identity k,
                         er_executable = co_executable out, er_digest = digest, er_bindings = bindings,
                         er_receipt = receipt\<rparr>, fs'))))"

section \<open>Aliases resolve within the bound\<close>

inductive aliased :: "ppath \<Rightarrow> ppath \<Rightarrow> bool" where
  stay: "aliased p p"
| step: "apply_alias path_aliases p = Some q \<Longrightarrow> aliased q r \<Longrightarrow> aliased p r"

lemma relative_to_Some:
  "relative_to p base = Some rel \<longleftrightarrow> fst p = fst base \<and> snd p = snd base @ rel"
  by (auto simp: relative_to_def) (metis append_take_drop_id)

lemma alias_shortens:
  assumes "apply_alias path_aliases p = Some q" shows "length (snd q) < length (snd p)"
proof (cases "relative_to p (root_path [''proc'', ''self'', ''cwd''])")
  case None
  then obtain rel where "relative_to p (root_path [''proc'', ''self'', ''root'']) = Some rel" "q = root_path rel"
    using assms by (auto simp: path_aliases_def join_path_def root_path_def split: option.splits)
  then show ?thesis by (simp add: relative_to_Some root_path_def)
next
  case (Some rel)
  then have "q = root_path (''workspace'' # rel)"
    using assms by (simp add: path_aliases_def join_path_def root_path_def)
  with Some show ?thesis by (simp add: relative_to_Some root_path_def)
qed

lemma canonical_loop_spec:
  "length (snd p) < n \<Longrightarrow> \<exists>q. aliased p q \<and> apply_alias path_aliases q = None \<and>
     canonical_loop n p = (if in_proc q then None else Some q)"
proof (induction n arbitrary: p)
  case (Suc n)
  show ?case
  proof (cases "apply_alias path_aliases p")
    case None
    then show ?thesis by (intro exI [of _ p]) (simp add: aliased.stay)
  next
    case (Some q)
    then have "length (snd q) < n" using alias_shortens Suc.prems by fastforce
    from Suc.IH [OF this] Some show ?thesis using aliased.step by fastforce
  qed
qed simp

lemma aliased_unique:
  assumes "aliased p q" "apply_alias path_aliases q = None" "aliased p r" "apply_alias path_aliases r = None"
  shows "q = r"
  using assms
proof (induction rule: aliased.induct)
  case (stay p)
  then show ?case by (auto elim: aliased.cases)
next
  case (step p q r')
  from step.prems(2,3) step.hyps(1) have "aliased q r" by (auto elim: aliased.cases)
  with step show ?case by blast
qed

text \<open>
  The executable's path is resolved completely: the bounded loop over the
  \<^verbatim>\<open>/proc/self\<close> aliases ends at the one path that no alias applies to, before its bound runs
  out, and returns that path unless it lies below \<^verbatim>\<open>/proc\<close>.
\<close>
theorem sandbox_path_resolved:
  "\<exists>!q. aliased p q \<and> apply_alias path_aliases q = None \<and>
     canonical_sandbox_path p = (if in_proc q then None else Some q)"
proof -
  have "length (snd p) < parts_count p + 1" by (simp add: parts_count_def)
  from canonical_loop_spec [OF this] show ?thesis
    unfolding canonical_sandbox_path_def using aliased_unique by blast
qed

section \<open>The argument vectors end in the command\<close>

lemma bwrap_runs_command: "\<exists>options. bwrap_argv x ws c pol fd = options @ ''--'' # c"
  by (simp add: bwrap_argv_def ro_bind_try_def)

lemma cgroup_runs_command: "\<exists>options. cgroup_argv cg l x ws c pol fd = options @ ''--'' # c"
proof -
  obtain options where "bwrap_argv x ws c pol (Some fd) = options @ ''--'' # c" using bwrap_runs_command by blast
  then show ?thesis unfolding cgroup_argv_def resource_argv_def by (metis append.assoc)
qed

section \<open>What execution admits\<close>

lemma execute_Inr:
  assumes "execute rt k p env fs policy commit_sha plan_digest command = (Inr res, fs')"
  obtains out before where
    "run_in_copy rt k policy commit_sha command = Inr (out, before)" "is_digest_str plan_digest"
    "er_digest res = canonical_digest rt (JObj
       (evidence_json rt (ke_identity k) policy commit_sha plan_digest command out before))"
    "er_bindings res = text_bindings rt
       (evidence_json rt (ke_identity k) policy commit_sha plan_digest command out before)"
    "admit_artifact rt p env fs execution_kind (er_digest res) (json_bindings (er_bindings res)) = (Inr (er_receipt res), fs')"
    "er_commit res = commit_sha" "er_command res = command" "er_return_code res = co_return_code out"
    "er_stdout_digest res = sha256_digest rt (co_stdout out)" "er_stderr_digest res = sha256_digest rt (co_stderr out)"
    "er_before res = before" "er_after res = before" "er_isolation res = ke_identity k"
    "er_executable res = co_executable out"
  using assms
  by (auto simp: execute_def Let_def split: if_splits sum.splits prod.splits)
end
