(* ===== verification/Red_Gate.thy ===== *)
theory Red_Gate
  imports Kernel
begin

text \<open>
  The meaningful-red gate of \<^verbatim>\<open>evidence/gate.py\<close> with the records of \<^verbatim>\<open>evidence/models.py\<close> and
  the adapter registry of \<^verbatim>\<open>evidence/adapters.py\<close>. The gate authorizes work only when every
  planned command was executed by the kernel on the admitted subject and failed by an
  assertion an independent oracle was admitted for.

  An adapter is any object of the protocol \<^verbatim>\<open>EvidenceAdapter\<close>, a record of its operations
  here; the command checks of the two adapters that ship are modelled, their parsers of
  pytest and TAP output are not.

  Shown: what an authorization implies, and that the kernel's own evidence passes every
  binding check of the gate.
\<close>

section \<open>Expectations and submissions\<close>

record node_expectation =
  ne_node :: string
  ne_assertion :: string

record evidence_expectation =
  ee_command_id :: string
  ee_tool :: string
  ee_format :: string
  ee_plan :: string
  ee_commit :: string
  ee_subject :: string
  ee_command :: command
  ee_nodes :: "node_expectation list"

record evidence_submission =
  sb_command_id :: string
  sb_execution :: execution_result
  sb_stdout :: bytes
  sb_stderr :: bytes
  sb_oracle :: "admission_receipt option"

record node_evidence =
  nv_node :: string
  nv_outcome :: string
  nv_kind :: string
  nv_assertion :: string
  nv_raw :: string

record parsed_evidence =
  pv_nodes :: "node_evidence list"
  pv_blocking :: string

record evidence_decision =
  dc_authorized :: bool
  dc_nodes :: "node_evidence list"
  dc_reasons :: "string list"

definition identifier_char :: "char \<Rightarrow> bool" where
  "identifier_char c \<longleftrightarrow> is_alnum_ascii c \<or> c \<in> {CHR ''.'', CHR ''_'', CHR '':'', CHR ''/'', CHR ''-''}"

definition is_identifier :: "string \<Rightarrow> bool" where
  "is_identifier s = (case s of [] \<Rightarrow> False
     | c # t \<Rightarrow> is_alnum_ascii c \<and> length t \<le> 255 \<and> list_all identifier_char t)"

definition valid_node_id :: "string \<Rightarrow> bool" where
  "valid_node_id s \<longleftrightarrow> s \<noteq> [] \<and> length s \<le> 1024 \<and> list_all (\<lambda>c. (of_char c :: nat) \<ge> 32) s"

definition node_ok :: "node_expectation \<Rightarrow> bool" where
  "node_ok n \<longleftrightarrow> valid_node_id (ne_node n) \<and> is_identifier (ne_assertion n)"

text \<open>What the constructor of an expectation admits.\<close>

definition expectation_ok :: "evidence_expectation \<Rightarrow> bool" where
  "expectation_ok e \<longleftrightarrow> is_identifier (ee_command_id e) \<and> is_identifier (ee_tool e) \<and> is_identifier (ee_format e)
     \<and> is_digest_str (ee_plan e) \<and> is_commit (ee_commit e) \<and> is_digest_str (ee_subject e)
     \<and> ee_nodes e \<noteq> [] \<and> distinct (map ne_node (ee_nodes e))"

definition nodes_json :: "evidence_expectation \<Rightarrow> json" where
  "nodes_json e = JList (map (\<lambda>n. JObj [(''assertion_id'', JStr (ne_assertion n)), (''node_id'', JStr (ne_node n))])
     (ee_nodes e))"

definition expectation_json :: "evidence_expectation \<Rightarrow> json" where
  "expectation_json e = JObj
     [(''command'', JList (map JStr (ee_command e))), (''command_id'', JStr (ee_command_id e)),
      (''commit_sha'', JStr (ee_commit e)), (''evidence_format'', JStr (ee_format e)), (''nodes'', nodes_json e),
      (''subject_digest'', JStr (ee_subject e)), (''tool'', JStr (ee_tool e))]"

text \<open>\<^verbatim>\<open>evidence_plan_digest\<close>; \<^verbatim>\<open>None\<close> is the error on a plan without commands.\<close>

definition evidence_plan_digest :: "runtime \<Rightarrow> evidence_expectation list \<Rightarrow> string option" where
  "evidence_plan_digest rt es =
     (if es = [] then None
      else Some (canonical_digest rt (JObj [(''commands'', JList (map expectation_json es))])))"

definition oracle_artifact_digest :: "runtime \<Rightarrow> evidence_expectation \<Rightarrow> string" where
  "oracle_artifact_digest rt e = canonical_digest rt (JObj
     [(''command'', JList (map JStr (ee_command e))), (''command_id'', JStr (ee_command_id e)),
      (''commit_sha'', JStr (ee_commit e)), (''evidence_format'', JStr (ee_format e)), (''nodes'', nodes_json e),
      (''plan_digest'', JStr (ee_plan e)), (''subject_digest'', JStr (ee_subject e)), (''tool'', JStr (ee_tool e))])"

definition oracle_subject_bindings :: "evidence_expectation \<Rightarrow> obj" where
  "oracle_subject_bindings e =
     [(''command_id'', JStr (ee_command_id e)), (''commit_sha'', JStr (ee_commit e)),
      (''plan_digest'', JStr (ee_plan e)), (''subject_digest'', JStr (ee_subject e))]"

definition oracle_artifact_kind :: string where
  "oracle_artifact_kind = ''HIDDEN_ORACLE_ASSERTION''"

section \<open>Adapters\<close>

record evidence_adapter =
  ea_tool :: string
  ea_format :: string
  ea_supports :: "command \<Rightarrow> bool"
  ea_supports_execution :: "command \<Rightarrow> string \<Rightarrow> bool"
  ea_parse :: "bytes \<Rightarrow> bytes \<Rightarrow> int \<Rightarrow> parsed_evidence"

type_synonym adapters = "((string \<times> string) \<times> evidence_adapter) list"

fun register_adapters :: "evidence_adapter list \<Rightarrow> adapters \<Rightarrow> string + adapters" where
  "register_adapters [] reg = Inr reg"
| "register_adapters (a # as) reg =
     (if map_of reg (ea_tool a, ea_format a) \<noteq> None then Inl ''duplicate tool/evidence-format adapter''
      else register_adapters as (reg @ [((ea_tool a, ea_format a), a)]))"

definition resolve_adapter :: "adapters \<Rightarrow> string \<Rightarrow> string \<Rightarrow> string + evidence_adapter" where
  "resolve_adapter reg tool fmt = (case map_of reg (tool, fmt) of
      None \<Rightarrow> Inl (''unsupported tool/evidence-format combination: '' @ tool @ ''/'' @ fmt)
    | Some a \<Rightarrow> Inr a)"

fun validate_expectations :: "adapters \<Rightarrow> evidence_expectation list \<Rightarrow> string + unit" where
  "validate_expectations reg [] = Inr ()"
| "validate_expectations reg (e # es) = bindr (resolve_adapter reg (ee_tool e) (ee_format e)) (\<lambda>a.
     if ea_supports a (ee_command e) then validate_expectations reg es
     else Inl (''declared tool does not match command: '' @ ee_tool e))"

definition trusted_runner_directories :: "ppath list" where
  "trusted_runner_directories = map root_path [[''usr'', ''local'', ''bin''], [''usr'', ''bin''], [''bin'']]"

definition is_trusted_system_runner :: "string \<Rightarrow> string list \<Rightarrow> bool" where
  "is_trusted_system_runner resolved names \<longleftrightarrow>
     (let p = posix_path resolved in
      fst p \<noteq> [] \<and> ''..'' \<notin> set (snd p) \<and> (fst p, butlast (snd p)) \<in> set trusted_runner_directories
      \<and> (if snd p = [] then [] else last (snd p)) \<in> set names)"

text \<open>
  The options of a command line as \<^verbatim>\<open>PytestJsonReportAdapter.supports\<close> collects them: the value
  of \<^verbatim>\<open>-x v\<close>, \<^verbatim>\<open>--opt v\<close> or \<^verbatim>\<open>--opt=v\<close>, in order; a last option without its value is malformed.
\<close>

fun long_values :: "string \<Rightarrow> string list \<Rightarrow> string list" where
  "long_values opt [] = []"
| "long_values opt (a # rest) =
     (if a = opt then (case rest of [] \<Rightarrow> [] | v # _ \<Rightarrow> [v])
      else if starts_with (opt @ ''='') a then [drop (length opt + 1) a] else []) @ long_values opt rest"

definition short_attached :: "string \<Rightarrow> string \<Rightarrow> bool" where
  "short_attached opt a \<longleftrightarrow> starts_with opt a \<and> \<not> starts_with ''--'' a"

fun short_values :: "string \<Rightarrow> string list \<Rightarrow> string list" where
  "short_values opt [] = []"
| "short_values opt (a # rest) =
     (if a = opt then (case rest of [] \<Rightarrow> [] | v # _ \<Rightarrow> [v])
      else if short_attached opt a then [remove_prefix ''='' (drop 2 a)] else []) @ short_values opt rest"

fun config_values :: "string list \<Rightarrow> string list" where
  "config_values [] = []"
| "config_values (a # rest) =
     (if a = ''-c'' \<or> a = ''--config-file'' then (case rest of [] \<Rightarrow> [] | v # _ \<Rightarrow> [v])
      else if short_attached ''-c'' a then [remove_prefix ''='' (drop 2 a)]
      else if starts_with ''--config-file='' a then [drop (length ''--config-file='') a] else []) @ config_values rest"

fun worker_values :: "string list \<Rightarrow> string list" where
  "worker_values [] = []"
| "worker_values (a # rest) =
     (if a = ''--numprocesses'' then (case rest of [] \<Rightarrow> [] | v # _ \<Rightarrow> [v])
      else if starts_with ''--numprocesses='' a then [drop (length ''--numprocesses='') a] else [])
     @ (if a = ''-n'' then (case rest of [] \<Rightarrow> [] | v # _ \<Rightarrow> [v])
        else if short_attached ''-n'' a then [remove_prefix ''='' (drop 2 a)] else []) @ worker_values rest"

definition valued_options :: "string list" where
  "valued_options = [''-c'', ''--config-file'', ''--json-report-file'', ''-p'', ''--dist'', ''--max-worker-restart'',
     ''--numprocesses'', ''-n'']"

definition overrides_ini :: "string \<Rightarrow> bool" where
  "overrides_ini a \<longleftrightarrow> a \<in> {''-o'', ''--override-ini''} \<or> short_attached ''-o'' a \<or> starts_with ''--override-ini='' a"

definition overrides_capture :: "string \<Rightarrow> bool" where
  "overrides_capture a \<longleftrightarrow> a = ''--capture'' \<or> starts_with ''--capture='' a
     \<or> (starts_with ''-'' a \<and> \<not> starts_with ''--'' a \<and> CHR ''s'' \<in> set (drop 1 a))"

definition pytest_supports :: "command \<Rightarrow> bool" where
  "pytest_supports argv \<longleftrightarrow> hd argv \<in> {''pytest'', ''py.test''}
     \<and> last argv \<notin> set valued_options
     \<and> \<not> list_ex overrides_ini argv \<and> \<not> list_ex overrides_capture argv
     \<and> count_list argv ''--json-report'' = 1 \<and> count_list argv ''--noconftest'' = 1
     \<and> config_values argv = [''/dev/null''] \<and> long_values ''--json-report-file'' argv = [''/dev/stdout'']
     \<and> short_values ''-p'' argv = [''no:terminal'', ''xdist.plugin'']
     \<and> worker_values argv = [''1''] \<and> long_values ''--dist'' argv = [''loadscope'']
     \<and> long_values ''--max-worker-restart'' argv = [''0'']
     \<and> \<not> list_ex (\<lambda>a. a = ''--tx'' \<or> starts_with ''--tx='' a) (tl argv)
     \<and> \<not> list_ex (starts_with ''@'') (tl argv)"

definition pytest_supports_execution :: "command \<Rightarrow> string \<Rightarrow> bool" where
  "pytest_supports_execution argv resolved \<longleftrightarrow> pytest_supports argv \<and> is_trusted_system_runner resolved [hd argv]"

text \<open>\<^verbatim>\<open>Tap13Adapter.supports\<close>: the values of reporter options are skipped by its index.\<close>

definition loader_options :: "string list" where
  "loader_options = [''--env-file'', ''--env-file-if-exists'', ''--experimental-config-file'',
     ''--experimental-default-config-file'', ''--experimental-loader'', ''--experimental-policy'', ''--import'',
     ''--loader'', ''--policy-integrity'', ''--require'']"

definition loads_code :: "string \<Rightarrow> bool" where
  "loads_code a \<longleftrightarrow> a \<in> set loader_options \<or> list_ex (\<lambda>opt. starts_with (opt @ ''='') a) loader_options
     \<or> a = ''-r'' \<or> short_attached ''-r'' a"

text \<open>Reporters, destinations, and whether the scan met something unsafe or malformed.\<close>

fun tap_scan :: "string list \<Rightarrow> string list \<times> string list \<times> bool" where
  "tap_scan [] = ([], [], False)"
| "tap_scan (a # rest) =
     (if a = ''--test-reporter'' \<or> a = ''--test-reporter-destination'' then
        (case rest of
           [] \<Rightarrow> ([], [], True)
         | v # rest' \<Rightarrow> (case tap_scan rest' of (rs, ds, bad) \<Rightarrow>
             if a = ''--test-reporter'' then (v # rs, ds, bad) else (rs, v # ds, bad)))
      else (case tap_scan rest of (rs, ds, bad) \<Rightarrow>
        (if starts_with ''--test-reporter='' a then drop (length ''--test-reporter='') a # rs else rs,
         if starts_with ''--test-reporter-destination='' a
         then drop (length ''--test-reporter-destination='') a # ds else ds,
         bad \<or> loads_code a)))"

definition tap_supports :: "command \<Rightarrow> bool" where
  "tap_supports argv \<longleftrightarrow> hd argv = ''node'' \<and> ''--test'' \<in> set argv \<and> tap_scan (tl argv) = ([''tap''], [], False)"

definition tap_supports_execution :: "command \<Rightarrow> string \<Rightarrow> bool" where
  "tap_supports_execution argv resolved \<longleftrightarrow> tap_supports argv \<and> is_trusted_system_runner resolved [''node'']"

section \<open>The gate\<close>

definition signed_evidence :: "runtime \<Rightarrow> evidence_expectation \<Rightarrow> execution_result \<Rightarrow> obj" where
  "signed_evidence rt e x =
     [(''command_digest'', JStr (canonical_digest rt (JList (map JStr (ee_command e))))), (''commit_sha'', JStr (er_commit x)),
      (''isolation_policy'', JStr (er_isolation x)), (''plan_digest'', JStr (ee_plan e)),
      (''policy_digest'', JStr (case map_of (er_bindings x) ''policy_digest'' of None \<Rightarrow> [] | Some d \<Rightarrow> d)),
      (''resolved_executable'', JStr (er_executable x)), (''return_code'', JInt (er_return_code x)),
      (''stderr_digest'', JStr (er_stderr_digest x)), (''stdout_digest'', JStr (er_stdout_digest x)),
      (''subject_digest'', JStr (er_before x))]"

text \<open>The checks of one execution up to its adapter: the first reason to reject it.\<close>

definition binding_fault ::
  "runtime \<Rightarrow> key_provider \<Rightarrow> receipt_dir \<Rightarrow> evidence_expectation \<Rightarrow> evidence_submission \<Rightarrow> string option" where
  "binding_fault rt p fs e s =
     (let x = sb_execution s in
      if er_command x \<noteq> ee_command e then Some ''wrong plan-bound command''
      else if map_of (er_bindings x) ''plan_digest'' \<noteq> Some (ee_plan e) then Some ''wrong plan digest''
      else if er_commit x \<noteq> ee_commit e then Some ''wrong admitted commit''
      else if er_before x \<noteq> ee_subject e \<or> er_after x \<noteq> ee_subject e then Some ''wrong admitted subject''
      else if map_of (er_bindings x) ''command_digest'' \<noteq> Some (canonical_digest rt (JList (map JStr (ee_command e))))
      then Some ''wrong command digest''
      else if sha256_digest rt (sb_stdout s) \<noteq> er_stdout_digest x \<or> sha256_digest rt (sb_stderr s) \<noteq> er_stderr_digest x
      then Some ''raw output digest mismatch''
      else if \<not> verify_receipt rt p fs (er_receipt x) execution_kind (er_digest x) (json_bindings (er_bindings x))
      then Some ''execution receipt is not verified''
      else if \<not> same_bindings (text_bindings rt (signed_evidence rt e x)) (er_bindings x)
        \<or> canonical_digest rt (JObj (signed_evidence rt e x)) \<noteq> er_digest x
      then Some ''signed execution fields changed'' else None)"

definition oracle_verified ::
  "runtime \<Rightarrow> key_provider \<Rightarrow> receipt_dir \<Rightarrow> evidence_expectation \<Rightarrow> evidence_submission \<Rightarrow> bool" where
  "oracle_verified rt p fs e s = (case sb_oracle s of
      None \<Rightarrow> False
    | Some r \<Rightarrow> verify_receipt rt p fs r oracle_artifact_kind (oracle_artifact_digest rt e) (oracle_subject_bindings e))"

definition prefixed :: "evidence_expectation \<Rightarrow> string \<Rightarrow> string" where
  "prefixed e m = ee_command_id e @ '': '' @ m"

text \<open>
  The evidence one command yields, or why it is passed over. A missing adapter was excluded
  when the expectations were validated.
\<close>

definition command_evidence ::
  "runtime \<Rightarrow> key_provider \<Rightarrow> receipt_dir \<Rightarrow> adapters \<Rightarrow> evidence_expectation \<Rightarrow> evidence_submission
     \<Rightarrow> string + node_evidence list" where
  "command_evidence rt p fs reg e s = (case binding_fault rt p fs e s of
      Some m \<Rightarrow> Inl (prefixed e m)
    | None \<Rightarrow> bindr (resolve_adapter reg (ee_tool e) (ee_format e)) (\<lambda>a.
        if \<not> ea_supports_execution a (ee_command e) (er_executable (sb_execution s))
        then Inl (prefixed e ''adapter did not execute a trusted system runner'')
        else let parsed = ea_parse a (sb_stdout s) (sb_stderr s) (er_return_code (sb_execution s)) in
          if pv_blocking parsed \<noteq> [] then Inl (prefixed e (pv_blocking parsed))
          else let ids = map nv_node (pv_nodes parsed);
                   duplicates = sorted_set (filter (\<lambda>i. count_list ids i > 1) ids)
               in if duplicates \<noteq> [] then Inl (prefixed e (''duplicate node results: '' @ join '', '' duplicates))
                  else Inr (pv_nodes parsed)))"

record gate_state =
  gs_reasons :: "string list"
  gs_nodes :: "node_evidence list"
  gs_seen :: "string list"

definition add_reason :: "string \<Rightarrow> gate_state \<Rightarrow> gate_state" where
  "add_reason m st = st\<lparr>gs_reasons := gs_reasons st @ [m]\<rparr>"

definition reason_if :: "bool \<Rightarrow> string \<Rightarrow> gate_state \<Rightarrow> gate_state" where
  "reason_if b m st = (if b then add_reason m st else st)"

definition failure_kinds :: "string list" where
  "failure_kinds = [[], ''assertion'', ''usage'', ''collection'', ''configuration'', ''timeout'', ''skip'', ''todo'',
     ''internal'', ''error'']"

definition judge_node ::
  "evidence_expectation \<Rightarrow> bool \<Rightarrow> node_evidence \<Rightarrow> gate_state \<Rightarrow> gate_state" where
  "judge_node e oracle n st = (case map_of (map (\<lambda>x. (ne_node x, ne_assertion x)) (rev (ee_nodes e))) (nv_node n) of
      None \<Rightarrow> st
    | Some assertion \<Rightarrow>
        if nv_node n \<in> set (gs_seen st) then add_reason (''duplicate node across commands: '' @ nv_node n) st
        else
          (let st1 = reason_if (nv_kind n = ''assertion'' \<and> \<not> oracle)
                 (prefixed e ''assertion oracle is not independently admitted'')
               (reason_if (nv_kind n \<noteq> [] \<and> nv_kind n \<noteq> ''assertion'') (prefixed e (nv_kind n @ '' is not meaningful red''))
               (st\<lparr>gs_seen := nv_node n # gs_seen st\<rparr>))
           in if nv_assertion n \<noteq> assertion then add_reason (prefixed e (''wrong assertion for '' @ nv_node n)) st1
              else if nv_kind n \<notin> set failure_kinds then add_reason (prefixed e ''unknown failure kind'') st1
              else st1\<lparr>gs_nodes := gs_nodes st1 @ [n]\<rparr>))"

definition judge_command ::
  "runtime \<Rightarrow> key_provider \<Rightarrow> receipt_dir \<Rightarrow> adapters \<Rightarrow> evidence_expectation \<Rightarrow> evidence_submission
     \<Rightarrow> gate_state \<Rightarrow> gate_state" where
  "judge_command rt p fs reg e s st = (case command_evidence rt p fs reg e s of
      Inl m \<Rightarrow> add_reason m st
    | Inr nodes \<Rightarrow>
        (let ids = map nv_node nodes; expected = map ne_node (ee_nodes e);
             unknown = sorted_set (filter (\<lambda>i. i \<notin> set expected) ids);
             missing = sorted_set (filter (\<lambda>i. i \<notin> set ids) expected)
         in fold (judge_node e (oracle_verified rt p fs e s)) nodes
              (reason_if (missing \<noteq> []) (prefixed e (''missing node results: '' @ join '', '' missing))
              (reason_if (unknown \<noteq> []) (prefixed e (''unknown node results: '' @ join '', '' unknown)) st))))"

fun judge_all ::
  "runtime \<Rightarrow> key_provider \<Rightarrow> receipt_dir \<Rightarrow> adapters \<Rightarrow> (string \<times> evidence_submission) list
     \<Rightarrow> evidence_expectation list \<Rightarrow> gate_state \<Rightarrow> gate_state" where
  "judge_all rt p fs reg subs [] st = st"
| "judge_all rt p fs reg subs (e # es) st = (case map_of subs (ee_command_id e) of
      None \<Rightarrow> judge_all rt p fs reg subs es st
    | Some s \<Rightarrow> judge_all rt p fs reg subs es (judge_command rt p fs reg e s st))"

definition refuse :: "string list \<Rightarrow> evidence_decision" where
  "refuse reasons = \<lparr>dc_authorized = False, dc_nodes = [], dc_reasons = reasons\<rparr>"

definition named_reason :: "string \<Rightarrow> string list \<Rightarrow> string list" where
  "named_reason m names = (if names = [] then [] else [m @ join '', '' names])"

definition meaningful_node :: "node_evidence \<Rightarrow> bool" where
  "meaningful_node n \<longleftrightarrow> nv_outcome n = ''failed'' \<and> nv_kind n = ''assertion''"

definition red_decision ::
  "runtime \<Rightarrow> key_provider \<Rightarrow> receipt_dir \<Rightarrow> adapters \<Rightarrow> evidence_expectation list
     \<Rightarrow> evidence_submission list \<Rightarrow> evidence_decision" where
  "red_decision rt p fs reg es subs =
     (let st = judge_all rt p fs reg (rev (map (\<lambda>s. (sb_command_id s, s)) subs)) es
            \<lparr>gs_reasons = [], gs_nodes = [], gs_seen = []\<rparr>;
          reasons = gs_reasons st @ (if list_ex meaningful_node (gs_nodes st) then []
            else [''vacuous result contains no plan-bound assertion failure''])
      in \<lparr>dc_authorized = (reasons = []), dc_nodes = gs_nodes st, dc_reasons = reasons\<rparr>)"

definition evaluate ::
  "runtime \<Rightarrow> key_provider \<Rightarrow> receipt_dir \<Rightarrow> adapters \<Rightarrow> evidence_expectation list
     \<Rightarrow> evidence_submission list \<Rightarrow> evidence_decision" where
  "evaluate rt p fs reg es subs =
     (if es = [] then refuse [''vacuous plan has no admitted commands'']
      else if length (remdups (map ee_plan es)) \<noteq> 1 \<or> evidence_plan_digest rt es \<notin> Some ` set (map ee_plan es)
      then refuse [''expectation contents do not match the admitted plan digest'']
      else (case validate_expectations reg es of
          Inl m \<Rightarrow> refuse [m]
        | Inr _ \<Rightarrow>
            (let eids = map ee_command_id es; sids = map sb_command_id subs;
                 reasons = named_reason ''duplicate result receipt for command: ''
                     (sorted_set (filter (\<lambda>i. count_list sids i > 1) sids))
                   @ named_reason ''missing result receipt for command: ''
                     (sorted_set (filter (\<lambda>i. i \<notin> set sids) eids))
                   @ named_reason ''unknown result receipt for command: ''
                     (sorted_set (filter (\<lambda>i. i \<notin> set eids) sids))
             in if \<not> distinct eids then refuse [''duplicate command expectation'']
                else if reasons \<noteq> [] then refuse reasons
                else red_decision rt p fs reg es subs)))"

section \<open>What an authorization implies\<close>

text \<open>
  The execution is the planned one: same command, plan, commit and subject, the raw output is
  what was digested, and the signed fields are the ones the verified receipt binds.
\<close>

definition bound ::
  "runtime \<Rightarrow> key_provider \<Rightarrow> receipt_dir \<Rightarrow> evidence_expectation \<Rightarrow> evidence_submission \<Rightarrow> bool" where
  "bound rt p fs e s \<longleftrightarrow> (let x = sb_execution s in
     er_command x = ee_command e \<and> er_commit x = ee_commit e \<and> er_before x = ee_subject e \<and> er_after x = ee_subject e
     \<and> er_stdout_digest x = sha256_digest rt (sb_stdout s) \<and> er_stderr_digest x = sha256_digest rt (sb_stderr s)
     \<and> map_of (er_bindings x) ''plan_digest'' = Some (ee_plan e)
     \<and> same_bindings (text_bindings rt (signed_evidence rt e x)) (er_bindings x)
     \<and> er_digest x = canonical_digest rt (JObj (signed_evidence rt e x))
     \<and> verify_receipt rt p fs (er_receipt x) execution_kind (er_digest x) (json_bindings (er_bindings x)))"

text \<open>A node with the planned assertion that passed, or failed by an assertion with an admitted oracle.\<close>

definition node_fine :: "evidence_expectation \<Rightarrow> bool \<Rightarrow> node_evidence \<Rightarrow> bool" where
  "node_fine e oracle n \<longleftrightarrow>
     map_of (map (\<lambda>x. (ne_node x, ne_assertion x)) (rev (ee_nodes e))) (nv_node n) = Some (nv_assertion n)
     \<and> (nv_kind n = [] \<or> nv_kind n = ''assertion'' \<and> oracle)"

definition red_command ::
  "runtime \<Rightarrow> key_provider \<Rightarrow> receipt_dir \<Rightarrow> adapters \<Rightarrow> evidence_expectation \<Rightarrow> evidence_submission
     \<Rightarrow> node_evidence list \<Rightarrow> bool" where
  "red_command rt p fs reg e s ns \<longleftrightarrow> bound rt p fs e s
     \<and> (\<exists>a. resolve_adapter reg (ee_tool e) (ee_format e) = Inr a
          \<and> ea_supports_execution a (ee_command e) (er_executable (sb_execution s))
          \<and> ns = pv_nodes (ea_parse a (sb_stdout s) (sb_stderr s) (er_return_code (sb_execution s))))
     \<and> distinct (map nv_node ns) \<and> set (map nv_node ns) = set (map ne_node (ee_nodes e))
     \<and> list_all (node_fine e (oracle_verified rt p fs e s)) ns"

lemma binding_fault_bound: "binding_fault rt p fs e s = None \<Longrightarrow> bound rt p fs e s"
  by (simp add: binding_fault_def bound_def Let_def split: if_splits)

lemma count_list_distinct: "(\<forall>x \<in> set xs. \<not> count_list xs x > 1) \<longleftrightarrow> distinct xs"
proof (induction xs)
  case (Cons x xs)
  have "count_list xs x = 0 \<longleftrightarrow> x \<notin> set xs" by (simp add: count_list_0_iff)
  with Cons show ?case by (auto split: if_splits)
qed simp

lemma no_duplicates: "sorted_set (filter (\<lambda>i. count_list xs i > 1) xs) = [] \<longleftrightarrow> distinct xs"
  unfolding sorted_set_eq_Nil filter_empty_conv by (rule count_list_distinct)

lemma command_evidence_Inr:
  assumes "command_evidence rt p fs reg e s = Inr ns"
  shows "bound rt p fs e s" "distinct (map nv_node ns)"
    "\<exists>a. resolve_adapter reg (ee_tool e) (ee_format e) = Inr a
       \<and> ea_supports_execution a (ee_command e) (er_executable (sb_execution s))
       \<and> ns = pv_nodes (ea_parse a (sb_stdout s) (sb_stderr s) (er_return_code (sb_execution s)))"
proof -
  from assms have "binding_fault rt p fs e s = None" by (simp add: command_evidence_def split: option.splits)
  then show "bound rt p fs e s" by (rule binding_fault_bound)
  from assms this obtain a where a: "resolve_adapter reg (ee_tool e) (ee_format e) = Inr a"
    "ea_supports_execution a (ee_command e) (er_executable (sb_execution s))"
    "ns = pv_nodes (ea_parse a (sb_stdout s) (sb_stderr s) (er_return_code (sb_execution s)))"
    "sorted_set (filter (\<lambda>i. count_list (map nv_node ns) i > 1) (map nv_node ns)) = []"
    by (auto simp: command_evidence_def Let_def simp del: sorted_set_eq_Nil split: option.splits if_splits)
  then show "distinct (map nv_node ns)" unfolding no_duplicates by simp
  from a show "\<exists>a. resolve_adapter reg (ee_tool e) (ee_format e) = Inr a
       \<and> ea_supports_execution a (ee_command e) (er_executable (sb_execution s))
       \<and> ns = pv_nodes (ea_parse a (sb_stdout s) (sb_stderr s) (er_return_code (sb_execution s)))" by blast
qed

lemma add_reason_simps [simp]:
  "gs_reasons (add_reason m st) = gs_reasons st @ [m]" "gs_nodes (add_reason m st) = gs_nodes st"
  by (simp_all add: add_reason_def)

lemma reason_if_simps [simp]:
  "gs_reasons (reason_if b m st) = [] \<longleftrightarrow> \<not> b \<and> gs_reasons st = []" "gs_nodes (reason_if b m st) = gs_nodes st"
  by (simp_all add: reason_if_def)

lemma judge_node_quiet:
  assumes "gs_reasons (judge_node e oracle n st) = []" "nv_node n \<in> set (map ne_node (ee_nodes e))"
  shows "gs_reasons st = []" "node_fine e oracle n" "gs_nodes (judge_node e oracle n st) = gs_nodes st @ [n]"
proof -
  let ?m = "map_of (map (\<lambda>x. (ne_node x, ne_assertion x)) (rev (ee_nodes e))) (nv_node n)"
  obtain x where m: "?m = Some x"
    using assms(2) by (cases ?m) (auto simp: map_of_eq_None_iff image_image)
  show "gs_reasons st = []" "node_fine e oracle n" "gs_nodes (judge_node e oracle n st) = gs_nodes st @ [n]"
    using assms(1) m by (auto simp: judge_node_def Let_def node_fine_def split: if_splits)
qed

lemma judge_nodes_quiet:
  assumes "gs_reasons (fold (judge_node e oracle) ns st) = []" "set (map nv_node ns) \<subseteq> set (map ne_node (ee_nodes e))"
  shows "gs_reasons st = [] \<and> list_all (node_fine e oracle) ns
    \<and> gs_nodes (fold (judge_node e oracle) ns st) = gs_nodes st @ ns"
  using assms
proof (induction ns arbitrary: st)
  case (Cons n ns)
  let ?st = "judge_node e oracle n st"
  have "gs_reasons (fold (judge_node e oracle) ns ?st) = []" using Cons.prems(1) by simp
  from Cons.IH [OF this] Cons.prems(2)
  have IH: "gs_reasons ?st = []" "list_all (node_fine e oracle) ns"
    "gs_nodes (fold (judge_node e oracle) ns ?st) = gs_nodes ?st @ ns" by auto
  have "nv_node n \<in> set (map ne_node (ee_nodes e))" using Cons.prems(2) by auto
  from judge_node_quiet [OF IH(1) this] IH(2,3) show ?case by simp
qed simp

lemma judge_nodes_keep: "gs_reasons (fold (judge_node e oracle) ns st) = [] \<Longrightarrow> gs_reasons st = []"
proof (induction ns arbitrary: st)
  case (Cons n ns)
  from Cons.prems have "gs_reasons (fold (judge_node e oracle) ns (judge_node e oracle n st)) = []" by simp
  from Cons.IH [OF this] have "gs_reasons (judge_node e oracle n st) = []" .
  then show ?case by (auto simp: judge_node_def Let_def split: option.splits if_splits)
qed simp

lemma judge_command_quiet:
  assumes "gs_reasons (judge_command rt p fs reg e s st) = []"
  shows "\<exists>ns. gs_reasons st = [] \<and> red_command rt p fs reg e s ns
    \<and> gs_nodes (judge_command rt p fs reg e s st) = gs_nodes st @ ns"
proof (cases "command_evidence rt p fs reg e s")
  case (Inl m)
  then show ?thesis using assms by (simp add: judge_command_def)
next
  case (Inr ns)
  let ?o = "oracle_verified rt p fs e s"
  define unknown where "unknown = sorted_set (filter (\<lambda>i. i \<notin> set (map ne_node (ee_nodes e))) (map nv_node ns))"
  define missing where "missing = sorted_set (filter (\<lambda>i. i \<notin> set (map nv_node ns)) (map ne_node (ee_nodes e)))"
  define st1 where "st1 = reason_if (missing \<noteq> []) (prefixed e (''missing node results: '' @ join '', '' missing))
      (reason_if (unknown \<noteq> []) (prefixed e (''unknown node results: '' @ join '', '' unknown)) st)"
  have judged: "judge_command rt p fs reg e s st = fold (judge_node e ?o) ns st1"
    unfolding judge_command_def st1_def unknown_def missing_def Let_def by (simp add: Inr)
  then have "gs_reasons st1 = []" using judge_nodes_keep assms by metis
  then have quiet: "missing = []" "unknown = []" "gs_reasons st = []" and nodes: "gs_nodes st1 = gs_nodes st"
    by (simp_all add: st1_def)
  then have ids: "set (map nv_node ns) = set (map ne_node (ee_nodes e))"
    unfolding missing_def unknown_def sorted_set_eq_Nil filter_empty_conv by blast
  with judge_nodes_quiet [of e ?o ns st1] assms judged
  have "list_all (node_fine e ?o) ns" "gs_nodes (judge_command rt p fs reg e s st) = gs_nodes st @ ns"
    by (simp_all add: nodes)
  with ids quiet command_evidence_Inr [OF Inr] show ?thesis
    unfolding red_command_def by (intro exI [of _ ns]) simp
qed

text \<open>The commands judged so far without a reason, and where the accepted nodes come from.\<close>

definition red_nodes ::
  "runtime \<Rightarrow> key_provider \<Rightarrow> receipt_dir \<Rightarrow> adapters \<Rightarrow> (string \<times> evidence_submission) list
     \<Rightarrow> evidence_expectation \<Rightarrow> node_evidence list \<Rightarrow> bool" where
  "red_nodes rt p fs reg subs e ns \<longleftrightarrow>
     (\<exists>s. map_of subs (ee_command_id e) = Some s \<and> red_command rt p fs reg e s ns)"

lemma judge_all_quiet:
  assumes "gs_reasons (judge_all rt p fs reg subs es st) = []" "\<forall>e \<in> set es. map_of subs (ee_command_id e) \<noteq> None"
  shows "gs_reasons st = [] \<and> (\<forall>e \<in> set es. \<exists>ns. red_nodes rt p fs reg subs e ns) \<and>
     set (gs_nodes (judge_all rt p fs reg subs es st))
       \<subseteq> set (gs_nodes st) \<union> {n. \<exists>e \<in> set es. \<exists>ns. red_nodes rt p fs reg subs e ns \<and> n \<in> set ns}"
  using assms
proof (induction es arbitrary: st)
  case (Cons e es)
  from Cons.prems(2) obtain s where s: "map_of subs (ee_command_id e) = Some s" by auto
  let ?st = "judge_command rt p fs reg e s st"
  have step: "gs_reasons (judge_all rt p fs reg subs es ?st) = []" using Cons.prems(1) s by simp
  have rest: "\<forall>e \<in> set es. map_of subs (ee_command_id e) \<noteq> None" using Cons.prems(2) by simp
  have IH: "gs_reasons ?st = []" "\<forall>e \<in> set es. \<exists>ns. red_nodes rt p fs reg subs e ns"
    "set (gs_nodes (judge_all rt p fs reg subs es ?st))
       \<subseteq> set (gs_nodes ?st) \<union> {n. \<exists>e \<in> set es. \<exists>ns. red_nodes rt p fs reg subs e ns \<and> n \<in> set ns}"
    using Cons.IH [OF step rest] by blast+
  obtain ns where ns: "gs_reasons st = []" "red_command rt p fs reg e s ns" "gs_nodes ?st = gs_nodes st @ ns"
    using judge_command_quiet [OF IH(1)] by blast
  then have red: "red_nodes rt p fs reg subs e ns" unfolding red_nodes_def using s by blast
  have "judge_all rt p fs reg subs (e # es) st = judge_all rt p fs reg subs es ?st" by (simp add: s)
  with IH(2,3) ns(1,3) red show ?case by (simp only:) auto
qed simp

lemma evaluate_authorized:
  assumes "dc_authorized (evaluate rt p fs reg es subs)"
  shows "distinct (map ee_command_id es)" "distinct (map sb_command_id subs)"
    "set (map sb_command_id subs) = set (map ee_command_id es)"
    "\<forall>e \<in> set es. evidence_plan_digest rt es = Some (ee_plan e)"
    "dc_authorized (red_decision rt p fs reg es subs)"
proof -
  from assms have one: "length (remdups (map ee_plan es)) = 1" "evidence_plan_digest rt es \<in> Some ` set (map ee_plan es)"
    by (auto simp: evaluate_def refuse_def split: if_splits)
  then have "card (set (map ee_plan es)) = 1" by (simp add: length_remdups_card_conv)
  then obtain d where "set (map ee_plan es) = {d}" using card_1_singletonE by blast
  with one(2) show "\<forall>e \<in> set es. evidence_plan_digest rt es = Some (ee_plan e)" by auto
  from assms have *: "distinct (map ee_command_id es)" "dc_authorized (red_decision rt p fs reg es subs)"
    "named_reason ''duplicate result receipt for command: '' (sorted_set (filter (\<lambda>i. count_list (map sb_command_id subs) i > 1) (map sb_command_id subs))) = []"
    "named_reason ''missing result receipt for command: '' (sorted_set (filter (\<lambda>i. i \<notin> set (map sb_command_id subs)) (map ee_command_id es))) = []"
    "named_reason ''unknown result receipt for command: '' (sorted_set (filter (\<lambda>i. i \<notin> set (map ee_command_id es)) (map sb_command_id subs))) = []"
    by (auto simp only: evaluate_def refuse_def Let_def evidence_decision.simps append_is_Nil_conv split: if_splits sum.splits)
  then show "distinct (map ee_command_id es)" "dc_authorized (red_decision rt p fs reg es subs)" by blast+
  have named: "named_reason m names = [] \<longleftrightarrow> names = []" for m names by (simp add: named_reason_def)
  from *(3-5) show "distinct (map sb_command_id subs)" "set (map sb_command_id subs) = set (map ee_command_id es)"
    unfolding named no_duplicates unfolding sorted_set_eq_Nil filter_empty_conv by blast+
qed

lemma submission_of:
  assumes "map_of (rev (map (\<lambda>s. (sb_command_id s, s)) subs)) i = Some s"
  shows "s \<in> set subs \<and> sb_command_id s = i"
  using map_of_SomeD [OF assms] by auto

text \<open>
  C15. A red test run is authorized only on meaningful evidence: the commands of the plan and
  the submitted results correspond one to one, the expectations are those whose digest was
  admitted as the plan, every execution is bound to its expectation by a verified receipt and
  reports exactly the planned nodes with their assertions, and at least one planned node
  failed by its assertion in a command whose oracle was admitted independently.
\<close>
theorem authorized_red_is_meaningful:
  assumes "dc_authorized (evaluate rt p fs reg es subs)"
  shows "distinct (map ee_command_id es) \<and> distinct (map sb_command_id subs)
    \<and> set (map sb_command_id subs) = set (map ee_command_id es)
    \<and> (\<forall>e \<in> set es. evidence_plan_digest rt es = Some (ee_plan e))
    \<and> (\<forall>e \<in> set es. \<exists>s \<in> set subs. \<exists>ns. sb_command_id s = ee_command_id e \<and> red_command rt p fs reg e s ns)
    \<and> (\<exists>e \<in> set es. \<exists>s \<in> set subs. \<exists>ns. sb_command_id s = ee_command_id e \<and> red_command rt p fs reg e s ns
         \<and> oracle_verified rt p fs e s \<and> (\<exists>n \<in> set ns. nv_outcome n = ''failed'' \<and> nv_kind n = ''assertion''))"
proof -
  note auth = evaluate_authorized [OF assms]
  define by_id where "by_id = rev (map (\<lambda>s. (sb_command_id s, s)) subs)"
  define st where "st = judge_all rt p fs reg by_id es \<lparr>gs_reasons = [], gs_nodes = [], gs_seen = []\<rparr>"
  have st: "gs_reasons st = []" "list_ex meaningful_node (gs_nodes st)"
    using auth(5) unfolding red_decision_def Let_def by_id_def [symmetric] st_def [symmetric] by (auto split: if_splits)
  have "\<forall>e \<in> set es. map_of by_id (ee_command_id e) \<noteq> None"
    using auth(3) unfolding by_id_def map_of_eq_None_iff by (auto simp: image_image)
  from judge_all_quiet [OF st(1) [unfolded st_def] this]
  have all: "\<forall>e \<in> set es. \<exists>ns. red_nodes rt p fs reg by_id e ns"
    and nodes: "set (gs_nodes st) \<subseteq> {n. \<exists>e \<in> set es. \<exists>ns. red_nodes rt p fs reg by_id e ns \<and> n \<in> set ns}"
    unfolding st_def by simp_all
  have red: "red_nodes rt p fs reg by_id e ns \<Longrightarrow>
      \<exists>s \<in> set subs. sb_command_id s = ee_command_id e \<and> red_command rt p fs reg e s ns" for e ns
    unfolding red_nodes_def by_id_def using submission_of by blast
  obtain n where n: "n \<in> set (gs_nodes st)" "nv_outcome n = ''failed''" "nv_kind n = ''assertion''"
    using st(2) by (auto simp: list_ex_iff meaningful_node_def)
  then obtain e ns where e: "e \<in> set es" "red_nodes rt p fs reg by_id e ns" "n \<in> set ns" using nodes by blast
  then obtain s where s: "s \<in> set subs" "sb_command_id s = ee_command_id e" "red_command rt p fs reg e s ns"
    using red by blast
  then have "oracle_verified rt p fs e s"
    using e(3) n(3) by (auto simp: red_command_def list_all_iff node_fine_def)
  with e s n all red auth(1-4) show ?thesis by blast
qed

section \<open>The kernel's evidence passes the gate\<close>

lemma text_bindings_evidence:
  "map_of (text_bindings rt (evidence_json rt i pol c plan cmd out before)) ''plan_digest'' = Some plan"
  "map_of (text_bindings rt (evidence_json rt i pol c plan cmd out before)) ''policy_digest'' = Some (policy_digest rt pol)"
  "map_of (text_bindings rt (evidence_json rt i pol c plan cmd out before)) ''command_digest''
     = Some (canonical_digest rt (JList (map JStr cmd)))"
  by (simp_all add: text_bindings_def evidence_json_def)

lemma evidence_distinct:
  "distinct (map fst (json_bindings (text_bindings rt (evidence_json rt i pol c plan cmd out before))))"
  by (simp add: json_bindings_def text_bindings_def evidence_json_def)

lemma signed_kernel_evidence:
  assumes "er_bindings x = text_bindings rt (evidence_json rt (er_isolation x) pol (er_commit x) plan cmd out before)"
    "ee_command e = cmd" "ee_plan e = plan" "er_executable x = co_executable out" "er_return_code x = co_return_code out"
    "er_stdout_digest x = sha256_digest rt (co_stdout out)" "er_stderr_digest x = sha256_digest rt (co_stderr out)"
    "er_before x = before"
  shows "signed_evidence rt e x = evidence_json rt (er_isolation x) pol (er_commit x) plan cmd out before"
  unfolding signed_evidence_def assms(1) text_bindings_evidence
  by (simp add: evidence_json_def assms(2-))

text \<open>
  C16. The kernel and the gate agree on what an execution is evidence for: an execution result
  the kernel returned is accepted as bound, then and after any further admissions, exactly by
  the expectations that name its command, plan, commit and subject, with the raw output that
  was captured.
\<close>
theorem kernel_evidence_is_bound:
  assumes run: "execute rt k p env fs policy commit_sha plan command = (Inr res, fs')"
    and "provider_text p" "reads_receipt rt (er_receipt res)"
    and later: "admissions rt fs' fs''" and s: "sb_execution s = res"
  shows "binding_fault rt p fs'' e s = None \<longleftrightarrow>
     ee_command e = command \<and> ee_plan e = plan \<and> ee_commit e = commit_sha \<and> ee_subject e = er_before res
     \<and> sha256_digest rt (sb_stdout s) = er_stdout_digest res \<and> sha256_digest rt (sb_stderr s) = er_stderr_digest res"
    (is "_ \<longleftrightarrow> ?matches")
proof -
  from run obtain out before where out:
    "er_digest res = canonical_digest rt (JObj
       (evidence_json rt (ke_identity k) policy commit_sha plan command out before))"
    "er_bindings res = text_bindings rt
       (evidence_json rt (ke_identity k) policy commit_sha plan command out before)"
    "admit_artifact rt p env fs execution_kind (er_digest res) (json_bindings (er_bindings res)) = (Inr (er_receipt res), fs')"
    "er_commit res = commit_sha" "er_command res = command" "er_return_code res = co_return_code out"
    "er_stdout_digest res = sha256_digest rt (co_stdout out)" "er_stderr_digest res = sha256_digest rt (co_stderr out)"
    "er_before res = before" "er_after res = before" "er_isolation res = ke_identity k"
    "er_executable res = co_executable out"
    by (rule execute_Inr) blast
  have "distinct (map fst (json_bindings (er_bindings res)))" unfolding out(2) by (rule evidence_distinct)
  then have verified: "verify_receipt rt p fs'' (er_receipt res) execution_kind (er_digest res) (json_bindings (er_bindings res))"
    using admit_backed [OF out(3) assms(2) _ assms(3)] backed_keeps [OF _ later] unfolding verify_backed by blast
  have signed: "signed_evidence rt e res = evidence_json rt (er_isolation res) policy (er_commit res) plan command out before"
    if "ee_command e = command" "ee_plan e = plan"
    using out that by (intro signed_kernel_evidence) simp_all
  note bound_to = out(2) [THEN arg_cong [where f = map_of], THEN fun_cong]
  show ?thesis
  proof
    assume "binding_fault rt p fs'' e s = None"
    then have "bound rt p fs'' e s" by (rule binding_fault_bound)
    then show ?matches
      using out(4,5) unfolding bound_def Let_def s by (simp add: bound_to text_bindings_evidence)
  next
    assume m: ?matches
    then have "signed_evidence rt e res = evidence_json rt (ke_identity k) policy commit_sha plan command out before"
      using signed out(4,11) by simp
    with m out verified show "binding_fault rt p fs'' e s = None"
      unfolding binding_fault_def Let_def s
      by (simp add: bound_to text_bindings_evidence same_bindings_def)
  qed
qed

section \<open>A concrete red run\<close>

definition red_command_line :: command where
  "red_command_line = [''pytest'', ''--json-report'', ''--noconftest'', ''-c'', ''/dev/null'', ''--json-report-file'',
     ''/dev/stdout'', ''-p'', ''no:terminal'', ''-p'', ''xdist.plugin'', ''-n'', ''1'', ''--dist'', ''loadscope'',
     ''--max-worker-restart'', ''0'']"

definition red_commit :: string where
  "red_commit = hex_digits 40 0"

definition red_expectation :: evidence_expectation where
  "red_expectation = \<lparr>ee_command_id = ''c'', ee_tool = ''pytest'', ee_format = ''json'', ee_plan = receipt_subject,
     ee_commit = red_commit, ee_subject = receipt_subject, ee_command = red_command_line,
     ee_nodes = [\<lparr>ne_node = ''t'', ne_assertion = ''a''\<rparr>]\<rparr>"

text \<open>A runtime that prints receipts of the two kinds differently and reads both back.\<close>

definition red_printer :: runtime where
  "red_printer = (sample_runtime [])\<lparr>rt_sha256 := (\<lambda>_. 0), rt_dumps := (\<lambda>j. if (case j of JObj d \<Rightarrow>
     map_of d ''artifact_kind'' = Some (JStr oracle_artifact_kind) | _ \<Rightarrow> False) then ''o'' else ''x'')\<rparr>"

definition red_env :: kernel_env where
  "red_env = \<lparr>ke_git = \<lparr>ge_directory = True,
       ge_git = (\<lambda>argv. Inr (0, if ''rev-parse'' \<in> set argv then red_commit else [])),
       ge_sha1 = (\<lambda>_. []), ge_tar_size = (\<lambda>_. 10240), ge_in_time = True\<rparr>,
     ke_identity = ''bwrap'',
     ke_sandbox = (\<lambda>_ _ _. Inr \<lparr>co_return_code = 1, co_stdout = [], co_stderr = [], co_status = ''s'',
       co_executable = ''/usr/bin/pytest''\<rparr>),
     ke_subject_after = (\<lambda>t. t), ke_cleaned = True\<rparr>"

definition red_bindings :: "(string \<times> string) list" where
  "red_bindings = [(''command_digest'', receipt_subject), (''commit_sha'', red_commit), (''isolation_policy'', ''bwrap''),
     (''plan_digest'', receipt_subject), (''policy_digest'', receipt_subject), (''resolved_executable'', ''/usr/bin/pytest''),
     (''return_code'', ''1''), (''stderr_digest'', receipt_subject), (''stdout_digest'', receipt_subject),
     (''subject_digest'', receipt_subject)]"

definition oracle_bindings :: "(string \<times> string) list" where
  "oracle_bindings = [(''command_id'', ''c''), (''commit_sha'', red_commit), (''plan_digest'', receipt_subject),
     (''subject_digest'', receipt_subject)]"

definition red_receipt :: admission_receipt where
  "red_receipt = new_receipt red_printer (demo_provider [''k2'']) execution_kind receipt_subject red_bindings"

definition oracle_receipt :: admission_receipt where
  "oracle_receipt = new_receipt red_printer (demo_provider [''k2'']) oracle_artifact_kind receipt_subject oracle_bindings"

definition red_runtime :: runtime where
  "red_runtime = red_printer\<lparr>rt_json := (\<lambda>b. Some (reparsed (JObj (receipt_dict
     (if b = ''o'' @ [CHR 0x0A] then oracle_receipt else red_receipt)))))\<rparr>"

lemma red_digests [simp]:
  "canonical_digest red_runtime j = receipt_subject" "sha256_digest red_runtime b = receipt_subject"
  by (simp_all add: canonical_digest_def sha256_digest_def red_runtime_def red_printer_def sample_runtime_def receipt_subject_def)

lemma red_text: "is_utf8 receipt_subject" "is_utf8 red_commit" "receipt_subject \<noteq> []" "red_commit \<noteq> []"
proof -
  have "is_digest_str receipt_subject" by code_simp
  then show "is_utf8 receipt_subject" by (rule is_digest_str_utf8)
  show "is_utf8 red_commit"
    unfolding red_commit_def using hex_digits_hex [of 40 0]
    by (intro ascii_is_utf8) (auto simp: list_all_iff is_hex_lower_def Let_def)
  show "receipt_subject \<noteq> []" "red_commit \<noteq> []" by code_simp+
qed

lemma validate_text:
  assumes "is_kind kind" "is_digest_str digest" "b \<noteq> []" "sorted (map fst b)"
    "list_all (\<lambda>(k, v). k \<noteq> [] \<and> is_utf8 k \<and> v \<noteq> [] \<and> is_utf8 v) b"
  shows "validate_subject kind digest (json_bindings b) = Inr b"
proof -
  have "map binding_text (json_bindings b) = b" "list_all binding_ok (json_bindings b)"
    using assms(5) by (auto simp: json_bindings_def binding_text_def binding_ok_def list_all_iff intro!: map_idI)
  moreover have "sort_key fst b = b" by (rule sort_key_id_if_sorted [OF assms(4)])
  ultimately show ?thesis
    using assms(1-3) by (simp add: validate_subject_def) (simp add: json_bindings_def)
qed

lemma red_names:
  "list_all is_utf8 [''command_digest'', ''commit_sha'', ''isolation_policy'', ''plan_digest'', ''policy_digest'',
     ''resolved_executable'', ''return_code'', ''stderr_digest'', ''stdout_digest'', ''subject_digest'', ''command_id'',
     ''bwrap'', ''/usr/bin/pytest'', ''1'', ''c'']"
  by code_simp

lemma red_valid:
  "validate_subject execution_kind receipt_subject (json_bindings red_bindings) = Inr red_bindings"
  "validate_subject oracle_artifact_kind receipt_subject (json_bindings oracle_bindings) = Inr oracle_bindings"
proof -
  have kinds: "is_kind execution_kind" "is_kind oracle_artifact_kind" "is_digest_str receipt_subject" by code_simp+
  have sorted: "sorted (map fst red_bindings)" "sorted (map fst oracle_bindings)"
    unfolding red_bindings_def oracle_bindings_def list.map fst_conv by code_simp+
  show "validate_subject execution_kind receipt_subject (json_bindings red_bindings) = Inr red_bindings"
    by (rule validate_text [OF kinds(1,3) _ sorted(1)]) (use red_names red_text in \<open>simp_all add: red_bindings_def\<close>)
  show "validate_subject oracle_artifact_kind receipt_subject (json_bindings oracle_bindings) = Inr oracle_bindings"
    by (rule validate_text [OF kinds(2,3) _ sorted(2)]) (use red_names red_text in \<open>simp_all add: oracle_bindings_def\<close>)
qed

lemma red_bytes:
  "receipt_bytes red_runtime red_receipt = ''x'' @ [CHR 0x0A]" "receipt_bytes red_runtime oracle_receipt = ''o'' @ [CHR 0x0A]"
  by (simp_all add: receipt_bytes_def red_runtime_def red_printer_def canonical_json_bytes_def receipt_dict_def
      authority_payload_def red_receipt_def oracle_receipt_def new_receipt_fields execution_kind_def oracle_artifact_kind_def)

lemma red_reads: "reads_receipt red_runtime red_receipt" "reads_receipt red_runtime oracle_receipt"
  unfolding reads_receipt_def red_bytes by (simp_all add: red_runtime_def del: reparsed.simps)

lemma red_new:
  "new_receipt red_runtime (demo_provider [''k2'']) execution_kind receipt_subject red_bindings = red_receipt"
  "new_receipt red_runtime (demo_provider [''k2'']) oracle_artifact_kind receipt_subject oracle_bindings = oracle_receipt"
  by (simp_all add: red_receipt_def oracle_receipt_def red_runtime_def new_receipt_def receipt_seal_def canonical_digest_def
      canonical_json_bytes_def sha256_digest_def)

definition calm :: admission_env where
  "calm = \<lparr>ae_lock_safe = True, ae_raced = None\<rparr>"

definition oracle_dir :: receipt_dir where
  "oracle_dir = [(oracle_artifact_kind, receipt_filename receipt_subject) \<mapsto> Regular (''o'' @ [CHR 0x0A])]"

definition red_dir :: receipt_dir where
  "red_dir = oracle_dir((execution_kind, receipt_filename receipt_subject) \<mapsto> Regular (''x'' @ [CHR 0x0A]))"

lemma red_admit:
  "admit_artifact red_runtime (demo_provider [''k2'']) calm (\<lambda>_. None) oracle_artifact_kind receipt_subject
     (json_bindings oracle_bindings) = (Inr oracle_receipt, oracle_dir)"
  "admit_artifact red_runtime (demo_provider [''k2'']) calm oracle_dir execution_kind receipt_subject
     (json_bindings red_bindings) = (Inr red_receipt, red_dir)"
proof -
  have "provider_verifies red_runtime (demo_provider [''k2'']) oracle_receipt"
    "provider_verifies red_runtime (demo_provider [''k2'']) red_receipt"
    by (simp_all add: provider_verifies_def demo_provider_def oracle_receipt_def red_receipt_def new_receipt_def Let_def)
  moreover have "execution_kind \<noteq> oracle_artifact_kind" by (simp add: execution_kind_def oracle_artifact_kind_def)
  ultimately show
    "admit_artifact red_runtime (demo_provider [''k2'']) calm (\<lambda>_. None) oracle_artifact_kind receipt_subject
       (json_bindings oracle_bindings) = (Inr oracle_receipt, oracle_dir)"
    "admit_artifact red_runtime (demo_provider [''k2'']) calm oracle_dir execution_kind receipt_subject
       (json_bindings red_bindings) = (Inr red_receipt, red_dir)"
    by (simp_all add: admit_artifact_def red_valid publish_def Let_def red_new red_bytes max_receipt_bytes_def
        calm_def oracle_dir_def red_dir_def)
qed

lemma one_text: "show_int 1 = ''1''"
  by code_simp

definition red_result :: execution_result where
  "red_result = \<lparr>er_commit = red_commit, er_command = red_command_line, er_return_code = 1,
     er_stdout_digest = receipt_subject, er_stderr_digest = receipt_subject, er_before = receipt_subject,
     er_after = receipt_subject, er_isolation = ''bwrap'', er_executable = ''/usr/bin/pytest'',
     er_digest = receipt_subject, er_bindings = red_bindings, er_receipt = red_receipt\<rparr>"

definition red_submission :: evidence_submission where
  "red_submission = \<lparr>sb_command_id = ''c'', sb_execution = red_result, sb_stdout = [], sb_stderr = [],
     sb_oracle = Some oracle_receipt\<rparr>"

lemma red_execute:
  "execute red_runtime red_env (demo_provider [''k2'']) calm oracle_dir default_policy red_commit receipt_subject
     red_command_line = (Inr red_result, red_dir)"
proof -
  have "is_commit red_commit" "strip red_commit = red_commit" "executable_ok ''/usr/bin/pytest''"
    "''rev-parse'' \<noteq> red_commit" by code_simp+
  then have "run_in_copy red_runtime red_env default_policy red_commit red_command_line
     = Inr (\<lparr>co_return_code = 1, co_stdout = [], co_stderr = [], co_status = ''s'',
       co_executable = ''/usr/bin/pytest''\<rparr>, receipt_subject)"
    by (simp add: run_in_copy_def exact_commit_archive_def red_env_def git_base_def extract_snapshot_def
        snapshot_digest_def default_policy_def)
  moreover have "is_digest_str receipt_subject" by code_simp
  moreover have "text_bindings red_runtime (evidence_json red_runtime ''bwrap'' default_policy red_commit receipt_subject
      red_command_line \<lparr>co_return_code = 1, co_stdout = [], co_stderr = [], co_status = ''s'',
       co_executable = ''/usr/bin/pytest''\<rparr> receipt_subject) = red_bindings"
    by (simp add: text_bindings_def evidence_json_def policy_digest_def red_bindings_def one_text)
  ultimately show ?thesis
    by (simp add: execute_def red_env_def Let_def red_admit red_result_def)
qed

theorem kernel_evidence_is_bound_witness:
  "binding_fault red_runtime (demo_provider [''k2'']) red_dir red_expectation red_submission = None"
  using kernel_evidence_is_bound [OF red_execute demo_provider_text _ admissions.none, of red_submission red_expectation]
    red_reads(1)
  by (simp add: red_submission_def red_result_def red_expectation_def)

definition red_adapter :: evidence_adapter where
  "red_adapter = \<lparr>ea_tool = ''pytest'', ea_format = ''json'', ea_supports = pytest_supports,
     ea_supports_execution = pytest_supports_execution, ea_parse = (\<lambda>_ _ _. \<lparr>pv_nodes =
       [\<lparr>nv_node = ''t'', nv_outcome = ''failed'', nv_kind = ''assertion'', nv_assertion = ''a'', nv_raw = []\<rparr>],
       pv_blocking = []\<rparr>)\<rparr>"

lemma red_verified:
  "verify_receipt red_runtime (demo_provider [''k2'']) red_dir red_receipt execution_kind receipt_subject (json_bindings red_bindings)"
  "verify_receipt red_runtime (demo_provider [''k2'']) red_dir oracle_receipt oracle_artifact_kind receipt_subject (json_bindings oracle_bindings)"
proof -
  let ?p = "demo_provider [''k2'']"
  have distinct: "distinct (map fst (json_bindings red_bindings))" "distinct (map fst (json_bindings oracle_bindings))"
    by (simp_all add: json_bindings_def red_bindings_def oracle_bindings_def)
  have "admissions red_runtime oracle_dir red_dir" by (rule admissions.more [OF admissions.none red_admit(2)])
  then show "verify_receipt red_runtime ?p red_dir oracle_receipt oracle_artifact_kind receipt_subject (json_bindings oracle_bindings)"
    using admit_backed [OF red_admit(1) demo_provider_text distinct(2) red_reads(2)] backed_keeps
    unfolding verify_backed by blast
  show "verify_receipt red_runtime ?p red_dir red_receipt execution_kind receipt_subject (json_bindings red_bindings)"
    using admit_backed [OF red_admit(2) demo_provider_text distinct(1) red_reads(1)] unfolding verify_backed .
qed

lemma red_authorized:
  "dc_authorized (evaluate red_runtime (demo_provider [''k2'']) red_dir [((''pytest'', ''json''), red_adapter)]
     [red_expectation] [red_submission])"
proof -
  let ?p = "demo_provider [''k2'']"
  have "text_bindings red_runtime (signed_evidence red_runtime red_expectation red_result) = red_bindings"
    "map_of red_bindings ''plan_digest'' = Some receipt_subject" "map_of red_bindings ''command_digest'' = Some receipt_subject"
    by (simp_all add: text_bindings_def signed_evidence_def red_result_def red_bindings_def red_expectation_def one_text)
  then have bound: "binding_fault red_runtime ?p red_dir red_expectation red_submission = None"
    using red_verified(1) unfolding binding_fault_def Let_def red_submission_def
    by (simp add: red_result_def red_expectation_def same_bindings_def)
  have "oracle_subject_bindings red_expectation = json_bindings oracle_bindings"
    by (simp add: oracle_subject_bindings_def red_expectation_def json_bindings_def oracle_bindings_def)
  then have vouched: "oracle_verified red_runtime ?p red_dir red_expectation red_submission"
    using red_verified(2) by (simp add: oracle_verified_def red_submission_def oracle_artifact_digest_def)
  have supports: "pytest_supports red_command_line" "pytest_supports_execution red_command_line ''/usr/bin/pytest''"
    by code_simp+
  have ids: "ee_command_id red_expectation = ''c''" "ee_tool red_expectation = ''pytest''" "ee_format red_expectation = ''json''"
    "ee_plan red_expectation = receipt_subject" "ee_nodes red_expectation = [\<lparr>ne_node = ''t'', ne_assertion = ''a''\<rparr>]"
    "ee_command red_expectation = red_command_line" "sb_command_id red_submission = ''c''"
    "er_executable (sb_execution red_submission) = ''/usr/bin/pytest''"
    by (simp_all add: red_expectation_def red_submission_def red_result_def)
  have evidence: "command_evidence red_runtime ?p red_dir [((''pytest'', ''json''), red_adapter)] red_expectation red_submission
      = Inr [\<lparr>nv_node = ''t'', nv_outcome = ''failed'', nv_kind = ''assertion'', nv_assertion = ''a'', nv_raw = []\<rparr>]"
    using supports by (simp add: command_evidence_def bound Let_def resolve_adapter_def ids red_adapter_def sorted_set_def)
  show ?thesis
    by (simp add: evaluate_def red_decision_def ids evidence_plan_digest_def resolve_adapter_def red_adapter_def supports
        Let_def named_reason_def sorted_set_def judge_command_def evidence [unfolded red_adapter_def] vouched judge_node_def
        reason_if_def failure_kinds_def meaningful_node_def)
qed

theorem authorized_red_is_meaningful_witness:
  "\<exists>e \<in> set [red_expectation]. \<exists>s \<in> set [red_submission]. \<exists>ns. sb_command_id s = ee_command_id e
     \<and> red_command red_runtime (demo_provider [''k2'']) red_dir [((''pytest'', ''json''), red_adapter)] e s ns
     \<and> oracle_verified red_runtime (demo_provider [''k2'']) red_dir e s
     \<and> (\<exists>n \<in> set ns. nv_outcome n = ''failed'' \<and> nv_kind n = ''assertion'')"
  using authorized_red_is_meaningful [OF red_authorized] by blast

end
