(* ===== verification/Specification.thy ===== *)
theory Specification
  imports Governance Assurance
begin

text \<open>
  The product specification on its way in: the schema validator of \<^verbatim>\<open>ingestion/schema.py\<close>, the
  normalizer of \<^verbatim>\<open>ingestion/normalizer.py\<close> with the records of \<^verbatim>\<open>domain/models.py\<close>, and
  \<^verbatim>\<open>ingest\<close>, which runs both on the loaded mapping.

  A schema is a JSON object of the documented subset; a schema outside it is an error of its
  own. \<^verbatim>\<open>str\<close> and \<^verbatim>\<open>repr\<close> of compound values are \<^verbatim>\<open>rt_repr\<close>.

  Shown: the validator reports nothing exactly for the values that conform to the schema; the
  ids the normalizer assigns clash with no other, as they are written; and that they may
  clash once the normalizer has stripped them.
\<close>

section \<open>Schema validation\<close>

datatype schema_error =
    Unsupported_type string      \<comment> \<open>\<^verbatim>\<open>ConfigError\<close>: a type the validator does not know\<close>
  | Malformed_schema             \<comment> \<open>a keyword whose value is outside the documented subset\<close>

definition type_name :: "json \<Rightarrow> string" where
  "type_name v = (case v of JNull \<Rightarrow> ''NoneType'' | JBool _ \<Rightarrow> ''bool'' | JInt _ \<Rightarrow> ''int'' | JFloat _ \<Rightarrow> ''float''
     | JStr _ \<Rightarrow> ''str'' | JList _ \<Rightarrow> ''list'' | JObj _ \<Rightarrow> ''dict'')"

text \<open>\<^verbatim>\<open>isinstance(value, _TYPE_CHECKS[expected])\<close>; nothing for a name that is not in the table.\<close>

definition has_type :: "string \<Rightarrow> json \<Rightarrow> bool option" where
  "has_type expected v =
     (if expected = ''string'' then Some (case v of JStr _ \<Rightarrow> True | _ \<Rightarrow> False)
      else if expected = ''array'' then Some (case v of JList _ \<Rightarrow> True | _ \<Rightarrow> False)
      else if expected = ''object'' then Some (case v of JObj _ \<Rightarrow> True | _ \<Rightarrow> False)
      else if expected = ''boolean'' then Some (case v of JBool _ \<Rightarrow> True | _ \<Rightarrow> False)
      else if expected = ''integer'' then Some (case v of JBool _ \<Rightarrow> True | JInt _ \<Rightarrow> True | _ \<Rightarrow> False)
      else if expected = ''number''
      then Some (case v of JBool _ \<Rightarrow> True | JInt _ \<Rightarrow> True | JFloat _ \<Rightarrow> True | _ \<Rightarrow> False)
      else None)"

text \<open>The error of the type check, if there is one.\<close>

definition type_errors :: "json \<Rightarrow> obj \<Rightarrow> string \<Rightarrow> schema_error + string list" where
  "type_errors v schema label = (case dget schema ''type'' of
      JNull \<Rightarrow> Inr []
    | JStr expected \<Rightarrow> (case has_type expected v of
          None \<Rightarrow> Inl (Unsupported_type expected)
        | Some ok \<Rightarrow>
            if expected = ''integer'' \<and> type_name v = ''bool'' then Inr [label @ '': expected integer, got boolean'']
            else if \<not> ok then Inr [label @ '': expected '' @ expected @ '', got '' @ type_name v] else Inr [])
    | _ \<Rightarrow> Inl Malformed_schema)"

definition enum_errors :: "runtime \<Rightarrow> json \<Rightarrow> obj \<Rightarrow> string \<Rightarrow> schema_error + string list" where
  "enum_errors rt v schema label = (case map_of schema ''enum'' of
      None \<Rightarrow> Inr []
    | Some (JList allowed) \<Rightarrow>
        Inr (if list_ex (py_eq v) allowed then []
             else [label @ '': value '' @ rt_repr rt v @ '' not one of ['' @ join '', '' (map (rt_repr rt) allowed) @ '']''])
    | Some _ \<Rightarrow> Inl Malformed_schema)"

text \<open>\<^verbatim>\<open>int(schema[key])\<close> for a bound; nothing when the key is missing.\<close>

definition bound_of :: "obj \<Rightarrow> string \<Rightarrow> schema_error + int option" where
  "bound_of schema key = (case map_of schema key of
      None \<Rightarrow> Inr None
    | Some (JInt n) \<Rightarrow> Inr (Some n)
    | Some _ \<Rightarrow> Inl Malformed_schema)"

definition below :: "int \<Rightarrow> int option \<Rightarrow> bool" where
  "below n b = (case b of None \<Rightarrow> False | Some m \<Rightarrow> n < m)"

definition bound_text :: "int option \<Rightarrow> string" where
  "bound_text b = (case b of None \<Rightarrow> [] | Some m \<Rightarrow> show_int m)"

definition length_errors :: "json \<Rightarrow> obj \<Rightarrow> string \<Rightarrow> schema_error + string list" where
  "length_errors v schema label = (case v of
      JStr s \<Rightarrow> bindr (bound_of schema ''minLength'') (\<lambda>b.
        Inr (if below (int (length (code_points (strip s)))) b
             then [label @ '': shorter than minLength '' @ bound_text b] else []))
    | JList xs \<Rightarrow> bindr (bound_of schema ''minItems'') (\<lambda>b.
        Inr (if below (int (length xs)) b
             then [label @ '': needs at least '' @ bound_text b @ '' item(s)''] else []))
    | _ \<Rightarrow> Inr [])"

fun missing_errors :: "obj \<Rightarrow> string \<Rightarrow> json list \<Rightarrow> schema_error + string list" where
  "missing_errors d label [] = Inr []"
| "missing_errors d label (JStr req # reqs) =
     bindr (missing_errors d label reqs) (\<lambda>es.
       Inr ((if dhas d req then [] else [label @ '': missing required field '' @ quoted req]) @ es))"
| "missing_errors d label (_ # reqs) = Inl Malformed_schema"

definition required_errors :: "obj \<Rightarrow> obj \<Rightarrow> string \<Rightarrow> schema_error + string list" where
  "required_errors d schema label = (case map_of schema ''required'' of
      None \<Rightarrow> Inr []
    | Some (JList reqs) \<Rightarrow> missing_errors d label reqs
    | Some _ \<Rightarrow> Inl Malformed_schema)"

definition properties_of :: "obj \<Rightarrow> schema_error + obj" where
  "properties_of schema = (case map_of schema ''properties'' of
      None \<Rightarrow> Inr []
    | Some (JObj props) \<Rightarrow> Inr props
    | Some _ \<Rightarrow> Inl Malformed_schema)"

definition both :: "'e + 'a list \<Rightarrow> 'e + 'a list \<Rightarrow> 'e + 'a list" where
  "both r s = bindr r (\<lambda>xs. bindr s (\<lambda>ys. Inr (xs @ ys)))"

lemma size_member: "(k, v) \<in> set d \<Longrightarrow> size v < size_list (size_prod (\<lambda>_. 0) size) d"
  by (induction d) auto

lemma size_dget [termination_simp]:
  "dget d k = JObj s \<Longrightarrow> size_list (size_prod (\<lambda>_. 0) size) s < size_list (size_prod (\<lambda>_. 0) size) d"
  using size_member [OF map_of_SomeD, of d k] by (auto simp: dget_def split: option.splits)

lemma size_properties [termination_simp]:
  "properties_of d = Inr s \<Longrightarrow> size_list (size_prod (\<lambda>_. 0) size) s \<le> size_list (size_prod (\<lambda>_. 0) size) d"
  using size_member [OF map_of_SomeD, of d "''properties''"]
  by (auto simp: properties_of_def split: option.splits json.splits)

text \<open>\<^verbatim>\<open>_validate_node\<close>, over the items of a list, and over the properties of an object.\<close>

function validate_node :: "runtime \<Rightarrow> json \<Rightarrow> obj \<Rightarrow> string \<Rightarrow> schema_error + string list"
  and validate_items :: "runtime \<Rightarrow> json list \<Rightarrow> obj \<Rightarrow> string \<Rightarrow> nat \<Rightarrow> schema_error + string list"
  and validate_properties :: "runtime \<Rightarrow> obj \<Rightarrow> obj \<Rightarrow> string \<Rightarrow> schema_error + string list" where
  "validate_node rt v schema path =
     (let label = (if path = [] then ''specification'' else path) in
      case type_errors v schema label of
        Inl e \<Rightarrow> Inl e
      | Inr (e # es) \<Rightarrow> Inr (e # es)
      | Inr [] \<Rightarrow> (case enum_errors rt v schema label of
          Inl e \<Rightarrow> Inl e
        | Inr (e # es) \<Rightarrow> Inr (e # es)
        | Inr [] \<Rightarrow> both (length_errors v schema label)
            (case v of
               JList xs \<Rightarrow> (case dget schema ''items'' of
                   JObj item \<Rightarrow> validate_items rt xs item label 0
                 | _ \<Rightarrow> Inr [])
             | JObj d \<Rightarrow> both (required_errors d schema label)
                 (case properties_of schema of
                    Inl e \<Rightarrow> Inl e
                  | Inr props \<Rightarrow> validate_properties rt d props path)
             | _ \<Rightarrow> Inr [])))"
| "validate_items rt [] item label i = Inr []"
| "validate_items rt (x # xs) item label i =
     both (validate_node rt x item (label @ ''['' @ show_nat i @ '']'')) (validate_items rt xs item label (Suc i))"
| "validate_properties rt d [] path = Inr []"
| "validate_properties rt d ((k, sub) # props) path =
     both (case map_of d k of
             None \<Rightarrow> Inr []
           | Some x \<Rightarrow> (case sub of
                 JObj s \<Rightarrow> validate_node rt x s (if path = [] then k else path @ ''.'' @ k)
               | _ \<Rightarrow> Inl Malformed_schema))
       (validate_properties rt d props path)"
  by pat_completeness auto
termination
  by (relation "measures [\<lambda>x. case x of Inl (rt, v, s, p) \<Rightarrow> size_list (size_prod (\<lambda>_. 0) size) s
      | Inr (Inl (rt, xs, s, l, i)) \<Rightarrow> size_list (size_prod (\<lambda>_. 0) size) s
      | Inr (Inr (rt, d, s, p)) \<Rightarrow> size_list (size_prod (\<lambda>_. 0) size) s,
     \<lambda>x. case x of Inl _ \<Rightarrow> 1
      | Inr (Inl (rt, xs, s, l, i)) \<Rightarrow> 2 + length xs
      | Inr (Inr _) \<Rightarrow> 0]")
    (auto simp: termination_simp dest: size_dget size_properties)

definition validate_schema :: "runtime \<Rightarrow> obj \<Rightarrow> json \<Rightarrow> schema_error + string list" where
  "validate_schema rt schema data = validate_node rt data schema []"

section \<open>What the validator decides\<close>

text \<open>A schema within the documented subset, at every depth.\<close>

inductive supported :: "obj \<Rightarrow> bool" where
  "dget s ''type'' = JNull \<or> (\<exists>t. dget s ''type'' = JStr t \<and> has_type t JNull \<noteq> None) \<Longrightarrow>
   map_of s ''enum'' = None \<or> (\<exists>xs. map_of s ''enum'' = Some (JList xs)) \<Longrightarrow>
   \<forall>k \<in> {''minLength'', ''minItems''}. map_of s k = None \<or> (\<exists>n. map_of s k = Some (JInt n)) \<Longrightarrow>
   map_of s ''required'' = None \<or> (\<exists>rs. map_of s ''required'' = Some (JList (map JStr rs))) \<Longrightarrow>
   (\<And>item. dget s ''items'' = JObj item \<Longrightarrow> supported item) \<Longrightarrow>
   properties_of s = Inr props \<Longrightarrow>
   (\<And>k sub. (k, sub) \<in> set props \<Longrightarrow> \<exists>d. sub = JObj d \<and> supported d) \<Longrightarrow>
   supported s"

inductive_cases supportedE: "supported s"

text \<open>
  What it means for a value to conform: it has the type, is one of the enumerated values, is
  long enough, has the required members, and its items and declared members conform.
\<close>

definition has_declared_type :: "json \<Rightarrow> obj \<Rightarrow> bool" where
  "has_declared_type v s \<longleftrightarrow> (\<forall>t. dget s ''type'' = JStr t \<longrightarrow>
     has_type t v = Some True \<and> (t = ''integer'' \<longrightarrow> (\<forall>b. v \<noteq> JBool b)))"

definition is_enumerated :: "json \<Rightarrow> obj \<Rightarrow> bool" where
  "is_enumerated v s \<longleftrightarrow> (\<forall>xs. map_of s ''enum'' = Some (JList xs) \<longrightarrow> (\<exists>x \<in> set xs. py_eq v x))"

definition long_enough :: "json \<Rightarrow> obj \<Rightarrow> bool" where
  "long_enough v s \<longleftrightarrow>
     (\<forall>t n. v = JStr t \<longrightarrow> map_of s ''minLength'' = Some (JInt n) \<longrightarrow> n \<le> int (length (code_points (strip t)))) \<and>
     (\<forall>xs n. v = JList xs \<longrightarrow> map_of s ''minItems'' = Some (JInt n) \<longrightarrow> n \<le> int (length xs))"

definition has_required :: "json \<Rightarrow> obj \<Rightarrow> bool" where
  "has_required v s \<longleftrightarrow> (\<forall>d rs r. v = JObj d \<longrightarrow> map_of s ''required'' = Some (JList rs) \<longrightarrow> JStr r \<in> set rs \<longrightarrow> dhas d r)"

inductive conforms :: "json \<Rightarrow> obj \<Rightarrow> bool" where
  "has_declared_type v s \<Longrightarrow> is_enumerated v s \<Longrightarrow> long_enough v s \<Longrightarrow> has_required v s \<Longrightarrow>
   (\<And>xs item x. v = JList xs \<Longrightarrow> dget s ''items'' = JObj item \<Longrightarrow> x \<in> set xs \<Longrightarrow> conforms x item) \<Longrightarrow>
   (\<And>d props k sub x. v = JObj d \<Longrightarrow> properties_of s = Inr props \<Longrightarrow> (k, JObj sub) \<in> set props \<Longrightarrow>
      map_of d k = Some x \<Longrightarrow> conforms x sub) \<Longrightarrow>
   conforms v s"

inductive_cases conformsE: "conforms v s"

text \<open>A check that answers, with no message exactly when a condition holds.\<close>

definition answers :: "'e + 'a list \<Rightarrow> bool \<Rightarrow> bool" where
  "answers r P \<longleftrightarrow> (\<exists>es. r = Inr es \<and> (es = [] \<longleftrightarrow> P))"

lemma answers_both: "answers r P \<Longrightarrow> answers s Q \<Longrightarrow> answers (both r s) (P \<and> Q)"
  by (auto simp: answers_def both_def)

lemma answers_eq: "answers r P \<Longrightarrow> (P \<longleftrightarrow> Q) \<Longrightarrow> answers r Q"
  by simp

lemma answers_if: "answers (Inr (if b then [m] else [])) (\<not> b)"
  by (simp add: answers_def)

lemma has_type_known: "has_type t JNull \<noteq> None \<Longrightarrow> \<exists>b. has_type t v = Some b"
  by (simp add: has_type_def split: if_splits)

lemma supported_type: "supported s \<Longrightarrow> dget s ''type'' = JNull \<or> (\<exists>t b. dget s ''type'' = JStr t \<and> has_type t JNull = Some b)"
  by (erule supportedE) auto

lemma supported_bounds:
  "supported s \<Longrightarrow> k \<in> {''minLength'', ''minItems''} \<Longrightarrow> \<exists>b. bound_of s k = Inr b \<and>
     (\<forall>n. below n b \<longleftrightarrow> (\<exists>m. map_of s k = Some (JInt m) \<and> n < m))"
  by (erule supportedE) (auto simp: bound_of_def below_def)

lemma type_errors_answers:
  assumes "supported s" shows "answers (type_errors v s l) (has_declared_type v s)"
  using supported_type [OF assms]
proof (elim disjE exE conjE)
  fix t c assume t: "dget s ''type'' = JStr t" "has_type t JNull = Some c"
  then obtain b where b: "has_type t v = Some b" using has_type_known by blast
  show ?thesis
    by (auto simp: answers_def type_errors_def t(1) b has_declared_type_def type_name_def split: json.splits)
qed (simp add: answers_def type_errors_def has_declared_type_def)

lemma enum_errors_answers: "supported s \<Longrightarrow> answers (enum_errors rt v s l) (is_enumerated v s)"
  by (erule supportedE) (auto simp: answers_def enum_errors_def is_enumerated_def list_ex_iff)

lemma length_errors_answers:
  assumes "supported s" shows "answers (length_errors v s l) (long_enough v s)"
proof -
  obtain b where b: "bound_of s ''minLength'' = Inr b"
      "\<forall>n. below n b \<longleftrightarrow> (\<exists>m. map_of s ''minLength'' = Some (JInt m) \<and> n < m)"
    using supported_bounds [OF assms, of "''minLength''"] by blast
  obtain c where c: "bound_of s ''minItems'' = Inr c"
      "\<forall>n. below n c \<longleftrightarrow> (\<exists>m. map_of s ''minItems'' = Some (JInt m) \<and> n < m)"
    using supported_bounds [OF assms, of "''minItems''"] by blast
  show ?thesis
  proof (cases v)
    case (JStr t)
    have "long_enough v s \<longleftrightarrow> \<not> below (int (length (code_points (strip t)))) b"
      unfolding b(2) [rule_format] JStr long_enough_def by (simp add: not_less)
    then show ?thesis by (simp only: JStr length_errors_def json.case b(1) bindr_simps answers_if)
  next
    case (JList xs)
    have "long_enough v s \<longleftrightarrow> \<not> below (int (length xs)) c"
      unfolding c(2) [rule_format] JList long_enough_def by (simp add: not_less)
    then show ?thesis by (simp only: JList length_errors_def json.case c(1) bindr_simps answers_if)
  qed (simp_all add: answers_def length_errors_def long_enough_def)
qed

lemma missing_errors_answers: "answers (missing_errors d l (map JStr rs)) (\<forall>r \<in> set rs. dhas d r)"
  by (induction rs) (auto simp: answers_def)

lemma supported_required:
  "supported s \<Longrightarrow> map_of s ''required'' = None \<or> (\<exists>rs. map_of s ''required'' = Some (JList (map JStr rs)))"
  by (erule supportedE)

lemma required_errors_answers:
  assumes "supported s" shows "answers (required_errors d s l) (has_required (JObj d) s)"
  using supported_required [OF assms]
proof (elim disjE exE)
  fix rs assume rs: "map_of s ''required'' = Some (JList (map JStr rs))"
  have "has_required (JObj d) s \<longleftrightarrow> (\<forall>r \<in> set rs. dhas d r)" by (auto simp: has_required_def rs)
  with missing_errors_answers [of d l rs] show ?thesis by (simp add: required_errors_def rs)
qed (simp add: answers_def required_errors_def has_required_def)

text \<open>The parts of a value that the validator visits with the schemas of the parts.\<close>

lemma conforms_iff:
  "conforms v s \<longleftrightarrow> has_declared_type v s \<and> is_enumerated v s \<and> long_enough v s \<and> has_required v s \<and>
     (\<forall>xs item. v = JList xs \<longrightarrow> dget s ''items'' = JObj item \<longrightarrow> (\<forall>x \<in> set xs. conforms x item)) \<and>
     (\<forall>d props. v = JObj d \<longrightarrow> properties_of s = Inr props \<longrightarrow>
        (\<forall>k sub x. (k, JObj sub) \<in> set props \<longrightarrow> map_of d k = Some x \<longrightarrow> conforms x sub))"
    (is "_ \<longleftrightarrow> ?parts")
proof
  assume "conforms v s"
  then show ?parts by (cases rule: conforms.cases) blast
next
  assume parts: ?parts
  show "conforms v s"
  proof (rule conforms.intros)
    show "conforms x item" if "v = JList xs" "dget s ''items'' = JObj item" "x \<in> set xs" for xs item x
      using parts [THEN conjunct2, THEN conjunct2, THEN conjunct2, THEN conjunct2, THEN conjunct1, rule_format, OF that] .
    show "conforms x sub" if "v = JObj d" "properties_of s = Inr props" "(k, JObj sub) \<in> set props" "map_of d k = Some x"
      for d props k sub x
      using parts [THEN conjunct2, THEN conjunct2, THEN conjunct2, THEN conjunct2, THEN conjunct2, rule_format, OF that] .
  qed (use parts in simp_all)
qed

lemma supported_items: "supported s \<Longrightarrow> dget s ''items'' = JObj item \<Longrightarrow> supported item"
  by (erule supportedE) blast

lemma supported_properties:
  "supported s \<Longrightarrow> \<exists>props. properties_of s = Inr props \<and> (\<forall>(k, sub) \<in> set props. \<exists>d. sub = JObj d \<and> supported d)"
  by (erule supportedE) (auto simp: Ball_def)

lemma node_answers:
  assumes "answers (type_errors v s l) A" "answers (enum_errors rt v s l) B"
    "type_errors v s l = Inr [] \<Longrightarrow> enum_errors rt v s l = Inr [] \<Longrightarrow> answers rest C"
  shows "answers (case type_errors v s l of Inl e \<Rightarrow> Inl e | Inr (e # es) \<Rightarrow> Inr (e # es)
     | Inr [] \<Rightarrow> (case enum_errors rt v s l of Inl e \<Rightarrow> Inl e | Inr (e # es) \<Rightarrow> Inr (e # es) | Inr [] \<Rightarrow> rest)) (A \<and> B \<and> C)"
  using assms by (auto simp: answers_def split: list.splits)

lemma validator_answers:
  "supported s \<Longrightarrow> answers (validate_node rt v s path) (conforms v s)"
  "supported item \<Longrightarrow> answers (validate_items rt xs item label i) (\<forall>x \<in> set xs. conforms x item)"
  "\<forall>(k, sub) \<in> set props. \<exists>s. sub = JObj s \<and> supported s \<Longrightarrow>
     answers (validate_properties rt d props path)
       (\<forall>k sub x. (k, JObj sub) \<in> set props \<longrightarrow> map_of d k = Some x \<longrightarrow> conforms x sub)"
proof (induction rt v s path and rt xs item label i and rt d props path
    rule: validate_node_validate_items_validate_properties.induct)
  case (1 rt v s path)
  define label where "label = (if path = [] then ''specification'' else path)"
  let ?rest = "case v of
      JList xs \<Rightarrow> (case dget s ''items'' of JObj item \<Rightarrow> validate_items rt xs item label 0 | _ \<Rightarrow> Inr [])
    | JObj d \<Rightarrow> both (required_errors d s label)
        (case properties_of s of Inl e \<Rightarrow> Inl e | Inr props \<Rightarrow> validate_properties rt d props path)
    | _ \<Rightarrow> Inr []"
  let ?inner = "has_required v s \<and>
     (\<forall>xs item. v = JList xs \<longrightarrow> dget s ''items'' = JObj item \<longrightarrow> (\<forall>x \<in> set xs. conforms x item)) \<and>
     (\<forall>d props. v = JObj d \<longrightarrow> properties_of s = Inr props \<longrightarrow>
        (\<forall>k sub x. (k, JObj sub) \<in> set props \<longrightarrow> map_of d k = Some x \<longrightarrow> conforms x sub))"
  have inner: "answers ?rest ?inner" if quiet: "type_errors v s label = Inr []" "enum_errors rt v s label = Inr []"
  proof (cases v)
    case (JList xs)
    show ?thesis
    proof (cases "dget s ''items''")
      case (JObj item)
      from "1.IH"(1) [OF label_def quiet(1) refl quiet(2) refl JList JObj supported_items [OF "1.prems" JObj]]
      have "answers (validate_items rt xs item label 0) (\<forall>x \<in> set xs. conforms x item)" by simp
      then show ?thesis using JList JObj by (simp add: has_required_def)
    qed (simp_all add: JList answers_def has_required_def)
  next
    case (JObj d)
    obtain props where props: "properties_of s = Inr props" "\<forall>(k, sub) \<in> set props. \<exists>s. sub = JObj s \<and> supported s"
      using supported_properties [OF "1.prems"] by blast
    from "1.IH"(2) [OF label_def quiet(1) refl quiet(2) refl JObj props]
    have "answers (validate_properties rt d props path)
       (\<forall>k sub x. (k, JObj sub) \<in> set props \<longrightarrow> map_of d k = Some x \<longrightarrow> conforms x sub)" by simp
    from answers_both [OF required_errors_answers [OF "1.prems", of d label] this]
    show ?thesis using JObj props(1) by simp
  qed (simp_all add: answers_def has_required_def)
  have "answers (both (length_errors v s label) ?rest) (long_enough v s \<and> ?inner)"
    if "type_errors v s label = Inr []" "enum_errors rt v s label = Inr []"
    by (rule answers_both [OF length_errors_answers [OF "1.prems"] inner [OF that]])
  from node_answers [OF type_errors_answers [OF "1.prems"] enum_errors_answers [OF "1.prems"] this]
  show ?case unfolding conforms_iff [of v s] validate_node.simps [of rt v s path] Let_def label_def .
next
  case (3 rt x xs item label i)
  then show ?case using answers_both [OF "3.IH"] by simp
next
  case (5 rt d k sub props path)
  then obtain s where s: "sub = JObj s" "supported s" and rest: "\<forall>(k, sub) \<in> set props. \<exists>s. sub = JObj s \<and> supported s"
    by auto
  have "answers (case map_of d k of None \<Rightarrow> Inr []
      | Some x \<Rightarrow> (case sub of JObj s \<Rightarrow> validate_node rt x s (if path = [] then k else path @ ''.'' @ k) | _ \<Rightarrow> Inl Malformed_schema))
     (\<forall>x. map_of d k = Some x \<longrightarrow> conforms x s)"
  proof (cases "map_of d k")
    case (Some x)
    from "5.IH"(1) [OF Some s(1,2)] show ?thesis by (simp add: Some s(1))
  qed (simp add: answers_def)
  from answers_both [OF this "5.IH"(2) [OF rest]] show ?case
    unfolding validate_properties.simps s(1) by (rule answers_eq) auto
qed (simp_all add: answers_def)

text \<open>
  C21. Schema validation decides conformance: for a schema of the documented subset, the
  validator answers for every value without an error of its own, and the list of messages is
  empty exactly when the value conforms to the schema at every depth.
\<close>
theorem schema_validation_decides:
  assumes "supported schema"
  shows "\<exists>errors. validate_schema rt schema data = Inr errors \<and> (errors = [] \<longleftrightarrow> conforms data schema)"
  using validator_answers(1) [OF assms] unfolding validate_schema_def answers_def .

section \<open>The specification\<close>

record user_story =
  us_id :: string
  us_as_a :: string
  us_i_want :: string
  us_so_that :: string

record spec_criterion =
  sc_id :: string
  sc_requirement :: string
  sc_criterion :: string

record spec_requirement =
  fr_id :: string
  fr_title :: string
  fr_capability :: string
  fr_entity :: "string option"
  fr_description :: string

record entity_field =
  ef_name :: string
  ef_type :: string
  ef_required :: bool
  ef_default :: "string option"

record spec_entity =
  et_name :: string
  et_fields :: "entity_field list"

record quality_requirement =
  qr_id :: string
  qr_category :: string
  qr_requirement :: string

record spec_risk =
  sr_description :: string
  sr_level :: risk_level

record mvp_spec =
  ms_spec_version :: string
  ms_product_name :: string
  ms_problem :: string
  ms_target_user :: string
  ms_user_outcome :: string
  ms_business_outcome :: string
  ms_hypothesis :: string
  ms_scope :: "string list"
  ms_non_goals :: "string list"
  ms_stories :: "user_story list"
  ms_criteria :: "spec_criterion list"
  ms_requirements :: "spec_requirement list"
  ms_entities :: "spec_entity list"
  ms_quality :: "quality_requirement list"
  ms_success_metrics :: "string list"
  ms_north_star :: string
  ms_leading_metrics :: "string list"
  ms_guardrails :: "string list"
  ms_constraints :: "string list"
  ms_assumptions :: "string list"
  ms_dependencies :: "string list"
  ms_risks :: "spec_risk list"
  ms_priority :: string
  ms_platform :: string
  ms_stack :: string
  ms_deployment :: string

section \<open>Normalization\<close>

text \<open>
  The normalizer is called on a mapping that satisfies the schema. A value of another shape,
  on which Python raises, is \<^verbatim>\<open>Malformed_spec\<close>; so is a risk level that is not in the enumeration.
\<close>

datatype normalize_error = Malformed_spec

definition clean_text :: "runtime \<Rightarrow> json \<Rightarrow> string" where
  "clean_text rt v = (if v = JNull then [] else strip (py_str (rt_repr rt) v))"

definition clean_list :: "runtime \<Rightarrow> json \<Rightarrow> normalize_error + string list" where
  "clean_list rt v = (if \<not> truthy v then Inr [] else (case v of
      JList xs \<Rightarrow> Inr (filter (\<lambda>t. t \<noteq> []) (map (clean_text rt) xs))
    | _ \<Rightarrow> Inl Malformed_spec))"

definition has_id :: "obj \<Rightarrow> bool" where
  "has_id item \<longleftrightarrow> truthy (dget item ''id'')"

definition id_text :: "runtime \<Rightarrow> obj \<Rightarrow> string" where
  "id_text rt item = py_str (rt_repr rt) (dget item ''id'')"

definition item_name :: "string \<Rightarrow> nat \<Rightarrow> string" where
  "item_name p n = p @ ''-'' @ pad3 n"

interpretation item: numbering "item_name p" for p
  by unfold_locales (simp add: inj_def item_name_def)

text \<open>\<^verbatim>\<open>while f"{prefix}-{counter:03d}" in taken: counter += 1\<close>.\<close>

function free_number :: "string \<Rightarrow> string list \<Rightarrow> nat \<Rightarrow> nat" where
  "free_number p taken n = (if item_name p n \<in> set taken then free_number p taken (Suc n) else n)"
  by pat_completeness auto
termination
proof (relation "measure (\<lambda>(p, taken, n). card (set taken \<inter> item_name p ` {n..}))")
  fix p taken n assume "item_name p n \<in> set taken"
  moreover have "item_name p n \<notin> item_name p ` {Suc n..}"
    using item.inj_nm [of p] by (auto dest: injD)
  ultimately have "set taken \<inter> item_name p ` {Suc n..} \<subset> set taken \<inter> item_name p ` {n..}"
    by auto
  then show "((p, taken, Suc n), (p, taken, n)) \<in> measure (\<lambda>(p, taken, n). card (set taken \<inter> item_name p ` {n..}))"
    by (simp add: psubset_card_mono)
qed simp

declare free_number.simps [simp del]

fun assign_from :: "string \<Rightarrow> string list \<Rightarrow> nat \<Rightarrow> obj list \<Rightarrow> obj list" where
  "assign_from p taken n [] = []"
| "assign_from p taken n (item # items) =
     (if has_id item then item # assign_from p taken n items
      else let k = free_number p taken n
           in dput ''id'' (JStr (item_name p k)) item # assign_from p (item_name p k # taken) k items)"

definition assign_ids :: "runtime \<Rightarrow> string \<Rightarrow> obj list \<Rightarrow> obj list" where
  "assign_ids rt p items = assign_from p (map (id_text rt) (filter has_id items)) 1 items"

fun as_objects :: "json list \<Rightarrow> normalize_error + obj list" where
  "as_objects [] = Inr []"
| "as_objects (JObj d # xs) = bindr (as_objects xs) (\<lambda>ds. Inr (d # ds))"
| "as_objects (_ # xs) = Inl Malformed_spec"

definition objects_at :: "obj \<Rightarrow> string \<Rightarrow> normalize_error + obj list" where
  "objects_at d k = (case map_of d k of
      None \<Rightarrow> Inr []
    | Some (JList xs) \<Rightarrow> as_objects xs
    | Some _ \<Rightarrow> Inl Malformed_spec)"

definition story_of :: "runtime \<Rightarrow> obj \<Rightarrow> user_story" where
  "story_of rt d = \<lparr>us_id = clean_text rt (dget d ''id''), us_as_a = clean_text rt (dget d ''as_a''),
     us_i_want = clean_text rt (dget d ''i_want''), us_so_that = clean_text rt (dget d ''so_that'')\<rparr>"

definition criterion_of :: "runtime \<Rightarrow> obj \<Rightarrow> spec_criterion" where
  "criterion_of rt d = \<lparr>sc_id = clean_text rt (dget d ''id''), sc_requirement = clean_text rt (dget d ''requirement''),
     sc_criterion = clean_text rt (dget d ''criterion'')\<rparr>"

definition requirement_of :: "runtime \<Rightarrow> obj \<Rightarrow> spec_requirement" where
  "requirement_of rt d = \<lparr>fr_id = clean_text rt (dget d ''id''), fr_title = clean_text rt (dget d ''title''),
     fr_capability = clean_text rt (dget d ''capability''),
     fr_entity = (if truthy (dget d ''entity'') then Some (clean_text rt (dget d ''entity'')) else None),
     fr_description = clean_text rt (dget d ''description'')\<rparr>"

definition field_of :: "runtime \<Rightarrow> obj \<Rightarrow> entity_field" where
  "field_of rt d = \<lparr>ef_name = clean_text rt (dget d ''name''), ef_type = clean_text rt (dget d ''type''),
     ef_required = truthy (get_or d ''required'' (JBool False)),
     ef_default = (if dget d ''default'' = JNull then None else Some (clean_text rt (dget d ''default'')))\<rparr>"

definition entity_of :: "runtime \<Rightarrow> obj \<Rightarrow> normalize_error + spec_entity" where
  "entity_of rt d = bindr (objects_at d ''fields'') (\<lambda>fs.
     Inr \<lparr>et_name = clean_text rt (dget d ''name''), et_fields = map (field_of rt) fs\<rparr>)"

definition quality_of :: "runtime \<Rightarrow> obj \<Rightarrow> quality_requirement" where
  "quality_of rt d = \<lparr>qr_id = clean_text rt (dget d ''id''), qr_category = clean_text rt (dget d ''category''),
     qr_requirement = clean_text rt (dget d ''requirement'')\<rparr>"

definition risk_named :: "string \<Rightarrow> risk_level option" where
  "risk_named t = map_of [(''low'', LOW), (''medium'', MEDIUM), (''high'', HIGH)] t"

definition or_else :: "string \<Rightarrow> string \<Rightarrow> string" where
  "or_else t dflt = (if t = [] then dflt else t)"

definition risk_of :: "runtime \<Rightarrow> obj \<Rightarrow> normalize_error + spec_risk" where
  "risk_of rt d = (case risk_named (or_else (clean_text rt (dget d ''level'')) ''medium'') of
      None \<Rightarrow> Inl Malformed_spec
    | Some level \<Rightarrow> Inr \<lparr>sr_description = clean_text rt (dget d ''description''), sr_level = level\<rparr>)"

definition normalize_spec :: "runtime \<Rightarrow> obj \<Rightarrow> normalize_error + mvp_spec" where
  "normalize_spec rt data =
     (let t = (\<lambda>k. clean_text rt (dget data k)); ts = (\<lambda>k. clean_list rt (dget data k)) in
      bindr (objects_at data ''user_stories'') (\<lambda>stories.
      bindr (objects_at data ''acceptance_criteria'') (\<lambda>criteria.
      bindr (objects_at data ''functional_requirements'') (\<lambda>requirements.
      bindr (bindr (objects_at data ''entities'') (mapr (entity_of rt))) (\<lambda>entities.
      bindr (objects_at data ''non_functional_requirements'') (\<lambda>qualities.
      bindr (bindr (objects_at data ''risks'') (mapr (risk_of rt))) (\<lambda>risks.
      bindr (ts ''scope'') (\<lambda>scope. bindr (ts ''non_goals'') (\<lambda>non_goals.
      bindr (ts ''success_metrics'') (\<lambda>success. bindr (ts ''leading_metrics'') (\<lambda>leading.
      bindr (ts ''guardrails'') (\<lambda>guardrails. bindr (ts ''constraints'') (\<lambda>constraints.
      bindr (ts ''assumptions'') (\<lambda>assumptions. bindr (ts ''dependencies'') (\<lambda>dependencies.
      Inr \<lparr>ms_spec_version = t ''spec_version'', ms_product_name = t ''product_name'',
         ms_problem = t ''problem_statement'', ms_target_user = t ''target_user'',
         ms_user_outcome = t ''user_outcome'', ms_business_outcome = t ''business_outcome'',
         ms_hypothesis = t ''hypothesis'', ms_scope = scope, ms_non_goals = non_goals,
         ms_stories = map (story_of rt) (assign_ids rt ''US'' stories),
         ms_criteria = map (criterion_of rt) (assign_ids rt ''AC'' criteria),
         ms_requirements = map (requirement_of rt) (assign_ids rt ''FR'' requirements),
         ms_entities = entities, ms_quality = map (quality_of rt) (assign_ids rt ''NFR'' qualities),
         ms_success_metrics = success, ms_north_star = t ''north_star_metric'', ms_leading_metrics = leading,
         ms_guardrails = guardrails, ms_constraints = constraints, ms_assumptions = assumptions,
         ms_dependencies = dependencies, ms_risks = risks, ms_priority = t ''priority'',
         ms_platform = t ''target_platform'', ms_stack = or_else (t ''preferred_stack'') ''python-stdlib'',
         ms_deployment = t ''deployment_target''\<rparr>)))))))))))))))"

text \<open>\<^verbatim>\<open>ingest\<close> on the mapping the file holds.\<close>

datatype ingest_error =
    Schema_broken schema_error
  | Schema_violated "string list"
  | Not_normalized normalize_error

definition ingest :: "runtime \<Rightarrow> obj \<Rightarrow> obj \<Rightarrow> ingest_error + mvp_spec" where
  "ingest rt schema data = (case validate_schema rt schema (JObj data) of
      Inl e \<Rightarrow> Inl (Schema_broken e)
    | Inr (e # es) \<Rightarrow> Inl (Schema_violated (e # es))
    | Inr [] \<Rightarrow> (case normalize_spec rt data of Inl e \<Rightarrow> Inl (Not_normalized e) | Inr spec \<Rightarrow> Inr spec))"

section \<open>Assigned ids\<close>

lemma free_number_free: "item_name p (free_number p taken n) \<notin> set taken"
proof (induction p taken n rule: free_number.induct)
  case (1 p taken n)
  then show ?case by (cases "item_name p n \<in> set taken") (subst free_number.simps, simp)+
qed

lemma id_text_assigned: "id_text rt (dput ''id'' (JStr t) item) = t"
  by (simp add: id_text_def dget_def)

lemma assign_from_distinct:
  assumes "distinct (map (id_text rt) (filter has_id items))" "id_text rt ` set (filter has_id items) \<subseteq> set taken"
  shows "distinct (map (id_text rt) (assign_from p taken n items))
    \<and> (\<forall>x \<in> set (assign_from p taken n items). x \<in> set (filter has_id items) \<or> id_text rt x \<notin> set taken)"
  using assms
proof (induction items arbitrary: taken n)
  case (Cons item items)
  show ?case
  proof (cases "has_id item")
    case True
    then show ?thesis using Cons.IH [of taken n] Cons.prems by (auto simp: image_iff)
  next
    case False
    define k where "k = free_number p taken n"
    have fresh: "item_name p k \<notin> set taken" unfolding k_def by (rule free_number_free)
    have "distinct (map (id_text rt) (assign_from p (item_name p k # taken) k items))
      \<and> (\<forall>x \<in> set (assign_from p (item_name p k # taken) k items).
          x \<in> set (filter has_id items) \<or> id_text rt x \<notin> set (item_name p k # taken))"
      using Cons.prems False by (intro Cons.IH) auto
    moreover have "id_text rt x \<noteq> item_name p k" if "x \<in> set (filter has_id items)" for x
      using that fresh Cons.prems(2) False by auto
    ultimately have "item_name p k \<notin> id_text rt ` set (assign_from p (item_name p k # taken) k items)"
      "distinct (map (id_text rt) (assign_from p (item_name p k # taken) k items))"
      "\<forall>x \<in> set (assign_from p (item_name p k # taken) k items). x \<in> set (filter has_id items) \<or> id_text rt x \<notin> set taken"
      by (metis imageE list.set_intros(1), blast, metis list.set_intros(2))
    then show ?thesis
      using False fresh by (auto simp: k_def [symmetric] Let_def id_text_assigned)
  qed
qed simp

lemma assign_from_length [simp]: "length (assign_from p taken n items) = length items"
  by (induction items arbitrary: taken n) (simp_all add: Let_def)

lemma assign_from_nth:
  "i < length items \<Longrightarrow> (has_id (items ! i) \<longrightarrow> assign_from p taken n items ! i = items ! i)
     \<and> (\<not> has_id (items ! i) \<longrightarrow> (\<exists>k. assign_from p taken n items ! i = dput ''id'' (JStr (item_name p k)) (items ! i)))"
proof (induction items arbitrary: taken n i)
  case (Cons item items)
  then show ?case by (cases i) (auto simp: Let_def)
qed simp

text \<open>
  C39. Ids are assigned without a clash: when the ids that are given differ, every item has an
  id of its own afterwards; items with an id stay as they are, and the others gain a numbered
  id and nothing else. The search for a free number ends.
\<close>
theorem assigned_ids_unique:
  assumes "distinct (map (id_text rt) (filter has_id items))"
  shows "distinct (map (id_text rt) (assign_ids rt p items)) \<and> length (assign_ids rt p items) = length items
    \<and> (\<forall>i < length items. (has_id (items ! i) \<longrightarrow> assign_ids rt p items ! i = items ! i)
        \<and> (\<not> has_id (items ! i) \<longrightarrow> (\<exists>k. assign_ids rt p items ! i = dput ''id'' (JStr (item_name p k)) (items ! i))))"
  unfolding assign_ids_def using assign_from_distinct [OF assms] assign_from_nth by simp

theorem assigned_ids_unique_witness:
  "distinct (map (id_text (sample_runtime [])) (assign_ids (sample_runtime []) ''US''
     [[(''id'', JStr ''US-002'')], [], [(''id'', JStr ''US-001'')], [(''as_a'', JStr ''pm'')]]))"
proof -
  have "distinct (map (id_text (sample_runtime [])) (filter has_id
     [[(''id'', JStr ''US-002'')], [], [(''id'', JStr ''US-001'')], [(''as_a'', JStr ''pm'')]]))"
    by (simp add: has_id_def id_text_def dget_def)
  from assigned_ids_unique [OF this] show ?thesis by blast
qed

text \<open>
  The ids of a normalized specification can clash all the same. The numbers in use are
  collected before the ids are stripped, so an id given with white space around it does not
  keep its number: a mapping with the id \<^verbatim>\<open>" US-001"\<close> and a story without one yields two
  stories called \<^verbatim>\<open>US-001\<close>.
\<close>
theorem stripped_ids_collide:
  "\<exists>data spec. normalize_spec rt data = Inr spec
     \<and> (\<exists>stories. objects_at data ''user_stories'' = Inr stories
          \<and> distinct (map (id_text rt) (assign_ids rt ''US'' stories)))
     \<and> map us_id (ms_stories spec) = [''US-001'', ''US-001'']"
proof -
  let ?stories = "[[(''id'', JStr '' US-001'')], []]"
  let ?data = "[(''user_stories'', JList [JObj [(''id'', JStr '' US-001'')], JObj []])]"
  have one: "item_name ''US'' 1 = ''US-001''" by code_simp
  then have free: "free_number ''US'' ['' US-001''] 1 = 1" by (subst free_number.simps) simp
  have ids: "assign_ids rt ''US'' ?stories = [[(''id'', JStr '' US-001'')], [(''id'', JStr ''US-001'')]]"
    using free one by (simp add: assign_ids_def has_id_def id_text_def dget_def Let_def)
  have objects: "objects_at ?data ''user_stories'' = Inr ?stories" by (simp add: objects_at_def)
  have strip: "strip '' US-001'' = ''US-001''" "strip ''US-001'' = ''US-001''" by code_simp+
  have "\<exists>spec. normalize_spec rt ?data = Inr spec \<and> ms_stories spec = map (story_of rt) (assign_ids rt ''US'' ?stories)"
    by (simp add: normalize_spec_def Let_def objects_at_def clean_list_def dget_def)
  then obtain spec where spec: "normalize_spec rt ?data = Inr spec"
    "ms_stories spec = map (story_of rt) (assign_ids rt ''US'' ?stories)" by blast
  have "map us_id (ms_stories spec) = [''US-001'', ''US-001'']"
    unfolding spec(2) ids by (simp add: story_of_def clean_text_def dget_def strip)
  moreover have "distinct (map (id_text rt) (assign_ids rt ''US'' ?stories))"
    unfolding ids by (simp add: id_text_def dget_def)
  ultimately show ?thesis
    using spec(1) objects by (intro exI [of _ ?data] exI [of _ spec] conjI exI [of _ ?stories])
qed

section \<open>A concrete schema\<close>

definition demo_schema :: obj where
  "demo_schema = [(''type'', JStr ''object''), (''required'', JList [JStr ''name'']),
     (''properties'', JObj [(''name'', JObj [(''type'', JStr ''string''), (''minLength'', JInt 1)])])]"

lemma demo_supported: "supported demo_schema"
proof (rule supported.intros)
  have "supported [(''type'', JStr ''string''), (''minLength'', JInt 1)]"
    by (rule supported.intros [where props = "[]"]) (auto simp: dget_def has_type_def properties_of_def)
  then show "\<And>k sub. (k, sub) \<in> set [(''name'', JObj [(''type'', JStr ''string''), (''minLength'', JInt 1)])]
      \<Longrightarrow> \<exists>d. sub = JObj d \<and> supported d" by simp
  show "map_of demo_schema ''required'' = None
      \<or> (\<exists>rs. map_of demo_schema ''required'' = Some (JList (map JStr rs)))"
    by (intro disjI2 exI [of _ "[''name'']"]) (simp add: demo_schema_def)
qed (auto simp: demo_schema_def dget_def has_type_def properties_of_def)

theorem schema_validation_decides_witness:
  "\<exists>errors. validate_schema (sample_runtime []) demo_schema (JObj []) = Inr errors
     \<and> (errors = [] \<longleftrightarrow> conforms (JObj []) demo_schema)"
  by (rule schema_validation_decides [OF demo_supported])

end
