(* ===== verification/Validator.thy ===== *)
theory Validator
  imports Specification
begin

text \<open>
  Semantic validation of a normalized specification, \<^verbatim>\<open>validation/validator.py\<close>: errors block a
  run, warnings are logged, questions are escalated to a person.

  \<^verbatim>\<open>str.casefold\<close> is an argument, and the two patterns over Unicode digits are searched with the
  runtime's \<^verbatim>\<open>rt_search\<close>.

  Shown: a report without errors is given exactly for the well-formed specifications.
\<close>

section \<open>Issues\<close>

datatype issue_kind = ERROR | WARNING | QUESTION

record validation_issue =
  vi_code :: string
  vi_message :: string
  vi_kind :: issue_kind
  vi_field :: string

record validation_report =
  vr_errors :: "validation_issue list"
  vr_warnings :: "validation_issue list"
  vr_questions :: "validation_issue list"

definition report_ok :: "validation_report \<Rightarrow> bool" where
  "report_ok r \<longleftrightarrow> vr_errors r = []"

definition issue :: "issue_kind \<Rightarrow> string \<Rightarrow> string \<Rightarrow> string \<Rightarrow> validation_issue" where
  "issue kind code message fld = \<lparr>vi_code = code, vi_message = message, vi_kind = kind, vi_field = fld\<rparr>"

text \<open>\<^verbatim>\<open>if cond: issues.append(x)\<close>.\<close>

definition issue_if :: "bool \<Rightarrow> validation_issue \<Rightarrow> validation_issue list" where
  "issue_if b x = (if b then [x] else [])"

lemma issue_if_Nil [simp]: "issue_if b x = [] \<longleftrightarrow> \<not> b"
  by (simp add: issue_if_def)

section \<open>Text\<close>

text \<open>\<^verbatim>\<open>re.sub(r"\s+", " ", text)\<close>.\<close>

function collapse :: "string \<Rightarrow> string" where
  "collapse [] = []"
| "collapse (c # s) = (if is_space c then CHR '' '' # collapse (dropWhile is_space s) else c # collapse s)"
  by pat_completeness auto
termination
  by (relation "measure length") (auto simp: less_Suc_eq_le length_dropWhile_le)

definition norm_text :: "(string \<Rightarrow> string) \<Rightarrow> string \<Rightarrow> string" where
  "norm_text casefold t = collapse (casefold (strip t))"

definition mentions :: "string list \<Rightarrow> string \<Rightarrow> bool" where
  "mentions terms t \<longleftrightarrow> list_ex (\<lambda>term. str_in term t) terms"

definition activity_terms :: "string list" where
  "activity_terms = [''signup'', ''sign-up'', ''sign up'', ''click'', ''pageview'', ''page view'', ''session'',
     ''login'', ''log-in'', ''log in'', ''download'', ''install'', ''visit'', ''impression'']"

definition outcome_terms :: "string list" where
  "outcome_terms = [''complete'', ''completed'', ''finish'', ''resolved'', ''achiev'', ''succeed'', ''success'',
     ''retain'', ''retention'', ''convert'', ''revenue'', ''outcome'', ''saved'', ''recovered'', ''detected'']"

definition vague_terms :: "string list" where
  "vague_terms = [''fast'', ''easy'', ''intuitive'', ''user-friendly'', ''nice'', ''feel'', ''seamless'']"

definition observable_markers :: "string list" where
  "observable_markers = [''then'', ''return'', ''status'', ''response'', ''error'', ''stored'', ''reject'']"

definition dependency_keywords :: "string list" where
  "dependency_keywords = [''postgres'', ''mysql'', ''redis'', ''stripe'', ''s3'', ''oauth'', ''smtp'', ''kafka'',
     ''rabbitmq'', ''elasticsearch'', ''sqlite'']"

definition reserved_fields :: "string list" where
  "reserved_fields = [''id'', ''created_at'', ''updated_at'']"

definition dependent_capabilities :: "string list" where
  "dependent_capabilities = [''entity.read'', ''entity.update'', ''entity.delete'', ''entity.list'']"

text \<open>\<^verbatim>\<open>^[A-Za-z][A-Za-z0-9_]*$\<close>, where \<^verbatim>\<open>$\<close> also matches before a final newline.\<close>

definition is_name :: "string \<Rightarrow> bool" where
  "is_name t = (case t of [] \<Rightarrow> False
     | c # rest \<Rightarrow> (is_upper c \<or> is_lower c)
         \<and> list_all (\<lambda>x. is_alnum_ascii x \<or> x = CHR ''_'')
             (if rest \<noteq> [] \<and> last rest = CHR 0x0A then butlast rest else rest))"

definition requirement_id_pattern :: string where
  "requirement_id_pattern = ''^[A-Z]+-'' @ [CHR 0x5C] @ ''d+$''"

definition digit_pattern :: string where
  "digit_pattern = [CHR 0x5C, CHR ''d'']"

section \<open>The rules\<close>

definition check_contradictions :: "(string \<Rightarrow> string) \<Rightarrow> mvp_spec \<Rightarrow> validation_issue list" where
  "check_contradictions cf spec = concat (map (\<lambda>item.
     case map_of (rev (map (\<lambda>g. (norm_text cf g, g)) (ms_non_goals spec))) (norm_text cf item) of
       None \<Rightarrow> []
     | Some hit \<Rightarrow> [issue ERROR ''CONTRADICTION'' (quoted item @ '' appears in scope AND in non_goals ('' @ quoted hit @ '') ''
         @ em_dash @ '' the spec contradicts itself; a product decision is required'') ''scope'']) (ms_scope spec))"

definition check_links :: "mvp_spec \<Rightarrow> validation_issue list" where
  "check_links spec =
     concat (map (\<lambda>ac. issue_if (sc_requirement ac \<notin> fr_id ` set (ms_requirements spec))
       (issue ERROR ''AC_UNKNOWN_REQUIREMENT'' (sc_id ac @ '' references requirement '' @ quoted (sc_requirement ac)
         @ '' which does not exist'') ''acceptance_criteria'')) (ms_criteria spec))
     @ concat (map (\<lambda>fr. issue_if (fr_id fr \<notin> sc_requirement ` set (ms_criteria spec))
       (issue ERROR ''FR_WITHOUT_AC'' (fr_id fr @ '' ('' @ quoted (fr_title fr) @ '') has no acceptance criteria'')
         ''functional_requirements'')) (ms_requirements spec))"

definition is_entity_capability :: "string \<Rightarrow> bool" where
  "is_entity_capability c \<longleftrightarrow> starts_with ''entity.'' c"

text \<open>\<^verbatim>\<open>fr.entity\<close> as a condition: named, and not the empty name.\<close>

definition named_entity :: "spec_requirement \<Rightarrow> string option" where
  "named_entity fr = (case fr_entity fr of None \<Rightarrow> None | Some e \<Rightarrow> if e = [] then None else Some e)"

definition check_entities :: "mvp_spec \<Rightarrow> validation_issue list" where
  "check_entities spec = concat (map (\<lambda>fr.
     if \<not> is_entity_capability (fr_capability fr) then []
     else (case named_entity fr of
         None \<Rightarrow> [issue ERROR ''MISSING_ENTITY'' (fr_id fr @ '' uses capability '' @ quoted (fr_capability fr)
           @ '' but names no entity'') ''functional_requirements'']
       | Some e \<Rightarrow> issue_if (e \<notin> et_name ` set (ms_entities spec))
           (issue ERROR ''MISSING_ENTITY'' (fr_id fr @ '' references entity '' @ quoted e @ '' which is not declared ''
             @ ''in entities[] '' @ em_dash @ '' the data model is incomplete'') ''entities''))) (ms_requirements spec))"

definition check_id_format :: "runtime \<Rightarrow> mvp_spec \<Rightarrow> validation_issue list" where
  "check_id_format rt spec = concat (map (\<lambda>fr.
     issue_if (\<not> rt_search rt requirement_id_pattern (fr_id fr))
       (issue ERROR ''REQUIREMENT_ID_FORMAT'' (''requirement id '' @ quoted (fr_id fr)
         @ '' must match PREFIX-NUMBER (e.g. FR-001) '' @ em_dash @ '' it keys traceability and test markers'')
         ''functional_requirements'')) (ms_requirements spec))"

text \<open>The entity capabilities asked for, per entity.\<close>

definition entity_capabilities :: "mvp_spec \<Rightarrow> string \<Rightarrow> string list" where
  "entity_capabilities spec e = map fr_capability (filter (\<lambda>fr. named_entity fr = Some e
     \<and> is_entity_capability (fr_capability fr)) (ms_requirements spec))"

definition used_entities :: "mvp_spec \<Rightarrow> string list" where
  "used_entities spec = sorted_set (List.map_filter named_entity
     (filter (\<lambda>fr. is_entity_capability (fr_capability fr)) (ms_requirements spec)))"

definition check_dependents :: "mvp_spec \<Rightarrow> validation_issue list" where
  "check_dependents spec = concat (map (\<lambda>e.
     let caps = entity_capabilities spec e;
         dependents = sorted_set (filter (\<lambda>c. c \<in> set dependent_capabilities) caps)
     in issue_if (dependents \<noteq> [] \<and> ''entity.create'' \<notin> set caps)
       (issue ERROR ''CAPABILITY_DEPENDENCY'' (''entity '' @ quoted e @ '' declares '' @ join '', '' dependents
         @ '' but not entity.create '' @ em_dash @ '' V1 cannot generate verifiable tests or a ''
         @ ''user journey without a way to create the entity'') ''functional_requirements'')) (used_entities spec))"

definition check_health :: "mvp_spec \<Rightarrow> validation_issue list" where
  "check_health spec = issue_if (ms_platform spec = ''api''
       \<and> \<not> list_ex (\<lambda>fr. fr_capability fr = ''health.check'') (ms_requirements spec))
     (issue WARNING ''MISSING_HEALTH_CHECK'' (''no health.check requirement: deployment verification falls back ''
       @ ''to TCP readiness instead of a health endpoint'') ''functional_requirements'')"

definition name_issues :: "string \<Rightarrow> string \<Rightarrow> validation_issue list" where
  "name_issues kind name = issue_if (\<not> is_name name)
     (issue ERROR ''INVALID_IDENTIFIER'' (kind @ '' name '' @ quoted name @ '' is not a valid identifier ''
       @ ''(letters, digits, underscores; must start with a letter)'') ''entities'')"

definition check_identifiers :: "mvp_spec \<Rightarrow> validation_issue list" where
  "check_identifiers spec = concat (map (\<lambda>e.
     name_issues ''entity'' (et_name e) @ concat (map (\<lambda>f. name_issues ''field'' (ef_name f)) (et_fields e))
     @ concat (map (\<lambda>f. issue_if (ef_name f \<in> set reserved_fields)
         (issue ERROR ''INVALID_IDENTIFIER'' (''field name '' @ quoted (ef_name f) @ '' on entity '' @ quoted (et_name e)
           @ '' is reserved (generated automatically)'') ''entities'')) (et_fields e))) (ms_entities spec))"

definition check_nsm :: "(string \<Rightarrow> string) \<Rightarrow> mvp_spec \<Rightarrow> validation_issue list" where
  "check_nsm cf spec = (let nsm = norm_text cf (ms_north_star spec) in
     issue_if (mentions activity_terms nsm \<and> \<not> mentions outcome_terms nsm)
       (issue QUESTION ''NSM_ACTIVITY_ONLY'' (''north_star_metric measures activity, not an outcome: ''
         @ quoted (ms_north_star spec) @ ''. What user/business outcome should it represent instead?'')
         ''north_star_metric''))"

definition check_testability :: "runtime \<Rightarrow> (string \<Rightarrow> string) \<Rightarrow> mvp_spec \<Rightarrow> validation_issue list" where
  "check_testability rt cf spec = concat (map (\<lambda>ac.
     let t = norm_text cf (sc_criterion ac); digit = rt_search rt digit_pattern t
     in issue_if (mentions vague_terms t \<and> \<not> digit \<or> \<not> mentions observable_markers t \<and> \<not> digit)
       (issue QUESTION ''AC_UNTESTABLE'' (sc_id ac @ '' is not verifiable as written: '' @ quoted (sc_criterion ac)
         @ ''. What observable behavior or measurable threshold defines pass?'') ''acceptance_criteria''))
     (ms_criteria spec))"

definition check_dependencies :: "(string \<Rightarrow> string) \<Rightarrow> mvp_spec \<Rightarrow> validation_issue list" where
  "check_dependencies cf spec = (let declared = norm_text cf (join '' '' (ms_dependencies spec)) in
     concat (map (\<lambda>fr. let t = norm_text cf (fr_title fr @ '' '' @ fr_description fr) in
       concat (map (\<lambda>keyword. issue_if (str_in keyword t \<and> \<not> str_in keyword declared)
         (issue WARNING ''MISSING_DEPENDENCY'' (fr_id fr @ '' mentions '' @ quoted keyword
           @ '' but dependencies[] does not declare it'') ''dependencies'')) dependency_keywords))
       (ms_requirements spec)))"

definition check_deployment_target :: "mvp_spec \<Rightarrow> validation_issue list" where
  "check_deployment_target spec = issue_if (ms_deployment spec \<noteq> ''local'')
     (issue QUESTION ''UNSUPPORTED_DEPLOYMENT'' (''deployment_target '' @ quoted (ms_deployment spec)
       @ '' is not supported in V1 (local only). Approve to continue with a local deployment plus a ''
       @ ''deployable artifact, or change the spec.'') ''deployment_target'')"

definition check_recommended :: "mvp_spec \<Rightarrow> validation_issue list" where
  "check_recommended spec = concat (map (\<lambda>(name, given). issue_if (\<not> given)
     (issue WARNING ''MISSING_RECOMMENDED'' (''recommended field '' @ quoted name @ '' is missing or empty'') name))
     [(''success_metrics'', ms_success_metrics spec \<noteq> []), (''leading_metrics'', ms_leading_metrics spec \<noteq> []),
      (''guardrails'', ms_guardrails spec \<noteq> []), (''constraints'', ms_constraints spec \<noteq> []),
      (''assumptions'', ms_assumptions spec \<noteq> []), (''dependencies'', ms_dependencies spec \<noteq> []),
      (''risks'', ms_risks spec \<noteq> [])])"

definition validate_spec :: "runtime \<Rightarrow> (string \<Rightarrow> string) \<Rightarrow> mvp_spec \<Rightarrow> validation_report" where
  "validate_spec rt cf spec =
     \<lparr>vr_errors = check_contradictions cf spec @ check_links spec @ check_id_format rt spec @ check_entities spec
        @ check_dependents spec @ check_identifiers spec,
      vr_warnings = check_health spec @ check_dependencies cf spec @ check_recommended spec,
      vr_questions = check_nsm cf spec @ check_testability rt cf spec @ check_deployment_target spec\<rparr>"

section \<open>What validation decides\<close>

text \<open>A specification a run may be built on.\<close>

definition well_formed_spec :: "runtime \<Rightarrow> (string \<Rightarrow> string) \<Rightarrow> mvp_spec \<Rightarrow> bool" where
  "well_formed_spec rt cf spec \<longleftrightarrow>
     norm_text cf ` set (ms_scope spec) \<inter> norm_text cf ` set (ms_non_goals spec) = {} \<and>
     sc_requirement ` set (ms_criteria spec) = fr_id ` set (ms_requirements spec) \<and>
     (\<forall>fr \<in> set (ms_requirements spec). rt_search rt requirement_id_pattern (fr_id fr) \<and>
        (is_entity_capability (fr_capability fr) \<longrightarrow>
           (\<exists>e \<in> set (ms_entities spec). named_entity fr = Some (et_name e) \<and>
              (fr_capability fr \<in> set dependent_capabilities \<longrightarrow>
                 (\<exists>fr' \<in> set (ms_requirements spec). fr_capability fr' = ''entity.create'' \<and> named_entity fr' = named_entity fr))))) \<and>
     (\<forall>e \<in> set (ms_entities spec). is_name (et_name e) \<and>
        (\<forall>f \<in> set (et_fields e). is_name (ef_name f) \<and> ef_name f \<notin> set reserved_fields))"

lemma concat_map_Nil: "concat (map f xs) = [] \<longleftrightarrow> (\<forall>x \<in> set xs. f x = [])"
  by simp

lemma no_contradictions:
  "check_contradictions cf spec = [] \<longleftrightarrow> norm_text cf ` set (ms_scope spec) \<inter> norm_text cf ` set (ms_non_goals spec) = {}"
  by (auto simp: check_contradictions_def concat_eq_Nil_conv map_of_eq_None_iff image_iff split: option.splits)

lemma linked: "check_links spec = [] \<longleftrightarrow> sc_requirement ` set (ms_criteria spec) = fr_id ` set (ms_requirements spec)"
  by (auto simp: check_links_def)

lemma ids_formatted:
  "check_id_format rt spec = [] \<longleftrightarrow> (\<forall>fr \<in> set (ms_requirements spec). rt_search rt requirement_id_pattern (fr_id fr))"
  by (auto simp: check_id_format_def)

lemma entities_declared:
  "check_entities spec = [] \<longleftrightarrow> (\<forall>fr \<in> set (ms_requirements spec). is_entity_capability (fr_capability fr) \<longrightarrow>
     (\<exists>e \<in> set (ms_entities spec). named_entity fr = Some (et_name e)))"
  unfolding check_entities_def concat_map_Nil
  by (rule ball_cong) (auto simp: image_iff split: option.splits)

lemma identifiers_valid:
  "check_identifiers spec = [] \<longleftrightarrow> (\<forall>e \<in> set (ms_entities spec). is_name (et_name e) \<and>
     (\<forall>f \<in> set (et_fields e). is_name (ef_name f) \<and> ef_name f \<notin> set reserved_fields))"
  by (auto simp: check_identifiers_def name_issues_def)

lemma set_map_filter: "y \<in> set (List.map_filter f xs) \<longleftrightarrow> (\<exists>x \<in> set xs. f x = Some y)"
  by (induction xs) (auto simp: map_filter_simps split: option.splits)

lemma used_entities_iff:
  "e \<in> set (used_entities spec) \<longleftrightarrow> (\<exists>fr \<in> set (ms_requirements spec).
     is_entity_capability (fr_capability fr) \<and> named_entity fr = Some e)"
  by (auto simp: used_entities_def set_map_filter)

lemma entity_capabilities_iff:
  "c \<in> set (entity_capabilities spec e) \<longleftrightarrow> (\<exists>fr \<in> set (ms_requirements spec).
     fr_capability fr = c \<and> named_entity fr = Some e \<and> is_entity_capability c)"
  by (auto simp: entity_capabilities_def)

lemma entity_capability_names [simp]:
  "is_entity_capability ''entity.create''" "c \<in> set dependent_capabilities \<Longrightarrow> is_entity_capability c"
  by (auto simp: is_entity_capability_def starts_with_def dependent_capabilities_def)

lemma dependents_created:
  "check_dependents spec = [] \<longleftrightarrow> (\<forall>fr \<in> set (ms_requirements spec). \<forall>e.
     named_entity fr = Some e \<longrightarrow> fr_capability fr \<in> set dependent_capabilities \<longrightarrow>
     (\<exists>fr' \<in> set (ms_requirements spec). fr_capability fr' = ''entity.create'' \<and> named_entity fr' = Some e))"
proof -
  have "check_dependents spec = [] \<longleftrightarrow> (\<forall>e \<in> set (used_entities spec).
      (\<exists>c \<in> set dependent_capabilities. c \<in> set (entity_capabilities spec e)) \<longrightarrow>
      ''entity.create'' \<in> set (entity_capabilities spec e))"
    unfolding check_dependents_def concat_map_Nil Let_def
    by (intro ball_cong refl) (auto simp: filter_empty_conv)
  also have "\<dots> \<longleftrightarrow> (\<forall>e. (\<exists>c \<in> set dependent_capabilities. c \<in> set (entity_capabilities spec e)) \<longrightarrow>
      ''entity.create'' \<in> set (entity_capabilities spec e))"
    unfolding Ball_def used_entities_iff entity_capabilities_iff by blast
  finally show ?thesis unfolding entity_capabilities_iff using entity_capability_names by blast
qed

text \<open>
  C22. Validation decides well-formedness: the report has no error exactly when the scope and
  the non-goals are disjoint up to case and white space, requirements and acceptance criteria
  refer to each other completely, requirement ids follow the pattern, every entity capability
  names a declared entity that can also be created, and all names are identifiers that are
  not reserved. Warnings and questions never decide.
\<close>
theorem validation_decides:
  "report_ok (validate_spec rt cf spec) \<longleftrightarrow> well_formed_spec rt cf spec"
proof -
  let ?R = "set (ms_requirements spec)"
  define declared where "declared = (\<lambda>fr. \<exists>e \<in> set (ms_entities spec). named_entity fr = Some (et_name e))"
  define created where "created = (\<lambda>fr. \<exists>fr' \<in> ?R. fr_capability fr' = ''entity.create'' \<and> named_entity fr' = named_entity fr)"
  have made: "(\<exists>fr' \<in> ?R. fr_capability fr' = ''entity.create'' \<and> named_entity fr' = named_entity fr) = created fr" for fr
    by (simp add: created_def)
  have split_declared: "(\<exists>e \<in> set (ms_entities spec). named_entity fr = Some (et_name e) \<and> Q) = (declared fr \<and> Q)" for fr Q
    by (auto simp: declared_def)
  have dependents: "check_dependents spec = [] \<longleftrightarrow>
      (\<forall>fr \<in> ?R. named_entity fr \<noteq> None \<longrightarrow> fr_capability fr \<in> set dependent_capabilities \<longrightarrow> created fr)"
    unfolding dependents_created created_def by (rule ball_cong) auto
  have "report_ok (validate_spec rt cf spec) \<longleftrightarrow> check_contradictions cf spec = [] \<and> check_links spec = []
      \<and> check_id_format rt spec = [] \<and> check_entities spec = [] \<and> check_dependents spec = [] \<and> check_identifiers spec = []"
    by (simp add: report_ok_def validate_spec_def)
  moreover have "check_entities spec = [] \<and> check_dependents spec = [] \<longleftrightarrow> (\<forall>fr \<in> ?R. is_entity_capability (fr_capability fr) \<longrightarrow>
      declared fr \<and> (fr_capability fr \<in> set dependent_capabilities \<longrightarrow> created fr))"
    unfolding dependents entities_declared declared_def [symmetric, THEN fun_cong]
    using entity_capability_names(2) by (auto simp: declared_def)
  moreover have "well_formed_spec rt cf spec \<longleftrightarrow> check_contradictions cf spec = [] \<and> check_links spec = []
      \<and> check_id_format rt spec = [] \<and> (\<forall>fr \<in> ?R. is_entity_capability (fr_capability fr) \<longrightarrow>
      declared fr \<and> (fr_capability fr \<in> set dependent_capabilities \<longrightarrow> created fr)) \<and> check_identifiers spec = []"
    unfolding no_contradictions linked ids_formatted identifiers_valid well_formed_spec_def
    by (simp only: made split_declared ball_conj_distrib conj_assoc)
  ultimately show ?thesis by blast
qed

end
