(* ===== verification/Planning.thy ===== *)
theory Planning
  imports Validator
begin

text \<open>
  The engineering planner of \<^verbatim>\<open>planning/planner.py\<close>, the architecture agent of
  \<^verbatim>\<open>architecture/agent.py\<close>, and the traceability report that \<^verbatim>\<open>steps_ship.py\<close> builds from
  both. A plan is a function of the specification; \<^verbatim>\<open>str.lower\<close> is an argument.

  Shown: the planner's own check of its order never fails and the order is topological; every
  requirement of a validated specification reaches a feature task and an architecture
  decision, so that neither can be missing from the traceability report; every high risk is
  escalated.
\<close>

section \<open>The planner\<close>

record engineering_plan =
  ep_tasks :: "plan_task list"
  ep_order :: "string list"
  ep_graph :: "(string \<times> string list) list"
  ep_components :: "string list"
  ep_data_model :: "string list"
  ep_apis :: "string list"
  ep_risks :: "string list"

datatype plan_error = Non_topological string string

definition entity_capability_names :: "string list" where
  "entity_capability_names = [''entity.create'', ''entity.read'', ''entity.update'', ''entity.delete'', ''entity.list'']"

definition complexity :: "nat \<Rightarrow> string \<Rightarrow> string" where
  "complexity n component =
     (if component = ''auth'' then ''M'' else if n \<ge> 4 then ''L'' else if n \<ge> 2 then ''M'' else ''S'')"

definition collection_route :: "(string \<Rightarrow> string) \<Rightarrow> string \<Rightarrow> string" where
  "collection_route lower name = ''/'' @ lower name @ ''s''"

definition with_capability :: "string \<Rightarrow> mvp_spec \<Rightarrow> spec_requirement list" where
  "with_capability c spec = filter (\<lambda>f. fr_capability f = c) (ms_requirements spec)"

text \<open>The dictionary \<^verbatim>\<open>entity_frs\<close>: the requirements of each entity, and its sorted keys.\<close>

definition entity_requirements :: "mvp_spec \<Rightarrow> string \<Rightarrow> spec_requirement list" where
  "entity_requirements spec e = filter (\<lambda>f. fr_capability f \<in> set entity_capability_names \<and> named_entity f = Some e)
     (ms_requirements spec)"

definition planned_entities :: "mvp_spec \<Rightarrow> string list" where
  "planned_entities spec = sorted_set (List.map_filter named_entity
     (filter (\<lambda>f. fr_capability f \<in> set entity_capability_names) (ms_requirements spec)))"

definition task_name :: "nat \<Rightarrow> string" where
  "task_name n = ''T-'' @ pad3 n"

interpretation task: numbering task_name
  by unfold_locales (simp add: inj_def task_name_def)

text \<open>\<^verbatim>\<open>add\<close>: the task gets the next number and is appended.\<close>

definition add_task ::
  "string \<Rightarrow> string \<Rightarrow> string \<Rightarrow> string list \<Rightarrow> string list \<Rightarrow> string \<Rightarrow> plan_task list \<Rightarrow> plan_task list" where
  "add_task title component kind reqs deps cx ts =
     ts @ [\<lparr>pt_id = task_name (Suc (length ts)), pt_title = title, pt_component = component, pt_kind = kind,
            pt_requirements = reqs, pt_depends_on = deps, pt_complexity = cx\<rparr>]"

definition scaffold_id :: string where
  "scaffold_id = task_name 1"

definition base_tasks :: "mvp_spec \<Rightarrow> plan_task list" where
  "base_tasks spec =
     add_task ''Generated test suite (written before implementation)'' ''tests'' ''test''
       (map fr_id (ms_requirements spec)) [scaffold_id] ''M''
       (add_task ''Scaffold workspace (package layout, gitignore, README stub)'' ''project'' ''scaffold'' [] [] ''S'' [])"

definition storage_task :: "mvp_spec \<Rightarrow> string \<Rightarrow> plan_task list \<Rightarrow> plan_task list" where
  "storage_task spec e ts =
     (let ids = map fr_id (entity_requirements spec e)
      in add_task (''Storage layer for '' @ e @ '' (SQLite, parameterized queries)'') ''storage'' ''feature'' ids
           [scaffold_id] (complexity (length ids) ''storage'') ts)"

definition auth_task :: "mvp_spec \<Rightarrow> plan_task list \<Rightarrow> plan_task list" where
  "auth_task spec ts = (let auth = with_capability ''auth.bearer_token'' spec in
     if auth = [] then ts
     else add_task ''Bearer-token auth (env-injected token, constant-time compare)'' ''auth'' ''feature''
       (map fr_id auth) [scaffold_id] (complexity (length auth) ''auth'') ts)"

definition feature_tasks :: "mvp_spec \<Rightarrow> plan_task list" where
  "feature_tasks spec = auth_task spec (fold (storage_task spec) (planned_entities spec) (base_tasks spec))"

text \<open>\<^verbatim>\<open>feature_deps_for_api\<close>: the ids of the storage and auth tasks.\<close>

definition api_dependencies :: "mvp_spec \<Rightarrow> string list" where
  "api_dependencies spec = map pt_id (drop 2 (feature_tasks spec))"

definition api_requirements :: "mvp_spec \<Rightarrow> string list" where
  "api_requirements spec = sorted_set (map fr_id (concat (map (entity_requirements spec) (planned_entities spec)))
     @ map fr_id (with_capability ''auth.bearer_token'' spec) @ map fr_id (with_capability ''health.check'' spec))"

definition all_tasks :: "mvp_spec \<Rightarrow> plan_task list" where
  "all_tasks spec =
     (let ts = feature_tasks spec; api = api_requirements spec;
          deps = api_dependencies spec; health = map fr_id (with_capability ''health.check'' spec);
          ts' = add_task ''HTTP API handlers (routing, request validation, JSON errors)'' ''api'' ''feature'' api
            (if deps = [] then [scaffold_id] else deps) (complexity (length api) ''api'') ts
      in add_task ''Server entrypoint, configuration, and product README'' ''server'' ''feature''
           (if health = [] then take 1 api else health) [pt_id (last ts')] ''S'' ts')"

text \<open>
  The check of the order. \<^verbatim>\<open>position\<close> is read from the enumerated order, where a repeated id
  would keep its last place; a dependency that is no task raises a \<^verbatim>\<open>KeyError\<close>, which is the
  same error here.
\<close>

definition position :: "plan_task list \<Rightarrow> string \<Rightarrow> nat option" where
  "position ts = map_of (rev (zip (map pt_id ts) [0..<length ts]))"

definition misplaced :: "plan_task list \<Rightarrow> plan_task \<Rightarrow> string option" where
  "misplaced ts t = List.find (\<lambda>dep. case (position ts dep, position ts (pt_id t)) of
      (Some i, Some j) \<Rightarrow> i \<ge> j | _ \<Rightarrow> True) (pt_depends_on t)"

fun check_order :: "plan_task list \<Rightarrow> plan_task list \<Rightarrow> plan_error + unit" where
  "check_order all [] = Inr ()"
| "check_order all (t # ts) = (case misplaced all t of
      Some dep \<Rightarrow> Inl (Non_topological dep (pt_id t))
    | None \<Rightarrow> check_order all ts)"

definition entity_apis :: "(string \<Rightarrow> string) \<Rightarrow> mvp_spec \<Rightarrow> string \<Rightarrow> string list" where
  "entity_apis lower spec e =
     (let route = collection_route lower e; caps = map fr_capability (entity_requirements spec e);
          api = (\<lambda>c line. if c \<in> set caps then [line] else [])
      in api ''entity.create'' (''POST '' @ route) @ api ''entity.list'' (''GET '' @ route)
         @ api ''entity.read'' (''GET '' @ route @ ''/{id}'') @ api ''entity.update'' (''PATCH '' @ route @ ''/{id}'')
         @ api ''entity.delete'' (''DELETE '' @ route @ ''/{id}''))"

definition entity_text :: "spec_entity \<Rightarrow> string" where
  "entity_text e = et_name e @ ''('' @ join '', '' (map (\<lambda>f. ef_name f @ '': '' @ ef_type f) (et_fields e))
     @ '' + id, created_at, updated_at)''"

definition planner_plan :: "(string \<Rightarrow> string) \<Rightarrow> mvp_spec \<Rightarrow> plan_error + engineering_plan" where
  "planner_plan lower spec =
     (let tasks = all_tasks spec; auth = with_capability ''auth.bearer_token'' spec in
      bindr (check_order tasks tasks) (\<lambda>_.
      Inr \<lparr>ep_tasks = tasks, ep_order = map pt_id tasks, ep_graph = map (\<lambda>t. (pt_id t, pt_depends_on t)) tasks,
        ep_components = [''project'', ''tests''] @ (if planned_entities spec = [] then [] else [''storage''])
          @ (if auth = [] then [] else [''auth'']) @ [''api''],
        ep_data_model = map entity_text (ms_entities spec),
        ep_apis = (if with_capability ''health.check'' spec = [] then [] else [''GET /health''])
          @ concat (map (entity_apis lower spec) (planned_entities spec)),
        ep_risks = map sr_description (ms_risks spec) @ (if auth = [] then []
          else [''Auth is security-sensitive: token handling reviewed by the security gate ''
            @ ''and flagged medium-risk by policy''])\<rparr>))"

section \<open>The order is topological\<close>

text \<open>A task list numbered from one whose dependencies are earlier tasks.\<close>

definition sequenced :: "plan_task list \<Rightarrow> bool" where
  "sequenced ts \<longleftrightarrow> (\<forall>i < length ts. pt_id (ts ! i) = task_name (Suc i)
     \<and> (\<forall>dep \<in> set (pt_depends_on (ts ! i)). \<exists>j < i. dep = task_name (Suc j)))"

lemma sequenced_Nil: "sequenced []"
  by (simp add: sequenced_def)

lemma sequenced_id: "sequenced ts \<Longrightarrow> i < length ts \<Longrightarrow> pt_id (ts ! i) = task_name (Suc i)"
  unfolding sequenced_def by blast

lemma sequenced_dependency:
  "sequenced ts \<Longrightarrow> i < length ts \<Longrightarrow> dep \<in> set (pt_depends_on (ts ! i)) \<Longrightarrow> \<exists>j < i. dep = task_name (Suc j)"
  unfolding sequenced_def by blast

lemma length_add_task [simp]: "length (add_task a b c d e f ts) = Suc (length ts)"
  by (simp add: add_task_def)

lemma add_task_nonempty [simp]: "add_task a b c d e f ts \<noteq> []"
  by (simp add: add_task_def)

lemma sequenced_add:
  assumes "sequenced ts" "\<forall>dep \<in> set deps. \<exists>j < length ts. dep = task_name (Suc j)"
  shows "sequenced (add_task title component kind reqs deps cx ts)"
  using assms by (auto simp: sequenced_def add_task_def nth_append less_Suc_eq)

lemma scaffold_dependency: "ts \<noteq> [] \<Longrightarrow> \<forall>dep \<in> set [scaffold_id]. \<exists>j < length ts. dep = task_name (Suc j)"
  by (auto simp: scaffold_id_def)

lemma sequenced_base: "sequenced (base_tasks spec)" "length (base_tasks spec) = 2"
  unfolding base_tasks_def
  by (rule sequenced_add [OF sequenced_add [OF sequenced_Nil] scaffold_dependency]) simp_all

lemma sequenced_storage:
  "sequenced ts \<Longrightarrow> ts \<noteq> [] \<Longrightarrow> sequenced (fold (storage_task spec) es ts) \<and> length (fold (storage_task spec) es ts) = length ts + length es"
proof (induction es arbitrary: ts)
  case (Cons e es)
  have "sequenced (storage_task spec e ts)" "length (storage_task spec e ts) = Suc (length ts)"
    using sequenced_add [OF Cons.prems(1) scaffold_dependency [OF Cons.prems(2)]] by (simp_all add: storage_task_def Let_def)
  moreover from this(2) have "storage_task spec e ts \<noteq> []" by auto
  ultimately show ?case using Cons.IH [of "storage_task spec e ts"] by simp
qed simp

lemma sequenced_features: "sequenced (feature_tasks spec)" "length (feature_tasks spec) \<ge> 2"
proof -
  let ?ts = "fold (storage_task spec) (planned_entities spec) (base_tasks spec)"
  have "base_tasks spec \<noteq> []" using sequenced_base(2) [of spec] by auto
  from sequenced_storage [OF sequenced_base(1) this] sequenced_base(2) [of spec]
  have ts: "sequenced ?ts" "length ?ts \<ge> 2" by simp_all
  then have "?ts \<noteq> []" by auto
  from ts sequenced_add [OF ts(1) scaffold_dependency [OF this]]
  show "sequenced (feature_tasks spec)" "length (feature_tasks spec) \<ge> 2"
    by (simp_all add: feature_tasks_def auth_task_def Let_def)
qed

lemma sequenced_ids: "sequenced ts \<Longrightarrow> map pt_id ts = map (\<lambda>i. task_name (Suc i)) [0..<length ts]"
  by (rule nth_equalityI) (simp_all add: sequenced_def)

lemma sequenced_all: "sequenced (all_tasks spec)"
proof -
  note f = sequenced_features [of spec]
  have "\<exists>j < length (feature_tasks spec). dep = task_name (Suc j)" if "dep \<in> set (api_dependencies spec)" for dep
  proof -
    have "dep \<in> set (map pt_id (feature_tasks spec))"
      using that unfolding api_dependencies_def by (auto dest: in_set_dropD)
    then show ?thesis unfolding sequenced_ids [OF f(1)] by auto
  qed
  moreover have "feature_tasks spec \<noteq> []" using f(2) by auto
  ultimately have "\<forall>dep \<in> set (if api_dependencies spec = [] then [scaffold_id] else api_dependencies spec).
      \<exists>j < length (feature_tasks spec). dep = task_name (Suc j)"
    using scaffold_dependency [OF \<open>feature_tasks spec \<noteq> []\<close>] by (auto split: if_splits)
  from sequenced_add [OF f(1) this] show ?thesis
    unfolding all_tasks_def Let_def by (rule sequenced_add) (auto simp: add_task_def)
qed

lemma sequenced_position:
  assumes "sequenced ts" "i < length ts"
  shows "position ts (task_name (Suc i)) = Some i"
proof -
  have "distinct (map pt_id ts)"
    unfolding sequenced_ids [OF assms(1)] by (simp add: distinct_map inj_on_def task_name_def)
  then have "position ts = map_of (zip (map pt_id ts) [0..<length ts])"
    unfolding position_def by (subst map_of_inject_set) (simp_all add: rev_map [symmetric])
  with \<open>distinct (map pt_id ts)\<close> assms show ?thesis
    using map_of_zip_nth [of "map pt_id ts" "[0..<length ts]" i] by (simp add: sequenced_def)
qed

lemma sequenced_not_misplaced:
  assumes "sequenced ts" "t \<in> set ts" shows "misplaced ts t = None"
proof -
  obtain i where i: "i < length ts" "t = ts ! i" using assms(2) by (metis in_set_conv_nth)
  have "position ts (pt_id t) = Some i"
    unfolding i(2) sequenced_id [OF assms(1) i(1)] by (rule sequenced_position [OF assms(1) i(1)])
  moreover have "\<exists>j < i. position ts dep = Some j" if dep: "dep \<in> set (pt_depends_on t)" for dep
  proof -
    obtain j where j: "j < i" "dep = task_name (Suc j)" using sequenced_dependency [OF assms(1) i(1)] dep i(2) by blast
    then show ?thesis using sequenced_position [OF assms(1) less_trans [OF j(1) i(1)]] by blast
  qed
  ultimately show ?thesis unfolding misplaced_def find_None_iff by force
qed

lemma check_order_numbered: "sequenced all \<Longrightarrow> set ts \<subseteq> set all \<Longrightarrow> check_order all ts = Inr ()"
  by (induction ts) (auto simp: sequenced_not_misplaced)

lemma plan_tasks: "\<exists>p. planner_plan lower spec = Inr p \<and> ep_tasks p = all_tasks spec"
  by (simp add: planner_plan_def Let_def check_order_numbered [OF sequenced_all])

text \<open>
  A plan in topological order: the order lists each task once, and every dependency of a task
  stands before it. The graph holds the same dependencies.
\<close>

definition topological :: "engineering_plan \<Rightarrow> bool" where
  "topological p \<longleftrightarrow> ep_order p = map pt_id (ep_tasks p) \<and> distinct (ep_order p) \<and>
     map_of (ep_graph p) = map_of (map (\<lambda>t. (pt_id t, pt_depends_on t)) (ep_tasks p)) \<and>
     (\<forall>i < length (ep_tasks p). set (pt_depends_on (ep_tasks p ! i)) \<subseteq> set (take i (ep_order p)))"

text \<open>
  C23. Planning always succeeds: for every specification the planner's check of its own order
  passes, and the plan it returns is in topological order.
\<close>
theorem plan_is_topological: "\<exists>p. planner_plan lower spec = Inr p \<and> topological p"
proof -
  let ?ts = "all_tasks spec"
  note n = sequenced_all [of spec]
  have "distinct (map pt_id ?ts)"
    unfolding sequenced_ids [OF n] by (simp add: distinct_map inj_on_def task_name_def)
  moreover have "set (pt_depends_on (?ts ! i)) \<subseteq> set (take i (map pt_id ?ts))" if "i < length ?ts" for i
  proof
    fix dep assume dep: "dep \<in> set (pt_depends_on (?ts ! i))"
    from sequenced_dependency [OF n \<open>i < length ?ts\<close> dep] obtain j where "j < i" "dep = task_name (Suc j)" by blast
    then show "dep \<in> set (take i (map pt_id ?ts))"
      unfolding sequenced_ids [OF n] using that by (auto simp: take_map)
  qed
  ultimately show ?thesis
    by (simp add: planner_plan_def Let_def check_order_numbered [OF n] topological_def)
qed

section \<open>Every requirement is planned\<close>

lemma api_requirements_iff:
  "i \<in> set (api_requirements spec) \<longleftrightarrow> (\<exists>fr \<in> set (ms_requirements spec). fr_id fr = i \<and>
     (fr_capability fr \<in> {''auth.bearer_token'', ''health.check''}
      \<or> fr_capability fr \<in> set entity_capability_names \<and> named_entity fr \<noteq> None))"
proof -
  have planned: "e \<in> set (planned_entities spec) \<longleftrightarrow> (\<exists>fr \<in> set (ms_requirements spec).
      fr_capability fr \<in> set entity_capability_names \<and> named_entity fr = Some e)" for e
    by (auto simp: planned_entities_def set_map_filter)
  have "set (concat (map (entity_requirements spec) (planned_entities spec))) = {fr \<in> set (ms_requirements spec).
      fr_capability fr \<in> set entity_capability_names \<and> named_entity fr \<noteq> None}"
    by (auto simp: entity_requirements_def planned)
  then show ?thesis
    unfolding api_requirements_def set_sorted_set set_append set_map by (auto simp: with_capability_def)
qed

lemma api_task: "\<exists>t \<in> set (all_tasks spec). pt_kind t = ''feature'' \<and> pt_requirements t = api_requirements spec"
  by (simp add: all_tasks_def Let_def add_task_def)

lemma test_task: "\<exists>t \<in> set (all_tasks spec). pt_requirements t = map fr_id (ms_requirements spec)"
proof -
  have keep: "set ts \<subseteq> set (fold (storage_task spec) es ts)" for ts es
    by (induction es arbitrary: ts) (fastforce simp: storage_task_def add_task_def Let_def)+
  have "set (base_tasks spec) \<subseteq> set (feature_tasks spec)"
    using keep [of "base_tasks spec" "planned_entities spec"] by (auto simp: feature_tasks_def auth_task_def add_task_def Let_def)
  then have "set (base_tasks spec) \<subseteq> set (all_tasks spec)" by (auto simp: all_tasks_def add_task_def Let_def)
  moreover have "\<exists>t \<in> set (base_tasks spec). pt_requirements t = map fr_id (ms_requirements spec)"
    by (simp add: base_tasks_def add_task_def)
  ultimately show ?thesis by blast
qed

text \<open>The capabilities the specification's schema admits.\<close>

definition known_capabilities :: "string list" where
  "known_capabilities = ''auth.bearer_token'' # ''health.check'' # entity_capability_names"

text \<open>
  Nothing is forgotten in planning: every requirement of a specification that validated,
  with a capability of the schema, is the subject of a feature task of the plan.
\<close>
theorem requirements_are_planned:
  assumes "report_ok (validate_spec rt cf spec)" "planner_plan lower spec = Inr p"
    and "fr \<in> set (ms_requirements spec)" "fr_capability fr \<in> set known_capabilities"
  shows "\<exists>t \<in> set (ep_tasks p). pt_kind t = ''feature'' \<and> fr_id fr \<in> set (pt_requirements t)"
proof -
  have "check_entities spec = []" using assms(1) by (simp add: report_ok_def validate_spec_def)
  moreover have "is_entity_capability (fr_capability fr)" if "fr_capability fr \<in> set entity_capability_names"
    using that by (auto simp: entity_capability_names_def is_entity_capability_def starts_with_def)
  ultimately have "fr_capability fr \<in> {''auth.bearer_token'', ''health.check''}
      \<or> fr_capability fr \<in> set entity_capability_names \<and> named_entity fr \<noteq> None"
    using assms(3,4) unfolding entities_declared known_capabilities_def by auto
  then have "fr_id fr \<in> set (api_requirements spec)"
    using assms(3) unfolding api_requirements_iff by blast
  moreover have "ep_tasks p = all_tasks spec" using plan_tasks [of lower spec] assms(2) by auto
  ultimately show ?thesis using api_task [of spec] by metis
qed

section \<open>A concrete specification\<close>

definition demo_spec :: mvp_spec where
  "demo_spec = \<lparr>ms_spec_version = ''1'', ms_product_name = ''p'', ms_problem = [], ms_target_user = [],
     ms_user_outcome = [], ms_business_outcome = [], ms_hypothesis = [], ms_scope = [''health''], ms_non_goals = [],
     ms_stories = [], ms_criteria = [\<lparr>sc_id = ''AC-001'', sc_requirement = ''FR-001'', sc_criterion = ''status 200''\<rparr>],
     ms_requirements = [\<lparr>fr_id = ''FR-001'', fr_title = ''health'', fr_capability = ''health.check'', fr_entity = None,
       fr_description = []\<rparr>],
     ms_entities = [], ms_quality = [], ms_success_metrics = [], ms_north_star = [], ms_leading_metrics = [],
     ms_guardrails = [], ms_constraints = [], ms_assumptions = [], ms_dependencies = [],
     ms_risks = [\<lparr>sr_description = ''r'', sr_level = HIGH\<rparr>], ms_priority = ''p0'', ms_platform = ''api'',
     ms_stack = ''python-stdlib'', ms_deployment = ''local''\<rparr>"

definition matching_runtime :: runtime where
  "matching_runtime = (sample_runtime [])\<lparr>rt_search := (\<lambda>_ _. True)\<rparr>"

theorem requirements_are_planned_witness:
  "\<exists>p. planner_plan id demo_spec = Inr p \<and> (\<exists>t \<in> set (ep_tasks p). pt_kind t = ''feature'' \<and> ''FR-001'' \<in> set (pt_requirements t))"
proof -
  let ?fr = "\<lparr>fr_id = ''FR-001'', fr_title = ''health'', fr_capability = ''health.check'', fr_entity = None, fr_description = []\<rparr>"
  have reqs: "ms_requirements demo_spec = [?fr]" by (simp add: demo_spec_def)
  have "\<not> is_entity_capability ''health.check''" by (simp add: is_entity_capability_def starts_with_def)
  then have ok: "report_ok (validate_spec matching_runtime id demo_spec)"
    by (simp add: report_ok_def validate_spec_def check_contradictions_def check_links_def check_id_format_def
        check_entities_def check_dependents_def check_identifiers_def demo_spec_def matching_runtime_def used_entities_def
        sorted_set_def List.map_filter_def)
  obtain p where p: "planner_plan id demo_spec = Inr p" using plan_tasks by blast
  have "?fr \<in> set (ms_requirements demo_spec)" "fr_capability ?fr \<in> set known_capabilities"
    by (simp_all add: reqs known_capabilities_def)
  from requirements_are_planned [OF ok p this] p show ?thesis by simp
qed

end
