(* ===== verification/Architecture.thy ===== *)
theory Architecture
  imports Planning
begin

text \<open>
  The architecture agent of \<^verbatim>\<open>architecture/agent.py\<close> and the traceability report that the
  shipping step (\<^verbatim>\<open>orchestration/steps_ship.py\<close>) builds from the plan and its decisions.

  Shown: the agent escalates exactly the high risks of the specification, and a requirement
  can be missing from the traceability report only for want of tests or code.
\<close>

section \<open>Decisions\<close>

record adr =
  adr_id :: string
  adr_title :: string
  adr_context :: string
  adr_decision :: string
  adr_consequences :: string
  adr_risk :: risk_level
  adr_reversibility :: string
  adr_requirements :: "string list"

record architecture_doc =
  doc_overview :: string
  doc_components :: "(string \<times> string) list"
  doc_implications :: "(string \<times> string) list"

record architecture_output =
  out_doc :: architecture_doc
  out_adrs :: "adr list"
  out_escalations :: "escalation list"

definition level_text :: "risk_level \<Rightarrow> string" where
  "level_text l = (case l of LOW \<Rightarrow> ''low'' | MEDIUM \<Rightarrow> ''medium'' | HIGH \<Rightarrow> ''high'')"

definition adrs_for :: "mvp_spec \<Rightarrow> adr list" where
  "adrs_for spec =
     [\<lparr>adr_id = ''ADR-001'', adr_title = ''Stack: '' @ ms_stack spec @ '' single-process HTTP API'',
       adr_context = ''The spec requests target_platform '' @ quoted (ms_platform spec) @ '' with preferred_stack ''
         @ quoted (ms_stack spec) @ ''. Constraints: '' @ or_else (join ''; '' (ms_constraints spec)) ''none declared'' @ ''.'',
       adr_decision = ''Python standard library only: http.server ThreadingHTTPServer for ''
         @ ''HTTP, no framework, no third-party runtime dependencies.'',
       adr_consequences = ''+ Runs and tests anywhere Python runs; zero supply-chain surface. ''
         @ ''- Not suited to high concurrency; a framework port is a contained rewrite of the API layer only.'',
       adr_risk = LOW, adr_reversibility = ''reversible'', adr_requirements = map fr_id (ms_requirements spec)\<rparr>,
      \<lparr>adr_id = ''ADR-002'', adr_title = ''Persistence: SQLite file per deployment'',
       adr_context = ''Entities: '' @ or_else (join '', '' (map et_name (ms_entities spec))) ''none''
         @ ''. The spec requires data to survive restarts and declares a single-user product.'',
       adr_decision = ''SQLite database file (path from APP_DB env var), parameterized ''
         @ ''queries only, one writer lock around mutations.'',
       adr_consequences = ''+ Durable, transactional, zero external services. ''
         @ ''- Single-node only; moving to Postgres later is a storage-adapter swap, not a rewrite.'',
       adr_risk = MEDIUM, adr_reversibility = ''reversible'',
       adr_requirements = map fr_id (filter (\<lambda>f. is_entity_capability (fr_capability f)) (ms_requirements spec))\<rparr>,
      \<lparr>adr_id = ''ADR-003'', adr_title = ''Auth: static bearer token injected via environment'',
       adr_context = ''The spec requires bearer-token auth (capability auth.bearer_token) ''
         @ ''for a single-user product with one token per deployment.'',
       adr_decision = ''APP_TOKEN environment variable, generated at deploy time, compared ''
         @ ''with hmac.compare_digest; the token never appears in code, config files, or logs.'',
       adr_consequences = ''+ No secret at rest in the repo; constant-time compare. ''
         @ ''- Single static token: leak requires rotation (documented in the ''
         @ ''product README); per-user auth is a V2 concern.'',
       adr_risk = MEDIUM, adr_reversibility = ''reversible'',
       adr_requirements = map fr_id (with_capability ''auth.bearer_token'' spec)\<rparr>,
      \<lparr>adr_id = ''ADR-004'', adr_title = ''Deployment shape: single local process + deployable artifact'',
       adr_context = ''deployment_target is '' @ quoted (ms_deployment spec)
         @ ''. V1 verifies against a really-running process.'',
       adr_decision = ''Deploy as one local process (run.sh) with health-check and ''
         @ ''user-journey smoke verification; emit a Dockerfile so the same artifact can be containerized elsewhere.'',
       adr_consequences = ''+ Verification is real HTTP against a real process. ''
         @ ''- No HA/scaling story; cloud targets arrive as deployment adapters.'',
       adr_risk = LOW, adr_reversibility = ''reversible'',
       adr_requirements = map fr_id (with_capability ''health.check'' spec)\<rparr>]"

definition document_for :: "mvp_spec \<Rightarrow> engineering_plan \<Rightarrow> architecture_doc" where
  "document_for spec p =
     \<lparr>doc_overview = ms_product_name spec @ '': a single-process JSON API ('' @ join '', '' (ep_apis p)
        @ '') with SQLite persistence and bearer-token auth. Modules: app/api.py, app/storage.py, app/auth.py, ''
        @ ''app/server.py. Data model: '' @ or_else (join ''; '' (ep_data_model p)) ''none'' @ ''.'',
      doc_components =
        [(''api'', ''HTTP routing, request validation, JSON error contract''),
         (''storage'', ''SQLite persistence, parameterized queries, writer lock''),
         (''auth'', ''bearer-token verification (env-injected, constant-time)''),
         (''server'', ''process entrypoint, configuration from environment''),
         (''tests'', ''generated before implementation; unit + integration over real HTTP'')],
      doc_implications =
        [(''security'', ''Token via environment only; constant-time comparison; parameterized ''
            @ ''SQL; no eval/exec/shell; security gate scans every build.''),
         (''scalability'', ''ThreadingHTTPServer + SQLite serves a single-user product; scale-out ''
            @ ''requires a storage adapter and a WSGI/ASGI port (contained changes).''),
         (''reliability'', ''Data on disk survives restarts; process supervised by run.sh; health ''
            @ ''endpoint enables external monitoring; rollback = stop process, restore previous artifact.''),
         (''maintainability'', ''Four small modules with single responsibilities; tests map 1:1 to ''
            @ ''requirements; no framework magic.'')]\<rparr>"

definition adr_escalation :: "policy_rule list \<Rightarrow> adr \<Rightarrow> escalation list" where
  "adr_escalation rules a =
     (if adr_reversibility a = ''irreversible'' \<or> adr_risk a = HIGH then
        (let d = classify rules ''architecture.irreversible_choice'' in
         [\<lparr>es_id = [], es_risk = pd_level d,
           es_reason = adr_id a @ '' ('' @ quoted (adr_title a) @ '') is '' @ adr_reversibility a @ '' with risk ''
             @ level_text (adr_risk a) @ '': '' @ pd_justification d,
           es_step = ''architecture'', es_context = [(''adr'', JStr (adr_id a)), (''rule'', JStr (pd_rule_id d))],
           es_created_at = []\<rparr>])
      else [])"

definition risk_escalation :: "spec_risk \<Rightarrow> escalation" where
  "risk_escalation r = \<lparr>es_id = [], es_risk = HIGH,
     es_reason = ''The spec declares a high risk the PM must acknowledge before build: '' @ sr_description r,
     es_step = ''architecture'', es_context = [(''source'', JStr ''spec.risks'')], es_created_at = []\<rparr>"

definition escalations_for :: "policy_rule list \<Rightarrow> mvp_spec \<Rightarrow> adr list \<Rightarrow> escalation list" where
  "escalations_for rules spec adrs = concat (map (adr_escalation rules) adrs)
     @ map risk_escalation (filter (\<lambda>r. sr_level r = HIGH) (ms_risks spec))"

definition design :: "policy_rule list \<Rightarrow> mvp_spec \<Rightarrow> engineering_plan \<Rightarrow> architecture_output" where
  "design rules spec p = (let adrs = adrs_for spec in
     \<lparr>out_doc = document_for spec p, out_adrs = adrs, out_escalations = escalations_for rules spec adrs\<rparr>)"

text \<open>
  The architecture step hands over exactly the high risks: under any policy, its
  escalations are one per high risk of the specification, in order, each at level HIGH, which
  the policy engine never lets pass without an approval. None of its own decisions is one.
\<close>
theorem high_risks_escalate:
  "out_escalations (design rules spec p) = map risk_escalation (filter (\<lambda>r. sr_level r = HIGH) (ms_risks spec))
     \<and> list_all (\<lambda>e. requires_approval (es_risk e)) (out_escalations (design rules spec p))"
  by (simp add: design_def escalations_for_def adrs_for_def adr_escalation_def risk_escalation_def list_all_iff
      requires_approval_def)

section \<open>Traceability of a plan\<close>

fun put_adrs :: "adr list \<Rightarrow> (string \<times> string list) list \<Rightarrow> (string \<times> string list) list" where
  "put_adrs [] m = m"
| "put_adrs (a # as) m = put_adrs as (fold (\<lambda>rid m.
     dput rid ((case map_of m rid of None \<Rightarrow> [] | Some xs \<Rightarrow> xs) @ [adr_id a]) m) (adr_requirements a) m)"

text \<open>\<^verbatim>\<open>_traceability\<close> of the shipping step.\<close>

definition trace_inputs ::
  "mvp_spec \<Rightarrow> engineering_plan \<Rightarrow> architecture_output \<Rightarrow> (string \<rightharpoonup> string list) \<Rightarrow> (string \<rightharpoonup> string list)
     \<Rightarrow> review_item list \<Rightarrow> deployment_result option \<Rightarrow> (string \<Rightarrow> bool) \<Rightarrow> trace_args" where
  "trace_inputs spec p arch tests code findings deployment on_disk =
     \<lparr>ta_requirements = map fr_id (ms_requirements spec), ta_plan = ep_tasks p,
      ta_adrs = map_of (put_adrs (out_adrs arch) []), ta_tests = tests, ta_code = code,
      ta_findings = findings, ta_deployment = deployment, ta_workspace = Some on_disk\<rparr>"

definition has_entry :: "(string \<times> string list) list \<Rightarrow> string \<Rightarrow> bool" where
  "has_entry m k \<longleftrightarrow> (\<exists>xs. map_of m k = Some xs \<and> xs \<noteq> [])"

lemma record_one: "has_entry m k \<or> k = rid \<Longrightarrow>
   has_entry (dput rid ((case map_of m rid of None \<Rightarrow> [] | Some xs \<Rightarrow> xs) @ [a]) m) k"
  by (auto simp: has_entry_def)

lemma record_fold:
  "has_entry m k \<or> k \<in> set rids \<Longrightarrow>
     has_entry (fold (\<lambda>rid m. dput rid ((case map_of m rid of None \<Rightarrow> [] | Some xs \<Rightarrow> xs) @ [a]) m) rids m) k"
proof (induction rids arbitrary: m)
  case (Cons rid rids)
  then show ?case using record_one [of m k rid a] by (simp only: fold_simps o_apply) fastforce
qed simp

lemma record_adrs: "has_entry m k \<or> (\<exists>a \<in> set as. k \<in> set (adr_requirements a)) \<Longrightarrow> has_entry (put_adrs as m) k"
proof (induction as arbitrary: m)
  case (Cons a as)
  show ?case
    unfolding put_adrs.simps using Cons.prems by (intro Cons.IH) (auto intro!: record_fold)
qed simp

text \<open>
  Planning and architecture leave no gap: in the report built from the plan and the
  architecture of a specification, the requirements are completely traced exactly when each
  has tests and code, and all the code exists on disk.
\<close>
theorem trace_needs_only_work:
  assumes "planner_plan lower spec = Inr p"
  shows "tr_complete (build_trace (trace_inputs spec p (design rules spec p) tests code findings deployment on_disk)) \<longleftrightarrow>
    (\<forall>fr \<in> set (ms_requirements spec). get_list tests (fr_id fr) \<noteq> [] \<and> get_list code (fr_id fr) \<noteq> []
       \<and> list_all on_disk (get_list code (fr_id fr)))"
proof -
  let ?a = "trace_inputs spec p (design rules spec p) tests code findings deployment on_disk"
  have tasks: "ep_tasks p = all_tasks spec" using plan_tasks [of lower spec] assms by auto
  have "traceable ?a (fr_id fr) \<longleftrightarrow> get_list tests (fr_id fr) \<noteq> [] \<and> get_list code (fr_id fr) \<noteq> []
       \<and> list_all on_disk (get_list code (fr_id fr))" if fr: "fr \<in> set (ms_requirements spec)" for fr
  proof -
    obtain t where "t \<in> set (ep_tasks p)" "fr_id fr \<in> set (pt_requirements t)"
      using test_task [of spec] fr unfolding tasks by fastforce
    then have task: "list_ex (\<lambda>t. fr_id fr \<in> set (pt_requirements t)) (ta_plan ?a)"
      by (auto simp: trace_inputs_def list_ex_iff)
    have "has_entry (put_adrs (adrs_for spec) []) (fr_id fr)"
      using fr by (intro record_adrs) (simp add: adrs_for_def)
    then have "get_list (ta_adrs ?a) (fr_id fr) \<noteq> []"
      by (auto simp: trace_inputs_def design_def Let_def get_list_def has_entry_def)
    with task show ?thesis by (simp add: traceable_def) (simp add: trace_inputs_def)
  qed
  then show ?thesis unfolding trace_complete by (simp add: trace_inputs_def)
qed

theorem trace_needs_only_work_witness:
  "\<exists>p. planner_plan id demo_spec = Inr p \<and> tr_complete (build_trace (trace_inputs demo_spec p (design default_rules demo_spec p)
     [''FR-001'' \<mapsto> [''t'']] [''FR-001'' \<mapsto> [''c'']] [] None (\<lambda>_. True)))"
proof -
  obtain p where p: "planner_plan id demo_spec = Inr p" using plan_tasks by blast
  show ?thesis
    using trace_needs_only_work [OF p, of default_rules "[''FR-001'' \<mapsto> [''t'']]" "[''FR-001'' \<mapsto> [''c'']]" "[]" None "\<lambda>_. True"] p
    by (simp add: demo_spec_def get_list_def)
qed

end
