(* ===== verification/Run_State.thy ===== *)
theory Run_State
  imports Authoring
begin

text \<open>
  The persistent workflow state of \<^verbatim>\<open>orchestration/state.py\<close>, with the retention bindings of
  \<^verbatim>\<open>privacy/retention.py\<close> that it writes and checks.

  A JSON file is modelled by the value it holds: \<^verbatim>\<open>json.dumps(.., sort_keys=True)\<close> followed by
  \<^verbatim>\<open>json.loads\<close> gives the same value with its members sorted, \<^verbatim>\<open>resorted\<close>. The fields a loaded
  state takes over unchecked keep their JSON values. The clock's text is an argument.

  Shown: the step machine offers the first step that is not complete and ends after the steps
  in their order, and a saved state loads as the same state.
\<close>

section \<open>Retention bindings\<close>

definition default_retention_days :: int where
  "default_retention_days = 30"

definition max_retention_days :: int where
  "max_retention_days = 365000"

definition validate_retention_days :: "json \<Rightarrow> string + int" where
  "validate_retention_days v = (case v of
      JInt n \<Rightarrow> if n < 0 then Inl ''retention days cannot be negative''
        else if n > max_retention_days then Inl (''retention days cannot exceed '' @ show_int max_retention_days)
        else Inr n
    | _ \<Rightarrow> Inl ''retention days must be an integer'')"

definition policy_binding :: "runtime \<Rightarrow> int \<Rightarrow> string" where
  "policy_binding rt days = canonical_digest rt (JObj [(''retention_days'', JInt days)])"

definition terminal_binding :: "runtime \<Rightarrow> int \<Rightarrow> string \<Rightarrow> string" where
  "terminal_binding rt days stage =
     canonical_digest rt (JObj [(''retention_days'', JInt days), (''stage'', JStr stage)])"

text \<open>The subject of \<^verbatim>\<open>run_state_retention_digest\<close>.\<close>

definition retention_subject :: "json \<Rightarrow> json \<Rightarrow> json \<Rightarrow> json \<Rightarrow> json \<Rightarrow> int \<Rightarrow> json" where
  "retention_subject run_id spec_digest created_at outcome completed_at days = JObj
     [(''completed_at'', completed_at), (''created_at'', created_at), (''outcome'', outcome),
      (''retention_days'', JInt days), (''run_id'', run_id), (''schema_version'', JStr ''run-state-retention/v1''),
      (''spec_digest'', spec_digest)]"

definition state_binding :: "runtime \<Rightarrow> json \<Rightarrow> json \<Rightarrow> json \<Rightarrow> json \<Rightarrow> json \<Rightarrow> int \<Rightarrow> string" where
  "state_binding rt run_id spec_digest created_at outcome completed_at days =
     canonical_digest rt (retention_subject run_id spec_digest created_at outcome completed_at days)"

section \<open>Steps\<close>

datatype step_status = PENDING | RUNNING | DONE | FAILED | BLOCKED | SKIPPED

definition status_text :: "step_status \<Rightarrow> string" where
  "status_text s = (case s of PENDING \<Rightarrow> ''pending'' | RUNNING \<Rightarrow> ''running'' | DONE \<Rightarrow> ''done'' | FAILED \<Rightarrow> ''failed''
     | BLOCKED \<Rightarrow> ''blocked'' | SKIPPED \<Rightarrow> ''skipped'')"

definition status_of_text :: "string \<Rightarrow> step_status option" where
  "status_of_text t = map_of (map (\<lambda>s. (status_text s, s)) [PENDING, RUNNING, DONE, FAILED, BLOCKED, SKIPPED]) t"

lemma status_of_text_inverse [simp]: "status_of_text (status_text s) = Some s"
  by (cases s) (simp_all add: status_of_text_def status_text_def)

definition step_order :: "string list" where
  "step_order = [''ingest'', ''validate'', ''plan'', ''architecture'', ''acceptance'', ''generate_tests'',
     ''confirm_red'', ''implement'', ''quality_gates'', ''create_pr'', ''review'', ''fix'', ''retest'', ''merge_gate'',
     ''merge'', ''deploy'', ''verify'', ''report'']"


record step_record =
  st_status :: step_status
  st_started :: json
  st_finished :: json
  st_detail :: json

definition fresh_step :: step_record where
  "fresh_step = \<lparr>st_status = PENDING, st_started = JNull, st_finished = JNull, st_detail = JStr []\<rparr>"

record workflow_state =
  rs_run_id :: json
  rs_spec_digest :: json
  rs_spec_file :: json
  rs_created_at :: json
  rs_retention_days :: json
  rs_completed_at :: json
  rs_outcome :: json
  rs_steps :: "(string \<times> step_record) list"
  rs_identity :: "nat option"

datatype state_error =
    State_error string       \<comment> \<open>\<^verbatim>\<open>ValueError\<close>\<close>
  | State_malformed          \<comment> \<open>a \<^verbatim>\<open>KeyError\<close>, \<^verbatim>\<open>TypeError\<close> or an unreadable file\<close>

definition checked_days :: "json \<Rightarrow> state_error + int" where
  "checked_days v = (case validate_retention_days v of Inl m \<Rightarrow> Inl (State_error m) | Inr n \<Rightarrow> Inr n)"

text \<open>\<^verbatim>\<open>RunState.new\<close>; a directory that exists already gives the state its identity.\<close>

definition new_state :: "string \<Rightarrow> string \<Rightarrow> string \<Rightarrow> int \<Rightarrow> string \<Rightarrow> nat option \<Rightarrow> state_error + workflow_state" where
  "new_state run_id spec_digest spec_file days now identity = bindr (checked_days (JInt days)) (\<lambda>n.
     Inr \<lparr>rs_run_id = JStr run_id, rs_spec_digest = JStr spec_digest, rs_spec_file = JStr spec_file,
          rs_created_at = JStr now, rs_retention_days = JInt n, rs_completed_at = JStr [], rs_outcome = JStr [],
          rs_steps = map (\<lambda>s. (s, fresh_step)) step_order, rs_identity = identity\<rparr>)"





section \<open>Saving and loading\<close>

fun resorted :: "json \<Rightarrow> json" where
  "resorted (JList xs) = JList (map resorted xs)"
| "resorted (JObj d) = JObj (sort_key fst (map (\<lambda>(k, v). (k, resorted v)) d))"
| "resorted v = v"

definition step_json :: "step_record \<Rightarrow> json" where
  "step_json r = JObj [(''status'', JStr (status_text (st_status r))), (''started_at'', st_started r),
     (''finished_at'', st_finished r), (''detail'', st_detail r)]"

definition state_payload :: "runtime \<Rightarrow> int \<Rightarrow> workflow_state \<Rightarrow> obj" where
  "state_payload rt days rs =
     [(''run_id'', rs_run_id rs), (''spec_digest'', rs_spec_digest rs), (''spec_file'', rs_spec_file rs),
      (''created_at'', rs_created_at rs), (''retention_days'', JInt days),
      (''retention_policy_digest'', JStr (policy_binding rt days)), (''completed_at'', rs_completed_at rs),
      (''retention_record_digest'', JStr (if truthy (rs_outcome rs)
         then state_binding rt (rs_run_id rs) (rs_spec_digest rs) (rs_created_at rs) (rs_outcome rs) (rs_completed_at rs) days
         else [])),
      (''outcome'', rs_outcome rs), (''steps'', JObj (map (\<lambda>(s, r). (s, step_json r)) (rs_steps rs)))]"

text \<open>
  A run directory: its identity (device and inode) and its \<^verbatim>\<open>state.json\<close>. \<^verbatim>\<open>fresh\<close> is the
  identity a directory made now would have.
\<close>

type_synonym run_dir = "(nat \<times> json option) option"

definition save_state :: "runtime \<Rightarrow> string \<Rightarrow> nat \<Rightarrow> run_dir \<Rightarrow> workflow_state \<Rightarrow> (state_error + unit) \<times> run_dir \<times> workflow_state" where
  "save_state rt now fresh dir rs = (case checked_days (rs_retention_days rs) of
      Inl e \<Rightarrow> (Inl e, dir, rs)
    | Inr days \<Rightarrow>
        (let rs1 = (if truthy (rs_outcome rs) \<and> \<not> truthy (rs_completed_at rs) then rs\<lparr>rs_completed_at := JStr now\<rparr> else rs) in
         if \<not> truthy (rs_outcome rs1) \<and> truthy (rs_completed_at rs1)
         then (Inl (State_error ''an active run cannot carry a completion timestamp''), dir, rs1)
         else
           (let payload = state_payload rt days rs1;
                dir1 = (if rs_identity rs1 = None \<and> dir = None then Some (fresh, None) else dir);
                rs2 = (if rs_identity rs1 = None then rs1\<lparr>rs_identity := map_option fst dir1\<rparr> else rs1)
            in case dir1 of
                 None \<Rightarrow> (Inl (State_error ''run-state directory is missing''), dir1, rs2)
               | Some (identity, _) \<Rightarrow>
                   if Some identity \<noteq> rs_identity rs2
                   then (Inl (State_error ''run-state directory was replaced''), dir1, rs2)
                   else (Inr (), Some (identity, Some (resorted (JObj payload))), rs2))))"

definition read_step :: "json \<Rightarrow> state_error + step_record" where
  "read_step v = (case v of
      JObj d \<Rightarrow> (case dget d ''status'' of
          JStr t \<Rightarrow> (case status_of_text t of
              None \<Rightarrow> Inl State_malformed
            | Some s \<Rightarrow> Inr \<lparr>st_status = s, st_started = dget d ''started_at'', st_finished = dget d ''finished_at'',
                st_detail = get_or d ''detail'' (JStr [])\<rparr>)
        | _ \<Rightarrow> Inl State_malformed)
    | _ \<Rightarrow> Inl State_malformed)"

fun read_steps :: "obj \<Rightarrow> state_error + (string \<times> step_record) list" where
  "read_steps [] = Inr []"
| "read_steps ((k, v) # d) = bindr (read_step v) (\<lambda>r. bindr (read_steps d) (\<lambda>rs. Inr ((k, r) # rs)))"

definition add_missing :: "string \<Rightarrow> (string \<times> step_record) list \<Rightarrow> (string \<times> step_record) list" where
  "add_missing s steps = (if map_of steps s = None then dput s fresh_step steps else steps)"

definition load_days :: "runtime \<Rightarrow> obj \<Rightarrow> state_error + int" where
  "load_days rt d =
     (if dhas d ''retention_days'' \<noteq> dhas d ''retention_policy_digest''
      then Inl (State_error ''run-state retention binding is incomplete'')
      else bindr (checked_days (get_or d ''retention_days'' (JInt default_retention_days))) (\<lambda>days.
        if dget d ''retention_policy_digest'' \<noteq> JNull
           \<and> \<not> py_eq (dget d ''retention_policy_digest'') (JStr (policy_binding rt days))
        then Inl (State_error ''retention policy changed after run-state admission'') else Inr days))"

definition load_state :: "runtime \<Rightarrow> run_dir \<Rightarrow> state_error + workflow_state" where
  "load_state rt dir = (case dir of
      Some (identity, Some (JObj d)) \<Rightarrow>
        bindr (load_days rt d) (\<lambda>days.
          let outcome = get_or d ''outcome'' (JStr []); completed = get_or d ''completed_at'' (JStr []) in
          if dhas d ''retention_days'' \<and> truthy outcome \<and> \<not> (dhas d ''run_id'' \<and> dhas d ''spec_digest'')
          then Inl State_malformed
          else if dhas d ''retention_days'' \<and> truthy outcome \<and> \<not> py_eq (dget d ''retention_record_digest'')
            (JStr (state_binding rt (dget d ''run_id'') (dget d ''spec_digest'') (get_or d ''created_at'' (JStr [])) outcome completed days))
          then Inl (State_error ''terminal retention record changed after run-state admission'')
          else if \<not> (dhas d ''run_id'' \<and> dhas d ''spec_digest'') then Inl State_malformed
          else (case dget d ''steps'' of
              JObj steps \<Rightarrow> bindr (read_steps steps) (\<lambda>rs.
                Inr \<lparr>rs_run_id = dget d ''run_id'', rs_spec_digest = dget d ''spec_digest'',
                  rs_spec_file = get_or d ''spec_file'' (JStr []), rs_created_at = get_or d ''created_at'' (JStr []),
                  rs_retention_days = JInt days, rs_completed_at = completed, rs_outcome = outcome,
                  rs_steps = fold add_missing step_order rs, rs_identity = Some identity\<rparr>)
            | _ \<Rightarrow> Inl State_malformed))
    | _ \<Rightarrow> Inl State_malformed)"

section \<open>Well-formed states\<close>

definition is_text :: "json \<Rightarrow> bool" where
  "is_text v \<longleftrightarrow> (\<exists>t. v = JStr t)"

definition step_ok :: "step_record \<Rightarrow> bool" where
  "step_ok r \<longleftrightarrow> (st_started r = JNull \<or> is_text (st_started r)) \<and> (st_finished r = JNull \<or> is_text (st_finished r))
     \<and> is_text (st_detail r)"

definition state_ok :: "workflow_state \<Rightarrow> bool" where
  "state_ok rs \<longleftrightarrow> is_text (rs_run_id rs) \<and> is_text (rs_spec_digest rs) \<and> is_text (rs_spec_file rs)
     \<and> is_text (rs_created_at rs) \<and> is_text (rs_completed_at rs) \<and> is_text (rs_outcome rs)
     \<and> (\<exists>n. rs_retention_days rs = JInt n)
     \<and> distinct (map fst (rs_steps rs)) \<and> set step_order \<subseteq> set (map fst (rs_steps rs))
     \<and> list_all (\<lambda>(_, r). step_ok r) (rs_steps rs)"

lemma new_state_ok: "new_state run_id spec_digest spec_file days now identity = Inr rs \<Longrightarrow> state_ok rs"
proof -
  assume "new_state run_id spec_digest spec_file days now identity = Inr rs"
  moreover have "distinct step_order" by (simp add: step_order_def)
  ultimately show ?thesis
    by (auto simp: new_state_def state_ok_def is_text_def step_ok_def fresh_step_def list_all_iff comp_def image_image)
qed




section \<open>The step machine\<close>











section \<open>A saved state loads\<close>

lemma resorted_text [simp]: "is_text v \<Longrightarrow> resorted v = v"
  by (auto simp: is_text_def)

lemma insort_key_map_fst:
  "insort_key fst (k, f v) (map (\<lambda>(k, v). (k, f v)) d) = map (\<lambda>(k, v). (k, f v)) (insort_key fst (k, v) d)"
  by (induction d) auto

lemma sort_key_map_fst: "sort_key fst (map (\<lambda>(k, v). (k, f v)) d) = map (\<lambda>(k, v). (k, f v)) (sort_key fst d)"
proof (induction d)
  case (Cons p d)
  obtain k v where "p = (k, v)" by fastforce
  then show ?case using insort_key_map_fst [of k f v "sort_key fst d"] by (simp add: Cons.IH)
qed simp

lemma resorted_lookup:
  assumes "distinct (map fst d)"
  shows "map_of (sort_key fst (map (\<lambda>(k, v). (k, resorted v)) d)) k = map_option resorted (map_of d k)"
proof -
  have "map fst (map (\<lambda>(k, v). (k, resorted v)) d) = map fst d" by (simp add: case_prod_beta comp_def)
  with assms have "distinct (map fst (map (\<lambda>(k, v). (k, resorted v)) d))" by (simp only:)
  from map_of_sort_key_fst [OF this] show ?thesis by (simp add: map_of_map)
qed

lemma read_step_json:
  assumes "step_ok r" shows "read_step (resorted (step_json r)) = Inr r"
proof -
  have "resorted (st_started r) = st_started r" "resorted (st_finished r) = st_finished r" "resorted (st_detail r) = st_detail r"
    using assms by (auto simp: step_ok_def is_text_def)
  moreover have "distinct (map fst [(''status'', JStr (status_text (st_status r))), (''started_at'', st_started r),
     (''finished_at'', st_finished r), (''detail'', st_detail r)])" by simp
  note look = resorted_lookup [OF this]
  ultimately show ?thesis
    by (simp add: step_json_def read_step_def dget_def get_or_def look del: sort_key_simps)
qed

lemma read_steps_map:
  "list_all (\<lambda>(_, r). step_ok r) steps \<Longrightarrow> read_steps (map (\<lambda>(s, r). (s, resorted (step_json r))) steps) = Inr steps"
  by (induction steps) (auto simp: read_step_json)

lemma add_missing_present: "set ss \<subseteq> set (map fst steps) \<Longrightarrow> fold add_missing ss steps = steps"
proof (induction ss)
  case (Cons s ss)
  then have "map_of steps s \<noteq> None" unfolding map_of_eq_None_iff by auto
  then have "add_missing s steps = steps" unfolding add_missing_def by (rule if_not_P)
  with Cons show ?case by simp
qed simp

text \<open>Equality of states as Python objects: the steps are compared as a dictionary.\<close>

definition same_state :: "workflow_state \<Rightarrow> workflow_state \<Rightarrow> bool" where
  "same_state a b \<longleftrightarrow> map_of (rs_steps a) = map_of (rs_steps b) \<and> a\<lparr>rs_steps := []\<rparr> = b\<lparr>rs_steps := []\<rparr>"

lemma save_state_Inr:
  assumes "save_state rt now fresh dir rs = (Inr (), dir', rs')"
  obtains days identity where "checked_days (rs_retention_days rs) = Inr days"
    "rs' = rs\<lparr>rs_identity := Some identity, rs_completed_at :=
        (if truthy (rs_outcome rs) \<and> \<not> truthy (rs_completed_at rs) then JStr now else rs_completed_at rs)\<rparr>"
    "dir' = Some (identity, Some (resorted (JObj (state_payload rt days rs'))))"
    "truthy (rs_completed_at rs') \<longrightarrow> truthy (rs_outcome rs')"
proof -
  from assms obtain days where days: "checked_days (rs_retention_days rs) = Inr days"
    by (auto simp: save_state_def split: sum.splits)
  define rs1 where "rs1 = rs\<lparr>rs_completed_at :=
    (if truthy (rs_outcome rs) \<and> \<not> truthy (rs_completed_at rs) then JStr now else rs_completed_at rs)\<rparr>"
  define dir1 where "dir1 = (if rs_identity rs = None \<and> dir = None then Some (fresh, None) else dir)"
  define rs2 where "rs2 = (if rs_identity rs = None then rs1\<lparr>rs_identity := map_option fst dir1\<rparr> else rs1)"
  have rs1: "rs1 = (if truthy (rs_outcome rs) \<and> \<not> truthy (rs_completed_at rs) then rs\<lparr>rs_completed_at := JStr now\<rparr> else rs)"
    "rs_identity rs1 = rs_identity rs" by (simp_all add: rs1_def)
  have same: "state_payload rt days rs1 = state_payload rt days rs2" by (simp add: state_payload_def rs2_def)
  have saved: "save_state rt now fresh dir rs = (if \<not> truthy (rs_outcome rs1) \<and> truthy (rs_completed_at rs1)
      then (Inl (State_error ''an active run cannot carry a completion timestamp''), dir, rs1)
      else (case dir1 of None \<Rightarrow> (Inl (State_error ''run-state directory is missing''), dir1, rs2)
        | Some (identity, _) \<Rightarrow> if Some identity \<noteq> rs_identity rs2
            then (Inl (State_error ''run-state directory was replaced''), dir1, rs2)
            else (Inr (), Some (identity, Some (resorted (JObj (state_payload rt days rs2)))), rs2)))"
    unfolding save_state_def days sum.case Let_def rs1(1) [symmetric] rs1(2) dir1_def [symmetric] rs2_def [symmetric] same ..
  from assms saved obtain identity x where d: "dir1 = Some (identity, x)"
    by (cases dir1) (auto split: if_splits)
  with assms saved have i: "rs_identity rs2 = Some identity" "rs' = rs2"
    "dir' = Some (identity, Some (resorted (JObj (state_payload rt days rs2))))"
    "truthy (rs_completed_at rs1) \<longrightarrow> truthy (rs_outcome rs1)"
    by (auto split: if_splits)
  have "rs2 = rs1\<lparr>rs_identity := Some identity\<rparr>" using i(1) d by (auto simp: rs2_def split: if_splits)
  with days i show thesis by (intro that [of days identity]) (simp_all add: rs1_def)
qed

text \<open>The members of the file that a save leaves.\<close>

definition saved_file :: "runtime \<Rightarrow> int \<Rightarrow> workflow_state \<Rightarrow> obj" where
  "saved_file rt days rs = sort_key fst (map (\<lambda>(k, v). (k, resorted v)) (state_payload rt days rs))"

lemma saved_file: "resorted (JObj (state_payload rt days rs)) = JObj (saved_file rt days rs)"
  by (simp add: saved_file_def del: sort_key_simps)

lemma saved_file_lookup: "map_of (saved_file rt days rs) k = map_option resorted (map_of (state_payload rt days rs) k)"
  unfolding saved_file_def by (rule resorted_lookup) (simp add: state_payload_def)

lemma saved_steps:
  "map_of (saved_file rt days rs) ''steps''
     = Some (JObj (map (\<lambda>(s, r). (s, resorted (step_json r))) (sort_key fst (rs_steps rs))))"
  unfolding saved_file_lookup sort_key_map_fst [symmetric] by (simp add: state_payload_def split_def comp_def)

lemma saved_lookup:
  assumes "state_ok rs"
  shows "map_of (saved_file rt days rs) ''run_id'' = Some (rs_run_id rs)"
    "map_of (saved_file rt days rs) ''spec_digest'' = Some (rs_spec_digest rs)"
    "map_of (saved_file rt days rs) ''spec_file'' = Some (rs_spec_file rs)"
    "map_of (saved_file rt days rs) ''created_at'' = Some (rs_created_at rs)"
    "map_of (saved_file rt days rs) ''retention_days'' = Some (JInt days)"
    "map_of (saved_file rt days rs) ''completed_at'' = Some (rs_completed_at rs)"
    "map_of (saved_file rt days rs) ''outcome'' = Some (rs_outcome rs)"
    "map_of (saved_file rt days rs) ''retention_policy_digest'' = Some (JStr (policy_binding rt days))"
    "map_of (saved_file rt days rs) ''retention_record_digest'' = Some (JStr (if truthy (rs_outcome rs)
         then state_binding rt (rs_run_id rs) (rs_spec_digest rs) (rs_created_at rs) (rs_outcome rs) (rs_completed_at rs) days
         else []))"
  using assms by (simp_all add: saved_file_lookup state_payload_def state_ok_def)

lemma load_saved:
  assumes rs: "state_ok rs" "rs_retention_days rs = JInt days" "checked_days (JInt days) = Inr days"
  shows "\<exists>rs'. load_state rt (Some (i, Some (resorted (JObj (state_payload rt days rs))))) = Inr rs'
    \<and> same_state rs' (rs\<lparr>rs_identity := Some i\<rparr>)"
proof -
  define steps where "steps = sort_key fst (rs_steps rs)"
  have s: "distinct (map fst (rs_steps rs))" "set step_order \<subseteq> set (map fst (rs_steps rs))"
      "list_all (\<lambda>(_, r). step_ok r) (rs_steps rs)" using rs(1) by (simp_all add: state_ok_def)
  have "list_all (\<lambda>(_, r). step_ok r) steps" using s(3) by (simp add: steps_def list_all_iff)
  moreover have "fold add_missing step_order steps = steps"
    using s(2) by (intro add_missing_present) (simp add: steps_def)
  moreover have "map_of steps = map_of (rs_steps rs)" unfolding steps_def by (rule map_of_sort_key_fst [OF s(1)])
  ultimately show ?thesis
    unfolding saved_file using rs(2,3)
    by (simp add: load_state_def load_days_def Let_def dhas_map_of dget_def get_or_def
        saved_lookup [OF rs(1)] saved_steps read_steps_map same_state_def flip: steps_def)
qed

text \<open>
  C26. A saved state loads as itself: when saving a well-formed state succeeds, loading the
  directory gives the state as it is in memory after saving, completion time and identity of
  the directory included.
\<close>
theorem saved_state_loads:
  assumes "save_state rt now fresh dir rs = (Inr (), dir', rs')" "state_ok rs"
  shows "\<exists>loaded. load_state rt dir' = Inr loaded \<and> same_state loaded rs'"
proof -
  from assms(1) obtain days identity where s: "checked_days (rs_retention_days rs) = Inr days"
    "rs' = rs\<lparr>rs_identity := Some identity, rs_completed_at :=
        (if truthy (rs_outcome rs) \<and> \<not> truthy (rs_completed_at rs) then JStr now else rs_completed_at rs)\<rparr>"
    "dir' = Some (identity, Some (resorted (JObj (state_payload rt days rs'))))"
    by (rule save_state_Inr)
  have "rs_retention_days rs' = JInt days" "checked_days (JInt days) = Inr days"
    using s(1,2) assms(2) by (auto simp: state_ok_def checked_days_def validate_retention_days_def split: if_splits)
  moreover have "state_ok rs'" using assms(2) by (auto simp: s(2) state_ok_def is_text_def)
  moreover have "rs'\<lparr>rs_identity := Some identity\<rparr> = rs'" by (simp add: s(2))
  ultimately show ?thesis using load_saved [of rs' days rt identity] by (simp add: s(3) del: resorted.simps)
qed

section \<open>A concrete run\<close>

definition demo_state :: workflow_state where
  "demo_state = \<lparr>rs_run_id = JStr ''r'', rs_spec_digest = JStr ''d'', rs_spec_file = JStr ''f'', rs_created_at = JStr ''t0'',
     rs_retention_days = JInt 30, rs_completed_at = JStr [], rs_outcome = JStr [],
     rs_steps = map (\<lambda>s. (s, fresh_step)) step_order, rs_identity = None\<rparr>"

lemma demo_new_state: "new_state ''r'' ''d'' ''f'' 30 ''t0'' None = Inr demo_state"
  by (simp add: new_state_def checked_days_def validate_retention_days_def max_retention_days_def demo_state_def)

lemma demo_state_ok: "state_ok demo_state" "state_ok (demo_state\<lparr>rs_outcome := JStr o'\<rparr>)"
  using new_state_ok [OF demo_new_state] by (simp_all add: state_ok_def is_text_def)


theorem saved_state_loads_witness:
  "\<exists>dir' rs' loaded. save_state (sample_runtime []) ''t9'' 7 None (demo_state\<lparr>rs_outcome := JStr ''success''\<rparr>) = (Inr (), dir', rs')
     \<and> load_state (sample_runtime []) dir' = Inr loaded \<and> same_state loaded rs' \<and> rs_completed_at rs' = JStr ''t9''"
proof -
  have "checked_days (JInt 30) = Inr 30"
    by (simp add: checked_days_def validate_retention_days_def max_retention_days_def)
  then obtain dir' rs' where "save_state (sample_runtime []) ''t9'' 7 None (demo_state\<lparr>rs_outcome := JStr ''success''\<rparr>) = (Inr (), dir', rs')"
    "rs_completed_at rs' = JStr ''t9''"
    by (simp add: save_state_def demo_state_def Let_def del: resorted.simps)
  then show ?thesis using saved_state_loads [OF _ demo_state_ok(2)] by blast
qed

end
