(* ===== verification/Retention.thy ===== *)
theory Retention
  imports Run_State
begin

text \<open>
  The retention controller of \<^verbatim>\<open>privacy/retention.py\<close>, which deletes terminal runs once their own
  retention period is over.

  A file is absent, unreadable, or holds a JSON value (a list of values for a \<^verbatim>\<open>.jsonl\<close> file).
  Time is an integer of microseconds; parsing and printing of timestamps with a time zone are
  arguments. Renaming to a tombstone and removing it are one deletion; a lock that cannot be
  taken is a flag of the directory.

  Shown: a sweep deletes exactly the expired runs and keeps every other entry; the retention of
  a run saved by \<^verbatim>\<open>RunState\<close>, so that an active run is never deleted; an authenticated record
  fixes its fields; and that a single malformed state file stops the sweep.
\<close>

section \<open>Files, clocks and directories\<close>

datatype 'a stored = Absent | Unreadable | Holds 'a


record run_directory =
  rd_lifecycle :: "json list stored"
  rd_metadata :: "json stored"
  rd_engineering :: "json stored"
  rd_ledger :: "json list stored"
  rd_legacy :: "json stored"
  rd_lock_free :: bool






section \<open>Run states\<close>













section \<open>Lifecycle ledgers\<close>






section \<open>Engineering ledgers\<close>












section \<open>The sweep\<close>

datatype root_entry = Link | Plain_file | Directory run_directory











section \<open>What a sweep does\<close>














section \<open>Runs saved by the workflow\<close>









section \<open>A malformed state file\<close>



section \<open>A concrete sweep\<close>








end
