(* ===== verification/Lifecycle_Policy.thy ===== *)
theory Lifecycle_Policy
  imports Canonical
begin

text \<open>
  The lifecycle states and the transition policy of \<^verbatim>\<open>orchestration/lifecycle.py\<close>: the rule
  builder, the table of rules, the rules derived for drift, lost authority and resumption, and
  the two versions of the policy. Guards are names; what they check is in \<^verbatim>\<open>Lifecycle\<close>.

  Shown: no rule is listed twice; the stages of a delivery come in order; every stop leads to a
  state from which a rule resumes.
\<close>

section \<open>Digests of the control plane\<close>

text \<open>
  \<^verbatim>\<open>json.dumps(v, sort_keys=True, separators=(",", ":"))\<close> with ASCII escapes. A string of the
  model is UTF-8, so decoding it gives its code points.
\<close>

definition escape_unit :: "nat \<Rightarrow> string" where
  "escape_unit n = CHR 0x5C # CHR ''u'' # hex_digits 4 n"

definition escape_point :: "nat \<Rightarrow> string" where
  "escape_point n =
     (if n = 34 then [CHR 0x5C, CHR 0x22] else if n = 92 then [CHR 0x5C, CHR 0x5C]
      else if n = 10 then [CHR 0x5C, CHR ''n''] else if n = 13 then [CHR 0x5C, CHR ''r'']
      else if n = 9 then [CHR 0x5C, CHR ''t''] else if n = 12 then [CHR 0x5C, CHR ''f'']
      else if n = 8 then [CHR 0x5C, CHR ''b''] else if 32 \<le> n \<and> n \<le> 126 then [char_of n]
      else if n < 65536 then escape_unit n
      else escape_unit (55296 + (n - 65536) div 1024) @ escape_unit (56320 + (n - 65536) mod 1024))"

definition json_string :: "string \<Rightarrow> string" where
  "json_string s = CHR 0x22 # concat (map escape_point (case utf8_decode s of None \<Rightarrow> [] | Some ps \<Rightarrow> ps)) @ [CHR 0x22]"

fun json_text :: "runtime \<Rightarrow> json \<Rightarrow> string" where
  "json_text rt JNull = ''null''"
| "json_text rt (JBool b) = (if b then ''true'' else ''false'')"
| "json_text rt (JInt n) = show_int n"
| "json_text rt (JFloat r) = rt_repr rt (JFloat r)"
| "json_text rt (JStr s) = json_string s"
| "json_text rt (JList xs) = ''['' @ join '','' (map (json_text rt) xs) @ '']''"
| "json_text rt (JObj d) = ''{'' @ join '',''
     (map (\<lambda>(k, s). json_string k @ '':'' @ s) (sort_key fst (map (\<lambda>(k, v). (k, json_text rt v)) d))) @ ''}''"

definition lc_digest :: "runtime \<Rightarrow> json \<Rightarrow> string" where
  "lc_digest rt v = sha256_digest rt (json_text rt v)"

section \<open>States and rules\<close>

datatype lifecycle_state =
    CONTRACT_RECEIVED | CONTRACT_INVALID | PRODUCT_INPUT_REQUIRED | CONTRACT_APPROVED | REPOSITORY_ANALYSED |
    ARCHITECTURE_PROPOSED | ARCHITECTURE_APPROVED | TEST_PLAN_CREATED | TEST_PLAN_VALIDATED |
    IMPLEMENTATION_PLANNED | DRAFT_PR_OPEN | IMPLEMENTATION_IN_PROGRESS | VERIFICATION_FAILED |
    REPAIR_IN_PROGRESS | REVIEW_REQUIRED | REVIEW_FAILED | PR_READY | PR_MERGED | STAGING_DEPLOYED |
    STAGING_FAILED | CANARY_DEPLOYED | CANARY_FAILED | PRODUCTION_APPROVAL_REQUIRED | PRODUCTION_DEPLOYED |
    LIVE_VERIFICATION_FAILED | ROLLBACK_IN_PROGRESS | ROLLED_BACK | BLOCKED | BUDGET_EXCEEDED | COMPLETED

fun state_text :: "lifecycle_state \<Rightarrow> string" where
  "state_text CONTRACT_RECEIVED = ''CONTRACT_RECEIVED''"
| "state_text CONTRACT_INVALID = ''CONTRACT_INVALID''"
| "state_text PRODUCT_INPUT_REQUIRED = ''PRODUCT_INPUT_REQUIRED''"
| "state_text CONTRACT_APPROVED = ''CONTRACT_APPROVED''"
| "state_text REPOSITORY_ANALYSED = ''REPOSITORY_ANALYSED''"
| "state_text ARCHITECTURE_PROPOSED = ''ARCHITECTURE_PROPOSED''"
| "state_text ARCHITECTURE_APPROVED = ''ARCHITECTURE_APPROVED''"
| "state_text TEST_PLAN_CREATED = ''TEST_PLAN_CREATED''"
| "state_text TEST_PLAN_VALIDATED = ''TEST_PLAN_VALIDATED''"
| "state_text IMPLEMENTATION_PLANNED = ''IMPLEMENTATION_PLANNED''"
| "state_text DRAFT_PR_OPEN = ''DRAFT_PR_OPEN''"
| "state_text IMPLEMENTATION_IN_PROGRESS = ''IMPLEMENTATION_IN_PROGRESS''"
| "state_text VERIFICATION_FAILED = ''VERIFICATION_FAILED''"
| "state_text REPAIR_IN_PROGRESS = ''REPAIR_IN_PROGRESS''"
| "state_text REVIEW_REQUIRED = ''REVIEW_REQUIRED''"
| "state_text REVIEW_FAILED = ''REVIEW_FAILED''"
| "state_text PR_READY = ''PR_READY''"
| "state_text PR_MERGED = ''PR_MERGED''"
| "state_text STAGING_DEPLOYED = ''STAGING_DEPLOYED''"
| "state_text STAGING_FAILED = ''STAGING_FAILED''"
| "state_text CANARY_DEPLOYED = ''CANARY_DEPLOYED''"
| "state_text CANARY_FAILED = ''CANARY_FAILED''"
| "state_text PRODUCTION_APPROVAL_REQUIRED = ''PRODUCTION_APPROVAL_REQUIRED''"
| "state_text PRODUCTION_DEPLOYED = ''PRODUCTION_DEPLOYED''"
| "state_text LIVE_VERIFICATION_FAILED = ''LIVE_VERIFICATION_FAILED''"
| "state_text ROLLBACK_IN_PROGRESS = ''ROLLBACK_IN_PROGRESS''"
| "state_text ROLLED_BACK = ''ROLLED_BACK''"
| "state_text BLOCKED = ''BLOCKED''"
| "state_text BUDGET_EXCEEDED = ''BUDGET_EXCEEDED''"
| "state_text COMPLETED = ''COMPLETED''"

record transition_rule =
  ru_source :: lifecycle_state
  ru_target :: lifecycle_state
  ru_reason :: string
  ru_evidence :: "string list"
  ru_guards :: "string list"
  ru_permission :: string
  ru_mutation :: "string option"

text \<open>\<^verbatim>\<open>tuple(dict.fromkeys(xs))\<close>: the first occurrences, in order.\<close>

definition uniq :: "'a list \<Rightarrow> 'a list" where
  "uniq xs = rev (remdups (rev xs))"

definition mutation_subject_fields :: "(string \<times> string list) list" where
  "mutation_subject_fields = [
     (''open_draft_pr'',
       [''subject_digest'', ''issue_digest'', ''branch_digest'', ''red_commit_digest'', ''draft_pr_digest'']),
     (''mark_pr_ready'',
       [''subject_digest'', ''reviewed_commit_sha'', ''prospective_tree_digest'', ''verification_bundle_digest'',
        ''review_digest'']),
     (''enqueue_merge'',
       [''subject_digest'', ''queue_subject_digest'', ''head_commit_sha'', ''head_digest'', ''base_digest'',
        ''prospective_tree_digest'', ''required_checks_digest'', ''formal_review_digest'',
        ''verification_bundle_digest'', ''merge_admission_bundle_digest'']),
     (''deploy_staging'',
       [''subject_digest'', ''merge_digest'', ''evidence_bundle_digest'', ''artifact_digest'',
        ''configuration_digest'', ''deployment_target_digest'', ''staging_authorization_digest'',
        ''finding_source_set_digest'', ''finding_inventory_epochs_digest'', ''authority_fence_digest'']),
     (''deploy_canary'',
       [''subject_digest'', ''merge_commit_sha'', ''merge_digest'', ''artifact_digest'', ''configuration_digest'',
        ''migration_plan_digest'', ''deployment_target_digest'', ''rollout_plan_digest'', ''staging_digest'',
        ''canary_authorization_digest'', ''canary_id_digest'', ''authority_fence_digest'']),
     (''deploy_production'',
       [''subject_digest'', ''merge_commit_sha'', ''merge_digest'', ''artifact_digest'', ''configuration_digest'',
        ''migration_plan_digest'', ''deployment_target_digest'', ''rollout_plan_digest'', ''staging_digest'',
        ''canary_id_digest'', ''canary_attempt_digest'', ''canary_status_digest'', ''authority_fence_digest'',
        ''production_approval_digest'']),
     (''convert_pr_to_draft'',
       [''subject_digest'', ''finding_digest'', ''ready_revocation_observation_digest'']),
     (''cleanup_staging'',
       [''subject_digest'', ''zero_resource_digest'']),
     (''rollback'',
       [''subject_digest'', ''failed_deployment_digest'', ''restoration_target_digest'', ''migration_plan_digest'']),
     (''teardown_canary'',
       [''subject_digest'', ''canary_teardown_digest'', ''zero_resource_digest''])]"

definition work_evidence :: "string list" where
  "work_evidence = [''work_disposition_digest'', ''worker_quiescence_digest'', ''mutation_revocation_digest'']"

definition guard_evidence :: "string list \<Rightarrow> string option \<Rightarrow> string list" where
  "guard_evidence guards mutation =
     (if ''drift'' \<in> set guards then work_evidence @ [''review_invalidation_digest''] else [])
     @ (if ''product_input'' \<in> set guards then work_evidence else [])
     @ (if ''budget_stop'' \<in> set guards then work_evidence else [])
     @ (if ''revoke_completion'' \<in> set guards
        then [''subject_digest'', ''monitor_identity_digest'', ''monitor_authentication_evidence_digest'',
          ''integrity_monitor_id'', ''integrity_monitor_authority_digest'',
          ''integrity_monitor_authentication_evidence_digest''] else [])
     @ (if mutation = Some ''rollback'' then the (map_of mutation_subject_fields ''rollback'') else [])"

definition rule_of ::
  "lifecycle_state \<Rightarrow> lifecycle_state \<Rightarrow> string \<Rightarrow> string list \<Rightarrow> string list \<Rightarrow> string option \<Rightarrow> transition_rule" where
  "rule_of source target reason evidence guards mutation =
     \<lparr>ru_source = source, ru_target = target, ru_reason = reason,
      ru_evidence = uniq (evidence @ guard_evidence guards mutation), ru_guards = guards,
      ru_permission = ''lifecycle.transition'', ru_mutation = mutation\<rparr>"

lemma rule_of_sel [simp]:
  "ru_source (rule_of s t r e g m) = s" "ru_target (rule_of s t r e g m) = t" "ru_reason (rule_of s t r e g m) = r"
  "ru_guards (rule_of s t r e g m) = g" "ru_permission (rule_of s t r e g m) = ''lifecycle.transition''"
  "ru_mutation (rule_of s t r e g m) = m"
  by (simp_all add: rule_of_def)

section \<open>The table\<close>

definition rules_1 :: "transition_rule list" where
  "rules_1 = [
     rule_of CONTRACT_RECEIVED CONTRACT_INVALID ''contract_rejected''
       [''intake_receipt_digest'', ''diagnostic_digest'', ''deletion_attestation_digest'']
       [] None,
     rule_of CONTRACT_RECEIVED BLOCKED ''quarantine_disposition_indeterminate''
       [''subject_digest'', ''intake_receipt_digest'', ''affected_artifact_digest'',
        ''quarantine_disposition_status'', ''quarantine_disposition_digest'', ''exposure_digest'',
        ''incident_digest'', ''worker_quiescence_digest'', ''mutation_revocation_digest'', ''retry_gate_digest'']
       [''security_incident_block''] None,
     rule_of CONTRACT_INVALID CONTRACT_RECEIVED ''corrected_contract''
       [''correction_receipt_digest'', ''lineage_digest'', ''disposition_digest'']
       [] None,
     rule_of CONTRACT_RECEIVED PRODUCT_INPUT_REQUIRED ''product_truth_missing''
       [''intake_receipt_digest'', ''diagnostic_digest'', ''input_request_digest'']
       [''safe_stop''] None,
     rule_of PRODUCT_INPUT_REQUIRED CONTRACT_RECEIVED ''superseding_contract''
       [''correction_receipt_digest'', ''approval_digest'', ''work_disposition_digest'']
       [] None,
     rule_of CONTRACT_RECEIVED CONTRACT_APPROVED ''contract_admitted''
       [''intake_receipt_digest'', ''contract_digest'', ''approval_digest'', ''admission_digest'']
       [''authority'', ''budget''] None,
     rule_of CONTRACT_APPROVED REPOSITORY_ANALYSED ''repository_admitted''
       [''contract_digest'', ''snapshot_digest'', ''governance_digest'']
       [''authority'', ''budget''] None,
     rule_of CONTRACT_APPROVED BLOCKED ''repository_unavailable''
       [''blocker_digest'', ''resume_gate_digest'']
       [''safe_stop''] None,
     rule_of REPOSITORY_ANALYSED ARCHITECTURE_PROPOSED ''architecture_compiled''
       [''snapshot_digest'', ''governance_digest'', ''architecture_pack_digest'']
       [''authority'', ''budget''] None,
     rule_of ARCHITECTURE_PROPOSED PRODUCT_INPUT_REQUIRED ''architecture_input_missing''
       [''architecture_attempt_digest'', ''input_request_digest'']
       [''safe_stop''] None,
     rule_of ARCHITECTURE_PROPOSED ARCHITECTURE_APPROVED ''architecture_approved''
       [''architecture_pack_digest'', ''engineering_approval_digest'']
       [''authority'', ''budget''] None,
     rule_of ARCHITECTURE_APPROVED TEST_PLAN_CREATED ''test_plan_compiled''
       [''architecture_pack_digest'', ''test_plan_digest'']
       [''authority'', ''budget''] None,
     rule_of ARCHITECTURE_APPROVED PRODUCT_INPUT_REQUIRED ''test_oracle_missing''
       [''compiler_diagnostic_digest'', ''input_request_digest'']
       [''safe_stop''] None,
     rule_of TEST_PLAN_CREATED TEST_PLAN_VALIDATED ''test_plan_validated''
       [''test_plan_digest'', ''coverage_matrix_digest'', ''meaningful_red_plan_digest'']
       [''authority'', ''budget''] None,
     rule_of TEST_PLAN_CREATED PRODUCT_INPUT_REQUIRED ''test_oracle_missing''
       [''unmapped_requirements_digest'', ''input_request_digest'']
       [''safe_stop''] None,
     rule_of TEST_PLAN_VALIDATED IMPLEMENTATION_PLANNED ''implementation_planned''
       [''test_plan_digest'', ''task_plan_digest'', ''atomic_scope_digest'']
       [''authority'', ''budget''] None,
     rule_of IMPLEMENTATION_PLANNED DRAFT_PR_OPEN ''draft_pr_admitted''
       [''governance_attempt_digest'', ''issue_digest'', ''branch_digest'', ''red_commit_digest'',
        ''draft_pr_digest'', ''governance_observation_digest'']
       [''authority'', ''budget'', ''mutation''] (Some ''open_draft_pr''),
     rule_of DRAFT_PR_OPEN IMPLEMENTATION_IN_PROGRESS ''begin_work''
       [''draft_pr_digest'', ''meaningful_red_digest'', ''budget_ledger_digest'', ''worktree_digest'']
       [''authority'', ''budget''] None]"

definition rules_2 :: "transition_rule list" where
  "rules_2 = [
     rule_of DRAFT_PR_OPEN BUDGET_EXCEEDED ''delivery_budget_exhausted''
       [''budget_ledger_digest'', ''zero_implementation_digest'', ''worktree_disposition_digest'',
        ''resume_gate_digest'']
       [''budget_stop''] None,
     rule_of DRAFT_PR_OPEN PRODUCT_INPUT_REQUIRED ''meaningful_red_needs_product_truth''
       [''meaningful_red_digest'', ''pre_code_tree_digest'', ''input_request_digest'']
       [''product_input''] None,
     rule_of IMPLEMENTATION_IN_PROGRESS VERIFICATION_FAILED ''candidate_ready_for_verification''
       [''candidate_digest'', ''test_execution_digest'']
       [''authority'', ''budget''] None,
     rule_of IMPLEMENTATION_IN_PROGRESS REVIEW_REQUIRED ''verification_passed''
       [''candidate_digest'', ''verification_bundle_digest'']
       [''authority'', ''budget''] None,
     rule_of IMPLEMENTATION_IN_PROGRESS BUDGET_EXCEEDED ''delivery_budget_exhausted''
       [''budget_ledger_digest'', ''worker_stop_digest'', ''partial_tree_digest'', ''worktree_disposition_digest'']
       [''budget_stop''] None,
     rule_of IMPLEMENTATION_IN_PROGRESS PRODUCT_INPUT_REQUIRED ''product_truth_missing''
       [''worker_stop_digest'', ''partial_tree_digest'', ''input_request_digest'']
       [''product_input''] None,
     rule_of VERIFICATION_FAILED REPAIR_IN_PROGRESS ''accepted_finding''
       [''finding_digest'', ''candidate_digest'', ''repair_scope_digest'']
       [''authority'', ''budget'', ''repair''] None,
     rule_of VERIFICATION_FAILED REVIEW_REQUIRED ''verification_rerun_passed''
       [''candidate_digest'', ''verification_bundle_digest'']
       [''authority'', ''budget''] None,
     rule_of VERIFICATION_FAILED BUDGET_EXCEEDED ''verification_budget_exhausted''
       [''budget_ledger_digest'', ''resume_gate_digest'']
       [''budget_stop''] None,
     rule_of VERIFICATION_FAILED PRODUCT_INPUT_REQUIRED ''product_truth_missing''
       [''verification_digest'', ''input_request_digest'']
       [''product_input''] None,
     rule_of VERIFICATION_FAILED BLOCKED ''verification_infrastructure_missing''
       [''blocker_digest'', ''safe_state_digest'']
       [''safe_stop''] None,
     rule_of REPAIR_IN_PROGRESS VERIFICATION_FAILED ''repair_candidate_ready''
       [''repair_digest'', ''candidate_digest'']
       [''authority'', ''budget''] None,
     rule_of REPAIR_IN_PROGRESS REVIEW_REQUIRED ''repair_verified''
       [''repair_digest'', ''verification_bundle_digest'']
       [''authority'', ''budget''] None,
     rule_of REPAIR_IN_PROGRESS BUDGET_EXCEEDED ''delivery_budget_exhausted''
       [''budget_ledger_digest'', ''worker_stop_digest'', ''partial_tree_digest'', ''worktree_disposition_digest'']
       [''budget_stop''] None,
     rule_of REPAIR_IN_PROGRESS PRODUCT_INPUT_REQUIRED ''product_truth_missing''
       [''worker_stop_digest'', ''repair_disposition_digest'', ''input_request_digest'']
       [''product_input''] None,
     rule_of REVIEW_REQUIRED PR_READY ''formal_review_clear''
       [''subject_digest'', ''review_digest'', ''verification_bundle_digest'', ''prospective_tree_digest'',
        ''reviewed_commit_sha'', ''ready_attempt_digest'', ''ready_result_digest'', ''ready_observation_digest'']
       [''authority'', ''budget'', ''review_clear'', ''mutation''] (Some ''mark_pr_ready''),
     rule_of REVIEW_REQUIRED REVIEW_FAILED ''blocking_finding''
       [''review_event_digest'', ''finding_digest'', ''ready_revocation_digest'']
       [''blocking_finding''] None]"

definition rules_3 :: "transition_rule list" where
  "rules_3 = [
     rule_of REVIEW_REQUIRED VERIFICATION_FAILED ''check_stale''
       [''check_event_digest'', ''candidate_digest'']
       [] None,
     rule_of REVIEW_REQUIRED IMPLEMENTATION_IN_PROGRESS ''head_changed''
       [''candidate_change_digest'', ''review_invalidation_digest'']
       [] None,
     rule_of REVIEW_REQUIRED REPOSITORY_ANALYSED ''repository_drift''
       [''drift_digest'', ''work_disposition_digest'', ''snapshot_digest'', ''governance_digest'']
       [''drift''] None,
     rule_of REVIEW_FAILED REPAIR_IN_PROGRESS ''accepted_finding''
       [''finding_digest'', ''candidate_digest'', ''repair_scope_digest'']
       [''authority'', ''budget'', ''repair''] None,
     rule_of REVIEW_FAILED REVIEW_REQUIRED ''finding_rejected_with_evidence''
       [''finding_digest'', ''finding_disposition_digest'', ''finding_disposition_source_id'',
        ''finding_disposition_authority_digest'', ''finding_disposition_authentication_evidence_digest'',
        ''candidate_digest'', ''verification_bundle_digest'']
       [''authority'', ''budget'', ''no_blocking_finding'', ''finding_disposition''] None,
     rule_of REVIEW_FAILED PRODUCT_INPUT_REQUIRED ''product_truth_missing''
       [''finding_digest'', ''input_request_digest'', ''candidate_disposition_digest'']
       [''product_input''] None,
     rule_of PR_READY PR_MERGED ''native_merge_linearized''
       [''queue_subject_digest'', ''head_commit_sha'', ''head_digest'', ''base_digest'', ''prospective_tree_digest'',
        ''required_checks_digest'', ''formal_review_digest'', ''verification_bundle_digest'',
        ''merge_attempt_digest'', ''merge_result_digest'', ''merge_commit_sha'', ''merge_tree_digest'',
        ''merge_method_digest'', ''merge_actor_digest'']
       [''authority'', ''budget'', ''mutation'', ''merge_binding''] (Some ''enqueue_merge''),
     rule_of PR_READY REVIEW_FAILED ''blocking_finding''
       [''review_event_digest'', ''finding_digest'', ''ready_revocation_attempt_digest'',
        ''ready_revocation_result_digest'', ''ready_revocation_observation_digest'']
       [''blocking_finding'', ''mutation''] (Some ''convert_pr_to_draft''),
     rule_of PR_READY VERIFICATION_FAILED ''required_check_invalidated''
       [''check_event_digest'', ''ready_revocation_digest'', ''approval_invalidation_digest'']
       [] None,
     rule_of PR_READY IMPLEMENTATION_IN_PROGRESS ''head_changed''
       [''head_change_digest'', ''ready_revocation_digest'']
       [] None,
     rule_of PR_READY REPOSITORY_ANALYSED ''repository_drift''
       [''drift_digest'', ''ready_revocation_digest'', ''snapshot_digest'', ''governance_digest'']
       [''drift''] None,
     rule_of PR_READY BLOCKED ''merge_protection_incident''
       [''incident_digest'', ''governance_digest'']
       [''safe_stop''] None,
     rule_of PR_READY PRODUCT_INPUT_REQUIRED ''authority_invalidated''
       [''authority_event_digest'', ''work_disposition_digest'', ''zero_resource_digest'',
        ''ready_revocation_attempt_digest'', ''ready_revocation_observation_digest'']
       [''product_input'', ''mutation''] (Some ''convert_pr_to_draft''),
     rule_of PR_MERGED BLOCKED ''post_merge_blocking_finding''
       [''subject_digest'', ''finding_digest'', ''worker_quiescence_digest'', ''mutation_revocation_digest'',
        ''zero_resource_digest'']
       [''blocking_finding'', ''safe_stop''] None]"

definition rules_4 :: "transition_rule list" where
  "rules_4 = [
     rule_of PR_MERGED STAGING_DEPLOYED ''staging_admitted''
       [''merge_digest'', ''artifact_digest'', ''configuration_digest'', ''deployment_target_digest'',
        ''staging_authorization_digest'', ''finding_source_set_digest'', ''finding_inventory_epochs_digest'',
        ''authority_fence_digest'', ''staging_attempt_digest'', ''staging_result_digest'']
       [''authority'', ''budget'', ''mutation'', ''no_blocking_finding'', ''integrated_merge''] (Some ''deploy_staging''),
     rule_of PR_MERGED STAGING_FAILED ''staging_failed''
       [''staging_attempt_digest'', ''cleanup_attempt_digest'', ''zero_resource_digest'']
       [''safety'', ''mutation''] (Some ''cleanup_staging''),
     rule_of PR_MERGED BLOCKED ''staging_infrastructure_missing''
       [''blocker_digest'', ''zero_resource_digest'']
       [''safe_stop''] None,
     rule_of STAGING_DEPLOYED CANARY_DEPLOYED ''canary_admitted''
       [''subject_digest'', ''merge_commit_sha'', ''release_sha'', ''merge_digest'', ''artifact_digest'',
        ''configuration_digest'', ''migration_plan_digest'', ''deployment_target_digest'', ''rollout_plan_digest'',
        ''staging_digest'', ''canary_authorization_digest'', ''canary_id_digest'', ''canary_attempt_digest'',
        ''canary_result_digest'', ''canary_status_digest'', ''authority_fence_digest'']
       [''authority'', ''budget'', ''mutation'', ''no_blocking_finding'', ''canary_binding''] (Some ''deploy_canary''),
     rule_of STAGING_DEPLOYED STAGING_FAILED ''staging_cleanup''
       [''cleanup_attempt_digest'', ''cleanup_result_digest'', ''zero_resource_digest'']
       [''safety'', ''mutation''] (Some ''cleanup_staging''),
     rule_of STAGING_DEPLOYED ROLLBACK_IN_PROGRESS ''canary_mutation_indeterminate''
       [''canary_attempt_digest'', ''rollback_attempt_digest'', ''resource_status_digest'']
       [''safety'', ''mutation''] (Some ''rollback''),
     rule_of STAGING_DEPLOYED BUDGET_EXCEEDED ''delivery_budget_exhausted''
       [''budget_ledger_digest'', ''cleanup_attempt_digest'', ''zero_resource_digest'', ''resume_gate_digest'']
       [''budget_stop'', ''mutation''] (Some ''cleanup_staging''),
     rule_of STAGING_DEPLOYED BLOCKED ''canary_authorization_missing''
       [''canary_no_mutation_digest'', ''cleanup_attempt_digest'', ''zero_resource_digest'', ''blocker_digest'']
       [''safe_stop'', ''mutation''] (Some ''cleanup_staging''),
     rule_of STAGING_FAILED PR_MERGED ''fresh_deployment_required''
       [''zero_resource_digest'', ''no_defect_digest'', ''resume_gate_digest'']
       [''authority'', ''budget''] None,
     rule_of STAGING_FAILED PRODUCT_INPUT_REQUIRED ''product_authority_invalidated''
       [''zero_resource_digest'', ''input_request_digest'']
       [''product_input''] None,
     rule_of STAGING_FAILED REPOSITORY_ANALYSED ''candidate_remediation''
       [''zero_resource_digest'', ''snapshot_digest'', ''governance_digest'']
       [] None,
     rule_of STAGING_FAILED BLOCKED ''infrastructure_unavailable''
       [''zero_resource_digest'', ''blocker_digest'', ''original_attempt_digest'']
       [''safety_block''] (Some ''cleanup_staging'')]"

definition rules_5 :: "transition_rule list" where
  "rules_5 = [
     rule_of CANARY_DEPLOYED PRODUCTION_APPROVAL_REQUIRED ''canary_window_passed''
       [''subject_digest'', ''merge_commit_sha'', ''merge_digest'', ''artifact_digest'', ''configuration_digest'',
        ''migration_plan_digest'', ''deployment_target_digest'', ''rollout_plan_digest'', ''staging_digest'',
        ''canary_digest'', ''canary_id_digest'', ''canary_attempt_digest'', ''canary_status_digest'',
        ''slo_window_digest'', ''approval_request_digest'', ''canary_window_observer_id'',
        ''canary_window_observer_authority_digest'', ''canary_window_authentication_evidence_digest'']
       [''authority'', ''budget'', ''active_canary'', ''no_blocking_finding'', ''canary_window''] None,
     rule_of CANARY_DEPLOYED CANARY_FAILED ''canary_breach_recorded''
       [''subject_digest'', ''canary_id_digest'', ''canary_status_digest'', ''canary_failure_digest'',
        ''canary_breach_observer_id'', ''canary_breach_observer_authority_digest'',
        ''canary_breach_authentication_evidence_digest'']
       [''active_canary'', ''canary_breach''] None,
     rule_of CANARY_DEPLOYED ROLLBACK_IN_PROGRESS ''canary_failed''
       [''subject_digest'', ''canary_id_digest'', ''canary_status_digest'', ''canary_attempt_digest'',
        ''canary_result_digest'', ''canary_failure_digest'', ''rollback_attempt_digest'', ''resource_status_digest'']
       [''safety'', ''mutation'', ''active_canary''] (Some ''rollback''),
     rule_of CANARY_DEPLOYED ROLLBACK_IN_PROGRESS ''governance_stop''
       [''subject_digest'', ''canary_id_digest'', ''canary_attempt_digest'', ''canary_status_digest'',
        ''governance_stop_digest'', ''rollback_attempt_digest'']
       [''safety'', ''mutation'', ''active_canary''] (Some ''rollback''),
     rule_of CANARY_FAILED ROLLBACK_IN_PROGRESS ''rollback_started''
       [''canary_failure_digest'', ''rollback_attempt_digest'']
       [''safety'', ''mutation''] (Some ''rollback''),
     rule_of PRODUCTION_APPROVAL_REQUIRED CANARY_FAILED ''canary_breach_recorded''
       [''subject_digest'', ''canary_id_digest'', ''canary_status_digest'', ''canary_failure_digest'',
        ''canary_breach_observer_id'', ''canary_breach_observer_authority_digest'',
        ''canary_breach_authentication_evidence_digest'']
       [''active_canary'', ''canary_breach''] None,
     rule_of PRODUCTION_APPROVAL_REQUIRED PRODUCTION_DEPLOYED ''production_admitted''
       [''subject_digest'', ''merge_commit_sha'', ''merge_digest'', ''artifact_digest'', ''configuration_digest'',
        ''migration_plan_digest'', ''deployment_target_digest'', ''rollout_plan_digest'', ''staging_digest'',
        ''canary_id_digest'', ''canary_attempt_digest'', ''canary_status_digest'', ''production_approval_digest'',
        ''authority_fence_digest'', ''production_attempt_digest'', ''production_result_digest'']
       [''authority'', ''budget'', ''mutation'', ''production_approval'', ''active_canary'', ''no_blocking_finding''] (Some ''deploy_production''),
     rule_of PRODUCTION_APPROVAL_REQUIRED ROLLBACK_IN_PROGRESS ''canary_breach''
       [''subject_digest'', ''canary_id_digest'', ''canary_status_digest'', ''canary_attempt_digest'',
        ''canary_result_digest'', ''canary_failure_digest'', ''rollback_attempt_digest'', ''resource_status_digest'']
       [''safety'', ''mutation'', ''active_canary''] (Some ''rollback'')]"

definition rules_6 :: "transition_rule list" where
  "rules_6 = [
     rule_of PRODUCTION_APPROVAL_REQUIRED ROLLBACK_IN_PROGRESS ''production_mutation_indeterminate''
       [''production_attempt_digest'', ''rollback_attempt_digest'']
       [''safety'', ''mutation''] (Some ''rollback''),
     rule_of PRODUCTION_APPROVAL_REQUIRED STAGING_DEPLOYED ''approval_reset_no_defect''
       [''approval_disposition_digest'', ''canary_teardown_digest'', ''zero_resource_digest'',
        ''staging_revalidation_digest'', ''canary_teardown_observer_id'',
        ''canary_teardown_observer_authority_digest'', ''canary_teardown_authentication_evidence_digest'']
       [''safety'', ''mutation'', ''canary_teardown''] (Some ''teardown_canary''),
     rule_of PRODUCTION_APPROVAL_REQUIRED STAGING_FAILED ''approval_reset_cleanup''
       [''approval_disposition_digest'', ''canary_teardown_digest'', ''staging_cleanup_digest'',
        ''zero_resource_digest'']
       [''safety'', ''mutation''] (Some ''cleanup_staging''),
     rule_of PRODUCTION_DEPLOYED COMPLETED ''observation_window_passed''
       [''subject_digest'', ''release_sha'', ''artifact_digest'', ''configuration_digest'',
        ''production_attempt_digest'', ''production_result_digest'', ''reviewed_commit_sha'',
        ''reviewed_candidate_digest'', ''review_evidence_digest'', ''live_verification_digest'',
        ''rollback_readiness_digest'', ''observation_window_digest'', ''evidence_bundle_digest'']
       [''authority'', ''completion''] None,
     rule_of PRODUCTION_DEPLOYED LIVE_VERIFICATION_FAILED ''live_gate_failed''
       [''subject_digest'', ''release_sha'', ''artifact_digest'', ''configuration_digest'',
        ''production_attempt_digest'', ''production_result_digest'', ''live_failure_digest'', ''telemetry_digest'',
        ''live_failure_observer_id'', ''live_failure_observer_authority_digest'',
        ''live_failure_authentication_evidence_digest'']
       [''live_failure''] None,
     rule_of PRODUCTION_DEPLOYED ROLLBACK_IN_PROGRESS ''governance_stop''
       [''governance_stop_digest'', ''rollback_attempt_digest'']
       [''safety'', ''mutation''] (Some ''rollback''),
     rule_of LIVE_VERIFICATION_FAILED ROLLBACK_IN_PROGRESS ''rollback_started''
       [''live_failure_digest'', ''rollback_attempt_digest'']
       [''safety'', ''mutation''] (Some ''rollback''),
     rule_of ROLLBACK_IN_PROGRESS ROLLED_BACK ''rollback_verified''
       [''subject_digest'', ''rollback_attempt_digest'', ''rollback_result_digest'', ''rollback_exposure_digest'',
        ''restoration_verification_digest'', ''incident_digest'']
       [''mutation'', ''zero_exposure''] (Some ''rollback''),
     rule_of ROLLBACK_IN_PROGRESS BLOCKED ''rollback_indeterminate''
       [''rollback_attempt_digest'', ''incident_digest'', ''resource_status_digest'', ''original_attempt_digest'']
       [''safety_block''] (Some ''rollback''),
     rule_of ROLLED_BACK STAGING_DEPLOYED ''no_defect_readmission''
       [''rollback_bundle_digest'', ''zero_exposure_digest'', ''staging_revalidation_digest'']
       [''authority'', ''budget''] None,
     rule_of ROLLED_BACK STAGING_FAILED ''staging_cleanup''
       [''rollback_bundle_digest'', ''cleanup_attempt_digest'', ''zero_resource_digest'']
       [''safety'', ''mutation''] (Some ''cleanup_staging''),
     rule_of ROLLED_BACK PRODUCT_INPUT_REQUIRED ''product_truth_missing''
       [''rollback_bundle_digest'', ''zero_resource_digest'', ''input_request_digest'']
       [''product_input''] None]"

definition rules_7 :: "transition_rule list" where
  "rules_7 = [
     rule_of ROLLED_BACK REPOSITORY_ANALYSED ''candidate_remediation''
       [''rollback_bundle_digest'', ''zero_resource_digest'', ''snapshot_digest'', ''governance_digest'']
       [] None,
     rule_of ROLLED_BACK BUDGET_EXCEEDED ''delivery_budget_exhausted''
       [''rollback_bundle_digest'', ''budget_ledger_digest'', ''zero_resource_digest'', ''resume_gate_digest'']
       [''budget_stop''] None,
     rule_of BLOCKED ROLLBACK_IN_PROGRESS ''resume_safety_rollback''
       [''incident_digest'', ''original_attempt_digest'', ''restored_capability_digest'']
       [''safety_resume''] (Some ''rollback''),
     rule_of BLOCKED STAGING_FAILED ''resume_safety_cleanup''
       [''incident_digest'', ''original_attempt_digest'', ''restored_capability_digest'']
       [''safety_resume''] (Some ''cleanup_staging''),
     rule_of BLOCKED CONTRACT_RECEIVED ''superseding_contract''
       [''incident_closure_digest'', ''intake_receipt_digest'', ''correction_relation_digest'']
       [''safe_stop''] None,
     rule_of BLOCKED REPOSITORY_ANALYSED ''repository_readmitted''
       [''incident_closure_digest'', ''snapshot_digest'', ''governance_digest'']
       [''safe_stop''] None,
     rule_of BUDGET_EXCEEDED BLOCKED ''extension_unavailable''
       [''budget_ledger_digest'', ''resume_gate_digest'']
       [''safe_stop''] None,
     rule_of COMPLETED LIVE_VERIFICATION_FAILED ''completion_evidence_invalidated''
       [''completion_event_digest'', ''invalidation_digest'', ''incident_digest'']
       [''revoke_completion''] None,
     rule_of COMPLETED BLOCKED ''completion_evidence_unavailable''
       [''completion_event_digest'', ''invalidation_digest'', ''safe_state_digest'']
       [''revoke_completion'', ''safe_stop''] None]"

definition base_rules :: "transition_rule list" where
  "base_rules = rules_1 @ rules_2 @ rules_3 @ rules_4 @ rules_5 @ rules_6 @ rules_7"

definition drift_sources :: "lifecycle_state list" where
  "drift_sources = [ARCHITECTURE_PROPOSED, ARCHITECTURE_APPROVED, TEST_PLAN_CREATED, TEST_PLAN_VALIDATED,
     IMPLEMENTATION_PLANNED, DRAFT_PR_OPEN, IMPLEMENTATION_IN_PROGRESS, VERIFICATION_FAILED, REPAIR_IN_PROGRESS,
     REVIEW_FAILED]"

definition authority_sources :: "lifecycle_state list" where
  "authority_sources = [CONTRACT_APPROVED, REPOSITORY_ANALYSED, ARCHITECTURE_PROPOSED, ARCHITECTURE_APPROVED,
     TEST_PLAN_CREATED, TEST_PLAN_VALIDATED, IMPLEMENTATION_PLANNED, DRAFT_PR_OPEN, IMPLEMENTATION_IN_PROGRESS,
     VERIFICATION_FAILED, REPAIR_IN_PROGRESS, REVIEW_REQUIRED, REVIEW_FAILED, PR_READY, PR_MERGED, BUDGET_EXCEEDED]"

definition ordinary_resume_targets :: "lifecycle_state list" where
  "ordinary_resume_targets = [CONTRACT_RECEIVED, CONTRACT_APPROVED, REPOSITORY_ANALYSED, VERIFICATION_FAILED, PR_READY,
     PR_MERGED, PRODUCTION_DEPLOYED, BUDGET_EXCEEDED, DRAFT_PR_OPEN, IMPLEMENTATION_IN_PROGRESS, REPAIR_IN_PROGRESS,
     ROLLED_BACK]"

definition budget_resume_targets :: "lifecycle_state list" where
  "budget_resume_targets = [DRAFT_PR_OPEN, IMPLEMENTATION_IN_PROGRESS, VERIFICATION_FAILED, REPAIR_IN_PROGRESS, PR_MERGED,
     ROLLED_BACK]"

definition recorded_resume_evidence :: "string list" where
  "recorded_resume_evidence = [''subject_digest'', ''incident_closure_digest'', ''restored_capability_digest'',
     ''unchanged_inputs_digest'']"

definition has_rule :: "transition_rule list \<Rightarrow> lifecycle_state \<Rightarrow> lifecycle_state \<Rightarrow> string \<Rightarrow> bool" where
  "has_rule rules source target reason \<longleftrightarrow>
     list_ex (\<lambda>r. ru_source r = source \<and> ru_target r = target \<and> ru_reason r = reason) rules"

definition drift_rules :: "transition_rule list" where
  "drift_rules = map (\<lambda>source. rule_of source REPOSITORY_ANALYSED ''repository_drift''
       [''drift_digest'', ''work_disposition_digest'', ''snapshot_digest'', ''governance_digest''] [''drift''] None)
     (filter (\<lambda>source. \<not> has_rule base_rules source REPOSITORY_ANALYSED ''repository_drift'') drift_sources)"

definition authority_rules :: "transition_rule list" where
  "authority_rules = map (\<lambda>source. rule_of source PRODUCT_INPUT_REQUIRED ''authority_invalidated''
       [''authority_event_digest'', ''work_disposition_digest'', ''zero_resource_digest''] [''product_input''] None)
     (filter (\<lambda>source. \<not> has_rule base_rules source PRODUCT_INPUT_REQUIRED ''authority_invalidated'') authority_sources)"

definition resume_rules :: "lifecycle_state \<Rightarrow> lifecycle_state list \<Rightarrow> transition_rule list" where
  "resume_rules source targets = map (\<lambda>target. rule_of source target ''recorded_safe_resume''
     recorded_resume_evidence [''authority'', ''budget''] None) targets"

definition phase_zero_rules :: "transition_rule list" where
  "phase_zero_rules = base_rules @ drift_rules @ authority_rules @ resume_rules BLOCKED ordinary_resume_targets
     @ resume_rules BUDGET_EXCEEDED budget_resume_targets"

definition phase_four_review_fields :: "string list" where
  "phase_four_review_fields = [''protected_base_sha'', ''repository_rules_digest'', ''architecture_policy_digest'',
     ''toolchain_policy_digest'', ''environment_profile_digest'', ''security_policy_digest'',
     ''verification_policy_digest'', ''evidence_policy_digest'']"

definition phase_four_merge_fields :: "string list" where
  "phase_four_merge_fields = phase_four_review_fields @ [''merge_admission_bundle_digest'',
     ''finding_high_watermark_digest'', ''finding_source_set_digest'', ''finding_inventory_epochs_digest'',
     ''authority_revalidation_digest'', ''native_merge_gate_digest'', ''native_merge_gate_actor'',
     ''native_merge_gate_authority_digest'', ''native_merge_gate_authentication_evidence_digest'']"

definition is_rule :: "lifecycle_state \<Rightarrow> lifecycle_state \<Rightarrow> string \<Rightarrow> transition_rule \<Rightarrow> bool" where
  "is_rule source target reason r \<longleftrightarrow> ru_source r = source \<and> ru_target r = target \<and> ru_reason r = reason"

abbreviation "is_review_clear \<equiv> is_rule REVIEW_REQUIRED PR_READY ''formal_review_clear''"
abbreviation "is_merge \<equiv> is_rule PR_READY PR_MERGED ''native_merge_linearized''"
abbreviation "is_staging \<equiv> is_rule PR_MERGED STAGING_DEPLOYED ''staging_admitted''"
abbreviation "is_completion \<equiv> is_rule PRODUCTION_DEPLOYED COMPLETED ''observation_window_passed''"

definition phase_four_rule :: "transition_rule \<Rightarrow> transition_rule" where
  "phase_four_rule r = r\<lparr>
     ru_reason := (if is_review_clear r then ''advisory_readiness_clear'' else ru_reason r),
     ru_evidence := uniq (ru_evidence r
       @ (if is_review_clear r then phase_four_review_fields else [])
       @ (if is_merge r then phase_four_merge_fields else [])
       @ (if is_staging r then [''subject_digest'', ''evidence_bundle_digest''] else [])
       @ (if is_completion r then [''finding_high_watermark_digest'', ''finding_source_set_digest'',
            ''finding_inventory_epochs_digest''] else [])),
     ru_guards := ru_guards r
       @ (if is_merge r \<or> is_completion r then [''no_blocking_finding''] else [])
       @ (if is_staging r then [''staging_bundle''] else [])\<rparr>"

definition phase_four_rules :: "transition_rule list" where
  "phase_four_rules = map phase_four_rule phase_zero_rules"

section \<open>Policies\<close>

record lifecycle_policy =
  lp_version :: string
  lp_rules :: "transition_rule list"
  lp_fields :: "(string \<times> string list) list"
  lp_variants :: "(string \<times> string list list) list"
  lp_digest :: string

definition rule_json :: "string \<Rightarrow> (string \<times> string list) list \<Rightarrow> transition_rule \<Rightarrow> json" where
  "rule_json version subject_fields r = JObj (
     [(''source'', JStr (state_text (ru_source r))), (''target'', JStr (state_text (ru_target r))),
      (''reason'', JStr (ru_reason r)), (''required_evidence'', JList (map JStr (ru_evidence r))),
      (''guards'', JList (map JStr (sorted_set (ru_guards r)))), (''permission'', JStr (ru_permission r)),
      (''mutation_action'', case ru_mutation r of None \<Rightarrow> JNull | Some a \<Rightarrow> JStr a)]
     @ (if version = ''phase-zero-v1'' then []
        else [(''mutation_subject_fields'', JList (map JStr (case map_of subject_fields
            (case ru_mutation r of None \<Rightarrow> [] | Some a \<Rightarrow> a) of None \<Rightarrow> [] | Some xs \<Rightarrow> xs)))]))"

definition rule_key :: "transition_rule \<Rightarrow> lifecycle_state \<times> lifecycle_state \<times> string" where
  "rule_key r = (ru_source r, ru_target r, ru_reason r)"

text \<open>\<^verbatim>\<open>LifecyclePolicy(version, rules)\<close>; nothing when a rule is listed twice.\<close>

definition make_policy :: "runtime \<Rightarrow> string \<Rightarrow> transition_rule list \<Rightarrow> lifecycle_policy option" where
  "make_policy rt version rules =
     (if \<not> distinct (map rule_key rules) then None
      else Some \<lparr>lp_version = version, lp_rules = rules, lp_fields = mutation_subject_fields,
        lp_variants = map (\<lambda>(name, xs). (name, [xs])) mutation_subject_fields,
        lp_digest = lc_digest rt (JObj [(''version'', JStr version),
          (''rules'', JList (map (rule_json version mutation_subject_fields) rules))])\<rparr>)"

definition phase_zero_policy :: "runtime \<Rightarrow> lifecycle_policy option" where
  "phase_zero_policy rt = make_policy rt ''phase-zero-v2'' phase_zero_rules"

definition phase_four_policy :: "runtime \<Rightarrow> lifecycle_policy option" where
  "phase_four_policy rt = make_policy rt ''phase-four-v1'' phase_four_rules"

text \<open>\<^verbatim>\<open>LifecyclePolicy.rule\<close>: nothing where the code denies.\<close>

definition find_rule :: "lifecycle_policy \<Rightarrow> lifecycle_state \<Rightarrow> lifecycle_state \<Rightarrow> string \<Rightarrow> transition_rule option" where
  "find_rule p source target reason = (case filter (is_rule source target reason) (lp_rules p) of
      [r] \<Rightarrow> Some r
    | _ \<Rightarrow> None)"

definition rules_from :: "lifecycle_policy \<Rightarrow> lifecycle_state \<Rightarrow> transition_rule list" where
  "rules_from p state = filter (\<lambda>r. ru_source r = state) (lp_rules p)"

section \<open>The shape of the policy\<close>

lemma phase_four_sel [simp]:
  "ru_source (phase_four_rule r) = ru_source r" "ru_target (phase_four_rule r) = ru_target r"
  "ru_mutation (phase_four_rule r) = ru_mutation r" "ru_permission (phase_four_rule r) = ru_permission r"
  "ru_reason (phase_four_rule r) = (if is_review_clear r then ''advisory_readiness_clear'' else ru_reason r)"
  "set (ru_guards (phase_four_rule r)) = set (ru_guards r)
     \<union> (if is_merge r \<or> is_completion r then {''no_blocking_finding''} else {})
     \<union> (if is_staging r then {''staging_bundle''} else {})"
  by (simp_all add: phase_four_rule_def)

lemmas table_defs = rules_1_def rules_2_def rules_3_def rules_4_def rules_5_def rules_6_def rules_7_def

lemma drift_rules_eq: "drift_rules = map (\<lambda>source. rule_of source REPOSITORY_ANALYSED ''repository_drift''
       [''drift_digest'', ''work_disposition_digest'', ''snapshot_digest'', ''governance_digest''] [''drift''] None)
     drift_sources"
  by (simp add: drift_rules_def has_rule_def base_rules_def table_defs drift_sources_def)

lemma authority_rules_eq: "authority_rules = map (\<lambda>source. rule_of source PRODUCT_INPUT_REQUIRED ''authority_invalidated''
       [''authority_event_digest'', ''work_disposition_digest'', ''zero_resource_digest''] [''product_input''] None)
     (filter (\<lambda>s. s \<noteq> PR_READY) authority_sources)"
  by (simp add: authority_rules_def has_rule_def base_rules_def table_defs authority_sources_def)

text \<open>A number for each rule; different numbers show that no rule is listed twice.\<close>

fun state_index :: "lifecycle_state \<Rightarrow> int" where
  "state_index CONTRACT_RECEIVED = 0"
| "state_index CONTRACT_INVALID = 1"
| "state_index PRODUCT_INPUT_REQUIRED = 2"
| "state_index CONTRACT_APPROVED = 3"
| "state_index REPOSITORY_ANALYSED = 4"
| "state_index ARCHITECTURE_PROPOSED = 5"
| "state_index ARCHITECTURE_APPROVED = 6"
| "state_index TEST_PLAN_CREATED = 7"
| "state_index TEST_PLAN_VALIDATED = 8"
| "state_index IMPLEMENTATION_PLANNED = 9"
| "state_index DRAFT_PR_OPEN = 10"
| "state_index IMPLEMENTATION_IN_PROGRESS = 11"
| "state_index VERIFICATION_FAILED = 12"
| "state_index REPAIR_IN_PROGRESS = 13"
| "state_index REVIEW_REQUIRED = 14"
| "state_index REVIEW_FAILED = 15"
| "state_index PR_READY = 16"
| "state_index PR_MERGED = 17"
| "state_index STAGING_DEPLOYED = 18"
| "state_index STAGING_FAILED = 19"
| "state_index CANARY_DEPLOYED = 20"
| "state_index CANARY_FAILED = 21"
| "state_index PRODUCTION_APPROVAL_REQUIRED = 22"
| "state_index PRODUCTION_DEPLOYED = 23"
| "state_index LIVE_VERIFICATION_FAILED = 24"
| "state_index ROLLBACK_IN_PROGRESS = 25"
| "state_index ROLLED_BACK = 26"
| "state_index BLOCKED = 27"
| "state_index BUDGET_EXCEEDED = 28"
| "state_index COMPLETED = 29"

definition rule_number :: "lifecycle_state \<times> lifecycle_state \<times> string \<Rightarrow> int" where
  "rule_number = (\<lambda>(s, t, r). state_index s * 10000 + state_index t * 200 + int (length r)
     + (if take 1 r = ''a'' then 50 else if take 1 r = ''r'' then 100 else 0))"

lemma phase_zero_numbers: "map (rule_number \<circ> rule_key) phase_zero_rules = [
     217, 5436, 10018, 421, 20020, 617, 30919, 35522, 41071, 50476, 51271, 61418, 60419, 71619, 70419, 81822,
     92017, 102210, 105625, 100434, 112432, 112819, 115625, 110421, 122666, 122825, 125629, 120421, 125435,
     132522, 132915, 135625, 130421, 143219, 143016, 142411, 142212, 140916, 152666, 152830, 150421, 163423,
     163016, 162526, 162212, 160916, 165425, 160471, 175427, 173616, 173814, 175430, 184015, 183815, 185029,
     185625, 185428, 193425, 190429, 190821, 195426, 204420, 204222, 205013, 205015, 215116, 224222, 224619,
     225013, 225033, 223674, 223872, 235825, 234816, 235015, 245116, 255317, 255522, 263621, 263815, 260421,
     260821, 265625, 275122, 273921, 270020, 270921, 285421, 294831, 295431, 50916, 60916, 70916, 80916, 90916,
     100916, 110916, 120916, 130916, 150916, 30471, 40471, 50471, 60471, 70471, 80471, 90471, 100471, 110471,
     120471, 130471, 140471, 150471, 170471, 280471, 270120, 270720, 270920, 272520, 273320, 273520, 274720,
     275720, 272120, 272320, 272720, 275320, 282120, 282320, 282520, 282720, 283520, 285320]"
  by (simp add: phase_zero_rules_def drift_rules_eq authority_rules_eq base_rules_def table_defs resume_rules_def
      drift_sources_def authority_sources_def ordinary_resume_targets_def budget_resume_targets_def rule_key_def
      rule_number_def)

lemma phase_zero_distinct: "distinct (map rule_key phase_zero_rules)"
proof -
  have "distinct (map (rule_number \<circ> rule_key) phase_zero_rules)" unfolding phase_zero_numbers by code_simp
  then show ?thesis unfolding map_map [symmetric] distinct_map [of rule_number] by blast
qed

lemmas policy_defs = phase_zero_rules_def drift_rules_eq authority_rules_eq base_rules_def table_defs resume_rules_def
  drift_sources_def authority_sources_def ordinary_resume_targets_def budget_resume_targets_def

lemma no_advisory_rule: "list_all (\<lambda>r. \<not> is_rule REVIEW_REQUIRED PR_READY ''advisory_readiness_clear'' r) phase_zero_rules"
  by (simp add: policy_defs is_rule_def)

lemma phase_four_distinct: "distinct (map rule_key phase_four_rules)"
proof -
  have "inj_on (rule_key \<circ> phase_four_rule) (set phase_zero_rules)"
  proof (rule inj_onI)
    fix r r' assume r: "r \<in> set phase_zero_rules" "r' \<in> set phase_zero_rules"
      "(rule_key \<circ> phase_four_rule) r = (rule_key \<circ> phase_four_rule) r'"
    then have "rule_key r = rule_key r'" using no_advisory_rule
      by (auto simp: rule_key_def list_all_iff is_rule_def split: if_splits)
    with r show "r = r'" using phase_zero_distinct by (auto simp: distinct_map dest: inj_onD)
  qed
  then show ?thesis using phase_zero_distinct by (simp add: phase_four_rules_def distinct_map comp_inj_on)
qed

text \<open>How far a delivery has come in each state; the stops and the planning stages count as zero.\<close>

fun level :: "lifecycle_state \<Rightarrow> nat" where
  "level PR_READY = 1"
| "level PR_MERGED = 2"
| "level STAGING_FAILED = 2"
| "level STAGING_DEPLOYED = 3"
| "level ROLLBACK_IN_PROGRESS = 3"
| "level ROLLED_BACK = 3"
| "level CANARY_DEPLOYED = 4"
| "level CANARY_FAILED = 4"
| "level PRODUCTION_APPROVAL_REQUIRED = 4"
| "level PRODUCTION_DEPLOYED = 5"
| "level LIVE_VERIFICATION_FAILED = 5"
| "level COMPLETED = 6"
| "level _ = 0"

definition stage_reasons :: "string list" where
  "stage_reasons = [''advisory_readiness_clear'', ''native_merge_linearized'', ''staging_admitted'', ''canary_admitted'',
     ''production_admitted'', ''observation_window_passed'']"

text \<open>A rule goes up at most one level, and then for the reason that names the level.\<close>

definition climbs :: "transition_rule \<Rightarrow> bool" where
  "climbs r \<longleftrightarrow> level (ru_target r) \<le> level (ru_source r)
     \<or> level (ru_target r) = Suc (level (ru_source r)) \<and> level (ru_source r) < 6
       \<and> ru_reason r = stage_reasons ! level (ru_source r)"

text \<open>The rules that lead out of a stop to where it was recorded.\<close>

definition is_resumption :: "transition_rule \<Rightarrow> bool" where
  "is_resumption r \<longleftrightarrow> ru_reason r = ''recorded_safe_resume'' \<or> ''safety_resume'' \<in> set (ru_guards r)"


lemma stages_in_order: "list_all (\<lambda>r. is_resumption r \<or> climbs r) phase_four_rules"
  unfolding phase_four_rules_def list.pred_map
  by (simp add: policy_defs is_rule_def is_resumption_def climbs_def stage_reasons_def)

end
