(* ===== verification/Lifecycle.thy ===== *)
theory Lifecycle
  imports Lifecycle_Policy
begin

text \<open>
  The control plane of \<^verbatim>\<open>orchestration/lifecycle.py\<close>: transitions, resumption, the journal of
  mutations and their results, observations and budget extensions, all recorded in one
  hash-chained ledger.

  A control plane is the record \<^verbatim>\<open>control_plane\<close>; the run directory, which other writers may
  change, is \<^verbatim>\<open>lc_dir\<close>. The checks of a transition are a list that is gone through in order: the
  first that fails gives the message of the denial, which is itself recorded. Outside are the
  verifiers of external evidence and of sealed bundles, the parser of timestamps, the clocks
  and \<^verbatim>\<open>str.upper\<close> (\<^verbatim>\<open>lc_env\<close>). The two locks make each operation one step.
\<close>

section \<open>Data\<close>

type_synonym evidence = "(string \<times> string) list"

record authority_snapshot =
  au_contract :: string
  au_publisher :: string
  au_contract_active :: bool
  au_publisher_active :: bool
  au_observed :: string
  au_valid_until :: string
  au_digest :: string

record budget_policy =
  bp_version :: string
  bp_limits :: "(string \<times> int) list"
  bp_per_finding :: int
  bp_per_stage :: int
  bp_safety :: int
  bp_approved_by :: string

record trust_policy =
  tp_adapters :: evidence
  tp_budget_owners :: evidence
  tp_repository :: evidence
  tp_work :: evidence
  tp_production :: evidence
  tp_meters :: evidence
  tp_reviewers :: evidence
  tp_merge_gates :: evidence
  tp_findings :: evidence
  tp_authorizers :: evidence
  tp_live :: evidence
  tp_authority :: evidence
  tp_monitors :: evidence

record budget_usage =
  bu_counters :: "(string \<times> int) list"
  bu_by_finding :: "(string \<times> int) list"
  bu_by_stage :: "(string \<times> int) list"
  bu_safety :: int

record rollout_status =
  ro_staging :: string
  ro_canary :: string
  ro_production :: string

record work_status =
  wk_leases :: int
  wk_stopped :: bool
  wk_capability :: bool
  wk_disposition :: string

record lc_approval =
  la_id :: string
  la_actor :: string
  la_subject :: string
  la_kind :: string
  la_eligible :: bool
  la_active :: bool
  la_commit :: string
  la_candidate :: string
  la_evidence :: string
  la_proof :: string
  la_submitted :: string

record transition_actor =
  ac_id :: string
  ac_role :: string
  ac_authenticated :: bool
  ac_capabilities :: "string list"
  ac_subject :: string
  ac_authority :: string
  ac_proof :: string

record finding_signal =
  fs_id :: string
  fs_source :: string
  fs_subject :: string
  fs_severity :: string
  fs_credible :: bool
  fs_blocking :: bool
  fs_eligible :: bool
  fs_category :: string
  fs_disposition :: string
  fs_scope :: string

record mutation_attempt =
  ma_id :: string
  ma_key :: string
  ma_subject :: string
  ma_action :: string
  ma_plan :: string
  ma_status :: string
  ma_steps :: "string list"

record mutation_authorization =
  mz_authorizer :: string
  mz_authority :: string
  mz_subject :: string
  mz_source :: lifecycle_state
  mz_action :: string
  mz_attempt :: string
  mz_key :: string
  mz_plan :: string
  mz_steps :: "string list"
  mz_observed :: string
  mz_expires :: string
  mz_proof :: string

record mutation_result =
  mr_attempt :: string
  mr_key :: string
  mr_status :: string
  mr_digest :: "string option"

record adapter_evidence =
  ad_id :: string
  ad_role :: string
  ad_authenticated :: bool
  ad_capabilities :: "string list"
  ad_subject :: string
  ad_authority :: string
  ad_attempt :: string
  ad_key :: string
  ad_action :: string
  ad_plan :: string
  ad_status :: string
  ad_result :: "string option"
  ad_proof :: string

record transition_context =
  cx_actor :: transition_actor
  cx_evidence :: evidence
  cx_authority :: authority_snapshot
  cx_usage :: budget_usage
  cx_rollout :: rollout_status
  cx_work :: work_status
  cx_approvals :: "lc_approval list"
  cx_finding :: "finding_signal option"
  cx_mutation :: "mutation_attempt option"
  cx_observed :: string

record lifecycle_event =
  le_sequence :: nat
  le_kind :: string
  le_outcome :: string
  le_source :: lifecycle_state
  le_target :: lifecycle_state
  le_reason :: string
  le_actor :: string
  le_subject :: string
  le_policy :: string
  le_evidence :: string
  le_refs :: evidence
  le_usage :: "budget_usage option"
  le_observed :: string
  le_resume :: "lifecycle_state option"
  le_previous :: string
  le_digest :: string
  le_detail :: string

record control_plane =
  cp_run_id :: string
  cp_subject :: string
  cp_state :: lifecycle_state
  cp_budget :: budget_policy
  cp_policy :: lifecycle_policy
  cp_trust :: trust_policy
  cp_events :: "lifecycle_event list"
  cp_identity :: nat
  cp_claimed :: bool
  cp_attempts :: "(string \<times> mutation_attempt) list"
  cp_results :: "(string \<times> mutation_result) list"
  cp_verified :: "string list"
  cp_consumed :: "string list"
  cp_challenge :: "string option"
  cp_deadline :: "int option"
  cp_usage :: budget_usage

record lc_dir =
  ld_identity :: "nat option"
  ld_ledger :: "obj list"
  ld_journal :: "obj list"

datatype lc_error =
    Denied string        \<comment> \<open>\<^verbatim>\<open>TransitionDeniedError\<close>\<close>
  | Broken string        \<comment> \<open>\<^verbatim>\<open>ValueError\<close>\<close>
  | Type_fault           \<comment> \<open>\<^verbatim>\<open>TypeError\<close>\<close>
  | Key_fault            \<comment> \<open>\<^verbatim>\<open>KeyError\<close>\<close>
  | Sweep_fault          \<comment> \<open>whatever the retention sweep raises\<close>

text \<open>A parsed timestamp, in microseconds, with or without a time zone.\<close>

datatype stamp = Aware int | Naive int

record lc_env =
  lv_verifier :: "(string \<Rightarrow> string \<Rightarrow> json \<Rightarrow> string \<Rightarrow> bool) option"
  lv_bundles :: "(string \<Rightarrow> evidence \<Rightarrow> bool) option"
  lv_parse :: "string \<Rightarrow> stamp option"
  lv_now :: int
  lv_now_text :: string
  lv_monotonic :: int
  lv_upper :: "string \<Rightarrow> string"
  lv_sweep_ok :: bool

section \<open>Primitives\<close>

text \<open>\<^verbatim>\<open>evidence.get(name, "")\<close>; \<^verbatim>\<open>evidence.get(name)\<close> is \<^const>\<open>map_of\<close>.\<close>

definition ev :: "evidence \<Rightarrow> string \<Rightarrow> string" where
  "ev e k = (case map_of e k of None \<Rightarrow> [] | Some v \<Rightarrow> v)"

definition count_of :: "(string \<times> int) list \<Rightarrow> string \<Rightarrow> int" where
  "count_of m k = (case map_of m k of None \<Rightarrow> 0 | Some n \<Rightarrow> n)"

definition texts :: "evidence \<Rightarrow> json" where
  "texts e = JObj (map (\<lambda>(k, v). (k, JStr v)) e)"

definition numbers :: "(string \<times> int) list \<Rightarrow> json" where
  "numbers m = JObj (map (\<lambda>(k, n). (k, JInt n)) m)"

definition names_json :: "string list \<Rightarrow> json" where
  "names_json xs = JList (map JStr xs)"

text \<open>The members of the evidence with the given names, missing ones empty.\<close>

definition pick :: "evidence \<Rightarrow> string list \<Rightarrow> evidence" where
  "pick e names = map (\<lambda>k. (k, ev e k)) names"

definition is_git_sha :: "string \<Rightarrow> bool" where
  "is_git_sha s \<longleftrightarrow> (length s = 40 \<or> length s = 64) \<and> list_all is_hex_lower s"

definition id_tail :: "char \<Rightarrow> bool" where
  "id_tail c \<longleftrightarrow> is_alnum_ascii c \<or> c \<in> {CHR ''.'', CHR ''_'', CHR '':'', CHR ''-''}"

definition is_finding_id :: "string \<Rightarrow> bool" where
  "is_finding_id s = (case s of [] \<Rightarrow> False | c # cs \<Rightarrow> is_alnum_ascii c \<and> list_all id_tail cs)"

definition is_finding_source :: "string \<Rightarrow> bool" where
  "is_finding_source s = (case s of [] \<Rightarrow> False
    | c # cs \<Rightarrow> (is_digit c \<or> is_lower c) \<and> list_all (\<lambda>c. id_tail c \<and> \<not> is_upper c) cs)"

text \<open>\<^verbatim>\<open>datetime.fromisoformat(value.replace("Z", "+00:00"))\<close>.\<close>

definition time_of :: "lc_env \<Rightarrow> string \<Rightarrow> stamp option" where
  "time_of env s = lv_parse env (concat (map (\<lambda>c. if c = CHR ''Z'' then ''+00:00'' else [c]) s))"

definition verify_external :: "lc_env \<Rightarrow> string \<Rightarrow> string \<Rightarrow> json \<Rightarrow> string \<Rightarrow> bool" where
  "verify_external env identity authority payload proof' = (case lv_verifier env of
      None \<Rightarrow> False
    | Some v \<Rightarrow> proof' \<noteq> [] \<and> v identity authority payload proof')"

definition sealed_bundle :: "lc_env \<Rightarrow> string \<Rightarrow> evidence \<Rightarrow> bool" where
  "sealed_bundle env digest bindings = (case lv_bundles env of None \<Rightarrow> False | Some v \<Rightarrow> v digest bindings)"

text \<open>A named member of a trust root attested the payload.\<close>

definition attested :: "lc_env \<Rightarrow> evidence \<Rightarrow> string \<Rightarrow> string \<Rightarrow> json \<Rightarrow> string \<Rightarrow> bool" where
  "attested env trusted identity authority payload proof' \<longleftrightarrow>
     identity \<noteq> [] \<and> map_of trusted identity = Some authority \<and> verify_external env identity authority payload proof'"

section \<open>Payloads\<close>

definition budget_policy_json :: "budget_policy \<Rightarrow> json" where
  "budget_policy_json p = JObj [(''version'', JStr (bp_version p)), (''limits'', numbers (bp_limits p)),
     (''repair_attempts_per_finding'', JInt (bp_per_finding p)), (''repair_attempts_per_stage'', JInt (bp_per_stage p)),
     (''reserved_safety_units'', JInt (bp_safety p)), (''approved_by'', JStr (bp_approved_by p))]"

definition usage_json :: "budget_usage \<Rightarrow> json" where
  "usage_json u = JObj [(''counters'', numbers (bu_counters u)), (''repair_attempts_by_finding'', numbers (bu_by_finding u)),
     (''repair_attempts_by_stage'', numbers (bu_by_stage u)), (''safety_units_used'', JInt (bu_safety u))]"

definition rollout_json :: "rollout_status \<Rightarrow> json" where
  "rollout_json r = texts [(''staging'', ro_staging r), (''canary'', ro_canary r), (''changed_production'', ro_production r)]"

definition work_json :: "work_status \<Rightarrow> json" where
  "work_json w = JObj [(''worker_leases_active'', JInt (wk_leases w)), (''workers_stopped'', JBool (wk_stopped w)),
     (''mutation_capability_active'', JBool (wk_capability w)), (''partial_output_disposition'', JStr (wk_disposition w))]"

definition approval_payload :: "lc_approval \<Rightarrow> obj" where
  "approval_payload a = [(''approval_id'', JStr (la_id a)), (''actor'', JStr (la_actor a)),
     (''subject_digest'', JStr (la_subject a)), (''kind'', JStr (la_kind a)), (''eligible'', JBool (la_eligible a)),
     (''active'', JBool (la_active a)), (''reviewed_commit_sha'', JStr (la_commit a)),
     (''reviewed_candidate_digest'', JStr (la_candidate a)), (''review_evidence_digest'', JStr (la_evidence a)),
     (''submitted_at'', JStr (la_submitted a))]"

definition approval_json :: "lc_approval \<Rightarrow> json" where
  "approval_json a = JObj (approval_payload a @ [(''authentication_evidence_digest'', JStr (la_proof a))])"

definition actor_json :: "transition_actor \<Rightarrow> json" where
  "actor_json a = JObj [(''actor_id'', JStr (ac_id a)), (''role'', JStr (ac_role a)),
     (''authenticated'', JBool (ac_authenticated a)), (''capabilities'', names_json (sorted_set (ac_capabilities a))),
     (''subject_digest'', JStr (ac_subject a)), (''authority_digest'', JStr (ac_authority a))]"

definition signal_json :: "finding_signal \<Rightarrow> json" where
  "signal_json f = JObj [(''finding_id'', JStr (fs_id f)), (''source'', JStr (fs_source f)),
     (''exact_subject_digest'', JStr (fs_subject f)), (''severity'', JStr (fs_severity f)),
     (''credible'', JBool (fs_credible f)), (''blocking'', JBool (fs_blocking f)),
     (''reviewer_eligible'', JBool (fs_eligible f)), (''category'', JStr (fs_category f)),
     (''disposition'', JStr (fs_disposition f)), (''affected_scope_digest'', JStr (fs_scope f))]"

definition attempt_fields :: "mutation_attempt \<Rightarrow> obj" where
  "attempt_fields a = [(''attempt_id'', JStr (ma_id a)), (''idempotency_key'', JStr (ma_key a)),
     (''subject_digest'', JStr (ma_subject a)), (''action'', JStr (ma_action a)),
     (''step_plan_digest'', JStr (ma_plan a)), (''status'', JStr (ma_status a)), (''steps'', names_json (ma_steps a))]"

definition attempt_digest :: "runtime \<Rightarrow> mutation_attempt \<Rightarrow> string" where
  "attempt_digest rt a = lc_digest rt (JObj (attempt_fields a))"

definition opt_text :: "string option \<Rightarrow> json" where
  "opt_text r = (case r of None \<Rightarrow> JNull | Some d \<Rightarrow> JStr d)"

definition adapter_json :: "adapter_evidence \<Rightarrow> json" where
  "adapter_json a = JObj [(''adapter_id'', JStr (ad_id a)), (''role'', JStr (ad_role a)),
     (''authenticated'', JBool (ad_authenticated a)), (''capabilities'', names_json (sorted_set (ad_capabilities a))),
     (''subject_digest'', JStr (ad_subject a)), (''authority_digest'', JStr (ad_authority a)),
     (''attempt_id'', JStr (ad_attempt a)), (''idempotency_key'', JStr (ad_key a)), (''action'', JStr (ad_action a)),
     (''step_plan_digest'', JStr (ad_plan a)), (''status'', JStr (ad_status a)), (''result_digest'', opt_text (ad_result a))]"

definition native_gate_fields :: "string list" where
  "native_gate_fields = [''subject_digest'', ''queue_subject_digest'', ''head_commit_sha'', ''protected_base_sha'',
     ''base_digest'', ''prospective_tree_digest'', ''required_checks_digest'', ''formal_review_digest'',
     ''verification_bundle_digest'', ''merge_admission_bundle_digest'', ''repository_rules_digest'',
     ''architecture_policy_digest'', ''toolchain_policy_digest'', ''environment_profile_digest'',
     ''security_policy_digest'', ''verification_policy_digest'', ''evidence_policy_digest'',
     ''authority_revalidation_digest'', ''finding_high_watermark_digest'', ''finding_source_set_digest'',
     ''finding_inventory_epochs_digest'', ''merge_result_digest'', ''merge_commit_sha'', ''merge_tree_digest'',
     ''merge_method_digest'', ''merge_actor_digest'']"

definition native_gate_json :: "evidence \<Rightarrow> json" where
  "native_gate_json e = JObj [
     (''decision'', JObj [(''admitted'', JBool True), (''outcome'', JStr ''PR_MERGED''), (''rollout_allowed'', JBool True)]),
     (''bindings'', texts (pick e native_gate_fields))]"

definition canary_subject_fields :: "string list" where
  "canary_subject_fields = [''subject_digest'', ''merge_commit_sha'', ''merge_digest'', ''artifact_digest'',
     ''configuration_digest'', ''migration_plan_digest'', ''deployment_target_digest'', ''rollout_plan_digest'',
     ''staging_digest'']"

definition production_scope_fields :: "string list" where
  "production_scope_fields = canary_subject_fields @ [''canary_id_digest'', ''canary_attempt_digest'', ''canary_status_digest'']"

definition production_scope_digest :: "runtime \<Rightarrow> evidence \<Rightarrow> string" where
  "production_scope_digest rt e = lc_digest rt (texts (pick e production_scope_fields))"

text \<open>\<^verbatim>\<open>mutation_subject_digest\<close> for one schema.\<close>

definition subject_digest_of :: "runtime \<Rightarrow> string list \<Rightarrow> evidence \<Rightarrow> string" where
  "subject_digest_of rt names e = lc_digest rt (texts (pick e names))"

section \<open>Budgets\<close>

definition budget_dimensions :: "string list" where
  "budget_dimensions = [''tokens'', ''credits'', ''elapsed_seconds'', ''external_compute_seconds'', ''spend_microunits'']"

definition budget_policy_ok :: "budget_policy \<Rightarrow> bool" where
  "budget_policy_ok p \<longleftrightarrow> bp_version p \<noteq> [] \<and> bp_approved_by p \<noteq> []
     \<and> set (map fst (bp_limits p)) = set budget_dimensions \<and> list_all (\<lambda>(_, n). n > 0) (bp_limits p)
     \<and> bp_per_finding p > 0 \<and> bp_per_stage p > 0 \<and> bp_safety p > 0"

definition no_usage :: budget_usage where
  "no_usage = \<lparr>bu_counters = [], bu_by_finding = [], bu_by_stage = [], bu_safety = 0\<rparr>"

definition exhausted :: "budget_usage \<Rightarrow> budget_policy \<Rightarrow> string list" where
  "exhausted u p = sort (map fst (filter (\<lambda>(k, limit). count_of (bu_counters u) k \<ge> limit) (bp_limits p)))"

definition safety_available :: "budget_usage \<Rightarrow> budget_policy \<Rightarrow> bool" where
  "safety_available u p \<longleftrightarrow> bu_safety u < bp_safety p"

definition merge_counts :: "(string \<times> int) list \<Rightarrow> (string \<times> int) list \<Rightarrow> (string \<times> int) list" where
  "merge_counts p s = map (\<lambda>k. (k, max (count_of p k) (count_of s k))) (sorted_set (map fst p @ map fst s))"

definition merge_usage :: "budget_usage \<Rightarrow> budget_usage \<Rightarrow> budget_usage" where
  "merge_usage prior supplied =
     \<lparr>bu_counters = merge_counts (bu_counters prior) (bu_counters supplied),
      bu_by_finding = merge_counts (bu_by_finding prior) (bu_by_finding supplied),
      bu_by_stage = merge_counts (bu_by_stage prior) (bu_by_stage supplied),
      bu_safety = max (bu_safety prior) (bu_safety supplied)\<rparr>"

definition lowered :: "(string \<times> int) list \<Rightarrow> (string \<times> int) list \<Rightarrow> string list" where
  "lowered p s = filter (\<lambda>k. count_of s k < count_of p k) (sorted_set (map fst p @ map fst s))"

definition regressions :: "budget_usage \<Rightarrow> budget_usage \<Rightarrow> string list" where
  "regressions prior supplied = lowered (bu_counters prior) (bu_counters supplied)
     @ map ((@) ''finding:'') (lowered (bu_by_finding prior) (bu_by_finding supplied))
     @ map ((@) ''stage:'') (lowered (bu_by_stage prior) (bu_by_stage supplied))
     @ (if bu_safety supplied < bu_safety prior then [''reserved_safety_units''] else [])"

text \<open>\<^verbatim>\<open>_merge_budget_usage(.., reject_lower=True)\<close>.\<close>

definition merge_strict :: "budget_usage \<Rightarrow> budget_usage \<Rightarrow> string + budget_usage" where
  "merge_strict prior supplied =
     (if regressions prior supplied \<noteq> []
      then Inl (''budget usage cannot decrease: '' @ join '', '' (sort (regressions prior supplied)))
      else Inr (merge_usage prior supplied))"

section \<open>Rollout\<close>

definition open_status :: "string list" where
  "open_status = [''ACTIVE'', ''UNKNOWN'']"

definition has_exposure :: "rollout_status \<Rightarrow> bool" where
  "has_exposure r \<longleftrightarrow> ro_canary r \<in> set open_status \<or> ro_production r \<in> set open_status"

definition has_resources :: "rollout_status \<Rightarrow> bool" where
  "has_resources r \<longleftrightarrow> ro_staging r \<in> set open_status \<or> has_exposure r"

definition busy :: "work_status \<Rightarrow> bool" where
  "busy w \<longleftrightarrow> wk_leases w \<noteq> 0 \<or> \<not> wk_stopped w"

section \<open>The ledger as evidence\<close>

definition applied :: "lifecycle_event \<Rightarrow> bool" where
  "applied e \<longleftrightarrow> le_outcome e = ''APPLIED''"

text \<open>\<^verbatim>\<open>next((event for event in reversed(self.events) if ..), None)\<close>.\<close>

definition latest :: "(lifecycle_event \<Rightarrow> bool) \<Rightarrow> control_plane \<Rightarrow> lifecycle_event option" where
  "latest P cp = List.find P (rev (cp_events cp))"

definition canary_binding :: "control_plane \<Rightarrow> lifecycle_event option" where
  "canary_binding = latest (\<lambda>e. le_reason e = ''canary_admitted''
     \<and> (applied e \<and> le_target e = CANARY_DEPLOYED \<or> le_kind e = ''CANARY_BINDING_ADMITTED''))"

definition review_binding :: "control_plane \<Rightarrow> lifecycle_event option" where
  "review_binding = latest (\<lambda>e. le_reason e \<in> {''formal_review_clear'', ''advisory_readiness_clear''}
     \<and> (applied e \<and> le_target e = PR_READY \<or> le_kind e = ''REVIEW_BINDING_ADMITTED''))"

definition merge_binding :: "control_plane \<Rightarrow> lifecycle_event option" where
  "merge_binding = latest (\<lambda>e. le_reason e = ''native_merge_linearized'' \<and> applied e \<and> le_target e = PR_MERGED)"

definition production_binding :: "control_plane \<Rightarrow> lifecycle_event option" where
  "production_binding = latest (\<lambda>e. applied e \<and> le_target e = PRODUCTION_DEPLOYED \<and> le_reason e = ''production_admitted'')"

text \<open>The evidence an event refers to; none without an event.\<close>

definition refs_of :: "lifecycle_event option \<Rightarrow> evidence" where
  "refs_of e = (case e of None \<Rightarrow> [] | Some e \<Rightarrow> le_refs e)"

definition phase_four :: "control_plane \<Rightarrow> bool" where
  "phase_four cp \<longleftrightarrow> lp_version (cp_policy cp) = ''phase-four-v1''"

definition staging_bindings :: "lc_env \<Rightarrow> control_plane \<Rightarrow> evidence \<Rightarrow> evidence" where
  "staging_bindings env cp e =
     [(''profile'', ''staging''), (''as_of'', lv_now_text env), (''subject_digest'', ev e ''subject_digest''),
      (''observed_merge_sha'', ev (refs_of (merge_binding cp)) ''merge_commit_sha''),
      (''observed_merge_tree_digest'', ev (refs_of (merge_binding cp)) ''merge_tree_digest'')]
     @ pick e [''artifact_digest'', ''configuration_digest'', ''finding_source_set_digest'',
         ''finding_inventory_epochs_digest'', ''authority_fence_digest'', ''staging_authorization_digest'']"

definition staging_bundle_valid :: "lc_env \<Rightarrow> control_plane \<Rightarrow> evidence \<Rightarrow> bool" where
  "staging_bundle_valid env cp e = sealed_bundle env (ev e ''evidence_bundle_digest'') (staging_bindings env cp e)"

definition readiness_bindings :: "lc_env \<Rightarrow> evidence \<Rightarrow> evidence" where
  "readiness_bindings env e = [(''profile'', ''candidate_review''), (''as_of'', lv_now_text env)]
     @ pick e [''subject_digest'', ''protected_base_sha'', ''reviewed_commit_sha'', ''prospective_tree_digest'',
         ''review_digest'', ''repository_rules_digest'', ''architecture_policy_digest'', ''toolchain_policy_digest'',
         ''environment_profile_digest'', ''security_policy_digest'', ''verification_policy_digest'',
         ''evidence_policy_digest'']"

definition readiness_bundle_valid :: "lc_env \<Rightarrow> evidence \<Rightarrow> bool" where
  "readiness_bundle_valid env e = sealed_bundle env (ev e ''verification_bundle_digest'') (readiness_bindings env e)"

definition admission_bindings :: "lc_env \<Rightarrow> evidence \<Rightarrow> evidence" where
  "admission_bindings env e =
     [(''profile'', ''merge_admission''), (''as_of'', lv_now_text env), (''subject_digest'', ev e ''subject_digest''),
      (''protected_base_sha'', ev e ''protected_base_sha''), (''pr_head_sha'', ev e ''head_commit_sha''),
      (''prospective_merge_tree_digest'', ev e ''prospective_tree_digest''),
      (''candidate_review_bundle_digest'', ev e ''verification_bundle_digest'')]
     @ pick e [''required_checks_digest'', ''formal_review_digest'', ''finding_high_watermark_digest'',
         ''finding_source_set_digest'', ''finding_inventory_epochs_digest'', ''authority_revalidation_digest'',
         ''repository_rules_digest'', ''architecture_policy_digest'', ''toolchain_policy_digest'',
         ''environment_profile_digest'', ''security_policy_digest'', ''verification_policy_digest'',
         ''evidence_policy_digest'']"

definition admission_bundle_valid :: "lc_env \<Rightarrow> evidence \<Rightarrow> bool" where
  "admission_bundle_valid env e = sealed_bundle env (ev e ''merge_admission_bundle_digest'') (admission_bindings env e)"

text \<open>The same value, or missing on both sides.\<close>

definition agree :: "evidence \<Rightarrow> evidence \<Rightarrow> string list \<Rightarrow> bool" where
  "agree e e' names \<longleftrightarrow> list_all (\<lambda>k. map_of e k = map_of e' k) names"

definition readiness_binding_valid :: "control_plane \<Rightarrow> evidence \<Rightarrow> bool" where
  "readiness_binding_valid cp e = (case review_binding cp of
      None \<Rightarrow> False
    | Some b \<Rightarrow> map_of e ''subject_digest'' = Some (cp_subject cp)
        \<and> map_of e ''head_commit_sha'' = map_of (le_refs b) ''reviewed_commit_sha''
        \<and> agree e (le_refs b) ([''prospective_tree_digest'', ''verification_bundle_digest''] @ phase_four_review_fields))"

definition staging_merge_valid :: "control_plane \<Rightarrow> evidence \<Rightarrow> bool" where
  "staging_merge_valid cp e = (case merge_binding cp of
      None \<Rightarrow> False
    | Some b \<Rightarrow> map_of e ''merge_digest'' = map_of (le_refs b) ''merge_result_digest'')"

section \<open>Trusted evidence\<close>

definition authority_digest_valid :: "runtime \<Rightarrow> authority_snapshot \<Rightarrow> bool" where
  "authority_digest_valid rt a \<longleftrightarrow> au_digest a = lc_digest rt (JObj [(''contract_version'', JStr (au_contract a)),
     (''publisher_version'', JStr (au_publisher a)), (''contract_active'', JBool (au_contract_active a)),
     (''publisher_active'', JBool (au_publisher_active a)), (''observed_at'', JStr (au_observed a)),
     (''valid_until'', JStr (au_valid_until a))])"

definition authority_current :: "authority_snapshot \<Rightarrow> bool" where
  "authority_current a \<longleftrightarrow> au_contract_active a \<and> au_publisher_active a \<and> au_contract a \<noteq> [] \<and> au_publisher a \<noteq> []
     \<and> au_observed a \<noteq> [] \<and> au_valid_until a \<noteq> [] \<and> au_digest a \<noteq> []"

definition current_at :: "runtime \<Rightarrow> lc_env \<Rightarrow> authority_snapshot \<Rightarrow> string \<Rightarrow> bool" where
  "current_at rt env a observed \<longleftrightarrow> authority_current a \<and> authority_digest_valid rt a \<and> observed \<noteq> []
     \<and> (case (time_of env (au_observed a), time_of env (au_valid_until a), time_of env observed) of
          (Some (Aware s), Some (Aware u), Some (Aware t)) \<Rightarrow> s = t \<and> t < u
        | _ \<Rightarrow> False)"

definition trusted_work :: "runtime \<Rightarrow> lc_env \<Rightarrow> control_plane \<Rightarrow> transition_context \<Rightarrow> bool" where
  "trusted_work rt env cp ctx =
     (let e = cx_evidence ctx; controller = ev e ''work_controller_id''; authority = ev e ''work_controller_authority_digest'';
          observed = ev e ''work_control_observed_at''; work = lc_digest rt (work_json (cx_work ctx));
          report = (\<lambda>epoch_name epoch status. lc_digest rt (texts [(''controller_id'', controller),
            (''authority_digest'', authority), (''subject_digest'', cp_subject cp), (''work_digest'', work),
            (epoch_name, epoch), (''observed_at'', observed), (''status'', status)]));
          quiescence = report ''lease_epoch_digest'' (ev e ''work_lease_epoch_digest'') ''QUIESCED'';
          revocation = report ''capability_epoch_digest'' (ev e ''mutation_capability_epoch_digest'') ''REVOKED''
      in observed = cx_observed ctx \<and> is_digest_str (ev e ''work_lease_epoch_digest'')
         \<and> is_digest_str (ev e ''mutation_capability_epoch_digest'')
         \<and> map_of e ''worker_quiescence_digest'' = Some quiescence \<and> map_of e ''mutation_revocation_digest'' = Some revocation
         \<and> attested env (tp_work (cp_trust cp)) controller authority
             (texts [(''controller_id'', controller), (''authority_digest'', authority), (''subject_digest'', cp_subject cp),
               (''quiescence_digest'', quiescence), (''revocation_digest'', revocation), (''observed_at'', observed)])
             (ev e ''work_control_authentication_evidence_digest''))"

definition trusted_repository :: "runtime \<Rightarrow> lc_env \<Rightarrow> control_plane \<Rightarrow> transition_context \<Rightarrow> evidence \<Rightarrow> bool" where
  "trusted_repository rt env cp ctx review_inputs =
     (let e = cx_evidence ctx; observer = ev e ''repository_observer_id'';
          authority = ev e ''repository_observer_authority_digest''; observed = ev e ''repository_observed_at'';
          observation = lc_digest rt (JObj [(''observer_id'', JStr observer), (''authority_digest'', JStr authority),
            (''subject_digest'', JStr (cp_subject cp)), (''review_inputs'', texts review_inputs), (''observed_at'', JStr observed)])
      in observed = cx_observed ctx \<and> map_of e ''repository_observation_digest'' = Some observation
         \<and> attested env (tp_repository (cp_trust cp)) observer authority
             (texts [(''observer_id'', observer), (''authority_digest'', authority), (''subject_digest'', cp_subject cp),
               (''observation_digest'', observation), (''observed_at'', observed)])
             (ev e ''repository_observation_authentication_evidence_digest''))"

definition trusted_budget :: "runtime \<Rightarrow> lc_env \<Rightarrow> control_plane \<Rightarrow> transition_context \<Rightarrow> bool" where
  "trusted_budget rt env cp ctx =
     (let e = cx_evidence ctx; meter = ev e ''budget_meter_id''; authority = ev e ''budget_meter_authority_digest'';
          usage = lc_digest rt (usage_json (cx_usage ctx))
      in map_of e ''budget_usage_digest'' = Some usage
         \<and> attested env (tp_meters (cp_trust cp)) meter authority
             (texts [(''meter_id'', meter), (''authority_digest'', authority), (''subject_digest'', cp_subject cp),
               (''budget_policy_digest'', lc_digest rt (budget_policy_json (cp_budget cp))), (''budget_usage_digest'', usage),
               (''observed_at'', cx_observed ctx)])
             (ev e ''budget_meter_authentication_evidence_digest''))"

text \<open>The times of the applied transitions.\<close>

definition prior_times :: "lc_env \<Rightarrow> control_plane \<Rightarrow> stamp option list" where
  "prior_times env cp = map (\<lambda>e. time_of env (le_observed e))
     (filter (\<lambda>e. le_kind e = ''TRANSITION'' \<and> applied e \<and> le_observed e \<noteq> []) (cp_events cp))"

definition is_aware :: "stamp option \<Rightarrow> bool" where
  "is_aware s = (case s of Some (Aware _) \<Rightarrow> True | _ \<Rightarrow> False)"

text \<open>
  \<^verbatim>\<open>max\<close> over times that are parsed one by one: a malformed time ends it with False, a time
  that cannot be compared with the ones before it, for its time zone, with an exception.
\<close>

fun times_comparable :: "bool option \<Rightarrow> stamp option list \<Rightarrow> lc_error + bool" where
  "times_comparable seen [] = Inr True"
| "times_comparable seen (None # ts) = Inr False"
| "times_comparable seen (Some t # ts) = (if seen \<noteq> None \<and> seen \<noteq> Some (is_aware (Some t)) then Inl Type_fault
     else times_comparable (Some (is_aware (Some t))) ts)"

definition not_after :: "int \<Rightarrow> stamp option \<Rightarrow> bool" where
  "not_after t s = (case s of Some (Aware p) \<Rightarrow> p \<le> t | _ \<Rightarrow> False)"

definition trusted_authority :: "runtime \<Rightarrow> lc_env \<Rightarrow> control_plane \<Rightarrow> transition_context \<Rightarrow> lc_error + bool" where
  "trusted_authority rt env cp ctx =
     (let e = cx_evidence ctx; observer = ev e ''authority_observer_id'';
          authority = ev e ''authority_observer_authority_digest''; a = cx_authority ctx; prior = prior_times env cp in
      case (time_of env (cx_observed ctx), time_of env (ev e ''authority_current_time''), time_of env (au_valid_until a)) of
        (Some t, Some n, Some u) \<Rightarrow>
          bindr (times_comparable None prior) (\<lambda>ok. if \<not> ok then Inr False else case (t, n, u) of
              (Aware t, Aware n, Aware u) \<Rightarrow> Inr (list_all (not_after t) prior \<and> t \<le> n \<and> n < u
                \<and> current_at rt env a (cx_observed ctx)
                \<and> attested env (tp_authority (cp_trust cp)) observer authority
                    (JObj [(''observer_id'', JStr observer), (''authority_digest'', JStr authority),
                      (''subject_digest'', JStr (cp_subject cp)), (''contract_version'', JStr (au_contract a)),
                      (''publisher_version'', JStr (au_publisher a)), (''contract_active'', JBool (au_contract_active a)),
                      (''publisher_active'', JBool (au_publisher_active a)), (''authority_observed_at'', JStr (au_observed a)),
                      (''valid_until'', JStr (au_valid_until a)), (''transition_observed_at'', JStr (cx_observed ctx)),
                      (''authority_current_time'', JStr (ev e ''authority_current_time''))])
                    (ev e ''authority_authentication_evidence_digest''))
            | _ \<Rightarrow> Inr False)
      | _ \<Rightarrow> Inr False)"

definition five_minutes :: int where
  "five_minutes = 5 * 60 * 1000000"

text \<open>The window of one finding inventory, when it is fit and attested.\<close>

definition inventory_window ::
  "lc_env \<Rightarrow> control_plane \<Rightarrow> evidence \<Rightarrow> string \<times> string \<Rightarrow> (int \<times> int) option" where
  "inventory_window env cp e = (\<lambda>(source, authority).
     let name = (\<lambda>suffix. ''finding_inventory_'' @ source @ suffix);
         digest = ev e (name ''_digest''); observed = ev e (name ''_observed_at''); expires = ev e (name ''_expires_at'') in
     case (time_of env observed, time_of env expires) of
       (Some (Aware s), Some (Aware t)) \<Rightarrow>
         if 0 < t - s \<and> t - s \<le> five_minutes \<and> is_digest_str digest
            \<and> verify_external env source authority (texts [(''source_id'', source), (''authority_digest'', authority),
                (''subject_digest'', cp_subject cp), (''inventory_digest'', digest), (''status'', ''NO_BLOCKING''),
                (''observed_at'', observed), (''expires_at'', expires)])
              (ev e (name ''_authentication_evidence_digest''))
         then Some (s, t) else None
     | _ \<Rightarrow> None)"

definition trusted_inventory :: "runtime \<Rightarrow> lc_env \<Rightarrow> control_plane \<Rightarrow> transition_context \<Rightarrow> bool" where
  "trusted_inventory rt env cp ctx =
     (let e = cx_evidence ctx; sources = tp_findings (cp_trust cp); windows = map (inventory_window env cp e) sources in
      sources \<noteq> [] \<and> map_of e ''finding_source_set_digest'' = Some (lc_digest rt (texts sources))
      \<and> None \<notin> set windows
      \<and> map_of e ''finding_inventory_epochs_digest'' = Some (lc_digest rt
          (texts (map (\<lambda>(source, _). (source, ev e (''finding_inventory_'' @ source @ ''_digest''))) sources)))
      \<and> list_all (\<lambda>w. case w of None \<Rightarrow> False | Some (s, t) \<Rightarrow> s \<le> lv_now env \<and> lv_now env \<le> t) windows)"

text \<open>
  The observers that attest a fixed list of evidence: their identity and authority are named by
  the evidence, the payload is the subject, the listed members and the time.
\<close>

definition observed_payload ::
  "control_plane \<Rightarrow> transition_context \<Rightarrow> string \<Rightarrow> string \<Rightarrow> string list \<Rightarrow> evidence" where
  "observed_payload cp ctx observer authority names =
     [(''observer_id'', observer), (''authority_digest'', authority), (''subject_digest'', cp_subject cp)]
     @ pick (cx_evidence ctx) names @ [(''observed_at'', cx_observed ctx)]"

definition observed_by ::
  "lc_env \<Rightarrow> control_plane \<Rightarrow> transition_context \<Rightarrow> evidence \<Rightarrow> string \<Rightarrow> string \<Rightarrow> string list \<Rightarrow> string \<Rightarrow> bool" where
  "observed_by env cp ctx trusted id_name authority_name names proof_name =
     (let e = cx_evidence ctx in
      attested env trusted (ev e id_name) (ev e authority_name)
        (texts (observed_payload cp ctx (ev e id_name) (ev e authority_name) names)) (ev e proof_name))"

definition deployment_fields :: "string list" where
  "deployment_fields = [''release_sha'', ''artifact_digest'', ''configuration_digest'', ''production_attempt_digest'',
     ''production_result_digest'']"

definition trusted_live :: "lc_env \<Rightarrow> control_plane \<Rightarrow> transition_context \<Rightarrow> bool" where
  "trusted_live env cp ctx =
     (let e = cx_evidence ctx;
          names = deployment_fields @ [''live_verification_digest'', ''rollback_readiness_digest'', ''observation_window_digest'']
      in list_all (\<lambda>(k, v). ends_with ''digest'' k \<longrightarrow> is_digest_str v)
           (observed_payload cp ctx (ev e ''live_observer_id'') (ev e ''live_observer_authority_digest'') names)
         \<and> observed_by env cp ctx (tp_live (cp_trust cp)) ''live_observer_id'' ''live_observer_authority_digest'' names
             ''live_observation_authentication_evidence_digest'')"

definition trusted_live_failure :: "lc_env \<Rightarrow> control_plane \<Rightarrow> transition_context \<Rightarrow> bool" where
  "trusted_live_failure env cp ctx = (case production_binding cp of
      None \<Rightarrow> False
    | Some b \<Rightarrow> agree (cx_evidence ctx) (le_refs b) (''subject_digest'' # deployment_fields)
        \<and> observed_by env cp ctx (tp_live (cp_trust cp)) ''live_failure_observer_id''
            ''live_failure_observer_authority_digest'' (deployment_fields @ [''live_failure_digest'', ''telemetry_digest''])
            ''live_failure_authentication_evidence_digest'')"

definition canary_proof_fields :: "string list" where
  "canary_proof_fields = [''canary_id_digest'', ''canary_attempt_digest'', ''canary_status_digest'']"

definition trusted_canary_window :: "lc_env \<Rightarrow> control_plane \<Rightarrow> transition_context \<Rightarrow> bool" where
  "trusted_canary_window env cp ctx = observed_by env cp ctx (tp_live (cp_trust cp)) ''canary_window_observer_id''
     ''canary_window_observer_authority_digest'' (canary_proof_fields @ [''slo_window_digest''])
     ''canary_window_authentication_evidence_digest''"

definition trusted_canary_breach :: "lc_env \<Rightarrow> control_plane \<Rightarrow> transition_context \<Rightarrow> bool" where
  "trusted_canary_breach env cp ctx = observed_by env cp ctx (tp_live (cp_trust cp)) ''canary_breach_observer_id''
     ''canary_breach_observer_authority_digest'' (canary_proof_fields @ [''canary_failure_digest''])
     ''canary_breach_authentication_evidence_digest''"

definition removed_status :: "string list" where
  "removed_status = [''NONE'', ''REMOVED'']"

definition trusted_canary_teardown :: "lc_env \<Rightarrow> control_plane \<Rightarrow> transition_context \<Rightarrow> bool" where
  "trusted_canary_teardown env cp ctx \<longleftrightarrow> ro_canary (cx_rollout ctx) \<in> set removed_status
     \<and> observed_by env cp ctx (tp_live (cp_trust cp)) ''canary_teardown_observer_id''
         ''canary_teardown_observer_authority_digest'' [''canary_teardown_digest'', ''zero_resource_digest'']
         ''canary_teardown_authentication_evidence_digest''"

definition trusted_rollback :: "runtime \<Rightarrow> lc_env \<Rightarrow> control_plane \<Rightarrow> transition_context \<Rightarrow> bool" where
  "trusted_rollback rt env cp ctx =
     (let e = cx_evidence ctx; observer = ev e ''live_observer_id''; authority = ev e ''live_observer_authority_digest'' in
      attested env (tp_live (cp_trust cp)) observer authority
        (texts ([(''observer_id'', observer), (''authority_digest'', authority), (''subject_digest'', cp_subject cp),
           (''rollout_digest'', lc_digest rt (rollout_json (cx_rollout ctx)))]
          @ pick e [''rollback_exposure_digest'', ''restoration_verification_digest''] @ [(''observed_at'', cx_observed ctx)]))
        (ev e ''rollback_observation_authentication_evidence_digest''))"

definition trigger_digest :: "evidence \<Rightarrow> string" where
  "trigger_digest e = (case map_of e ''incident_digest'' of Some d \<Rightarrow> d | None \<Rightarrow> ev e ''safe_state_digest'')"

definition trusted_monitor :: "lc_env \<Rightarrow> control_plane \<Rightarrow> transition_context \<Rightarrow> bool" where
  "trusted_monitor env cp ctx =
     (let e = cx_evidence ctx; monitor = ev e ''integrity_monitor_id''; authority = ev e ''integrity_monitor_authority_digest'' in
      monitor = ac_id (cx_actor ctx)
      \<and> attested env (tp_monitors (cp_trust cp)) monitor authority
          (texts [(''monitor_id'', monitor), (''authority_digest'', authority), (''subject_digest'', cp_subject cp),
            (''actor_id'', ac_id (cx_actor ctx)), (''role'', ac_role (cx_actor ctx)), (''trigger_digest'', trigger_digest e),
            (''observed_at'', cx_observed ctx)])
          (ev e ''integrity_monitor_authentication_evidence_digest''))"

definition trusted_resume_gate ::
  "lc_env \<Rightarrow> control_plane \<Rightarrow> transition_context \<Rightarrow> lifecycle_event \<Rightarrow> lifecycle_state \<Rightarrow> bool" where
  "trusted_resume_gate env cp ctx stopped target =
     (let e = cx_evidence ctx; observer = ev e ''resume_observer_id''; authority = ev e ''resume_observer_authority_digest'' in
      attested env (tp_repository (cp_trust cp)) observer authority
        (texts ([(''observer_id'', observer), (''authority_digest'', authority), (''subject_digest'', cp_subject cp),
            (''stopped_event_digest'', le_digest stopped), (''stopped_reason'', le_reason stopped),
            (''resume_target'', state_text target)]
          @ pick e [''incident_closure_digest'', ''restored_capability_digest'', ''unchanged_inputs_digest'']
          @ [(''observed_at'', cx_observed ctx)]))
        (ev e ''resume_authentication_evidence_digest''))"

definition trusted_finding :: "lc_env \<Rightarrow> control_plane \<Rightarrow> transition_context \<Rightarrow> finding_signal \<Rightarrow> bool" where
  "trusted_finding env cp ctx f =
     (let authority = ev (tp_findings (cp_trust cp)) (fs_source f) in
      authority \<noteq> [] \<and> verify_external env (fs_source f) authority
        (JObj [(''finding'', signal_json f), (''subject_digest'', JStr (cp_subject cp)), (''observed_at'', JStr (cx_observed ctx))])
        (ev (cx_evidence ctx) ''finding_authentication_evidence_digest''))"

definition normalized_finding :: "lc_env \<Rightarrow> finding_signal option \<Rightarrow> string \<Rightarrow> string list \<Rightarrow> bool" where
  "normalized_finding env f subject dispositions = (case f of
      None \<Rightarrow> False
    | Some f \<Rightarrow> is_finding_id (fs_id f) \<and> is_finding_source (fs_source f) \<and> fs_subject f = subject
        \<and> lv_upper env (fs_severity f) \<in> {''CRITICAL'', ''HIGH'', ''MEDIUM''} \<and> fs_credible f \<and> fs_blocking f
        \<and> fs_category f = ''ENGINEERING'' \<and> fs_disposition f \<in> set dispositions \<and> is_digest_str (fs_scope f))"

definition malformed_evidence :: "evidence \<Rightarrow> string list \<Rightarrow> string list" where
  "malformed_evidence e names = sort (filter (\<lambda>k.
     if ends_with ''_sha'' k then \<not> is_git_sha (ev e k) else ends_with ''_digest'' k \<and> \<not> is_digest_str (ev e k)) names)"

definition actor_valid :: "runtime \<Rightarrow> lc_env \<Rightarrow> control_plane \<Rightarrow> transition_context \<Rightarrow> bool" where
  "actor_valid rt env cp ctx =
     (let a = cx_actor ctx in ac_id a \<noteq> [] \<and> ac_role a \<noteq> [] \<and> ac_authenticated a \<and> ac_subject a = cp_subject cp
      \<and> ac_authority a = au_digest (cx_authority ctx) \<and> authority_digest_valid rt (cx_authority ctx)
      \<and> is_digest_str (ac_authority a) \<and> verify_external env (ac_id a) (ac_authority a) (actor_json a) (ac_proof a))"

section \<open>The ledger\<close>

record event_draft =
  dr_kind :: string
  dr_outcome :: string
  dr_source :: lifecycle_state
  dr_target :: lifecycle_state
  dr_reason :: string
  dr_actor :: string
  dr_refs :: evidence
  dr_observed :: string
  dr_usage :: "budget_usage option"
  dr_resume :: "lifecycle_state option"
  dr_detail :: string

type_synonym 'a lc_outcome = "(lc_error + 'a) \<times> control_plane \<times> lc_dir"

definition locked :: "control_plane \<Rightarrow> lc_dir \<Rightarrow> 'a lc_outcome \<Rightarrow> 'a lc_outcome" where
  "locked cp d result = (case ld_identity d of
      None \<Rightarrow> (Inl (Denied ''lifecycle run directory is missing''), cp, d)
    | Some i \<Rightarrow> if i \<noteq> cp_identity cp then (Inl (Denied ''lifecycle run directory was replaced''), cp, d) else result)"

definition head_digest :: "control_plane \<Rightarrow> string" where
  "head_digest cp = (if cp_events cp = [] then [] else le_digest (last (cp_events cp)))"

definition persisted_head :: "runtime \<Rightarrow> lc_dir \<Rightarrow> string" where
  "persisted_head rt d = (if ld_ledger d = [] then []
     else py_str (rt_repr rt) (get_or (last (ld_ledger d)) ''event_digest'' (JStr [])))"

definition lc_event_body :: "runtime \<Rightarrow> control_plane \<Rightarrow> event_draft \<Rightarrow> obj" where
  "lc_event_body rt cp dr =
     [(''sequence'', JInt (int (length (cp_events cp) + 1))), (''kind'', JStr (dr_kind dr)), (''outcome'', JStr (dr_outcome dr)),
      (''source'', JStr (state_text (dr_source dr))), (''target'', JStr (state_text (dr_target dr))),
      (''reason'', JStr (dr_reason dr)), (''actor'', JStr (dr_actor dr)), (''subject_digest'', JStr (cp_subject cp)),
      (''policy_digest'', JStr (lp_digest (cp_policy cp))), (''evidence_digest'', JStr (lc_digest rt (texts (dr_refs dr)))),
      (''evidence_refs'', texts (dr_refs dr)), (''budget_usage'', case dr_usage dr of None \<Rightarrow> JNull | Some u \<Rightarrow> usage_json u),
      (''observed_at'', JStr (dr_observed dr)),
      (''resume_state'', case dr_resume dr of None \<Rightarrow> JNull | Some s \<Rightarrow> JStr (state_text s)),
      (''previous_digest'', JStr (head_digest cp)), (''detail'', JStr (dr_detail dr))]"

definition event_of :: "runtime \<Rightarrow> control_plane \<Rightarrow> event_draft \<Rightarrow> lifecycle_event" where
  "event_of rt cp dr =
     \<lparr>le_sequence = length (cp_events cp) + 1, le_kind = dr_kind dr, le_outcome = dr_outcome dr, le_source = dr_source dr,
      le_target = dr_target dr, le_reason = dr_reason dr, le_actor = dr_actor dr, le_subject = cp_subject cp,
      le_policy = lp_digest (cp_policy cp), le_evidence = lc_digest rt (texts (dr_refs dr)), le_refs = dr_refs dr,
      le_usage = dr_usage dr, le_observed = dr_observed dr, le_resume = dr_resume dr, le_previous = head_digest cp,
      le_digest = lc_digest rt (JObj (lc_event_body rt cp dr)), le_detail = dr_detail dr\<rparr>"

text \<open>\<^verbatim>\<open>_append\<close>: the expected digest of the budget policy, and the policy it admits, if any.\<close>

definition record_event ::
  "runtime \<Rightarrow> control_plane \<Rightarrow> lc_dir \<Rightarrow> event_draft \<Rightarrow> string option \<Rightarrow> budget_policy option \<Rightarrow> lifecycle_event lc_outcome" where
  "record_event rt cp d dr expected admitted = locked cp d
     (if length (ld_ledger d) \<noteq> length (cp_events cp) \<or> persisted_head rt d \<noteq> head_digest cp
      then (Inl (Denied ''stale lifecycle writer lost the append compare-and-swap''), cp, d)
      else if expected \<noteq> None \<and> Some (lc_digest rt (budget_policy_json (cp_budget cp))) \<noteq> expected
      then (Inl (Denied ''stale budget policy admission lost compare-and-swap''), cp, d)
      else let e = event_of rt cp dr in
        (Inr e,
         cp\<lparr>cp_events := cp_events cp @ [e], cp_budget := (case admitted of None \<Rightarrow> cp_budget cp | Some p \<Rightarrow> p)\<rparr>,
         d\<lparr>ld_ledger := ld_ledger d @ [lc_event_body rt cp dr @ [(''event_digest'', JStr (le_digest e))]]\<rparr>))"

definition deny ::
  "runtime \<Rightarrow> lc_env \<Rightarrow> control_plane \<Rightarrow> lc_dir \<Rightarrow> lifecycle_state \<Rightarrow> transition_context \<Rightarrow> string \<Rightarrow> string \<Rightarrow> 'a lc_outcome" where
  "deny rt env cp d target ctx reason detail =
     (let usage = (if trusted_budget rt env cp ctx
        then merge_usage (cp_usage cp) ((cx_usage ctx)\<lparr>bu_safety := bu_safety (cp_usage cp)\<rparr>) else cp_usage cp) in
      case record_event rt cp d
        \<lparr>dr_kind = ''TRANSITION'', dr_outcome = ''DENIED'', dr_source = cp_state cp, dr_target = target, dr_reason = reason,
         dr_actor = ac_id (cx_actor ctx), dr_refs = cx_evidence ctx, dr_observed = cx_observed ctx, dr_usage = Some usage,
         dr_resume = None, dr_detail = detail\<rparr> None None of
        (Inl err, cp', d') \<Rightarrow> (Inl err, cp', d')
      | (Inr _, cp', d') \<Rightarrow> (Inl (Denied detail), cp'\<lparr>cp_usage := usage\<rparr>, d'))"

section \<open>The mutation journal\<close>

definition str_field :: "runtime \<Rightarrow> obj \<Rightarrow> string \<Rightarrow> lc_error + string" where
  "str_field rt d k = (case map_of d k of None \<Rightarrow> Inl Key_fault | Some v \<Rightarrow> Inr (py_str (rt_repr rt) v))"

text \<open>\<^verbatim>\<open>tuple(str(step) for step in raw.get("steps", ()))\<close>.\<close>

definition steps_field :: "runtime \<Rightarrow> obj \<Rightarrow> lc_error + string list" where
  "steps_field rt d = (case map_of d ''steps'' of
      None \<Rightarrow> Inr []
    | Some (JList xs) \<Rightarrow> Inr (map (py_str (rt_repr rt)) xs)
    | Some (JStr s) \<Rightarrow> Inr (code_points s)
    | Some (JObj o') \<Rightarrow> Inr (map fst o')
    | Some _ \<Rightarrow> Inl Type_fault)"

definition attempt_ok :: "mutation_attempt \<Rightarrow> lc_error + mutation_attempt" where
  "attempt_ok a =
     (if ma_id a = [] \<or> ma_key a = [] \<or> ma_subject a = [] \<or> ma_action a = [] \<or> ma_plan a = []
      then Inl (Broken ''mutation attempt metadata is incomplete'')
      else if ma_status a \<noteq> ''PLANNED'' then Inl (Broken ''a mutation attempt must be pre-journaled as PLANNED'')
      else Inr a)"

definition read_attempt :: "runtime \<Rightarrow> obj \<Rightarrow> lc_error + mutation_attempt" where
  "read_attempt rt record =
     (let supplied = py_str (rt_repr rt) (get_or record ''record_digest'' (JStr [])); raw = ddel ''record_digest'' record in
      if lc_digest rt (JObj raw) \<noteq> supplied then Inl (Broken ''lifecycle mutation journal digest is invalid'')
      else bindr (str_field rt raw ''attempt_id'') (\<lambda>i. bindr (str_field rt raw ''idempotency_key'') (\<lambda>k.
        bindr (str_field rt raw ''subject_digest'') (\<lambda>s. bindr (str_field rt raw ''action'') (\<lambda>a.
        bindr (str_field rt raw ''step_plan_digest'') (\<lambda>p. bindr (str_field rt raw ''status'') (\<lambda>st.
        bindr (steps_field rt raw) (\<lambda>steps. attempt_ok
          \<lparr>ma_id = i, ma_key = k, ma_subject = s, ma_action = a, ma_plan = p, ma_status = st, ma_steps = steps\<rparr>))))))))"

fun read_attempts :: "runtime \<Rightarrow> (string \<times> mutation_attempt) list \<Rightarrow> obj list \<Rightarrow> lc_error + (string \<times> mutation_attempt) list" where
  "read_attempts rt seen [] = Inr seen"
| "read_attempts rt seen (r # rs) = bindr (read_attempt rt r) (\<lambda>a.
     if map_of seen (ma_key a) \<noteq> None \<and> map_of seen (ma_key a) \<noteq> Some a
     then Inl (Broken ''lifecycle mutation journal reuses an idempotency key'')
     else read_attempts rt (dput (ma_key a) a seen) rs)"

text \<open>\<^verbatim>\<open>_require_prejournaled\<close>: an error of the journal, or the reason of a denial.\<close>

definition journal_fault :: "runtime \<Rightarrow> lc_dir \<Rightarrow> mutation_attempt \<Rightarrow> lc_error + string option" where
  "journal_fault rt d a = bindr (read_attempts rt [] (ld_journal d)) (\<lambda>attempts. Inr (case map_of attempts (ma_key a) of
      None \<Rightarrow> Some ''mutation attempt is not durably pre-journaled''
    | Some b \<Rightarrow> if b \<noteq> a then Some ''idempotency key is already bound to a different complete mutation plan'' else None))"

section \<open>The checks of a transition\<close>

text \<open>A check raises, fails with the message of the denial, or passes.\<close>

type_synonym check = "lc_error + string option"

definition fails :: "bool \<Rightarrow> string \<Rightarrow> check" where
  "fails b message = Inr (if b then Some message else None)"

fun first_fault :: "check list \<Rightarrow> check" where
  "first_fault [] = Inr None"
| "first_fault (Inl e # cs) = Inl e"
| "first_fault (Inr (Some m) # cs) = Inr (Some m)"
| "first_fault (Inr None # cs) = first_fault cs"

abbreviation guarded :: "transition_rule \<Rightarrow> string \<Rightarrow> check list \<Rightarrow> check list" where
  "guarded rule name checks \<equiv> (if name \<in> set (ru_guards rule) then checks else [])"

definition frozen_dispositions :: "string list" where
  "frozen_dispositions = [''frozen-unverified-non-admissible'', ''disposed-unverified-non-admissible'']"

definition evidence_checks :: "control_plane \<Rightarrow> transition_context \<Rightarrow> transition_rule \<Rightarrow> check list" where
  "evidence_checks cp ctx rule =
     (let e = cx_evidence ctx; missing = filter (\<lambda>k. ev e k = []) (ru_evidence rule); malformed = malformed_evidence e (ru_evidence rule) in
      [fails (ru_permission rule \<notin> set (ac_capabilities (cx_actor ctx))) ''actor authority lacks the required capability'',
       fails (missing \<noteq> []) (''required evidence is missing: '' @ join '', '' (sort missing)),
       fails (malformed \<noteq> []) (''required evidence is not a canonical digest: '' @ join '', '' malformed),
       fails (map_of e ''subject_digest'' \<noteq> None \<and> map_of e ''subject_digest'' \<noteq> Some (cp_subject cp))
         ''subject evidence does not match the lifecycle subject''])"

definition rollout_checks ::
  "runtime \<Rightarrow> lc_env \<Rightarrow> control_plane \<Rightarrow> transition_context \<Rightarrow> lifecycle_state \<Rightarrow> string \<Rightarrow> transition_rule \<Rightarrow> budget_usage \<Rightarrow> check list" where
  "rollout_checks rt env cp ctx target reason rule usage =
     (let canary = ro_canary (cx_rollout ctx) in
      [fails (target = STAGING_FAILED \<and> has_resources (cx_rollout ctx)) ''staging failure requires zero rollout-owned resources'',
       fails (''budget'' \<in> set (ru_guards rule) \<and> \<not> trusted_budget rt env cp ctx) ''trusted complete budget telemetry is required'',
       fails (cp_state cp = CANARY_DEPLOYED \<and> canary \<notin> set open_status)
         ''canary exposure is not evidenced; zero exposure cannot be inferred'',
       fails (reason = ''canary_mutation_indeterminate'' \<and> canary \<noteq> ''UNKNOWN'')
         ''indeterminate canary mutation requires unknown canary exposure'',
       fails (reason = ''canary_breach'' \<and> canary \<notin> set open_status) ''canary breach requires evidenced exposure'']
      @ guarded rule ''authority'' [bindr (trusted_authority rt env cp ctx)
          (\<lambda>ok. fails (\<not> ok) ''contract or publisher authority is not current'')]
      @ guarded rule ''budget'' [fails (exhausted usage (cp_budget cp) \<noteq> []) ''delivery budget is exhausted''])"

definition finding_checks :: "runtime \<Rightarrow> lc_env \<Rightarrow> control_plane \<Rightarrow> transition_context \<Rightarrow> transition_rule \<Rightarrow> check list" where
  "finding_checks rt env cp ctx rule =
     (let e = cx_evidence ctx; source = ev e ''finding_disposition_source_id'';
          authority = ev e ''finding_disposition_authority_digest'' in
      guarded rule ''no_blocking_finding'' (
        fails (\<not> trusted_inventory rt env cp ctx) ''current trusted finding inventory is required for promotion''
        # (case cx_finding ctx of
             None \<Rightarrow> []
           | Some f \<Rightarrow> if fs_credible f \<and> fs_blocking f
               then [fails (fs_subject f \<noteq> cp_subject cp) ''blocking finding subject does not match the lifecycle subject'',
                     fails True ''a pending blocking finding prohibits staging'']
               else []))
      @ guarded rule ''finding_disposition'' [fails (\<not> (map_of (tp_findings (cp_trust cp)) source = Some authority
            \<and> verify_external env source authority (texts ([(''source_id'', source), (''authority_digest'', authority),
                (''subject_digest'', cp_subject cp)] @ pick e [''finding_digest'', ''finding_disposition_digest'']
                @ [(''observed_at'', cx_observed ctx)]))
              (ev e ''finding_disposition_authentication_evidence_digest'')))
          ''finding disposition is not independently authenticated'']
      @ guarded rule ''canary_window'' [fails (\<not> trusted_canary_window env cp ctx)
          ''trusted exact-canary window evidence is required for promotion'']
      @ guarded rule ''canary_breach'' [fails (\<not> trusted_canary_breach env cp ctx)
          ''trusted exact-canary breach evidence is required''])"

definition work_bound :: "runtime \<Rightarrow> lc_env \<Rightarrow> control_plane \<Rightarrow> transition_context \<Rightarrow> bool" where
  "work_bound rt env cp ctx \<longleftrightarrow>
     map_of (cx_evidence ctx) ''work_disposition_digest'' = Some (lc_digest rt (work_json (cx_work ctx)))
     \<and> trusted_work rt env cp ctx"

definition candidate_states :: "lifecycle_state list" where
  "candidate_states = [DRAFT_PR_OPEN, IMPLEMENTATION_IN_PROGRESS, VERIFICATION_FAILED, REPAIR_IN_PROGRESS,
     REVIEW_REQUIRED, REVIEW_FAILED, PR_READY]"

definition drift_checks :: "runtime \<Rightarrow> lc_env \<Rightarrow> control_plane \<Rightarrow> transition_context \<Rightarrow> check list" where
  "drift_checks rt env cp ctx =
     [fails (has_resources (cx_rollout ctx)) ''repository drift requires zero rollout resources'',
      fails (busy (cx_work ctx)) ''repository drift workers are not quiescent'',
      fails (wk_capability (cx_work ctx)) ''repository drift mutation capability remains active'',
      fails (wk_disposition (cx_work ctx) \<notin> set frozen_dispositions
          \<and> \<not> (cp_state cp \<notin> set candidate_states \<and> wk_disposition (cx_work ctx) = ''none''))
        ''repository drift partial work has no safe disposition'',
      fails (\<not> work_bound rt env cp ctx) ''repository drift work evidence is not bound to the quiesced state'']"

definition incident_checks :: "runtime \<Rightarrow> lc_env \<Rightarrow> control_plane \<Rightarrow> transition_context \<Rightarrow> check list" where
  "incident_checks rt env cp ctx =
     (let e = cx_evidence ctx; artifact = ev e ''affected_artifact_digest''; status = ev e ''quarantine_disposition_status'' in
      [fails (status \<notin> {''FAILED'', ''UNKNOWN''}) ''quarantine disposition failure must be failed or indeterminate'',
       fails (busy (cx_work ctx)) ''security-incident workers must be quiescent'',
       fails (wk_capability (cx_work ctx)) ''security-incident mutation capability remains active'',
       fails (wk_disposition (cx_work ctx) \<noteq> ''quarantined-unresolved'')
         ''affected artifact must remain truthfully quarantined and unresolved'',
       fails (map_of e ''quarantine_disposition_digest'' \<noteq> Some (lc_digest rt (texts [(''affected_artifact_digest'', artifact),
             (''subject_digest'', cp_subject cp), (''status'', status)]))
           \<or> map_of e ''exposure_digest'' \<noteq> Some (lc_digest rt (JObj [(''affected_artifact_digest'', JStr artifact),
             (''subject_digest'', JStr (cp_subject cp)), (''rollout'', rollout_json (cx_rollout ctx))]))
           \<or> map_of e ''retry_gate_digest'' \<noteq> Some (lc_digest rt (texts [(''affected_artifact_digest'', artifact),
             (''gate'', ''AUTHORITATIVE_DISPOSITION_REQUIRED''), (''subject_digest'', cp_subject cp)])))
         ''security incident evidence is not bound to its artifact and exposure'',
       fails (\<not> trusted_work rt env cp ctx)
         ''security incident requires trusted worker quiescence and revocation evidence''])"

definition safe_stop_checks :: "runtime \<Rightarrow> lc_env \<Rightarrow> control_plane \<Rightarrow> transition_context \<Rightarrow> check list" where
  "safe_stop_checks rt env cp ctx =
     [fails (has_resources (cx_rollout ctx)) ''safe stop requires zero rollout-owned resources'',
      fails (busy (cx_work ctx)) ''safe-stop workers must be quiescent'',
      fails (wk_capability (cx_work ctx)) ''safe-stop candidate mutation capability remains active'',
      fails (\<not> trusted_work rt env cp ctx) ''safe-stop quiescence evidence is missing or inconsistent'']"

definition product_input_checks :: "runtime \<Rightarrow> lc_env \<Rightarrow> control_plane \<Rightarrow> transition_context \<Rightarrow> check list" where
  "product_input_checks rt env cp ctx =
     [fails (has_resources (cx_rollout ctx)) ''product input requires cleanup or rollback'',
      fails (busy (cx_work ctx)) ''product input requires stopped workers'',
      fails (wk_capability (cx_work ctx)) ''product input requires revoked candidate mutation capability'',
      fails (\<not> work_bound rt env cp ctx) ''product input work evidence is not bound to worker quiescence'']"

text \<open>The gate a budget stop resumes at, by the state it interrupts.\<close>

definition budget_resume :: "lifecycle_state \<Rightarrow> lifecycle_state option" where
  "budget_resume s = (if s \<in> {DRAFT_PR_OPEN, IMPLEMENTATION_IN_PROGRESS, VERIFICATION_FAILED, REPAIR_IN_PROGRESS, ROLLED_BACK}
     then Some s else if s = STAGING_DEPLOYED then Some PR_MERGED else None)"

definition budget_stop_checks ::
  "runtime \<Rightarrow> lc_env \<Rightarrow> control_plane \<Rightarrow> transition_context \<Rightarrow> budget_usage \<Rightarrow> check list" where
  "budget_stop_checks rt env cp ctx usage =
     [fails (\<not> trusted_budget rt env cp ctx) ''budget stop requires trusted complete budget telemetry'',
      fails (exhausted usage (cp_budget cp) = []) ''budget stop requires proven exhaustion'',
      fails (busy (cx_work ctx)) ''budget-stop workers must be quiescent'',
      fails (wk_capability (cx_work ctx)) ''budget-stop mutation capability remains active'',
      fails (\<not> work_bound rt env cp ctx) ''budget-stop work evidence is not bound to worker quiescence'',
      fails (cp_state cp \<in> {IMPLEMENTATION_IN_PROGRESS, REPAIR_IN_PROGRESS}
          \<and> wk_disposition (cx_work ctx) \<notin> set frozen_dispositions) ''partial work has no safe disposition'',
      fails (has_resources (cx_rollout ctx)) ''budget stop requires zero rollout resources'',
      fails (budget_resume (cp_state cp) = None) ''budget stop has no admitted interrupted safe gate'']"

definition repair_checks ::
  "runtime \<Rightarrow> lc_env \<Rightarrow> control_plane \<Rightarrow> transition_context \<Rightarrow> budget_usage \<Rightarrow> check list" where
  "repair_checks rt env cp ctx usage =
     fails (\<not> normalized_finding env (cx_finding ctx) (cp_subject cp) [''ACCEPTED_FOR_REPAIR''])
       ''repair requires a complete accepted engineering finding''
     # (case cx_finding ctx of
          None \<Rightarrow> []
        | Some f \<Rightarrow>
            [fails (\<not> trusted_finding env cp ctx f) ''repair finding source is not authenticated'',
             fails (map_of (cx_evidence ctx) ''finding_digest'' \<noteq> Some (lc_digest rt (signal_json f)))
               ''repair finding evidence does not match the normalized finding'',
             fails (count_of (bu_by_finding usage) (fs_id f) \<ge> bp_per_finding (cp_budget cp)
                 \<or> count_of (bu_by_stage usage) (state_text (cp_state cp)) \<ge> bp_per_stage (cp_budget cp))
               ''repair attempt limit is exhausted''])"

definition blocking_checks :: "runtime \<Rightarrow> lc_env \<Rightarrow> control_plane \<Rightarrow> transition_context \<Rightarrow> check list" where
  "blocking_checks rt env cp ctx =
     fails (\<not> normalized_finding env (cx_finding ctx) (cp_subject cp) [''ACCEPTED'', ''ACCEPTED_FOR_REPAIR''])
       ''no normalized exact-subject blocker''
     # (case cx_finding ctx of
          None \<Rightarrow> []
        | Some f \<Rightarrow>
            [fails (\<not> trusted_finding env cp ctx f) ''blocking finding source is not authenticated'',
             fails (map_of (cx_evidence ctx) ''finding_digest'' \<noteq> Some (lc_digest rt (signal_json f)))
               ''blocking finding evidence does not match the normalized finding''])"

text \<open>The checks up to the blocking finding, which then fills in evidence of its own.\<close>

definition early_checks ::
  "runtime \<Rightarrow> lc_env \<Rightarrow> control_plane \<Rightarrow> transition_context \<Rightarrow> lifecycle_state \<Rightarrow> string \<Rightarrow> transition_rule \<Rightarrow> budget_usage \<Rightarrow> check list" where
  "early_checks rt env cp ctx target reason rule usage =
     evidence_checks cp ctx rule @ rollout_checks rt env cp ctx target reason rule usage
     @ finding_checks rt env cp ctx rule
     @ guarded rule ''drift'' (drift_checks rt env cp ctx)
     @ guarded rule ''security_incident_block'' (incident_checks rt env cp ctx)
     @ guarded rule ''safe_stop'' (safe_stop_checks rt env cp ctx)
     @ guarded rule ''product_input'' (product_input_checks rt env cp ctx)
     @ guarded rule ''budget_stop'' (budget_stop_checks rt env cp ctx usage)
     @ guarded rule ''repair'' (repair_checks rt env cp ctx usage)
     @ guarded rule ''blocking_finding'' (blocking_checks rt env cp ctx)"

text \<open>\<^verbatim>\<open>evidence.setdefault(name, value)\<close>.\<close>

definition put_missing :: "string \<Rightarrow> string \<Rightarrow> evidence \<Rightarrow> evidence" where
  "put_missing k v e = (if map_of e k = None then dput k v e else e)"

definition blocker_evidence :: "control_plane \<Rightarrow> transition_context \<Rightarrow> transition_rule \<Rightarrow> transition_context" where
  "blocker_evidence cp ctx rule = (case cx_finding ctx of
      Some f \<Rightarrow> if ''blocking_finding'' \<in> set (ru_guards rule)
        then ctx\<lparr>cx_evidence :=
          put_missing ''finding_source_authentication_evidence_digest''
            (ev (cx_evidence ctx) ''finding_authentication_evidence_digest'')
          (put_missing ''finding_source_authority_digest'' (ev (tp_findings (cp_trust cp)) (fs_source f))
          (put_missing ''finding_source_id'' (fs_source f) (cx_evidence ctx)))\<rparr>
        else ctx
    | None \<Rightarrow> ctx)"

text \<open>An approval by a trusted actor, attested as it stands.\<close>

definition approval_attested :: "lc_env \<Rightarrow> evidence \<Rightarrow> lc_approval \<Rightarrow> bool" where
  "approval_attested env trusted a \<longleftrightarrow> ev trusted (la_actor a) \<noteq> []
     \<and> verify_external env (la_actor a) (ev trusted (la_actor a)) (JObj (approval_payload a)) (la_proof a)"

definition approval_live :: "control_plane \<Rightarrow> string \<Rightarrow> lc_approval \<Rightarrow> bool" where
  "approval_live cp kind a \<longleftrightarrow> la_id a \<noteq> [] \<and> la_actor a \<noteq> [] \<and> la_kind a = kind \<and> la_eligible a \<and> la_active a
     \<and> la_subject a = cp_subject cp"

definition candidate_review :: "runtime \<Rightarrow> lc_env \<Rightarrow> control_plane \<Rightarrow> evidence \<Rightarrow> lc_approval \<Rightarrow> bool" where
  "candidate_review rt env cp e a \<longleftrightarrow> approval_live cp ''FORMAL_REVIEW'' a
     \<and> is_git_sha (la_commit a) \<and> is_digest_str (la_candidate a) \<and> is_digest_str (la_evidence a)
     \<and> map_of e ''reviewed_commit_sha'' = Some (la_commit a) \<and> map_of e ''prospective_tree_digest'' = Some (la_candidate a)
     \<and> map_of e ''verification_bundle_digest'' = Some (la_evidence a)
     \<and> map_of e ''review_digest'' = Some (lc_digest rt (approval_json a))
     \<and> approval_attested env (tp_reviewers (cp_trust cp)) a"

definition review_checks :: "runtime \<Rightarrow> lc_env \<Rightarrow> control_plane \<Rightarrow> transition_context \<Rightarrow> check list" where
  "review_checks rt env cp ctx = [
     if phase_four cp then fails (\<not> readiness_bundle_valid env (cx_evidence ctx))
       ''a sealed exact-candidate advisory EvidenceBundle is required''
     else fails (\<not> list_ex (candidate_review rt env cp (cx_evidence ctx)) (cx_approvals ctx))
       ''eligible formal review bound to the exact candidate is required'']"

text \<open>\<^verbatim>\<open>_timestamp_between\<close> on the texts of the three times.\<close>

definition time_between :: "lc_env \<Rightarrow> string \<Rightarrow> string \<Rightarrow> string \<Rightarrow> bool" where
  "time_between env v lower upper = (case (time_of env v, time_of env lower, time_of env upper) of
      (Some (Aware t), Some (Aware l), Some (Aware u)) \<Rightarrow> l < t \<and> t \<le> u
    | _ \<Rightarrow> False)"

definition merge_review ::
  "runtime \<Rightarrow> lc_env \<Rightarrow> control_plane \<Rightarrow> transition_context \<Rightarrow> lifecycle_event \<Rightarrow> lc_approval \<Rightarrow> bool" where
  "merge_review rt env cp ctx review a \<longleftrightarrow> approval_live cp ''FORMAL_REVIEW'' a
     \<and> map_of (le_refs review) ''reviewed_commit_sha'' = Some (la_commit a)
     \<and> map_of (le_refs review) ''prospective_tree_digest'' = Some (la_candidate a)
     \<and> map_of (le_refs review) ''verification_bundle_digest'' = Some (la_evidence a)
     \<and> time_between env (la_submitted a) (le_observed review) (cx_observed ctx)
     \<and> map_of (cx_evidence ctx) ''formal_review_digest'' = Some (lc_digest rt (approval_json a))
     \<and> approval_attested env (tp_reviewers (cp_trust cp)) a"

definition native_gate_passed :: "runtime \<Rightarrow> lc_env \<Rightarrow> control_plane \<Rightarrow> evidence \<Rightarrow> bool" where
  "native_gate_passed rt env cp e =
     (let actor = ev e ''native_merge_gate_actor''; authority = ev (tp_merge_gates (cp_trust cp)) actor in
      actor \<noteq> [] \<and> authority \<noteq> [] \<and> map_of e ''native_merge_gate_authority_digest'' = Some authority
      \<and> map_of e ''native_merge_gate_digest'' = Some (lc_digest rt (native_gate_json e))
      \<and> verify_external env actor authority (native_gate_json e) (ev e ''native_merge_gate_authentication_evidence_digest''))"

definition successful :: "mutation_result \<Rightarrow> bool" where
  "successful r \<longleftrightarrow> mr_status r = ''SUCCEEDED'' \<and> mr_digest r \<noteq> None"

definition result_of :: "control_plane \<Rightarrow> mutation_attempt option \<Rightarrow> mutation_result option" where
  "result_of cp a = (case a of None \<Rightarrow> None | Some a \<Rightarrow> map_of (cp_results cp) (ma_key a))"

definition merge_output_fields :: "string list" where
  "merge_output_fields = [''head_commit_sha'', ''merge_commit_sha'', ''merge_tree_digest'', ''merge_method_digest'',
     ''merge_actor_digest'']"

definition merge_bound :: "runtime \<Rightarrow> control_plane \<Rightarrow> transition_context \<Rightarrow> bool" where
  "merge_bound rt cp ctx = (let e = cx_evidence ctx in
     case (review_binding cp, cx_mutation ctx, result_of cp (cx_mutation ctx)) of
       (Some b, Some a, Some r) \<Rightarrow> map_of e ''queue_subject_digest'' = Some (cp_subject cp)
         \<and> map_of e ''head_commit_sha'' = map_of (le_refs b) ''reviewed_commit_sha''
         \<and> map_of e ''head_digest'' = Some (lc_digest rt (JStr (ev e ''head_commit_sha'')))
         \<and> agree e (le_refs b) [''prospective_tree_digest'', ''verification_bundle_digest'']
         \<and> (if phase_four cp then agree e (le_refs b) phase_four_review_fields
            else map_of e ''formal_review_digest'' = map_of (le_refs b) ''review_digest'')
         \<and> map_of e ''merge_attempt_digest'' = Some (attempt_digest rt a) \<and> successful r
         \<and> map_of e ''merge_result_digest'' = mr_digest r
         \<and> mr_digest r = Some (lc_digest rt (texts (pick e merge_output_fields)))
         \<and> map_of e ''merge_tree_digest'' = map_of e ''prospective_tree_digest''
     | _ \<Rightarrow> False)"

definition merge_checks :: "runtime \<Rightarrow> lc_env \<Rightarrow> control_plane \<Rightarrow> transition_context \<Rightarrow> check list" where
  "merge_checks rt env cp ctx =
     (case review_binding cp of
        Some b \<Rightarrow> if phase_four cp
          then [fails (\<not> admission_bundle_valid env (cx_evidence ctx))
                  ''a fresh sealed exact-subject merge-admission EvidenceBundle is required'',
                fails (\<not> list_ex (merge_review rt env cp ctx b) (cx_approvals ctx))
                  ''a fresh eligible formal review after readiness is required for merge'',
                fails (\<not> native_gate_passed rt env cp (cx_evidence ctx))
                  ''an authenticated successful native merge-gate decision is required'']
          else []
      | None \<Rightarrow> [])
     @ [fails (\<not> merge_bound rt cp ctx) ''native merge does not match the persisted exact-candidate review binding'']"

definition canary_bound :: "runtime \<Rightarrow> control_plane \<Rightarrow> transition_context \<Rightarrow> bool" where
  "canary_bound rt cp ctx =
     (let e = cx_evidence ctx; digest = (case cx_mutation ctx of None \<Rightarrow> [] | Some a \<Rightarrow> attempt_digest rt a) in
      ro_canary (cx_rollout ctx) = ''ACTIVE'' \<and> list_all (\<lambda>k. ev e k \<noteq> []) canary_subject_fields
      \<and> map_of e ''canary_attempt_digest'' = Some digest
      \<and> map_of e ''canary_status_digest'' = Some (lc_digest rt (JObj [
          (''canary_id_digest'', JStr (ev e ''canary_id_digest'')), (''deployment_attempt_digest'', JStr digest),
          (''deployment_result_digest'', opt_text (case result_of cp (cx_mutation ctx) of None \<Rightarrow> None | Some r \<Rightarrow> mr_digest r)),
          (''subject_digest'', JStr (cp_subject cp)), (''status'', JStr ''ACTIVE'')])))"

definition canary_active :: "control_plane \<Rightarrow> transition_context \<Rightarrow> lifecycle_state \<Rightarrow> bool" where
  "canary_active cp ctx target = (case canary_binding cp of
      None \<Rightarrow> False
    | Some b \<Rightarrow> ro_canary (cx_rollout ctx) \<in> (if target = ROLLBACK_IN_PROGRESS then set open_status else {''ACTIVE''})
        \<and> agree (cx_evidence ctx) (le_refs b) (''subject_digest'' # canary_proof_fields
            @ (if target \<in> {PRODUCTION_APPROVAL_REQUIRED, PRODUCTION_DEPLOYED} then canary_subject_fields else [])))"

definition production_approved :: "runtime \<Rightarrow> lc_env \<Rightarrow> control_plane \<Rightarrow> evidence \<Rightarrow> lc_approval \<Rightarrow> bool" where
  "production_approved rt env cp e a \<longleftrightarrow> approval_live cp ''PRODUCTION'' a
     \<and> is_git_sha (la_commit a) \<and> is_digest_str (la_candidate a) \<and> is_digest_str (la_evidence a)
     \<and> map_of e ''merge_commit_sha'' = Some (la_commit a) \<and> map_of e ''artifact_digest'' = Some (la_candidate a)
     \<and> la_evidence a = production_scope_digest rt e
     \<and> map_of e ''production_approval_digest'' = Some (lc_digest rt (approval_json a))
     \<and> approval_attested env (tp_production (cp_trust cp)) a"

definition result_names :: evidence where
  "result_names = [(''enqueue_merge'', ''merge_result_digest''), (''mark_pr_ready'', ''ready_result_digest''),
     (''deploy_staging'', ''staging_result_digest''), (''deploy_canary'', ''canary_result_digest''),
     (''deploy_production'', ''production_result_digest''), (''convert_pr_to_draft'', ''ready_revocation_result_digest''),
     (''cleanup_staging'', ''cleanup_result_digest''), (''rollback'', ''rollback_result_digest''),
     (''teardown_canary'', ''canary_teardown_digest'')]"

definition attempt_names :: evidence where
  "attempt_names = [(''open_draft_pr'', ''governance_attempt_digest''), (''mark_pr_ready'', ''ready_attempt_digest''),
     (''convert_pr_to_draft'', ''ready_revocation_attempt_digest''), (''enqueue_merge'', ''merge_attempt_digest''),
     (''deploy_staging'', ''staging_attempt_digest''), (''deploy_canary'', ''canary_attempt_digest''),
     (''deploy_production'', ''production_attempt_digest''), (''cleanup_staging'', ''cleanup_attempt_digest''),
     (''rollback'', ''rollback_attempt_digest'')]"

text \<open>The evidence the rule requires under the name of the action is the given digest.\<close>

definition names_digest :: "evidence \<Rightarrow> transition_rule \<Rightarrow> evidence \<Rightarrow> string \<Rightarrow> string option \<Rightarrow> bool" where
  "names_digest names rule e action digest = (case map_of names action of
      None \<Rightarrow> True
    | Some k \<Rightarrow> k \<in> set (ru_evidence rule) \<longrightarrow> map_of e k = digest)"

definition plan_bound :: "runtime \<Rightarrow> control_plane \<Rightarrow> evidence \<Rightarrow> mutation_attempt \<Rightarrow> bool" where
  "plan_bound rt cp e a \<longleftrightarrow> map_of mutation_subject_fields (ma_action a) \<noteq> None \<longrightarrow>
     list_ex (\<lambda>names. ma_plan a = subject_digest_of rt names
         (if ma_action a = ''rollback'' then put_missing ''subject_digest'' (cp_subject cp) e else e))
       (case map_of (lp_variants (cp_policy cp)) (ma_action a) of None \<Rightarrow> [] | Some vs \<Rightarrow> vs)"

text \<open>The result of the attempt is there, succeeded, was verified and has not been used.\<close>

definition result_usable :: "control_plane \<Rightarrow> mutation_attempt \<Rightarrow> bool" where
  "result_usable cp a = (case map_of (cp_results cp) (ma_key a) of
      None \<Rightarrow> False
    | Some r \<Rightarrow> successful r \<and> ma_key a \<in> set (cp_verified cp) \<and> ma_key a \<notin> set (cp_consumed cp))"

definition mutation_checks ::
  "runtime \<Rightarrow> control_plane \<Rightarrow> lc_dir \<Rightarrow> transition_context \<Rightarrow> lifecycle_state \<Rightarrow> transition_rule \<Rightarrow> check list" where
  "mutation_checks rt cp d ctx target rule = (case cx_mutation ctx of
      None \<Rightarrow> [fails True ''pre-journaled mutation attempt is required'']
    | Some a \<Rightarrow>
        (let e = cx_evidence ctx; starts = target = ROLLBACK_IN_PROGRESS; r = map_of (cp_results cp) (ma_key a) in
         [fails (ma_status a \<noteq> ''PLANNED'') ''pre-journaled mutation attempt is required'',
          fails (ma_subject a \<noteq> cp_subject cp) ''mutation attempt subject does not match'',
          fails (ru_mutation rule \<notin> {None, Some []} \<and> ru_mutation rule \<noteq> Some (ma_action a))
            ''mutation attempt action does not match'',
          fails (ru_mutation rule = Some ''open_draft_pr'' \<and> ma_steps a \<noteq> [''issue'', ''branch'', ''red_commit'', ''draft_pr''])
            ''draft PR mutation steps must be issue, branch, red commit, draft PR'',
          fails (\<not> plan_bound rt cp e a) ''mutation step plan is not bound to the exact external-effect subject'',
          journal_fault rt d a,
          fails (\<not> starts \<and> \<not> result_usable cp a) ''a successful exact-attempt mutation result is required'',
          fails (case r of None \<Rightarrow> False | Some r \<Rightarrow> mr_attempt r \<noteq> ma_id a) ''mutation result attempt does not match'',
          fails (\<not> starts \<and> (case r of None \<Rightarrow> False
              | Some r \<Rightarrow> successful r \<and> \<not> names_digest result_names rule e (ma_action a) (mr_digest r)))
            ''transition evidence does not match the persisted mutation result'',
          fails (\<not> names_digest attempt_names rule e (ma_action a) (Some (attempt_digest rt a)))
            ''transition mutation attempt evidence does not match'']))"

text \<open>Where a blocked safety action resumes.\<close>

definition safety_gates :: "(string \<times> lifecycle_state) list" where
  "safety_gates = [(''rollback'', ROLLBACK_IN_PROGRESS), (''cleanup_staging'', STAGING_FAILED)]"

definition safety_block_checks ::
  "runtime \<Rightarrow> control_plane \<Rightarrow> lc_dir \<Rightarrow> transition_context \<Rightarrow> transition_rule \<Rightarrow> check list" where
  "safety_block_checks rt cp d ctx rule = (case cx_mutation ctx of
      None \<Rightarrow> [fails True ''blocked safety action is not attributable'']
    | Some a \<Rightarrow>
        [fails (ru_mutation rule \<noteq> Some (ma_action a)) ''blocked safety action is not attributable'',
         fails (map_of (cx_evidence ctx) ''original_attempt_digest'' \<noteq> Some (attempt_digest rt a))
           ''blocked safety attempt digest does not match'',
         journal_fault rt d a,
         (if map_of safety_gates (ma_action a) = None then Inl Key_fault else Inr None)])"

definition safety_resume_checks ::
  "runtime \<Rightarrow> control_plane \<Rightarrow> lc_dir \<Rightarrow> transition_context \<Rightarrow> lifecycle_state \<Rightarrow> transition_rule \<Rightarrow> check list" where
  "safety_resume_checks rt cp d ctx target rule =
     (case (latest (\<lambda>e. applied e \<and> le_target e = BLOCKED) cp, cx_mutation ctx) of
        (Some stopped, Some a) \<Rightarrow>
          [fails (le_resume stopped \<noteq> Some target \<or> ru_mutation rule \<noteq> Some (ma_action a)
             \<or> map_of (cx_evidence ctx) ''original_attempt_digest'' \<noteq> Some (attempt_digest rt a)
             \<or> map_of (le_refs stopped) ''original_attempt_digest'' \<noteq> map_of (cx_evidence ctx) ''original_attempt_digest'')
             ''safety resume is not bound to the original blocked action'',
           journal_fault rt d a]
      | _ \<Rightarrow> [fails True ''safety resume is not bound to the original blocked action''])"

definition exposure_checks :: "runtime \<Rightarrow> lc_env \<Rightarrow> control_plane \<Rightarrow> transition_context \<Rightarrow> check list" where
  "exposure_checks rt env cp ctx =
     (let e = cx_evidence ctx; r = cx_rollout ctx in
      [fails (\<not> trusted_rollback rt env cp ctx) ''trusted rollback exposure evidence is required'',
       fails (ro_canary r \<notin> set removed_status \<or> ro_production r \<notin> set removed_status) ''rollback has unresolved exposure'',
       fails (map_of e ''rollback_exposure_digest'' \<noteq> Some (lc_digest rt (JObj [(''subject_digest'', JStr (cp_subject cp)),
           (''rollback_attempt_digest'', JStr (case cx_mutation ctx of None \<Rightarrow> [] | Some a \<Rightarrow> attempt_digest rt a)),
           (''rollback_result_digest'', opt_text (case result_of cp (cx_mutation ctx) of None \<Rightarrow> None | Some r \<Rightarrow> mr_digest r)),
           (''canary'', JStr (ro_canary r)), (''changed_production'', JStr (ro_production r))])))
         ''rollback exposure evidence is not bound to the exact attempt and subject''])"

definition completion_bindings :: "lc_env \<Rightarrow> evidence \<Rightarrow> evidence" where
  "completion_bindings env e = [(''profile'', ''completion''), (''as_of'', lv_now_text env)]
     @ pick e [''subject_digest'', ''release_sha'', ''artifact_digest'', ''configuration_digest'',
         ''production_attempt_digest'', ''production_result_digest'', ''reviewed_commit_sha'', ''reviewed_candidate_digest'',
         ''review_evidence_digest'', ''live_verification_digest'', ''rollback_readiness_digest'',
         ''observation_window_digest'', ''finding_high_watermark_digest'', ''finding_source_set_digest'',
         ''finding_inventory_epochs_digest'']"

definition invalidating_reasons :: "string list" where
  "invalidating_reasons = [''blocking_finding'', ''check_stale'', ''head_changed'']"

text \<open>The commit that was released: the merge, or else the reviewed candidate.\<close>

definition released_sha :: "control_plane \<Rightarrow> string option" where
  "released_sha cp = (case merge_binding cp of
      Some m \<Rightarrow> map_of (le_refs m) ''merge_commit_sha''
    | None \<Rightarrow> (case review_binding cp of Some b \<Rightarrow> map_of (le_refs b) ''reviewed_commit_sha'' | None \<Rightarrow> None))"

definition completion_bound :: "control_plane \<Rightarrow> evidence \<Rightarrow> bool" where
  "completion_bound cp e = (case review_binding cp of
      None \<Rightarrow> False
    | Some b \<Rightarrow>
        \<not> list_ex (\<lambda>x. le_sequence x > le_sequence b \<and> applied x \<and> le_reason x \<in> set invalidating_reasons) (cp_events cp)
        \<and> map_of e ''release_sha'' = released_sha cp
        \<and> (case production_binding cp of None \<Rightarrow> True | Some p \<Rightarrow> agree e (le_refs p) deployment_fields)
        \<and> map_of e ''reviewed_commit_sha'' = map_of (le_refs b) ''reviewed_commit_sha''
        \<and> map_of e ''reviewed_candidate_digest'' = map_of (le_refs b) ''prospective_tree_digest''
        \<and> map_of e ''review_evidence_digest'' = map_of (le_refs b) ''verification_bundle_digest''
        \<and> (phase_four cp \<or> map_of e ''evidence_bundle_digest'' = map_of (le_refs b) ''verification_bundle_digest'')
        \<and> map_of (le_refs b) ''subject_digest'' = Some (cp_subject cp))"

definition completion_checks :: "lc_env \<Rightarrow> control_plane \<Rightarrow> transition_context \<Rightarrow> check list" where
  "completion_checks env cp ctx =
     (let e = cx_evidence ctx in
      [fails (cp_claimed cp) ''completion claim is already active'',
       fails (\<not> trusted_live env cp ctx) ''trusted live observation evidence is required for completion'',
       fails (phase_four cp \<and> \<not> sealed_bundle env (ev e ''evidence_bundle_digest'') (completion_bindings env e))
         ''a valid sealed exact-subject EvidenceBundle is required for completion'',
       fails (\<not> completion_bound cp e) ''completion is not bound to the exact reviewed candidate and evidence''])"

definition monitor_identity :: "runtime \<Rightarrow> transition_actor \<Rightarrow> string" where
  "monitor_identity rt a = lc_digest rt (texts [(''actor_id'', ac_id a), (''role'', ac_role a), (''subject_digest'', ac_subject a)])"

definition revocation_bound :: "runtime \<Rightarrow> lc_env \<Rightarrow> control_plane \<Rightarrow> transition_context \<Rightarrow> bool" where
  "revocation_bound rt env cp ctx =
     (let e = cx_evidence ctx; a = cx_actor ctx in
      case latest (\<lambda>x. le_kind x = ''COMPLETION_CLAIMED'' \<and> applied x) cp of
        None \<Rightarrow> False
      | Some c \<Rightarrow> cp_claimed cp \<and> ''lifecycle.completion.revoke'' \<in> set (ac_capabilities a) \<and> trusted_monitor env cp ctx
          \<and> map_of e ''completion_event_digest'' = Some (le_digest c)
          \<and> map_of e ''monitor_identity_digest'' = Some (monitor_identity rt a)
          \<and> map_of e ''monitor_authentication_evidence_digest'' = Some (ac_proof a)
          \<and> map_of e ''invalidation_digest'' = Some (lc_digest rt (texts [(''completion_event_digest'', le_digest c),
              (''monitor_authentication_evidence_digest'', ac_proof a), (''monitor_identity_digest'', monitor_identity rt a),
              (''subject_digest'', cp_subject cp), (''trigger_digest'', trigger_digest e)])))"

definition stops_ready :: "control_plane \<Rightarrow> lifecycle_state \<Rightarrow> transition_rule \<Rightarrow> bool" where
  "stops_ready cp target rule \<longleftrightarrow> ''safe_stop'' \<in> set (ru_guards rule) \<and> cp_state cp = PR_READY \<and> target = BLOCKED"

definition late_checks ::
  "runtime \<Rightarrow> lc_env \<Rightarrow> control_plane \<Rightarrow> lc_dir \<Rightarrow> transition_context \<Rightarrow> lifecycle_state \<Rightarrow> transition_rule \<Rightarrow> budget_usage \<Rightarrow> check list" where
  "late_checks rt env cp d ctx target rule usage =
     guarded rule ''review_clear'' (review_checks rt env cp ctx)
     @ guarded rule ''merge_binding'' (merge_checks rt env cp ctx)
     @ guarded rule ''integrated_merge'' [fails (\<not> staging_merge_valid cp (cx_evidence ctx))
         ''staging is not bound to the adapter-attested integrated merge result'']
     @ guarded rule ''staging_bundle'' [fails (\<not> staging_bundle_valid env cp (cx_evidence ctx))
         ''a valid sealed exact-subject staging EvidenceBundle is required'']
     @ guarded rule ''canary_binding'' [fails (\<not> canary_bound rt cp ctx) ''canary admission requires exact active canary proof'']
     @ guarded rule ''active_canary'' [fails (\<not> canary_active cp ctx target)
         ''transition requires replayable exact-subject canary artifact proof'']
     @ guarded rule ''production_approval'' [fails (\<not> list_ex (production_approved rt env cp (cx_evidence ctx)) (cx_approvals ctx))
         ''a live production approval bound to the exact rollout is required'']
     @ guarded rule ''mutation'' (mutation_checks rt cp d ctx target rule)
     @ guarded rule ''safety_block'' (safety_block_checks rt cp d ctx rule)
     @ guarded rule ''safety'' [fails (\<not> safety_available usage (cp_budget cp)) ''reserved safety budget is exhausted'']
     @ guarded rule ''safety_resume'' (safety_resume_checks rt cp d ctx target rule)
     @ guarded rule ''live_failure'' [fails (\<not> trusted_live_failure env cp ctx)
         ''trusted live failure evidence bound to the admitted deployment is required'']
     @ guarded rule ''canary_teardown'' [fails (\<not> trusted_canary_teardown env cp ctx)
         ''trusted zero-exposure canary teardown evidence is required'']
     @ guarded rule ''zero_exposure'' (exposure_checks rt env cp ctx)
     @ guarded rule ''completion'' (completion_checks env cp ctx)
     @ guarded rule ''revoke_completion'' [fails (\<not> revocation_bound rt env cp ctx)
         ''completion revocation lacks an active claim and attributable monitor evidence'']
     @ [fails (stops_ready cp target rule \<and> review_binding cp = None)
         ''PR_READY stop has no persisted review inputs to bind for resume'']"

section \<open>Transitions\<close>

definition review_input_fields :: "string list" where
  "review_input_fields = [''reviewed_commit_sha'', ''prospective_tree_digest'', ''verification_bundle_digest'', ''review_digest'']"

text \<open>The state a stop records for its resumption; the guards are tried in the order of the code.\<close>

definition stop_resume :: "control_plane \<Rightarrow> string \<Rightarrow> lifecycle_state" where
  "stop_resume cp reason =
     (if cp_state cp = BUDGET_EXCEEDED \<and> reason = ''extension_unavailable''
      then (case latest (\<lambda>e. applied e \<and> le_target e = BUDGET_EXCEEDED \<and> le_resume e \<noteq> None) cp of
          Some e \<Rightarrow> the (le_resume e)
        | None \<Rightarrow> BUDGET_EXCEEDED)
      else if cp_state cp = PR_MERGED \<and> reason = ''post_merge_blocking_finding'' then REPOSITORY_ANALYSED
      else if cp_state cp = STAGING_DEPLOYED \<and> reason = ''canary_authorization_missing'' then PR_MERGED
      else if cp_state cp = COMPLETED \<and> reason = ''completion_evidence_unavailable'' then PRODUCTION_DEPLOYED
      else cp_state cp)"

definition admitted_resume ::
  "control_plane \<Rightarrow> transition_context \<Rightarrow> lifecycle_state \<Rightarrow> string \<Rightarrow> transition_rule \<Rightarrow> lifecycle_state option" where
  "admitted_resume cp ctx target reason rule =
     (let g = set (ru_guards rule) in
      if ''safety_block'' \<in> g
      then (case cx_mutation ctx of None \<Rightarrow> None | Some a \<Rightarrow> map_of safety_gates (ma_action a))
      else if ''budget_stop'' \<in> g then budget_resume (cp_state cp)
      else if ''safe_stop'' \<in> g \<and> target = BLOCKED then Some (stop_resume cp reason)
      else if ''security_incident_block'' \<in> g then Some CONTRACT_RECEIVED
      else None)"

text \<open>The evidence recorded with the event. \<^verbatim>\<open>ctx'\<close> is the context after the blocking finding.\<close>

definition event_evidence ::
  "runtime \<Rightarrow> control_plane \<Rightarrow> transition_context \<Rightarrow> transition_context \<Rightarrow> lifecycle_state \<Rightarrow> transition_rule \<Rightarrow> evidence" where
  "event_evidence rt cp ctx ctx' target rule =
     (let e1 = (if ''blocking_finding'' \<in> set (ru_guards rule)
          then fold (\<lambda>k m. dput k (ev (cx_evidence ctx') k) m)
            [''finding_source_id'', ''finding_source_authority_digest'', ''finding_source_authentication_evidence_digest'']
            (cx_evidence ctx)
          else cx_evidence ctx);
          inputs = pick (refs_of (review_binding cp)) review_input_fields;
          e2 = (if stops_ready cp target rule
            then dput ''resume_binding_digest'' (lc_digest rt (texts inputs)) (fold (\<lambda>(k, v) m. dput k v m) inputs e1) else e1)
      in case (cx_mutation ctx, result_of cp (cx_mutation ctx)) of
           (Some a, Some r) \<Rightarrow> if ''mutation'' \<in> set (ru_guards rule) \<and> successful r
             then dput ''consumed_mutation_result_key'' (ma_key a) e2 else e2
         | _ \<Rightarrow> e2)"

definition transition_kind :: "lifecycle_state \<Rightarrow> lifecycle_state \<Rightarrow> string" where
  "transition_kind source target = (if target = COMPLETED then ''COMPLETION_CLAIMED''
     else if source = COMPLETED then ''COMPLETION_REVOKED'' else ''TRANSITION'')"

definition bump :: "string \<Rightarrow> (string \<times> int) list \<Rightarrow> (string \<times> int) list" where
  "bump k m = dput k (count_of m k + 1) m"

definition charged_usage :: "control_plane \<Rightarrow> transition_context \<Rightarrow> transition_rule \<Rightarrow> budget_usage \<Rightarrow> budget_usage" where
  "charged_usage cp ctx rule u =
     (let u1 = (case cx_finding ctx of
          Some f \<Rightarrow> if ''repair'' \<in> set (ru_guards rule)
            then u\<lparr>bu_by_finding := bump (fs_id f) (bu_by_finding u),
                   bu_by_stage := bump (state_text (cp_state cp)) (bu_by_stage u)\<rparr> else u
        | None \<Rightarrow> u)
      in if ''safety'' \<in> set (ru_guards rule) then u1\<lparr>bu_safety := bu_safety u1 + 1\<rparr> else u1)"

text \<open>The applied event and what it changes in memory; the retention sweep follows a completion.\<close>

definition apply_transition ::
  "runtime \<Rightarrow> lc_env \<Rightarrow> control_plane \<Rightarrow> lc_dir \<Rightarrow> lifecycle_state \<Rightarrow> transition_context \<Rightarrow> transition_context \<Rightarrow> string
     \<Rightarrow> transition_rule \<Rightarrow> budget_usage \<Rightarrow> lifecycle_event lc_outcome" where
  "apply_transition rt env cp d target ctx ctx' reason rule usage =
     (let kind = transition_kind (cp_state cp) target; usage' = charged_usage cp ctx rule usage;
          refs = event_evidence rt cp ctx ctx' target rule in
      case record_event rt cp d
        \<lparr>dr_kind = kind, dr_outcome = ''APPLIED'', dr_source = cp_state cp, dr_target = target, dr_reason = reason,
         dr_actor = ac_id (cx_actor ctx), dr_refs = refs, dr_observed = cx_observed ctx, dr_usage = Some usage',
         dr_resume = admitted_resume cp ctx target reason rule, dr_detail = []\<rparr> None None of
        (Inl err, cp', d') \<Rightarrow> (Inl err, cp', d')
      | (Inr e, cp', d') \<Rightarrow>
          (let key = ev refs ''consumed_mutation_result_key'';
               cp'' = cp'\<lparr>cp_state := target, cp_usage := usage',
                 cp_consumed := (if key = [] then cp_consumed cp' else key # cp_consumed cp'),
                 cp_claimed := (if kind = ''COMPLETION_CLAIMED'' then True
                   else if kind = ''COMPLETION_REVOKED'' then False else cp_claimed cp')\<rparr>
           in if kind = ''COMPLETION_CLAIMED'' \<and> \<not> lv_sweep_ok env then (Inl Sweep_fault, cp'', d') else (Inr e, cp'', d')))"

definition exposure_kept :: "lifecycle_state \<Rightarrow> lifecycle_state \<Rightarrow> string \<Rightarrow> bool" where
  "exposure_kept source target reason \<longleftrightarrow>
     source = ROLLBACK_IN_PROGRESS \<and> target = BLOCKED \<and> reason = ''rollback_indeterminate''
     \<or> source = CONTRACT_RECEIVED \<and> target = BLOCKED \<and> reason = ''quarantine_disposition_indeterminate''"

definition transition_locked ::
  "runtime \<Rightarrow> lc_env \<Rightarrow> control_plane \<Rightarrow> lc_dir \<Rightarrow> lifecycle_state \<Rightarrow> transition_context \<Rightarrow> string \<Rightarrow> lifecycle_event lc_outcome" where
  "transition_locked rt env cp d target ctx reason =
     (if reason = ''recorded_safe_resume''
      then (Inl (Denied ''recorded-safe resumes require resume() admission''), cp, d)
      else if \<not> actor_valid rt env cp ctx
      then deny rt env cp d target ctx reason ''actor authority is invalid for this subject''
      else if bu_safety (cx_usage ctx) \<noteq> bu_safety (cp_usage cp)
      then deny rt env cp d target ctx reason ''reserved safety usage is controlled only by the lifecycle authority''
      else (case (if trusted_budget rt env cp ctx then merge_strict (cp_usage cp) (cx_usage ctx) else Inr (cp_usage cp)) of
          Inl message \<Rightarrow> deny rt env cp d target ctx reason message
        | Inr usage \<Rightarrow>
            if has_exposure (cx_rollout ctx) \<and> target \<in> {BLOCKED, PRODUCT_INPUT_REQUIRED, BUDGET_EXCEEDED}
               \<and> \<not> exposure_kept (cp_state cp) target reason
            then deny rt env cp d target ctx reason ''active rollout exposure requires rollback''
            else (case find_rule (cp_policy cp) (cp_state cp) target reason of
                None \<Rightarrow> deny rt env cp d target ctx reason (''illegal transition '' @ state_text (cp_state cp) @ '' -> ''
                  @ state_text target @ '' ('' @ reason @ '')'')
              | Some rule \<Rightarrow> (case first_fault (early_checks rt env cp ctx target reason rule usage) of
                  Inl err \<Rightarrow> (Inl err, cp, d)
                | Inr (Some message) \<Rightarrow> deny rt env cp d target ctx reason message
                | Inr None \<Rightarrow>
                    (let ctx' = blocker_evidence cp ctx rule in
                     case first_fault (late_checks rt env cp d ctx' target rule usage) of
                       Inl err \<Rightarrow> (Inl err, cp, d)
                     | Inr (Some message) \<Rightarrow> deny rt env cp d target ctx' reason message
                     | Inr None \<Rightarrow> apply_transition rt env cp d target ctx ctx' reason rule usage)))))"

definition transition ::
  "runtime \<Rightarrow> lc_env \<Rightarrow> control_plane \<Rightarrow> lc_dir \<Rightarrow> lifecycle_state \<Rightarrow> transition_context \<Rightarrow> string \<Rightarrow> lifecycle_event lc_outcome" where
  "transition rt env cp d target ctx reason = locked cp d (transition_locked rt env cp d target ctx reason)"

section \<open>Mutations and observations\<close>

definition authorization_valid ::
  "lc_env \<Rightarrow> control_plane \<Rightarrow> mutation_attempt \<Rightarrow> mutation_authorization \<Rightarrow> bool" where
  "authorization_valid env cp a z \<longleftrightarrow>
     list_ex (\<lambda>r. ru_mutation r = Some (ma_action a)) (rules_from (cp_policy cp) (cp_state cp))
     \<and> mz_subject z = cp_subject cp \<and> ma_subject a = cp_subject cp \<and> mz_source z = cp_state cp \<and> mz_action z = ma_action a
     \<and> mz_attempt z = ma_id a \<and> mz_key z = ma_key a \<and> mz_plan z = ma_plan a \<and> mz_steps z = ma_steps a
     \<and> (case (time_of env (mz_observed z), time_of env (mz_expires z)) of
          (Some (Aware s), Some (Aware t)) \<Rightarrow> s \<le> lv_now env \<and> lv_now env \<le> t \<and> t - s \<le> five_minutes
        | _ \<Rightarrow> False)
     \<and> map_of (tp_authorizers (cp_trust cp)) (mz_authorizer z) = Some (mz_authority z)
     \<and> verify_external env (mz_authorizer z) (mz_authority z)
         (JObj [(''authorizer_id'', JStr (mz_authorizer z)), (''authority_digest'', JStr (mz_authority z)),
           (''subject_digest'', JStr (mz_subject z)), (''source_state'', JStr (state_text (mz_source z))),
           (''action'', JStr (mz_action z)), (''attempt_id'', JStr (mz_attempt z)), (''idempotency_key'', JStr (mz_key z)),
           (''step_plan_digest'', JStr (mz_plan z)), (''steps'', names_json (mz_steps z)),
           (''observed_at'', JStr (mz_observed z)), (''expires_at'', JStr (mz_expires z))]) (mz_proof z)"

definition history_unclear :: "control_plane \<Rightarrow> mutation_attempt \<Rightarrow> bool" where
  "history_unclear cp a \<longleftrightarrow> lp_version (cp_policy cp) = ''phase-zero-v1''
     \<and> ((case map_of (lp_variants (cp_policy cp)) (ma_action a) of None \<Rightarrow> True | Some vs \<Rightarrow> vs = [])
        \<or> list_ex (\<lambda>(_, vs). card (set vs) > 1) (lp_variants (cp_policy cp)))"

text \<open>The release checks of the phase-four policy; \<^verbatim>\<open>mutation_subject_digest\<close> raises for an unknown action.\<close>

definition release_checks :: "runtime \<Rightarrow> lc_env \<Rightarrow> control_plane \<Rightarrow> mutation_attempt \<Rightarrow> evidence option \<Rightarrow> check list" where
  "release_checks rt env cp a e =
     (let names = map_of (lp_fields (cp_policy cp)) (ma_action a);
          held = (\<lambda>P. case (e, names) of (Some e, Some ns) \<Rightarrow> ma_plan a = subject_digest_of rt ns e \<and> P e | _ \<Rightarrow> False) in
      [(if e \<noteq> None \<and> names = None then Inl (Broken ''mutation action has no exact-subject binding'') else Inr None),
       fails (ma_action a = ''mark_pr_ready'' \<and> \<not> held (\<lambda>e. map_of e ''subject_digest'' = Some (cp_subject cp)
           \<and> readiness_bundle_valid env e))
         ''ready mutation release requires a fresh sealed exact-candidate bundle'',
       fails (ma_action a = ''enqueue_merge'' \<and> \<not> held (\<lambda>e. readiness_binding_valid cp e \<and> admission_bundle_valid env e))
         ''merge mutation release requires the exact ready candidate and a fresh sealed merge-admission bundle'',
       fails (ma_action a = ''deploy_staging'' \<and> \<not> held (\<lambda>e. staging_merge_valid cp e \<and> staging_bundle_valid env cp e))
         ''staging mutation release requires the exact integrated merge and a valid sealed exact-subject bundle''])"

definition register_mutation :: "runtime \<Rightarrow> control_plane \<Rightarrow> lc_dir \<Rightarrow> mutation_attempt \<Rightarrow> mutation_attempt lc_outcome" where
  "register_mutation rt cp d a = (case read_attempts rt [] (ld_journal d) of
      Inl err \<Rightarrow> (Inl err, cp, d)
    | Inr attempts \<Rightarrow>
        (case map_of attempts (ma_key a) of
           Some b \<Rightarrow> if b \<noteq> a
             then (Inl (Denied ''idempotency key is already bound to a different complete mutation plan''), cp, d)
             else (Inr a, cp\<lparr>cp_attempts := dput (ma_key a) a (cp_attempts cp)\<rparr>, d)
         | None \<Rightarrow> (Inr a, cp\<lparr>cp_attempts := dput (ma_key a) a (cp_attempts cp)\<rparr>,
             d\<lparr>ld_journal := ld_journal d @ [attempt_fields a @ [(''record_digest'', JStr (attempt_digest rt a))]]\<rparr>)))"

definition prejournal_mutation ::
  "runtime \<Rightarrow> lc_env \<Rightarrow> control_plane \<Rightarrow> lc_dir \<Rightarrow> mutation_attempt \<Rightarrow> mutation_authorization \<Rightarrow> evidence option
     \<Rightarrow> mutation_attempt lc_outcome" where
  "prejournal_mutation rt env cp d a z e = locked cp d
     (if persisted_head rt d \<noteq> head_digest cp
      then (Inl (Denied ''lifecycle state changed; reload before mutation release''), cp, d)
      else if ma_subject a \<noteq> cp_subject cp then (Inl (Denied ''mutation attempt subject does not match''), cp, d)
      else (case read_attempts rt [] (ld_journal d) of
          Inl err \<Rightarrow> (Inl err, cp, d)
        | Inr attempts \<Rightarrow>
            if history_unclear cp a \<and> map_of attempts (ma_key a) = None
            then (Inl (Denied (''unavailable or ambiguous historical schema may replay only an existing mutation attempt'')), cp, d)
            else if \<not> authorization_valid env cp a z
            then (Inl (Denied ''mutation attempt lacks current external lifecycle authority''), cp, d)
            else (case first_fault (if phase_four cp then release_checks rt env cp a e else []) of
                Inl err \<Rightarrow> (Inl err, cp, d)
              | Inr (Some message) \<Rightarrow> (Inl (Denied message), cp, d)
              | Inr None \<Rightarrow> register_mutation rt cp d a)))"

definition adapter_trusted ::
  "lc_env \<Rightarrow> control_plane \<Rightarrow> mutation_attempt \<Rightarrow> string \<Rightarrow> string option \<Rightarrow> adapter_evidence option \<Rightarrow> bool" where
  "adapter_trusted env cp a status digest x = (case x of
      None \<Rightarrow> False
    | Some x \<Rightarrow> ad_id x \<noteq> [] \<and> ad_role x \<noteq> [] \<and> ad_authenticated x
        \<and> ''lifecycle.mutation.result.record'' \<in> set (ad_capabilities x)
        \<and> ad_subject x = cp_subject cp \<and> ad_subject x = ma_subject a \<and> ad_attempt x = ma_id a \<and> ad_key x = ma_key a
        \<and> ad_action x = ma_action a \<and> ad_plan x = ma_plan a \<and> ad_status x = status \<and> ad_result x = digest
        \<and> map_of (tp_adapters (cp_trust cp)) (ad_id x) = Some (ad_authority x)
        \<and> verify_external env (ad_id x) (ad_authority x) (adapter_json x) (ad_proof x))"

definition unknown_digest :: "string option \<Rightarrow> string" where
  "unknown_digest r = (case r of None \<Rightarrow> ''UNKNOWN'' | Some d \<Rightarrow> if d = [] then ''UNKNOWN'' else d)"

definition result_draft :: "runtime \<Rightarrow> control_plane \<Rightarrow> mutation_attempt \<Rightarrow> string \<Rightarrow> string option \<Rightarrow> adapter_evidence \<Rightarrow> event_draft" where
  "result_draft rt cp a status digest x =
     \<lparr>dr_kind = ''MUTATION_RESULT'', dr_outcome = ''RECORDED'', dr_source = cp_state cp, dr_target = cp_state cp,
      dr_reason = ma_action a, dr_actor = ad_id x,
      dr_refs = [(''attempt_id'', ma_id a), (''idempotency_key'', ma_key a), (''result_digest'', unknown_digest digest),
        (''adapter_id'', ad_id x), (''adapter_role'', ad_role x),
        (''adapter_capabilities_json'', json_text rt (names_json (sorted_set (ad_capabilities x)))),
        (''adapter_authority_digest'', ad_authority x), (''adapter_step_plan_digest'', ad_plan x),
        (''adapter_authentication_evidence_digest'', ad_proof x)],
      dr_observed = [], dr_usage = None, dr_resume = None, dr_detail = status\<rparr>"

definition record_mutation_result ::
  "runtime \<Rightarrow> lc_env \<Rightarrow> control_plane \<Rightarrow> lc_dir \<Rightarrow> mutation_attempt \<Rightarrow> string \<Rightarrow> string option \<Rightarrow> adapter_evidence option
     \<Rightarrow> mutation_result lc_outcome" where
  "record_mutation_result rt env cp d a status digest x =
     (if status \<notin> {''SUCCEEDED'', ''FAILED'', ''UNKNOWN''} then (Inl (Denied ''mutation result status is not admitted''), cp, d)
      else if ma_subject a \<noteq> cp_subject cp then (Inl (Denied ''mutation attempt subject does not match''), cp, d)
      else if status = ''SUCCEEDED'' \<and> (case digest of None \<Rightarrow> True | Some g \<Rightarrow> \<not> is_digest_str g)
      then (Inl (Denied ''successful mutation requires a canonical result digest''), cp, d)
      else (case journal_fault rt d a of
          Inl err \<Rightarrow> (Inl err, cp, d)
        | Inr (Some message) \<Rightarrow> (Inl (Denied message), cp, d)
        | Inr None \<Rightarrow>
            if \<not> adapter_trusted env cp a status digest x
            then (Inl (Denied ''trusted adapter authority for the authenticated exact attempt is required''), cp, d)
            else let result = \<lparr>mr_attempt = ma_id a, mr_key = ma_key a, mr_status = status, mr_digest = digest\<rparr>;
                     record = (case record_event rt cp d (result_draft rt cp a status digest (the x)) None None of
                         (Inl err, cp', d') \<Rightarrow> (Inl err, cp', d')
                       | (Inr _, cp', d') \<Rightarrow> (Inr result, cp'\<lparr>cp_results := dput (ma_key a) result (cp_results cp'),
                           cp_verified := ma_key a # cp_verified cp'\<rparr>, d')) in
              (case map_of (cp_results cp) (ma_key a) of
                 None \<Rightarrow> record
               | Some prior \<Rightarrow>
                   if mr_attempt prior \<noteq> ma_id a then (Inl (Denied ''mutation result attempt does not match''), cp, d)
                   else if mr_status prior = ''UNKNOWN'' \<and> status \<in> {''SUCCEEDED'', ''FAILED''} then record
                   else if mr_status prior = status \<and> mr_digest prior = digest then (Inr prior, cp, d)
                   else (Inl (Denied ''mutation result is already sealed''), cp, d))))"

definition record_observation ::
  "runtime \<Rightarrow> lc_env \<Rightarrow> control_plane \<Rightarrow> lc_dir \<Rightarrow> string \<Rightarrow> string \<Rightarrow> string \<Rightarrow> string \<Rightarrow> string \<Rightarrow> lifecycle_event lc_outcome" where
  "record_observation rt env cp d source subject payload signature observed = locked cp d
     (if subject \<noteq> cp_subject cp then (Inl (Denied ''observation subject does not match the lifecycle subject''), cp, d)
      else if source = [] \<or> payload = [] \<or> signature = [] \<or> observed = []
      then (Inl (Denied ''observation is not digest-bound and attributable''), cp, d)
      else let authority = ev (tp_live (cp_trust cp)) source in
        if authority = [] \<or> \<not> verify_external env source authority (texts [(''source'', source), (''subject_digest'', subject),
             (''payload_digest'', payload), (''observed_at'', observed)]) signature
        then (Inl (Denied ''observation source is not authenticated''), cp, d)
        else record_event rt cp d
          \<lparr>dr_kind = ''OBSERVATION'', dr_outcome = ''RECORDED'', dr_source = cp_state cp, dr_target = cp_state cp,
           dr_reason = source, dr_actor = source,
           dr_refs = [(''subject_digest'', subject), (''payload_digest'', payload), (''signature'', signature),
             (''observer_authority_digest'', authority)],
           dr_observed = observed, dr_usage = None, dr_resume = None, dr_detail = []\<rparr> None None)"

section \<open>Resumption\<close>

definition resume_inputs_bound ::
  "runtime \<Rightarrow> lc_env \<Rightarrow> control_plane \<Rightarrow> transition_context \<Rightarrow> lifecycle_event \<Rightarrow> bool" where
  "resume_inputs_bound rt env cp ctx stopped =
     (let e = cx_evidence ctx; inputs = pick e review_input_fields; bound = map_of (le_refs stopped) ''resume_binding_digest'' in
      is_git_sha (ev e ''reviewed_commit_sha'')
      \<and> list_all (\<lambda>k. is_digest_str (ev e k)) [''prospective_tree_digest'', ''verification_bundle_digest'', ''review_digest'']
      \<and> Some (lc_digest rt (texts inputs)) = bound \<and> map_of e ''unchanged_inputs_digest'' = bound
      \<and> trusted_repository rt env cp ctx inputs)"

definition finding_disposed :: "lc_env \<Rightarrow> control_plane \<Rightarrow> transition_context \<Rightarrow> lifecycle_event \<Rightarrow> bool" where
  "finding_disposed env cp ctx stopped =
     (let e = cx_evidence ctx; s = le_refs stopped; source = ev s ''finding_source_id'';
          authority = ev s ''finding_source_authority_digest'';
          names = [''finding_disposition_digest'', ''remediation_issue_digest'', ''repository_snapshot_digest''] in
      list_all (\<lambda>k. is_digest_str (ev e k)) names \<and> map_of e ''finding_digest'' = Some (ev s ''finding_digest'')
      \<and> map_of (tp_findings (cp_trust cp)) source = Some authority
      \<and> verify_external env source authority (texts ([(''source_id'', source), (''authority_digest'', authority),
            (''subject_digest'', cp_subject cp), (''finding_digest'', ev s ''finding_digest'')] @ pick e names
            @ [(''observed_at'', cx_observed ctx)]))
          (ev e ''finding_disposition_authentication_evidence_digest''))"

definition quarantine_disposed :: "lc_env \<Rightarrow> control_plane \<Rightarrow> transition_context \<Rightarrow> lifecycle_event \<Rightarrow> bool" where
  "quarantine_disposed env cp ctx stopped =
     (let e = cx_evidence ctx; artifact = ev (le_refs stopped) ''affected_artifact_digest'';
          observer = ev e ''quarantine_disposition_observer_id'';
          authority = ev e ''quarantine_disposition_observer_authority_digest'' in
      ''lifecycle.quarantine.disposition'' \<in> set (ac_capabilities (cx_actor ctx))
      \<and> map_of e ''affected_artifact_digest'' = Some artifact
      \<and> map_of e ''quarantine_disposition_status'' = Some ''AUTHORITATIVELY_DISPOSED''
      \<and> map_of (tp_repository (cp_trust cp)) observer = Some authority
      \<and> verify_external env observer authority (texts [(''observer_id'', observer), (''authority_digest'', authority),
          (''affected_artifact_digest'', artifact), (''subject_digest'', cp_subject cp),
          (''status'', ''AUTHORITATIVELY_DISPOSED''), (''observed_at'', cx_observed ctx)])
          (ev e ''quarantine_disposition_authentication_evidence_digest''))"

definition resume_checks ::
  "runtime \<Rightarrow> lc_env \<Rightarrow> control_plane \<Rightarrow> transition_context \<Rightarrow> lifecycle_event \<Rightarrow> lifecycle_state \<Rightarrow> transition_rule \<Rightarrow> check list" where
  "resume_checks rt env cp ctx stopped target rule =
     (let e = cx_evidence ctx; missing = filter (\<lambda>k. ev e k = []) (ru_evidence rule);
          malformed = malformed_evidence e (ru_evidence rule);
          special = le_reason stopped \<in> {''post_merge_blocking_finding'', ''quarantine_disposition_indeterminate''}
            \<or> target = PR_READY in
      [fails (ru_permission rule \<notin> set (ac_capabilities (cx_actor ctx))) ''resume authority lacks required capability'',
       fails (missing \<noteq> []) (''required resume evidence is missing: '' @ join '', '' (sort missing)),
       fails (malformed \<noteq> []) (''resume evidence is not canonical: '' @ join '', '' malformed),
       fails (map_of e ''subject_digest'' \<noteq> Some (cp_subject cp)) ''resume subject evidence does not match'',
       fails (target = PR_READY \<and> \<not> resume_inputs_bound rt env cp ctx stopped)
         ''PR_READY resume lacks a fresh trusted repository observation'',
       fails (le_reason stopped = ''post_merge_blocking_finding'' \<and> \<not> finding_disposed env cp ctx stopped)
         ''authenticated exact-finding disposition and fresh remediation admission are required before resume'',
       fails (le_reason stopped = ''quarantine_disposition_indeterminate'' \<and> \<not> quarantine_disposed env cp ctx stopped)
         ''authoritative exact-artifact quarantine disposition evidence is required'',
       fails (\<not> special \<and> \<not> trusted_resume_gate env cp ctx stopped target) ''trusted exact-stop resume evidence is required'',
       fails (has_resources (cx_rollout ctx)) ''ordinary resume requires zero rollout resources'',
       fails (busy (cx_work ctx)) ''ordinary resume requires stopped workers'',
       fails (wk_capability (cx_work ctx)) ''ordinary resume requires revoked candidate mutation capability'',
       bindr (trusted_authority rt env cp ctx) (\<lambda>ok. fails (\<not> ok) ''authority must be current before resume''),
       fails (bu_safety (cx_usage ctx) \<noteq> bu_safety (cp_usage cp))
         ''reserved safety usage is controlled only by the lifecycle authority'',
       fails (\<not> trusted_budget rt env cp ctx) ''trusted complete budget telemetry is required before resume''])"

definition resume_applied ::
  "runtime \<Rightarrow> control_plane \<Rightarrow> lc_dir \<Rightarrow> transition_context \<Rightarrow> lifecycle_state \<Rightarrow> budget_usage \<Rightarrow> lifecycle_event lc_outcome" where
  "resume_applied rt cp d ctx target usage =
     (case record_event rt cp d
        \<lparr>dr_kind = ''TRANSITION'', dr_outcome = ''APPLIED'', dr_source = cp_state cp, dr_target = target,
         dr_reason = ''recorded_safe_resume'', dr_actor = ac_id (cx_actor ctx), dr_refs = cx_evidence ctx,
         dr_observed = cx_observed ctx, dr_usage = Some usage, dr_resume = Some target, dr_detail = []\<rparr> None None of
        (Inl err, cp', d') \<Rightarrow> (Inl err, cp', d')
      | (Inr e, cp', d') \<Rightarrow> (Inr e, cp'\<lparr>cp_state := target, cp_usage := usage\<rparr>, d'))"

definition resume :: "runtime \<Rightarrow> lc_env \<Rightarrow> control_plane \<Rightarrow> lc_dir \<Rightarrow> transition_context \<Rightarrow> lifecycle_event lc_outcome" where
  "resume rt env cp d ctx =
     (if \<not> actor_valid rt env cp ctx \<or> ''lifecycle.transition'' \<notin> set (ac_capabilities (cx_actor ctx))
      then deny rt env cp d (cp_state cp) ctx ''resume'' ''actor authority is invalid for this subject''
      else if cp_state cp \<notin> {BLOCKED, BUDGET_EXCEEDED}
      then deny rt env cp d (cp_state cp) ctx ''resume'' ''only a stopped lifecycle can resume''
      else (case latest (\<lambda>e. applied e \<and> le_target e = cp_state cp \<and> le_resume e \<noteq> None) cp of
          None \<Rightarrow> deny rt env cp d (cp_state cp) ctx ''resume'' ''the stopped lifecycle has no recorded safe state''
        | Some stopped \<Rightarrow> (let target = the (le_resume stopped) in
            case find_rule (cp_policy cp) (cp_state cp) target ''recorded_safe_resume'' of
              None \<Rightarrow> deny rt env cp d target ctx ''resume'' (''illegal transition '' @ state_text (cp_state cp) @ '' -> ''
                @ state_text target @ '' (recorded_safe_resume)'')
            | Some rule \<Rightarrow> (case first_fault (resume_checks rt env cp ctx stopped target rule) of
                Inl err \<Rightarrow> (Inl err, cp, d)
              | Inr (Some message) \<Rightarrow> deny rt env cp d target ctx ''resume'' message
              | Inr None \<Rightarrow> (case merge_strict (cp_usage cp) (cx_usage ctx) of
                  Inl message \<Rightarrow> deny rt env cp d target ctx ''resume'' message
                | Inr usage \<Rightarrow> if exhausted usage (cp_budget cp) \<noteq> []
                    then deny rt env cp d target ctx ''resume'' ''approved budget extension is not effective''
                    else resume_applied rt cp d ctx target usage)))))"

section \<open>Budget extensions\<close>

record budget_extension =
  bx_id :: string
  bx_owner :: string
  bx_role :: string
  bx_authenticated :: bool
  bx_capabilities :: "string list"
  bx_run_id :: string
  bx_subject :: string
  bx_authority :: string
  bx_credential :: string
  bx_prior :: string
  bx_proposed :: string
  bx_amounts :: "(string \<times> int) list"
  bx_reason :: string
  bx_from :: string
  bx_until :: string
  bx_observer :: string
  bx_observer_authority :: string
  bx_current_time :: string
  bx_challenge :: string
  bx_authority_proof :: string
  bx_evidence :: string

definition issue_challenge :: "lc_env \<Rightarrow> string \<Rightarrow> control_plane \<Rightarrow> control_plane" where
  "issue_challenge env token cp = cp\<lparr>cp_challenge := Some token, cp_deadline := Some (lv_monotonic env + 300)\<rparr>"

definition extension_json :: "budget_extension \<Rightarrow> json" where
  "extension_json x = JObj [(''extension_id'', JStr (bx_id x)), (''owner_id'', JStr (bx_owner x)), (''owner_role'', JStr (bx_role x)),
     (''authenticated'', JBool (bx_authenticated x)), (''capabilities'', names_json (sorted_set (bx_capabilities x))),
     (''run_id'', JStr (bx_run_id x)), (''subject_digest'', JStr (bx_subject x)), (''authority_digest'', JStr (bx_authority x)),
     (''credential_digest'', JStr (bx_credential x)), (''prior_policy_digest'', JStr (bx_prior x)),
     (''proposed_policy_digest'', JStr (bx_proposed x)), (''amounts'', numbers (bx_amounts x)), (''reason'', JStr (bx_reason x)),
     (''valid_from'', JStr (bx_from x)), (''valid_until'', JStr (bx_until x)), (''authority_observer_id'', JStr (bx_observer x)),
     (''authority_observer_authority_digest'', JStr (bx_observer_authority x)),
     (''authority_current_time'', JStr (bx_current_time x)), (''admission_challenge'', JStr (bx_challenge x))]"

definition policy_amounts :: "budget_policy \<Rightarrow> (string \<times> int) list" where
  "policy_amounts p = bp_limits p @ [(''repair_attempts_per_finding'', bp_per_finding p),
     (''repair_attempts_per_stage'', bp_per_stage p), (''reserved_safety_units'', bp_safety p)]"

definition extension_amounts :: "budget_policy \<Rightarrow> budget_policy \<Rightarrow> (string \<times> int) list" where
  "extension_amounts current proposed =
     map (\<lambda>(k, n). (k, count_of (policy_amounts proposed) k - n))
       (filter (\<lambda>(k, n). count_of (policy_amounts proposed) k \<noteq> n) (policy_amounts current))"

definition prior_authority_times :: "lc_env \<Rightarrow> control_plane \<Rightarrow> stamp option list" where
  "prior_authority_times env cp = map (\<lambda>e. time_of env (ev (le_refs e) ''authority_current_time''))
     (filter (\<lambda>e. le_kind e = ''BUDGET_POLICY_ADMITTED'' \<and> le_outcome e = ''RECORDED''
        \<and> ev (le_refs e) ''authority_current_time'' \<noteq> []) (cp_events cp))"

definition strictly_after :: "int \<Rightarrow> stamp option \<Rightarrow> bool" where
  "strictly_after t s = (case s of Some (Aware p) \<Rightarrow> p < t | _ \<Rightarrow> False)"

definition extension_authority_json :: "control_plane \<Rightarrow> authority_snapshot \<Rightarrow> budget_extension \<Rightarrow> json" where
  "extension_authority_json cp a x = JObj [(''observer_id'', JStr (bx_observer x)),
     (''authority_digest'', JStr (bx_observer_authority x)), (''subject_digest'', JStr (cp_subject cp)),
     (''contract_version'', JStr (au_contract a)), (''publisher_version'', JStr (au_publisher a)),
     (''contract_active'', JBool (au_contract_active a)), (''publisher_active'', JBool (au_publisher_active a)),
     (''authority_observed_at'', JStr (au_observed a)), (''valid_until'', JStr (au_valid_until a)),
     (''authority_current_time'', JStr (bx_current_time x)), (''admission_challenge'', JStr (bx_challenge x))]"

text \<open>The checks on the times of an extension; each time is parsed before it is compared.\<close>

definition extension_time_checks ::
  "lc_env \<Rightarrow> control_plane \<Rightarrow> authority_snapshot \<Rightarrow> budget_extension \<Rightarrow> string \<Rightarrow> check list" where
  "extension_time_checks env cp a x observed =
     (let prior = prior_authority_times env cp in
      case (time_of env (bx_from x), time_of env (bx_until x), time_of env observed) of
        (Some (Aware f), Some (Aware u), Some (Aware o')) \<Rightarrow>
          [fails (time_of env (bx_current_time x) = None) ''budget extension trusted time is malformed'',
           fails (None \<in> set prior) ''budget extension authority chronology is malformed'',
           (if list_ex is_aware prior \<and> \<not> list_all is_aware prior then Inl Type_fault else Inr None),
           fails (case (time_of env (bx_current_time x), time_of env (au_valid_until a)) of
               (Some (Aware n), Some (Aware v)) \<Rightarrow> n < o' \<or> \<not> list_all (strictly_after n) prior \<or> n \<ge> v
                 \<or> map_of (tp_authority (cp_trust cp)) (bx_observer x) \<noteq> Some (bx_observer_authority x)
                 \<or> \<not> verify_external env (bx_observer x) (bx_observer_authority x) (extension_authority_json cp a x) (bx_authority_proof x)
             | _ \<Rightarrow> True) ''budget extension authority requires trusted current time'',
           fails (case time_of env (bx_current_time x) of Some (Aware n) \<Rightarrow> f > n \<or> n \<ge> u | _ \<Rightarrow> True)
             ''budget extension is outside its validity window'']
      | (Some _, Some _, Some _) \<Rightarrow> [fails True ''budget extension validity must include a timezone'']
      | _ \<Rightarrow> [fails True ''budget extension validity is malformed''])"

definition extension_checks ::
  "runtime \<Rightarrow> lc_env \<Rightarrow> control_plane \<Rightarrow> budget_policy \<Rightarrow> budget_extension \<Rightarrow> authority_snapshot \<Rightarrow> string \<Rightarrow> check list" where
  "extension_checks rt env cp p x a observed =
     (let current = cp_budget cp; amounts = extension_amounts current p in
      [fails (bx_owner x = [] \<or> bx_role x = [] \<or> \<not> bx_authenticated x \<or> ''lifecycle.budget.extend'' \<notin> set (bx_capabilities x))
         ''authenticated budget owner authority is required'',
       fails (bx_run_id x \<noteq> cp_run_id cp \<or> bx_subject x \<noteq> cp_subject cp) ''budget extension run or subject does not match'',
       fails (\<not> current_at rt env a observed \<or> bx_authority x \<noteq> au_digest a \<or> bx_owner x \<noteq> bp_approved_by p)
         ''budget extension owner authority is not current'',
       fails (bx_id x = [] \<or> bx_reason x = []) ''budget extension identity and reason are required'',
       fails (\<not> is_digest_str (bx_credential x) \<or> \<not> is_digest_str (bx_evidence x)) ''budget extension evidence digest is not canonical'',
       fails (map_of (tp_budget_owners (cp_trust cp)) (bx_owner x) \<noteq> Some (bx_credential x)
           \<or> \<not> verify_external env (bx_owner x) (bx_credential x) (extension_json x) (bx_evidence x))
         ''trusted budget-owner authority is required'',
       fails (cp_challenge cp \<noteq> Some (bx_challenge x)
           \<or> (case cp_deadline cp of None \<Rightarrow> True | Some t \<Rightarrow> lv_monotonic env > t))
         ''budget extension requires a fresh admission challenge'']
      @ extension_time_checks env cp a x observed
      @ [fails (bx_prior x \<noteq> lc_digest rt (budget_policy_json current) \<or> bx_proposed x \<noteq> lc_digest rt (budget_policy_json p))
           ''budget extension is not bound to the exact policies'',
         fails (bp_version p = bp_version current) ''budget extension must have a new version'',
         fails (list_ex (\<lambda>(k, n). count_of (bp_limits p) k < n) (bp_limits current))
           ''budget extension cannot reduce an existing limit'',
         fails (bp_per_finding p < bp_per_finding current) ''budget extension cannot reduce the finding repair limit'',
         fails (bp_per_stage p < bp_per_stage current) ''budget extension cannot reduce the stage repair limit'',
         fails (bp_safety p < bp_safety current) ''budget extension cannot reduce reserved safety'',
         fails (amounts = [] \<or> list_ex (\<lambda>(_, n). n \<le> 0) amounts) ''budget extension amounts must be positive and bounded'',
         fails (sort_key fst (bx_amounts x) \<noteq> sort_key fst amounts)
           ''budget extension amount does not match the proposed policy''])"

definition extension_draft ::
  "runtime \<Rightarrow> control_plane \<Rightarrow> budget_policy \<Rightarrow> budget_extension \<Rightarrow> string \<Rightarrow> event_draft" where
  "extension_draft rt cp p x observed =
     (let proposed = lc_digest rt (budget_policy_json p) in
      \<lparr>dr_kind = ''BUDGET_POLICY_ADMITTED'', dr_outcome = ''RECORDED'', dr_source = cp_state cp, dr_target = cp_state cp,
       dr_reason = bx_reason x, dr_actor = bx_owner x,
       dr_refs = [(''extension_id'', bx_id x), (''run_id'', bx_run_id x), (''subject_digest'', bx_subject x),
         (''authority_digest'', bx_authority x), (''credential_digest'', bx_credential x),
         (''prior_policy_digest'', lc_digest rt (budget_policy_json (cp_budget cp))), (''proposed_policy_digest'', proposed),
         (''budget_policy_digest'', proposed), (''budget_policy_json'', json_text rt (budget_policy_json p)),
         (''amounts_digest'', lc_digest rt (numbers (extension_amounts (cp_budget cp) p))),
         (''authorization_evidence_digest'', bx_evidence x), (''authority_observer_id'', bx_observer x),
         (''authority_observer_authority_digest'', bx_observer_authority x), (''authority_current_time'', bx_current_time x),
         (''admission_challenge_digest'', lc_digest rt (JStr (bx_challenge x))), (''valid_from'', bx_from x),
         (''valid_until'', bx_until x)],
       dr_observed = observed, dr_usage = None, dr_resume = None, dr_detail = []\<rparr>)"

definition admit_budget_policy ::
  "runtime \<Rightarrow> lc_env \<Rightarrow> control_plane \<Rightarrow> lc_dir \<Rightarrow> budget_policy \<Rightarrow> budget_extension option \<Rightarrow> authority_snapshot option
     \<Rightarrow> string \<Rightarrow> lifecycle_event lc_outcome" where
  "admit_budget_policy rt env cp d p x a observed = (case (x, a) of
      (Some x, Some a) \<Rightarrow> (case first_fault (extension_checks rt env cp p x a observed) of
          Inl err \<Rightarrow> (Inl err, cp, d)
        | Inr (Some message) \<Rightarrow> (Inl (Denied message), cp, d)
        | Inr None \<Rightarrow> record_event rt (cp\<lparr>cp_challenge := None, cp_deadline := None\<rparr>) d (extension_draft rt cp p x observed)
            (Some (lc_digest rt (budget_policy_json (cp_budget cp)))) (Some p))
    | _ \<Rightarrow> (Inl (Denied ''authenticated budget owner authority is required''), cp, d))"

section \<open>A new run\<close>

definition initial_plane ::
  "string \<Rightarrow> string \<Rightarrow> budget_policy \<Rightarrow> lifecycle_policy \<Rightarrow> trust_policy \<Rightarrow> nat \<Rightarrow> control_plane" where
  "initial_plane run_id subject budget policy trust identity =
     \<lparr>cp_run_id = run_id, cp_subject = subject, cp_state = CONTRACT_RECEIVED, cp_budget = budget, cp_policy = policy,
      cp_trust = trust, cp_events = [], cp_identity = identity, cp_claimed = False, cp_attempts = [], cp_results = [],
      cp_verified = [], cp_consumed = [], cp_challenge = None, cp_deadline = None, cp_usage = no_usage\<rparr>"

text \<open>
  The first event of \<^verbatim>\<open>create\<close> in an empty directory, with the digest of the metadata file, which
  is written before it.
\<close>

definition create_run ::
  "runtime \<Rightarrow> string \<Rightarrow> string \<Rightarrow> budget_policy \<Rightarrow> lifecycle_policy \<Rightarrow> trust_policy \<Rightarrow> string \<Rightarrow> string \<Rightarrow> nat \<Rightarrow> lifecycle_event lc_outcome" where
  "create_run rt run_id subject budget policy trust trust_digest metadata identity =
     record_event rt (initial_plane run_id subject budget policy trust identity)
       \<lparr>ld_identity = Some identity, ld_ledger = [], ld_journal = []\<rparr>
       \<lparr>dr_kind = ''STATE_CREATED'', dr_outcome = ''APPLIED'', dr_source = CONTRACT_RECEIVED, dr_target = CONTRACT_RECEIVED,
        dr_reason = ''create'', dr_actor = ''control-plane'',
        dr_refs = [(''budget_policy_digest'', lc_digest rt (budget_policy_json budget)),
          (''run_id_digest'', lc_digest rt (JStr run_id)), (''metadata_digest'', metadata), (''trust_policy_digest'', trust_digest)],
        dr_observed = [], dr_usage = None, dr_resume = None, dr_detail = []\<rparr> None None"

section \<open>Histories\<close>

text \<open>
  What can happen to a control plane and its directory: any operation, with any arguments and
  any state of the world outside, whether it succeeds or not.
\<close>

inductive step :: "runtime \<Rightarrow> control_plane \<times> lc_dir \<Rightarrow> control_plane \<times> lc_dir \<Rightarrow> bool" for rt where
  Transition: "step rt (cp, d) (snd (transition rt env cp d target ctx reason))"
| Resume: "step rt (cp, d) (snd (resume rt env cp d ctx))"
| Prejournal: "step rt (cp, d) (snd (prejournal_mutation rt env cp d a z e))"
| Result: "step rt (cp, d) (snd (record_mutation_result rt env cp d a status digest x))"
| Observation: "step rt (cp, d) (snd (record_observation rt env cp d source subject payload signature observed))"
| Challenge: "step rt (cp, d) (issue_challenge env token cp, d)"
| Extension: "step rt (cp, d) (snd (admit_budget_policy rt env cp d p ext auth observed))"

inductive reachable :: "runtime \<Rightarrow> lifecycle_policy \<Rightarrow> control_plane \<times> lc_dir \<Rightarrow> bool" for rt policy where
  Created: "create_run rt run_id subject budget policy trust trust_digest metadata identity = (Inr e, s)
     \<Longrightarrow> reachable rt policy s"
| Stepped: "reachable rt policy s \<Longrightarrow> step rt s s' \<Longrightarrow> reachable rt policy s'"

end
