(* ===== verification/Lifecycle_Safety.thy ===== *)
theory Lifecycle_Safety
  imports Lifecycle "HOL-Library.Sublist"
begin

text \<open>
  What holds of every control plane that can come about: any sequence of operations, successful
  or not, from a new run.

  Each step leaves the plane alone, notes an event, or moves to the target of a rule; this is
  \<^verbatim>\<open>step_effect\<close>, on which the invariants rest.
\<close>

section \<open>One append\<close>

text \<open>The writer holds the directory it was made for and has seen the whole ledger.\<close>

definition may_append :: "runtime \<Rightarrow> control_plane \<Rightarrow> lc_dir \<Rightarrow> string option \<Rightarrow> bool" where
  "may_append rt cp d expected \<longleftrightarrow> ld_identity d = Some (cp_identity cp) \<and> length (ld_ledger d) = length (cp_events cp)
     \<and> persisted_head rt d = head_digest cp
     \<and> (expected = None \<or> expected = Some (lc_digest rt (budget_policy_json (cp_budget cp))))"

definition grown :: "runtime \<Rightarrow> control_plane \<Rightarrow> event_draft \<Rightarrow> budget_policy option \<Rightarrow> control_plane" where
  "grown rt cp dr admitted = cp\<lparr>cp_events := cp_events cp @ [event_of rt cp dr],
     cp_budget := (case admitted of None \<Rightarrow> cp_budget cp | Some p \<Rightarrow> p)\<rparr>"

definition ledger_grown :: "runtime \<Rightarrow> control_plane \<Rightarrow> lc_dir \<Rightarrow> event_draft \<Rightarrow> lc_dir" where
  "ledger_grown rt cp d dr = d\<lparr>ld_ledger := ld_ledger d
     @ [lc_event_body rt cp dr @ [(''event_digest'', JStr (le_digest (event_of rt cp dr)))]]\<rparr>"

lemma append_event_ok:
  "may_append rt cp d expected \<Longrightarrow>
     record_event rt cp d dr expected admitted = (Inr (event_of rt cp dr), grown rt cp dr admitted, ledger_grown rt cp d dr)"
  by (auto simp: record_event_def locked_def may_append_def grown_def ledger_grown_def Let_def)

lemma append_event_stale:
  assumes "\<not> may_append rt cp d expected"
  shows "\<exists>err. record_event rt cp d dr expected admitted = (Inl (Denied err), cp, d)"
proof -
  define stale where "stale \<longleftrightarrow> length (ld_ledger d) \<noteq> length (cp_events cp) \<or> persisted_head rt d \<noteq> head_digest cp"
  define lost where "lost \<longleftrightarrow> expected \<noteq> None \<and> Some (lc_digest rt (budget_policy_json (cp_budget cp))) \<noteq> expected"
  have "stale \<or> lost \<or> ld_identity d \<noteq> Some (cp_identity cp)"
    using assms by (auto simp: may_append_def stale_def lost_def)
  then show ?thesis unfolding record_event_def locked_def stale_def [symmetric] lost_def [symmetric]
    by (cases "ld_identity d") (auto split: if_splits)
qed

lemma append_event_cases:
  assumes "record_event rt cp d dr expected admitted = (r, cp', d')"
  obtains (stale) err where "r = Inl (Denied err)" "cp' = cp" "d' = d"
  | (appended) "r = Inr (event_of rt cp dr)" "cp' = grown rt cp dr admitted" "d' = ledger_grown rt cp d dr"
      "may_append rt cp d expected"
proof (cases "may_append rt cp d expected")
  case True
  show thesis using append_event_ok [OF True, of dr admitted] assms by (intro appended [OF _ _ _ True]) simp_all
next
  case False
  then obtain err where "record_event rt cp d dr expected admitted = (Inl (Denied err), cp, d)"
    using append_event_stale by blast
  with assms show thesis by (intro stale [of err]) simp_all
qed

lemma grown_sel [simp]:
  "cp_events (grown rt cp dr p) = cp_events cp @ [event_of rt cp dr]" "cp_state (grown rt cp dr p) = cp_state cp"
  "cp_claimed (grown rt cp dr p) = cp_claimed cp" "cp_usage (grown rt cp dr p) = cp_usage cp"
  "cp_consumed (grown rt cp dr p) = cp_consumed cp" "cp_policy (grown rt cp dr p) = cp_policy cp"
  "cp_trust (grown rt cp dr p) = cp_trust cp" "cp_subject (grown rt cp dr p) = cp_subject cp"
  "cp_results (grown rt cp dr p) = cp_results cp" "cp_verified (grown rt cp dr p) = cp_verified cp"
  "cp_identity (grown rt cp dr p) = cp_identity cp" "cp_attempts (grown rt cp dr p) = cp_attempts cp"
  by (simp_all add: grown_def)

lemma event_of_sel [simp]:
  "le_outcome (event_of rt cp dr) = dr_outcome dr" "le_source (event_of rt cp dr) = dr_source dr"
  "le_target (event_of rt cp dr) = dr_target dr" "le_reason (event_of rt cp dr) = dr_reason dr"
  "le_kind (event_of rt cp dr) = dr_kind dr" "le_refs (event_of rt cp dr) = dr_refs dr"
  "le_usage (event_of rt cp dr) = dr_usage dr" "le_resume (event_of rt cp dr) = dr_resume dr"
  "le_observed (event_of rt cp dr) = dr_observed dr" "le_detail (event_of rt cp dr) = dr_detail dr"
  by (simp_all add: event_of_def)

section \<open>Usage never decreases\<close>

definition counts_le :: "(string \<times> int) list \<Rightarrow> (string \<times> int) list \<Rightarrow> bool" where
  "counts_le m m' \<longleftrightarrow> (\<forall>k. count_of m k \<le> count_of m' k)"

definition usage_le :: "budget_usage \<Rightarrow> budget_usage \<Rightarrow> bool" where
  "usage_le u u' \<longleftrightarrow> counts_le (bu_counters u) (bu_counters u') \<and> counts_le (bu_by_finding u) (bu_by_finding u')
     \<and> counts_le (bu_by_stage u) (bu_by_stage u') \<and> bu_safety u \<le> bu_safety u'"

lemma usage_le_refl [simp]: "usage_le u u"
  by (simp add: usage_le_def counts_le_def)

lemma usage_le_trans: "usage_le u v \<Longrightarrow> usage_le v w \<Longrightarrow> usage_le u w"
  unfolding usage_le_def counts_le_def by (blast intro: order_trans)

lemma count_of_merge:
  "count_of (merge_counts p s) k =
     (if k \<in> set (map fst p) \<union> set (map fst s) then max (count_of p k) (count_of s k) else 0)"
proof -
  have "map_of (map (\<lambda>k. (k, f k)) ks) k = (if k \<in> set ks then Some (f k) else None)" for f :: "string \<Rightarrow> int" and ks
    by (induction ks) auto
  then show ?thesis unfolding merge_counts_def count_of_def [of "map _ _"] by simp
qed

lemma count_of_absent: "k \<notin> set (map fst m) \<Longrightarrow> count_of m k = 0"
  by (simp add: count_of_def map_of_eq_None_iff [THEN iffD2])

lemma merge_counts_le: "counts_le p (merge_counts p s)"
  unfolding counts_le_def count_of_merge using count_of_absent [of _ p] by simp

lemma merge_usage_le: "usage_le u (merge_usage u v)"
  by (simp add: usage_le_def merge_usage_def merge_counts_le)

lemma bump_le: "counts_le m (bump k m)"
  by (auto simp: counts_le_def bump_def count_of_def)

lemma charged_usage_le: "usage_le u (charged_usage cp ctx rule u)"
  using bump_le by (auto simp: usage_le_def charged_usage_def counts_le_def Let_def split: option.splits)

section \<open>The effect of a step\<close>

definition idle :: "control_plane \<Rightarrow> control_plane \<Rightarrow> bool" where
  "idle cp cp' \<longleftrightarrow> cp_events cp' = cp_events cp \<and> cp_state cp' = cp_state cp \<and> cp_claimed cp' = cp_claimed cp
     \<and> cp_usage cp' = cp_usage cp \<and> cp_consumed cp' = cp_consumed cp"

definition noted :: "control_plane \<Rightarrow> control_plane \<Rightarrow> bool" where
  "noted cp cp' \<longleftrightarrow> (\<exists>e. cp_events cp' = cp_events cp @ [e] \<and> \<not> applied e \<and> le_source e = cp_state cp
     \<and> cp_state cp' = cp_state cp \<and> cp_claimed cp' = cp_claimed cp \<and> usage_le (cp_usage cp) (cp_usage cp')
     \<and> cp_consumed cp' = cp_consumed cp)"

text \<open>The resume state an event records: its own target, or one no further than its source, or an earlier one.\<close>

definition resume_known :: "control_plane \<Rightarrow> lifecycle_state \<Rightarrow> bool" where
  "resume_known cp s \<longleftrightarrow> (\<exists>e \<in> set (cp_events cp). applied e \<and> le_resume e = Some s)"

definition moved :: "control_plane \<Rightarrow> control_plane \<Rightarrow> bool" where
  "moved cp cp' \<longleftrightarrow> (\<exists>e r. cp_events cp' = cp_events cp @ [e] \<and> applied e \<and> le_source e = cp_state cp
     \<and> le_target e = cp_state cp' \<and> r \<in> set (lp_rules (cp_policy cp)) \<and> is_rule (cp_state cp) (cp_state cp') (le_reason e) r
     \<and> usage_le (cp_usage cp) (cp_usage cp') \<and> set (cp_consumed cp) \<subseteq> set (cp_consumed cp')
     \<and> (if le_reason e = ''recorded_safe_resume'' then cp_claimed cp' = cp_claimed cp \<and> le_resume e = Some (cp_state cp')
        else (cp_claimed cp' \<longleftrightarrow> cp_state cp' = COMPLETED \<or> cp_state cp \<noteq> COMPLETED \<and> cp_claimed cp))
     \<and> (is_resumption r \<longrightarrow> resume_known cp (cp_state cp'))
     \<and> (\<forall>s. le_resume e = Some s \<longrightarrow> s = cp_state cp' \<and> is_resumption r \<or> resume_known cp s
          \<or> level s \<le> level (cp_state cp)
          \<or> ''safety_block'' \<in> set (ru_guards r) \<and> (\<exists>a. ru_mutation r = Some a \<and> map_of safety_gates a = Some s)))"

lemma find_latest: "latest P cp = Some e \<Longrightarrow> e \<in> set (cp_events cp) \<and> P e"
  by (auto simp: latest_def find_Some_iff in_set_conv_nth rev_nth) (metis diff_less length_pos_if_in_set nth_mem zero_less_Suc)

lemma find_rule_Some:
  "find_rule p source target reason = Some r \<Longrightarrow> r \<in> set (lp_rules p) \<and> is_rule source target reason r"
proof -
  assume "find_rule p source target reason = Some r"
  then have "filter (is_rule source target reason) (lp_rules p) = [r]"
    by (auto simp: find_rule_def split: list.splits)
  then have "r \<in> set (filter (is_rule source target reason) (lp_rules p))" by simp
  then show ?thesis by simp
qed

lemma first_fault_None: "first_fault cs = Inr None \<longleftrightarrow> (\<forall>c \<in> set cs. c = Inr None)"
  by (induction cs rule: first_fault.induct) auto

lemma fails_None [simp]: "fails b m = Inr None \<longleftrightarrow> \<not> b"
  by (simp add: fails_def)

definition same_run :: "control_plane \<Rightarrow> control_plane \<Rightarrow> bool" where
  "same_run cp cp' \<longleftrightarrow> cp_policy cp' = cp_policy cp \<and> cp_trust cp' = cp_trust cp \<and> cp_subject cp' = cp_subject cp
     \<and> cp_identity cp' = cp_identity cp"

text \<open>The three effects, with what no operation changes.\<close>

definition effect :: "control_plane \<Rightarrow> control_plane \<Rightarrow> bool" where
  "effect cp cp' \<longleftrightarrow> same_run cp cp' \<and> (idle cp cp' \<or> noted cp cp' \<or> moved cp cp')"

lemma effect_idle: "idle cp cp' \<Longrightarrow> same_run cp cp' \<Longrightarrow> effect cp cp'"
  by (simp add: effect_def)

lemma effect_refl [simp]: "effect cp cp"
  by (simp add: effect_def idle_def same_run_def)

lemma append_noted:
  assumes "record_event rt cp d dr expected admitted = (r, cp', d')" "dr_outcome dr \<noteq> ''APPLIED''" "dr_source dr = cp_state cp"
  shows "effect cp cp'"
  using assms(1)
proof (cases rule: append_event_cases)
  case appended
  then have "noted cp cp'" using assms(2,3) by (auto simp: noted_def applied_def)
  then show ?thesis by (simp add: effect_def same_run_def appended(2))
qed simp

lemma deny_effect: "effect cp (fst (snd (deny rt env cp d target ctx reason detail)))"
proof -
  define usage where "usage = (if trusted_budget rt env cp ctx
        then merge_usage (cp_usage cp) ((cx_usage ctx)\<lparr>bu_safety := bu_safety (cp_usage cp)\<rparr>) else cp_usage cp)"
  define dr where "dr = \<lparr>dr_kind = ''TRANSITION'', dr_outcome = ''DENIED'', dr_source = cp_state cp, dr_target = target,
    dr_reason = reason, dr_actor = ac_id (cx_actor ctx), dr_refs = cx_evidence ctx, dr_observed = cx_observed ctx,
    dr_usage = Some usage, dr_resume = None, dr_detail = detail\<rparr>"
  obtain r cp' d' where a: "record_event rt cp d dr None None = (r, cp', d')" by (metis prod_cases3)
  have deny: "deny rt env cp d target ctx reason detail = (case record_event rt cp d dr None None of
      (Inl err, cp', d') \<Rightarrow> (Inl err, cp', d') | (Inr _, cp', d') \<Rightarrow> (Inl (Denied detail), cp'\<lparr>cp_usage := usage\<rparr>, d'))"
    unfolding deny_def Let_def usage_def [symmetric] dr_def [symmetric] by (auto split: sum.splits prod.splits)
  have le: "usage_le (cp_usage cp) usage" using merge_usage_le by (simp add: usage_def)
  from a show ?thesis
  proof (cases rule: append_event_cases)
    case appended
    then have "noted cp (cp'\<lparr>cp_usage := usage\<rparr>)" using le by (auto simp: noted_def applied_def dr_def)
    then show ?thesis by (simp add: deny a effect_def same_run_def appended)
  qed (simp add: deny a)
qed

lemma result_draft_sel [simp]:
  "dr_outcome (result_draft rt cp a status digest x) = ''RECORDED''" "dr_source (result_draft rt cp a status digest x) = cp_state cp"
  by (simp_all add: result_draft_def)

lemma register_effect: "effect cp (fst (snd (register_mutation rt cp d a)))"
  by (auto simp: register_mutation_def effect_def idle_def same_run_def split: sum.splits option.splits)

lemma locked_effect: "effect cp (fst (snd r)) \<Longrightarrow> effect cp (fst (snd (locked cp d r)))"
  by (auto simp: locked_def split: option.splits)

lemma prejournal_effect: "effect cp (fst (snd (prejournal_mutation rt env cp d a z e)))"
  unfolding prejournal_mutation_def
  by (rule locked_effect) (auto simp: register_effect split: sum.splits option.splits)

lemma effect_results: "effect cp (cp'\<lparr>cp_results := rs, cp_verified := vs\<rparr>) = effect cp cp'"
proof -
  have "idle cp (cp'\<lparr>cp_results := rs, cp_verified := vs\<rparr>) = idle cp cp'" by (simp add: idle_def)
  moreover have "noted cp (cp'\<lparr>cp_results := rs, cp_verified := vs\<rparr>) = noted cp cp'" by (simp add: noted_def)
  moreover have "moved cp (cp'\<lparr>cp_results := rs, cp_verified := vs\<rparr>) = moved cp cp'" unfolding moved_def by simp
  moreover have "same_run cp (cp'\<lparr>cp_results := rs, cp_verified := vs\<rparr>) = same_run cp cp'" by (simp add: same_run_def)
  ultimately show ?thesis by (simp add: effect_def)
qed

lemma record_effect: "effect cp (fst (snd (record_mutation_result rt env cp d a status digest x)))"
proof -
  obtain r cp' d' where app: "record_event rt cp d (result_draft rt cp a status digest (the x)) None None = (r, cp', d')"
    by (metis prod_cases3)
  then have e: "effect cp cp'" by (rule append_noted) simp_all
  then have "effect cp (cp'\<lparr>cp_results := rs, cp_verified := vs\<rparr>)" for rs vs
    by (simp add: effect_results)
  with e show ?thesis unfolding record_mutation_result_def app Let_def by (auto split: sum.splits option.splits)
qed

lemma observation_effect: "effect cp (fst (snd (record_observation rt env cp d source subject payload signature observed)))"
proof -
  define dr where "dr = \<lparr>dr_kind = ''OBSERVATION'', dr_outcome = ''RECORDED'', dr_source = cp_state cp, dr_target = cp_state cp,
    dr_reason = source, dr_actor = source, dr_refs = [(''subject_digest'', subject), (''payload_digest'', payload),
      (''signature'', signature), (''observer_authority_digest'', ev (tp_live (cp_trust cp)) source)],
    dr_observed = observed, dr_usage = None, dr_resume = None, dr_detail = []\<rparr>"
  obtain r cp' d' where app: "record_event rt cp d dr None None = (r, cp', d')" by (metis prod_cases3)
  then have "effect cp cp'" by (rule append_noted) (simp_all add: dr_def)
  then show ?thesis unfolding record_observation_def Let_def dr_def [symmetric] app by (intro locked_effect) simp
qed

lemma extension_effect: "effect cp (fst (snd (admit_budget_policy rt env cp d p x a observed)))"
proof -
  define cp1 where "cp1 = cp\<lparr>cp_challenge := None, cp_deadline := None\<rparr>"
  have "effect cp cp'" if "record_event rt cp1 d (extension_draft rt cp p y observed)
      (Some (lc_digest rt (budget_policy_json (cp_budget cp)))) (Some p) = (r, cp', d')" for r cp' d' y
    using that
  proof (cases rule: append_event_cases)
    case appended
    then have "noted cp cp'" by (auto simp: noted_def applied_def extension_draft_def Let_def cp1_def)
    then show ?thesis by (simp add: effect_def same_run_def appended(2) cp1_def)
  qed (simp add: cp1_def effect_def idle_def same_run_def)
  then have "effect cp (fst (snd (record_event rt cp1 d (extension_draft rt cp p y observed)
      (Some (lc_digest rt (budget_policy_json (cp_budget cp)))) (Some p))))" for y
    by (metis prod.collapse)
  then show ?thesis unfolding admit_budget_policy_def cp1_def [symmetric] by (auto split: sum.splits option.splits)
qed

lemma challenge_effect: "effect cp (issue_challenge env token cp)"
  by (simp add: issue_challenge_def effect_def idle_def same_run_def)

lemma merge_strict_le: "merge_strict u v = Inr w \<Longrightarrow> usage_le u w"
  using merge_usage_le by (auto simp: merge_strict_def split: if_splits)

lemma first_fault_append [simp]:
  "first_fault (xs @ ys) = Inr None \<longleftrightarrow> first_fault xs = Inr None \<and> first_fault ys = Inr None"
  by (auto simp: first_fault_None)

lemma first_fault_guarded [simp]:
  "first_fault (guarded rule g cs) = Inr None \<longleftrightarrow> (g \<in> set (ru_guards rule) \<longrightarrow> first_fault cs = Inr None)"
  by simp

lemma first_fault_Cons [simp]: "first_fault (c # cs) = Inr None \<longleftrightarrow> c = Inr None \<and> first_fault cs = Inr None"
  by (auto simp: first_fault_None)

lemmas checks_passed = late_checks_def early_checks_def first_fault_append first_fault_guarded

lemma late_safety:
  assumes "first_fault (late_checks rt env cp d ctx target rule usage) = Inr None"
  shows "''safety_resume'' \<in> set (ru_guards rule) \<Longrightarrow> first_fault (safety_resume_checks rt cp d ctx target rule) = Inr None"
    and "''safety_block'' \<in> set (ru_guards rule) \<Longrightarrow> first_fault (safety_block_checks rt cp d ctx rule) = Inr None"
  using assms unfolding checks_passed by blast+

lemma safety_resume_known:
  assumes "first_fault (late_checks rt env cp d ctx target rule usage) = Inr None" "''safety_resume'' \<in> set (ru_guards rule)"
  shows "resume_known cp target"
proof -
  note passed = late_safety(1) [OF assms]
  obtain stopped where s: "latest (\<lambda>e. applied e \<and> le_target e = BLOCKED) cp = Some stopped" "le_resume stopped = Some target"
    using passed unfolding safety_resume_checks_def by (simp split: option.splits)
  with find_latest [OF s(1)] show ?thesis by (auto simp: resume_known_def)
qed

lemma safety_block_action:
  assumes "first_fault (late_checks rt env cp d ctx target rule usage) = Inr None" "''safety_block'' \<in> set (ru_guards rule)"
  shows "\<exists>a. cx_mutation ctx = Some a \<and> ru_mutation rule = Some (ma_action a)"
  using late_safety(2) [OF assms] unfolding safety_block_checks_def by (simp split: option.splits)

lemma budget_resume_level: "budget_resume s = Some t \<Longrightarrow> level t \<le> level s"
  by (auto simp: budget_resume_def split: if_splits)

lemma stop_resume_known: "resume_known cp (stop_resume cp reason) \<or> level (stop_resume cp reason) \<le> level (cp_state cp)"
proof (cases "cp_state cp = BUDGET_EXCEEDED \<and> reason = ''extension_unavailable''")
  case True
  show ?thesis
  proof (cases "latest (\<lambda>e. applied e \<and> le_target e = BUDGET_EXCEEDED \<and> le_resume e \<noteq> None) cp")
    case None
    with True show ?thesis by (simp add: stop_resume_def)
  next
    case (Some e)
    with find_latest [OF Some] True show ?thesis by (auto simp: stop_resume_def resume_known_def)
  qed
next
  case False
  then show ?thesis by (auto simp: stop_resume_def)
qed

lemma cx_mutation_blocker [simp]: "cx_mutation (blocker_evidence cp ctx rule) = cx_mutation ctx"
  by (simp add: blocker_evidence_def split: option.splits)

lemma admitted_resume_known:
  assumes "first_fault (late_checks rt env cp d (blocker_evidence cp ctx rule) target rule usage) = Inr None"
    "admitted_resume cp ctx target reason rule = Some s"
  shows "resume_known cp s \<or> level s \<le> level (cp_state cp)
    \<or> ''safety_block'' \<in> set (ru_guards rule) \<and> (\<exists>a. ru_mutation rule = Some a \<and> map_of safety_gates a = Some s)"
proof (cases "''safety_block'' \<in> set (ru_guards rule)")
  case True
  from safety_block_action [OF assms(1) this] assms(2) True show ?thesis by (auto simp: admitted_resume_def)
next
  case False
  with assms(2) show ?thesis using budget_resume_level stop_resume_known
    by (auto simp: admitted_resume_def Let_def split: if_splits)
qed

lemma apply_effect:
  assumes rule: "rule \<in> set (lp_rules (cp_policy cp))" "is_rule (cp_state cp) target reason rule"
    and reason: "reason \<noteq> ''recorded_safe_resume''" and usage: "usage_le (cp_usage cp) usage"
    and late: "first_fault (late_checks rt env cp d (blocker_evidence cp ctx rule) target rule usage) = Inr None"
  shows "effect cp (fst (snd (apply_transition rt env cp d target ctx (blocker_evidence cp ctx rule) reason rule usage)))"
proof -
  define kind where "kind = transition_kind (cp_state cp) target"
  define refs where "refs = event_evidence rt cp ctx (blocker_evidence cp ctx rule) target rule"
  define key where "key = ev refs ''consumed_mutation_result_key''"
  define u where "u = charged_usage cp ctx rule usage"
  define dr where "dr = \<lparr>dr_kind = kind, dr_outcome = ''APPLIED'', dr_source = cp_state cp, dr_target = target,
    dr_reason = reason, dr_actor = ac_id (cx_actor ctx), dr_refs = refs, dr_observed = cx_observed ctx, dr_usage = Some u,
    dr_resume = admitted_resume cp ctx target reason rule, dr_detail = []\<rparr>"
  define cp'' where "cp'' = (grown rt cp dr None)\<lparr>cp_state := target, cp_usage := u,
    cp_consumed := (if key = [] then cp_consumed cp else key # cp_consumed cp),
    cp_claimed := (if kind = ''COMPLETION_CLAIMED'' then True else if kind = ''COMPLETION_REVOKED'' then False else cp_claimed cp)\<rparr>"
  have "moved cp cp''"
    unfolding moved_def
  proof (intro exI conjI allI impI)
    show "cp_events cp'' = cp_events cp @ [event_of rt cp dr]" "applied (event_of rt cp dr)"
      "le_source (event_of rt cp dr) = cp_state cp" "le_target (event_of rt cp dr) = cp_state cp''"
      "is_rule (cp_state cp) (cp_state cp'') (le_reason (event_of rt cp dr)) rule"
      using rule(2) by (simp_all add: cp''_def dr_def applied_def)
    show "rule \<in> set (lp_rules (cp_policy cp))" by (rule rule(1))
    show "usage_le (cp_usage cp) (cp_usage cp'')"
      using usage_le_trans [OF usage charged_usage_le] by (simp add: cp''_def u_def)
    show "set (cp_consumed cp) \<subseteq> set (cp_consumed cp'')" by (auto simp: cp''_def)
    show "if le_reason (event_of rt cp dr) = ''recorded_safe_resume''
      then cp_claimed cp'' = cp_claimed cp \<and> le_resume (event_of rt cp dr) = Some (cp_state cp'')
      else (cp_claimed cp'' \<longleftrightarrow> cp_state cp'' = COMPLETED \<or> cp_state cp \<noteq> COMPLETED \<and> cp_claimed cp)"
      using reason by (simp add: cp''_def dr_def kind_def transition_kind_def)
    show "resume_known cp (cp_state cp'')" if "is_resumption rule"
      using that rule(2) reason safety_resume_known [OF late] by (auto simp: is_resumption_def is_rule_def cp''_def)
    fix s assume "le_resume (event_of rt cp dr) = Some s"
    then have "admitted_resume cp ctx target reason rule = Some s" by (simp add: dr_def)
    from admitted_resume_known [OF late this]
    show "s = cp_state cp'' \<and> is_resumption rule \<or> resume_known cp s \<or> level s \<le> level (cp_state cp)
      \<or> ''safety_block'' \<in> set (ru_guards rule) \<and> (\<exists>a. ru_mutation rule = Some a \<and> map_of safety_gates a = Some s)" by blast
  qed
  then have moved: "effect cp cp''" by (simp add: effect_def same_run_def cp''_def)
  obtain r cp' d' where a: "record_event rt cp d dr None None = (r, cp', d')" by (metis prod_cases3)
  have eq: "apply_transition rt env cp d target ctx (blocker_evidence cp ctx rule) reason rule usage =
    (case record_event rt cp d dr None None of (Inl err, cp', d') \<Rightarrow> (Inl err, cp', d')
      | (Inr e, cp', d') \<Rightarrow> (let cp'' = cp'\<lparr>cp_state := target, cp_usage := u,
            cp_consumed := (if key = [] then cp_consumed cp' else key # cp_consumed cp'),
            cp_claimed := (if kind = ''COMPLETION_CLAIMED'' then True else if kind = ''COMPLETION_REVOKED'' then False
              else cp_claimed cp')\<rparr>
          in if kind = ''COMPLETION_CLAIMED'' \<and> \<not> lv_sweep_ok env then (Inl Sweep_fault, cp'', d') else (Inr e, cp'', d')))"
    unfolding apply_transition_def Let_def kind_def [symmetric] refs_def [symmetric] key_def [symmetric] u_def [symmetric]
      dr_def [symmetric] by (auto split: sum.splits prod.splits)
  from a show ?thesis
  proof (cases rule: append_event_cases)
    case appended
    show ?thesis unfolding eq a appended(1-3) prod.case sum.case Let_def grown_sel cp''_def [symmetric] using moved by simp
  qed (simp add: eq a)
qed

lemma transition_locked_effect: "effect cp (fst (snd (transition_locked rt env cp d target ctx reason)))"
proof -
  define usage where
    "usage = (if trusted_budget rt env cp ctx then merge_strict (cp_usage cp) (cx_usage ctx) else Inr (cp_usage cp))"
  have le: "usage_le (cp_usage cp) u" if "usage = Inr u" for u
    using that merge_strict_le by (auto simp: usage_def split: if_splits)
  have "effect cp (fst (snd (apply_transition rt env cp d target ctx (blocker_evidence cp ctx rule) reason rule u)))"
    if "reason \<noteq> ''recorded_safe_resume''" "usage = Inr u" "find_rule (cp_policy cp) (cp_state cp) target reason = Some rule"
      "first_fault (late_checks rt env cp d (blocker_evidence cp ctx rule) target rule u) = Inr None" for u rule
    using find_rule_Some [OF that(3)] that le by (intro apply_effect) auto
  then show ?thesis unfolding transition_locked_def usage_def [symmetric] Let_def
    by (simp add: deny_effect split: sum.split option.split)
qed

lemma transition_effect: "effect cp (fst (snd (transition rt env cp d target ctx reason)))"
  unfolding transition_def by (rule locked_effect) (rule transition_locked_effect)

lemma resume_applied_effect:
  assumes rule: "rule \<in> set (lp_rules (cp_policy cp))" "is_rule (cp_state cp) target ''recorded_safe_resume'' rule"
    and "resume_known cp target" "usage_le (cp_usage cp) usage"
  shows "effect cp (fst (snd (resume_applied rt cp d ctx target usage)))"
proof -
  define dr where "dr = \<lparr>dr_kind = ''TRANSITION'', dr_outcome = ''APPLIED'', dr_source = cp_state cp, dr_target = target,
    dr_reason = ''recorded_safe_resume'', dr_actor = ac_id (cx_actor ctx), dr_refs = cx_evidence ctx,
    dr_observed = cx_observed ctx, dr_usage = Some usage, dr_resume = Some target, dr_detail = []\<rparr>"
  define cp'' where "cp'' = (grown rt cp dr None)\<lparr>cp_state := target, cp_usage := usage\<rparr>"
  have "is_resumption rule" using rule(2) by (simp add: is_rule_def is_resumption_def)
  then have "moved cp cp''" unfolding moved_def using assms
    by (intro exI [of _ "event_of rt cp dr"] exI [of _ rule]) (simp add: cp''_def dr_def applied_def)
  then have moved: "effect cp cp''" by (simp add: effect_def same_run_def cp''_def)
  obtain r cp' d' where a: "record_event rt cp d dr None None = (r, cp', d')" by (metis prod_cases3)
  have eq: "resume_applied rt cp d ctx target usage = (case record_event rt cp d dr None None of
      (Inl err, cp', d') \<Rightarrow> (Inl err, cp', d') | (Inr e, cp', d') \<Rightarrow> (Inr e, cp'\<lparr>cp_state := target, cp_usage := usage\<rparr>, d'))"
    unfolding resume_applied_def dr_def [symmetric] ..
  from a show ?thesis
  proof (cases rule: append_event_cases)
    case appended
    show ?thesis unfolding eq a appended(1-3) prod.case sum.case cp''_def [symmetric] using moved by simp
  qed (simp add: eq a)
qed

lemma resume_effect: "effect cp (fst (snd (resume rt env cp d ctx)))"
proof -
  have "effect cp (fst (snd (resume_applied rt cp d ctx (the (le_resume stopped)) u)))"
    if "latest (\<lambda>e. applied e \<and> le_target e = cp_state cp \<and> le_resume e \<noteq> None) cp = Some stopped"
      "find_rule (cp_policy cp) (cp_state cp) (the (le_resume stopped)) ''recorded_safe_resume'' = Some rule"
      "merge_strict (cp_usage cp) (cx_usage ctx) = Inr u" for stopped rule u
    using find_latest [OF that(1)] find_rule_Some [OF that(2)] merge_strict_le [OF that(3)]
    by (intro resume_applied_effect) (auto simp: resume_known_def)
  then show ?thesis unfolding resume_def Let_def by (simp add: deny_effect split: sum.split option.split)
qed

theorem step_effect: "step rt (cp, d) (cp', d') \<Longrightarrow> effect cp cp'"
  by (erule step.cases; simp)
    (metis transition_effect resume_effect prejournal_effect record_effect observation_effect challenge_effect extension_effect
      fst_conv snd_conv)+

section \<open>Invariants of every history\<close>

lemma created_plane:
  assumes "create_run rt run_id subject budget policy trust trust_digest metadata identity = (Inr e, cp, d)"
  shows "cp_events cp = [e]" "applied e" "le_source e = CONTRACT_RECEIVED" "le_target e = CONTRACT_RECEIVED" "le_resume e = None"
    "cp_state cp = CONTRACT_RECEIVED" "\<not> cp_claimed cp" "cp_policy cp = policy" "cp_consumed cp = []" "le_usage e = None"
    "le_reason e = ''create''"
proof -
  define dr where "dr = \<lparr>dr_kind = ''STATE_CREATED'', dr_outcome = ''APPLIED'', dr_source = CONTRACT_RECEIVED, dr_target = CONTRACT_RECEIVED,
    dr_reason = ''create'', dr_actor = ''control-plane'',
    dr_refs = [(''budget_policy_digest'', lc_digest rt (budget_policy_json budget)),
      (''run_id_digest'', lc_digest rt (JStr run_id)), (''metadata_digest'', metadata), (''trust_policy_digest'', trust_digest)],
    dr_observed = [], dr_usage = None, dr_resume = None, dr_detail = []\<rparr>"
  from assms have "record_event rt (initial_plane run_id subject budget policy trust identity)
     \<lparr>ld_identity = Some identity, ld_ledger = [], ld_journal = []\<rparr> dr None None = (Inr e, cp, d)"
    by (simp add: create_run_def dr_def)
  then have e: "e = event_of rt (initial_plane run_id subject budget policy trust identity) dr"
      "cp = grown rt (initial_plane run_id subject budget policy trust identity) dr None"
    by (auto elim!: append_event_cases)
  show "cp_events cp = [e]" "applied e" "le_source e = CONTRACT_RECEIVED" "le_target e = CONTRACT_RECEIVED" "le_resume e = None"
    "cp_state cp = CONTRACT_RECEIVED" "\<not> cp_claimed cp" "cp_policy cp = policy" "cp_consumed cp = []" "le_usage e = None"
    "le_reason e = ''create''"
    unfolding e by (simp_all add: initial_plane_def dr_def applied_def)
qed

text \<open>Rule induction over histories, by the three effects.\<close>

lemma reachable_induct [consumes 1, case_names created effect]:
  assumes "reachable rt policy (cp, d)"
    and "\<And>cp e. cp_events cp = [e] \<Longrightarrow> applied e \<Longrightarrow> le_resume e = None \<Longrightarrow> le_target e = CONTRACT_RECEIVED
      \<Longrightarrow> cp_state cp = CONTRACT_RECEIVED \<Longrightarrow> \<not> cp_claimed cp \<Longrightarrow> cp_policy cp = policy \<Longrightarrow> P cp"
    and "\<And>cp cp' d. reachable rt policy (cp, d) \<Longrightarrow> P cp \<Longrightarrow> effect cp cp' \<Longrightarrow> P cp'"
  shows "P cp"
  using assms(1)
proof (induction "(cp, d)" arbitrary: cp d)
  case (Created run_id subject budget trust trust_digest metadata identity e)
  from created_plane [OF Created] show ?case by (intro assms(2)) simp_all
next
  case (Stepped s)
  obtain cp0 d0 where s: "s = (cp0, d0)" by fastforce
  with Stepped step_effect show ?case by (metis assms(3))
qed

subsection \<open>The stages of a delivery\<close>

definition reached_stage :: "nat \<Rightarrow> lifecycle_event list \<Rightarrow> bool" where
  "reached_stage k es \<longleftrightarrow> subseq (take k stage_reasons) (map le_reason (filter applied es))"

lemma reached_mono:
  assumes "reached_stage k es" "j \<le> k"
  shows "reached_stage j es"
proof -
  have "subseq (take j stage_reasons) (take k stage_reasons)"
    using assms(2) by (metis min.absorb1 prefix_imp_subseq take_is_prefix take_take)
  with assms(1) show ?thesis unfolding reached_stage_def by (rule subseq_order.trans [rotated])
qed

lemma reached_more: "reached_stage k es \<Longrightarrow> reached_stage k (es @ [e])"
  by (auto simp: reached_stage_def)

lemma reached_up:
  assumes "reached_stage k es" "applied e" "k < length stage_reasons" "le_reason e = stage_reasons ! k"
  shows "reached_stage (Suc k) (es @ [e])"
  using assms by (simp add: reached_stage_def take_Suc_conv_app_nth list_emb_append_mono)

lemma six_stages [simp]: "length stage_reasons = 6"
  by (simp add: stage_reasons_def)

text \<open>The resume states of blocked safety actions lie no further than the state that was left.\<close>

lemma safety_gates_behind: "list_all (\<lambda>r. ''safety_block'' \<in> set (ru_guards r) \<longrightarrow>
     (\<forall>a s. ru_mutation r = Some a \<longrightarrow> map_of safety_gates a = Some s \<longrightarrow> level s \<le> level (ru_source r))) phase_four_rules"
  unfolding phase_four_rules_def list.pred_map by (simp add: policy_defs is_rule_def safety_gates_def)

lemma phase_four_policy_rules:
  "phase_four_policy rt = Some policy \<longleftrightarrow> policy = the (phase_four_policy rt) \<and> lp_rules (the (phase_four_policy rt)) = phase_four_rules"
  by (auto simp: phase_four_policy_def make_policy_def phase_four_distinct)

definition staged :: "lifecycle_policy \<Rightarrow> control_plane \<Rightarrow> bool" where
  "staged policy cp \<longleftrightarrow> cp_policy cp = policy \<and> reached_stage (level (cp_state cp)) (cp_events cp)
     \<and> (\<forall>s. resume_known cp s \<longrightarrow> reached_stage (level s) (cp_events cp))"

lemma resume_known_grown:
  "cp_events cp' = cp_events cp @ [e] \<Longrightarrow>
     resume_known cp' s \<longleftrightarrow> resume_known cp s \<or> applied e \<and> le_resume e = Some s"
  by (auto simp: resume_known_def)

lemma staged_moved:
  assumes "staged policy cp" "lp_rules policy = phase_four_rules" "moved cp cp'" "same_run cp cp'"
  shows "staged policy cp'"
proof -
  from assms(3) obtain e r where e: "cp_events cp' = cp_events cp @ [e]" "applied e"
      and r: "r \<in> set (lp_rules (cp_policy cp))" "is_rule (cp_state cp) (cp_state cp') (le_reason e) r"
      and resumed: "is_resumption r \<longrightarrow> resume_known cp (cp_state cp')"
      and recorded: "\<forall>s. le_resume e = Some s \<longrightarrow> s = cp_state cp' \<and> is_resumption r \<or> resume_known cp s
          \<or> level s \<le> level (cp_state cp)
          \<or> ''safety_block'' \<in> set (ru_guards r) \<and> (\<exists>a. ru_mutation r = Some a \<and> map_of safety_gates a = Some s)"
    unfolding moved_def by blast
  have here: "reached_stage (level (cp_state cp)) (cp_events cp)" and known: "\<And>s. resume_known cp s \<Longrightarrow> reached_stage (level s) (cp_events cp)"
    and r4: "r \<in> set phase_four_rules" using assms(1,2) r(1) by (simp_all add: staged_def)
  have table: "is_resumption r \<or> climbs r" using stages_in_order r4 by (simp add: list_all_iff)
  have gates: "level s \<le> level (cp_state cp)" if "''safety_block'' \<in> set (ru_guards r)" "ru_mutation r = Some a"
      "map_of safety_gates a = Some s" for a s
    using safety_gates_behind r4 r(2) that by (auto simp: list_all_iff is_rule_def)
  have state: "reached_stage (level (cp_state cp')) (cp_events cp')"
  proof (cases "is_resumption r")
    case True
    with resumed known show ?thesis by (simp add: e reached_more)
  next
    case False
    with table r(2) consider "level (cp_state cp') \<le> level (cp_state cp)"
      | "level (cp_state cp') = Suc (level (cp_state cp))" "level (cp_state cp) < 6"
        "le_reason e = stage_reasons ! level (cp_state cp)"
      by (auto simp: climbs_def is_rule_def)
    then show ?thesis
    proof cases
      case 1
      with reached_mono [OF here] show ?thesis by (simp add: e(1) reached_more)
    next
      case 2
      with reached_up [OF here e(2)] show ?thesis by (simp add: e(1))
    qed
  qed
  moreover have "reached_stage (level s) (cp_events cp')" if "resume_known cp' s" for s
  proof (cases "resume_known cp s")
    case True
    with known show ?thesis by (simp add: e reached_more)
  next
    case False
    with that have "le_resume e = Some s" by (simp add: resume_known_grown [OF e(1)])
    with recorded False have "s = cp_state cp' \<or> level s \<le> level (cp_state cp)" using gates by blast
    then show ?thesis using state reached_mono [OF here] by (auto simp: e intro: reached_more)
  qed
  ultimately show ?thesis using assms(1,4) by (simp add: staged_def same_run_def)
qed

lemma staged_effect:
  assumes "staged policy cp" "lp_rules policy = phase_four_rules" "effect cp cp'"
  shows "staged policy cp'"
proof -
  from assms(3) consider "idle cp cp'" "same_run cp cp'" | "noted cp cp'" "same_run cp cp'" | "moved cp cp'" "same_run cp cp'"
    unfolding effect_def by blast
  then show ?thesis
  proof cases
    case 1
    then have "resume_known cp' = resume_known cp" by (simp add: resume_known_def idle_def fun_eq_iff)
    with 1 assms(1) show ?thesis by (simp add: staged_def idle_def same_run_def)
  next
    case 2
    then obtain e where "cp_events cp' = cp_events cp @ [e]" "\<not> applied e" "cp_state cp' = cp_state cp" unfolding noted_def by blast
    with 2 assms(1) show ?thesis by (auto simp: staged_def same_run_def resume_known_grown intro: reached_more)
  next
    case 3
    then show ?thesis by (rule staged_moved [OF assms(1,2)])
  qed
qed

lemma reachable_staged:
  assumes "reachable rt policy (cp, d)" "phase_four_policy rt = Some policy"
  shows "staged policy cp"
  using assms(1)
proof (induction rule: reachable_induct)
  case (created cp e)
  then show ?case by (simp add: staged_def reached_stage_def resume_known_def)
next
  case (effect cp cp' d)
  then show ?case using assms(2) phase_four_policy_rules by (metis staged_effect)
qed

subsection \<open>Claims of completion\<close>

text \<open>No stop is entered from a completed run, or left for one, by a recorded resumption.\<close>

lemma resumes_incomplete: "list_all (\<lambda>r. ru_reason r = ''recorded_safe_resume'' \<longrightarrow>
     ru_source r \<noteq> COMPLETED \<and> ru_target r \<noteq> COMPLETED) phase_four_rules"
  unfolding phase_four_rules_def list.pred_map by (simp add: policy_defs is_rule_def)

lemma claimed_effect:
  assumes "cp_claimed cp \<longleftrightarrow> cp_state cp = COMPLETED" "lp_rules (cp_policy cp) = phase_four_rules" "effect cp cp'"
  shows "cp_claimed cp' \<longleftrightarrow> cp_state cp' = COMPLETED"
proof (cases "moved cp cp'")
  case True
  then obtain e :: lifecycle_event and r where r: "r \<in> set phase_four_rules" "is_rule (cp_state cp) (cp_state cp') (le_reason e) r"
      and claimed: "if le_reason e = ''recorded_safe_resume'' then cp_claimed cp' = cp_claimed cp \<and> le_resume e = Some (cp_state cp')
        else (cp_claimed cp' \<longleftrightarrow> cp_state cp' = COMPLETED \<or> cp_state cp \<noteq> COMPLETED \<and> cp_claimed cp)"
    unfolding moved_def assms(2) by blast
  have "cp_state cp \<noteq> COMPLETED \<and> cp_state cp' \<noteq> COMPLETED" if "le_reason e = ''recorded_safe_resume''"
    using resumes_incomplete r that by (auto simp: list_all_iff is_rule_def)
  with claimed assms(1) show ?thesis by (auto split: if_splits)
next
  case False
  with assms(1,3) show ?thesis by (auto simp: effect_def idle_def noted_def)
qed

lemma reachable_claimed:
  assumes "reachable rt policy (cp, d)" "phase_four_policy rt = Some policy"
  shows "cp_policy cp = policy \<and> (cp_claimed cp \<longleftrightarrow> cp_state cp = COMPLETED)"
  using assms(1)
proof (induction rule: reachable_induct)
  case (created cp e)
  then show ?case by simp
next
  case (effect cp cp' d)
  have "lp_rules policy = phase_four_rules" using assms(2) phase_four_policy_rules by metis
  with effect claimed_effect [of cp cp'] show ?case by (simp add: effect_def same_run_def)
qed

end
