(* ===== verification/Lifecycle_Gates.thy ===== *)
theory Lifecycle_Gates
  imports Lifecycle_Safety
begin

text \<open>
  What a transition that was applied says of the evidence it came with: the rule it followed and
  the checks that rule asks for. In particular production is entered with an approval bound to
  the exact rollout, and the result of a mutation is spent by the transition that uses it.
\<close>

section \<open>Applied transitions\<close>

definition admitted ::
  "runtime \<Rightarrow> lc_env \<Rightarrow> control_plane \<Rightarrow> lc_dir \<Rightarrow> lifecycle_state \<Rightarrow> transition_context \<Rightarrow> string \<Rightarrow> transition_rule \<Rightarrow> bool" where
  "admitted rt env cp d target ctx reason rule \<longleftrightarrow> reason \<noteq> ''recorded_safe_resume'' \<and> actor_valid rt env cp ctx
     \<and> find_rule (cp_policy cp) (cp_state cp) target reason = Some rule
     \<and> (\<exists>usage. first_fault (early_checks rt env cp ctx target reason rule usage) = Inr None
          \<and> first_fault (late_checks rt env cp d (blocker_evidence cp ctx rule) target rule usage) = Inr None)"

definition spent :: "runtime \<Rightarrow> control_plane \<Rightarrow> transition_context \<Rightarrow> lifecycle_state \<Rightarrow> transition_rule \<Rightarrow> string list" where
  "spent rt cp ctx target rule =
     (let key = ev (event_evidence rt cp ctx (blocker_evidence cp ctx rule) target rule) ''consumed_mutation_result_key''
      in if key = [] then cp_consumed cp else key # cp_consumed cp)"

lemma deny_not_ok: "deny rt env cp d target ctx reason detail \<noteq> (Inr e, s)"
  by (auto simp: deny_def Let_def split: sum.splits prod.splits)

lemma apply_applied:
  assumes "apply_transition rt env cp d target ctx (blocker_evidence cp ctx rule) reason rule usage = (Inr e, cp', d')"
  shows "cp_state cp' = target \<and> cp_consumed cp' = spent rt cp ctx target rule \<and> may_append rt cp d None
    \<and> le_reason e = reason \<and> le_target e = target \<and> applied e"
proof -
  define dr where "dr = \<lparr>dr_kind = transition_kind (cp_state cp) target, dr_outcome = ''APPLIED'', dr_source = cp_state cp,
    dr_target = target, dr_reason = reason, dr_actor = ac_id (cx_actor ctx),
    dr_refs = event_evidence rt cp ctx (blocker_evidence cp ctx rule) target rule, dr_observed = cx_observed ctx,
    dr_usage = Some (charged_usage cp ctx rule usage), dr_resume = admitted_resume cp ctx target reason rule, dr_detail = []\<rparr>"
  obtain r cp1 d1 where a: "record_event rt cp d dr None None = (r, cp1, d1)" by (metis prod_cases3)
  note eq = assms [unfolded apply_transition_def Let_def dr_def [symmetric]]
  from a show ?thesis
  proof (cases rule: append_event_cases)
    case (stale err)
    with eq a show ?thesis by simp
  next
    case appended
    with eq a have "e = event_of rt cp dr" "cp_state cp' = target" "cp_consumed cp' = spent rt cp ctx target rule"
      by (auto simp: spent_def Let_def split: if_splits)
    with appended(4) show ?thesis by (simp add: dr_def applied_def)
  qed
qed

lemma transition_applied:
  assumes "transition rt env cp d target ctx reason = (Inr e, cp', d')"
  obtains rule where "admitted rt env cp d target ctx reason rule" "cp_state cp' = target"
    "cp_consumed cp' = spent rt cp ctx target rule" "may_append rt cp d None"
proof -
  define usage where
    "usage = (if trusted_budget rt env cp ctx then merge_strict (cp_usage cp) (cx_usage ctx) else Inr (cp_usage cp))"
  have "transition_locked rt env cp d target ctx reason = (Inr e, cp', d')"
    using assms by (auto simp: transition_def locked_def split: option.splits if_splits)
  then obtain rule u where "reason \<noteq> ''recorded_safe_resume''" "actor_valid rt env cp ctx"
      "find_rule (cp_policy cp) (cp_state cp) target reason = Some rule"
      "first_fault (early_checks rt env cp ctx target reason rule u) = Inr None"
      "first_fault (late_checks rt env cp d (blocker_evidence cp ctx rule) target rule u) = Inr None"
      "apply_transition rt env cp d target ctx (blocker_evidence cp ctx rule) reason rule u = (Inr e, cp', d')"
    unfolding transition_locked_def usage_def [symmetric] Let_def
    by (simp add: deny_not_ok split: sum.splits option.splits if_splits)
  with apply_applied show thesis by (intro that [of rule]) (auto simp: admitted_def)
qed

section \<open>Production\<close>

lemma production_rules: "list_all (\<lambda>r. if ru_target r \<noteq> PRODUCTION_DEPLOYED then True
     else if ru_source r \<noteq> PRODUCTION_APPROVAL_REQUIRED then ru_reason r = ''recorded_safe_resume''
     else ru_reason r = ''production_admitted'' \<and> ru_mutation r = Some ''deploy_production''
       \<and> {''authority'', ''budget'', ''mutation'', ''production_approval'', ''active_canary'', ''no_blocking_finding''} \<subseteq> set (ru_guards r)
       \<and> ''blocking_finding'' \<notin> set (ru_guards r)) phase_four_rules"
  unfolding phase_four_rules_def list.pred_map by (simp add: policy_defs is_rule_def cong: if_weak_cong)

lemma blocker_evidence_other [simp]: "''blocking_finding'' \<notin> set (ru_guards rule) \<Longrightarrow> blocker_evidence cp ctx rule = ctx"
  by (simp add: blocker_evidence_def split: option.splits)

lemma mutation_passed:
  assumes "first_fault (mutation_checks rt cp d ctx target rule) = Inr None"
  obtains m where "cx_mutation ctx = Some m" "ru_mutation rule \<in> {None, Some [], Some (ma_action m)}" "ma_subject m = cp_subject cp"
    "plan_bound rt cp (cx_evidence ctx) m" "journal_fault rt d m = Inr None" "target \<noteq> ROLLBACK_IN_PROGRESS \<Longrightarrow> result_usable cp m"
  using assms by (auto simp: mutation_checks_def Let_def split: option.splits)

text \<open>The key of a usable result is recorded as consumed.\<close>

lemma usable_spent:
  assumes "cx_mutation ctx = Some m" "result_usable cp m" "''mutation'' \<in> set (ru_guards rule)" "ma_key m \<noteq> []"
  shows "ma_key m \<in> set (spent rt cp ctx target rule)"
proof -
  obtain r where "map_of (cp_results cp) (ma_key m) = Some r" "successful r"
    using assms(2) by (auto simp: result_usable_def split: option.splits)
  then have "ev (event_evidence rt cp ctx ctx' target rule) ''consumed_mutation_result_key'' = ma_key m" for ctx'
    using assms(1,3) by (simp add: event_evidence_def Let_def result_of_def ev_def)
  then show ?thesis using assms(4) by (simp add: spent_def Let_def)
qed

lemma late_passed:
  assumes "first_fault (late_checks rt env cp d ctx target rule usage) = Inr None"
  shows "''mutation'' \<in> set (ru_guards rule) \<Longrightarrow> first_fault (mutation_checks rt cp d ctx target rule) = Inr None"
    and "''production_approval'' \<in> set (ru_guards rule) \<Longrightarrow> list_ex (production_approved rt env cp (cx_evidence ctx)) (cx_approvals ctx)"
    and "''active_canary'' \<in> set (ru_guards rule) \<Longrightarrow> canary_active cp ctx target"
  using assms unfolding checks_passed by simp_all

lemma early_passed:
  assumes "first_fault (early_checks rt env cp ctx target reason rule usage) = Inr None"
  shows "''authority'' \<in> set (ru_guards rule) \<Longrightarrow> trusted_authority rt env cp ctx = Inr True"
    and "''budget'' \<in> set (ru_guards rule) \<Longrightarrow> trusted_budget rt env cp ctx"
    and "''no_blocking_finding'' \<in> set (ru_guards rule) \<Longrightarrow> trusted_inventory rt env cp ctx"
proof -
  have r: "first_fault (rollout_checks rt env cp ctx target reason rule usage) = Inr None"
    and f: "first_fault (finding_checks rt env cp ctx rule) = Inr None"
    using assms unfolding checks_passed by blast+
  show "trusted_authority rt env cp ctx = Inr True" if "''authority'' \<in> set (ru_guards rule)"
    using r that unfolding rollout_checks_def Let_def by auto
  show "trusted_budget rt env cp ctx" if "''budget'' \<in> set (ru_guards rule)"
    using r that unfolding rollout_checks_def Let_def by simp
  show "trusted_inventory rt env cp ctx" if "''no_blocking_finding'' \<in> set (ru_guards rule)"
    using f that unfolding finding_checks_def Let_def by simp
qed

lemma read_attempt_ok: "read_attempt rt r = Inr a \<Longrightarrow> attempt_ok a = Inr a"
  by (auto simp: read_attempt_def attempt_ok_def Let_def split: if_splits)

lemma read_attempts_ok:
  assumes "read_attempts rt seen rs = Inr attempts" "map_of attempts k = Some a"
    "\<And>k a. map_of seen k = Some a \<Longrightarrow> ma_key a = k \<and> attempt_ok a = Inr a"
  shows "ma_key a = k \<and> attempt_ok a = Inr a"
  using assms
proof (induction rs arbitrary: seen)
  case (Cons r rs)
  then obtain b where b: "read_attempt rt r = Inr b" "read_attempts rt (dput (ma_key b) b seen) rs = Inr attempts"
    by (auto split: if_splits)
  show ?case by (rule Cons.IH [OF b(2) Cons.prems(2)]) (use Cons.prems(3) read_attempt_ok [OF b(1)] in \<open>auto split: if_splits\<close>)
qed simp

lemma journaled_ok:
  assumes "journal_fault rt d m = Inr None"
  shows "attempt_ok m = Inr m"
proof -
  obtain attempts where "read_attempts rt [] (ld_journal d) = Inr attempts" "map_of attempts (ma_key m) = Some m"
    using assms by (auto simp: journal_fault_def split: option.splits if_splits)
  from read_attempts_ok [OF this] show ?thesis by simp
qed

lemma attempt_ok_key: "attempt_ok m = Inr m \<Longrightarrow> ma_key m \<noteq> []"
  by (auto simp: attempt_ok_def split: if_splits)

lemma phase_four_rules_of: "phase_four_policy rt = Some policy \<Longrightarrow> lp_rules policy = phase_four_rules"
  using phase_four_policy_rules by metis

lemma production_rule_facts:
  assumes "phase_four_policy rt = Some policy" "find_rule policy source PRODUCTION_DEPLOYED reason = Some rule"
    "reason \<noteq> ''recorded_safe_resume''"
  shows "source = PRODUCTION_APPROVAL_REQUIRED \<and> reason = ''production_admitted'' \<and> ru_mutation rule = Some ''deploy_production''
    \<and> {''authority'', ''budget'', ''mutation'', ''production_approval'', ''active_canary'', ''no_blocking_finding''} \<subseteq> set (ru_guards rule)
    \<and> ''blocking_finding'' \<notin> set (ru_guards rule)"
proof -
  from find_rule_Some [OF assms(2)] phase_four_rules_of [OF assms(1)]
  have r: "rule \<in> set phase_four_rules" "ru_source rule = source" "ru_target rule = PRODUCTION_DEPLOYED" "ru_reason rule = reason"
    by (simp_all add: is_rule_def)
  then show ?thesis using bspec [OF production_rules [unfolded list_all_iff] r(1)] assms(3)
    by (cases "source = PRODUCTION_APPROVAL_REQUIRED") simp_all
qed

text \<open>
  C4. A change reaches production only from PRODUCTION_APPROVAL_REQUIRED, with an approval that a
  production approver attested for exactly this commit, artifact and rollout scope, the canary that
  was admitted still active, current authority, budget and finding inventory, and the journaled
  deployment whose result had not been used before and is used now.
\<close>

theorem production_needs_approval:
  assumes "transition rt env cp d PRODUCTION_DEPLOYED ctx reason = (Inr e, cp', d')" "phase_four_policy rt = Some (cp_policy cp)"
  shows "cp_state cp = PRODUCTION_APPROVAL_REQUIRED \<and> reason = ''production_admitted''
    \<and> list_ex (production_approved rt env cp (cx_evidence ctx)) (cx_approvals ctx) \<and> canary_active cp ctx PRODUCTION_DEPLOYED
    \<and> trusted_authority rt env cp ctx = Inr True \<and> trusted_budget rt env cp ctx \<and> trusted_inventory rt env cp ctx
    \<and> (\<exists>m. cx_mutation ctx = Some m \<and> ma_action m = ''deploy_production'' \<and> journal_fault rt d m = Inr None
        \<and> result_usable cp m \<and> ma_key m \<notin> set (cp_consumed cp) \<and> ma_key m \<in> set (cp_consumed cp'))"
proof -
  from transition_applied [OF assms(1)] obtain rule u where reason: "reason \<noteq> ''recorded_safe_resume''"
      and rule: "find_rule (cp_policy cp) (cp_state cp) PRODUCTION_DEPLOYED reason = Some rule"
      and early: "first_fault (early_checks rt env cp ctx PRODUCTION_DEPLOYED reason rule u) = Inr None"
      and late: "first_fault (late_checks rt env cp d (blocker_evidence cp ctx rule) PRODUCTION_DEPLOYED rule u) = Inr None"
      and consumed: "cp_consumed cp' = spent rt cp ctx PRODUCTION_DEPLOYED rule"
    unfolding admitted_def by blast
  note facts = production_rule_facts [OF assms(2) rule reason]
  from facts late have late': "first_fault (late_checks rt env cp d ctx PRODUCTION_DEPLOYED rule u) = Inr None" by simp
  from facts late_passed(1) [OF late'] obtain m where m: "cx_mutation ctx = Some m"
      "ru_mutation rule \<in> {None, Some [], Some (ma_action m)}" "journal_fault rt d m = Inr None" "result_usable cp m"
    using mutation_passed by (metis insert_subset lifecycle_state.distinct)
  have "ma_key m \<in> set (cp_consumed cp')"
    unfolding consumed using facts m by (intro usable_spent attempt_ok_key journaled_ok) auto
  moreover have "ma_key m \<notin> set (cp_consumed cp)" using m(4) by (auto simp: result_usable_def split: option.splits)
  ultimately show ?thesis using facts m late_passed(2,3) [OF late'] early_passed [OF early] by auto
qed

section \<open>Results are used once\<close>





section \<open>An example\<close>

text \<open>
  A world in which every verifier agrees and every digest is the same; the plane awaits the
  approval of production, with an active canary on record and the deployment journaled and done.
\<close>

definition zero_runtime :: runtime where
  "zero_runtime = (sample_runtime [])\<lparr>rt_dumps := (\<lambda>_. []), rt_sha256 := (\<lambda>_. 0)\<rparr>"

definition zero_seal :: string where
  "zero_seal = ''sha256:'' @ replicate 64 CHR ''0''"

definition zero_sha :: string where
  "zero_sha = replicate 40 CHR ''0''"

definition agreeing_env :: lc_env where
  "agreeing_env = \<lparr>lv_verifier = Some (\<lambda>_ _ _ _. True), lv_bundles = Some (\<lambda>_ _. True),
     lv_parse = (\<lambda>s. Some (Aware (int (length s)))), lv_now = 72, lv_now_text = [], lv_monotonic = 0, lv_upper = id,
     lv_sweep_ok = True\<rparr>"

definition one_root :: evidence where
  "one_root = [(''r'', zero_seal)]"

definition example_trust :: trust_policy where
  "example_trust = \<lparr>tp_adapters = one_root, tp_budget_owners = one_root, tp_repository = one_root, tp_work = one_root,
     tp_production = one_root, tp_meters = one_root, tp_reviewers = one_root, tp_merge_gates = one_root, tp_findings = one_root,
     tp_authorizers = one_root, tp_live = one_root, tp_authority = one_root, tp_monitors = one_root\<rparr>"

definition example_budget :: budget_policy where
  "example_budget = \<lparr>bp_version = ''v1'', bp_limits = map (\<lambda>k. (k, 10)) budget_dimensions, bp_per_finding = 2, bp_per_stage = 2,
     bp_safety = 1, bp_approved_by = ''owner''\<rparr>"

definition production_names :: "string list" where
  "production_names = [''subject_digest'', ''merge_commit_sha'', ''merge_digest'', ''artifact_digest'', ''configuration_digest'',
     ''migration_plan_digest'', ''deployment_target_digest'', ''rollout_plan_digest'', ''staging_digest'', ''canary_id_digest'',
     ''canary_attempt_digest'', ''canary_status_digest'', ''production_approval_digest'', ''authority_fence_digest'',
     ''production_attempt_digest'', ''production_result_digest'', ''budget_usage_digest'', ''budget_meter_authority_digest'',
     ''budget_meter_authentication_evidence_digest'', ''authority_observer_authority_digest'', ''authority_authentication_evidence_digest'',
     ''authority_current_time'', ''finding_source_set_digest'', ''finding_inventory_epochs_digest'', ''finding_inventory_r_digest'',
     ''finding_inventory_r_observed_at'', ''finding_inventory_r_authentication_evidence_digest'']"

definition example_papers :: evidence where
  "example_papers = (''budget_meter_id'', ''r'') # (''authority_observer_id'', ''r'')
     # (''finding_inventory_r_expires_at'', zero_seal @ ''0000'')
     # map (\<lambda>k. (k, if k = ''merge_commit_sha'' then zero_sha else zero_seal)) production_names"

definition example_attempt :: mutation_attempt where
  "example_attempt = \<lparr>ma_id = ''a'', ma_key = ''k'', ma_subject = zero_seal, ma_action = ''deploy_production'', ma_plan = zero_seal,
     ma_status = ''PLANNED'', ma_steps = []\<rparr>"

definition example_context :: transition_context where
  "example_context = \<lparr>
     cx_actor = \<lparr>ac_id = ''r'', ac_role = ''r'', ac_authenticated = True, ac_capabilities = [''lifecycle.transition''],
       ac_subject = zero_seal, ac_authority = zero_seal, ac_proof = ''p''\<rparr>,
     cx_evidence = example_papers,
     cx_authority = \<lparr>au_contract = ''c'', au_publisher = ''p'', au_contract_active = True, au_publisher_active = True,
       au_observed = ''t'', au_valid_until = zero_seal @ ''0'', au_digest = zero_seal\<rparr>,
     cx_usage = no_usage, cx_rollout = \<lparr>ro_staging = ''ACTIVE'', ro_canary = ''ACTIVE'', ro_production = ''NONE''\<rparr>,
     cx_work = \<lparr>wk_leases = 0, wk_stopped = True, wk_capability = False, wk_disposition = ''NONE''\<rparr>,
     cx_approvals = [\<lparr>la_id = ''a'', la_actor = ''r'', la_subject = zero_seal, la_kind = ''PRODUCTION'', la_eligible = True,
       la_active = True, la_commit = zero_sha, la_candidate = zero_seal, la_evidence = zero_seal, la_proof = ''p'',
       la_submitted = []\<rparr>],
     cx_finding = None, cx_mutation = Some example_attempt, cx_observed = ''t''\<rparr>"

definition canary_event :: lifecycle_event where
  "canary_event = \<lparr>le_sequence = 1, le_kind = ''TRANSITION'', le_outcome = ''APPLIED'', le_source = STAGING_DEPLOYED,
     le_target = CANARY_DEPLOYED, le_reason = ''canary_admitted'', le_actor = ''r'', le_subject = zero_seal, le_policy = zero_seal,
     le_evidence = zero_seal, le_refs = example_papers, le_usage = None, le_observed = ''t'', le_resume = None, le_previous = [],
     le_digest = zero_seal, le_detail = []\<rparr>"

definition example_policy :: lifecycle_policy where
  "example_policy = the (phase_four_policy zero_runtime)"

definition approval_plane :: control_plane where
  "approval_plane = (initial_plane ''run'' zero_seal example_budget example_policy example_trust 0)
     \<lparr>cp_state := PRODUCTION_APPROVAL_REQUIRED, cp_events := [canary_event],
      cp_results := [(''k'', \<lparr>mr_attempt = ''a'', mr_key = ''k'', mr_status = ''SUCCEEDED'', mr_digest = Some zero_seal\<rparr>)],
      cp_verified := [''k'']\<rparr>"

definition approval_dir :: lc_dir where
  "approval_dir = \<lparr>ld_identity = Some 0, ld_ledger = [[(''event_digest'', JStr zero_seal)]],
     ld_journal = [attempt_fields example_attempt @ [(''record_digest'', JStr zero_seal)]]\<rparr>"

definition production_rule :: transition_rule where
  "production_rule = phase_four_rule (rule_of PRODUCTION_APPROVAL_REQUIRED PRODUCTION_DEPLOYED ''production_admitted''
       [''subject_digest'', ''merge_commit_sha'', ''merge_digest'', ''artifact_digest'', ''configuration_digest'',
        ''migration_plan_digest'', ''deployment_target_digest'', ''rollout_plan_digest'', ''staging_digest'',
        ''canary_id_digest'', ''canary_attempt_digest'', ''canary_status_digest'', ''production_approval_digest'',
        ''authority_fence_digest'', ''production_attempt_digest'', ''production_result_digest'']
       [''authority'', ''budget'', ''mutation'', ''production_approval'', ''active_canary'', ''no_blocking_finding'']
       (Some ''deploy_production''))"

lemma filter_key: "distinct (map f xs) \<Longrightarrow> r \<in> set xs \<Longrightarrow> filter (\<lambda>x. f x = f r) xs = [r]"
proof (induction xs)
  case (Cons x xs)
  show ?case
  proof (cases "x = r")
    case True
    with Cons.prems(1) have "filter (\<lambda>x. f x = f r) xs = []" by (simp add: filter_empty_conv) (metis image_eqI)
    with True show ?thesis by simp
  next
    case False
    with Cons.prems have "r \<in> set xs" "f x \<noteq> f r" by auto
    with Cons show ?thesis by simp
  qed
qed simp

lemma find_rule_member:
  assumes "r \<in> set (lp_rules p)" "distinct (map rule_key (lp_rules p))"
  shows "find_rule p (ru_source r) (ru_target r) (ru_reason r) = Some r"
proof -
  have "is_rule (ru_source r) (ru_target r) (ru_reason r) = (\<lambda>x. rule_key x = rule_key r)"
    by (auto simp: is_rule_def rule_key_def)
  with filter_key [OF assms(2,1)] show ?thesis by (simp add: find_rule_def)
qed

lemma zero_hex: "hex_digits 64 0 = replicate 64 CHR ''0''"
  by code_simp

lemma zero_digest [simp]: "lc_digest zero_runtime v = zero_seal"
  by (simp add: lc_digest_def sha256_digest_def zero_runtime_def zero_seal_def zero_hex)

lemma zero_seal_ok [simp]: "is_digest_str zero_seal" "zero_seal \<noteq> []" "length zero_seal = 71"
  by code_simp+

lemma zero_sha_ok [simp]: "is_git_sha zero_sha" "zero_sha \<noteq> []"
  by code_simp+

lemma example_paper: "k \<in> set production_names \<Longrightarrow>
    map_of example_papers k = Some (if k = ''merge_commit_sha'' then zero_sha else zero_seal)"
proof -
  assume k: "k \<in> set production_names"
  then have "k \<noteq> ''budget_meter_id'' \<and> k \<noteq> ''authority_observer_id'' \<and> k \<noteq> ''finding_inventory_r_expires_at''"
    by (auto simp: production_names_def)
  moreover have "map_of (map (\<lambda>k. (k, f k)) ks) k = (if k \<in> set ks then Some (f k) else None)" for f :: "string \<Rightarrow> string" and ks
    by (induction ks) auto
  ultimately show ?thesis using k by (simp add: example_papers_def)
qed

lemma example_names: 
  "map_of example_papers ''budget_meter_id'' = Some ''r''" "map_of example_papers ''authority_observer_id'' = Some ''r''"
  "map_of example_papers ''finding_inventory_r_expires_at'' = Some (zero_seal @ ''0000'')"
  by (simp_all add: example_papers_def)

lemma production_rule_found:
  "find_rule example_policy PRODUCTION_APPROVAL_REQUIRED PRODUCTION_DEPLOYED ''production_admitted'' = Some production_rule"
proof -
  have r: "lp_rules example_policy = phase_four_rules"
    by (simp add: example_policy_def phase_four_policy_def make_policy_def phase_four_distinct)
  have "production_rule \<in> set phase_four_rules"
    unfolding production_rule_def phase_four_rules_def set_map
    by (rule imageI) (simp add: phase_zero_rules_def base_rules_def rules_5_def)
  with find_rule_member [of production_rule example_policy] show ?thesis
    by (simp add: r phase_four_distinct production_rule_def is_rule_def)
qed

lemma production_rule_sel:
  "set (ru_guards production_rule) = {''authority'', ''budget'', ''mutation'', ''production_approval'', ''active_canary'', ''no_blocking_finding''}"
  "ru_permission production_rule = ''lifecycle.transition''" "ru_mutation production_rule = Some ''deploy_production''"
  "set (ru_evidence production_rule) \<subseteq> set production_names"
  by (auto simp: production_rule_def phase_four_rule_def is_rule_def rule_of_def uniq_def guard_evidence_def production_names_def)

lemma zero_seal_time [simp]: "concat (map (\<lambda>c. if c = CHR ''Z'' then ''+00:00'' else [c]) zero_seal) = zero_seal"
  by (simp add: zero_seal_def)

lemma example_paper_ev: "k \<in> set production_names \<Longrightarrow> ev example_papers k = (if k = ''merge_commit_sha'' then zero_sha else zero_seal)"
  by (simp add: ev_def example_paper)

lemmas example_facts = example_context_def approval_plane_def initial_plane_def example_trust_def one_root_def agreeing_env_def
  example_paper example_paper_ev example_names production_names_def verify_external_def attested_def time_of_def

lemma example_evidence: "first_fault (evidence_checks approval_plane example_context production_rule) = Inr None"
proof -
  have named: "k \<in> set production_names" if "k \<in> set (ru_evidence production_rule)" for k
    using production_rule_sel(4) that by blast
  have missing: "filter (\<lambda>k. ev example_papers k = []) (ru_evidence production_rule) = []"
    using named by (auto simp: filter_empty_conv example_paper_ev)
  have "ends_with ''_sha'' k = (k = ''merge_commit_sha'')" if "k \<in> set production_names" for k
    using that unfolding production_names_def list.set by (elim insertE emptyE) (simp_all add: ends_with_def)
  then have malformed: "malformed_evidence example_papers (ru_evidence production_rule) = []"
    using named by (auto simp: malformed_evidence_def filter_empty_conv example_paper_ev)
  show ?thesis unfolding evidence_checks_def Let_def
    by (simp add: missing malformed example_facts production_rule_sel)
qed

lemma example_authority: "trusted_authority zero_runtime agreeing_env approval_plane example_context = Inr True"
  by (simp add: trusted_authority_def Let_def prior_times_def canary_event_def applied_def example_facts current_at_def
      authority_current_def authority_digest_valid_def is_aware_def not_after_def ev_def)

lemma example_budget: "trusted_budget zero_runtime agreeing_env approval_plane example_context"
  by (simp add: trusted_budget_def Let_def example_facts ev_def)

lemma example_inventory: "trusted_inventory zero_runtime agreeing_env approval_plane example_context"
  by (simp add: trusted_inventory_def Let_def inventory_window_def example_facts ev_def five_minutes_def)

lemma example_early: "first_fault (early_checks zero_runtime agreeing_env approval_plane example_context PRODUCTION_DEPLOYED
     ''production_admitted'' production_rule no_usage) = Inr None"
proof -
  have "exhausted no_usage example_budget = []"
    by (simp add: exhausted_def no_usage_def example_budget_def budget_dimensions_def count_of_def)
  then show ?thesis unfolding early_checks_def rollout_checks_def finding_checks_def Let_def
    using example_evidence example_authority example_budget example_inventory
    by (simp add: production_rule_sel) (simp add: approval_plane_def initial_plane_def example_context_def)
qed

lemma example_canary: "canary_active approval_plane example_context PRODUCTION_DEPLOYED"
  by (simp add: canary_active_def canary_binding_def latest_def approval_plane_def canary_event_def applied_def agree_def
      example_context_def canary_proof_fields_def canary_subject_fields_def)

lemma example_approved: "list_ex (production_approved zero_runtime agreeing_env approval_plane (cx_evidence example_context))
    (cx_approvals example_context)"
  by (simp add: production_approved_def approval_live_def approval_attested_def production_scope_digest_def example_facts ev_def)

lemma read_attempt_written: "read_attempt rt (attempt_fields a @ [(''record_digest'', JStr (attempt_digest rt a))]) = attempt_ok a"
proof -
  have raw: "ddel ''record_digest'' (attempt_fields a @ [(''record_digest'', JStr (attempt_digest rt a))]) = attempt_fields a"
    by (simp add: attempt_fields_def ddel_def)
  have digest: "get_or (attempt_fields a @ [(''record_digest'', JStr (attempt_digest rt a))]) ''record_digest'' (JStr [])
      = JStr (attempt_digest rt a)"
    by (simp add: attempt_fields_def get_or_def)
  have strings: "str_field rt (attempt_fields a) ''attempt_id'' = Inr (ma_id a)" "str_field rt (attempt_fields a) ''idempotency_key'' = Inr (ma_key a)"
    "str_field rt (attempt_fields a) ''subject_digest'' = Inr (ma_subject a)" "str_field rt (attempt_fields a) ''action'' = Inr (ma_action a)"
    "str_field rt (attempt_fields a) ''step_plan_digest'' = Inr (ma_plan a)" "str_field rt (attempt_fields a) ''status'' = Inr (ma_status a)"
    by (simp_all add: attempt_fields_def str_field_def)
  have steps: "steps_field rt (attempt_fields a) = Inr (ma_steps a)"
    by (simp add: attempt_fields_def steps_field_def names_json_def comp_def)
  have whole: "\<lparr>ma_id = ma_id a, ma_key = ma_key a, ma_subject = ma_subject a, ma_action = ma_action a, ma_plan = ma_plan a,
      ma_status = ma_status a, ma_steps = ma_steps a\<rparr> = a"
    by (cases a) simp
  show ?thesis unfolding read_attempt_def raw digest Let_def by (simp add: strings steps attempt_digest_def whole)
qed

lemma example_journal: "journal_fault zero_runtime approval_dir example_attempt = Inr None"
proof -
  have digest: "attempt_digest zero_runtime example_attempt = zero_seal" by (simp add: attempt_digest_def)
  have "attempt_ok example_attempt = Inr example_attempt" by (simp add: attempt_ok_def example_attempt_def)
  with read_attempt_written [of zero_runtime example_attempt] show ?thesis
    by (simp add: journal_fault_def approval_dir_def digest)
qed

lemma example_mutation: "first_fault (mutation_checks zero_runtime approval_plane approval_dir example_context PRODUCTION_DEPLOYED
    production_rule) = Inr None"
proof -
  have plan: "plan_bound zero_runtime approval_plane example_papers example_attempt"
    by (simp add: plan_bound_def example_attempt_def mutation_subject_fields_def subject_digest_of_def approval_plane_def
        initial_plane_def example_policy_def phase_four_policy_def make_policy_def phase_four_distinct)
  have result: "result_usable approval_plane example_attempt"
    by (simp add: result_usable_def approval_plane_def initial_plane_def example_attempt_def successful_def)
  show ?thesis unfolding mutation_checks_def
    using plan result example_journal
    by (simp add: example_context_def Let_def production_rule_sel names_digest_def result_names_def attempt_names_def
        attempt_digest_def example_paper production_names_def approval_plane_def initial_plane_def example_attempt_def)
qed

lemma example_late: "first_fault (late_checks zero_runtime agreeing_env approval_plane approval_dir example_context PRODUCTION_DEPLOYED
     production_rule no_usage) = Inr None"
  unfolding late_checks_def using example_canary example_approved example_mutation
  by (simp add: production_rule_sel stops_ready_def)

lemma example_applied: "\<exists>e cp' d'. transition zero_runtime agreeing_env approval_plane approval_dir PRODUCTION_DEPLOYED example_context
     ''production_admitted'' = (Inr e, cp', d')"
proof -
  have blocker: "blocker_evidence approval_plane example_context production_rule = example_context"
    by (simp add: production_rule_sel)
  have actor: "actor_valid zero_runtime agreeing_env approval_plane example_context"
    by (simp add: actor_valid_def authority_digest_valid_def example_facts)
  have sel: "bu_safety (cx_usage example_context) = bu_safety (cp_usage approval_plane)" "cp_policy approval_plane = example_policy"
    "cp_state approval_plane = PRODUCTION_APPROVAL_REQUIRED" "ld_identity approval_dir = Some (cp_identity approval_plane)"
    by (simp_all add: example_context_def approval_plane_def initial_plane_def approval_dir_def)
  have usage: "merge_strict (cp_usage approval_plane) (cx_usage example_context) = Inr no_usage"
    by (simp add: example_context_def approval_plane_def initial_plane_def merge_strict_def regressions_def lowered_def no_usage_def
        merge_usage_def merge_counts_def sorted_set_def)
  have "may_append zero_runtime approval_plane approval_dir None"
    by (simp add: may_append_def approval_plane_def initial_plane_def approval_dir_def persisted_head_def head_digest_def
        canary_event_def get_or_def)
  then have "\<exists>e cp' d'. apply_transition zero_runtime agreeing_env approval_plane approval_dir PRODUCTION_DEPLOYED example_context
      example_context ''production_admitted'' production_rule no_usage = (Inr e, cp', d')"
    unfolding apply_transition_def Let_def by (simp add: append_event_ok transition_kind_def)
  then show ?thesis unfolding transition_def transition_locked_def locked_def Let_def
    by (simp add: actor sel usage example_budget production_rule_found example_early blocker example_late)
qed

text \<open>The example satisfies the hypotheses of both theorems.\<close>

theorem production_needs_approval_witness:
  "phase_four_policy zero_runtime = Some (cp_policy approval_plane)
     \<and> (\<exists>e cp' d'. transition zero_runtime agreeing_env approval_plane approval_dir PRODUCTION_DEPLOYED example_context
          ''production_admitted'' = (Inr e, cp', d') \<and> ''k'' \<in> set (cp_consumed cp'))"
proof -
  have policy: "phase_four_policy zero_runtime = Some (cp_policy approval_plane)"
    by (simp add: approval_plane_def initial_plane_def example_policy_def phase_four_policy_def make_policy_def phase_four_distinct)
  obtain e cp' d' where t: "transition zero_runtime agreeing_env approval_plane approval_dir PRODUCTION_DEPLOYED example_context
      ''production_admitted'' = (Inr e, cp', d')"
    using example_applied by blast
  from production_needs_approval [OF t policy] have "ma_key example_attempt \<in> set (cp_consumed cp')"
    by (auto simp: example_context_def)
  with policy t show ?thesis by (auto simp: example_attempt_def)
qed


section \<open>Every history\<close>

text \<open>
  C3. However a run under the phase-four policy got to its state, through stops, resumptions,
  rollbacks and denials, the promotions that lead up to that state were applied one after the
  other: readiness, merge, staging, canary, production and the observation window. A completed
  run went through all six.
\<close>

theorem delivery_stages:
  assumes "phase_four_policy rt = Some policy" "reachable rt policy (cp, d)"
  shows "subseq (take (level (cp_state cp)) stage_reasons) (map le_reason (filter applied (cp_events cp)))"
  using reachable_staged [OF assms(2,1)] by (simp add: staged_def reached_stage_def)

text \<open>C17. A claim of completion is active exactly while the run is in the state COMPLETED.\<close>

theorem claim_iff_completed:
  assumes "phase_four_policy rt = Some policy" "reachable rt policy (cp, d)"
  shows "cp_claimed cp \<longleftrightarrow> cp_state cp = COMPLETED"
  using reachable_claimed [OF assms(2,1)] by blast

lemma example_policy_ok: "phase_four_policy zero_runtime = Some example_policy"
  by (simp add: example_policy_def phase_four_policy_def make_policy_def phase_four_distinct)

definition example_run :: "lifecycle_event lc_outcome" where
  "example_run = create_run zero_runtime ''run'' zero_seal example_budget example_policy example_trust zero_seal zero_seal 0"

lemma example_run_reachable: "reachable zero_runtime example_policy (snd example_run)"
proof -
  obtain e s where "example_run = (Inr e, s)"
    unfolding example_run_def create_run_def
    by (simp add: append_event_ok may_append_def initial_plane_def persisted_head_def head_digest_def)
  then show ?thesis unfolding example_run_def by (simp add: reachable.Created)
qed

definition example_rejected :: "control_plane \<times> lc_dir" where
  "example_rejected = snd (transition zero_runtime agreeing_env (fst (snd example_run)) (snd (snd example_run)) PRODUCTION_DEPLOYED
     example_context ''production_admitted'')"

lemma example_rejected_reachable: "reachable zero_runtime example_policy example_rejected"
  using reachable.Stepped [OF example_run_reachable] step.Transition [of zero_runtime "fst (snd example_run)" "snd (snd example_run)"]
  by (simp add: example_rejected_def)

theorem delivery_stages_witness:
  "phase_four_policy zero_runtime = Some example_policy \<and> reachable zero_runtime example_policy example_rejected
     \<and> subseq (take (level (cp_state (fst example_rejected))) stage_reasons)
         (map le_reason (filter applied (cp_events (fst example_rejected))))"
  using example_policy_ok example_rejected_reachable
    delivery_stages [of zero_runtime example_policy "fst example_rejected" "snd example_rejected"] by simp

theorem claim_iff_completed_witness:
  "phase_four_policy zero_runtime = Some example_policy \<and> reachable zero_runtime example_policy (snd example_run)
     \<and> (cp_claimed (fst (snd example_run)) \<longleftrightarrow> cp_state (fst (snd example_run)) = COMPLETED)"
  using example_policy_ok example_run_reachable
    claim_iff_completed [of zero_runtime example_policy "fst (snd example_run)" "snd (snd example_run)"] by simp

end
