(* ===== verification/Lifecycle_Writers.thy ===== *)
theory Lifecycle_Writers
  imports Lifecycle_Gates
begin

text \<open>
  Several control planes on one run directory. Each append compares what the writer has seen with
  what is on disk, under the file lock; the locale \<^verbatim>\<open>cas_log\<close> states what that promises and
  what follows for any interleaving of calls, and the operations of the lifecycle interpret it.
\<close>

section \<open>Compare and swap\<close>

text \<open>A schedule lets one writer after the other make a call on the shared store.\<close>

primrec interleave :: "('c \<Rightarrow> 'w \<times> 'd \<Rightarrow> 'w \<times> 'd) \<Rightarrow> ('n \<times> 'c) list \<Rightarrow> ('n \<Rightarrow> 'w) \<times> 'd \<Rightarrow> ('n \<Rightarrow> 'w) \<times> 'd" where
  "interleave perform [] s = s"
| "interleave perform (x # xs) s = (case perform (snd x) (fst s (fst x), snd s) of
     (w, d) \<Rightarrow> interleave perform xs ((fst s)(fst x := w), d))"

locale cas_log =
  fixes seen :: "'w \<Rightarrow> 'e list" and log :: "'d \<Rightarrow> 'e list" and perform :: "'c \<Rightarrow> 'w \<times> 'd \<Rightarrow> 'w \<times> 'd"
  assumes append_or_nothing: "perform c (w, d) = (w', d') \<Longrightarrow>
    seen w' = seen w \<and> log d' = log d
    \<or> length (log d) = length (seen w) \<and> (\<exists>e. seen w' = seen w @ [e] \<and> log d' = log d @ [e])"
begin

lemma one_call:
  assumes "perform c (ws n, d) = (w, d')" "\<forall>m. prefix (seen (ws m)) (log d)"
  shows "(\<forall>m. prefix (seen ((ws(n := w)) m)) (log d')) \<and> prefix (log d) (log d')"
proof (cases "seen w = seen (ws n) \<and> log d' = log d")
  case True
  with assms(2) show ?thesis by simp
next
  case False
  with append_or_nothing [OF assms(1)] obtain e where e: "length (log d) = length (seen (ws n))"
      "seen w = seen (ws n) @ [e]" "log d' = log d @ [e]" by blast
  with assms(2) have "seen (ws n) = log d" by (metis prefix_length_prefix prefix_order.eq_iff order_refl)
  with assms(2) e show ?thesis by simp
qed

lemma no_lost_update:
  assumes "interleave perform calls (ws, d) = (ws', d')" "\<forall>n. prefix (seen (ws n)) (log d)"
  shows "(\<forall>n. prefix (seen (ws' n)) (log d')) \<and> prefix (log d) (log d')"
  using assms
proof (induction calls arbitrary: ws d)
  case (Cons x xs)
  obtain w d1 where p: "perform (snd x) (ws (fst x), d) = (w, d1)" by (meson surj_pair)
  note first = one_call [OF p Cons.prems(2)]
  have rest: "interleave perform xs (ws(fst x := w), d1) = (ws', d')" using Cons.prems(1) p by simp
  from Cons.IH [OF rest conjunct1 [OF first]] first show ?case by (blast intro: prefix_order.trans)
qed simp

lemma stale_writes_nothing:
  assumes "perform c (w, d) = (w', d')" "length (log d) \<noteq> length (seen w)"
  shows "log d' = log d \<and> seen w' = seen w"
  using append_or_nothing [OF assms(1)] assms(2) by blast

end

section \<open>The calls of the lifecycle\<close>

datatype lc_call =
    Call_transition lc_env lifecycle_state transition_context string
  | Call_resume lc_env transition_context
  | Call_prejournal lc_env mutation_attempt mutation_authorization "evidence option"
  | Call_result lc_env mutation_attempt string "string option" "adapter_evidence option"
  | Call_observation lc_env string string string string string
  | Call_challenge lc_env string
  | Call_extension lc_env budget_policy "budget_extension option" "authority_snapshot option" string

fun perform :: "runtime \<Rightarrow> lc_call \<Rightarrow> control_plane \<times> lc_dir \<Rightarrow> control_plane \<times> lc_dir" where
  "perform rt (Call_transition env target ctx reason) (cp, d) = snd (transition rt env cp d target ctx reason)"
| "perform rt (Call_resume env ctx) (cp, d) = snd (resume rt env cp d ctx)"
| "perform rt (Call_prejournal env a z e) (cp, d) = snd (prejournal_mutation rt env cp d a z e)"
| "perform rt (Call_result env a status digest x) (cp, d) = snd (record_mutation_result rt env cp d a status digest x)"
| "perform rt (Call_observation env source subject payload signature observed) (cp, d) =
     snd (record_observation rt env cp d source subject payload signature observed)"
| "perform rt (Call_challenge env token) (cp, d) = (issue_challenge env token cp, d)"
| "perform rt (Call_extension env p x a observed) (cp, d) = snd (admit_budget_policy rt env cp d p x a observed)"

lemma perform_step: "step rt s (perform rt c s)"
  by (cases s; cases c) (simp_all add: step.intros)

text \<open>The line an event is written as.\<close>

definition event_json :: "lifecycle_event \<Rightarrow> obj" where
  "event_json e =
     [(''sequence'', JInt (int (le_sequence e))), (''kind'', JStr (le_kind e)), (''outcome'', JStr (le_outcome e)),
      (''source'', JStr (state_text (le_source e))), (''target'', JStr (state_text (le_target e))),
      (''reason'', JStr (le_reason e)), (''actor'', JStr (le_actor e)), (''subject_digest'', JStr (le_subject e)),
      (''policy_digest'', JStr (le_policy e)), (''evidence_digest'', JStr (le_evidence e)),
      (''evidence_refs'', texts (le_refs e)), (''budget_usage'', case le_usage e of None \<Rightarrow> JNull | Some u \<Rightarrow> usage_json u),
      (''observed_at'', JStr (le_observed e)),
      (''resume_state'', case le_resume e of None \<Rightarrow> JNull | Some s \<Rightarrow> JStr (state_text s)),
      (''previous_digest'', JStr (le_previous e)), (''detail'', JStr (le_detail e)), (''event_digest'', JStr (le_digest e))]"

lemma event_json_of: "lc_event_body rt cp dr @ [(''event_digest'', JStr (le_digest (event_of rt cp dr)))] = event_json (event_of rt cp dr)"
  by (simp add: event_json_def event_of_def lc_event_body_def)

text \<open>A call adds nothing, or the event of a draft to memory and to the ledger.\<close>

definition wrote :: "runtime \<Rightarrow> control_plane \<times> lc_dir \<Rightarrow> control_plane \<times> lc_dir \<Rightarrow> bool" where
  "wrote rt s s' \<longleftrightarrow> cp_events (fst s') = cp_events (fst s) \<and> ld_ledger (snd s') = ld_ledger (snd s)
     \<or> may_append rt (fst s) (snd s) None \<and> (\<exists>dr. cp_events (fst s') = cp_events (fst s) @ [event_of rt (fst s) dr]
         \<and> ld_ledger (snd s') = ld_ledger (snd s) @ [event_json (event_of rt (fst s) dr)])"

lemma wrote_refl [simp]: "wrote rt s s"
  by (simp add: wrote_def)

lemma wrote_cong:
  "cp_events cp = cp_events cp2 \<Longrightarrow> ld_ledger d = ld_ledger d2 \<Longrightarrow> wrote rt s (cp, d) = wrote rt s (cp2, d2)"
  by (simp add: wrote_def)

lemma may_append_weaker: "may_append rt cp d expected \<Longrightarrow> may_append rt cp d None"
  by (simp add: may_append_def)

lemma append_wrote: "record_event rt cp d dr expected p = (r, cp', d') \<Longrightarrow> wrote rt (cp, d) (cp', d')"
  by (erule append_event_cases) (auto simp: wrote_def ledger_grown_def event_json_of dest: may_append_weaker)

lemma append_wrote_snd: "wrote rt (cp, d) (snd (record_event rt cp d dr expected p))"
  using append_wrote by (metis prod.collapse)

lemma locked_wrote: "wrote rt (cp, d) (snd r) \<Longrightarrow> wrote rt (cp, d) (snd (locked cp d r))"
  by (auto simp: locked_def split: option.splits)

lemma wrote_state:
  assumes "wrote rt s (cp, d)" "cp_events cp' = cp_events cp"
  shows "wrote rt s (cp', d)"
  using assms wrote_cong by blast

text \<open>An operation that appends and then only changes fields other than the events.\<close>

lemma append_then_wrote:
  assumes "\<And>e cp' d'. cp_events (fst (snd (f e cp' d'))) = cp_events cp' \<and> snd (snd (f e cp' d')) = d'"
  shows "wrote rt (cp, d) (snd (case record_event rt cp d dr None None of (Inl err, cp', d') \<Rightarrow> (Inl err, cp', d')
     | (Inr e, cp', d') \<Rightarrow> f e cp' d'))"
proof -
  obtain r cp' d' where a: "record_event rt cp d dr None None = (r, cp', d')" by (metis prod_cases3)
  with append_wrote have w: "wrote rt (cp, d) (cp', d')" by blast
  then have "wrote rt (cp, d) (snd (f e cp' d'))" for e using assms [of e cp' d'] wrote_state [OF w] by (metis prod.collapse)
  with w show ?thesis by (simp add: a split: sum.split)
qed

lemma deny_wrote: "wrote rt (cp, d) (snd (deny rt env cp d target ctx reason detail))"
  unfolding deny_def Let_def by (rule append_then_wrote) simp

lemma apply_wrote: "wrote rt (cp, d) (snd (apply_transition rt env cp d target ctx ctx' reason rule usage))"
  unfolding apply_transition_def Let_def by (rule append_then_wrote) simp

lemma transition_wrote: "wrote rt (cp, d) (snd (transition rt env cp d target ctx reason))"
  unfolding transition_def
  by (rule locked_wrote) (simp add: transition_locked_def Let_def deny_wrote apply_wrote split: sum.split option.split)

lemma resume_applied_wrote: "wrote rt (cp, d) (snd (resume_applied rt cp d ctx target usage))"
  unfolding resume_applied_def by (rule append_then_wrote) simp

lemma resume_wrote: "wrote rt (cp, d) (snd (resume rt env cp d ctx))"
  by (simp add: resume_def Let_def deny_wrote resume_applied_wrote split: sum.split option.split)

lemma register_wrote: "wrote rt (cp, d) (snd (register_mutation rt cp d a))"
  by (auto simp: register_mutation_def wrote_def split: sum.splits option.splits)

lemma prejournal_wrote: "wrote rt (cp, d) (snd (prejournal_mutation rt env cp d a z e))"
  unfolding prejournal_mutation_def
  by (rule locked_wrote) (auto simp: register_wrote split: sum.splits option.splits)

lemma result_wrote: "wrote rt (cp, d) (snd (record_mutation_result rt env cp d a status digest x))"
proof -
  define r where "r = \<lparr>mr_attempt = ma_id a, mr_key = ma_key a, mr_status = status, mr_digest = digest\<rparr>"
  define out where "out = (case record_event rt cp d (result_draft rt cp a status digest (the x)) None None of
      (Inl err, cp', d') \<Rightarrow> (Inl err, cp', d')
    | (Inr _, cp', d') \<Rightarrow> (Inr r, cp'\<lparr>cp_results := dput (ma_key a) r (cp_results cp'), cp_verified := ma_key a # cp_verified cp'\<rparr>, d'))"
  have "wrote rt (cp, d) (snd out)" unfolding out_def by (rule append_then_wrote) simp
  then show ?thesis unfolding record_mutation_result_def Let_def r_def [symmetric] out_def [symmetric]
    by (auto split: sum.splits option.splits)
qed

lemma observation_wrote: "wrote rt (cp, d) (snd (record_observation rt env cp d source subject payload signature observed))"
  unfolding record_observation_def Let_def by (rule locked_wrote) (simp add: append_wrote_snd)

lemma extension_wrote: "wrote rt (cp, d) (snd (admit_budget_policy rt env cp d p x a observed))"
proof -
  have "wrote rt (cp, d) (snd (record_event rt (cp\<lparr>cp_challenge := None, cp_deadline := None\<rparr>) d dr expected q))" for dr expected q
  proof -
    have "may_append rt (cp\<lparr>cp_challenge := None, cp_deadline := None\<rparr>) d None = may_append rt cp d None"
      by (simp add: may_append_def head_digest_def)
    moreover have "event_of rt (cp\<lparr>cp_challenge := None, cp_deadline := None\<rparr>) dr = event_of rt cp dr" for dr
      by (simp add: event_of_def lc_event_body_def head_digest_def)
    ultimately show ?thesis
      using append_wrote_snd [of rt "cp\<lparr>cp_challenge := None, cp_deadline := None\<rparr>" d dr expected q] by (simp add: wrote_def)
  qed
  then show ?thesis unfolding admit_budget_policy_def by (auto split: sum.splits option.splits)
qed

lemma challenge_wrote: "wrote rt (cp, d) (issue_challenge env token cp, d)"
  by (simp add: wrote_def issue_challenge_def)

lemma perform_wrote: "wrote rt (cp, d) (perform rt c (cp, d))"
  by (cases c) (simp_all add: transition_wrote resume_wrote prejournal_wrote result_wrote observation_wrote extension_wrote
      challenge_wrote)

interpretation cas: cas_log "\<lambda>cp. map event_json (cp_events cp)" ld_ledger "perform rt" for rt
proof (unfold_locales, goal_cases)
  case (1 c cp d cp' d')
  with perform_wrote [of rt cp d c] show ?case by (auto simp: wrote_def may_append_def)
qed

text \<open>
  C7. Any number of control planes may work on one run directory, in any order: if each has seen
  a beginning of the ledger, each still has afterwards, and the ledger has only grown. A writer
  that is behind changes nothing on disk, so no event is lost or overwritten.
\<close>

theorem writers_lose_nothing:
  assumes "\<forall>n. prefix (map event_json (cp_events (planes n))) (ld_ledger d)"
  shows "case interleave (perform rt) calls (planes, d) of (planes', d') \<Rightarrow>
    (\<forall>n. prefix (map event_json (cp_events (planes' n))) (ld_ledger d')) \<and> prefix (ld_ledger d) (ld_ledger d')"
  using cas.no_lost_update [OF _ assms] by (auto split: prod.split)

lemma example_run_synced: "ld_ledger (snd (snd example_run)) = map event_json (cp_events (fst (snd example_run)))"
proof -
  have "may_append zero_runtime (initial_plane ''run'' zero_seal example_budget example_policy example_trust 0)
      \<lparr>ld_identity = Some 0, ld_ledger = [], ld_journal = []\<rparr> None"
    by (simp add: may_append_def initial_plane_def persisted_head_def head_digest_def)
  then show ?thesis unfolding example_run_def create_run_def
    by (simp add: append_event_ok ledger_grown_def event_json_of) (simp add: initial_plane_def)
qed

theorem writers_lose_nothing_witness:
  "(\<forall>n::nat. prefix (map event_json (cp_events (fst (snd example_run)))) (ld_ledger (snd (snd example_run))))
     \<and> (case interleave (perform zero_runtime)
           [(0, Call_transition agreeing_env PRODUCTION_DEPLOYED example_context ''production_admitted''),
            (1, Call_transition agreeing_env PRODUCTION_DEPLOYED example_context ''production_admitted'')]
           (\<lambda>_::nat. fst (snd example_run), snd (snd example_run)) of (planes', d') \<Rightarrow>
         (\<forall>n. prefix (map event_json (cp_events (planes' n))) (ld_ledger d')) \<and> prefix (ld_ledger (snd (snd example_run))) (ld_ledger d'))"
proof -
  have "\<forall>n::nat. prefix (map event_json (cp_events (fst (snd example_run)))) (ld_ledger (snd (snd example_run)))"
    by (simp add: example_run_synced)
  from conjI [OF this writers_lose_nothing [of "\<lambda>_::nat. fst (snd example_run)" "snd (snd example_run)", OF this]] show ?thesis .
qed

end
