(* ===== verification/Lifecycle_Replay.thy ===== *)
theory Lifecycle_Replay
  imports Lifecycle_Writers
begin

text \<open>
  \<^verbatim>\<open>LifecycleControlPlane.load\<close>: the plane is rebuilt from its ledger and the mutation journal.

  The metadata file enters with its content already read (identity of the run, budget, policy and
  trust policy) and its digest. A line of the ledger is the object it holds; the order of its
  members, which the file sorts and no operation depends on, is the one it was built in. A member
  that has another JSON type than the code writes counts as malformed here, and the usage of an
  event is read with the event.
\<close>

section \<open>Reading an event\<close>

definition lifecycle_states :: "lifecycle_state list" where
  "lifecycle_states = [CONTRACT_RECEIVED, CONTRACT_INVALID, PRODUCT_INPUT_REQUIRED, CONTRACT_APPROVED, REPOSITORY_ANALYSED,
     ARCHITECTURE_PROPOSED, ARCHITECTURE_APPROVED, TEST_PLAN_CREATED, TEST_PLAN_VALIDATED, IMPLEMENTATION_PLANNED, DRAFT_PR_OPEN,
     IMPLEMENTATION_IN_PROGRESS, VERIFICATION_FAILED, REPAIR_IN_PROGRESS, REVIEW_REQUIRED, REVIEW_FAILED, PR_READY, PR_MERGED,
     STAGING_DEPLOYED, STAGING_FAILED, CANARY_DEPLOYED, CANARY_FAILED, PRODUCTION_APPROVAL_REQUIRED, PRODUCTION_DEPLOYED,
     LIVE_VERIFICATION_FAILED, ROLLBACK_IN_PROGRESS, ROLLED_BACK, BLOCKED, BUDGET_EXCEEDED, COMPLETED]"

definition state_of_text :: "runtime \<Rightarrow> string \<Rightarrow> lc_error + lifecycle_state" where
  "state_of_text rt s = (case List.find (\<lambda>st. state_text st = s) lifecycle_states of
      None \<Rightarrow> Inl (Broken (rt_repr rt (JStr s) @ '' is not a valid LifecycleState''))
    | Some st \<Rightarrow> Inr st)"

fun read_counts :: "obj \<Rightarrow> lc_error + (string \<times> int) list" where
  "read_counts [] = Inr []"
| "read_counts ((k, v) # d) = (case v of
      JInt n \<Rightarrow> bindr (read_counts d) (\<lambda>m. Inr ((k, n) # m))
    | _ \<Rightarrow> Inl Type_fault)"


definition usage_values :: "budget_usage \<Rightarrow> int list" where
  "usage_values u = map snd (bu_counters u) @ map snd (bu_by_finding u) @ map snd (bu_by_stage u) @ [bu_safety u]"









section \<open>Replaying an event\<close>

text \<open>\<^verbatim>\<open>_budget_policy_from_dict\<close> with the checks of \<^verbatim>\<open>BudgetPolicy\<close>.\<close>

definition int_member :: "obj \<Rightarrow> string \<Rightarrow> lc_error + int" where
  "int_member d k = (case map_of d k of None \<Rightarrow> Inl Key_fault | Some (JInt n) \<Rightarrow> Inr n | Some _ \<Rightarrow> Inl Type_fault)"

definition budget_fault :: "budget_policy \<Rightarrow> string option" where
  "budget_fault p =
     (if bp_version p = [] \<or> bp_approved_by p = [] then Some ''budget policy must be versioned and approved''
      else if set (map fst (bp_limits p)) \<noteq> set budget_dimensions then Some ''every delivery budget dimension must be configured''
      else if list_ex (\<lambda>(_, n). n \<le> 0) (bp_limits p) then Some ''budget limits must be positive''
      else if bp_per_finding p \<le> 0 \<or> bp_per_stage p \<le> 0 then Some ''repair budgets must be positive''
      else if bp_safety p \<le> 0 then Some ''reserved safety budget must be positive''
      else None)"


definition read_budget :: "runtime \<Rightarrow> obj \<Rightarrow> lc_error + budget_policy" where
  "read_budget rt d =
     bindr (str_field rt d ''version'') (\<lambda>version.
     bindr (case map_of d ''limits'' of None \<Rightarrow> Inl Key_fault | Some (JObj m) \<Rightarrow> read_counts m | Some _ \<Rightarrow> Inl Type_fault) (\<lambda>limits.
     bindr (int_member d ''repair_attempts_per_finding'') (\<lambda>f. bindr (int_member d ''repair_attempts_per_stage'') (\<lambda>s.
     bindr (int_member d ''reserved_safety_units'') (\<lambda>n. bindr (str_field rt d ''approved_by'') (\<lambda>owner.
     let p = \<lparr>bp_version = version, bp_limits = limits, bp_per_finding = f, bp_per_stage = s, bp_safety = n, bp_approved_by = owner\<rparr> in
     case budget_fault p of None \<Rightarrow> Inr p | Some message \<Rightarrow> Inl (Broken message)))))))"

definition restored_adapter :: "runtime \<Rightarrow> lifecycle_event \<Rightarrow> json list \<Rightarrow> string option \<Rightarrow> adapter_evidence" where
  "restored_adapter rt e capabilities digest =
     (let r = le_refs e in
      \<lparr>ad_id = ev r ''adapter_id'', ad_role = ev r ''adapter_role'', ad_authenticated = True,
       ad_capabilities = map (py_str (rt_repr rt)) capabilities, ad_subject = le_subject e,
       ad_authority = ev r ''adapter_authority_digest'', ad_attempt = ev r ''attempt_id'', ad_key = ev r ''idempotency_key'',
       ad_action = le_reason e, ad_plan = ev r ''adapter_step_plan_digest'', ad_status = le_detail e, ad_result = digest,
       ad_proof = ev r ''adapter_authentication_evidence_digest''\<rparr>)"

definition adapter_restorable :: "lc_env \<Rightarrow> control_plane \<Rightarrow> adapter_evidence \<Rightarrow> bool" where
  "adapter_restorable env cp x = (case map_of (cp_attempts cp) (ad_key x) of
      None \<Rightarrow> False
    | Some a \<Rightarrow> ''lifecycle.mutation.result.record'' \<in> set (ad_capabilities x)
        \<and> map_of (tp_adapters (cp_trust cp)) (ad_id x) = Some (ad_authority x) \<and> ad_attempt x = ma_id a \<and> ad_action x = ma_action a
        \<and> ad_plan x = ma_plan a \<and> ad_proof x \<noteq> []
        \<and> (lv_verifier env = None \<or> verify_external env (ad_id x) (ad_authority x) (adapter_json x) (ad_proof x)))"

definition replay_result :: "runtime \<Rightarrow> lc_env \<Rightarrow> lifecycle_event \<Rightarrow> control_plane \<Rightarrow> lc_error + control_plane" where
  "replay_result rt env e cp =
     (let r = le_refs e; attempt = ev r ''attempt_id''; key = ev r ''idempotency_key'';
          digest = (if map_of r ''result_digest'' = Some ''UNKNOWN'' then None else map_of r ''result_digest'') in
      if attempt = [] \<or> key = [] then Inr cp
      else (case rt_json rt (ev r ''adapter_capabilities_json'') of
          Some (JList xs) \<Rightarrow>
            if \<not> adapter_restorable env cp (restored_adapter rt e xs digest)
            then Inl (Broken ''mutation result adapter evidence is invalid'')
            else Inr (cp\<lparr>cp_results := dput key \<lparr>mr_attempt = attempt, mr_key = key, mr_status = le_detail e, mr_digest = digest\<rparr> (cp_results cp),
              cp_verified := (if lv_verifier env = None then cp_verified cp else key # cp_verified cp)\<rparr>)
        | _ \<Rightarrow> Inl (Broken ''mutation result adapter evidence is malformed'')))"

definition replay_budget :: "runtime \<Rightarrow> lifecycle_event \<Rightarrow> control_plane \<Rightarrow> lc_error + control_plane" where
  "replay_budget rt e cp =
     (let r = le_refs e; policy = ev r ''budget_policy_json'' in
      if policy = [] then Inr cp
      else (case rt_json rt policy of
          None \<Rightarrow> Inl (Broken ''admitted budget policy is not valid JSON'')
        | Some (JObj raw) \<Rightarrow>
            if json_text rt (JObj raw) \<noteq> policy then Inl (Broken ''admitted budget policy is not canonical'')
            else bindr (read_budget rt raw) (\<lambda>p.
              let digest = lc_digest rt (budget_policy_json p) in
              if map_of r ''prior_policy_digest'' \<noteq> Some (lc_digest rt (budget_policy_json (cp_budget cp)))
                 \<or> map_of r ''proposed_policy_digest'' \<noteq> Some digest \<or> map_of r ''budget_policy_digest'' \<noteq> Some digest
                 \<or> \<not> is_digest_str (ev r ''authorization_evidence_digest'')
              then Inl (Broken ''admitted budget policy evidence is inconsistent'')
              else Inr (cp\<lparr>cp_budget := p\<rparr>))
        | Some _ \<Rightarrow> Inl (Broken ''admitted budget policy is not canonical'')))"

definition replay_usage :: "lifecycle_event \<Rightarrow> control_plane \<Rightarrow> lc_error + control_plane" where
  "replay_usage e cp = (case le_usage e of
      None \<Rightarrow> Inr cp
    | Some u \<Rightarrow> (case merge_strict (cp_usage cp) u of
          Inl message \<Rightarrow> Inl (Denied message)
        | Inr w \<Rightarrow> Inr (cp\<lparr>cp_usage := w\<rparr>)))"

definition replay_consumed :: "lifecycle_event \<Rightarrow> control_plane \<Rightarrow> control_plane" where
  "replay_consumed e cp =
     (let k1 = (if le_kind e = ''MUTATION_RESULT_CONSUMED'' then ev (le_refs e) ''idempotency_key'' else []);
          k2 = ev (le_refs e) ''consumed_mutation_result_key'' in
      cp\<lparr>cp_consumed := filter (\<lambda>k. k \<noteq> []) [k2, k1] @ cp_consumed cp\<rparr>)"

definition replay_event :: "runtime \<Rightarrow> lc_env \<Rightarrow> lifecycle_event \<Rightarrow> control_plane \<Rightarrow> lc_error + control_plane" where
  "replay_event rt env e cp =
     (if le_source e \<noteq> cp_state cp then Inl (Broken ''lifecycle event source does not match replay state'')
      else if \<not> applied e \<and> le_outcome e = ''RECORDED'' \<and> le_target e \<noteq> cp_state cp
      then Inl (Broken ''recorded lifecycle event cannot change replay state'')
      else bindr (replay_usage e (if applied e then cp\<lparr>cp_state := le_target e\<rparr> else cp)) (\<lambda>cp.
        bindr (if le_kind e = ''MUTATION_RESULT'' then replay_result rt env e cp else Inr cp) (\<lambda>cp.
        bindr (if le_kind e = ''BUDGET_POLICY_ADMITTED'' then replay_budget rt e (replay_consumed e cp) else Inr (replay_consumed e cp)) (\<lambda>cp.
        Inr (cp\<lparr>cp_claimed := (if le_kind e = ''COMPLETION_CLAIMED'' then True
          else if le_kind e = ''COMPLETION_REVOKED'' then False else cp_claimed cp)\<rparr>)))))"



section \<open>What was written reads back\<close>

lemma state_of_state_text [simp]: "state_of_text rt (state_text s) = Inr s"
  by (cases s) (simp_all add: state_of_text_def lifecycle_states_def)

lemma state_text_nonempty [simp]: "state_text s \<noteq> []"
  by (cases s) simp_all


definition usage_nonneg :: "budget_usage \<Rightarrow> bool" where
  "usage_nonneg u \<longleftrightarrow> list_all (\<lambda>v. 0 \<le> v) (usage_values u)"


definition event_wf :: "lifecycle_event \<Rightarrow> bool" where
  "event_wf e \<longleftrightarrow> (\<forall>u. le_usage e = Some u \<longrightarrow> usage_nonneg u)"








section \<open>Replaying what was recorded\<close>

text \<open>
  The plane \<^verbatim>\<open>q\<close> stands for \<^verbatim>\<open>cp\<close>: everything a decision depends on is the same, usage as a
  function of its names; a key that was consumed is consumed there too.
\<close>

definition restored :: "control_plane \<Rightarrow> control_plane \<Rightarrow> bool" where
  "restored q cp \<longleftrightarrow> cp_state q = cp_state cp \<and> cp_claimed q = cp_claimed cp \<and> cp_budget q = cp_budget cp
     \<and> same_run cp q \<and> cp_run_id q = cp_run_id cp \<and> cp_results q = cp_results cp \<and> set (cp_verified q) = set (cp_verified cp)
     \<and> usage_le (cp_usage q) (cp_usage cp) \<and> usage_le (cp_usage cp) (cp_usage q) \<and> set (cp_consumed cp) \<subseteq> set (cp_consumed q)"



text \<open>What the replay of an event keeps beyond the plane it stands for.\<close>

definition follows :: "runtime \<Rightarrow> lc_env \<Rightarrow> lifecycle_event \<Rightarrow> (string \<times> mutation_attempt) list \<Rightarrow> control_plane \<Rightarrow> control_plane \<Rightarrow> bool" where
  "follows rt env e attempts cp cp' \<longleftrightarrow> (\<forall>q. restored q cp \<and> (\<forall>k a. map_of attempts k = Some a \<longrightarrow> map_of (cp_attempts q) k = Some a)
     \<longrightarrow> (\<exists>q'. replay_event rt env e q = Inr q' \<and> restored q' cp' \<and> cp_attempts q' = cp_attempts q \<and> cp_events q' = cp_events q
       \<and> cp_identity q' = cp_identity q))"


text \<open>The fields that a replayed plane takes over.\<close>

definition quiet :: "control_plane \<Rightarrow> control_plane \<Rightarrow> bool" where
  "quiet cp cp' \<longleftrightarrow> cp_state cp' = cp_state cp \<and> cp_claimed cp' = cp_claimed cp \<and> cp_budget cp' = cp_budget cp \<and> same_run cp cp'
     \<and> cp_run_id cp' = cp_run_id cp \<and> cp_results cp' = cp_results cp \<and> cp_verified cp' = cp_verified cp \<and> cp_usage cp' = cp_usage cp
     \<and> cp_consumed cp' = cp_consumed cp"



lemma restored_consumed [simp]: "restored q cp \<Longrightarrow> restored (replay_consumed e q) cp"
  by (auto simp: restored_def replay_consumed_def Let_def same_run_def)

lemma replay_consumed_sel [simp]:
  "cp_state (replay_consumed e q) = cp_state q" "cp_attempts (replay_consumed e q) = cp_attempts q"
  "cp_events (replay_consumed e q) = cp_events q" "cp_identity (replay_consumed e q) = cp_identity q"
  "cp_budget (replay_consumed e q) = cp_budget q"
  by (simp_all add: replay_consumed_def Let_def)


text \<open>\<^verbatim>\<open>json.loads\<close> of a text with sorted keys gives the value back, its members in that order.\<close>

fun sort_members :: "json \<Rightarrow> json" where
  "sort_members (JList xs) = JList (map sort_members xs)"
| "sort_members (JObj d) = JObj (sort_key fst (map (\<lambda>(k, v). (k, sort_members v)) d))"
| "sort_members v = v"





lemma sort_members_names [simp]: "sort_members (names_json xs) = names_json xs"
  by (simp add: names_json_def)



lemma result_draft_rest [simp]:
  "dr_kind (result_draft rt cp a status digest x) = ''MUTATION_RESULT''" "dr_target (result_draft rt cp a status digest x) = cp_state cp"
  "dr_usage (result_draft rt cp a status digest x) = None" "dr_reason (result_draft rt cp a status digest x) = ma_action a"
  "dr_detail (result_draft rt cp a status digest x) = status"
  by (simp_all add: result_draft_def)

lemma sorted_set_again [simp]: "sorted_set (sorted_set xs) = sorted_set xs"
  by (simp add: sorted_set_def [of "sorted_set xs"] distinct_remdups_id sorted_sort_id)


lemma event_of_subject [simp]: "le_subject (event_of rt cp dr) = cp_subject cp"
  by (simp add: event_of_def)





lemma extension_draft_rest [simp]:
  "dr_kind (extension_draft rt cp p x observed) = ''BUDGET_POLICY_ADMITTED''" "dr_outcome (extension_draft rt cp p x observed) = ''RECORDED''"
  "dr_source (extension_draft rt cp p x observed) = cp_state cp" "dr_target (extension_draft rt cp p x observed) = cp_state cp"
  "dr_usage (extension_draft rt cp p x observed) = None"
  by (simp_all add: extension_draft_def Let_def)



section \<open>Each call\<close>

lemma quiet_refl [simp]: "quiet cp cp"
  by (simp add: quiet_def same_run_def)

definition logged ::
  "runtime \<Rightarrow> lc_env \<Rightarrow> (string \<times> mutation_attempt) list \<Rightarrow> control_plane \<Rightarrow> control_plane \<Rightarrow> bool" where
  "logged rt env attempts cp cp' \<longleftrightarrow> usage_nonneg (cp_usage cp')
     \<and> (cp_events cp' = cp_events cp \<and> quiet cp cp'
        \<or> (\<exists>dr. cp_events cp' = cp_events cp @ [event_of rt cp dr] \<and> event_wf (event_of rt cp dr)
             \<and> follows rt env (event_of rt cp dr) attempts cp cp'))"

lemma logged_refl [simp]: "usage_nonneg (cp_usage cp) \<Longrightarrow> logged rt env attempts cp cp"
  by (simp add: logged_def)









lemma grown_run_id [simp]: "cp_run_id (grown rt cp dr p) = cp_run_id cp"
  "cp_budget (grown rt cp dr p) = (case p of None \<Rightarrow> cp_budget cp | Some p \<Rightarrow> p)"
  by (simp_all add: grown_def)
















section \<open>Every history\<close>















lemma event_of_policy [simp]: "le_policy (event_of rt cp dr) = lp_digest (cp_policy cp)"
  by (simp add: event_of_def)













end
