(* ===== verification/Merge_Admission.thy ===== *)
theory Merge_Admission
  imports Lifecycle
begin

text \<open>
  \<^verbatim>\<open>engineering/merge_admission.py\<close>: the native merge queue. A snapshot of a pull request is
  validated and enqueued under a signed token; the merge is admitted when the token is authentic
  and a new snapshot, at the time of the merge, still passes and says the same. A race with a
  revocation or a new finding is decided by the order of the events.

  Outside are the authenticators and the signer, the clock, \<^verbatim>\<open>fromisoformat\<close>, the printing of a
  shifted time, and \<^verbatim>\<open>str.upper\<close> (\<^verbatim>\<open>queue_env\<close>). An authenticator that raises counts as one that
  refuses, as in the code. A time is in microseconds.
\<close>

section \<open>Data\<close>

record required_check =
  rk_name :: string
  rk_subject :: string
  rk_input :: string
  rk_status :: string
  rk_observed :: string
  rk_event :: string
  rk_enqueue :: string

record formal_review =
  fv_id :: string
  fv_actor :: string
  fv_subject :: string
  fv_state :: string
  fv_submitted :: string
  fv_eligible :: bool

record queue_finding =
  qf_id :: string
  qf_source :: string
  qf_subject :: string
  qf_severity :: string
  qf_credible :: bool
  qf_blocking :: bool
  qf_normalized :: string
  qf_authority :: string
  qf_proof :: string
  qf_disposition :: string
  qf_resolution :: string
  qf_resolver :: string
  qf_resolver_authority :: string
  qf_resolution_proof :: string

record finding_inventory =
  iv_source :: string
  iv_subject :: string
  iv_digests :: "string list"
  iv_watermark :: string
  iv_observed :: string
  iv_expires :: string
  iv_authority :: string
  iv_proof :: string

record governed_policy =
  gm_rules :: string
  gm_checks :: "string list"

record merge_snapshot =
  sn_head :: string
  sn_base :: string
  sn_tree :: string
  sn_rules :: string
  sn_architecture :: string
  sn_toolchain :: string
  sn_environment :: string
  sn_security :: string
  sn_verification :: string
  sn_evidence :: string
  sn_authority :: string
  sn_watermark :: string
  sn_pending :: int
  sn_names :: "string list"
  sn_checks :: "required_check list"
  sn_reviews :: "formal_review list"
  sn_findings :: "queue_finding list"
  sn_inventories :: "finding_inventory list"
  sn_queue :: bool
  sn_bypass :: bool

record enqueue_token =
  tk_snapshot :: string
  tk_input :: string
  tk_authority :: string
  tk_watermark :: string
  tk_checks :: "string list"
  tk_issuer :: string
  tk_issuer_authority :: string
  tk_proof :: string
  tk_enqueued :: string
  tk_expires :: string
  tk_boundary :: string
  tk_digest :: string

record queue_decision =
  qd_admitted :: bool
  qd_outcome :: string
  qd_rollout :: bool
  qd_reasons :: "string list"
  qd_incident :: bool

type_synonym authenticator = "string \<Rightarrow> string \<Rightarrow> json \<Rightarrow> string \<Rightarrow> bool"

record queue_env =
  qe_sources :: evidence
  qe_authorities :: evidence
  qe_finding :: "authenticator option"
  qe_inventory :: "authenticator option"
  qe_resolution :: "authenticator option"
  qe_parse :: "string \<Rightarrow> stamp option"
  qe_shift :: "string \<Rightarrow> int \<Rightarrow> string"
  qe_clock :: "stamp option"
  qe_upper :: "string \<Rightarrow> string"

datatype queue_error =
    Time_fault           \<comment> \<open>\<^verbatim>\<open>ValueError\<close> of a timestamp\<close>
  | Queue_fault string   \<comment> \<open>\<^verbatim>\<open>ValueError\<close> of this module\<close>

section \<open>The governed policy\<close>

definition governed_policy_ok :: "governed_policy \<Rightarrow> queue_error + governed_policy" where
  "governed_policy_ok p =
     (if \<not> is_digest_str (gm_rules p) then Inl (Queue_fault ''governed repository-rules digest is malformed'')
      else if gm_checks p = [] then Inl (Queue_fault ''governed merge policy must name required checks'')
      else if list_ex (\<lambda>name. strip name = []) (gm_checks p) then Inl (Queue_fault ''governed required-check names cannot be empty'')
      else if \<not> distinct (gm_checks p) then Inl (Queue_fault ''governed required-check names are duplicated'')
      else Inr p)"

text \<open>\<^verbatim>\<open>str.splitlines\<close> on ASCII text whose line ends were read as LF.\<close>

definition is_line_end :: "char \<Rightarrow> bool" where
  "is_line_end c \<longleftrightarrow> (of_char c :: nat) \<in> {10, 11, 12, 13, 28, 29, 30}"

fun text_lines :: "string \<Rightarrow> string \<Rightarrow> string list" where
  "text_lines line [] = (if line = [] then [] else [line])"
| "text_lines line (c # s) = (if is_line_end c then line # text_lines [] s else text_lines (line @ [c]) s)"

fun required_names :: "bool \<Rightarrow> string list \<Rightarrow> string list" where
  "required_names inside [] = []"
| "required_names inside (line # rest) =
     (if line = ''required_checks:'' then required_names True rest
      else if inside \<and> starts_with ''  - '' line then strip (remove_prefix ''  - '' line) # required_names inside rest
      else if inside \<and> line \<noteq> [] \<and> \<not> starts_with '' '' line \<and> \<not> starts_with ''#'' line then []
      else required_names inside rest)"

definition load_governed_merge_policy :: "runtime \<Rightarrow> string \<Rightarrow> queue_error + governed_policy" where
  "load_governed_merge_policy rt content = governed_policy_ok
     \<lparr>gm_rules = canonical_digest rt (JObj [(''content'', JStr content)]), gm_checks = required_names False (text_lines [] content)\<rparr>"

section \<open>Payloads and digests\<close>

definition check_payload :: "required_check \<Rightarrow> json" where
  "check_payload c = JObj [(''name'', JStr (rk_name c)), (''subject_sha'', JStr (rk_subject c)), (''input_digest'', JStr (rk_input c)),
     (''status'', JStr (rk_status c)), (''observed_at'', JStr (rk_observed c)), (''event'', JStr (rk_event c)),
     (''enqueue_digest'', JStr (rk_enqueue c))]"

definition review_payload :: "formal_review \<Rightarrow> json" where
  "review_payload r = JObj [(''review_id'', JStr (fv_id r)), (''actor'', JStr (fv_actor r)), (''subject_sha'', JStr (fv_subject r)),
     (''state'', JStr (fv_state r)), (''submitted_at'', JStr (fv_submitted r)), (''eligible'', JBool (fv_eligible r))]"

definition finding_fields :: "queue_finding \<Rightarrow> obj" where
  "finding_fields f = [(''finding_id'', JStr (qf_id f)), (''source'', JStr (qf_source f)), (''subject_sha'', JStr (qf_subject f)),
     (''severity'', JStr (qf_severity f)), (''credible'', JBool (qf_credible f)), (''blocking'', JBool (qf_blocking f)),
     (''normalized_at'', JStr (qf_normalized f)), (''source_authority_digest'', JStr (qf_authority f))]"

definition finding_authentication_payload :: "queue_finding \<Rightarrow> json" where
  "finding_authentication_payload f = JObj (finding_fields f)"

definition finding_resolution_authentication_payload :: "queue_finding \<Rightarrow> json" where
  "finding_resolution_authentication_payload f = JObj (finding_fields f
     @ [(''authentication_evidence_digest'', JStr (qf_proof f)), (''disposition'', JStr (qf_disposition f)),
        (''resolution_digest'', JStr (qf_resolution f)), (''resolution_actor'', JStr (qf_resolver f)),
        (''resolution_authority_digest'', JStr (qf_resolver_authority f))])"

definition finding_payload :: "queue_finding \<Rightarrow> json" where
  "finding_payload f = (case finding_resolution_authentication_payload f of
      JObj d \<Rightarrow> JObj (d @ [(''resolution_authentication_evidence_digest'', JStr (qf_resolution_proof f))])
    | v \<Rightarrow> v)"

definition inventory_fields :: "finding_inventory \<Rightarrow> obj" where
  "inventory_fields i = [(''source'', JStr (iv_source i)), (''subject_sha'', JStr (iv_subject i)),
     (''finding_digests'', names_json (iv_digests i)), (''high_watermark_digest'', JStr (iv_watermark i)),
     (''observed_at'', JStr (iv_observed i)), (''expires_at'', JStr (iv_expires i)), (''source_authority_digest'', JStr (iv_authority i))]"

definition finding_inventory_authentication_payload :: "finding_inventory \<Rightarrow> json" where
  "finding_inventory_authentication_payload i = JObj (inventory_fields i)"

definition exact_input :: "merge_snapshot \<Rightarrow> json" where
  "exact_input s = JObj [(''pr_head_sha'', JStr (sn_head s)), (''protected_base_sha'', JStr (sn_base s)),
     (''prospective_merge_tree_digest'', JStr (sn_tree s)), (''repository_rules_digest'', JStr (sn_rules s)),
     (''architecture_policy_digest'', JStr (sn_architecture s)), (''toolchain_policy_digest'', JStr (sn_toolchain s)),
     (''environment_profile_digest'', JStr (sn_environment s)), (''security_policy_digest'', JStr (sn_security s)),
     (''verification_policy_digest'', JStr (sn_verification s)), (''evidence_policy_digest'', JStr (sn_evidence s))]"

definition exact_input_digest :: "runtime \<Rightarrow> merge_snapshot \<Rightarrow> string" where
  "exact_input_digest rt s = canonical_digest rt (exact_input s)"

definition snapshot_payload :: "merge_snapshot \<Rightarrow> json" where
  "snapshot_payload s = (case exact_input s of
      JObj d \<Rightarrow> JObj (d @ [(''authority_digest'', JStr (sn_authority s)), (''finding_high_watermark_digest'', JStr (sn_watermark s)),
        (''pending_unclassified_findings'', JInt (sn_pending s)), (''required_check_names'', names_json (sn_names s)),
        (''checks'', JList (map check_payload (sn_checks s))), (''reviews'', JList (map review_payload (sn_reviews s))),
        (''findings'', JList (map finding_payload (sn_findings s))),
        (''finding_inventories'', JList (map (\<lambda>i. JObj (inventory_fields i @ [(''authentication_evidence_digest'', JStr (iv_proof i))]))
           (sn_inventories s))),
        (''merge_queue_enforced'', JBool (sn_queue s)), (''bypass_used'', JBool (sn_bypass s))])
    | v \<Rightarrow> v)"

definition enqueue_token_authentication_payload :: "enqueue_token \<Rightarrow> json" where
  "enqueue_token_authentication_payload t = JObj [(''snapshot_digest'', JStr (tk_snapshot t)), (''exact_input_digest'', JStr (tk_input t)),
     (''authority_digest'', JStr (tk_authority t)), (''finding_high_watermark_digest'', JStr (tk_watermark t)),
     (''merge_group_check_names'', names_json (tk_checks t)), (''issuer_id'', JStr (tk_issuer t)),
     (''issuer_authority_digest'', JStr (tk_issuer_authority t)), (''enqueued_at'', JStr (tk_enqueued t)),
     (''expires_at'', JStr (tk_expires t)), (''invalidation_boundary'', JStr (tk_boundary t)), (''enqueue_digest'', JStr (tk_digest t))]"

section \<open>Validation of a snapshot\<close>

text \<open>\<^verbatim>\<open>_time\<close>: an instant with a time zone, or a \<^verbatim>\<open>ValueError\<close>.\<close>

definition queue_time :: "queue_env \<Rightarrow> string \<Rightarrow> int option" where
  "queue_time env s = (case qe_parse env (concat (map (\<lambda>c. if c = CHR ''Z'' then ''+00:00'' else [c]) s)) of
      Some (Aware t) \<Rightarrow> Some t
    | _ \<Rightarrow> None)"

definition accepted_by :: "authenticator option \<Rightarrow> string \<Rightarrow> string \<Rightarrow> json \<Rightarrow> string \<Rightarrow> bool" where
  "accepted_by authenticator identity authority payload proof' = (case authenticator of
      None \<Rightarrow> False
    | Some f \<Rightarrow> f identity authority payload proof')"

definition finding_authenticated :: "queue_env \<Rightarrow> queue_finding \<Rightarrow> bool" where
  "finding_authenticated env f \<longleftrightarrow> (let trusted = ev (qe_sources env) (qf_source f) in
     qf_source f \<noteq> [] \<and> trusted \<noteq> [] \<and> qf_authority f = trusted \<and> is_digest_str (qf_proof f)
     \<and> accepted_by (qe_finding env) (qf_source f) trusted (finding_authentication_payload f) (qf_proof f))"

definition finding_resolved :: "queue_env \<Rightarrow> queue_finding \<Rightarrow> bool" where
  "finding_resolved env f \<longleftrightarrow> (let trusted = ev (qe_authorities env) (qf_resolver f) in
     qf_disposition f \<in> {''RESOLVED'', ''REJECTED_WITH_EVIDENCE''} \<and> is_digest_str (qf_resolution f) \<and> qf_resolver f \<noteq> []
     \<and> trusted \<noteq> [] \<and> qf_resolver_authority f = trusted \<and> is_digest_str (qf_resolution_proof f)
     \<and> accepted_by (qe_resolution env) (qf_resolver f) trusted (finding_resolution_authentication_payload f) (qf_resolution_proof f))"

definition finding_blocks :: "queue_env \<Rightarrow> queue_finding \<Rightarrow> bool" where
  "finding_blocks env f \<longleftrightarrow> qf_credible f \<and> qf_blocking f \<and> is_digest_str (qf_authority f) \<and> is_digest_str (qf_proof f)
     \<and> qe_upper env (qf_severity f) \<in> {''CRITICAL'', ''HIGH'', ''MEDIUM''} \<and> \<not> finding_resolved env f"

definition because :: "bool \<Rightarrow> string \<Rightarrow> string list" where
  "because b reason = (if b then [reason] else [])"

text \<open>\<^verbatim>\<open>{x.name: x for x in xs}.get(name)\<close>: the last one counts.\<close>

definition last_named :: "('a \<Rightarrow> string) \<Rightarrow> 'a list \<Rightarrow> string \<Rightarrow> 'a option" where
  "last_named name xs k = List.find (\<lambda>x. name x = k) (rev xs)"

definition snapshot_digests :: "merge_snapshot \<Rightarrow> string list" where
  "snapshot_digests s = [sn_tree s, sn_rules s, sn_architecture s, sn_toolchain s, sn_environment s, sn_security s, sn_verification s,
     sn_evidence s, sn_authority s, sn_watermark s]"

definition content_reasons :: "governed_policy \<Rightarrow> merge_snapshot \<Rightarrow> string list" where
  "content_reasons p s =
     because (\<not> is_git_sha (sn_head s) \<or> \<not> is_git_sha (sn_base s)) ''merge snapshot has a malformed head or protected-base SHA''
     @ because (\<not> list_all is_digest_str (snapshot_digests s)) ''merge snapshot has a malformed content or policy digest''
     @ because (sn_rules s \<noteq> gm_rules p) ''snapshot repository rules differ from the governed merge policy''
     @ because (sn_names s \<noteq> gm_checks p) ''snapshot required checks differ from the governed merge policy''
     @ because (\<not> sn_queue s) ''native merge queue or equivalent CAS gate is unavailable''
     @ because (sn_bypass s) ''merge bypass was used''
     @ because (sn_pending s \<noteq> 0) ''finding normalization is incomplete''"

definition expected_digests :: "runtime \<Rightarrow> merge_snapshot \<Rightarrow> string \<Rightarrow> string list" where
  "expected_digests rt s source = sort (map (\<lambda>f. canonical_digest rt (finding_authentication_payload f))
     (filter (\<lambda>f. qf_source f = source \<and> qf_subject f = sn_head s) (sn_findings s)))"

text \<open>The window in which an authenticated inventory of a source is fresh.\<close>

definition inventory_fresh ::
  "runtime \<Rightarrow> queue_env \<Rightarrow> merge_snapshot \<Rightarrow> string \<Rightarrow> string \<Rightarrow> string \<Rightarrow> string \<Rightarrow> finding_inventory option \<Rightarrow> (int \<times> int) option" where
  "inventory_fresh rt env s boundary as_of source authority i = (case i of
      None \<Rightarrow> None
    | Some i \<Rightarrow> (case (queue_time env boundary, queue_time env as_of, queue_time env (iv_observed i), queue_time env (iv_expires i)) of
          (Some b, Some t, Some observed, Some expires) \<Rightarrow>
            if iv_subject i = sn_head s \<and> iv_digests i = expected_digests rt s source \<and> iv_watermark i = sn_watermark s
               \<and> iv_authority i = authority \<and> is_digest_str (iv_watermark i) \<and> is_digest_str (iv_proof i)
               \<and> b < observed \<and> observed \<le> t \<and> t \<le> expires \<and> expires - observed \<le> five_minutes
               \<and> accepted_by (qe_inventory env) source authority (finding_inventory_authentication_payload i) (iv_proof i)
            then Some (observed, expires) else None
        | _ \<Rightarrow> None))"

definition stale_inventory :: "string \<Rightarrow> string" where
  "stale_inventory source = ''finding inventory for '' @ source @ '' is incomplete, stale, or unauthenticated''"

definition inventory_reasons :: "runtime \<Rightarrow> queue_env \<Rightarrow> merge_snapshot \<Rightarrow> string \<Rightarrow> string \<Rightarrow> string list" where
  "inventory_reasons rt env s boundary as_of =
     (let names = remdups (map iv_source (sn_inventories s));
          windows = map (\<lambda>(source, authority). (source,
            inventory_fresh rt env s boundary as_of source authority (last_named iv_source (sn_inventories s) source))) (qe_sources env) in
      because (qe_sources env = [] \<or> length names \<noteq> length (sn_inventories s) \<or> set names \<noteq> set (map fst (qe_sources env)))
        ''finding inventory source coverage is incomplete''
      @ map (\<lambda>(source, _). stale_inventory source) (filter (\<lambda>(_, w). w = None) windows)
      @ (case qe_clock env of
          Some (Aware now) \<Rightarrow> map (\<lambda>(source, _). stale_inventory source)
            (filter (\<lambda>(_, w). case w of None \<Rightarrow> False | Some (observed, expires) \<Rightarrow> \<not> (observed \<le> now \<and> now \<le> expires)) windows)
        | _ \<Rightarrow> [''trusted decision clock is unavailable'']))"

definition formal :: "merge_snapshot \<Rightarrow> string \<Rightarrow> formal_review \<Rightarrow> bool" where
  "formal s state r \<longleftrightarrow> fv_id r \<noteq> [] \<and> fv_actor r \<noteq> [] \<and> fv_eligible r \<and> fv_subject r = sn_head s \<and> fv_state r = state"

definition finding_reasons :: "queue_env \<Rightarrow> merge_snapshot \<Rightarrow> string list" where
  "finding_reasons env s =
     because (\<not> list_all (finding_authenticated env) (sn_findings s)) ''finding source attestation is not independently authenticated''
     @ because (list_ex (\<lambda>f. finding_authenticated env f \<and> qf_subject f = sn_head s \<and> finding_blocks env f) (sn_findings s))
         ''an exact-subject blocking finding is unresolved''
     @ because (list_ex (formal s ''CHANGES_REQUESTED'') (sn_reviews s)) ''formal changes are requested for the exact head''"

text \<open>The approvals that count; the times of the others are not looked at.\<close>

fun fresh_approvals :: "queue_env \<Rightarrow> merge_snapshot \<Rightarrow> int \<Rightarrow> string \<Rightarrow> formal_review list \<Rightarrow> queue_error + formal_review list" where
  "fresh_approvals env s boundary as_of [] = Inr []"
| "fresh_approvals env s boundary as_of (r # rs) =
     (if \<not> formal s ''APPROVED'' r then fresh_approvals env s boundary as_of rs
      else (case queue_time env (fv_submitted r) of
          None \<Rightarrow> Inl Time_fault
        | Some t \<Rightarrow> if t \<le> boundary then fresh_approvals env s boundary as_of rs
            else (case queue_time env as_of of
                None \<Rightarrow> Inl Time_fault
              | Some now \<Rightarrow> if t \<le> now then bindr (fresh_approvals env s boundary as_of rs) (\<lambda>xs. Inr (r # xs))
                  else fresh_approvals env s boundary as_of rs)))"

record check_window =
  cw_now :: int
  cw_timeout :: int
  cw_linearizing :: bool
  cw_digest :: string
  cw_enqueued :: string

definition group_statuses :: "bool \<Rightarrow> string list" where
  "group_statuses linearizing = (if linearizing then [''SUCCESS''] else [''PENDING'', ''IN_PROGRESS'', ''SUCCESS''])"

definition group_reasons :: "queue_env \<Rightarrow> check_window \<Rightarrow> required_check \<Rightarrow> int \<Rightarrow> queue_error + string list" where
  "group_reasons env w c observed =
     (let name = rk_name c;
          rest = because (rk_status c \<notin> set (group_statuses (cw_linearizing w))) (''merge-group check '' @ name @ '' ended as '' @ rk_status c)
            @ because (cw_now w - observed > cw_timeout w * 1000000) (''merge-group check '' @ name @ '' exceeded its freshness window'') in
      if \<not> cw_linearizing w then Inr rest
      else (case queue_time env (cw_enqueued w) of
          None \<Rightarrow> Inl Time_fault
        | Some enqueued \<Rightarrow> Inr (because (rk_enqueue c \<noteq> cw_digest w) (''merge-group check '' @ name @ '' is from another enqueue'')
            @ because (observed < enqueued) (''merge-group check '' @ name @ '' predates its authenticated enqueue'') @ rest)))"

definition check_reasons ::
  "runtime \<Rightarrow> queue_env \<Rightarrow> merge_snapshot \<Rightarrow> check_window \<Rightarrow> string \<Rightarrow> queue_error + string list" where
  "check_reasons rt env s w name = (case last_named rk_name (sn_checks s) name of
      None \<Rightarrow> Inr [''required check '' @ name @ '' is missing'']
    | Some c \<Rightarrow>
        if rk_event c \<notin> {''pull_request'', ''merge_group''}
        then Inr [''required check '' @ name @ '' has unsupported event '' @ rt_repr rt (JStr (rk_event c))]
        else (let bound = because (rk_subject c \<noteq> sn_head s) (''required check '' @ name @ '' is bound to the wrong subject'')
                @ because (rk_input c \<noteq> exact_input_digest rt s) (''required check '' @ name @ '' has stale policy/toolchain inputs'') in
          (case queue_time env (rk_observed c) of
             None \<Rightarrow> Inr (bound @ [''required check '' @ name @ '' has a malformed observation time''])
           | Some observed \<Rightarrow>
               bindr (if rk_event c = ''merge_group'' then group_reasons env w c observed
                 else Inr (because (rk_status c \<noteq> ''SUCCESS'') (''required check '' @ name @ '' is '' @ rk_status c)))
                 (\<lambda>rest. Inr (bound @ because (observed > cw_now w) (''required check '' @ name @ '' is from the future'') @ rest)))))"

fun all_check_reasons :: "runtime \<Rightarrow> queue_env \<Rightarrow> merge_snapshot \<Rightarrow> check_window \<Rightarrow> string list \<Rightarrow> queue_error + string list" where
  "all_check_reasons rt env s w [] = Inr []"
| "all_check_reasons rt env s w (name # names) =
     bindr (check_reasons rt env s w name) (\<lambda>xs. bindr (all_check_reasons rt env s w names) (\<lambda>ys. Inr (xs @ ys)))"

definition validate_snapshot ::
  "runtime \<Rightarrow> queue_env \<Rightarrow> governed_policy \<Rightarrow> merge_snapshot \<Rightarrow> string \<Rightarrow> string \<Rightarrow> int \<Rightarrow> bool \<Rightarrow> string \<Rightarrow> string \<Rightarrow> queue_error + string list" where
  "validate_snapshot rt env p s boundary as_of timeout linearizing digest enqueued =
     (case queue_time env boundary of
        None \<Rightarrow> Inl Time_fault
      | Some b \<Rightarrow> bindr (fresh_approvals env s b as_of (sn_reviews s)) (\<lambda>approvals.
          (case queue_time env as_of of
             None \<Rightarrow> Inl Time_fault
           | Some now \<Rightarrow>
               bindr (all_check_reasons rt env s \<lparr>cw_now = now, cw_timeout = timeout, cw_linearizing = linearizing, cw_digest = digest,
                   cw_enqueued = enqueued\<rparr> (gm_checks p)) (\<lambda>checks.
               Inr (content_reasons p s @ inventory_reasons rt env s boundary as_of @ finding_reasons env s
                 @ because (approvals = []) ''no fresh eligible formal approval after the invalidation boundary''
                 @ because (\<not> distinct (map rk_name (sn_checks s))) ''required check names are duplicated'' @ checks)))))"

section \<open>Enqueue and linearize\<close>

definition group_names :: "merge_snapshot \<Rightarrow> string list" where
  "group_names s = sort (map rk_name (filter (\<lambda>c. rk_event c = ''merge_group'') (sn_checks s)))"

definition enqueue ::
  "runtime \<Rightarrow> queue_env \<Rightarrow> governed_policy \<Rightarrow> merge_snapshot \<Rightarrow> string \<Rightarrow> string \<Rightarrow> (string \<Rightarrow> string \<Rightarrow> json \<Rightarrow> string)
     \<Rightarrow> string \<Rightarrow> string \<Rightarrow> int \<Rightarrow> queue_error + enqueue_token" where
  "enqueue rt env p s issuer authority signer enqueued boundary timeout =
     (if timeout \<le> 0 then Inl (Queue_fault ''merge queue timeout must be positive'')
      else bindr (validate_snapshot rt env p s boundary enqueued timeout False [] []) (\<lambda>reasons.
        if reasons \<noteq> [] then Inl (Queue_fault (join ''; '' reasons))
        else let sealed = canonical_digest rt (snapshot_payload s); expires = qe_shift env enqueued timeout;
            token = \<lparr>tk_snapshot = sealed, tk_input = exact_input_digest rt s, tk_authority = sn_authority s,
              tk_watermark = sn_watermark s, tk_checks = group_names s, tk_issuer = issuer, tk_issuer_authority = authority,
              tk_proof = [], tk_enqueued = enqueued, tk_expires = expires, tk_boundary = boundary,
              tk_digest = canonical_digest rt (JObj [(''snapshot_digest'', JStr sealed), (''exact_input_digest'', JStr (exact_input_digest rt s)),
                (''merge_group_check_names'', names_json (group_names s)), (''enqueued_at'', JStr enqueued), (''expires_at'', JStr expires),
                (''invalidation_boundary'', JStr boundary)])\<rparr> in
          if issuer = [] \<or> \<not> is_digest_str authority
          then Inl (Queue_fault ''enqueue-token issuer identity or authority is malformed'')
          else let proof' = signer issuer authority (enqueue_token_authentication_payload token) in
            if \<not> is_digest_str proof' then Inl (Queue_fault ''enqueue-token authentication evidence is malformed'')
            else Inr (token\<lparr>tk_proof := proof'\<rparr>)))"

definition token_authentic :: "evidence \<Rightarrow> authenticator \<Rightarrow> enqueue_token \<Rightarrow> bool" where
  "token_authentic issuers authenticator t \<longleftrightarrow> (let trusted = ev issuers (tk_issuer t) in
     trusted \<noteq> [] \<and> trusted = tk_issuer_authority t \<and> is_digest_str (tk_proof t)
     \<and> authenticator (tk_issuer t) trusted (enqueue_token_authentication_payload t) (tk_proof t))"

text \<open>\<^verbatim>\<open>int(delta.total_seconds())\<close> rounds towards zero.\<close>

definition whole_seconds :: "int \<Rightarrow> int" where
  "whole_seconds d = (if d < 0 then - ((- d) div 1000000) else d div 1000000)"

definition current_reasons :: "runtime \<Rightarrow> queue_env \<Rightarrow> governed_policy \<Rightarrow> enqueue_token \<Rightarrow> merge_snapshot \<Rightarrow> string \<Rightarrow> string list" where
  "current_reasons rt env p t s merged = (case (queue_time env (tk_expires t), queue_time env (tk_enqueued t)) of
      (Some expires, Some enqueued) \<Rightarrow>
        (let timeout = whole_seconds (expires - enqueued) in
         if timeout \<le> 0 then [''merge snapshot contains a malformed timestamp'']
         else (case validate_snapshot rt env p s (tk_boundary t) merged timeout True (tk_digest t) (tk_enqueued t) of
             Inl _ \<Rightarrow> [''merge snapshot contains a malformed timestamp'']
           | Inr reasons \<Rightarrow> reasons))
    | _ \<Rightarrow> [''merge snapshot contains a malformed timestamp''])"

definition window_reasons :: "queue_env \<Rightarrow> enqueue_token \<Rightarrow> string \<Rightarrow> string list" where
  "window_reasons env t merged = (case queue_time env merged of
      None \<Rightarrow> [''enqueue token contains a malformed timestamp'']
    | Some m \<Rightarrow> (case queue_time env (tk_enqueued t) of
        None \<Rightarrow> [''enqueue token contains a malformed timestamp'']
      | Some enqueued \<Rightarrow> if m < enqueued then [''merge linearization predates the authenticated enqueue token'']
          else (case queue_time env (tk_expires t) of
              None \<Rightarrow> [''enqueue token contains a malformed timestamp'']
            | Some expires \<Rightarrow> because (m > expires) ''authenticated enqueue token exceeded its freshness window'')))"

definition linearize_merge ::
  "runtime \<Rightarrow> queue_env \<Rightarrow> governed_policy \<Rightarrow> evidence \<Rightarrow> authenticator \<Rightarrow> enqueue_token \<Rightarrow> merge_snapshot \<Rightarrow> string \<Rightarrow> string \<Rightarrow> string
     \<Rightarrow> bool \<Rightarrow> queue_decision" where
  "linearize_merge rt env p issuers authenticator t s merge_sha merge_tree merged authorized =
     (let reasons = current_reasons rt env p t s merged
        @ because (\<not> token_authentic issuers authenticator t) ''enqueue token authentication or trusted state lookup failed''
        @ window_reasons env t merged
        @ because (exact_input_digest rt s \<noteq> tk_input t) ''reviewed head/base/tree or repository policy changed after enqueue''
        @ because (sn_authority s \<noteq> tk_authority t) ''external contract or publisher authority changed after enqueue''
        @ because (sn_watermark s \<noteq> tk_watermark t) ''finding high-watermark changed after enqueue''
        @ because (group_names s \<noteq> tk_checks t) ''merge-group check identity changed after enqueue''
        @ because (\<not> authorized) ''native gate integrity or authorization failed''
        @ because (\<not> is_git_sha merge_sha) ''observed merge SHA is absent or malformed''
        @ because (merge_tree \<noteq> sn_tree s) ''observed merge tree differs from the reviewed prospective tree'' in
      if reasons \<noteq> [] then \<lparr>qd_admitted = False, qd_outcome = ''MERGE_INCIDENT'', qd_rollout = False, qd_reasons = reasons, qd_incident = True\<rparr>
      else \<lparr>qd_admitted = True, qd_outcome = ''PR_MERGED'', qd_rollout = True, qd_reasons = [], qd_incident = False\<rparr>)"

section \<open>Races\<close>

datatype race_kind = AUTHORITY_REVOKED | BLOCKING_FINDING

text \<open>An optional time: an empty text counts as none.\<close>

definition optional_time :: "queue_env \<Rightarrow> string option \<Rightarrow> queue_error + int option" where
  "optional_time env s = (case s of
      None \<Rightarrow> Inr None
    | Some s \<Rightarrow> if s = [] then Inr None else (case queue_time env s of None \<Rightarrow> Inl Time_fault | Some t \<Rightarrow> Inr (Some t)))"

definition race_retained :: "race_kind \<Rightarrow> bool \<Rightarrow> queue_decision" where
  "race_retained kind before = \<lparr>qd_admitted = True,
     qd_outcome = (if kind = AUTHORITY_REVOKED then ''PR_MERGED_PRODUCT_INPUT_BLOCKED'' else ''PR_MERGED_REMEDIATION_REQUIRED''),
     qd_rollout = False,
     qd_reasons = [''external event was observed '' @ (if before then ''before'' else ''after'')
       @ '' native merge; integration is retained, rollout forbidden''], qd_incident = False\<rparr>"

definition race_dequeued :: "race_kind \<Rightarrow> queue_decision" where
  "race_dequeued kind = \<lparr>qd_admitted = False,
     qd_outcome = (if kind = AUTHORITY_REVOKED then ''PRODUCT_INPUT_REQUIRED'' else ''REVIEW_FAILED''),
     qd_rollout = False, qd_reasons = [''native admission was dequeued''], qd_incident = False\<rparr>"

definition resolve_external_race ::
  "queue_env \<Rightarrow> race_kind \<Rightarrow> string \<Rightarrow> string option \<Rightarrow> string option \<Rightarrow> queue_error + queue_decision" where
  "resolve_external_race env kind happened merged dequeued = (case queue_time env happened of
      None \<Rightarrow> Inl Time_fault
    | Some event \<Rightarrow> bindr (optional_time env merged) (\<lambda>m. bindr (optional_time env dequeued) (\<lambda>q.
        if (case q of Some q \<Rightarrow> q < event | None \<Rightarrow> False)
        then Inl (Queue_fault ''dequeue cannot complete before its triggering external event'')
        else (case m of
            None \<Rightarrow> Inr (race_dequeued kind)
          | Some m \<Rightarrow> if (case q of Some q \<Rightarrow> q \<le> m | None \<Rightarrow> False) then Inr (race_dequeued kind)
              else Inr (race_retained kind (event \<le> m))))))"

section \<open>What a passing snapshot is\<close>

lemma because_empty [simp]: "because b reason = [] \<longleftrightarrow> \<not> b"
  by (simp add: because_def)

lemma last_named_Some: "last_named name xs k = Some x \<Longrightarrow> x \<in> set xs \<and> name x = k"
  by (auto simp: last_named_def find_Some_iff) (metis length_rev nth_mem set_rev)

definition group_passes :: "queue_env \<Rightarrow> check_window \<Rightarrow> required_check \<Rightarrow> int \<Rightarrow> bool" where
  "group_passes env w c observed \<longleftrightarrow> rk_status c \<in> set (group_statuses (cw_linearizing w)) \<and> cw_now w - observed \<le> cw_timeout w * 1000000
     \<and> (cw_linearizing w \<longrightarrow> rk_enqueue c = cw_digest w \<and> (\<exists>t. queue_time env (cw_enqueued w) = Some t \<and> t \<le> observed))"

definition check_passes :: "runtime \<Rightarrow> queue_env \<Rightarrow> merge_snapshot \<Rightarrow> check_window \<Rightarrow> required_check \<Rightarrow> bool" where
  "check_passes rt env s w c \<longleftrightarrow> rk_event c \<in> {''pull_request'', ''merge_group''} \<and> rk_subject c = sn_head s
     \<and> rk_input c = exact_input_digest rt s
     \<and> (\<exists>observed. queue_time env (rk_observed c) = Some observed \<and> observed \<le> cw_now w
          \<and> (if rk_event c = ''merge_group'' then group_passes env w c observed else rk_status c = ''SUCCESS''))"

lemma group_reasons_none: "group_reasons env w c observed = Inr [] \<longleftrightarrow> group_passes env w c observed"
  by (auto simp: group_reasons_def group_passes_def Let_def not_less split: option.splits if_splits)

lemma check_reasons_none:
  "check_reasons rt env s w name = Inr [] \<longleftrightarrow> (\<exists>c. last_named rk_name (sn_checks s) name = Some c \<and> check_passes rt env s w c)"
proof (cases "last_named rk_name (sn_checks s) name")
  case (Some c)
  show ?thesis
  proof (cases "rk_event c = ''merge_group''")
    case True
    with Some show ?thesis
      by (auto simp: check_reasons_def check_passes_def Let_def bindr_def not_less group_reasons_none [symmetric] split: option.splits sum.splits)
  next
    case False
    with Some show ?thesis by (auto simp: check_reasons_def check_passes_def Let_def not_less split: option.splits)
  qed
qed (simp add: check_reasons_def)

lemma all_check_reasons_none:
  "all_check_reasons rt env s w names = Inr [] \<longleftrightarrow> (\<forall>name \<in> set names. check_reasons rt env s w name = Inr [])"
  by (induction names) (auto simp: bindr_def split: sum.splits)

text \<open>A review that approves the exact head after the boundary.\<close>

definition approves :: "queue_env \<Rightarrow> merge_snapshot \<Rightarrow> string \<Rightarrow> string \<Rightarrow> formal_review \<Rightarrow> bool" where
  "approves env s boundary as_of r \<longleftrightarrow> formal s ''APPROVED'' r \<and> (\<exists>b t now. queue_time env boundary = Some b
     \<and> queue_time env (fv_submitted r) = Some t \<and> queue_time env as_of = Some now \<and> b < t \<and> t \<le> now)"

lemma fresh_approvals_approve:
  "fresh_approvals env s b as_of rs = Inr xs \<Longrightarrow> queue_time env boundary = Some b \<Longrightarrow> r \<in> set xs
     \<Longrightarrow> r \<in> set rs \<and> approves env s boundary as_of r"
  by (induction rs arbitrary: xs) (auto simp: approves_def split: if_splits option.splits)

text \<open>Everything the validation asks for.\<close>

definition passes :: "runtime \<Rightarrow> queue_env \<Rightarrow> governed_policy \<Rightarrow> merge_snapshot \<Rightarrow> string \<Rightarrow> string \<Rightarrow> int \<Rightarrow> bool \<Rightarrow> string \<Rightarrow> string \<Rightarrow> bool" where
  "passes rt env p s boundary as_of timeout linearizing digest enqueued \<longleftrightarrow>
     content_reasons p s = [] \<and> inventory_reasons rt env s boundary as_of = [] \<and> finding_reasons env s = []
     \<and> distinct (map rk_name (sn_checks s))
     \<and> (\<exists>b approvals. queue_time env boundary = Some b \<and> fresh_approvals env s b as_of (sn_reviews s) = Inr approvals \<and> approvals \<noteq> [])
     \<and> (\<exists>now. queue_time env as_of = Some now \<and> (\<forall>name \<in> set (gm_checks p). \<exists>c. last_named rk_name (sn_checks s) name = Some c
          \<and> check_passes rt env s \<lparr>cw_now = now, cw_timeout = timeout, cw_linearizing = linearizing, cw_digest = digest,
              cw_enqueued = enqueued\<rparr> c))"

lemma validate_snapshot_none:
  "validate_snapshot rt env p s boundary as_of timeout linearizing digest enqueued = Inr []
     \<longleftrightarrow> passes rt env p s boundary as_of timeout linearizing digest enqueued"
  unfolding check_reasons_none [symmetric] passes_def all_check_reasons_none [symmetric]
  by (auto simp: validate_snapshot_def bindr_def split: option.splits sum.splits)

lemma finding_reasons_none:
  "finding_reasons env s = [] \<longleftrightarrow> (\<forall>f \<in> set (sn_findings s). finding_authenticated env f \<and> (qf_subject f = sn_head s \<longrightarrow> \<not> finding_blocks env f))
     \<and> (\<forall>r \<in> set (sn_reviews s). \<not> formal s ''CHANGES_REQUESTED'' r)"
  by (auto simp: finding_reasons_def list_all_iff list_ex_iff)

text \<open>Each trusted source has an inventory of exactly the findings on the head, fresh also by the trusted clock.\<close>

definition inventoried :: "runtime \<Rightarrow> queue_env \<Rightarrow> merge_snapshot \<Rightarrow> string \<Rightarrow> string \<Rightarrow> bool" where
  "inventoried rt env s boundary as_of \<longleftrightarrow> qe_sources env \<noteq> [] \<and> (\<exists>now. qe_clock env = Some (Aware now)
     \<and> (\<forall>(source, authority) \<in> set (qe_sources env). \<exists>i \<in> set (sn_inventories s). \<exists>observed expires.
          iv_source i = source \<and> iv_digests i = expected_digests rt s source
          \<and> inventory_fresh rt env s boundary as_of source authority (Some i) = Some (observed, expires) \<and> observed \<le> now \<and> now \<le> expires))"

lemma inventory_reasons_none:
  assumes "inventory_reasons rt env s boundary as_of = []"
  shows "inventoried rt env s boundary as_of"
proof -
  define fresh where "fresh = (\<lambda>source authority.
    inventory_fresh rt env s boundary as_of source authority (last_named iv_source (sn_inventories s) source))"
  from assms obtain now where now: "qe_clock env = Some (Aware now)"
    by (auto simp: inventory_reasons_def Let_def split: option.splits stamp.splits)
  have all: "fresh source authority \<noteq> None" "\<And>observed expires. fresh source authority = Some (observed, expires) \<Longrightarrow> observed \<le> now \<and> now \<le> expires"
    if "(source, authority) \<in> set (qe_sources env)" for source authority
    using assms that by (fastforce simp: inventory_reasons_def Let_def now filter_empty_conv fresh_def)+
  have "\<exists>i \<in> set (sn_inventories s). \<exists>observed expires. iv_source i = source \<and> iv_digests i = expected_digests rt s source
      \<and> inventory_fresh rt env s boundary as_of source authority (Some i) = Some (observed, expires) \<and> observed \<le> now \<and> now \<le> expires"
    if mem: "(source, authority) \<in> set (qe_sources env)" for source authority
  proof -
    from all(1) [OF mem] obtain i where i: "last_named iv_source (sn_inventories s) source = Some i"
      by (cases "last_named iv_source (sn_inventories s) source") (simp_all add: fresh_def inventory_fresh_def)
    from all(1) [OF mem] obtain observed expires where w: "fresh source authority = Some (observed, expires)" by auto
    then have "iv_digests i = expected_digests rt s source"
      by (simp add: fresh_def i inventory_fresh_def split: option.splits if_splits)
    with last_named_Some [OF i] w all(2) [OF mem w] i show ?thesis by (auto simp: fresh_def)
  qed
  with now assms show ?thesis by (auto simp: inventoried_def inventory_reasons_def Let_def)
qed

section \<open>Only what was reviewed is merged\<close>

lemma linearize_admitted:
  "qd_admitted (linearize_merge rt env p issuers authenticator t s sha tree merged authorized) \<longleftrightarrow>
     current_reasons rt env p t s merged = [] \<and> token_authentic issuers authenticator t \<and> window_reasons env t merged = []
     \<and> exact_input_digest rt s = tk_input t \<and> sn_authority s = tk_authority t \<and> sn_watermark s = tk_watermark t
     \<and> group_names s = tk_checks t \<and> authorized \<and> is_git_sha sha \<and> tree = sn_tree s"
  unfolding linearize_merge_def Let_def by simp

lemma current_reasons_none:
  "current_reasons rt env p t s merged = [] \<longleftrightarrow> (\<exists>expires enqueued. queue_time env (tk_expires t) = Some expires
     \<and> queue_time env (tk_enqueued t) = Some enqueued \<and> 0 < whole_seconds (expires - enqueued)
     \<and> passes rt env p s (tk_boundary t) merged (whole_seconds (expires - enqueued)) True (tk_digest t) (tk_enqueued t))"
  unfolding validate_snapshot_none [symmetric]
  by (auto simp: current_reasons_def Let_def split: option.splits sum.splits)

lemma window_reasons_none:
  "window_reasons env t merged = [] \<longleftrightarrow> (\<exists>m enqueued expires. queue_time env merged = Some m \<and> queue_time env (tk_enqueued t) = Some enqueued
     \<and> queue_time env (tk_expires t) = Some expires \<and> enqueued \<le> m \<and> m \<le> expires)"
  by (auto simp: window_reasons_def not_less split: option.splits)

lemma enqueue_issued:
  assumes "enqueue rt env p s issuer authority signer enqueued boundary timeout = Inr t"
  shows "0 < timeout" "passes rt env p s boundary enqueued timeout False [] []" "tk_input t = exact_input_digest rt s"
    "tk_authority t = sn_authority s" "tk_watermark t = sn_watermark s" "tk_checks t = group_names s" "tk_issuer t = issuer"
    "tk_issuer_authority t = authority" "tk_enqueued t = enqueued" "tk_expires t = qe_shift env enqueued timeout"
    "tk_boundary t = boundary" "is_digest_str authority" "is_digest_str (tk_proof t)"
    "tk_proof t = signer issuer authority (enqueue_token_authentication_payload t)"
proof -
  from assms obtain reasons where v: "validate_snapshot rt env p s boundary enqueued timeout False [] [] = Inr reasons"
    by (auto simp: enqueue_def bindr_def split: if_splits sum.splits)
  with assms have "reasons = []" by (auto simp: enqueue_def split: if_splits)
  with v show "passes rt env p s boundary enqueued timeout False [] []" by (simp add: validate_snapshot_none)
  from assms v show "0 < timeout" "tk_input t = exact_input_digest rt s"
    "tk_authority t = sn_authority s" "tk_watermark t = sn_watermark s" "tk_checks t = group_names s" "tk_issuer t = issuer"
    "tk_issuer_authority t = authority" "tk_enqueued t = enqueued" "tk_expires t = qe_shift env enqueued timeout"
    "tk_boundary t = boundary" "is_digest_str authority" "is_digest_str (tk_proof t)"
    "tk_proof t = signer issuer authority (enqueue_token_authentication_payload t)"
    by (auto simp: enqueue_def Let_def enqueue_token_authentication_payload_def split: if_splits)
qed

text \<open>The content that reviews and checks are about.\<close>

definition reviewed_content :: "merge_snapshot \<Rightarrow> string list" where
  "reviewed_content s = [sn_head s, sn_base s, sn_tree s, sn_rules s, sn_architecture s, sn_toolchain s, sn_environment s, sn_security s,
     sn_verification s, sn_evidence s]"

lemma exact_input_content: "canon (exact_input s) = canon (exact_input s') \<longleftrightarrow> reviewed_content s = reviewed_content s'"
  by (auto simp: exact_input_def reviewed_content_def less_list_code)

text \<open>
  C8. A merge is admitted only for what was enqueued: the token is authentic and in time; head,
  base, merge tree, policies, authority and finding watermark are those of the enqueued snapshot,
  and the merged tree is the reviewed one. At the time of the merge the exact head has a fresh
  eligible approval and no request for changes, every governed check has succeeded on it, every
  finding is authenticated and none on the head blocks, and each trusted source has attested
  exactly those findings within the last five minutes.
\<close>

theorem merged_is_reviewed:
  assumes "enqueue rt env p s issuer authority signer enqueued boundary timeout = Inr t"
    and "collision_free (canonical_digest rt) {exact_input s, exact_input s'}"
    and "qd_admitted (linearize_merge rt env' p' issuers authenticator t s' sha tree merged authorized)"
  shows "reviewed_content s' = reviewed_content s \<and> sn_authority s' = sn_authority s \<and> sn_watermark s' = sn_watermark s
    \<and> tree = sn_tree s \<and> is_git_sha sha \<and> authorized \<and> token_authentic issuers authenticator t
    \<and> (\<exists>m a b. queue_time env' merged = Some m \<and> queue_time env' enqueued = Some a
         \<and> queue_time env' (qe_shift env enqueued timeout) = Some b \<and> a \<le> m \<and> m \<le> b)
    \<and> (\<exists>r \<in> set (sn_reviews s'). approves env' s' boundary merged r) \<and> \<not> list_ex (formal s' ''CHANGES_REQUESTED'') (sn_reviews s')
    \<and> list_all (\<lambda>name. \<exists>c \<in> set (sn_checks s'). rk_name c = name \<and> rk_subject c = sn_head s \<and> rk_input c = exact_input_digest rt s
         \<and> rk_status c = ''SUCCESS'' \<and> (rk_event c = ''merge_group'' \<longrightarrow> rk_enqueue c = tk_digest t)) (gm_checks p')
    \<and> list_all (\<lambda>f. finding_authenticated env' f \<and> \<not> (qf_subject f = sn_head s \<and> finding_blocks env' f)) (sn_findings s')
    \<and> inventoried rt env' s' boundary merged"
proof -
  note t = enqueue_issued [OF assms(1)]
  note admitted = assms(3) [unfolded linearize_admitted]
  then have digest: "exact_input_digest rt s' = exact_input_digest rt s" by (simp add: t)
  then have content: "reviewed_content s' = reviewed_content s"
    using collision_freeD [OF assms(2), of "exact_input s'" "exact_input s"] exact_input_content by (simp add: exact_input_digest_def)
  then have head: "sn_head s' = sn_head s" "sn_tree s' = sn_tree s" by (simp_all add: reviewed_content_def)
  from admitted obtain k where pass: "passes rt env' p' s' boundary merged k True (tk_digest t) enqueued"
    by (auto simp: current_reasons_none t)
  have approved: "\<exists>r \<in> set (sn_reviews s'). approves env' s' boundary merged r"
    using pass fresh_approvals_approve unfolding passes_def by (metis list.set_intros(1) neq_Nil_conv)
  have "\<exists>c \<in> set (sn_checks s'). rk_name c = name \<and> rk_subject c = sn_head s \<and> rk_input c = exact_input_digest rt s
         \<and> rk_status c = ''SUCCESS'' \<and> (rk_event c = ''merge_group'' \<longrightarrow> rk_enqueue c = tk_digest t)"
    if mem: "name \<in> set (gm_checks p')" for name
  proof -
    from pass mem obtain now c where c: "last_named rk_name (sn_checks s') name = Some c"
      "check_passes rt env' s' \<lparr>cw_now = now, cw_timeout = k, cw_linearizing = True, cw_digest = tk_digest t, cw_enqueued = enqueued\<rparr> c"
      unfolding passes_def by blast
    with last_named_Some [OF c(1)] head digest show ?thesis
      by (intro bexI [of _ c]) (auto simp: check_passes_def group_passes_def group_statuses_def split: if_splits)
  qed
  then have checks: "list_all (\<lambda>name. \<exists>c \<in> set (sn_checks s'). rk_name c = name \<and> rk_subject c = sn_head s \<and> rk_input c = exact_input_digest rt s
         \<and> rk_status c = ''SUCCESS'' \<and> (rk_event c = ''merge_group'' \<longrightarrow> rk_enqueue c = tk_digest t)) (gm_checks p')"
    by (simp add: list_all_iff)
  have findings: "list_all (\<lambda>f. finding_authenticated env' f \<and> \<not> (qf_subject f = sn_head s \<and> finding_blocks env' f)) (sn_findings s')"
      "\<not> list_ex (formal s' ''CHANGES_REQUESTED'') (sn_reviews s')"
    using pass head by (simp_all add: passes_def finding_reasons_none list_all_iff list_ex_iff)
  have window: "\<exists>m a b. queue_time env' merged = Some m \<and> queue_time env' enqueued = Some a
         \<and> queue_time env' (qe_shift env enqueued timeout) = Some b \<and> a \<le> m \<and> m \<le> b"
    using admitted by (simp add: window_reasons_none t)
  have inventory: "inventoried rt env' s' boundary merged" using pass inventory_reasons_none by (simp add: passes_def)
  show ?thesis using content head approved checks findings window inventory admitted by (simp add: t)
qed

section \<open>What is queued can be merged\<close>

lemma fresh_approvals_later:
  assumes "fresh_approvals env s b as_of rs = Inr xs" "queue_time env as_of = Some now" "queue_time env later = Some now'" "now \<le> now'"
  shows "\<exists>ys. fresh_approvals env s b later rs = Inr ys \<and> set xs \<subseteq> set ys"
  using assms(1)
proof (induction rs arbitrary: xs)
  case (Cons r rs)
  then show ?case using assms(2-4) by (fastforce split: if_splits option.splits)
qed simp

lemma check_passes_later:
  assumes "check_passes rt env s w c" "rk_event c \<noteq> ''merge_group''" "cw_now w \<le> cw_now w'"
  shows "check_passes rt env s w' c"
  using assms by (auto simp: check_passes_def)

text \<open>The snapshot at the merge: as enqueued, with inventories taken anew, on a later clock.\<close>

lemma renewed_same:
  "content_reasons p (s\<lparr>sn_inventories := is\<rparr>) = content_reasons p s" "exact_input (s\<lparr>sn_inventories := is\<rparr>) = exact_input s"
  "group_names (s\<lparr>sn_inventories := is\<rparr>) = group_names s" "formal (s\<lparr>sn_inventories := is\<rparr>) = formal s"
  "queue_time (env\<lparr>qe_clock := c\<rparr>) = queue_time env" "finding_authenticated (env\<lparr>qe_clock := c\<rparr>) = finding_authenticated env"
  "finding_blocks (env\<lparr>qe_clock := c\<rparr>) = finding_blocks env"
  by (simp_all add: content_reasons_def snapshot_digests_def exact_input_def group_names_def formal_def queue_time_def
      finding_authenticated_def finding_blocks_def finding_resolved_def fun_eq_iff)

lemma renewed_checks:
  "check_passes rt (env\<lparr>qe_clock := c\<rparr>) (s\<lparr>sn_inventories := is\<rparr>) w k = check_passes rt env s w k"
  "finding_reasons (env\<lparr>qe_clock := c\<rparr>) (s\<lparr>sn_inventories := is\<rparr>) = finding_reasons env s"
  by (simp_all add: check_passes_def group_passes_def exact_input_digest_def renewed_same finding_reasons_def)

lemma renewed_approvals:
  "fresh_approvals (env\<lparr>qe_clock := c\<rparr>) (s\<lparr>sn_inventories := is\<rparr>) b as_of rs = fresh_approvals env s b as_of rs"
  by (induction rs) (simp_all add: renewed_same split: option.split)

lemma passes_renewed:
  assumes "passes rt env p s boundary enqueued timeout False [] []"
    and time: "queue_time env enqueued = Some now" "queue_time env merged = Some now'" "now \<le> now'"
    and none: "list_all (\<lambda>k. rk_event k \<noteq> ''merge_group'') (sn_checks s)"
    and fresh: "inventory_reasons rt (env\<lparr>qe_clock := c\<rparr>) (s\<lparr>sn_inventories := is\<rparr>) boundary merged = []"
  shows "passes rt (env\<lparr>qe_clock := c\<rparr>) p (s\<lparr>sn_inventories := is\<rparr>) boundary merged timeout' True digest enqueued"
proof -
  note passed = assms(1) [unfolded passes_def]
  from passed obtain b xs where b: "queue_time env boundary = Some b" "fresh_approvals env s b enqueued (sn_reviews s) = Inr xs" "xs \<noteq> []"
    by blast
  from fresh_approvals_later [OF b(2) time] b(3) obtain ys where ys: "fresh_approvals env s b merged (sn_reviews s) = Inr ys" "ys \<noteq> []"
    by fastforce
  have "\<exists>k. last_named rk_name (sn_checks s) name = Some k \<and> check_passes rt env s \<lparr>cw_now = now', cw_timeout = timeout',
      cw_linearizing = True, cw_digest = digest, cw_enqueued = enqueued\<rparr> k" if "name \<in> set (gm_checks p)" for name
  proof -
    from passed that time(1) obtain k where k: "last_named rk_name (sn_checks s) name = Some k"
      "check_passes rt env s \<lparr>cw_now = now, cw_timeout = timeout, cw_linearizing = False, cw_digest = [], cw_enqueued = []\<rparr> k" by auto
    then have "rk_event k \<noteq> ''merge_group''" using none last_named_Some [OF k(1)] by (simp add: list_all_iff)
    with check_passes_later [OF k(2)] time(3) k(1) show ?thesis by simp
  qed
  with passed fresh b(1) ys time(2) show ?thesis by (simp add: passes_def renewed_same renewed_checks renewed_approvals)
qed

lemma queued_admitted:
  assumes "enqueue rt env p s issuer authority signer enqueued boundary timeout = Inr t"
    and "queue_time env enqueued = Some now" "queue_time env (qe_shift env enqueued timeout) = Some (now + timeout * 1000000)"
    and "queue_time env merged = Some now'" "now \<le> now'" "now' \<le> now + timeout * 1000000"
    and "list_all (\<lambda>k. rk_event k \<noteq> ''merge_group'') (sn_checks s)"
    and "inventory_reasons rt (env\<lparr>qe_clock := c\<rparr>) (s\<lparr>sn_inventories := is\<rparr>) boundary merged = []"
    and "ev issuers issuer = authority" "\<forall>payload. authenticator issuer authority payload (signer issuer authority payload)"
    and "is_git_sha sha"
  shows "qd_admitted (linearize_merge rt (env\<lparr>qe_clock := c\<rparr>) p issuers authenticator t (s\<lparr>sn_inventories := is\<rparr>) sha (sn_tree s) merged True)"
proof -
  note t = enqueue_issued [OF assms(1)]
  have seconds: "whole_seconds (now + timeout * 1000000 - now) = timeout" using t(1) by (simp add: whole_seconds_def)
  have "current_reasons rt (env\<lparr>qe_clock := c\<rparr>) p t (s\<lparr>sn_inventories := is\<rparr>) merged = []"
    unfolding current_reasons_none t renewed_same assms(2,3)
    using passes_renewed [OF t(2) assms(2,4,5,7,8)] t(1) seconds by auto
  moreover have "token_authentic issuers authenticator t"
    using assms(9) assms(10) [rule_format, of "enqueue_token_authentication_payload t"] t by (auto simp: token_authentic_def Let_def is_digest_str_def)
  moreover have "window_reasons (env\<lparr>qe_clock := c\<rparr>) t merged = []"
    unfolding window_reasons_none t renewed_same using assms(2-6) by auto
  ultimately show ?thesis unfolding linearize_admitted using assms(11) by (simp add: t exact_input_digest_def renewed_same)
qed

lemma admitted_decision:
  assumes "qd_admitted (linearize_merge rt env p issuers authenticator t s sha tree merged authorized)"
  shows "linearize_merge rt env p issuers authenticator t s sha tree merged authorized
    = \<lparr>qd_admitted = True, qd_outcome = ''PR_MERGED'', qd_rollout = True, qd_reasons = [], qd_incident = False\<rparr>"
proof -
  have "(if r \<noteq> [] then x else y) = y" if "qd_admitted (if r \<noteq> [] then x else y)" "\<not> qd_admitted x" for r :: "string list" and x y :: queue_decision
    using that by (simp split: if_splits)
  from this [OF assms [unfolded linearize_merge_def Let_def]] show ?thesis unfolding linearize_merge_def Let_def by simp
qed

text \<open>
  C9. A pull request that was enqueued is merged: with the snapshot unchanged, no merge-group
  checks outstanding, inventories renewed by the finding sources, an authenticator that accepts
  what the issuer signed and the reviewed tree as the result, the merge is admitted and rollout
  allowed at any time until the token expires.
\<close>

theorem queued_request_merges:
  assumes "enqueue rt env p s issuer authority signer enqueued boundary timeout = Inr t"
    and "queue_time env enqueued = Some now" "queue_time env (qe_shift env enqueued timeout) = Some (now + timeout * 1000000)"
    and "queue_time env merged = Some now'" "now \<le> now'" "now' \<le> now + timeout * 1000000"
    and "list_all (\<lambda>k. rk_event k \<noteq> ''merge_group'') (sn_checks s)"
    and "inventory_reasons rt (env\<lparr>qe_clock := c\<rparr>) (s\<lparr>sn_inventories := is\<rparr>) boundary merged = []"
    and "ev issuers issuer = authority" "\<forall>payload. authenticator issuer authority payload (signer issuer authority payload)"
    and "is_git_sha sha"
  shows "linearize_merge rt (env\<lparr>qe_clock := c\<rparr>) p issuers authenticator t (s\<lparr>sn_inventories := is\<rparr>) sha (sn_tree s) merged True
    = \<lparr>qd_admitted = True, qd_outcome = ''PR_MERGED'', qd_rollout = True, qd_reasons = [], qd_incident = False\<rparr>"
  by (rule admitted_decision, rule queued_admitted [OF assms(1-8)]) (use assms(9-11) in auto)

text \<open>
  A race never leads to a rollout; the integration is kept exactly when the native merge came and
  no dequeue was completed by then.
\<close>

theorem race_never_rolls_out:
  assumes "resolve_external_race env kind happened merged dequeued = Inr d"
  shows "\<not> qd_rollout d \<and> (qd_admitted d \<longleftrightarrow> (\<exists>m. optional_time env merged = Inr (Some m)
    \<and> (\<forall>q. optional_time env dequeued = Inr (Some q) \<longrightarrow> m < q)))"
  using assms by (auto simp: resolve_external_race_def bindr_def race_dequeued_def race_retained_def not_le
      split: option.splits sum.splits if_splits)

section \<open>An example\<close>

definition some_digest :: string where
  "some_digest = ''sha256:'' @ replicate 64 CHR ''0''"

definition some_sha :: string where
  "some_sha = replicate 40 CHR ''0''"

definition queue_runtime :: runtime where
  "queue_runtime = sample_runtime []"

text \<open>Five times by name: the boundary, an observation, the enqueue, the merge and the expiry.\<close>

definition example_times :: "(string \<times> stamp) list" where
  "example_times = [(''b'', Aware 0), (''o'', Aware 5), (''e'', Aware 10), (''m'', Aware 20), (''x'', Aware 1000010)]"

definition example_queue :: queue_env where
  "example_queue = \<lparr>qe_sources = [(''scanner'', some_digest)], qe_authorities = [], qe_finding = Some (\<lambda>_ _ _ _. True),
     qe_inventory = Some (\<lambda>_ _ _ _. True), qe_resolution = None, qe_parse = map_of example_times, qe_shift = (\<lambda>_ _. ''x''),
     qe_clock = Some (Aware 10), qe_upper = id\<rparr>"

definition example_finding :: queue_finding where
  "example_finding = \<lparr>qf_id = ''F1'', qf_source = ''scanner'', qf_subject = some_sha, qf_severity = ''LOW'', qf_credible = True,
     qf_blocking = True, qf_normalized = ''o'', qf_authority = some_digest, qf_proof = some_digest, qf_disposition = ''OPEN'',
     qf_resolution = [], qf_resolver = [], qf_resolver_authority = [], qf_resolution_proof = []\<rparr>"

definition example_inventory :: finding_inventory where
  "example_inventory = \<lparr>iv_source = ''scanner'', iv_subject = some_sha,
     iv_digests = [canonical_digest queue_runtime (finding_authentication_payload example_finding)],
     iv_watermark = some_digest, iv_observed = ''o'', iv_expires = ''x'', iv_authority = some_digest, iv_proof = some_digest\<rparr>"

definition bare_snapshot :: merge_snapshot where
  "bare_snapshot = \<lparr>sn_head = some_sha, sn_base = some_sha, sn_tree = some_digest, sn_rules = some_digest, sn_architecture = some_digest,
     sn_toolchain = some_digest, sn_environment = some_digest, sn_security = some_digest, sn_verification = some_digest,
     sn_evidence = some_digest, sn_authority = some_digest, sn_watermark = some_digest, sn_pending = 0, sn_names = [''tests''],
     sn_checks = [], sn_reviews = [\<lparr>fv_id = ''R1'', fv_actor = ''reviewer'', fv_subject = some_sha, fv_state = ''APPROVED'',
       fv_submitted = ''o'', fv_eligible = True\<rparr>],
     sn_findings = [example_finding], sn_inventories = [example_inventory], sn_queue = True, sn_bypass = False\<rparr>"

definition example_snapshot :: merge_snapshot where
  "example_snapshot = bare_snapshot\<lparr>sn_checks := [\<lparr>rk_name = ''tests'', rk_subject = some_sha,
     rk_input = exact_input_digest queue_runtime bare_snapshot, rk_status = ''SUCCESS'', rk_observed = ''o'', rk_event = ''pull_request'',
     rk_enqueue = []\<rparr>]\<rparr>"

definition example_governed :: governed_policy where
  "example_governed = \<lparr>gm_rules = some_digest, gm_checks = [''tests'']\<rparr>"

definition example_token :: "queue_error + enqueue_token" where
  "example_token = enqueue queue_runtime example_queue example_governed example_snapshot ''issuer'' some_digest (\<lambda>_ _ _. some_digest)
     ''e'' ''b'' 1"

lemma some_digest_ok [simp]: "is_digest_str some_digest" "some_digest \<noteq> []"
  by (simp_all add: is_digest_str_def some_digest_def starts_with_def is_hex_lower_def list_all_iff)

lemma some_sha_ok [simp]: "is_git_sha some_sha"
  by (simp add: is_git_sha_def some_sha_def is_hex_lower_def list_all_iff)

lemma example_queue_times [simp]:
  "queue_time example_queue ''b'' = Some 0" "queue_time example_queue ''o'' = Some 5" "queue_time example_queue ''e'' = Some 10"
  "queue_time example_queue ''m'' = Some 20" "queue_time example_queue ''x'' = Some 1000010"
  by (simp_all add: queue_time_def example_queue_def example_times_def)

lemma example_input: "exact_input example_snapshot = exact_input bare_snapshot"
  by (simp add: exact_input_def example_snapshot_def)

lemma example_inventories:
  assumes "c = Some (Aware n)" "5 \<le> n" "n \<le> 1000010" "as_of \<in> {''e'', ''m''}"
  shows "inventory_reasons queue_runtime (example_queue\<lparr>qe_clock := c\<rparr>) example_snapshot ''b'' as_of = []"
proof -
  have digests: "expected_digests queue_runtime example_snapshot ''scanner'' = iv_digests example_inventory"
    by (simp add: expected_digests_def example_snapshot_def bare_snapshot_def example_finding_def example_inventory_def)
  have "inventory_fresh queue_runtime (example_queue\<lparr>qe_clock := c\<rparr>) example_snapshot ''b'' as_of ''scanner'' some_digest
      (Some example_inventory) = Some (5, 1000010)"
    using assms(4) unfolding inventory_fresh_def digests
    by (auto simp: renewed_same example_inventory_def example_snapshot_def bare_snapshot_def five_minutes_def accepted_by_def)
      (simp_all add: example_queue_def)
  moreover have "sn_inventories example_snapshot = [example_inventory]" "iv_source example_inventory = ''scanner''"
    by (simp_all add: example_snapshot_def bare_snapshot_def example_inventory_def)
  moreover have "qe_sources (example_queue\<lparr>qe_clock := c\<rparr>) = [(''scanner'', some_digest)]" by (simp add: example_queue_def)
  ultimately show ?thesis using assms(1-3) by (simp add: inventory_reasons_def last_named_def Let_def)
qed

lemma example_passes: "passes queue_runtime example_queue example_governed example_snapshot ''b'' ''e'' 1 False [] []"
proof -
  have "example_queue\<lparr>qe_clock := Some (Aware 10)\<rparr> = example_queue" by (simp add: example_queue_def)
  then have "inventory_reasons queue_runtime example_queue example_snapshot ''b'' ''e'' = []"
    using example_inventories [of "Some (Aware 10)" 10 "''e''"] by simp
  moreover have "content_reasons example_governed example_snapshot = []"
    by (simp add: content_reasons_def snapshot_digests_def example_governed_def example_snapshot_def bare_snapshot_def)
  moreover have "finding_authenticated example_queue example_finding" "\<not> finding_blocks example_queue example_finding"
    by (simp_all add: finding_authenticated_def finding_blocks_def example_finding_def example_queue_def ev_def accepted_by_def)
  then have "finding_reasons example_queue example_snapshot = []"
    by (simp add: finding_reasons_none example_snapshot_def bare_snapshot_def formal_def)
  moreover have "fresh_approvals example_queue example_snapshot 0 ''e'' (sn_reviews example_snapshot) = Inr (sn_reviews example_snapshot)"
    by (simp add: example_snapshot_def bare_snapshot_def formal_def)
  moreover have "\<exists>k. last_named rk_name (sn_checks example_snapshot) ''tests'' = Some k \<and> check_passes queue_runtime example_queue example_snapshot
      \<lparr>cw_now = 10, cw_timeout = 1, cw_linearizing = False, cw_digest = [], cw_enqueued = []\<rparr> k"
    by (simp add: last_named_def check_passes_def exact_input_digest_def example_input)
      (simp add: example_snapshot_def bare_snapshot_def exact_input_digest_def)
  ultimately show ?thesis
    by (simp add: passes_def example_governed_def) (simp add: example_snapshot_def bare_snapshot_def)
qed

lemma example_enqueued: "\<exists>t. example_token = Inr t"
  using example_passes [folded validate_snapshot_none] by (simp add: example_token_def enqueue_def Let_def)

lemmas example_token_issued = example_token_def [symmetric, THEN trans]

theorem queued_request_merges_witness:
  "\<exists>t. example_token = Inr t \<and> linearize_merge queue_runtime (example_queue\<lparr>qe_clock := Some (Aware 15)\<rparr>) example_governed
     [(''issuer'', some_digest)] (\<lambda>_ _ _ proof'. proof' = some_digest) t (example_snapshot\<lparr>sn_inventories := [example_inventory]\<rparr>) some_sha
     (sn_tree example_snapshot) ''m'' True
   = \<lparr>qd_admitted = True, qd_outcome = ''PR_MERGED'', qd_rollout = True, qd_reasons = [], qd_incident = False\<rparr>"
proof -
  obtain t where t: "example_token = Inr t" using example_enqueued by blast
  have same: "example_snapshot\<lparr>sn_inventories := [example_inventory]\<rparr> = example_snapshot" by (simp add: example_snapshot_def bare_snapshot_def)
  have shift: "queue_time example_queue (qe_shift example_queue ''e'' 1) = Some (10 + 1 * 1000000)"
    using example_queue_times(5) by (simp add: example_queue_def)
  have "linearize_merge queue_runtime (example_queue\<lparr>qe_clock := Some (Aware 15)\<rparr>) example_governed
     [(''issuer'', some_digest)] (\<lambda>_ _ _ proof'. proof' = some_digest) t (example_snapshot\<lparr>sn_inventories := [example_inventory]\<rparr>) some_sha
     (sn_tree example_snapshot) ''m'' True
   = \<lparr>qd_admitted = True, qd_outcome = ''PR_MERGED'', qd_rollout = True, qd_reasons = [], qd_incident = False\<rparr>"
    by (rule queued_request_merges [OF example_token_issued [OF t] example_queue_times(3) shift example_queue_times(4)])
      (simp_all add: same example_inventories ev_def, simp add: example_snapshot_def bare_snapshot_def)
  with t show ?thesis by blast
qed

lemma example_merges:
  assumes "example_token = Inr t"
  shows "qd_admitted (linearize_merge queue_runtime (example_queue\<lparr>qe_clock := Some (Aware 15)\<rparr>) example_governed
     [(''issuer'', some_digest)] (\<lambda>_ _ _ proof'. proof' = some_digest) t example_snapshot some_sha some_digest ''m'' True)"
proof -
  have same: "example_snapshot\<lparr>sn_inventories := [example_inventory]\<rparr> = example_snapshot" "sn_tree example_snapshot = some_digest"
    by (simp_all add: example_snapshot_def bare_snapshot_def)
  have shift: "queue_time example_queue (qe_shift example_queue ''e'' 1) = Some (10 + 1 * 1000000)"
    using example_queue_times(5) by (simp add: example_queue_def)
  have none: "list_all (\<lambda>k. rk_event k \<noteq> ''merge_group'') (sn_checks example_snapshot)" by (simp add: example_snapshot_def)
  have fresh: "inventory_reasons queue_runtime (example_queue\<lparr>qe_clock := Some (Aware 15)\<rparr>)
      (example_snapshot\<lparr>sn_inventories := [example_inventory]\<rparr>) ''b'' ''m'' = []"
    unfolding same by (rule example_inventories [where n = 15]) simp_all
  show ?thesis
    using queued_admitted [OF example_token_issued [OF assms] example_queue_times(3) shift example_queue_times(4) _ _ none fresh, of
        "[(''issuer'', some_digest)]" "\<lambda>_ _ _ proof'. proof' = some_digest" some_sha]
    by (simp add: same ev_def)
qed

theorem merged_is_reviewed_witness:
  "\<exists>t. example_token = Inr t
     \<and> reviewed_content example_snapshot = [some_sha, some_sha, some_digest, some_digest, some_digest, some_digest, some_digest, some_digest,
         some_digest, some_digest]
     \<and> token_authentic [(''issuer'', some_digest)] (\<lambda>_ _ _ proof'. proof' = some_digest) t
     \<and> (\<exists>r \<in> set (sn_reviews example_snapshot). approves (example_queue\<lparr>qe_clock := Some (Aware 15)\<rparr>) example_snapshot ''b'' ''m'' r)
     \<and> inventoried queue_runtime (example_queue\<lparr>qe_clock := Some (Aware 15)\<rparr>) example_snapshot ''b'' ''m''"
proof -
  obtain t where t: "example_token = Inr t" using example_enqueued by blast
  have "collision_free (canonical_digest queue_runtime) {exact_input example_snapshot, exact_input example_snapshot}"
    by (simp add: collision_free_def)
  note reviewed = merged_is_reviewed [OF example_token_issued [OF t] this example_merges [OF t]]
  have "reviewed_content example_snapshot = [some_sha, some_sha, some_digest, some_digest, some_digest, some_digest, some_digest, some_digest,
         some_digest, some_digest]"
    by (simp add: reviewed_content_def example_snapshot_def bare_snapshot_def)
  with t reviewed show ?thesis by blast
qed

end
