(* ===== verification/Spec2Isabelle.thy ===== *)
theory Spec2Isabelle
  imports Plan_Compiler Ledger Authoring Behavior_Drift Evidence Assurance Governance Red_Gate Architecture Retention
    Lifecycle_Replay Merge_Admission
begin

text \<open>
  Verification of the core of \<^verbatim>\<open>pmpe\<close>, the Python package under \<^verbatim>\<open>src/src/pmpe\<close> that takes an
  approved product contract to a release-ready candidate and keeps evidence of every step.

  \<^bold>\<open>The parts and how they meet.\<close> A contract is read strictly (\<^verbatim>\<open>contracts/canonical.py\<close>),
  drafted and approved (\<^verbatim>\<open>contracts/authoring.py\<close>), and its acceptance criteria are compiled to
  a plan (\<^verbatim>\<open>contracts/acceptance.py\<close>). The engine (\<^verbatim>\<open>barebones.py\<close>) prepares a workspace, lets a
  model provider change it, verifies it against the plan and records every step in a
  hash-chained ledger (\<^verbatim>\<open>evidence/ledger.py\<close>). Around it, reviewers file findings that are
  reconciled, fixed within a granted scope and verified (\<^verbatim>\<open>assurance/\<close>), product changes are
  requested (\<^verbatim>\<open>contracts/change_request.py\<close>), work is routed to agents and merges are decided
  (\<^verbatim>\<open>agents/\<close>, \<^verbatim>\<open>policies/\<close>, \<^verbatim>\<open>audit/traceability.py\<close>, \<^verbatim>\<open>review/merge_gate.py\<close>), and a stage
  admits an artifact for the next by a keyed receipt (\<^verbatim>\<open>admission/receipts.py\<close>). Commands run
  in a sandbox on a copy of one commit (\<^verbatim>\<open>execution/kernel.py\<close>), and a test that must fail
  before the work starts is judged there (\<^verbatim>\<open>evidence/gate.py\<close>). The older workflow reads a
  specification (\<^verbatim>\<open>ingestion/\<close>), validates it (\<^verbatim>\<open>validation/validator.py\<close>), plans it
  (\<^verbatim>\<open>planning/planner.py\<close>) and decides its architecture (\<^verbatim>\<open>architecture/agent.py\<close>), keeping its
  progress in a state file (\<^verbatim>\<open>orchestration/state.py\<close>) that the retention controller
  (\<^verbatim>\<open>privacy/retention.py\<close>) deletes when its time is over. Above them the lifecycle control
  plane (\<^verbatim>\<open>orchestration/lifecycle.py\<close>) takes a delivery from the contract to production: every
  change of state follows a rule of a policy, with evidence that trusted parties attest, and is
  an event of one ledger. The merge itself is admitted by a queue
  (\<^verbatim>\<open>engineering/merge_admission.py\<close>).

  \<^bold>\<open>The theories.\<close>

  \<^item> \<^verbatim>\<open>Prelude\<close>: JSON values, Python's string and dictionary operations, the error sum and its
    \<^verbatim>\<open>bindr\<close>, sorted sets, canonical forms and what is assumed of a digest.
  \<^item> \<^verbatim>\<open>Canonical\<close>: \<^verbatim>\<open>canonical.py\<close>. The record \<^verbatim>\<open>runtime\<close> holds the third-party parts:
    \<^verbatim>\<open>rfc8785.dumps\<close>, the JSON and YAML parsers, SHA-256 as a number, regular expression search,
    \<^verbatim>\<open>compile\<close>, and the printed form of floats and containers. \<^verbatim>\<open>strict_loads\<close> with its hooks
    and its Unicode, depth and node limits is defined on top; \<^verbatim>\<open>admit_unicode\<close> is shown to
    decide a declarative \<^verbatim>\<open>admissible\<close>.
  \<^item> \<^verbatim>\<open>Acceptance\<close>, \<^verbatim>\<open>Contradiction\<close>, \<^verbatim>\<open>Plan_Compiler\<close>: \<^verbatim>\<open>acceptance.py\<close>. Assertions, their
    compile-time and run-time evaluation, the contradiction check, the three forms of criteria,
    coverage and the sealed plan. Shown: a reported contradiction is one (no document passes),
    the plan covers the requirements, its criteria can be executed, its digest fixes it, and
    the two evaluators agree.
  \<^item> \<^verbatim>\<open>Ledger\<close>: \<^verbatim>\<open>evidence/ledger.py\<close>. The state is the event file and the blob directory. The
    locales \<^verbatim>\<open>content_store\<close> and \<^verbatim>\<open>hash_chain\<close> state what a blob store and a chain promise
    and are interpreted on the code's operations.
  \<^item> \<^verbatim>\<open>Authoring\<close>: \<^verbatim>\<open>authoring.py\<close> and the loader of \<^verbatim>\<open>contracts/model.py\<close>: drafts, approval
    receipts and their verification.
  \<^item> \<^verbatim>\<open>Workspace\<close>, \<^verbatim>\<open>Engine_Defs\<close>, \<^verbatim>\<open>Run\<close>: \<^verbatim>\<open>barebones.py\<close>. Files and their safe paths, the
    checks of one criterion, the provider call, and \<^verbatim>\<open>run_to_release_ready\<close> with all its early
    returns. The record \<^verbatim>\<open>world\<close> holds what is outside: provider, sandbox, quality checkers,
    repository and clock. The calls on the ledger are recorded in order in \<^verbatim>\<open>en_trace\<close>.
  \<^item> \<^verbatim>\<open>Run_Protocol\<close>: an automaton over ledger calls, as inductive relations, and the refinement
    that every run follows it. \<^verbatim>\<open>Run_Safety\<close> and \<^verbatim>\<open>Release\<close>: frames, and what a RELEASE_READY
    result implies; protected tests, budget, binding of responses, and that a passing candidate
    is released. \<^verbatim>\<open>Evidence\<close>: the run's calls carried out on the ledger of \<^verbatim>\<open>Ledger\<close>.
  \<^item> \<^verbatim>\<open>Behavior_Drift\<close>: \<^verbatim>\<open>evals/barebones_drift.py\<close>.
  \<^item> \<^verbatim>\<open>Assurance\<close>: the findings store, the fixer gate, reconciliation, the read-only guard and
    the change requests. The store's life is the inductive relation \<^verbatim>\<open>store_step\<close>; the locale
    \<^verbatim>\<open>numbering\<close> is the naming scheme both stores use.
  \<^item> \<^verbatim>\<open>Governance\<close>: the risk policy, traceability, the merge gate, the agent registry with its
    read-only proof, and routing, which is shown to decide the contract \<^verbatim>\<open>minimum_routing\<close>.
  \<^item> \<^verbatim>\<open>Admission\<close>: receipts, with the publication race and replay.
  \<^item> \<^verbatim>\<open>Kernel\<close>, \<^verbatim>\<open>Red_Gate\<close>: the snapshot of a commit, the sandbox's command line and path
    resolution, the evidence of an execution, the parsers of test output, and the gate that
    accepts a red test only when it fails for the stated reason on the stated commit.
  \<^item> \<^verbatim>\<open>Specification\<close>, \<^verbatim>\<open>Validator\<close>, \<^verbatim>\<open>Planning\<close>, \<^verbatim>\<open>Architecture\<close>: the schema validator, shown to
    decide the inductive relation \<^verbatim>\<open>conforms\<close>; the normalizer and its numbering; the requirement
    checks, shown to decide \<^verbatim>\<open>well_formed_spec\<close>; the plan, always in topological order and
    covering the requirements; decisions, escalations and the trace they leave.
  \<^item> \<^verbatim>\<open>Run_State\<close>, \<^verbatim>\<open>Retention\<close>: the step machine with its saved state, and the sweep that
    deletes exactly the runs whose authenticated retention is over, also for the state files
    that \<^verbatim>\<open>Run_State\<close> writes.
  \<^item> \<^verbatim>\<open>Lifecycle_Policy\<close>: the states and the transition table of the lifecycle, with the two
    current policies; no rule is listed twice, and a rule goes up at most one stage.
    \<^verbatim>\<open>Lifecycle\<close>: the control plane, its directory and all its operations (transitions,
    resumption, mutations and their results, observations, budget extensions), composed to the
    inductive relations \<^verbatim>\<open>step\<close> and \<^verbatim>\<open>reachable\<close>. \<^verbatim>\<open>Lifecycle_Safety\<close>: the three effects a
    step can have, and the invariants by rule induction. \<^verbatim>\<open>Lifecycle_Gates\<close>: what an applied
    transition says of its evidence; the order of the stages, the approval of production, and
    that a result is used once. \<^verbatim>\<open>Lifecycle_Writers\<close>: several planes on one directory; the
    locale \<^verbatim>\<open>cas_log\<close> states what the compare-and-swap of an append promises, and under any
    schedule no event is lost. \<^verbatim>\<open>Lifecycle_Replay\<close>: \<^verbatim>\<open>load\<close>, which gives the plane of any
    history back.
  \<^item> \<^verbatim>\<open>Merge_Admission\<close>: \<^verbatim>\<open>engineering/merge_admission.py\<close>, the native merge queue whose decision
    the lifecycle takes as evidence of a merge. A token binds the enqueued snapshot; only what was
    enqueued is merged, and what is queued and stays fresh can be merged.

  \<^bold>\<open>State and errors.\<close> A Python object with state is a record passed through its operations; a
  directory is a map from names to content. An exception is the left summand of the result,
  paired with the state it leaves behind where it leaves one. A dictionary is an association
  list in insertion order. Python's integers are \<^typ>\<open>int\<close>; a float is the rational it denotes.

  \<^bold>\<open>Loops and fuel.\<close> The attempt loop of the engine runs over the natural number
  \<^verbatim>\<open>max_attempts\<close>, as the code's \<^verbatim>\<open>range\<close> does, so it needs no further fuel. The search for a
  free item number ends because finitely many names are taken, which is its termination proof.
  The other functions are total with a length or size measure.

  \<^bold>\<open>Hypotheses.\<close> The properties name what they rely on: that the canonical printer depends on
  the canonical form only (\<^verbatim>\<open>canonical_fn\<close>), that the values at hand do not collide under
  SHA-256 (\<^verbatim>\<open>collision_free\<close>, or injectivity on the blobs of one run), and that a printed value
  reads back (\<^verbatim>\<open>reads_back\<close>, \<^verbatim>\<open>reads_receipt\<close>, \<^verbatim>\<open>reads_text\<close>). Each is satisfied by a concrete runtime in a
  witness.

  \<^bold>\<open>Not modelled.\<close> The processes behind the sandbox, Git, network and clocks are parameters of
  the model or left out, as are failing disk operations; white space is ASCII when strings are
  stripped. Of the lifecycle, the migration of legacy runs, the version-one schemas and
  the reader of the metadata file are left out. Of the rest of the package nothing is modelled yet: the step
  bodies (\<^verbatim>\<open>orchestration/\<close>), contract validation and intake, the repository scanner, the
  engineering store (\<^verbatim>\<open>engineering/atomic.py\<close>), test compilation, the quality scanners, the personal
  workers, and the command line. The plan takes them in that order.
\<close>

end
